(* ===== verification/Prelude.thy ===== *)
theory Prelude
  imports Main "HOL-Library.Word" "HOL-Library.AList" "HOL-Library.List_Lexorder"
    "HOL-Library.Log_Nat" "HOL-Library.Monad_Syntax" "HOL-Library.Multiset"
begin

text \<open>
  What every component shares.

  JavaScript strings are lists of 16-bit code units (\<open>jsstring\<close>), which is what the language
  indexes, compares and sorts by; \<open>jstr\<close> turns an ASCII literal of the source into one.
  JavaScript numbers, where the program computes with them, are the integer-valued doubles:
  \<open>fl\<close> rounds an exact integer to 53 significant bits, half to even, and the arithmetic of the
  program is \<open>jadd\<close>, \<open>jsub\<close>, \<open>jmul\<close> followed by that rounding.

  A thrown \<open>Error\<close> that nothing inside the modelled function catches is the value \<open>None\<close> of an
  option; a failure the code returns as a value is the \<open>Inl\<close> side of a sum.
\<close>

named_theorems js_eval \<open>equations that evaluate the string and number primitives\<close>

named_theorems guard_simps \<open>unfolding of the guard combinators of the validators\<close>

section \<open>Guards\<close>

definition bindE :: "'e + 'a \<Rightarrow> ('a \<Rightarrow> 'e + 'b) \<Rightarrow> 'e + 'b" where
  "bindE r k = (case r of Inl e \<Rightarrow> Inl e | Inr a \<Rightarrow> k a)"

definition failIf :: "'e option \<Rightarrow> 'e + 'a \<Rightarrow> 'e + 'a" where
  "failIf e k = (case e of Some c \<Rightarrow> Inl c | None \<Rightarrow> k)"

definition needSome :: "'e \<Rightarrow> 'a option \<Rightarrow> ('a \<Rightarrow> 'e + 'b) \<Rightarrow> 'e + 'b" where
  "needSome e v k = (case v of None \<Rightarrow> Inl e | Some a \<Rightarrow> k a)"

definition orElse :: "'a option \<Rightarrow> 'a option \<Rightarrow> 'a option" where
  "orElse a b = (case a of Some x \<Rightarrow> Some x | None \<Rightarrow> b)"

lemma bindE_simps [simp, guard_simps]:
  "bindE (Inl e) k = Inl e"
  "bindE (Inr a) k = k a"
  by (simp_all add: bindE_def)

lemma bindE_Inr_iff: "bindE r k = Inr b \<longleftrightarrow> (\<exists>a. r = Inr a \<and> k a = Inr b)"
  by (cases r) auto

lemma failIf_simps [simp, guard_simps]:
  "failIf (Some c) k = Inl c"
  "failIf None k = k"
  by (simp_all add: failIf_def)

lemma failIf_Inr_iff: "failIf e k = Inr b \<longleftrightarrow> e = None \<and> k = Inr b"
  by (cases e) auto

lemma needSome_simps [simp, guard_simps]:
  "needSome e None k = Inl e"
  "needSome e (Some a) k = k a"
  by (simp_all add: needSome_def)

lemma needSome_Inr_iff: "needSome e v k = Inr b \<longleftrightarrow> (\<exists>a. v = Some a \<and> k a = Inr b)"
  by (cases v) auto

lemma orElse_simps [simp]:
  "orElse (Some x) b = Some x"
  "orElse None b = b"
  by (simp_all add: orElse_def)

lemma orElse_eq_None_iff: "orElse a b = None \<longleftrightarrow> a = None \<and> b = None"
  by (cases a) auto

lemmas guard_Inr = bindE_Inr_iff failIf_Inr_iff needSome_Inr_iff

section \<open>Strings of code units\<close>

type_synonym code_unit = "16 word"
type_synonym jsstring = "code_unit list"

definition unit_of_char :: "char \<Rightarrow> code_unit" where
  "unit_of_char c = word_of_nat (of_char c)"

definition jstr :: "string \<Rightarrow> jsstring" where
  "jstr s = map unit_of_char s"

lemma unat_unit_of_char: "unat (unit_of_char c) = of_char c"
proof -
  have "(of_char c :: nat) < 65536"
    using nat_of_char_less_256 [of c] by linarith
  then show ?thesis
    by (simp add: unit_of_char_def unat_of_nat take_bit_eq_mod)
qed

lemma inj_unit_of_char: "inj unit_of_char"
proof (rule injI)
  fix c d assume "unit_of_char c = unit_of_char d"
  then have "(of_char c :: nat) = of_char d"
    by (metis unat_unit_of_char)
  then show "c = d" by simp
qed

lemma unit_of_char_eq_iff [simp]: "unit_of_char c = unit_of_char d \<longleftrightarrow> c = d"
  using inj_unit_of_char by (auto dest: injD)

lemma jstr_eq_iff [simp]: "jstr s = jstr t \<longleftrightarrow> s = t"
  unfolding jstr_def by (simp add: inj_unit_of_char inj_map_eq_map)

lemma jstr_Nil [simp]: "jstr [] = []"
  by (simp add: jstr_def)

lemma jstr_eq_Nil_iff [simp]: "jstr s = [] \<longleftrightarrow> s = []" "[] = jstr s \<longleftrightarrow> s = []"
  by (simp_all add: jstr_def)

lemma jstr_append: "jstr (s @ t) = jstr s @ jstr t"
  by (simp add: jstr_def)

lemma length_jstr [simp]: "length (jstr s) = length s"
  by (simp add: jstr_def)

text \<open>\<open>text.includes(part)\<close> and \<open>text.startsWith(part)\<close>.\<close>

fun jsStartsWith :: "'a list \<Rightarrow> 'a list \<Rightarrow> bool" where
  "jsStartsWith xs [] = True"
| "jsStartsWith [] (p # ps) = False"
| "jsStartsWith (x # xs) (p # ps) = (x = p \<and> jsStartsWith xs ps)"

fun jsIncludes :: "'a list \<Rightarrow> 'a list \<Rightarrow> bool" where
  "jsIncludes [] ps = (ps = [])"
| "jsIncludes (x # xs) ps = (jsStartsWith (x # xs) ps \<or> jsIncludes xs ps)"

lemma jsStartsWith_iff: "jsStartsWith xs ps \<longleftrightarrow> (\<exists>r. xs = ps @ r)"
  by (induction xs ps rule: jsStartsWith.induct) auto

lemma jsIncludes_iff: "jsIncludes xs ps \<longleftrightarrow> (\<exists>a b. xs = a @ ps @ b)"
proof (induction xs)
  case Nil
  then show ?case by simp
next
  case (Cons x xs)
  have "(\<exists>a b. x # xs = a @ ps @ b) \<longleftrightarrow>
      (\<exists>b. x # xs = ps @ b) \<or> (\<exists>a b. xs = a @ ps @ b)"
    by (metis Cons_eq_append_conv append_Cons)
  with Cons show ?case by (simp add: jsStartsWith_iff)
qed

lemma jsIncludes_append: "jsIncludes xs ps \<Longrightarrow> jsIncludes (a @ xs @ b) ps"
  unfolding jsIncludes_iff by (metis append.assoc)

text \<open>\<open>parts.join(separator)\<close>.\<close>

fun joinWith :: "'a list \<Rightarrow> 'a list list \<Rightarrow> 'a list" where
  "joinWith sep [] = []"
| "joinWith sep [t] = t"
| "joinWith sep (t # u # ts) = t @ sep @ joinWith sep (u # ts)"

text \<open>The white space of \<open>trim\<close> and of \<open>\s\<close> in a regular expression.\<close>

definition isJsSpace :: "code_unit \<Rightarrow> bool" where
  "isJsSpace c \<longleftrightarrow> 9 \<le> c \<and> c \<le> 13 \<or> c = 32 \<or> c = 160 \<or> c = 5760 \<or> 8192 \<le> c \<and> c \<le> 8202 \<or>
     c = 8232 \<or> c = 8233 \<or> c = 8239 \<or> c = 8287 \<or> c = 12288 \<or> c = 65279"

definition jsTrim :: "jsstring \<Rightarrow> jsstring" where
  "jsTrim s = rev (dropWhile isJsSpace (rev (dropWhile isJsSpace s)))"

definition isDigit :: "code_unit \<Rightarrow> bool" where
  "isDigit c \<longleftrightarrow> 48 \<le> c \<and> c \<le> 57"

definition isHexDigit :: "code_unit \<Rightarrow> bool" where
  "isHexDigit c \<longleftrightarrow> isDigit c \<or> 97 \<le> c \<and> c \<le> 102 \<or> 65 \<le> c \<and> c \<le> 70"

section \<open>Integer-valued doubles\<close>

definition flNat :: "nat \<Rightarrow> nat" where
  "flNat n =
     (let e = floorlog 2 n - 53; q = n div 2 ^ e; r = n mod 2 ^ e
      in (if 2 * r > 2 ^ e \<or> 2 * r = 2 ^ e \<and> odd q then (q + 1) * 2 ^ e else q * 2 ^ e))"

definition fl :: "int \<Rightarrow> int" where
  "fl x = (if x < 0 then - int (flNat (nat (- x))) else int (flNat (nat x)))"

definition maxSafe :: int where
  "maxSafe = 9007199254740991"

definition isSafeInteger :: "int \<Rightarrow> bool" where
  "isSafeInteger x \<longleftrightarrow> - maxSafe \<le> x \<and> x \<le> maxSafe"

definition jadd :: "int \<Rightarrow> int \<Rightarrow> int" where "jadd a b = fl (a + b)"

definition jsub :: "int \<Rightarrow> int \<Rightarrow> int" where "jsub a b = fl (a - b)"

definition jmul :: "int \<Rightarrow> int \<Rightarrow> int" where "jmul a b = fl (a * b)"

lemma flNat_small:
  assumes "n < 2 ^ 53"
  shows "flNat n = n"
proof -
  have "floorlog 2 n \<le> 53"
    using assms by (simp add: floorlog_le_iff)
  then show ?thesis by (simp add: flNat_def)
qed

lemma flNat_large:
  assumes "2 ^ 53 \<le> n"
  shows "2 ^ 53 \<le> flNat n"
proof -
  define b where "b = floorlog 2 n"
  define e where "e = b - 53"
  from assms have n0: "0 < n" by (metis less_le_trans zero_less_numeral zero_less_power)
  then have lo: "2 ^ (b - 1) \<le> n" unfolding b_def by (intro floorlog_bounds [THEN conjunct1]) auto
  have "53 < b"
    unfolding b_def using assms floorlog_le_iff [of 2 n 53] by auto
  then have b: "b = e + 53" "0 < e" by (simp_all add: e_def)
  have "2 ^ 52 * 2 ^ e = (2::nat) ^ (b - 1)" using b by (simp add: power_add mult.commute)
  then have "2 ^ 52 \<le> n div 2 ^ e"
    using lo by (metis div_le_mono nonzero_mult_div_cancel_right power_not_zero zero_neq_numeral)
  then have "2 ^ 52 * 2 ^ e \<le> (n div 2 ^ e) * 2 ^ e" by (rule mult_le_mono1)
  moreover have "(2::nat) ^ 53 \<le> 2 ^ 52 * 2 ^ e"
  proof -
    have "(2::nat) ^ 1 \<le> 2 ^ e" using b by (intro power_increasing) auto
    then have "(2::nat) ^ 52 * 2 ^ 1 \<le> 2 ^ 52 * 2 ^ e" by (rule mult_le_mono2)
    then show ?thesis by simp
  qed
  ultimately have "2 ^ 53 \<le> (n div 2 ^ e) * 2 ^ e" by linarith
  moreover have "(n div 2 ^ e) * 2 ^ e \<le> flNat n"
    by (auto simp: flNat_def Let_def e_def b_def)
  ultimately show ?thesis by linarith
qed

text \<open>Rounding does not move a safe integer, and moves no other integer into the safe range.\<close>

lemma fl_safe: "isSafeInteger x \<Longrightarrow> fl x = x"
  unfolding isSafeInteger_def maxSafe_def fl_def
  by (auto simp: flNat_small)

lemma fl_unsafe_pos: "maxSafe < x \<Longrightarrow> maxSafe < fl x"
proof -
  assume "maxSafe < x"
  then have "2 ^ 53 \<le> nat x" by (simp add: maxSafe_def)
  from flNat_large [OF this] \<open>maxSafe < x\<close> show ?thesis
    by (simp add: fl_def maxSafe_def)
qed

lemma fl_minus: "fl (- x) = - fl x"
  by (simp add: fl_def flNat_small)

lemma isSafeInteger_fl: "isSafeInteger (fl x) \<longleftrightarrow> isSafeInteger x"
proof (cases "isSafeInteger x")
  case True
  then show ?thesis by (simp add: fl_safe)
next
  case False
  then consider "maxSafe < x" | "maxSafe < - x" by (auto simp: isSafeInteger_def)
  then show ?thesis
    using False fl_unsafe_pos [of x] fl_unsafe_pos [of "- x"]
    by cases (auto simp: isSafeInteger_def fl_minus)
qed

lemma fl_greater_iff:
  assumes "isSafeInteger m"
  shows "m < fl x \<longleftrightarrow> m < x"
proof (cases "isSafeInteger x")
  case True
  then show ?thesis by (simp add: fl_safe)
next
  case False
  then consider "maxSafe < x" | "maxSafe < - x" by (auto simp: isSafeInteger_def)
  then show ?thesis
    using assms fl_unsafe_pos [of x] fl_unsafe_pos [of "- x"]
    by cases (auto simp: isSafeInteger_def fl_minus)
qed

lemma fl_pos: "0 < x \<Longrightarrow> 0 < fl x"
  using fl_greater_iff [of 0 x] by (simp add: isSafeInteger_def maxSafe_def)

lemma fl_nonneg: "0 \<le> x \<Longrightarrow> 0 \<le> fl x"
  using fl_pos [of x] fl_safe [of 0] by (cases "x = 0") (auto simp: isSafeInteger_def maxSafe_def)

end
