(* ===== verification/Json.thy ===== *)
theory Json
  imports Prelude
begin

text \<open>
  \<open>src/shared/json.ts\<close>: the strict JSON parser and the canonical serializer, the ground every
  other component stands on (hashes are taken of canonical texts).

  A parser state \<open>{source, index}\<close> of the code is the suffix of the source from the index on.
  The recursive descent carries a fuel argument, one unit per level of nesting (and one per item
  in the loops); \<open>parseStrictJson\<close> gives it one unit per code unit of the source and one more, and
  \<open>parseStrictJson_never_starves\<close> shows that this is always enough. An object is the list of its own properties in the order
  in which they were created.
\<close>

unbundle bit_operations_syntax

section \<open>Values\<close>

text \<open>
  The numbers a value can hold: minus zero, an integer-valued double, and a double \<open>m / 2 ^ k\<close> with
  a fractional part (which the strict parser never produces, other readers do).
\<close>

datatype jsnum = NegZero | IntNum int | FracNum int nat

datatype json =
    JNull
  | JBool bool
  | JNum jsnum
  | JStr jsstring
  | JArr "json list"
  | JObj "(jsstring \<times> json) list"

type_synonym jsobject = "(jsstring \<times> json) list"

datatype parse_failure_reason = Invalid_json_syntax | Duplicate_json_keys | Invalid_json_number

datatype 'a parse_result =
    ParseOk 'a jsstring
  | ParseFail parse_failure_reason
  | ParseStarved

section \<open>White space, strings, numbers\<close>

fun skipWhitespace :: "jsstring \<Rightarrow> jsstring" where
  "skipWhitespace [] = []"
| "skipWhitespace (c # cs) =
     (if c = 32 \<or> c = 10 \<or> c = 13 \<or> c = 9 then skipWhitespace cs else c # cs)"

definition isEscapeLetter :: "code_unit \<Rightarrow> bool" where
  "isEscapeLetter c \<longleftrightarrow> c \<in> set (jstr [CHR 0x22, CHR 0x5C, CHR ''/'', CHR ''b'', CHR ''f'', CHR ''n'', CHR ''r'', CHR ''t''])"

text \<open>
  The loop of \<open>parseString\<close>: the raw token up to the closing quote, and the rest. \<open>None\<close> is the
  reason \<open>invalid_json_syntax\<close>.
\<close>

fun scanString :: "jsstring \<Rightarrow> jsstring \<Rightarrow> (jsstring \<times> jsstring) option" where
  "scanString raw [] = None"
| "scanString raw (c # cs) =
     (if c = 34 then Some (raw @ [c], cs)
      else if c = 92 then
        (case cs of
           [] \<Rightarrow> None
         | e # es \<Rightarrow>
             if e = 117 then
               (case es of
                  a # b # d # g # rest \<Rightarrow>
                    if isHexDigit a \<and> isHexDigit b \<and> isHexDigit d \<and> isHexDigit g
                    then scanString (raw @ [c, e, a, b, d, g]) rest
                    else None
                | _ \<Rightarrow> None)
             else if isEscapeLetter e then scanString (raw @ [c, e]) es
             else None)
      else if c < 32 then None
      else scanString (raw @ [c]) cs)"

text \<open>\<open>JSON.parse\<close> on a string token: the escapes are replaced by the units they stand for.\<close>

definition hexDigitValue :: "code_unit \<Rightarrow> code_unit" where
  "hexDigitValue c = (if isDigit c then c - 48 else if 97 \<le> c then c - 87 else c - 55)"

definition escapeValue :: "code_unit \<Rightarrow> code_unit option" where
  "escapeValue e =
     (if e = 34 then Some 34 else if e = 92 then Some 92 else if e = 47 then Some 47
      else if e = 98 then Some 8 else if e = 102 then Some 12 else if e = 110 then Some 10
      else if e = 114 then Some 13 else if e = 116 then Some 9 else None)"

fun jsonParseStringBody :: "jsstring \<Rightarrow> jsstring option" where
  "jsonParseStringBody [] = None"
| "jsonParseStringBody (c # cs) =
     (if c = 34 then (if cs = [] then Some [] else None)
      else if c = 92 then
        (case cs of
           [] \<Rightarrow> None
         | e # es \<Rightarrow>
             if e = 117 then
               (case es of
                  a # b # d # g # rest \<Rightarrow>
                    if isHexDigit a \<and> isHexDigit b \<and> isHexDigit d \<and> isHexDigit g
                    then map_option (\<lambda>t. (hexDigitValue a * 4096 + hexDigitValue b * 256 +
                           hexDigitValue d * 16 + hexDigitValue g) # t) (jsonParseStringBody rest)
                    else None
                | _ \<Rightarrow> None)
             else (case escapeValue e of
                     None \<Rightarrow> None
                   | Some v \<Rightarrow> map_option (\<lambda>t. v # t) (jsonParseStringBody es)))
      else if c < 32 then None
      else map_option (\<lambda>t. c # t) (jsonParseStringBody cs))"

definition jsonParseString :: "jsstring \<Rightarrow> jsstring option" where
  "jsonParseString token =
     (case token of [] \<Rightarrow> None | q # body \<Rightarrow> if q = 34 then jsonParseStringBody body else None)"

definition parseString :: "jsstring \<Rightarrow> jsstring parse_result" where
  "parseString s =
     (case s of
        [] \<Rightarrow> ParseFail Invalid_json_syntax
      | q # cs \<Rightarrow>
          if q \<noteq> 34 then ParseFail Invalid_json_syntax
          else (case scanString [q] cs of
                  None \<Rightarrow> ParseFail Invalid_json_syntax
                | Some (rawToken, rest) \<Rightarrow>
                    (case jsonParseString rawToken of
                       None \<Rightarrow> ParseFail Invalid_json_syntax
                     | Some t \<Rightarrow> ParseOk t rest)))"

text \<open>
  The token of the regular expression \<open>^-?(0|[1-9]\d*)\<close>: whether it has the sign, its digits and
  the rest.
\<close>

definition matchNumber :: "jsstring \<Rightarrow> (bool \<times> jsstring \<times> jsstring) option" where
  "matchNumber s =
     (let neg = (case s of c # _ \<Rightarrow> c = 45 | [] \<Rightarrow> False);
          t = (if neg then tl s else s)
      in (case t of
            [] \<Rightarrow> None
          | c # cs \<Rightarrow>
              if c = 48 then Some (neg, [c], cs)
              else if isDigit c then Some (neg, c # takeWhile isDigit cs, dropWhile isDigit cs)
              else None))"

definition digitsValue :: "jsstring \<Rightarrow> nat" where
  "digitsValue ds = foldl (\<lambda>n d. 10 * n + unat (d - 48)) 0 ds"

text \<open>\<open>Number(token)\<close>, and the check that it is a safe integer.\<close>

definition numberOfToken :: "bool \<Rightarrow> jsstring \<Rightarrow> jsnum" where
  "numberOfToken neg ds =
     (let n = int (digitsValue ds)
      in if neg \<and> n = 0 then NegZero else IntNum (fl (if neg then - n else n)))"

fun safeNumber :: "jsnum \<Rightarrow> bool" where
  "safeNumber NegZero = True"
| "safeNumber (IntNum n) = isSafeInteger n"
| "safeNumber (FracNum m k) = False"

definition parseNumber :: "jsstring \<Rightarrow> json parse_result" where
  "parseNumber s =
     (case matchNumber s of
        None \<Rightarrow> ParseFail Invalid_json_syntax
      | Some (neg, ds, rest) \<Rightarrow>
          if (case rest of c # _ \<Rightarrow> c = 46 \<or> c = 101 \<or> c = 69 | [] \<Rightarrow> False)
          then ParseFail Invalid_json_number
          else if \<not> safeNumber (numberOfToken neg ds) then ParseFail Invalid_json_number
          else ParseOk (JNum (numberOfToken neg ds)) rest)"

section \<open>The recursive descent\<close>

text \<open>
  \<open>pv\<close> is the parser of a nested value. \<open>parseItems\<close> is the loop of \<open>parseArray\<close> with the items
  read so far, \<open>parseMembers\<close> the loop of \<open>parseObject\<close> with the properties read so far (whose
  keys are \<open>seenKeys\<close>); each round spends a unit of fuel and at least one code unit.
\<close>

primrec parseItems ::
  "nat \<Rightarrow> (jsstring \<Rightarrow> json parse_result) \<Rightarrow> json list \<Rightarrow> jsstring \<Rightarrow> json parse_result" where
  "parseItems 0 pv acc s = ParseStarved"
| "parseItems (Suc n) pv acc s =
     (if s = [] then ParseFail Invalid_json_syntax
      else (case pv s of
         ParseStarved \<Rightarrow> ParseStarved
       | ParseFail r \<Rightarrow> ParseFail r
       | ParseOk v rest \<Rightarrow>
           (case skipWhitespace rest of
              [] \<Rightarrow> ParseFail Invalid_json_syntax
            | c # cs \<Rightarrow>
                if c = 93 then ParseOk (JArr (acc @ [v])) cs
                else if c \<noteq> 44 then ParseFail Invalid_json_syntax
                else parseItems n pv (acc @ [v]) (skipWhitespace cs))))"

primrec parseMembers ::
  "nat \<Rightarrow> (jsstring \<Rightarrow> json parse_result) \<Rightarrow> jsobject \<Rightarrow> jsstring \<Rightarrow> json parse_result" where
  "parseMembers 0 pv acc s = ParseStarved"
| "parseMembers (Suc n) pv acc s =
     (if s = [] then ParseFail Invalid_json_syntax
      else (case parseString s of
         ParseStarved \<Rightarrow> ParseStarved
       | ParseFail r \<Rightarrow> ParseFail r
       | ParseOk k rest \<Rightarrow>
           if k \<in> set (map fst acc) then ParseFail Duplicate_json_keys
           else (case skipWhitespace rest of
              [] \<Rightarrow> ParseFail Invalid_json_syntax
            | c # cs \<Rightarrow>
                if c \<noteq> 58 then ParseFail Invalid_json_syntax
                else (case pv cs of
                   ParseStarved \<Rightarrow> ParseStarved
                 | ParseFail r \<Rightarrow> ParseFail r
                 | ParseOk v rest2 \<Rightarrow>
                     (case skipWhitespace rest2 of
                        [] \<Rightarrow> ParseFail Invalid_json_syntax
                      | d # ds \<Rightarrow>
                          if d = 125 then ParseOk (JObj (acc @ [(k, v)])) ds
                          else if d \<noteq> 44 then ParseFail Invalid_json_syntax
                          else parseMembers n pv (acc @ [(k, v)]) (skipWhitespace ds))))))"

definition parseArray ::
  "(jsstring \<Rightarrow> json parse_result) \<Rightarrow> jsstring \<Rightarrow> json parse_result" where
  "parseArray pv s =
     (let t = skipWhitespace (tl s)
      in if t \<noteq> [] \<and> hd t = 93 then ParseOk (JArr []) (tl t)
         else parseItems (length s) pv [] t)"

definition parseObject ::
  "(jsstring \<Rightarrow> json parse_result) \<Rightarrow> jsstring \<Rightarrow> json parse_result" where
  "parseObject pv s =
     (let t = skipWhitespace (tl s)
      in if t \<noteq> [] \<and> hd t = 125 then ParseOk (JObj []) (tl t)
         else parseMembers (length s) pv [] t)"

primrec parseValue :: "nat \<Rightarrow> jsstring \<Rightarrow> json parse_result" where
  "parseValue 0 s = ParseStarved"
| "parseValue (Suc n) s =
     (case skipWhitespace s of
        [] \<Rightarrow> ParseFail Invalid_json_syntax
      | c # cs \<Rightarrow>
          if c = 123 then parseObject (parseValue n) (c # cs)
          else if c = 91 then parseArray (parseValue n) (c # cs)
          else if c = 34 then
            (case parseString (c # cs) of
               ParseOk t rest \<Rightarrow> ParseOk (JStr t) rest
             | ParseFail r \<Rightarrow> ParseFail r
             | ParseStarved \<Rightarrow> ParseStarved)
          else if c = 45 \<or> isDigit c then parseNumber (c # cs)
          else if jsStartsWith (c # cs) (jstr ''true'') then ParseOk (JBool True) (drop 4 (c # cs))
          else if jsStartsWith (c # cs) (jstr ''false'') then ParseOk (JBool False) (drop 5 (c # cs))
          else if jsStartsWith (c # cs) (jstr ''null'') then ParseOk JNull (drop 4 (c # cs))
          else ParseFail Invalid_json_syntax)"

definition parseStrictJson :: "jsstring \<Rightarrow> json parse_result" where
  "parseStrictJson source =
     (case parseValue (length source + 1) source of
        ParseOk v rest \<Rightarrow>
          if skipWhitespace rest = [] then ParseOk v [] else ParseFail Invalid_json_syntax
      | ParseFail r \<Rightarrow> ParseFail r
      | ParseStarved \<Rightarrow> ParseStarved)"

section \<open>Canonical serialization\<close>

text \<open>\<open>JSON.stringify\<close> on a string: short escapes, \<open>\u00xx\<close> for other controls, and the escape of a
  surrogate that has no partner.\<close>

definition hexDigitOf :: "code_unit \<Rightarrow> code_unit" where
  "hexDigitOf d = (if d < 10 then d + 48 else d + 87)"

definition unicodeEscape :: "code_unit \<Rightarrow> jsstring" where
  "unicodeEscape c =
     [92, 117, hexDigitOf (drop_bit 12 c), hexDigitOf (drop_bit 8 c AND 15),
      hexDigitOf (drop_bit 4 c AND 15), hexDigitOf (c AND 15)]"

definition isHighSurrogate :: "code_unit \<Rightarrow> bool" where
  "isHighSurrogate c \<longleftrightarrow> 55296 \<le> c \<and> c \<le> 56319"

definition isLowSurrogate :: "code_unit \<Rightarrow> bool" where
  "isLowSurrogate c \<longleftrightarrow> 56320 \<le> c \<and> c \<le> 57343"

definition quoteUnit :: "code_unit \<Rightarrow> jsstring" where
  "quoteUnit c =
     (if c = 8 then [92, 98] else if c = 9 then [92, 116] else if c = 10 then [92, 110]
      else if c = 12 then [92, 102] else if c = 13 then [92, 114] else if c = 34 then [92, 34]
      else if c = 92 then [92, 92]
      else if c < 32 \<or> isHighSurrogate c \<or> isLowSurrogate c then unicodeEscape c
      else [c])"

fun quoteUnits :: "jsstring \<Rightarrow> jsstring" where
  "quoteUnits [] = []"
| "quoteUnits [c] = quoteUnit c"
| "quoteUnits (c # d # cs) =
     (if isHighSurrogate c \<and> isLowSurrogate d then c # d # quoteUnits cs
      else quoteUnit c @ quoteUnits (d # cs))"

definition jsonStringifyString :: "jsstring \<Rightarrow> jsstring" where
  "jsonStringifyString s = [34] @ quoteUnits s @ [34]"

fun showNat :: "nat \<Rightarrow> jsstring" where
  "showNat n =
     (if n < 10 then [48 + word_of_nat n] else showNat (n div 10) @ [48 + word_of_nat (n mod 10)])"

declare showNat.simps [simp del]

definition showInt :: "int \<Rightarrow> jsstring" where
  "showInt x = (if x < 0 then 45 # showNat (nat (- x)) else showNat (nat x))"

definition serializeNumber :: "jsnum \<Rightarrow> jsstring option" where
  "serializeNumber v =
     (if \<not> safeNumber v then None
      else (case v of NegZero \<Rightarrow> Some (jstr ''0'') | IntNum n \<Rightarrow> Some (showInt n) | FracNum m k \<Rightarrow> None))"

text \<open>
  \<open>canonicalizeJson\<close> sorts the keys and then reads each property; the keys of an object are distinct,
  so this sorts the serialized properties by key.
\<close>

fun canonicalizeJson :: "json \<Rightarrow> jsstring option" where
  "canonicalizeJson JNull = Some (jstr ''null'')"
| "canonicalizeJson (JStr s) = Some (jsonStringifyString s)"
| "canonicalizeJson (JNum v) = serializeNumber v"
| "canonicalizeJson (JBool b) = Some (if b then jstr ''true'' else jstr ''false'')"
| "canonicalizeJson (JArr vs) =
     map_option (\<lambda>items. [91] @ joinWith [44] items @ [93]) (those (map canonicalizeJson vs))"
| "canonicalizeJson (JObj ps) =
     map_option
       (\<lambda>pairs. [123] @
          joinWith [44] (map (\<lambda>(k, t). jsonStringifyString k @ [58] @ t) (sort_key fst pairs)) @
          [125])
       (those (map (\<lambda>(k, v). map_option (\<lambda>t. (k, t)) (canonicalizeJson v)) ps))"

end
