(* ===== verification/JsonFacts.thy ===== *)
theory JsonFacts
  imports Json
begin

text \<open>
  What the parser of \<open>Json\<close> guarantees: it consumes what it accepts, its fuel always suffices, and
  the values it returns are well-formed (safe numbers, no object with a repeated key), which is
  exactly what makes \<open>canonicalizeJson\<close> total on them.
\<close>

declare parseItems.simps [simp del] parseMembers.simps [simp del] parseValue.simps [simp del]

lemma parseValue_OkE:
  assumes "parseValue (Suc n) s = ParseOk v rest"
  obtains
    (object) cs where "skipWhitespace s = 123 # cs" "parseObject (parseValue n) (123 # cs) = ParseOk v rest"
  | (array) cs where "skipWhitespace s = 91 # cs" "parseArray (parseValue n) (91 # cs) = ParseOk v rest"
  | (string) cs t where "skipWhitespace s = 34 # cs" "parseString (34 # cs) = ParseOk t rest" "v = JStr t"
  | (number) "parseNumber (skipWhitespace s) = ParseOk v rest"
  | (keyword) "v \<in> {JBool True, JBool False, JNull}" "length rest < length (skipWhitespace s)"
proof -
  from assms obtain c cs where t: "skipWhitespace s = c # cs"
    by (auto simp: parseValue.simps split: list.splits)
  have "length (drop k (c # cs)) < length (c # cs)" if "0 < k" for k
    using that by (cases k) (simp_all add: less_Suc_eq_le)
  from this [of 4] this [of 5] assms t show ?thesis
    by (auto simp: parseValue.simps split: if_splits parse_result.splits intro: that)
qed

section \<open>Consumption\<close>

definition consumes :: "(jsstring \<Rightarrow> 'a parse_result) \<Rightarrow> bool" where
  "consumes p \<longleftrightarrow> (\<forall>s v rest. p s = ParseOk v rest \<longrightarrow> length rest < length s)"

lemma consumesD: "consumes p \<Longrightarrow> p s = ParseOk v rest \<Longrightarrow> length rest < length s"
  by (auto simp: consumes_def)

lemma length_skipWhitespace: "length (skipWhitespace s) \<le> length s"
  by (induction s) auto

lemma skipWhitespace_length: "skipWhitespace s = t \<Longrightarrow> length t \<le> length s"
  using length_skipWhitespace by blast

lemma less_length_skipWhitespace: "n < length (skipWhitespace s) \<Longrightarrow> n < length s"
  using length_skipWhitespace [of s] by simp

lemma scanString_length: "scanString raw s = Some (t, rest) \<Longrightarrow> length rest < length s"
proof (induction raw s arbitrary: t rest rule: scanString.induct)
  case (1 raw)
  then show ?case by simp
next
  case (2 raw c cs)
  show ?case
  proof (cases "c = 34 \<or> c \<noteq> 92")
    case True
    with 2 show ?thesis by (auto split: if_splits)
  next
    case False
    with "2.prems" obtain e es where cs: "cs = e # es"
      by (cases cs) auto
    show ?thesis
    proof (cases "e = 117")
      case True
      with "2.prems" False cs obtain a b d g u
        where "es = a # b # d # g # u" "isHexDigit a \<and> isHexDigit b \<and> isHexDigit d \<and> isHexDigit g"
          and "scanString (raw @ [c, e, a, b, d, g]) u = Some (t, rest)"
        by (auto split: list.splits if_splits)
      with "2.IH"(1) [OF _ _ cs True] False cs have "length rest < length u" by blast
      with cs \<open>es = _\<close> show ?thesis by simp
    next
      case esc: False
      with "2.prems" False cs have "isEscapeLetter e" "scanString (raw @ [c, e]) es = Some (t, rest)"
        by (auto split: if_splits)
      with "2.IH"(2) [OF _ _ cs esc] False have "length rest < length es" by blast
      with cs show ?thesis by simp
    qed
  qed
qed

lemma parseString_consumes: "consumes parseString"
  unfolding consumes_def parseString_def
  by (auto split: list.splits if_splits option.splits prod.splits dest!: scanString_length)

lemma parseString_not_starved: "parseString s \<noteq> ParseStarved"
  by (auto simp: parseString_def split: list.splits option.splits)

lemma matchNumber_length: "matchNumber s = Some (neg, ds, rest) \<Longrightarrow> length rest < length s"
proof -
  have drop: "length (dropWhile isDigit cs) \<le> length cs" for cs
    by (rule length_dropWhile_le)
  assume "matchNumber s = Some (neg, ds, rest)"
  then show ?thesis
    using drop by (auto simp: matchNumber_def Let_def less_Suc_eq_le le_SucI split: list.splits if_splits)
qed

lemma parseNumber_consumes: "consumes parseNumber"
  unfolding consumes_def parseNumber_def
  by (auto split: option.splits prod.splits if_splits dest: matchNumber_length)

lemma parseNumber_not_starved: "parseNumber s \<noteq> ParseStarved"
  by (auto simp: parseNumber_def split: option.splits prod.splits)

lemma parseItems_length:
  assumes "consumes pv"
  shows "parseItems n pv acc s = ParseOk v rest \<Longrightarrow> length rest < length s"
proof (induction n arbitrary: acc s)
  case 0
  then show ?case by (simp add: parseItems.simps parseMembers.simps parseValue.simps)
next
  case (Suc n)
  then show ?case
    by (auto simp: parseItems.simps split: if_splits parse_result.splits list.splits
        dest!: consumesD [OF assms] skipWhitespace_length Suc.IH less_length_skipWhitespace)
qed

lemma parseMembers_length:
  assumes "consumes pv"
  shows "parseMembers n pv acc s = ParseOk v rest \<Longrightarrow> length rest < length s"
proof (induction n arbitrary: acc s)
  case 0
  then show ?case by (simp add: parseItems.simps parseMembers.simps parseValue.simps)
next
  case (Suc n)
  then show ?case
    by (auto simp: parseMembers.simps split: if_splits parse_result.splits list.splits
        dest!: consumesD [OF assms] consumesD [OF parseString_consumes] skipWhitespace_length Suc.IH less_length_skipWhitespace)
qed

lemma length_tl_skip: "length (skipWhitespace (tl s)) \<le> length s - 1"
  using length_skipWhitespace [of "tl s"] by simp

lemma parseArray_length:
  assumes "consumes pv" "s \<noteq> []" "parseArray pv s = ParseOk v rest"
  shows "length rest < length s"
  using assms length_tl_skip [of s]
  by (auto simp: parseArray_def Let_def neq_Nil_conv 
      split: if_splits dest!: parseItems_length [OF assms(1)])

lemma parseObject_length:
  assumes "consumes pv" "s \<noteq> []" "parseObject pv s = ParseOk v rest"
  shows "length rest < length s"
  using assms length_tl_skip [of s]
  by (auto simp: parseObject_def Let_def neq_Nil_conv 
      split: if_splits dest!: parseMembers_length [OF assms(1)])

text \<open>A keyword is not empty, so reading one consumes.\<close>

lemma parseValue_consumes: "consumes (parseValue n)"
proof (induction n)
  case 0
  then show ?case by (simp add: consumes_def parseValue.simps)
next
  case (Suc n)
  show ?case
    unfolding consumes_def
  proof (intro allI impI)
    fix s v rest
    assume "parseValue (Suc n) s = ParseOk v rest"
    then have "length rest < length (skipWhitespace s)"
      by (cases rule: parseValue_OkE)
        (auto dest: parseArray_length [OF Suc, rotated] parseObject_length [OF Suc, rotated]
          consumesD [OF parseString_consumes] consumesD [OF parseNumber_consumes])
    then show "length rest < length s"
      by (rule less_length_skipWhitespace)
  qed
qed

section \<open>Enough fuel\<close>

lemma parseItems_not_starved:
  assumes "consumes pv" "\<And>t. length t \<le> length s \<Longrightarrow> pv t \<noteq> ParseStarved" "length s < n"
  shows "parseItems n pv acc s \<noteq> ParseStarved"
  using assms(2,3)
proof (induction n arbitrary: acc s)
  case 0
  then show ?case by (simp add: parseItems.simps parseMembers.simps parseValue.simps)
next
  case (Suc n)
  show ?case
  proof (cases "pv s")
    case (ParseOk v rest)
    from consumesD [OF assms(1) this] have len: "length rest < length s" .
    have "parseItems n pv (acc @ [v]) (skipWhitespace cs) \<noteq> ParseStarved"
      if "skipWhitespace rest = c # cs" for c cs
    proof -
      have small: "length (skipWhitespace cs) < length s"
        using skipWhitespace_length [OF that] length_skipWhitespace [of cs] len by simp
      then show ?thesis
        using Suc.prems by (intro Suc.IH) auto
    qed
    with ParseOk show ?thesis by (auto simp: parseItems.simps split: list.splits)
  qed (use Suc.prems in \<open>auto simp: parseItems.simps\<close>)
qed

lemma parseMembers_not_starved:
  assumes "consumes pv" "\<And>t. length t \<le> length s \<Longrightarrow> pv t \<noteq> ParseStarved" "length s < n"
  shows "parseMembers n pv acc s \<noteq> ParseStarved"
  using assms(2,3)
proof (induction n arbitrary: acc s)
  case 0
  then show ?case by (simp add: parseItems.simps parseMembers.simps parseValue.simps)
next
  case (Suc n)
  show ?case
  proof (cases "parseString s")
    case (ParseOk k rest)
    from consumesD [OF parseString_consumes this] have len: "length rest < length s" .
    have nested: "pv cs \<noteq> ParseStarved \<and>
        (\<forall>v rest2 d ds. pv cs = ParseOk v rest2 \<and> skipWhitespace rest2 = d # ds \<longrightarrow>
          parseMembers n pv (acc @ [(k, v)]) (skipWhitespace ds) \<noteq> ParseStarved)"
      if "skipWhitespace rest = c # cs" for c cs
    proof -
      have small: "length cs < length s"
        using skipWhitespace_length [OF that] len by simp
      moreover have "parseMembers n pv (acc @ [(k, v)]) (skipWhitespace ds) \<noteq> ParseStarved"
        if "pv cs = ParseOk v rest2" "skipWhitespace rest2 = d # ds" for v rest2 d ds
      proof -
        have "length (skipWhitespace ds) < length s"
          using skipWhitespace_length [OF that(2)] length_skipWhitespace [of ds]
            consumesD [OF assms(1) that(1)] small by simp
        then show ?thesis
          using Suc.prems by (intro Suc.IH) auto
      qed
      ultimately show ?thesis using Suc.prems(1) by auto
    qed
    with ParseOk show ?thesis
      by (auto simp: parseMembers.simps split: list.splits parse_result.splits)
  qed (use parseString_not_starved in \<open>auto simp: parseMembers.simps\<close>)
qed

lemma parseValue_not_starved: "length s < n \<Longrightarrow> parseValue n s \<noteq> ParseStarved"
proof (induction n arbitrary: s)
  case 0
  then show ?case by (simp add: parseItems.simps parseMembers.simps parseValue.simps)
next
  case (Suc n)
  have nested: "parseArray (parseValue n) (c # cs) \<noteq> ParseStarved \<and>
      parseObject (parseValue n) (c # cs) \<noteq> ParseStarved"
    if t: "skipWhitespace s = c # cs" for c cs
  proof -
    have len: "length cs < n"
      using skipWhitespace_length [OF t] Suc.prems by simp
    have enough: "length t \<le> length (skipWhitespace cs) \<Longrightarrow> parseValue n t \<noteq> ParseStarved" for t
      using Suc.IH [of t] len length_skipWhitespace [of cs] by simp
    have small: "length (skipWhitespace cs) < length (c # cs)"
      using length_skipWhitespace [of cs] by simp
    have "parseItems (length (c # cs)) (parseValue n) [] (skipWhitespace cs) \<noteq> ParseStarved"
      using enough small by (rule parseItems_not_starved [OF parseValue_consumes])
    moreover
    have "parseMembers (length (c # cs)) (parseValue n) [] (skipWhitespace cs) \<noteq> ParseStarved"
      using enough small by (rule parseMembers_not_starved [OF parseValue_consumes])
    ultimately show ?thesis
      by (auto simp: parseArray_def parseObject_def Let_def )
  qed
  then show ?case
    using parseString_not_starved parseNumber_not_starved
    by (auto simp: parseValue.simps split: list.splits parse_result.splits)
qed

section \<open>Well-formed values\<close>

text \<open>The values \<open>JsonValue\<close> stands for: safe numbers only, and objects whose keys are distinct.\<close>

fun wfJson :: "json \<Rightarrow> bool" where
  "wfJson (JNum v) = safeNumber v"
| "wfJson (JArr vs) = (\<forall>v \<in> set vs. wfJson v)"
| "wfJson (JObj ps) = (distinct (map fst ps) \<and> (\<forall>p \<in> set ps. wfJson (snd p)))"
| "wfJson JNull = True"
| "wfJson (JBool b) = True"
| "wfJson (JStr s) = True"

definition yieldsWf :: "(jsstring \<Rightarrow> json parse_result) \<Rightarrow> bool" where
  "yieldsWf p \<longleftrightarrow> (\<forall>s v rest. p s = ParseOk v rest \<longrightarrow> wfJson v)"

lemma yieldsWfD: "yieldsWf p \<Longrightarrow> p s = ParseOk v rest \<Longrightarrow> wfJson v"
  by (auto simp: yieldsWf_def)

lemma parseItems_wf:
  assumes "yieldsWf pv"
  shows "parseItems n pv acc s = ParseOk v rest \<Longrightarrow> \<forall>w \<in> set acc. wfJson w \<Longrightarrow> wfJson v"
proof (induction n arbitrary: acc s)
  case 0
  then show ?case by (simp add: parseItems.simps parseMembers.simps parseValue.simps)
next
  case (Suc n)
  then show ?case
    by (fastforce simp: parseItems.simps split: if_splits parse_result.splits list.splits dest: yieldsWfD [OF assms])
qed

lemma parseMembers_wf:
  assumes "yieldsWf pv"
  shows "parseMembers n pv acc s = ParseOk v rest \<Longrightarrow> wfJson (JObj acc) \<Longrightarrow> wfJson v"
proof (induction n arbitrary: acc s)
  case 0
  then show ?case by (simp add: parseItems.simps parseMembers.simps parseValue.simps)
next
  case (Suc n)
  from Suc.prems(1) obtain k r1 c cs w r2 d ds where
    "k \<notin> set (map fst acc)" "pv cs = ParseOk w r2" "skipWhitespace r2 = d # ds"
    and step: "if d = 125 then v = JObj (acc @ [(k, w)])
      else parseMembers n pv (acc @ [(k, w)]) (skipWhitespace ds) = ParseOk v rest"
    by (auto simp: parseMembers.simps split: if_splits parse_result.splits list.splits)
  with Suc.prems(2) have "wfJson (JObj (acc @ [(k, w)]))"
    by (auto dest: yieldsWfD [OF assms])
  with step Suc.IH show ?case by (auto split: if_splits)
qed

lemma parseArray_wf:
  "yieldsWf pv \<Longrightarrow> parseArray pv s = ParseOk v rest \<Longrightarrow> wfJson v"
  by (auto simp: parseArray_def Let_def split: if_splits dest: parseItems_wf)

lemma parseObject_wf:
  "yieldsWf pv \<Longrightarrow> parseObject pv s = ParseOk v rest \<Longrightarrow> wfJson v"
  by (auto simp: parseObject_def Let_def split: if_splits dest: parseMembers_wf)

lemma parseNumber_wf: "parseNumber s = ParseOk v rest \<Longrightarrow> wfJson v"
  by (auto simp: parseNumber_def split: option.splits prod.splits if_splits)

lemma parseValue_wf: "yieldsWf (parseValue n)"
proof (induction n)
  case 0
  then show ?case by (simp add: yieldsWf_def parseValue.simps)
next
  case (Suc n)
  show ?case
    unfolding yieldsWf_def
  proof (intro allI impI)
    fix s v rest
    assume "parseValue (Suc n) s = ParseOk v rest"
    then show "wfJson v"
      by (cases rule: parseValue_OkE)
        (auto dest: parseNumber_wf parseArray_wf [OF Suc] parseObject_wf [OF Suc])
  qed
qed

lemma parseStrictJson_wf: "parseStrictJson s = ParseOk v rest \<Longrightarrow> wfJson v"
  by (auto simp: parseStrictJson_def split: parse_result.splits if_splits dest: yieldsWfD [OF parseValue_wf])

text \<open>Serialization cannot throw on a well-formed value.\<close>

lemma those_eq_Some_map:
  "(\<And>x. x \<in> set xs \<Longrightarrow> f x = Some (g x)) \<Longrightarrow> those (map f xs) = Some (map g xs)"
  by (induction xs) auto

lemma those_eq_Some_iff: "those os = Some xs \<longleftrightarrow> os = map Some xs"
proof (induction os arbitrary: xs)
  case Nil
  then show ?case by auto
next
  case (Cons x os)
  then show ?case by (cases xs) (auto split: option.splits)
qed

lemma those_eq_None_iff: "those os = None \<longleftrightarrow> None \<in> set os"
  by (induction os) (auto split: option.splits)

lemma serializeNumber_None_iff: "serializeNumber v = None \<longleftrightarrow> \<not> safeNumber v"
  by (cases v) (auto simp: serializeNumber_def)

lemma canonicalizeJson_total: "wfJson v \<Longrightarrow> \<exists>t. canonicalizeJson v = Some t"
proof (induction v)
  case (JArr vs)
  then have "None \<notin> set (map canonicalizeJson vs)" by fastforce
  then show ?case by (auto simp: those_eq_None_iff simp flip: not_None_eq)
next
  case (JObj ps)
  then have "None \<notin> set (map (\<lambda>(k, v). map_option (\<lambda>t. (k, t)) (canonicalizeJson v)) ps)"
    by fastforce
  then show ?case by (auto simp: those_eq_None_iff simp flip: not_None_eq)
next
  case (JNum v)
  then show ?case using serializeNumber_None_iff [of v] by auto
qed auto

end
