(* ===== verification/JsonRoundtrip.thy ===== *)
theory JsonRoundtrip
  imports JsonFacts
begin

text \<open>
  The canonical text of a well-formed value parses back to that value in normal form (keys sorted,
  minus zero read as zero). Hence the canonical text determines the value up to the order in which
  the properties were created, which is what a hash over it can promise.
\<close>

unbundle bit_operations_syntax

section \<open>Strings\<close>

lemma unat_add_unit: "unat (a + b :: code_unit) = (unat a + unat b) mod 65536"
  by (simp add: unat_word_ariths)

lemma unat_less_unit: "unat (w :: code_unit) < 65536"
proof -
  have "unat w < 2 ^ LENGTH(16)" by (rule unsigned_less)
  then show ?thesis by simp
qed

lemma hexDigitOf_hex:
  assumes "d < 16"
  shows "isHexDigit (hexDigitOf d)" "hexDigitValue (hexDigitOf d) = d"
proof -
  from assms have d: "unat d < 16" by (simp add: word_less_nat_alt)
  have "48 \<le> d + 48 \<and> d + 48 \<le> 57" if "d < 10"
    using that d by (simp add: word_le_nat_alt word_less_nat_alt unat_add_unit)
  moreover have "97 \<le> d + 87 \<and> d + 87 \<le> 102 \<and> \<not> d + 87 \<le> 57" if "\<not> d < 10"
    using that d by (simp add: word_le_nat_alt word_less_nat_alt unat_add_unit)
  ultimately show "isHexDigit (hexDigitOf d)" "hexDigitValue (hexDigitOf d) = d"
    by (auto simp: isHexDigit_def hexDigitOf_def hexDigitValue_def isDigit_def)
qed

lemma unat_drop_bit_unit: "unat (drop_bit k (w :: code_unit)) = unat w div 2 ^ k"
  by (simp add: unat_drop_bit_eq) (simp add: drop_bit_eq_div)

lemma unat_and_15: "unat (w AND 15 :: code_unit) = unat w mod 16"
proof -
  have "w AND 15 = take_bit 4 w" by (simp add: take_bit_eq_mask mask_eq_exp_minus_1)
  then show ?thesis by (simp only: unsigned_take_bit_eq) (simp add: take_bit_eq_mod)
qed

lemma nibble_less: "(w :: code_unit) AND 15 < 16" "drop_bit 12 w < 16"
  using unat_less_unit [of w]
  by (simp_all add: word_less_nat_alt unat_and_15 unat_drop_bit_unit)

lemma nat_nibbles:
  "(n div 4096) * 4096 + (n div 256 mod 16) * 256 + (n div 16 mod 16) * 16 + n mod 16 = (n :: nat)"
proof -
  have combine: "a * 16 + b = c \<Longrightarrow> c * 16 + d = e \<Longrightarrow> e * 16 + f = m \<Longrightarrow>
      a * 4096 + b * 256 + d * 16 + f = m" for a b c d e f m :: nat
    by linarith
  have "n div 16 div 16 div 16 * 4096 + n div 16 div 16 mod 16 * 256 + n div 16 mod 16 * 16 + n mod 16 = n"
    by (rule combine) (rule div_mult_mod_eq)+
  moreover have "n div 256 = n div 16 div 16" "n div 4096 = n div 16 div 16 div 16"
    by (simp_all flip: div_mult2_eq)
  ultimately show ?thesis by simp
qed

lemma nibbles:
  fixes c :: code_unit
  shows "drop_bit 12 c * 4096 + (drop_bit 8 c AND 15) * 256 + (drop_bit 4 c AND 15) * 16 + (c AND 15) = c"
proof -
  have w: "w = word_of_nat (unat w)" for w :: code_unit by simp
  have parts: "drop_bit 12 c = word_of_nat (unat c div 4096)" "drop_bit 8 c AND 15 = word_of_nat (unat c div 256 mod 16)"
    "drop_bit 4 c AND 15 = word_of_nat (unat c div 16 mod 16)" "c AND 15 = word_of_nat (unat c mod 16)"
    by (rule w [THEN trans], rule arg_cong [where f = word_of_nat],
        simp add: unat_and_15 unat_drop_bit_unit)+
  have "word_of_nat ((unat c div 4096) * 4096 + (unat c div 256 mod 16) * 256 + (unat c div 16 mod 16) * 16 + unat c mod 16) = c"
    by (simp only: nat_nibbles) simp
  then show ?thesis
    unfolding parts by (simp only: of_nat_add of_nat_mult of_nat_numeral)
qed

lemma scan_unicodeEscape: "scanString raw (unicodeEscape c @ t) = scanString (raw @ unicodeEscape c) t"
  by (simp add: unicodeEscape_def hexDigitOf_hex nibble_less)

lemma body_unicodeEscape:
  "jsonParseStringBody (unicodeEscape c @ t) = map_option ((#) c) (jsonParseStringBody t)"
  by (simp add: unicodeEscape_def hexDigitOf_hex nibble_less nibbles)

lemma scan_quoteUnit: "scanString raw (quoteUnit c @ t) = scanString (raw @ quoteUnit c) t"
  by (simp add: quoteUnit_def scan_unicodeEscape isEscapeLetter_def jstr_def unit_of_char_def)

lemma body_quoteUnit:
  "jsonParseStringBody (quoteUnit c @ t) = map_option ((#) c) (jsonParseStringBody t)"
  by (simp add: quoteUnit_def body_unicodeEscape escapeValue_def)

lemma surrogate_plain:
  assumes "isHighSurrogate c \<or> isLowSurrogate c"
  shows "c \<noteq> 34" "c \<noteq> 92" "\<not> c < 32"
  using assms by (auto simp: isHighSurrogate_def isLowSurrogate_def word_le_nat_alt word_less_nat_alt)

lemma scan_quoteUnits: "scanString raw (quoteUnits s @ t) = scanString (raw @ quoteUnits s) t"
  by (induction s arbitrary: raw rule: quoteUnits.induct)
    (simp_all add: scan_quoteUnit surrogate_plain)

lemma body_quoteUnits:
  "jsonParseStringBody (quoteUnits s @ t) = map_option ((@) s) (jsonParseStringBody t)"
  by (induction s rule: quoteUnits.induct)
    (simp_all add: body_quoteUnit surrogate_plain option.map_comp comp_def option.map_ident)

lemma parse_jsonStringifyString: "parseString (jsonStringifyString s @ t) = ParseOk s t"
  by (simp add: parseString_def jsonStringifyString_def scan_quoteUnits jsonParseString_def body_quoteUnits)


section \<open>Numbers\<close>

lemma unat_small_digit: "n < 10 \<Longrightarrow> unat (word_of_nat n :: code_unit) = n"
  by (simp only: unsigned_of_nat take_bit_eq_mod) simp

lemma unat_digit: "n < 10 \<Longrightarrow> unat (48 + word_of_nat n - 48 :: code_unit) = n"
  by (simp add: unat_small_digit)

lemma isDigit_digit: "n < 10 \<Longrightarrow> isDigit (48 + word_of_nat n)"
  by (simp add: isDigit_def word_le_nat_alt unat_add_unit unat_small_digit)

lemma digitsValue_snoc: "digitsValue (ds @ [d]) = 10 * digitsValue ds + unat (d - 48)"
  by (simp add: digitsValue_def)

lemma digitsValue_showNat: "digitsValue (showNat n) = n"
proof (induction n rule: showNat.induct)
  case (1 n)
  show ?case
  proof (cases "n < 10")
    case True
    then show ?thesis
      by (subst showNat.simps) (simp add: digitsValue_def unat_small_digit)
  next
    case False
    with 1 have "digitsValue (showNat (n div 10)) = n div 10" by simp
    with False show ?thesis
      by (subst showNat.simps) (simp add: digitsValue_snoc unat_small_digit)
  qed
qed

lemma showNat_digits: "\<forall>d \<in> set (showNat n). isDigit d"
proof (induction n rule: showNat.induct)
  case (1 n)
  then show ?case by (subst showNat.simps) (auto simp: isDigit_digit)
qed

lemma showNat_head:
  "showNat n \<noteq> [] \<and> (hd (showNat n) = 48 \<longleftrightarrow> n = 0)"
proof (induction n rule: showNat.induct)
  case (1 n)
  show ?case
  proof (cases "n < 10")
    case True
    have "n = 0" if zero: "(word_of_nat n :: code_unit) = 0"
    proof -
      have "n = unat (word_of_nat n :: code_unit)"
        by (rule unat_small_digit [OF True, symmetric])
      also have "\<dots> = 0" by (simp only: zero unat_0)
      finally show ?thesis .
    qed
    moreover have "showNat n = [48 + word_of_nat n]"
      using True by (subst showNat.simps) simp
    ultimately show ?thesis by auto
  next
    case False
    then have "showNat n = showNat (n div 10) @ [48 + word_of_nat (n mod 10)]"
      by (subst showNat.simps) simp
    moreover have "n div 10 = 0 \<longleftrightarrow> n = 0"
      using False by (simp add: div_eq_0_iff)
    ultimately show ?thesis
      using 1 False by (simp del: div_eq_0_iff)
  qed
qed

definition delimited :: "jsstring \<Rightarrow> bool" where
  "delimited t \<longleftrightarrow> t = [] \<or> hd t \<in> {44, 93, 125}"

lemma delimited_Cons [simp]: "delimited (44 # t)" "delimited (93 # t)" "delimited (125 # t)" "delimited []"
  by (simp_all add: delimited_def)

lemma takeWhile_all_then:
  "\<forall>d \<in> set ds. P d \<Longrightarrow> t = [] \<or> \<not> P (hd t) \<Longrightarrow> takeWhile P (ds @ t) = ds \<and> dropWhile P (ds @ t) = t"
  by (induction ds) (cases t; auto)+

lemma delimited_not_digit: "delimited t \<Longrightarrow> t = [] \<or> \<not> isDigit (hd t)"
  by (auto simp: delimited_def isDigit_def)

lemma matchNumber_showNat:
  assumes "delimited t"
  shows "matchNumber (showNat n @ t) = Some (False, showNat n, t)"
    and "matchNumber (45 # showNat n @ t) = Some (True, showNat n, t)"
proof -
  obtain d ds where show_n: "showNat n = d # ds"
    using showNat_head [of n] by (cases "showNat n") auto
  have dig: "isDigit d" "\<forall>e \<in> set ds. isDigit e"
    using showNat_digits [of n] by (simp_all add: show_n)
  have d45: "d \<noteq> 45" using dig(1) by (auto simp: isDigit_def)
  have zero: "ds = []" if "d = 48"
  proof -
    from that show_n showNat_head [of n] have "n = 0" by simp
    with show_n show ?thesis by (simp add: showNat.simps)
  qed
  show "matchNumber (showNat n @ t) = Some (False, showNat n, t)"
    "matchNumber (45 # showNat n @ t) = Some (True, showNat n, t)"
    using takeWhile_all_then [OF dig(2) delimited_not_digit [OF assms]] dig(1) d45 zero
    by (auto simp: matchNumber_def Let_def show_n)
qed

lemma parseNumber_showInt:
  assumes "isSafeInteger x" "delimited t"
  shows "parseNumber (showInt x @ t) = ParseOk (JNum (IntNum x)) t"
proof -
  have after: "\<not> (case t of c # _ \<Rightarrow> c = 46 \<or> c = 101 \<or> c = 69 | [] \<Rightarrow> False)"
    using assms(2) by (auto simp: delimited_def split: list.splits)
  show ?thesis
    using assms after
    by (auto simp: parseNumber_def showInt_def matchNumber_showNat numberOfToken_def
        digitsValue_showNat fl_safe Let_def)
qed


section \<open>Values\<close>

text \<open>What parsing a canonical text yields: minus zero is read as zero, keys come sorted.\<close>

fun normJson :: "json \<Rightarrow> json" where
  "normJson (JNum v) = JNum (if v = NegZero then IntNum 0 else v)"
| "normJson (JArr vs) = JArr (map normJson vs)"
| "normJson (JObj ps) = JObj (sort_key fst (map (\<lambda>(k, v). (k, normJson v)) ps))"
| "normJson JNull = JNull"
| "normJson (JBool b) = JBool b"
| "normJson (JStr s) = JStr s"

lemma insort_key_fst_map:
  "insort_key fst (k, f v) (map (\<lambda>(k, v). (k, f v)) ps) = map (\<lambda>(k, v). (k, f v)) (insort_key fst (k, v) ps)"
  by (induction ps) auto

lemma sort_key_fst_map:
  "sort_key fst (map (\<lambda>(k, v). (k, f v)) ps) = map (\<lambda>(k, v). (k, f v)) (sort_key fst ps)"
proof (induction ps)
  case Nil
  then show ?case by simp
next
  case (Cons p ps)
  then show ?case by (cases p) (simp add: insort_key_fst_map)
qed

definition solid :: "jsstring \<Rightarrow> bool" where
  "solid t \<longleftrightarrow> t \<noteq> [] \<and> hd t \<notin> {32, 10, 13, 9, 93, 125}"

definition readsAs :: "(jsstring \<Rightarrow> json parse_result) \<Rightarrow> jsstring \<Rightarrow> json \<Rightarrow> bool" where
  "readsAs pv t v \<longleftrightarrow> (\<forall>r. delimited r \<longrightarrow> pv (t @ r) = ParseOk v r)"

lemma solid_append: "solid t \<Longrightarrow> solid (t @ r)"
  by (auto simp: solid_def)

lemma skipWhitespace_solid: "solid t \<Longrightarrow> skipWhitespace t = t"
  by (cases t) (auto simp: solid_def)

lemma solid_join: "solid t \<Longrightarrow> solid (joinWith [44] (t # ts))"
  by (cases ts) (auto simp: solid_append)

lemma length_joinWith_member:
  "t \<in> set ts \<Longrightarrow> length t \<le> length (joinWith sep ts)"
  by (induction sep ts rule: joinWith.induct) auto

lemma length_joinWith: "\<forall>t \<in> set ts. t \<noteq> [] \<Longrightarrow> length ts \<le> length (joinWith sep ts)"
proof (induction sep ts rule: joinWith.induct)
  case (3 sep t u ts)
  then have "1 \<le> length t" by (cases t) auto
  with 3 show ?case by simp
qed (auto simp: Suc_le_eq)

lemma parseItems_join:
  assumes "vs \<noteq> []" "length vs \<le> n" "\<forall>v \<in> set vs. solid (f v) \<and> readsAs pv (f v) (g v)"
  shows "parseItems n pv acc (joinWith [44] (map f vs) @ 93 # r) = ParseOk (JArr (acc @ map g vs)) r"
  using assms
proof (induction vs arbitrary: n acc)
  case (Cons v vs)
  obtain m where n: "n = Suc m" using Cons.prems(2) by (cases n) auto
  have v: "solid (f v)" "readsAs pv (f v) (g v)" using Cons.prems(3) by auto
  then have ne: "f v \<noteq> []" by (simp add: solid_def)
  show ?case
  proof (cases vs)
    case Nil
    with v ne n show ?thesis by (simp add: parseItems.simps readsAs_def)
  next
    case (Cons w ws)
    have "solid (joinWith [44] (map f vs))"
      using Cons.prems(3) by (simp add: Cons solid_join)
    then have skip: "skipWhitespace (joinWith [44] (map f vs) @ 93 # r) = joinWith [44] (map f vs) @ 93 # r"
      by (intro skipWhitespace_solid solid_append)
    have "parseItems m pv (acc @ [g v]) (joinWith [44] (map f vs) @ 93 # r) =
        ParseOk (JArr ((acc @ [g v]) @ map g vs)) r"
      using Cons.prems n Cons by (intro Cons.IH) auto
    with v ne n skip show ?thesis
      by (simp add: Cons parseItems.simps readsAs_def)
  qed
qed simp

definition memberText :: "jsstring \<times> jsstring \<Rightarrow> jsstring" where
  "memberText = (\<lambda>(k, t). jsonStringifyString k @ [58] @ t)"

lemma solid_member: "solid (memberText p)"
  by (auto simp: memberText_def solid_def jsonStringifyString_def split: prod.splits)

lemma parseMembers_join:
  assumes "ps \<noteq> []" "length ps \<le> n" "\<forall>p \<in> set ps. readsAs pv (f (snd p)) (g (snd p))"
    and "distinct (map fst acc @ map fst ps)"
  shows "parseMembers n pv acc (joinWith [44] (map (\<lambda>(k, v). memberText (k, f v)) ps) @ 125 # r) =
      ParseOk (JObj (acc @ map (\<lambda>(k, v). (k, g v)) ps)) r"
  using assms
proof (induction ps arbitrary: n acc)
  case (Cons p ps)
  obtain k v where p: "p = (k, v)" by (cases p)
  obtain m where n: "n = Suc m" using Cons.prems(2) by (cases n) auto
  have v: "readsAs pv (f v) (g v)" using Cons.prems(3) p by auto
  have fresh: "k \<notin> set (map fst acc)" using Cons.prems(4) p by auto
  let ?text = "\<lambda>ps. joinWith [44] (map (\<lambda>(k, v). memberText (k, f v)) ps) @ 125 # r"
  have head: "memberText (k, f v) @ u \<noteq> []" "parseString (memberText (k, f v) @ u) = ParseOk k (58 # f v @ u)" for u
    by (simp_all add: memberText_def parse_jsonStringifyString)
  show ?case
  proof (cases ps)
    case Nil
    with v fresh head n p show ?thesis by (simp add: parseMembers.simps readsAs_def)
  next
    case (Cons q qs)
    have "solid (joinWith [44] (map (\<lambda>(k, v). memberText (k, f v)) ps))"
      by (cases q) (simp add: Cons solid_join solid_member)
    then have skip: "skipWhitespace (?text ps) = ?text ps"
      by (intro skipWhitespace_solid solid_append)
    have "parseMembers m pv (acc @ [(k, g v)]) (?text ps) =
        ParseOk (JObj ((acc @ [(k, g v)]) @ map (\<lambda>(k, v). (k, g v)) ps)) r"
      using Cons.prems n p Cons by (intro Cons.IH) auto
    moreover have "?text (p # ps) = memberText (k, f v) @ 44 # ?text ps"
      by (simp add: p Cons split: prod.splits)
    ultimately show ?thesis
      using v fresh head n skip p by (simp add: parseMembers.simps readsAs_def)
  qed
qed simp


definition canonicalText :: "json \<Rightarrow> jsstring" where
  "canonicalText v = the (canonicalizeJson v)"

lemma canonicalizeJson_text: "wfJson v \<Longrightarrow> canonicalizeJson v = Some (canonicalText v)"
  using canonicalizeJson_total [of v] by (auto simp: canonicalText_def)

lemma canonicalText_JArr:
  "wfJson (JArr vs) \<Longrightarrow> canonicalText (JArr vs) = [91] @ joinWith [44] (map canonicalText vs) @ [93]"
  using those_eq_Some_map [of vs canonicalizeJson canonicalText]
  by (simp add: canonicalText_def [of "JArr vs"] canonicalizeJson_text)

lemma canonicalText_JObj:
  assumes "wfJson (JObj ps)"
  shows "canonicalText (JObj ps) =
      [123] @ joinWith [44] (map (\<lambda>(k, v). memberText (k, canonicalText v)) (sort_key fst ps)) @ [125]"
proof -
  have "those (map (\<lambda>(k, v). map_option (\<lambda>t. (k, t)) (canonicalizeJson v)) ps) =
      Some (map (\<lambda>(k, v). (k, canonicalText v)) ps)"
    using assms by (intro those_eq_Some_map) (auto simp: canonicalizeJson_text)
  then show ?thesis
    by (simp only: canonicalText_def [of "JObj ps"] canonicalizeJson.simps option.map option.sel sort_key_fst_map)
      (simp add: memberText_def comp_def case_prod_unfold)
qed

definition parsesBack :: "json \<Rightarrow> bool" where
  "parsesBack v \<longleftrightarrow> solid (canonicalText v) \<and>
     (\<forall>n. length (canonicalText v) < n \<longrightarrow> readsAs (parseValue n) (canonicalText v) (normJson v))"

lemma parsesBackI:
  assumes "solid (canonicalText v)"
    and "\<And>n r. length (canonicalText v) \<le> n \<Longrightarrow> delimited r \<Longrightarrow>
      parseValue (Suc n) (canonicalText v @ r) = ParseOk (normJson v) r"
  shows "parsesBack v"
  unfolding parsesBack_def readsAs_def
proof (intro conjI allI impI)
  fix n r assume "length (canonicalText v) < n" "delimited r"
  with assms(2) [of "n - 1" r] show "parseValue n (canonicalText v @ r) = ParseOk (normJson v) r"
    by (cases n) auto
qed (fact assms(1))

lemma solid_showInt: "solid (showInt x)" "hd (showInt x) = 45 \<or> isDigit (hd (showInt x))"
proof -
  have "isDigit (hd (showNat n))" for n
    using showNat_head [of n] showNat_digits [of n] by simp
  moreover have "c \<notin> {32, 10, 13, 9, 93, 125}" if "isDigit c" for c
    using that by (auto simp: isDigit_def)
  ultimately show "solid (showInt x)" "hd (showInt x) = 45 \<or> isDigit (hd (showInt x))"
    using showNat_head by (auto simp: solid_def showInt_def)
qed

lemma parsesBack_int:
  assumes safe: "isSafeInteger x" and that: "delimited r"
  shows "parseValue (Suc n) (showInt x @ r) = ParseOk (JNum (IntNum x)) r"
proof -
  obtain c cs where t: "showInt x = c # cs" and c: "c = 45 \<or> isDigit c"
    using solid_showInt [of x] by (cases "showInt x") (auto simp: solid_def)
  have "skipWhitespace (showInt x @ r) = showInt x @ r"
    by (intro skipWhitespace_solid solid_append solid_showInt)
  moreover have "c \<noteq> 123" "c \<noteq> 91" "c \<noteq> 34" using c by (auto simp: isDigit_def)
  ultimately show ?thesis
    using parseNumber_showInt [OF safe that] c by (simp add: parseValue.simps t)
qed


lemma length_members_join:
  "p \<in> set ps \<Longrightarrow>
    length (f (snd p)) + 3 \<le> length (joinWith [44] (map (\<lambda>(k, v). memberText (k, f v)) ps))"
proof -
  assume "p \<in> set ps"
  then have "memberText (fst p, f (snd p)) \<in> set (map (\<lambda>(k, v). memberText (k, f v)) ps)"
    by (force split: prod.splits)
  from length_joinWith_member [OF this, of "[44]"] show ?thesis
    by (simp add: memberText_def jsonStringifyString_def)
qed

lemma parseValue_members:
  assumes len: "length (joinWith [44] (map (\<lambda>(k, v). memberText (k, f v)) qs)) < n"
    and dist: "distinct (map fst qs)"
    and members: "\<And>p m. p \<in> set qs \<Longrightarrow> length (f (snd p)) < m \<Longrightarrow> readsAs (parseValue m) (f (snd p)) (g (snd p))"
  shows "parseValue (Suc n) ([123] @ joinWith [44] (map (\<lambda>(k, v). memberText (k, f v)) qs) @ [125] @ r) =
    ParseOk (JObj (map (\<lambda>(k, v). (k, g v)) qs)) r"
proof (cases "qs = []")
  case True
  then show ?thesis by (simp add: parseValue.simps parseObject_def)
next
  case False
  let ?joined = "joinWith [44] (map (\<lambda>(k, v). memberText (k, f v)) qs)"
  have "solid ?joined" using False by (cases qs) (auto simp: solid_join solid_member)
  then have skip: "skipWhitespace (?joined @ 125 # r) = ?joined @ 125 # r" "?joined \<noteq> []" "hd ?joined \<noteq> 125"
    using skipWhitespace_solid [OF solid_append] by (auto simp: solid_def)
  have "readsAs (parseValue n) (f (snd p)) (g (snd p))" if "p \<in> set qs" for p
    using members [OF that] len length_members_join [OF that, of f] by auto
  moreover have "length qs \<le> length ?joined"
    using length_joinWith [of "map (\<lambda>(k, v). memberText (k, f v)) qs" "[44]"] solid_member
    by (simp add: solid_def case_prod_unfold)
  ultimately have "parseMembers (Suc (Suc (length ?joined + length r))) (parseValue n) [] (?joined @ 125 # r) =
      ParseOk (JObj ([] @ map (\<lambda>(k, v). (k, g v)) qs)) r"
    using False dist by (intro parseMembers_join) auto
  with skip show ?thesis by (simp add: parseValue.simps parseObject_def Let_def)
qed

lemma parseValue_items:
  assumes len: "length (joinWith [44] (map f vs)) < n"
    and items: "\<And>v m. v \<in> set vs \<Longrightarrow> length (f v) < m \<Longrightarrow> readsAs (parseValue m) (f v) (g v)"
    and solid: "\<And>v. v \<in> set vs \<Longrightarrow> solid (f v)"
  shows "parseValue (Suc n) ([91] @ joinWith [44] (map f vs) @ [93] @ r) = ParseOk (JArr (map g vs)) r"
proof (cases "vs = []")
  case True
  then show ?thesis by (simp add: parseValue.simps parseArray_def)
next
  case False
  let ?joined = "joinWith [44] (map f vs)"
  have "solid ?joined" using False solid by (cases vs) (auto simp: solid_join)
  then have skip: "skipWhitespace (?joined @ 93 # r) = ?joined @ 93 # r" "?joined \<noteq> []" "hd ?joined \<noteq> 93"
    using skipWhitespace_solid [OF solid_append] by (auto simp: solid_def)
  have "readsAs (parseValue n) (f v) (g v)" if "v \<in> set vs" for v
    using items [OF that] len length_joinWith_member [of "f v" "map f vs" "[44]"] that by auto
  moreover have "length vs \<le> length ?joined"
    using solid length_joinWith [of "map f vs" "[44]"] by (auto simp: solid_def)
  ultimately have "parseItems (Suc (Suc (length ?joined + length r))) (parseValue n) [] (?joined @ 93 # r) =
      ParseOk (JArr ([] @ map g vs)) r"
    using False solid by (intro parseItems_join) auto
  with skip show ?thesis by (simp add: parseValue.simps parseArray_def Let_def)
qed

lemma parsesBack_JArr:
  assumes wf: "wfJson (JArr vs)" and nested: "\<And>v. v \<in> set vs \<Longrightarrow> parsesBack v"
  shows "parsesBack (JArr vs)"
proof (rule parsesBackI)
  show "solid (canonicalText (JArr vs))"
    by (simp add: canonicalText_JArr [OF wf] solid_def)
next
  fix n r assume len: "length (canonicalText (JArr vs)) \<le> n" and r: "delimited r"
  then have "length (joinWith [44] (map canonicalText vs)) < n" by (simp add: canonicalText_JArr [OF wf])
  from parseValue_items [OF this, of normJson r] nested
  show "parseValue (Suc n) (canonicalText (JArr vs) @ r) = ParseOk (normJson (JArr vs)) r"
    by (simp add: canonicalText_JArr [OF wf] parsesBack_def)
qed

lemma parsesBack_JObj:
  assumes wf: "wfJson (JObj ps)" and nested: "\<And>p. p \<in> set ps \<Longrightarrow> parsesBack (snd p)"
  shows "parsesBack (JObj ps)"
proof (rule parsesBackI)
  show "solid (canonicalText (JObj ps))"
    by (simp add: canonicalText_JObj [OF wf] solid_def)
next
  fix n r assume len: "length (canonicalText (JObj ps)) \<le> n" and r: "delimited r"
  define qs where "qs = sort_key fst ps"
  have norm: "normJson (JObj ps) = JObj (map (\<lambda>(k, v). (k, normJson v)) qs)"
    by (simp add: qs_def sort_key_fst_map)
  have canon: "canonicalText (JObj ps) = [123] @ joinWith [44] (map (\<lambda>(k, v). memberText (k, canonicalText v)) qs) @ [125]"
    by (simp add: canonicalText_JObj [OF wf] qs_def)
  have "mset (map fst qs) = mset (map fst ps)" by (simp add: qs_def)
  then have dist: "distinct (map fst qs)" using wf by (metis mset_eq_imp_distinct_iff wfJson.simps(3))
  have "length (joinWith [44] (map (\<lambda>(k, v). memberText (k, canonicalText v)) qs)) < n" using len by (simp add: canon)
  from parseValue_members [OF this dist, of normJson r] nested
  show "parseValue (Suc n) (canonicalText (JObj ps) @ r) = ParseOk (normJson (JObj ps)) r"
    unfolding canon norm by (simp add: parsesBack_def qs_def)
qed

lemma parsesBack_wf: "wfJson v \<Longrightarrow> parsesBack v"
proof (induction v)
  case (JNum x)
  have zero: "serializeNumber NegZero = Some (showInt 0)" "showInt 0 = [48]" "isSafeInteger 0"
    by (simp_all add: serializeNumber_def showInt_def showNat.simps [of 0] jstr_def unit_of_char_def
        isSafeInteger_def maxSafe_def)
  from JNum obtain i where "isSafeInteger i" "canonicalText (JNum x) = showInt i"
    "normJson (JNum x) = JNum (IntNum i)"
    using zero by (cases x) (auto simp: canonicalText_def serializeNumber_def)
  then show ?case
    by (intro parsesBackI) (auto simp: solid_showInt parsesBack_int)
next
  case (JStr s)
  show ?case
    by (intro parsesBackI)
      (auto simp: canonicalText_def solid_def jsonStringifyString_def parseValue.simps
        parse_jsonStringifyString [unfolded jsonStringifyString_def, simplified])
next
  case JNull
  show ?case
    by (intro parsesBackI)
      (auto simp: canonicalText_def solid_def jstr_def unit_of_char_def parseValue.simps isDigit_def)
next
  case (JBool b)
  show ?case
    by (intro parsesBackI)
      (auto simp: canonicalText_def solid_def jstr_def unit_of_char_def parseValue.simps isDigit_def)
next
  case (JArr vs)
  then show ?case by (intro parsesBack_JArr) auto
next
  case (JObj ps)
  then show ?case by (intro parsesBack_JObj) (auto simp: prod.splits)
qed

lemma parse_canonicalText: "wfJson v \<Longrightarrow> parseStrictJson (canonicalText v) = ParseOk (normJson v) []"
proof -
  assume "wfJson v"
  then have "parsesBack v" by (rule parsesBack_wf)
  then have "readsAs (parseValue (length (canonicalText v) + 1)) (canonicalText v) (normJson v)"
    by (simp add: parsesBack_def)
  then have "parseValue (length (canonicalText v) + 1) (canonicalText v @ []) = ParseOk (normJson v) []"
    unfolding readsAs_def by (metis delimited_Cons(4))
  then show ?thesis by (simp add: parseStrictJson_def)
qed

section \<open>Normal forms\<close>

lemma map_fst_sort_key_pairs: "map fst (map (\<lambda>(k, v). (k, f v)) ps) = map fst ps"
  by (induction ps) auto

lemma distinct_sort_key_fst: "distinct (map fst (sort_key fst ps)) \<longleftrightarrow> distinct (map fst ps)"
proof -
  have "mset (map fst (sort_key fst ps)) = mset (map fst ps)" by simp
  then show ?thesis by (metis mset_eq_imp_distinct_iff)
qed

lemma wfJson_normJson: "wfJson v \<Longrightarrow> wfJson (normJson v)"
proof (induction v)
  case (JNum x)
  then show ?case by (cases x) (auto simp: isSafeInteger_def maxSafe_def)
next
  case (JObj ps)
  then show ?case
    by (auto simp: distinct_sort_key_fst map_fst_sort_key_pairs prod.splits simp del: map_map)
qed auto

lemma sort_key_idem: "sort_key f (sort_key f xs) = sort_key f xs"
  by (rule sort_key_id_if_sorted) (rule sorted_sort_key)

lemma normJson_idem: "normJson (normJson v) = normJson v"
proof (induction v)
  case (JObj ps)
  have "map (\<lambda>(k, v). (k, normJson v)) (map (\<lambda>(k, v). (k, normJson v)) ps) = map (\<lambda>(k, v). (k, normJson v)) ps"
    using JObj by (fastforce simp: case_prod_unfold)
  then have "map (\<lambda>(k, v). (k, normJson v)) (sort_key fst (map (\<lambda>(k, v). (k, normJson v)) ps)) =
      sort_key fst (map (\<lambda>(k, v). (k, normJson v)) ps)"
    by (simp only: sort_key_fst_map [symmetric])
  then show ?case by (simp add: sort_key_idem)
qed auto

lemma canonicalText_normJson: "wfJson v \<Longrightarrow> canonicalText (normJson v) = canonicalText v"
proof (induction v)
  case (JNum x)
  then show ?case
    by (cases x) (auto simp: canonicalText_def serializeNumber_def isSafeInteger_def maxSafe_def
        showInt_def showNat.simps [of 0] jstr_def unit_of_char_def)
next
  case (JArr vs)
  then have "wfJson (normJson (JArr vs))" by (intro wfJson_normJson)
  then have wf: "wfJson (JArr (map normJson vs))" by simp
  have "map (canonicalText \<circ> normJson) vs = map canonicalText vs" using JArr by simp
  then show ?case
    by (simp only: normJson.simps canonicalText_JArr [OF wf] canonicalText_JArr [OF JArr.prems] map_map)
next
  case (JObj ps)
  let ?qs = "sort_key fst (map (\<lambda>(k, v). (k, normJson v)) ps)"
  from JObj.prems have "wfJson (normJson (JObj ps))" by (rule wfJson_normJson)
  then have wf: "wfJson (JObj ?qs)" by simp
  have "map (\<lambda>(k, v). memberText (k, canonicalText v)) ?qs =
      map (\<lambda>(k, v). memberText (k, canonicalText v)) (sort_key fst ps)"
    using JObj by (auto simp: sort_key_fst_map prod.splits)
  then show ?case
    by (simp only: normJson.simps canonicalText_JObj [OF wf] canonicalText_JObj [OF JObj.prems] sort_key_idem)
qed auto

lemma canonicalText_eq_iff:
  assumes "wfJson v" "wfJson w"
  shows "canonicalText v = canonicalText w \<longleftrightarrow> normJson v = normJson w"
  using assms by (metis parse_canonicalText parse_result.inject(1) canonicalText_normJson)

text \<open>The text does not depend on the order in which the properties were created.\<close>

lemma normJson_reorder: "distinct (map fst ps) \<Longrightarrow> mset ps = mset qs \<Longrightarrow> normJson (JObj ps) = normJson (JObj qs)"
proof -
  assume dist: "distinct (map fst ps)" and perm: "mset ps = mset qs"
  have inj: "inj_on fst (set ps)" using dist by (simp add: distinct_map)
  have "sort_key fst ps = sort_key fst qs"
    using perm inj by (intro sort_key_inj_key_eq) (simp_all add: sorted_sort_key)
  then show ?thesis by (simp add: sort_key_fst_map)
qed

section \<open>Properties\<close>

lemma parse_not_starved: "parseStrictJson s \<noteq> ParseStarved"
  using parseValue_not_starved [of s "length s + 1"]
  by (auto simp: parseStrictJson_def split: parse_result.splits)

text \<open>
  C40: the strict parser always answers. Whatever the source text, it ends with a value or with one of
  the failure reasons; the fuel given to the recursive descent is never used up.
\<close>

theorem parseStrictJson_never_starves: "parseStrictJson s \<noteq> ParseStarved"
  by (rule parse_not_starved)

text \<open>
  C17: round trip. A value the strict parser returned has a canonical text, and parsing that text yields
  the same value in normal form (keys sorted, minus zero read as zero).
\<close>

theorem canonicalizeJson_roundtrip:
  assumes "parseStrictJson s = ParseOk v []"
  shows "\<exists>t. canonicalizeJson v = Some t \<and> parseStrictJson t = ParseOk (normJson v) []"
  using parseStrictJson_wf [OF assms] canonicalizeJson_text parse_canonicalText by blast

theorem canonicalizeJson_roundtrip_witness:
  "\<exists>t. canonicalizeJson (JObj [(jstr ''b'', JNum NegZero), (jstr ''a'', JArr [JBool True])]) = Some t \<and>
     parseStrictJson t = ParseOk (normJson (JObj [(jstr ''b'', JNum NegZero), (jstr ''a'', JArr [JBool True])])) []"
proof (rule canonicalizeJson_roundtrip)
  show "parseStrictJson (jstr [CHR ''{'', CHR 0x22, CHR ''b'', CHR 0x22, CHR '':'', CHR ''-'', CHR ''0'', CHR '','',
      CHR 0x22, CHR ''a'', CHR 0x22, CHR '':'', CHR ''['', CHR ''t'', CHR ''r'', CHR ''u'', CHR ''e'', CHR '']'', CHR ''}'']) =
    ParseOk (JObj [(jstr ''b'', JNum NegZero), (jstr ''a'', JArr [JBool True])]) []"
    by code_simp
qed

text \<open>
  The canonical text is a faithful key. Two well-formed values have the same canonical text exactly
  when they are equal up to the order of their properties and the sign of zero, so an equality test
  on canonical texts (as the approval stage makes) is an equality test on values.
\<close>

theorem canonicalizeJson_injective:
  assumes "wfJson v" "wfJson w"
  shows "canonicalizeJson v = canonicalizeJson w \<longleftrightarrow> normJson v = normJson w"
  using canonicalText_eq_iff [OF assms] by (simp add: canonicalizeJson_text assms)

theorem canonicalizeJson_injective_witness:
  "canonicalizeJson (JObj [(jstr ''a'', JNull), (jstr ''b'', JBool True)]) \<noteq>
   canonicalizeJson (JObj [(jstr ''b'', JNull), (jstr ''a'', JBool True)])"
proof -
  have "normJson (JObj [(jstr ''a'', JNull), (jstr ''b'', JBool True)]) \<noteq>
      normJson (JObj [(jstr ''b'', JNull), (jstr ''a'', JBool True)])"
    by code_simp
  then show ?thesis by (subst canonicalizeJson_injective) simp_all
qed

text \<open>
  Canonicalization ignores the order in which an object's properties were created, and applying it
  to the parsed canonical text changes nothing.
\<close>

theorem canonicalizeJson_stable:
  assumes "wfJson (JObj ps)" "mset qs = mset ps"
  shows "canonicalizeJson (JObj qs) = canonicalizeJson (JObj ps) \<and>
    canonicalizeJson (normJson (JObj ps)) = canonicalizeJson (JObj ps)"
proof -
  have "set qs = set ps" using assms(2) by (rule mset_eq_setD)
  moreover have "mset (map fst qs) = mset (map fst ps)" using assms(2) by simp
  then have "distinct (map fst qs) \<longleftrightarrow> distinct (map fst ps)" by (rule mset_eq_imp_distinct_iff)
  ultimately have wf: "wfJson (JObj qs)" using assms(1) by simp
  have "normJson (JObj qs) = normJson (JObj ps)"
  proof (rule normJson_reorder [OF _ assms(2)])
    show "distinct (map fst qs)" using wf by simp
  qed
  then have "canonicalText (JObj qs) = canonicalText (JObj ps)"
    using canonicalText_eq_iff [OF wf assms(1)] by blast
  then show ?thesis
    by (simp only: canonicalizeJson_text [OF wf] canonicalizeJson_text [OF assms(1)]
        canonicalizeJson_text [OF wfJson_normJson [OF assms(1)]] canonicalText_normJson [OF assms(1)])
qed

theorem canonicalizeJson_stable_witness:
  "canonicalizeJson (JObj [(jstr ''b'', JNull), (jstr ''a'', JBool True)]) =
   canonicalizeJson (JObj [(jstr ''a'', JBool True), (jstr ''b'', JNull)])"
  by (rule canonicalizeJson_stable [THEN conjunct1]) simp_all

end
