(* ===== verification/Bytes.thy ===== *)
theory Bytes
  imports JsonRoundtrip
begin

text \<open>
  The byte side of hashing and signing (\<open>src/shared/hash.ts\<close>): the UTF-8 encoding that
  \<open>createHash(..).update(text)\<close> and \<open>Buffer.from(text, "utf8")\<close> apply (a surrogate without partner becomes U+FFFD, so the encoding
  is not injective on all strings), the hexadecimal digests, and \<open>Buffer.from(text, "hex")\<close>, which
  stops at the first pair that is not hexadecimal. SHA-256, HMAC, Ed25519, the Unicode tables and the
  environment are not under \<open>src\<close>: they are the fields of a \<open>host\<close>.

  Canonical texts never hold a lone surrogate, so on them the encoding is injective and the bytes that
  are hashed determine the value.
\<close>

type_synonym byte = "8 word"

section \<open>Encodings\<close>

definition byteOf :: "nat \<Rightarrow> byte" where
  "byteOf n = word_of_nat n"

definition utf8Bytes :: "nat \<Rightarrow> byte list" where
  "utf8Bytes n =
     (if n < 128 then [byteOf n]
      else if n < 2048 then [byteOf (192 + n div 64), byteOf (128 + n mod 64)]
      else if n < 65536 then
        [byteOf (224 + n div 4096), byteOf (128 + n div 64 mod 64), byteOf (128 + n mod 64)]
      else
        [byteOf (240 + n div 262144), byteOf (128 + n div 4096 mod 64),
         byteOf (128 + n div 64 mod 64), byteOf (128 + n mod 64)])"

definition surrogatePair :: "code_unit \<Rightarrow> code_unit \<Rightarrow> nat" where
  "surrogatePair c d = 65536 + (unat c - 55296) * 1024 + (unat d - 56320)"

fun codePoints :: "jsstring \<Rightarrow> nat list" where
  "codePoints [] = []"
| "codePoints [c] = [if isHighSurrogate c \<or> isLowSurrogate c then 65533 else unat c]"
| "codePoints (c # d # cs) =
     (if isHighSurrogate c \<and> isLowSurrogate d then surrogatePair c d # codePoints cs
      else (if isHighSurrogate c \<or> isLowSurrogate c then 65533 else unat c) # codePoints (d # cs))"

definition utf8Encode :: "jsstring \<Rightarrow> byte list" where
  "utf8Encode s = concat (map utf8Bytes (codePoints s))"

definition hexNibble :: "nat \<Rightarrow> code_unit" where
  "hexNibble n = (if n < 10 then 48 + word_of_nat n else 87 + word_of_nat n)"

definition hexEncode :: "byte list \<Rightarrow> jsstring" where
  "hexEncode bs = concat (map (\<lambda>b. [hexNibble (unat b div 16), hexNibble (unat b mod 16)]) bs)"

fun hexDecode :: "jsstring \<Rightarrow> byte list" where
  "hexDecode (a # b # cs) =
     (if isHexDigit a \<and> isHexDigit b
      then word_of_nat (unat (hexDigitValue a) * 16 + unat (hexDigitValue b)) # hexDecode cs
      else [])"
| "hexDecode cs = []"

section \<open>The host\<close>

text \<open>
  A verification that throws is \<open>None\<close>. \<open>hs_rawKey\<close> is the last 32 bytes of the exported form of a
  PEM key; \<open>hs_receiptSign\<close> signs with the private key file, which may be missing.
\<close>

record host =
  hs_sha256 :: "byte list \<Rightarrow> byte list"
  hs_hmac :: "byte list \<Rightarrow> byte list \<Rightarrow> byte list"
  hs_policyVerify :: "byte list \<Rightarrow> byte list \<Rightarrow> byte list \<Rightarrow> bool option"
  hs_receiptSign :: "byte list \<Rightarrow> byte list option"
  hs_receiptVerify :: "jsstring \<Rightarrow> byte list \<Rightarrow> byte list \<Rightarrow> bool option"
  hs_rawKey :: "jsstring \<Rightarrow> byte list option"
  hs_publicPem :: jsstring
  hs_nfkc :: "jsstring \<Rightarrow> jsstring"
  hs_lower :: "jsstring \<Rightarrow> jsstring"
  hs_env :: "jsstring \<Rightarrow> jsstring option"

definition sha256Hex :: "host \<Rightarrow> byte list \<Rightarrow> jsstring" where
  "sha256Hex h bs = hexEncode (hs_sha256 h bs)"

definition sha256Text :: "host \<Rightarrow> jsstring \<Rightarrow> jsstring" where
  "sha256Text h s = sha256Hex h (utf8Encode s)"

definition hashCanonicalJson :: "host \<Rightarrow> json \<Rightarrow> jsstring option" where
  "hashCanonicalJson h v = map_option (sha256Text h) (canonicalizeJson v)"

lemma hashCanonicalJson_wf: "wfJson v \<Longrightarrow> hashCanonicalJson h v = Some (sha256Text h (canonicalText v))"
  by (simp add: hashCanonicalJson_def canonicalizeJson_text)

section \<open>Well-formed strings\<close>

fun wellFormed16 :: "jsstring \<Rightarrow> bool" where
  "wellFormed16 [] = True"
| "wellFormed16 [c] = (\<not> isHighSurrogate c \<and> \<not> isLowSurrogate c)"
| "wellFormed16 (c # d # cs) =
     (if isHighSurrogate c then isLowSurrogate d \<and> wellFormed16 cs
      else \<not> isLowSurrogate c \<and> wellFormed16 (d # cs))"

lemma wellFormed16_plain:
  "\<forall>c \<in> set s. \<not> isHighSurrogate c \<and> \<not> isLowSurrogate c \<Longrightarrow> wellFormed16 s"
  by (induction s rule: wellFormed16.induct) auto

lemma wellFormed16_append: "wellFormed16 s \<Longrightarrow> wellFormed16 t \<Longrightarrow> wellFormed16 (s @ t)"
proof (induction s rule: wellFormed16.induct)
  case (2 c)
  then show ?case by (cases t) auto
next
  case (3 c d cs)
  then show ?case by (cases "isHighSurrogate c") auto
qed simp

definition plainUnit :: "code_unit \<Rightarrow> bool" where
  "plainUnit c \<longleftrightarrow> c < 55296"

lemma plainUnit_not_surrogate: "plainUnit c \<Longrightarrow> \<not> isHighSurrogate c \<and> \<not> isLowSurrogate c"
  by (auto simp: plainUnit_def isHighSurrogate_def isLowSurrogate_def word_le_nat_alt word_less_nat_alt)

lemma plain_wellFormed: "list_all plainUnit s \<Longrightarrow> wellFormed16 s"
  using plainUnit_not_surrogate by (auto intro!: wellFormed16_plain simp: list_all_iff)

lemma plain_hexDigitOf: "d < 16 \<Longrightarrow> plainUnit (hexDigitOf d)"
  by (auto simp: plainUnit_def hexDigitOf_def word_less_nat_alt unat_add_unit)

lemma plain_unicodeEscape: "list_all plainUnit (unicodeEscape c)"
  by (simp add: unicodeEscape_def plain_hexDigitOf nibble_less) (simp add: plainUnit_def)

lemma wellFormed_quoteUnit: "wellFormed16 (quoteUnit c)"
  by (auto simp: quoteUnit_def plain_wellFormed plain_unicodeEscape isHighSurrogate_def isLowSurrogate_def)

lemma wellFormed_quoteUnits: "wellFormed16 (quoteUnits s)"
  by (induction s rule: quoteUnits.induct) (auto simp: wellFormed_quoteUnit wellFormed16_append)

lemma wellFormed_quoted: "wellFormed16 (jsonStringifyString s)"
  unfolding jsonStringifyString_def
  by (intro wellFormed16_append wellFormed_quoteUnits) (simp_all add: isHighSurrogate_def isLowSurrogate_def)

lemma wellFormed_join: "\<forall>t \<in> set ts. wellFormed16 t \<Longrightarrow> wellFormed16 (joinWith [44] ts)"
proof (induction "[44] :: jsstring" ts rule: joinWith.induct)
  case (3 t u ts)
  have "wellFormed16 [44]" by (simp add: isHighSurrogate_def isLowSurrogate_def)
  with 3 show ?case by (simp add: wellFormed16_append del: append_Cons)
qed simp_all

lemma wellFormed_showInt: "wellFormed16 (showInt x)"
proof (rule plain_wellFormed)
  have "isDigit c \<Longrightarrow> plainUnit c" for c
    by (auto simp: isDigit_def plainUnit_def word_le_nat_alt word_less_nat_alt)
  then show "list_all plainUnit (showInt x)"
    using showNat_digits by (auto simp: showInt_def list_all_iff plainUnit_def)
qed

lemma wellFormed_bracket: "wellFormed16 t \<Longrightarrow> plainUnit a \<Longrightarrow> plainUnit b \<Longrightarrow> wellFormed16 ([a] @ t @ [b])"
  using plainUnit_not_surrogate [of a] plainUnit_not_surrogate [of b]
  by (intro wellFormed16_append) auto

lemma wellFormed_canonicalText: "wfJson v \<Longrightarrow> wellFormed16 (canonicalText v)"
proof (induction v)
  case (JNum x)
  then show ?case
    by (cases x) (auto simp: canonicalText_def serializeNumber_def wellFormed_showInt jstr_def
        unit_of_char_def isHighSurrogate_def isLowSurrogate_def)
next
  case (JArr vs)
  then have "wellFormed16 (joinWith [44] (map canonicalText vs))" by (intro wellFormed_join) auto
  then show ?case
    unfolding canonicalText_JArr [OF JArr.prems] by (rule wellFormed_bracket) (simp_all add: plainUnit_def)
next
  case (JObj ps)
  have "wellFormed16 (memberText (k, t))" if "wellFormed16 t" for k t
    unfolding memberText_def prod.case using that
    by (intro wellFormed16_append wellFormed_quoted) (simp_all add: isHighSurrogate_def isLowSurrogate_def)
  with JObj have "wellFormed16 (joinWith [44] (map (\<lambda>(k, v). memberText (k, canonicalText v)) (sort_key fst ps)))"
    by (intro wellFormed_join) (auto simp: prod.splits)
  then show ?case
    unfolding canonicalText_JObj [OF JObj.prems] by (rule wellFormed_bracket) (simp_all add: plainUnit_def)
qed (auto simp: canonicalText_def wellFormed_quoted jstr_def unit_of_char_def isHighSurrogate_def isLowSurrogate_def)

section \<open>The encoding is injective on well-formed strings\<close>

lemma unat_byte: "n < 256 \<Longrightarrow> unat (byteOf n) = n"
  unfolding byteOf_def by (simp only: unsigned_of_nat take_bit_eq_mod) simp

lemma byte_eq_iff: "m < 256 \<Longrightarrow> n < 256 \<Longrightarrow> byteOf m = byteOf n \<longleftrightarrow> m = n"
  by (metis unat_byte)

lemma div_mod_eq: "m div k = n div k \<Longrightarrow> m mod k = n mod k \<Longrightarrow> m = (n :: nat)"
  by (metis div_mult_mod_eq)

lemma utf8Bytes_prefix:
  assumes "m < 1114112" "n < 1114112" "utf8Bytes m @ xs = utf8Bytes n @ ys"
  shows "m = n \<and> xs = ys"
proof -
  have d: "m div 64 < 32" if "m < 2048" for m :: nat using that by simp
  have lead: "192 + m div 64 < 224" if "m < 2048" for m :: nat using that by simp
  have lead3: "224 + m div 4096 < 240" if "m < 65536" for m :: nat using that by simp
  have lead4: "240 + m div 262144 < 245" if "m < 1114112" for m :: nat using that by simp
  have tail: "128 + m mod 64 < 256" for m :: nat
    using mod_less_divisor [of 64 m] by simp
  have split3: "m div 4096 = m div 64 div 64" "m div 262144 = m div 64 div 64 div 64" for m :: nat
    by (simp_all flip: div_mult2_eq)
  consider "m < 128" | "128 \<le> m" "m < 2048" | "2048 \<le> m" "m < 65536" | "65536 \<le> m" by linarith
  then show ?thesis
    using assms lead [of m] lead [of n] lead3 [of m] lead3 [of n] lead4 [of m] lead4 [of n]
    by cases
      (auto simp: utf8Bytes_def byte_eq_iff tail split3 split: if_splits intro: div_mod_eq [of _ 64])
qed

lemma unat_eqD: "unat v = unat w \<Longrightarrow> v = (w :: 'a::len word)"
  by (rule unsigned_word_eqI)

lemma surrogate_ranges:
  "isHighSurrogate c \<longleftrightarrow> 55296 \<le> unat c \<and> unat c < 56320"
  "isLowSurrogate c \<longleftrightarrow> 56320 \<le> unat c \<and> unat c < 57344"
  by (auto simp: isHighSurrogate_def isLowSurrogate_def word_le_nat_alt)

lemma surrogatePair_bounds:
  assumes "isHighSurrogate c" "isLowSurrogate d"
  shows "65536 \<le> surrogatePair c d" "surrogatePair c d < 1114112"
  using assms by (auto simp: surrogatePair_def surrogate_ranges)

lemma surrogatePair_inject:
  assumes "isHighSurrogate c" "isLowSurrogate d" "isHighSurrogate e" "isLowSurrogate f"
    and "surrogatePair c d = surrogatePair e f"
  shows "c = e \<and> d = f"
proof -
  define p q r s where "p = unat c - 55296" "q = unat d - 56320" "r = unat e - 55296" "s = unat f - 56320"
  note defs = this
  have bounds: "q < 1024" "s < 1024" using assms by (auto simp: defs surrogate_ranges)
  have "p * 1024 + q = r * 1024 + s"
    using assms(5) by (simp add: surrogatePair_def defs)
  then have "(p * 1024 + q) div 1024 = (r * 1024 + s) div 1024" "(p * 1024 + q) mod 1024 = (r * 1024 + s) mod 1024"
    by simp_all
  then have "p = r" "q = s" using bounds by simp_all
  then have "unat c = unat e" "unat d = unat f"
    using assms(1-4) by (auto simp: defs surrogate_ranges)
  then show ?thesis by (blast intro: unat_eqD)
qed

lemma codePoints_bound: "n \<in> set (codePoints s) \<Longrightarrow> n < 1114112"
proof (induction s rule: codePoints.induct)
  case (2 c)
  then show ?case using unat_less_unit [of c] by (auto split: if_splits)
next
  case (3 c d cs)
  then show ?case
    using unat_less_unit [of c] surrogatePair_bounds(2) by (auto split: if_splits)
qed simp

text \<open>One step of \<open>codePoints\<close> on a well-formed string.\<close>

lemma codePoints_cases:
  assumes "wellFormed16 s" "s \<noteq> []"
  obtains (single) c cs where "s = c # cs" "\<not> isHighSurrogate c" "wellFormed16 cs" "codePoints s = unat c # codePoints cs"
  | (pair) c d cs where "s = c # d # cs" "isHighSurrogate c" "isLowSurrogate d" "wellFormed16 cs"
      "codePoints s = surrogatePair c d # codePoints cs"
  using assms by (cases s rule: codePoints.cases) (auto split: if_splits)

lemma codePoints_inject:
  "wellFormed16 s \<Longrightarrow> wellFormed16 t \<Longrightarrow> codePoints s = codePoints t \<Longrightarrow> s = t"
proof (induction "length s" arbitrary: s t rule: less_induct)
  case less
  have nil: "codePoints u = [] \<longleftrightarrow> u = []" for u by (cases u rule: codePoints.cases) auto
  show ?case
  proof (cases "s = []")
    case True
    with less show ?thesis by (simp add: nil [of t, THEN iffD1])
  next
    case False
    with less.prems nil have "t \<noteq> []" by metis
    from less.prems(1) False show ?thesis
    proof (cases rule: codePoints_cases)
      case (single c cs)
      from less.prems(2) \<open>t \<noteq> []\<close> show ?thesis
      proof (cases rule: codePoints_cases)
        case t: (single d ds)
        with single less.prems(3) have "unat c = unat d" "codePoints cs = codePoints ds" by simp_all
        with less.hyps [of cs ds] single t show ?thesis by (simp add: unat_eqD)
      next
        case t: (pair d e ds)
        with single less.prems(3) surrogatePair_bounds [of d e] unat_less_unit [of c] show ?thesis by simp
      qed
    next
      case (pair c d cs)
      from less.prems(2) \<open>t \<noteq> []\<close> show ?thesis
      proof (cases rule: codePoints_cases)
        case t: (single e ds)
        with pair less.prems(3) surrogatePair_bounds [of c d] unat_less_unit [of e] show ?thesis by simp
      next
        case t: (pair e f ds)
        with pair less.prems(3) have "surrogatePair c d = surrogatePair e f" "codePoints cs = codePoints ds"
          by simp_all
        with less.hyps [of cs ds] pair t surrogatePair_inject [of c d e f] show ?thesis by simp
      qed
    qed
  qed
qed

lemma utf8Bytes_not_Nil: "utf8Bytes n \<noteq> []"
  by (simp add: utf8Bytes_def)

lemma utf8Bytes_concat_inject:
  assumes "\<forall>n \<in> set ms. n < 1114112" "\<forall>n \<in> set ns. n < 1114112"
    and "concat (map utf8Bytes ms) = concat (map utf8Bytes ns)"
  shows "ms = ns"
  using assms
proof (induction ms arbitrary: ns)
  case Nil
  then show ?case by (cases ns) (simp_all add: utf8Bytes_not_Nil)
next
  case (Cons m ms)
  from Cons.prems(3) obtain n ns' where ns: "ns = n # ns'" by (cases ns) (simp_all add: utf8Bytes_not_Nil)
  from Cons.prems have "m = n \<and> concat (map utf8Bytes ms) = concat (map utf8Bytes ns')"
    by (intro utf8Bytes_prefix) (simp_all add: ns)
  with Cons.IH [of ns'] Cons.prems(1,2) show ?case by (simp add: ns)
qed

lemma utf8Encode_inject:
  "wellFormed16 s \<Longrightarrow> wellFormed16 t \<Longrightarrow> utf8Encode s = utf8Encode t \<longleftrightarrow> s = t"
  using codePoints_inject [of s t] utf8Bytes_concat_inject [of "codePoints s" "codePoints t"] codePoints_bound
  by (auto simp: utf8Encode_def)

text \<open>
  Hexadecimal digests are injective, so two canonical hashes agree only for equal values, or on an
  explicit collision of the hash function.
\<close>

lemma unat_hexNibble: "n < 16 \<Longrightarrow> unat (hexNibble n) = (if n < 10 then 48 + n else 87 + n)"
proof -
  assume n: "n < 16"
  then have "unat (word_of_nat n :: code_unit) = n"
    by (simp only: unsigned_of_nat take_bit_eq_mod) simp
  with n show ?thesis by (simp add: hexNibble_def unat_add_unit)
qed

lemma hexNibble_inject: "m < 16 \<Longrightarrow> n < 16 \<Longrightarrow> hexNibble m = hexNibble n \<Longrightarrow> m = n"
  by (drule arg_cong [where f = unat]) (simp add: unat_hexNibble split: if_splits)

lemma unat_byte_less: "unat (b :: byte) < 256"
proof -
  have "unat b < 2 ^ LENGTH(8)" by (rule unsigned_less)
  then show ?thesis by simp
qed

lemma hexEncode_inject: "hexEncode bs = hexEncode cs \<longleftrightarrow> bs = cs"
proof
  show "hexEncode bs = hexEncode cs \<Longrightarrow> bs = cs"
  proof (induction bs arbitrary: cs)
    case Nil
    then show ?case by (cases cs) (simp_all add: hexEncode_def)
  next
    case (Cons b bs)
    then obtain c ds where cs: "cs = c # ds" by (cases cs) (simp_all add: hexEncode_def)
    have small: "unat x div 16 < 16" for x :: byte using unat_byte_less [of x] by simp
    from Cons.prems cs small have "unat b div 16 = unat c div 16" "unat b mod 16 = unat c mod 16"
      by (auto simp: hexEncode_def intro!: hexNibble_inject)
    then have "b = c" by (blast intro: unat_eqD div_mod_eq)
    with Cons cs show ?case by (simp add: hexEncode_def)
  qed
qed simp

definition sha256Collision :: "host \<Rightarrow> bool" where
  "sha256Collision h \<longleftrightarrow> (\<exists>a b. a \<noteq> b \<and> hs_sha256 h a = hs_sha256 h b)"

lemma sha256Text_eqD:
  assumes "wellFormed16 s" "wellFormed16 t" "sha256Text h s = sha256Text h t"
  shows "s = t \<or> sha256Collision h"
  using assms utf8Encode_inject [of s t]
  by (auto simp: sha256Text_def sha256Hex_def hexEncode_inject sha256Collision_def)

section \<open>Properties\<close>

text \<open>
  The bytes that are hashed determine the value. The UTF-8 bytes of two canonical texts are equal
  exactly when the values are equal up to property order and the sign of zero: no lone surrogate is
  ever lost in the encoding.
\<close>

theorem canonical_bytes_faithful:
  assumes "wfJson v" "wfJson w"
  shows "utf8Encode (canonicalText v) = utf8Encode (canonicalText w) \<longleftrightarrow> normJson v = normJson w"
  using utf8Encode_inject [OF wellFormed_canonicalText wellFormed_canonicalText, OF assms]
    canonicalText_eq_iff [OF assms] by simp

theorem canonical_bytes_faithful_witness:
  "utf8Encode (canonicalText (JStr [55296])) \<noteq> utf8Encode (canonicalText (JStr [65533])) \<and>
   utf8Encode [55296] = utf8Encode [65533]"
proof
  show "utf8Encode (canonicalText (JStr [55296])) \<noteq> utf8Encode (canonicalText (JStr [65533]))"
    by (subst canonical_bytes_faithful) simp_all
  show "utf8Encode [55296] = utf8Encode [65533]"
    by (simp add: utf8Encode_def isHighSurrogate_def isLowSurrogate_def)
qed

text \<open>
  A canonical hash commits to the value. Two parsed values with the same \<open>hashCanonicalJson\<close> are
  equal up to property order and the sign of zero, unless SHA-256 has a collision.
\<close>

theorem hashCanonicalJson_commits:
  assumes "parseStrictJson s = ParseOk v []" "parseStrictJson t = ParseOk w []"
    and "hashCanonicalJson h v = hashCanonicalJson h w"
  shows "normJson v = normJson w \<or> sha256Collision h"
proof -
  have wf: "wfJson v" "wfJson w"
    using assms(1,2) by (auto intro: parseStrictJson_wf)
  with assms(3) have "sha256Text h (canonicalText v) = sha256Text h (canonicalText w)"
    by (simp add: hashCanonicalJson_wf)
  then show ?thesis
    using sha256Text_eqD [OF wellFormed_canonicalText wellFormed_canonicalText, OF wf]
      canonicalText_eq_iff [OF wf] by blast
qed

text \<open>
  A concrete host for the witnesses: the hash is the identity, a key signs by prepending a byte and
  verifies by removing it, case folding acts on ASCII letters only.
\<close>

definition testHost :: host where
  "testHost =
     \<lparr>hs_sha256 = (\<lambda>bs. bs), hs_hmac = (\<lambda>k m. k @ m),
      hs_policyVerify = (\<lambda>k m s. Some (s = 7 # m)),
      hs_receiptSign = (\<lambda>m. Some (7 # m)), hs_receiptVerify = (\<lambda>pem m s. Some (s = 7 # m)),
      hs_rawKey = (\<lambda>pem. Some [1, 2, 3, 4, 5, 6, 7, 8]), hs_publicPem = [80],
      hs_nfkc = (\<lambda>s. s), hs_lower = map (\<lambda>c. if 65 \<le> c \<and> c \<le> 90 then c + 32 else c),
      hs_env = (\<lambda>k. None)\<rparr>"

lemma testHost_simps [simp]:
  "hs_sha256 testHost bs = bs"
  "hs_hmac testHost k m = k @ m"
  "hs_policyVerify testHost k m s = Some (s = 7 # m)"
  "hs_receiptSign testHost m = Some (7 # m)"
  "hs_receiptVerify testHost pem m s = Some (s = 7 # m)"
  "hs_rawKey testHost pem = Some [1, 2, 3, 4, 5, 6, 7, 8]"
  "hs_publicPem testHost = [80]"
  "hs_nfkc testHost t = t"
  "hs_lower testHost t = map (\<lambda>c. if 65 \<le> c \<and> c \<le> 90 then c + 32 else c) t"
  "hs_env testHost n = None"
  by (simp_all add: testHost_def)

theorem hashCanonicalJson_commits_witness:
  "normJson (JObj [(jstr ''a'', JNull), (jstr ''b'', JArr [])]) =
   normJson (JObj [(jstr ''b'', JArr []), (jstr ''a'', JNull)]) \<or> sha256Collision testHost"
proof (rule hashCanonicalJson_commits [where h = testHost])
  show "parseStrictJson (jstr [CHR ''{'', CHR 0x22, CHR ''a'', CHR 0x22, CHR '':'', CHR ''n'', CHR ''u'', CHR ''l'', CHR ''l'',
      CHR '','', CHR 0x22, CHR ''b'', CHR 0x22, CHR '':'', CHR ''['', CHR '']'', CHR ''}'']) =
    ParseOk (JObj [(jstr ''a'', JNull), (jstr ''b'', JArr [])]) []"
    by code_simp
  show "parseStrictJson (jstr [CHR ''{'', CHR 0x22, CHR ''b'', CHR 0x22, CHR '':'', CHR ''['', CHR '']'',
      CHR '','', CHR 0x22, CHR ''a'', CHR 0x22, CHR '':'', CHR ''n'', CHR ''u'', CHR ''l'', CHR ''l'', CHR ''}'']) =
    ParseOk (JObj [(jstr ''b'', JArr []), (jstr ''a'', JNull)]) []"
    by code_simp
  show "hashCanonicalJson testHost (JObj [(jstr ''a'', JNull), (jstr ''b'', JArr [])]) =
      hashCanonicalJson testHost (JObj [(jstr ''b'', JArr []), (jstr ''a'', JNull)])"
    unfolding hashCanonicalJson_def
    by (rule arg_cong [where f = "map_option (sha256Text testHost)"]) code_simp
qed

end
