(* ===== verification/Contracts.thy ===== *)
theory Contracts
  imports Bytes
begin

text \<open>
  \<open>src/shared/contracts.ts\<close>: the reason codes, the validated execution input and the traces of the
  four layers, as records with the fields of the source, and the JSON object each of them is when it
  is canonicalized. Numbers of a validated input are safe integers other than minus zero, hence \<open>int\<close>.

  A lookup \<open>root.key\<close> is \<open>map_of root key\<close> (\<open>None\<close> for \<open>undefined\<close>), and \<open>Object.keys\<close> lists the
  array indices first, in ascending order.
\<close>

section \<open>Objects\<close>

definition isArrayIndex :: "jsstring \<Rightarrow> bool" where
  "isArrayIndex k \<longleftrightarrow> k \<noteq> [] \<and> list_all isDigit k \<and> (k = [48] \<or> hd k \<noteq> 48) \<and> int (digitsValue k) < 4294967295"

definition objectEntries :: "(jsstring \<times> 'a) list \<Rightarrow> (jsstring \<times> 'a) list" where
  "objectEntries ps =
     sort_key (\<lambda>p. digitsValue (fst p)) (filter (\<lambda>p. isArrayIndex (fst p)) ps) @
     filter (\<lambda>p. \<not> isArrayIndex (fst p)) ps"

definition objectKeys :: "(jsstring \<times> 'a) list \<Rightarrow> jsstring list" where
  "objectKeys ps = map fst (objectEntries ps)"

lemma set_objectEntries [simp]: "set (objectEntries ps) = set ps"
  by (auto simp: objectEntries_def)

lemma set_objectKeys [simp]: "set (objectKeys ps) = fst ` set ps"
  by (simp add: objectKeys_def)

fun asRecord :: "json option \<Rightarrow> jsobject option" where
  "asRecord (Some (JObj ps)) = Some ps"
| "asRecord _ = None"

fun asArray :: "json option \<Rightarrow> json list option" where
  "asArray (Some (JArr vs)) = Some vs"
| "asArray _ = None"

lemma asRecord_eq_Some: "asRecord v = Some ps \<longleftrightarrow> v = Some (JObj ps)"
  by (cases v rule: asRecord.cases) auto

lemma asArray_eq_Some: "asArray v = Some vs \<longleftrightarrow> v = Some (JArr vs)"
  by (cases v rule: asArray.cases) auto

lemma wfJson_lookup: "wfJson (JObj ps) \<Longrightarrow> map_of ps k = Some v \<Longrightarrow> wfJson v"
  by (auto dest!: map_of_SomeD)

text \<open>Looking up a property in the normal form of an object.\<close>

definition normObject :: "jsobject \<Rightarrow> jsobject" where
  "normObject ps = sort_key fst (map (\<lambda>(k, v). (k, normJson v)) ps)"

lemma normJson_JObj: "normJson (JObj ps) = JObj (normObject ps)"
  by (simp add: normObject_def)

lemma map_of_sort_key: "distinct (map fst ps) \<Longrightarrow> map_of (sort_key fst ps) = map_of ps"
proof -
  assume dist: "distinct (map fst ps)"
  have "map_of (sort_key fst ps) k = Some v \<longleftrightarrow> map_of ps k = Some v" for k v
    using dist by (simp add: distinct_sort_key_fst)
  then show ?thesis by (metis not_None_eq option.inject ext)
qed

lemma map_of_normObject:
  "distinct (map fst ps) \<Longrightarrow> map_of (normObject ps) k = map_option normJson (map_of ps k)"
  by (simp add: normObject_def map_of_sort_key map_fst_sort_key_pairs map_of_map del: map_map)

lemma normObject_eq_lookup:
  assumes "normObject ps = normObject qs" "distinct (map fst ps)" "distinct (map fst qs)"
  shows "map_option normJson (map_of ps k) = map_option normJson (map_of qs k)"
  using assms map_of_normObject by metis

section \<open>Reason codes\<close>

datatype reason_code =
    SchemaValidation | DuplicateJsonKeys | InvalidJsonSyntax | InvalidJsonNumber | TypeMismatch
  | NonDeterministicInput | PolicyVersionMismatch | PolicyKeyIdMismatch | InvalidPolicySignature
  | ToolCallSequence | OrbitMultipleActions | ForbiddenActionInParameters
  | ExecutionIdAlreadyConsumed | ExecutionIdReplayed | BudgetTokenExhausted | IntegerOverflow
  | CostLimit | AutoScaleDenied | GpuLimit | HoursLimit | RetryLimit | ManualApprovalRequired
  | KillSwitch | RuntimeGpuDrift | RuntimeHoursDrift | RuntimeCostDrift | ReceiptSignatureInvalid
  | ReplayMismatch | OkAllow | OkOrbit | OkArm | OkRamona

fun reasonText :: "reason_code \<Rightarrow> jsstring" where
  "reasonText SchemaValidation = jstr ''ERR_SCHEMA_VALIDATION''"
| "reasonText DuplicateJsonKeys = jstr ''ERR_DUPLICATE_JSON_KEYS''"
| "reasonText InvalidJsonSyntax = jstr ''ERR_INVALID_JSON_SYNTAX''"
| "reasonText InvalidJsonNumber = jstr ''ERR_INVALID_JSON_NUMBER''"
| "reasonText TypeMismatch = jstr ''ERR_TYPE_MISMATCH''"
| "reasonText NonDeterministicInput = jstr ''ERR_NON_DETERMINISTIC_INPUT''"
| "reasonText PolicyVersionMismatch = jstr ''ERR_POLICY_VERSION_MISMATCH''"
| "reasonText PolicyKeyIdMismatch = jstr ''ERR_POLICY_KEY_ID_MISMATCH''"
| "reasonText InvalidPolicySignature = jstr ''ERR_INVALID_POLICY_SIGNATURE''"
| "reasonText ToolCallSequence = jstr ''ERR_TOOL_CALL_SEQUENCE''"
| "reasonText OrbitMultipleActions = jstr ''ERR_ORBIT_MULTIPLE_ACTIONS''"
| "reasonText ForbiddenActionInParameters = jstr ''ERR_FORBIDDEN_ACTION_IN_PARAMETERS''"
| "reasonText ExecutionIdAlreadyConsumed = jstr ''ERR_EXECUTION_ID_ALREADY_CONSUMED''"
| "reasonText ExecutionIdReplayed = jstr ''ERR_EXECUTION_ID_REPLAYED''"
| "reasonText BudgetTokenExhausted = jstr ''ERR_BUDGET_TOKEN_EXHAUSTED''"
| "reasonText IntegerOverflow = jstr ''ERR_INTEGER_OVERFLOW''"
| "reasonText CostLimit = jstr ''ERR_COST_LIMIT''"
| "reasonText AutoScaleDenied = jstr ''ERR_AUTO_SCALE_DENIED''"
| "reasonText GpuLimit = jstr ''ERR_GPU_LIMIT''"
| "reasonText HoursLimit = jstr ''ERR_HOURS_LIMIT''"
| "reasonText RetryLimit = jstr ''ERR_RETRY_LIMIT''"
| "reasonText ManualApprovalRequired = jstr ''ERR_MANUAL_APPROVAL_REQUIRED''"
| "reasonText KillSwitch = jstr ''ERR_KILL_SWITCH''"
| "reasonText RuntimeGpuDrift = jstr ''ERR_RUNTIME_GPU_DRIFT''"
| "reasonText RuntimeHoursDrift = jstr ''ERR_RUNTIME_HOURS_DRIFT''"
| "reasonText RuntimeCostDrift = jstr ''ERR_RUNTIME_COST_DRIFT''"
| "reasonText ReceiptSignatureInvalid = jstr ''ERR_RECEIPT_SIGNATURE_INVALID''"
| "reasonText ReplayMismatch = jstr ''ERR_REPLAY_MISMATCH''"
| "reasonText OkAllow = jstr ''OK_ALLOW''"
| "reasonText OkOrbit = jstr ''OK_ORBIT''"
| "reasonText OkArm = jstr ''OK_ARM''"
| "reasonText OkRamona = jstr ''OK_RAM0NA''"

datatype decision = Allow | Refuse

fun decisionText :: "decision \<Rightarrow> jsstring" where
  "decisionText Allow = jstr ''ALLOW''"
| "decisionText Refuse = jstr ''REFUSE''"

text \<open>Decisions are ordered, \<open>REFUSE\<close> below \<open>ALLOW\<close>: layers that must all agree take the minimum.\<close>

instantiation decision :: linorder
begin

definition less_eq_decision :: "decision \<Rightarrow> decision \<Rightarrow> bool" where
  "less_eq_decision a b \<longleftrightarrow> a = Refuse \<or> b = Allow"

definition less_decision :: "decision \<Rightarrow> decision \<Rightarrow> bool" where
  "less_decision a b \<longleftrightarrow> a = Refuse \<and> b = Allow"

instance
proof
  fix a b c :: decision
  show "a < b \<longleftrightarrow> a \<le> b \<and> \<not> b \<le> a"
    by (cases a; cases b) (simp_all add: less_eq_decision_def less_decision_def)
  show "a \<le> a" by (cases a) (simp_all add: less_eq_decision_def)
  show "a \<le> b \<Longrightarrow> b \<le> c \<Longrightarrow> a \<le> c" by (auto simp: less_eq_decision_def)
  show "a \<le> b \<Longrightarrow> b \<le> a \<Longrightarrow> a = b" by (auto simp: less_eq_decision_def)
  show "a \<le> b \<or> b \<le> a" by (cases a; cases b) (simp_all add: less_eq_decision_def)
qed

end

lemma min_decision_Allow [simp]: "min a b = Allow \<longleftrightarrow> a = Allow \<and> b = Allow"
  by (cases a; cases b) (simp_all add: min_def less_eq_decision_def)

lemma decision_not: "d \<noteq> Allow \<longleftrightarrow> d = Refuse" "d \<noteq> Refuse \<longleftrightarrow> d = Allow"
  by (cases d; simp)+

section \<open>The validated input\<close>

record tool_call =
  tc_tool :: jsstring
  tc_priority :: int
  tc_parameters :: "jsobject option"

record resources_spec =
  rs_gpu_type :: jsstring
  rs_gpu_count :: int
  rs_hours :: int

record execution_spec =
  ex_auto_scale :: bool
  ex_max_scale_multiplier :: int
  ex_retry_on_fail :: bool
  ex_max_retries :: int

record signature_spec =
  sg_alg :: jsstring
  sg_sig :: jsstring

record orbit_intent =
  oi_orbit_version :: jsstring
  oi_action :: jsstring
  oi_boundary :: jsstring
  oi_payload_tool_calls :: "tool_call list"
  oi_lifecycle_state :: jsstring
  oi_signatures :: "signature_spec list"

record release_request =
  rr_execution_id :: jsstring
  rr_hold_state :: jsstring
  rr_already_consumed :: bool

record runtime_observation =
  ro_kill_switch_active :: bool
  ro_actual_gpu_count :: int
  ro_actual_hours :: int
  ro_actual_total_cost_cents :: int

record execution_request =
  er_request_id :: jsstring
  er_submitted_region :: jsstring
  er_user_id :: jsstring
  er_resources :: resources_spec
  er_execution :: execution_spec
  er_tool_calls :: "tool_call list"
  er_parameters :: "jsobject option"
  er_orbit_intent :: orbit_intent
  er_release_request :: release_request
  er_runtime_observation :: runtime_observation
  er_budget_token :: "jsstring option"

record policy_trust =
  pt_key_version :: jsstring
  pt_key_id :: jsstring
  pt_public_key :: jsstring
  pt_signature :: jsstring

record policy_rules =
  pr_max_total_cost_cents :: int
  pr_allow_auto_scale :: bool
  pr_max_gpu_count :: int
  pr_max_hours :: int
  pr_require_manual_approval_above_cents :: int
  pr_max_retry_count :: int

record policy_document =
  pd_schema_version :: jsstring
  pd_policy_version :: jsstring
  pd_trust :: "policy_trust option"
  pd_rules :: policy_rules

record canonical_input =
  ci_execution_request :: execution_request
  ci_policy_document :: policy_document
  ci_gpu_hour_cents :: int

section \<open>Results of the layers\<close>

record parsed_envelope =
  pe_raw_input :: jsstring
  pe_canonical_input :: jsstring
  pe_request_hash :: jsstring
  pe_parsed_input :: canonical_input
  pe_policy_hash :: jsstring

text \<open>The decision of a typed failure is always \<open>REFUSE\<close>, its \<open>parse_boundary\<close> always true.\<close>

record typed_failure =
  tf_request_hash :: jsstring
  tf_decision_hash :: jsstring
  tf_reason_code :: reason_code

record preflight_trace =
  pft_request_hash :: jsstring
  pft_policy_hash :: jsstring
  pft_policy_version :: jsstring

record orbit_trace =
  ot_decision :: decision
  ot_reason_code :: reason_code
  ot_validation_hash :: jsstring

record arm_trace =
  at_decision :: decision
  at_reason_code :: reason_code
  at_projected_total_cost_cents :: int
  at_allowed_cost_cents :: int
  at_prevented_cost_cents :: int
  at_execution_id :: jsstring
  at_budget_token :: "jsstring option"

record ramona_trace =
  rt_decision :: decision
  rt_reason_code :: reason_code
  rt_runtime_hash :: jsstring

record decision_output =
  do_decision :: decision
  do_decision_hash :: jsstring
  do_request_hash :: jsstring
  do_reason_code :: reason_code
  do_total_cost_usd :: jsstring
  do_allowed_cost_usd :: jsstring
  do_prevented_cost_usd :: jsstring
  do_policy_version :: jsstring
  do_policy_hash :: jsstring
  do_execution_id :: jsstring
  do_key_set_version :: jsstring

record receipt_payload =
  rp_canonical_request :: jsstring
  rp_request_hash :: jsstring
  rp_decision_output :: decision_output
  rp_preflight :: preflight_trace
  rp_orbit :: orbit_trace
  rp_arm :: arm_trace
  rp_ramona :: ramona_trace

record hmac_signature =
  hm_key_id :: jsstring
  hm_value :: jsstring

record public_signature =
  ps_key_id :: jsstring
  ps_public_key_fingerprint :: jsstring
  ps_public_key_pem :: jsstring
  ps_value :: jsstring

record signed_receipt =
  sr_payload :: receipt_payload
  sr_signature :: hmac_signature
  sr_verifiable_signature :: public_signature

section \<open>Their JSON objects\<close>

definition jint :: "int \<Rightarrow> json" where
  "jint n = JNum (IntNum n)"

definition optField :: "string \<Rightarrow> json option \<Rightarrow> jsobject" where
  "optField k v = (case v of None \<Rightarrow> [] | Some x \<Rightarrow> [(jstr k, x)])"

definition toolCallJson :: "tool_call \<Rightarrow> json" where
  "toolCallJson c = JObj ([(jstr ''tool'', JStr (tc_tool c)), (jstr ''priority'', jint (tc_priority c))] @
     optField ''parameters'' (map_option JObj (tc_parameters c)))"

definition toolCallsJson :: "tool_call list \<Rightarrow> json" where
  "toolCallsJson cs = JArr (map toolCallJson cs)"

definition signatureJson :: "signature_spec \<Rightarrow> json" where
  "signatureJson s = JObj [(jstr ''alg'', JStr (sg_alg s)), (jstr ''sig'', JStr (sg_sig s))]"

definition orbitIntentJson :: "orbit_intent \<Rightarrow> json" where
  "orbitIntentJson i = JObj
     [(jstr ''orbit_version'', JStr (oi_orbit_version i)),
      (jstr ''action'', JStr (oi_action i)),
      (jstr ''boundary'', JStr (oi_boundary i)),
      (jstr ''payload'', JObj [(jstr ''tool_calls'', toolCallsJson (oi_payload_tool_calls i))]),
      (jstr ''lifecycle_state'', JStr (oi_lifecycle_state i)),
      (jstr ''signatures'', JArr (map signatureJson (oi_signatures i)))]"

definition runtimeObservationJson :: "runtime_observation \<Rightarrow> json" where
  "runtimeObservationJson r = JObj
     [(jstr ''kill_switch_active'', JBool (ro_kill_switch_active r)),
      (jstr ''actual_gpu_count'', jint (ro_actual_gpu_count r)),
      (jstr ''actual_hours'', jint (ro_actual_hours r)),
      (jstr ''actual_total_cost_cents'', jint (ro_actual_total_cost_cents r))]"

definition rulesJson :: "policy_rules \<Rightarrow> json" where
  "rulesJson r = JObj
     [(jstr ''max_total_cost_cents'', jint (pr_max_total_cost_cents r)),
      (jstr ''allow_auto_scale'', JBool (pr_allow_auto_scale r)),
      (jstr ''max_gpu_count'', jint (pr_max_gpu_count r)),
      (jstr ''max_hours'', jint (pr_max_hours r)),
      (jstr ''require_manual_approval_above_cents'', jint (pr_require_manual_approval_above_cents r)),
      (jstr ''max_retry_count'', jint (pr_max_retry_count r))]"

definition preflightTraceJson :: "preflight_trace \<Rightarrow> json" where
  "preflightTraceJson t = JObj
     [(jstr ''layer'', JStr (jstr ''preflight'')),
      (jstr ''request_hash'', JStr (pft_request_hash t)),
      (jstr ''policy_hash'', JStr (pft_policy_hash t)),
      (jstr ''policy_version'', JStr (pft_policy_version t))]"

definition orbitTraceJson :: "orbit_trace \<Rightarrow> json" where
  "orbitTraceJson t = JObj
     [(jstr ''layer'', JStr (jstr ''orbit'')),
      (jstr ''decision'', JStr (decisionText (ot_decision t))),
      (jstr ''reason_code'', JStr (reasonText (ot_reason_code t))),
      (jstr ''validation_hash'', JStr (ot_validation_hash t))]"

definition armTraceJson :: "arm_trace \<Rightarrow> json" where
  "armTraceJson t = JObj
     ([(jstr ''layer'', JStr (jstr ''arm'')),
       (jstr ''decision'', JStr (decisionText (at_decision t))),
       (jstr ''reason_code'', JStr (reasonText (at_reason_code t))),
       (jstr ''projected_total_cost_cents'', jint (at_projected_total_cost_cents t)),
       (jstr ''allowed_cost_cents'', jint (at_allowed_cost_cents t)),
       (jstr ''prevented_cost_cents'', jint (at_prevented_cost_cents t)),
       (jstr ''execution_id'', JStr (at_execution_id t))] @
      optField ''budget_token'' (map_option JStr (at_budget_token t)))"

definition ramonaTraceJson :: "ramona_trace \<Rightarrow> json" where
  "ramonaTraceJson t = JObj
     [(jstr ''layer'', JStr (jstr ''ramona'')),
      (jstr ''decision'', JStr (decisionText (rt_decision t))),
      (jstr ''reason_code'', JStr (reasonText (rt_reason_code t))),
      (jstr ''runtime_hash'', JStr (rt_runtime_hash t))]"

definition decisionOutputJson :: "decision_output \<Rightarrow> json" where
  "decisionOutputJson d = JObj
     [(jstr ''decision'', JStr (decisionText (do_decision d))),
      (jstr ''decision_hash'', JStr (do_decision_hash d)),
      (jstr ''request_hash'', JStr (do_request_hash d)),
      (jstr ''reason_code'', JStr (reasonText (do_reason_code d))),
      (jstr ''total_cost_usd'', JStr (do_total_cost_usd d)),
      (jstr ''allowed_cost_usd'', JStr (do_allowed_cost_usd d)),
      (jstr ''prevented_cost_usd'', JStr (do_prevented_cost_usd d)),
      (jstr ''policy_version'', JStr (do_policy_version d)),
      (jstr ''policy_hash'', JStr (do_policy_hash d)),
      (jstr ''execution_id'', JStr (do_execution_id d)),
      (jstr ''key_set_version'', JStr (do_key_set_version d))]"

definition payloadFields :: "receipt_payload \<Rightarrow> jsobject" where
  "payloadFields p =
     [(jstr ''schema_version'', JStr (jstr ''ecs.receipt.v2'')),
      (jstr ''canonical_request'', JStr (rp_canonical_request p)),
      (jstr ''request_hash'', JStr (rp_request_hash p)),
      (jstr ''decision_output'', decisionOutputJson (rp_decision_output p)),
      (jstr ''pipeline_trace'', JObj
         [(jstr ''preflight'', preflightTraceJson (rp_preflight p)),
          (jstr ''orbit'', orbitTraceJson (rp_orbit p)),
          (jstr ''arm'', armTraceJson (rp_arm p)),
          (jstr ''ramona'', ramonaTraceJson (rp_ramona p))])]"

definition receiptFields :: "signed_receipt \<Rightarrow> jsobject" where
  "receiptFields r = payloadFields (sr_payload r) @
     [(jstr ''signature'', JObj
         [(jstr ''algorithm'', JStr (jstr ''HMAC-SHA256'')),
          (jstr ''key_id'', JStr (hm_key_id (sr_signature r))),
          (jstr ''value'', JStr (hm_value (sr_signature r)))]),
      (jstr ''verifiable_signature'', JObj
         [(jstr ''algorithm'', JStr (jstr ''ED25519'')),
          (jstr ''key_id'', JStr (ps_key_id (sr_verifiable_signature r))),
          (jstr ''public_key_fingerprint'', JStr (ps_public_key_fingerprint (sr_verifiable_signature r))),
          (jstr ''public_key_pem'', JStr (ps_public_key_pem (sr_verifiable_signature r))),
          (jstr ''value'', JStr (ps_value (sr_verifiable_signature r)))])]"

section \<open>When they are well-formed\<close>

named_theorems json_defs \<open>the JSON objects of the records\<close>

lemmas [json_defs] = jint_def optField_def toolCallJson_def toolCallsJson_def signatureJson_def
  orbitIntentJson_def runtimeObservationJson_def rulesJson_def preflightTraceJson_def
  orbitTraceJson_def armTraceJson_def ramonaTraceJson_def decisionOutputJson_def payloadFields_def
  receiptFields_def

definition wfToolCall :: "tool_call \<Rightarrow> bool" where
  "wfToolCall c \<longleftrightarrow> isSafeInteger (tc_priority c) \<and>
     (case tc_parameters c of None \<Rightarrow> True | Some ps \<Rightarrow> wfJson (JObj ps))"

lemma wfJson_toolCall: "wfToolCall c \<Longrightarrow> wfJson (toolCallJson c)"
  by (auto simp: wfToolCall_def json_defs split: option.splits)

lemma wfJson_toolCalls: "\<forall>c \<in> set cs. wfToolCall c \<Longrightarrow> wfJson (toolCallsJson cs)"
  by (auto simp: toolCallsJson_def wfJson_toolCall)

lemma wfJson_signature [simp]: "wfJson (signatureJson s)"
  by (simp add: signatureJson_def)

lemma wfJson_orbitIntent: "\<forall>c \<in> set (oi_payload_tool_calls i). wfToolCall c \<Longrightarrow> wfJson (orbitIntentJson i)"
  by (simp add: orbitIntentJson_def wfJson_toolCalls)

lemma wfJson_runtimeObservation:
  "isSafeInteger (ro_actual_gpu_count r) \<Longrightarrow> isSafeInteger (ro_actual_hours r) \<Longrightarrow>
   isSafeInteger (ro_actual_total_cost_cents r) \<Longrightarrow> wfJson (runtimeObservationJson r)"
  by (simp add: runtimeObservationJson_def jint_def)

definition wfRules :: "policy_rules \<Rightarrow> bool" where
  "wfRules r \<longleftrightarrow> isSafeInteger (pr_max_total_cost_cents r) \<and> isSafeInteger (pr_max_gpu_count r) \<and>
     isSafeInteger (pr_max_hours r) \<and> isSafeInteger (pr_require_manual_approval_above_cents r) \<and>
     isSafeInteger (pr_max_retry_count r)"

lemma wfJson_rules: "wfRules r \<Longrightarrow> wfJson (rulesJson r)"
  by (simp add: rulesJson_def jint_def wfRules_def)

definition wfArm :: "arm_trace \<Rightarrow> bool" where
  "wfArm t \<longleftrightarrow> isSafeInteger (at_projected_total_cost_cents t) \<and> isSafeInteger (at_allowed_cost_cents t) \<and>
     isSafeInteger (at_prevented_cost_cents t)"

lemma wfJson_arm: "wfArm t \<Longrightarrow> wfJson (armTraceJson t)"
  by (auto simp: json_defs wfArm_def split: option.splits)

lemma wfJson_payload: "wfArm (rp_arm p) \<Longrightarrow> wfJson (JObj (payloadFields p))"
  by (simp add: payloadFields_def decisionOutputJson_def preflightTraceJson_def orbitTraceJson_def
      ramonaTraceJson_def wfJson_arm)

lemma wfJson_receipt: "wfArm (rp_arm (sr_payload r)) \<Longrightarrow> wfJson (JObj (receiptFields r))"
  by (simp add: receiptFields_def payloadFields_def decisionOutputJson_def preflightTraceJson_def
      orbitTraceJson_def ramonaTraceJson_def wfJson_arm)

end
