(* ===== verification/JsRegex.thy ===== *)
theory JsRegex
  imports Bytes
begin

text \<open>
  The regular expressions the program uses, as backtracking matchers: a matcher maps the remaining
  text to the (consumed, rest) pairs in the order in which a JavaScript engine tries them, so the first
  one is the match. \<open>replaceGlobal\<close> is \<open>text.replace(/../g, f)\<close>: leftmost matches first, the search
  going on after each match, with the character before the current position at hand for a lookbehind.
\<close>

type_synonym matcher = "jsstring \<Rightarrow> (jsstring \<times> jsstring) list"

definition mLit :: "jsstring \<Rightarrow> matcher" where
  "mLit t s = (if jsStartsWith s t then [(t, drop (length t) s)] else [])"

definition mCls :: "(code_unit \<Rightarrow> bool) \<Rightarrow> matcher" where
  "mCls P s = (case s of c # cs \<Rightarrow> if P c then [([c], cs)] else [] | [] \<Rightarrow> [])"

definition mSeq :: "matcher \<Rightarrow> matcher \<Rightarrow> matcher" where
  "mSeq a b s = concat (map (\<lambda>(c, r). map (\<lambda>(d, r2). (c @ d, r2)) (b r)) (a s))"

definition mAlt :: "matcher list \<Rightarrow> matcher" where
  "mAlt ms s = concat (map (\<lambda>m. m s) ms)"

definition mOpt :: "matcher \<Rightarrow> matcher" where
  "mOpt a s = a s @ [([], s)]"

primrec mTimes :: "nat \<Rightarrow> matcher \<Rightarrow> matcher" where
  "mTimes 0 a s = [([], s)]"
| "mTimes (Suc n) a s = mSeq a (mTimes n a) s"

primrec mUpTo :: "nat \<Rightarrow> matcher \<Rightarrow> matcher" where
  "mUpTo 0 a s = [([], s)]"
| "mUpTo (Suc n) a s = mOpt (mSeq a (mUpTo n a)) s"

text \<open>\<open>a{m,n}\<close>, greedy.\<close>

definition mRep :: "nat \<Rightarrow> nat \<Rightarrow> matcher \<Rightarrow> matcher" where
  "mRep m n a = mSeq (mTimes m a) (mUpTo (n - m) a)"

text \<open>\<open>a(?!class)\<close> and \<open>^a$\<close>.\<close>

definition mNotAhead :: "matcher \<Rightarrow> (code_unit \<Rightarrow> bool) \<Rightarrow> matcher" where
  "mNotAhead a P s = filter (\<lambda>(c, r). \<not> (case r of d # _ \<Rightarrow> P d | [] \<Rightarrow> False)) (a s)"

definition fullMatch :: "matcher \<Rightarrow> jsstring \<Rightarrow> bool" where
  "fullMatch a s \<longleftrightarrow> list_ex (\<lambda>(c, r). r = []) (a s)"

definition firstMatch :: "matcher \<Rightarrow> jsstring \<Rightarrow> (jsstring \<times> jsstring) option" where
  "firstMatch a s = (case a s of [] \<Rightarrow> None | p # _ \<Rightarrow> Some p)"

text \<open>
  The guard on the length only serves termination: a matcher that consumes at least one unit
  (\<open>splits\<close> below) always satisfies it.
\<close>

function replaceGlobal ::
  "(code_unit option \<Rightarrow> matcher) \<Rightarrow> (jsstring \<Rightarrow> jsstring) \<Rightarrow> code_unit option \<Rightarrow> jsstring \<Rightarrow> jsstring" where
  "replaceGlobal m f prev [] = []"
| "replaceGlobal m f prev (c # cs) =
     (case firstMatch (m prev) (c # cs) of
        None \<Rightarrow> c # replaceGlobal m f (Some c) cs
      | Some (tok, rest) \<Rightarrow>
          if length rest < length (c # cs) then f tok @ replaceGlobal m f (Some (last tok)) rest
          else c # replaceGlobal m f (Some c) cs)"
  by pat_completeness auto
termination by (relation "measure (\<lambda>(m, f, prev, s). length s)") auto

section \<open>Matchers split the text\<close>

definition splits :: "matcher \<Rightarrow> bool" where
  "splits a \<longleftrightarrow> (\<forall>s. \<forall>(c, r) \<in> set (a s). s = c @ r)"

lemma splitsI: "(\<And>s c r. (c, r) \<in> set (a s) \<Longrightarrow> s = c @ r) \<Longrightarrow> splits a"
  by (auto simp: splits_def)

lemma splitsD: "splits a \<Longrightarrow> (c, r) \<in> set (a s) \<Longrightarrow> s = c @ r"
  by (auto simp: splits_def)

lemma splits_intros [intro]:
  "splits (mLit t)" "splits (mCls P)"
  "splits a \<Longrightarrow> splits b \<Longrightarrow> splits (mSeq a b)"
  "\<forall>m \<in> set ms. splits m \<Longrightarrow> splits (mAlt ms)"
  "splits a \<Longrightarrow> splits (mOpt a)"
  "splits a \<Longrightarrow> splits (mNotAhead a P)"
proof -
  show "splits (mLit t)"
    by (rule splitsI) (auto simp: mLit_def jsStartsWith_iff split: if_splits)
  show "splits (mCls P)"
    by (rule splitsI) (auto simp: mCls_def split: list.splits if_splits)
  show "splits a \<Longrightarrow> splits b \<Longrightarrow> splits (mSeq a b)"
    by (rule splitsI) (fastforce simp: mSeq_def dest: splitsD)
  show "\<forall>m \<in> set ms. splits m \<Longrightarrow> splits (mAlt ms)"
    by (rule splitsI) (auto simp: mAlt_def dest: splitsD)
  show "splits a \<Longrightarrow> splits (mOpt a)"
    by (rule splitsI) (auto simp: mOpt_def dest: splitsD)
  show "splits a \<Longrightarrow> splits (mNotAhead a P)"
    by (rule splitsI) (auto simp: mNotAhead_def dest: splitsD)
qed

lemma splits_mTimes [intro]: "splits a \<Longrightarrow> splits (mTimes n a)"
proof (induction n)
  case 0
  then show ?case by (intro splitsI) simp
next
  case (Suc n)
  then have "splits (mSeq a (mTimes n a))" by blast
  then show ?case by (simp add: splits_def)
qed

lemma splits_mUpTo [intro]: "splits a \<Longrightarrow> splits (mUpTo n a)"
proof (induction n)
  case 0
  then show ?case by (intro splitsI) simp
next
  case (Suc n)
  then have "splits (mOpt (mSeq a (mUpTo n a)))" by blast
  then show ?case by (simp add: splits_def)
qed

lemma splits_mRep [intro]: "splits a \<Longrightarrow> splits (mRep m n a)"
  unfolding mRep_def by blast

lemma firstMatch_split: "splits a \<Longrightarrow> firstMatch a s = Some (c, r) \<Longrightarrow> s = c @ r"
  by (auto simp: firstMatch_def split: list.splits intro: splitsD)

section \<open>White space\<close>

text \<open>\<open>text.replace(/\s+/g, " ")\<close>.\<close>

function collapseSpaces :: "jsstring \<Rightarrow> jsstring" where
  "collapseSpaces [] = []"
| "collapseSpaces (c # cs) =
     (if isJsSpace c then 32 # collapseSpaces (dropWhile isJsSpace cs) else c # collapseSpaces cs)"
  by pat_completeness auto
termination
  by (relation "measure length") (auto simp: less_Suc_eq_le length_dropWhile_le)

lemma collapseSpaces_id: "\<forall>c \<in> set s. \<not> isJsSpace c \<Longrightarrow> collapseSpaces s = s"
  by (induction s) auto

lemma jsTrim_id: "\<forall>c \<in> set s. \<not> isJsSpace c \<Longrightarrow> jsTrim s = s"
proof -
  have "dropWhile isJsSpace t = t" if "\<forall>c \<in> set t. \<not> isJsSpace c" for t
    using that by (cases t) auto
  from this [of s] this [of "rev s"] show "\<forall>c \<in> set s. \<not> isJsSpace c \<Longrightarrow> jsTrim s = s"
    by (simp add: jsTrim_def)
qed

end
