(* ===== verification/StrictRamona.thy ===== *)
theory StrictRamona
  imports Contracts JsRegex
begin

text \<open>
  \<open>src/ram0na/engine.ts\<close> and \<open>src/shared/receipt-signing.ts\<close>: the runtime layer, the receipt it builds
  and signs, and the verification of receipts. A receipt to be verified is any JSON object (\<open>jsobject\<close>);
  the one that is built is the record \<open>signed_receipt\<close>, whose object is \<open>receiptFields\<close>. \<open>None\<close> is an uncaught
  exception: a missing private key file, a PEM text that is no key, an Ed25519 primitive that throws.
\<close>

section \<open>Signing configuration and cents\<close>

datatype signing_config = ConfigOk jsstring jsstring | ConfigMissing reason_code

definition keyIdUnit :: "code_unit \<Rightarrow> bool" where
  "keyIdUnit c \<longleftrightarrow> 97 \<le> c \<and> c \<le> 122 \<or> 65 \<le> c \<and> c \<le> 90 \<or> isDigit c \<or> c = 46 \<or> c = 95 \<or> c = 58 \<or> c = 45"

definition signingConfig :: "host \<Rightarrow> signing_config" where
  "signingConfig h =
     (case (map_option jsTrim (hs_env h (jstr ''MNDE_RECEIPT_HMAC_SECRET'')),
            map_option jsTrim (hs_env h (jstr ''MNDE_RECEIPT_HMAC_KEY_ID''))) of
        (Some secret, Some keyId) \<Rightarrow>
          if secret = [] \<or> keyId = [] then ConfigMissing ReceiptSignatureInvalid
          else if length secret < 32 \<or> \<not> (1 \<le> length keyId \<and> length keyId \<le> 128 \<and> list_all keyIdUnit keyId)
          then ConfigMissing ReceiptSignatureInvalid
          else ConfigOk secret keyId
      | _ \<Rightarrow> ConfigMissing ReceiptSignatureInvalid)"

text \<open>
  \<open>Math.floor(cents / 100)\<close>: the quotient is rounded to a double (53 significant bits, half to even)
  before the floor is taken. \<open>quotientBits a b k\<close> is that rounding scaled by \<open>2 ^ k\<close>.
\<close>

definition quotientBits :: "nat \<Rightarrow> nat \<Rightarrow> nat \<Rightarrow> nat" where
  "quotientBits a b k =
     (let m = a * 2 ^ k div b; r = a * 2 ^ k mod b
      in if 2 * r > b \<or> 2 * r = b \<and> odd m then m + 1 else m)"

definition floorQuotient :: "int \<Rightarrow> nat \<Rightarrow> int" where
  "floorQuotient a b =
     (let k = 53 - floorlog 2 (nat \<bar>a\<bar> div b); q = int (quotientBits (nat \<bar>a\<bar>) b k)
      in if a < 0 then (- q) div 2 ^ k else q div 2 ^ k)"

definition padStart2 :: "jsstring \<Rightarrow> jsstring" where
  "padStart2 s = replicate (2 - length s) 48 @ s"

definition formatUsdFromCents :: "int \<Rightarrow> jsstring" where
  "formatUsdFromCents cents =
     (let dollars = floorQuotient cents 100;
          remainder = (if cents < 0 then - ((- cents) mod 100) else cents mod 100)
      in showInt dollars @ jstr ''.'' @ padStart2 (showInt remainder))"

section \<open>The receipt key\<close>

definition receiptKeySetVersion :: jsstring where
  "receiptKeySetVersion = jstr ''receipt-key-set-v1''"

definition keyFingerprint :: "host \<Rightarrow> jsstring \<Rightarrow> jsstring option" where
  "keyFingerprint h pem = map_option (\<lambda>raw. sha256Hex h (hexDecode (hexEncode raw))) (hs_rawKey h pem)"

definition receiptKeyId :: "jsstring \<Rightarrow> jsstring" where
  "receiptKeyId fingerprint = jstr ''receipt-ed25519-'' @ take 16 fingerprint"

definition signReceiptPayload :: "host \<Rightarrow> jsstring \<Rightarrow> jsstring option" where
  "signReceiptPayload h payload = map_option hexEncode (hs_receiptSign h (utf8Encode payload))"

definition verifyReceiptPayloadSignature :: "host \<Rightarrow> jsstring \<Rightarrow> jsstring \<Rightarrow> jsstring \<Rightarrow> bool option" where
  "verifyReceiptPayloadSignature h payload signatureHex publicKeyPem =
     hs_receiptVerify h publicKeyPem (utf8Encode payload) (hexDecode signatureHex)"

section \<open>The runtime layer\<close>

definition ramonaTrace :: "decision \<Rightarrow> reason_code \<Rightarrow> jsstring \<Rightarrow> ramona_trace" where
  "ramonaTrace d r rh = \<lparr>rt_decision = d, rt_reason_code = r, rt_runtime_hash = rh\<rparr>"

definition runStrictRamona :: "host \<Rightarrow> canonical_input \<Rightarrow> arm_trace \<Rightarrow> ramona_trace option" where
  "runStrictRamona h ci arm =
     (let ob = er_runtime_observation (ci_execution_request ci); res = er_resources (ci_execution_request ci)
      in map_option
        (\<lambda>runtimeHash.
           if at_decision arm = Refuse then ramonaTrace Refuse (at_reason_code arm) runtimeHash
           else if ro_kill_switch_active ob then ramonaTrace Refuse KillSwitch runtimeHash
           else if ro_actual_gpu_count ob > rs_gpu_count res then ramonaTrace Refuse RuntimeGpuDrift runtimeHash
           else if ro_actual_hours ob > rs_hours res then ramonaTrace Refuse RuntimeHoursDrift runtimeHash
           else if ro_actual_total_cost_cents ob > at_projected_total_cost_cents arm
             then ramonaTrace Refuse RuntimeCostDrift runtimeHash
           else ramonaTrace Allow OkRamona runtimeHash)
        (hashCanonicalJson h (runtimeObservationJson ob)))"

section \<open>Building a receipt\<close>

definition signPayload :: "host \<Rightarrow> receipt_payload \<Rightarrow> signing_config \<Rightarrow> signed_receipt option" where
  "signPayload h payload config =
     do {
       canonicalPayload \<leftarrow> canonicalizeJson (JObj (payloadFields payload));
       let hmacValue = (case config of
           ConfigOk secret keyId \<Rightarrow> hexEncode (hs_hmac h (utf8Encode secret) (utf8Encode canonicalPayload))
         | ConfigMissing r \<Rightarrow> []);
       verifiableValue \<leftarrow> signReceiptPayload h canonicalPayload;
       fingerprint \<leftarrow> keyFingerprint h (hs_publicPem h);
       Some
         \<lparr>sr_payload = payload,
          sr_signature =
            \<lparr>hm_key_id = (case config of ConfigOk secret keyId \<Rightarrow> keyId | ConfigMissing r \<Rightarrow> jstr ''unconfigured''),
             hm_value = hmacValue\<rparr>,
          sr_verifiable_signature =
            \<lparr>ps_key_id = receiptKeyId fingerprint, ps_public_key_fingerprint = fingerprint,
             ps_public_key_pem = hs_publicPem h, ps_value = verifiableValue\<rparr>\<rparr>
     }"

record receipt_input =
  ri_canonical_request :: jsstring
  ri_request_hash :: jsstring
  ri_policy_hash :: jsstring
  ri_preflight :: preflight_trace
  ri_orbit :: orbit_trace
  ri_arm :: arm_trace
  ri_ramona :: ramona_trace
  ri_policy_version :: jsstring

definition receiptDecision :: "receipt_input \<Rightarrow> decision" where
  "receiptDecision i =
     (if ot_decision (ri_orbit i) = Allow \<and> at_decision (ri_arm i) = Allow \<and> rt_decision (ri_ramona i) = Allow
      then Allow else Refuse)"

definition receiptReason :: "receipt_input \<Rightarrow> reason_code" where
  "receiptReason i = (if receiptDecision i = Allow then OkAllow else rt_reason_code (ri_ramona i))"

definition receiptDecisionJson :: "receipt_input \<Rightarrow> json" where
  "receiptDecisionJson i = JObj
     [(jstr ''request_hash'', JStr (ri_request_hash i)),
      (jstr ''policy_hash'', JStr (ri_policy_hash i)),
      (jstr ''decision'', JStr (decisionText (receiptDecision i))),
      (jstr ''reason_code'', JStr (reasonText (receiptReason i))),
      (jstr ''policy_version'', JStr (ri_policy_version i)),
      (jstr ''execution_id'', JStr (at_execution_id (ri_arm i))),
      (jstr ''projected_total_cost_cents'', jint (at_projected_total_cost_cents (ri_arm i))),
      (jstr ''allowed_cost_cents'', jint (at_allowed_cost_cents (ri_arm i))),
      (jstr ''prevented_cost_cents'', jint (at_prevented_cost_cents (ri_arm i)))]"

definition receiptPayload :: "receipt_input \<Rightarrow> jsstring \<Rightarrow> receipt_payload" where
  "receiptPayload i decisionHash =
     \<lparr>rp_canonical_request = ri_canonical_request i, rp_request_hash = ri_request_hash i,
      rp_decision_output =
        \<lparr>do_decision = receiptDecision i, do_decision_hash = decisionHash, do_request_hash = ri_request_hash i,
         do_reason_code = receiptReason i,
         do_total_cost_usd = formatUsdFromCents (at_projected_total_cost_cents (ri_arm i)),
         do_allowed_cost_usd = formatUsdFromCents (at_allowed_cost_cents (ri_arm i)),
         do_prevented_cost_usd = formatUsdFromCents (at_prevented_cost_cents (ri_arm i)),
         do_policy_version = ri_policy_version i, do_policy_hash = ri_policy_hash i,
         do_execution_id = at_execution_id (ri_arm i), do_key_set_version = receiptKeySetVersion\<rparr>,
      rp_preflight = ri_preflight i, rp_orbit = ri_orbit i, rp_arm = ri_arm i, rp_ramona = ri_ramona i\<rparr>"

definition buildReceipt :: "host \<Rightarrow> receipt_input \<Rightarrow> signed_receipt option" where
  "buildReceipt h i =
     do {
       decisionHash \<leftarrow> hashCanonicalJson h (receiptDecisionJson i);
       signPayload h (receiptPayload i decisionHash) (signingConfig h)
     }"

section \<open>Verifying a receipt\<close>

text \<open>\<open>value?.key\<close> on any JSON value, and the values JavaScript takes for false.\<close>

definition getProp :: "json option \<Rightarrow> string \<Rightarrow> json option" where
  "getProp v k = (case v of Some (JObj ps) \<Rightarrow> map_of ps (jstr k) | _ \<Rightarrow> None)"

definition falsy :: "json option \<Rightarrow> bool" where
  "falsy v \<longleftrightarrow> (case v of None \<Rightarrow> True
     | Some w \<Rightarrow> w \<in> {JNull, JBool False, JNum NegZero, JNum (IntNum 0), JStr []})"

definition receiptRest :: "jsobject \<Rightarrow> jsobject" where
  "receiptRest receipt =
     filter (\<lambda>(k, v). k \<noteq> jstr ''signature'' \<and> k \<noteq> jstr ''verifiable_signature'') receipt"

definition verifyReceiptPublicSignature :: "host \<Rightarrow> jsobject \<Rightarrow> bool option" where
  "verifyReceiptPublicSignature h receipt =
     (let vs = map_of receipt (jstr ''verifiable_signature'')
      in if falsy vs then Some False
         else (case getProp vs ''public_key_pem'' of
             Some (JStr pem) \<Rightarrow>
               if jsTrim pem = [] then Some False
               else do {
                 fingerprint \<leftarrow> keyFingerprint h pem;
                 if getProp vs ''algorithm'' \<noteq> Some (JStr (jstr ''ED25519'')) \<or>
                    getProp vs ''key_id'' \<noteq> Some (JStr (receiptKeyId fingerprint)) \<or>
                    getProp vs ''public_key_fingerprint'' \<noteq> Some (JStr fingerprint)
                 then Some False
                 else do {
                   canonicalPayload \<leftarrow> canonicalizeJson (JObj (receiptRest receipt));
                   (case getProp vs ''value'' of
                      Some (JStr value) \<Rightarrow> verifyReceiptPayloadSignature h canonicalPayload value pem
                    | _ \<Rightarrow> None)
                 }
               }
           | _ \<Rightarrow> Some False))"

definition verifyReceiptSignature :: "host \<Rightarrow> jsobject \<Rightarrow> bool option" where
  "verifyReceiptSignature h receipt =
     do {
       canonicalPayload \<leftarrow> canonicalizeJson (JObj (receiptRest receipt));
       let signature = map_of receipt (jstr ''signature'');
       let hmacOk = (case signingConfig h of
           ConfigOk secret keyId \<Rightarrow>
             getProp signature ''algorithm'' = Some (JStr (jstr ''HMAC-SHA256'')) \<and>
             getProp signature ''key_id'' = Some (JStr keyId) \<and>
             getProp signature ''value'' =
               Some (JStr (hexEncode (hs_hmac h (utf8Encode secret) (utf8Encode canonicalPayload))))
         | ConfigMissing r \<Rightarrow> False);
       if hmacOk then Some True
       else if falsy (map_of receipt (jstr ''verifiable_signature'')) then Some False
       else verifyReceiptPublicSignature h receipt
     }"

definition verifyReceiptReplay :: "host \<Rightarrow> jsobject \<Rightarrow> jsobject \<Rightarrow> (bool \<times> reason_code) option" where
  "verifyReceiptReplay h receipt rerunReceipt =
     do {
       a \<leftarrow> verifyReceiptSignature h receipt;
       ok \<leftarrow> (if a then verifyReceiptSignature h rerunReceipt else Some False);
       if \<not> ok then Some (False, ReceiptSignatureInvalid)
       else do {
         stored \<leftarrow> canonicalizeJson (JObj receipt);
         rerun \<leftarrow> canonicalizeJson (JObj rerunReceipt);
         Some (if stored = rerun then (True, OkAllow) else (False, ReplayMismatch))
       }
     }"

end
