(* ===== verification/AuthState.thy ===== *)
theory AuthState
  imports Contracts
begin

text \<open>
  \<open>src/shared/state.ts\<close>: the two in-memory stores behind the release layer. A JavaScript \<open>Map\<close> is an
  association list in insertion order, \<open>set\<close> is \<open>AList.update\<close> and \<open>get\<close> is \<open>map_of\<close>.

  The contracts of the stores are the locales \<open>authority_store\<close> (an execution id is created once and an
  allowed id stays allowed) and \<open>budget_store\<close> (the reservations since a token was defined add up to what
  it has consumed, never beyond its limit); both are interpreted on the stores of the code.
\<close>

section \<open>The stores\<close>

datatype execution_status = Inflight | Allowed

datatype begin_status = Created | InflightExists | AllowedExists

datatype reserve_status = Reserved | Exhausted

record execution_authority =
  ea_execution_id :: jsstring
  ea_status :: execution_status
  ea_request_hash :: jsstring
  ea_decision_hash :: "jsstring option"

record budget_token =
  bt_budget_token :: jsstring
  bt_max_budget_cents :: int
  bt_consumed_cents :: int

type_synonym authority_records = "(jsstring \<times> execution_authority) list"
type_synonym budget_records = "(jsstring \<times> budget_token) list"

definition beginExecution :: "authority_records \<Rightarrow> jsstring \<Rightarrow> jsstring \<Rightarrow> authority_records \<times> begin_status" where
  "beginExecution records executionId requestHash =
     (case map_of records executionId of
        None \<Rightarrow>
          (AList.update executionId
             \<lparr>ea_execution_id = executionId, ea_status = Inflight,
              ea_request_hash = requestHash, ea_decision_hash = None\<rparr> records, Created)
      | Some existing \<Rightarrow>
          (records, if ea_status existing = Allowed then AllowedExists else InflightExists))"

definition commitAllow :: "authority_records \<Rightarrow> jsstring \<Rightarrow> jsstring \<Rightarrow> jsstring \<Rightarrow> authority_records" where
  "commitAllow records executionId requestHash decisionHash =
     AList.update executionId
       \<lparr>ea_execution_id = executionId, ea_status = Allowed,
        ea_request_hash = requestHash, ea_decision_hash = Some decisionHash\<rparr> records"

definition authoritySnapshot :: "authority_records \<Rightarrow> execution_authority list" where
  "authoritySnapshot records = map snd records"

definition authorityReset :: "authority_records \<Rightarrow> authority_records" where
  "authorityReset records = []"

definition defineToken :: "budget_records \<Rightarrow> jsstring \<Rightarrow> int \<Rightarrow> budget_records" where
  "defineToken records token maxBudgetCents =
     AList.update token
       \<lparr>bt_budget_token = token, bt_max_budget_cents = maxBudgetCents, bt_consumed_cents = 0\<rparr> records"

definition reserveToken :: "budget_records \<Rightarrow> jsstring \<Rightarrow> int \<Rightarrow> budget_records \<times> reserve_status" where
  "reserveToken records token projectedCostCents =
     (case map_of records token of
        None \<Rightarrow> (records, Exhausted)
      | Some existing \<Rightarrow>
          if jadd (bt_consumed_cents existing) projectedCostCents > bt_max_budget_cents existing
          then (records, Exhausted)
          else (AList.update token
                  (existing\<lparr>bt_consumed_cents := jadd (bt_consumed_cents existing) projectedCostCents\<rparr>) records,
                Reserved))"

definition budgetSnapshot :: "budget_records \<Rightarrow> budget_token list" where
  "budgetSnapshot records = map snd records"

definition budgetReset :: "budget_records \<Rightarrow> budget_records" where
  "budgetReset records = []"

record runtime_state =
  st_authority :: authority_records
  st_budget :: budget_records

definition initialState :: runtime_state where
  "initialState = \<lparr>st_authority = [], st_budget = []\<rparr>"

section \<open>The contract of the execution authority\<close>

datatype ('id, 'h) authority_op = Begin 'id 'h | Commit 'id 'h 'h

locale authority_store =
  fixes begin_op :: "'s \<Rightarrow> 'id \<Rightarrow> 'h \<Rightarrow> 's \<times> begin_status"
    and commit_op :: "'s \<Rightarrow> 'id \<Rightarrow> 'h \<Rightarrow> 'h \<Rightarrow> 's"
    and status :: "'s \<Rightarrow> 'id \<Rightarrow> execution_status option"
  assumes begin_answer: "snd (begin_op s i h) =
      (case status s i of None \<Rightarrow> Created | Some Inflight \<Rightarrow> InflightExists | Some Allowed \<Rightarrow> AllowedExists)"
    and begin_status: "status (fst (begin_op s i h)) j =
      (if j = i \<and> status s i = None then Some Inflight else status s j)"
    and commit_status: "status (commit_op s i h d) j = (if j = i then Some Allowed else status s j)"
begin

fun run :: "'s \<Rightarrow> ('id, 'h) authority_op list \<Rightarrow> 's \<times> ('id \<times> begin_status) list" where
  "run s [] = (s, [])"
| "run s (Begin i h # ops) =
     (fst (run (fst (begin_op s i h)) ops), (i, snd (begin_op s i h)) # snd (run (fst (begin_op s i h)) ops))"
| "run s (Commit i h d # ops) = run (commit_op s i h d) ops"

lemma known_stays: "status s i \<noteq> None \<Longrightarrow> status (fst (run s ops)) i \<noteq> None"
  by (induction s ops rule: run.induct) (simp_all add: begin_status commit_status)

lemma not_created_again:
  "status s i \<noteq> None \<Longrightarrow> (i, Created) \<notin> set (snd (run s ops))"
proof (induction ops arbitrary: s)
  case (Cons opn ops)
  then show ?case
  proof (cases opn)
    case (Begin j h)
    with Cons.prems have "status (fst (begin_op s j h)) i \<noteq> None" by (auto simp: begin_status)
    from Cons.IH [OF this] Cons.prems Begin show ?thesis
      by (auto simp: begin_answer split: option.splits execution_status.splits)
  next
    case (Commit j h d)
    with Cons show ?thesis by (auto simp: commit_status)
  qed
qed simp

text \<open>Whatever the interleaving of operations, an id is created at most once.\<close>

lemma created_once: "length (filter (\<lambda>p. p = (i, Created)) (snd (run s ops))) \<le> 1"
proof (induction ops arbitrary: s)
  case (Cons opn ops)
  show ?case
  proof (cases opn)
    case (Begin j h)
    show ?thesis
    proof (cases "j = i \<and> snd (begin_op s j h) = Created")
      case True
      then have "status (fst (begin_op s j h)) i \<noteq> None"
        by (auto simp: begin_status begin_answer split: option.splits execution_status.splits)
      from not_created_again [OF this, of ops]
      have "filter (\<lambda>p. p = (i, Created)) (snd (run (fst (begin_op s j h)) ops)) = []"
        by (auto simp: filter_empty_conv)
      with True show ?thesis by (simp add: Begin)
    next
      case False
      then show ?thesis using Cons [of "fst (begin_op s j h)"] by (auto simp: Begin)
    qed
  next
    case (Commit j h d)
    then show ?thesis using Cons by simp
  qed
qed simp

text \<open>An allowed id stays allowed, so every later request for it is refused as a replay.\<close>

lemma begin_allowed: "status s i = Some Allowed \<Longrightarrow> status (fst (begin_op s j h)) i = Some Allowed"
  by (auto simp: begin_status)

lemma allowed_stays: "status s i = Some Allowed \<Longrightarrow> status (fst (run s ops)) i = Some Allowed"
  by (induction s ops rule: run.induct) (simp_all add: begin_allowed commit_status)

lemma allowed_refuses:
  "status s i = Some Allowed \<Longrightarrow> (i, a) \<in> set (snd (run s ops)) \<Longrightarrow> a = AllowedExists"
proof (induction ops arbitrary: s)
  case (Cons opn ops)
  then show ?case
  proof (cases opn)
    case (Begin j h)
    with Cons.prems have "status (fst (begin_op s j h)) i = Some Allowed" by (simp add: begin_allowed)
    from Cons.IH [OF this] Cons.prems Begin show ?thesis
      by (auto simp: begin_answer)
  next
    case (Commit j h d)
    with Cons.prems have "status (commit_op s j h d) i = Some Allowed" by (simp add: commit_status)
    from Cons.IH [OF this] Cons.prems Commit show ?thesis by simp
  qed
qed simp

end

definition authorityStatus :: "authority_records \<Rightarrow> jsstring \<Rightarrow> execution_status option" where
  "authorityStatus records i = map_option ea_status (map_of records i)"

lemma map_of_update: "map_of (AList.update k v xs) j = (if j = k then Some v else map_of xs j)"
  by (simp add: update_conv')

interpretation authority: authority_store beginExecution commitAllow authorityStatus
proof
  show "snd (beginExecution s i h) =
      (case authorityStatus s i of None \<Rightarrow> Created | Some Inflight \<Rightarrow> InflightExists | Some Allowed \<Rightarrow> AllowedExists)"
    for s i h
    by (auto simp: beginExecution_def authorityStatus_def split: option.splits execution_status.splits)
  show "authorityStatus (fst (beginExecution s i h)) j =
      (if j = i \<and> authorityStatus s i = None then Some Inflight else authorityStatus s j)" for s i h j
    by (auto simp: beginExecution_def authorityStatus_def map_of_update split: option.splits)
  show "authorityStatus (commitAllow s i h d) j = (if j = i then Some Allowed else authorityStatus s j)" for s i h d j
    by (simp add: commitAllow_def authorityStatus_def map_of_update)
qed

section \<open>The contract of the budget tokens\<close>

locale budget_store =
  fixes define_op :: "'s \<Rightarrow> 'k \<Rightarrow> int \<Rightarrow> 's"
    and reserve_op :: "'s \<Rightarrow> 'k \<Rightarrow> int \<Rightarrow> 's \<times> reserve_status"
    and account :: "'s \<Rightarrow> 'k \<Rightarrow> (int \<times> int) option"
  assumes define_account: "account (define_op s k m) j = (if j = k then Some (m, 0) else account s j)"
    and reserve_answer: "snd (reserve_op s k c) =
      (case account s k of None \<Rightarrow> Exhausted | Some (m, u) \<Rightarrow> if jadd u c > m then Exhausted else Reserved)"
    and reserve_account: "account (fst (reserve_op s k c)) j =
      (if j = k \<and> snd (reserve_op s k c) = Reserved
       then map_option (\<lambda>(m, u). (m, jadd u c)) (account s k) else account s j)"
begin

text \<open>The costs reserved on token \<open>k\<close> by a sequence of reservations (of any tokens).\<close>

fun run :: "'s \<Rightarrow> ('k \<times> int) list \<Rightarrow> 's \<times> ('k \<times> int) list" where
  "run s [] = (s, [])"
| "run s ((k, c) # rs) =
     (fst (run (fst (reserve_op s k c)) rs),
      if snd (reserve_op s k c) = Reserved then (k, c) # snd (run (fst (reserve_op s k c)) rs)
      else snd (run (fst (reserve_op s k c)) rs))"

definition reserved :: "'k \<Rightarrow> ('k \<times> int) list \<Rightarrow> int" where
  "reserved k paid = sum_list (map snd (filter (\<lambda>p. fst p = k) paid))"

lemma reserve_exact:
  assumes "account s k = Some (m, u)" "isSafeInteger m" "0 \<le> u" "0 \<le> c" "\<not> jadd u c > m"
  shows "jadd u c = u + c" "u + c \<le> m"
proof -
  have le: "u + c \<le> m" using assms(5) fl_greater_iff [OF assms(2), of "u + c"] by (simp add: jadd_def)
  then show "u + c \<le> m" .
  from le assms(2-4) have "isSafeInteger (u + c)" by (auto simp: isSafeInteger_def)
  then show "jadd u c = u + c" by (simp add: jadd_def fl_safe)
qed

lemma consumed_is_sum:
  assumes "account s k = Some (m, u)" "isSafeInteger m" "0 \<le> u" "u \<le> m" "\<forall>r \<in> set rs. 0 \<le> snd r"
  shows "account (fst (run s rs)) k = Some (m, u + reserved k (snd (run s rs))) \<and>
    u + reserved k (snd (run s rs)) \<le> m"
  using assms
proof (induction rs arbitrary: s u)
  case (Cons r rs)
  obtain j c where r: "r = (j, c)" by (cases r)
  let ?s = "fst (reserve_op s j c)"
  show ?case
  proof (cases "j = k \<and> snd (reserve_op s j c) = Reserved")
    case True
    then have jk: "j = k" and res: "snd (reserve_op s k c) = Reserved" by auto
    from True have ok: "\<not> jadd u c > m" using Cons.prems(1) by (auto simp: reserve_answer split: if_splits)
    have c0: "0 \<le> c" using Cons.prems(5) r by simp
    note exact = reserve_exact [OF Cons.prems(1-3) c0 ok]
    have "account ?s k = Some (m, u + c)"
      using Cons.prems(1) exact(1) by (simp add: reserve_account jk res)
    from Cons.IH [OF this] Cons.prems exact c0 show ?thesis
      by (simp add: r jk res reserved_def)
  next
    case False
    then have "account ?s k = Some (m, u)" using Cons.prems(1) by (auto simp: reserve_account)
    from Cons.IH [OF this] Cons.prems False r show ?thesis
      by (auto simp: reserved_def)
  qed
qed (simp add: reserved_def)

text \<open>Since its definition, a token never pays for more than its limit.\<close>

lemma within_limit:
  assumes "isSafeInteger m" "0 \<le> m" "\<forall>r \<in> set rs. 0 \<le> snd r"
  shows "reserved k (snd (run (define_op s k m) rs)) \<le> m"
  using consumed_is_sum [of "define_op s k m" k m 0 rs] assms by (simp add: define_account)

end

definition tokenAccount :: "budget_records \<Rightarrow> jsstring \<Rightarrow> (int \<times> int) option" where
  "tokenAccount records k = map_option (\<lambda>t. (bt_max_budget_cents t, bt_consumed_cents t)) (map_of records k)"

interpretation budget: budget_store defineToken reserveToken tokenAccount
proof
  show "tokenAccount (defineToken s k m) j = (if j = k then Some (m, 0) else tokenAccount s j)" for s k m j
    by (simp add: defineToken_def tokenAccount_def map_of_update)
  show "snd (reserveToken s k c) =
      (case tokenAccount s k of None \<Rightarrow> Exhausted | Some (m, u) \<Rightarrow> if jadd u c > m then Exhausted else Reserved)"
    for s k c
    by (auto simp: reserveToken_def tokenAccount_def split: option.splits)
  show "tokenAccount (fst (reserveToken s k c)) j =
      (if j = k \<and> snd (reserveToken s k c) = Reserved
       then map_option (\<lambda>(m, u). (m, jadd u c)) (tokenAccount s k) else tokenAccount s j)" for s k c j
    by (auto simp: reserveToken_def tokenAccount_def map_of_update split: option.splits)
qed

section \<open>Representation invariants\<close>

text \<open>Each record is stored under its own name, once.\<close>

definition wfAuthority :: "authority_records \<Rightarrow> bool" where
  "wfAuthority records \<longleftrightarrow> distinct (map fst records) \<and>
     (\<forall>p \<in> set records. ea_execution_id (snd p) = fst p \<and>
        (ea_status (snd p) = Allowed \<longleftrightarrow> ea_decision_hash (snd p) \<noteq> None))"

definition wfBudget :: "budget_records \<Rightarrow> bool" where
  "wfBudget records \<longleftrightarrow> distinct (map fst records) \<and>
     (\<forall>p \<in> set records. bt_budget_token (snd p) = fst p \<and>
        (bt_max_budget_cents (snd p) < 0 \<or> bt_consumed_cents (snd p) \<le> bt_max_budget_cents (snd p)))"

lemma set_update_subset: "set (AList.update k v xs) \<subseteq> insert (k, v) (set xs)"
  by (induction xs) auto

lemmas in_update = subsetD [OF set_update_subset]

lemma wfAuthority_begin: "wfAuthority s \<Longrightarrow> wfAuthority (fst (beginExecution s i h))"
  unfolding wfAuthority_def beginExecution_def
  by (auto simp: distinct_update dest!: in_update split: option.splits)

lemma wfAuthority_commit: "wfAuthority s \<Longrightarrow> wfAuthority (commitAllow s i h d)"
  unfolding wfAuthority_def commitAllow_def
  by (auto simp: distinct_update dest!: in_update)

lemma wfBudget_define: "wfBudget s \<Longrightarrow> wfBudget (defineToken s k m)"
  unfolding wfBudget_def defineToken_def
  by (auto simp: distinct_update dest!: in_update)

lemma wfBudget_reserve: "wfBudget s \<Longrightarrow> wfBudget (fst (reserveToken s k c))"
  unfolding wfBudget_def reserveToken_def
  by (auto simp: distinct_update not_less dest!: in_update map_of_SomeD split: option.splits)

end
