(* ===== verification/PolicyTrust.thy ===== *)
theory PolicyTrust
  imports Contracts
begin

text \<open>
  \<open>src/shared/policy-trust.ts\<close>: the key id of a policy key, the payload a policy signature covers and
  its hash, and the signature check, whose Ed25519 primitive is the host's (\<open>None\<close> when it throws, as
  on a key that is not 32 bytes).
\<close>

definition ed25519SpkiPrefix :: "byte list" where
  "ed25519SpkiPrefix = hexDecode (jstr ''302a300506032b6570032100'')"

definition deriveKeyId :: "host \<Rightarrow> jsstring \<Rightarrow> jsstring" where
  "deriveKeyId h publicKeyHex = take 16 (sha256Hex h (hexDecode publicKeyHex))"

definition policyPayloadJson :: "jsstring \<Rightarrow> jsstring \<Rightarrow> policy_rules \<Rightarrow> json" where
  "policyPayloadJson schemaVersion policyVersion rules = JObj
     [(jstr ''schema_version'', JStr schemaVersion),
      (jstr ''policy_version'', JStr policyVersion),
      (jstr ''rules'', rulesJson rules)]"

definition canonicalPolicyPayload :: "jsstring \<Rightarrow> jsstring \<Rightarrow> policy_rules \<Rightarrow> jsstring option" where
  "canonicalPolicyPayload schemaVersion policyVersion rules =
     canonicalizeJson (policyPayloadJson schemaVersion policyVersion rules)"

definition policyHash :: "host \<Rightarrow> policy_document \<Rightarrow> jsstring option" where
  "policyHash h p =
     map_option (sha256Text h) (canonicalPolicyPayload (pd_schema_version p) (pd_policy_version p) (pd_rules p))"

definition verifyPolicySignature :: "host \<Rightarrow> jsstring \<Rightarrow> jsstring \<Rightarrow> jsstring \<Rightarrow> bool option" where
  "verifyPolicySignature h publicKeyHex payload signatureHex =
     hs_policyVerify h (ed25519SpkiPrefix @ hexDecode publicKeyHex) (utf8Encode payload) (hexDecode signatureHex)"

lemma wfJson_policyPayload: "wfRules r \<Longrightarrow> wfJson (policyPayloadJson s v r)"
  by (simp add: policyPayloadJson_def wfJson_rules)

lemma canonicalPolicyPayload_total: "wfRules r \<Longrightarrow> canonicalPolicyPayload s v r = Some (canonicalText (policyPayloadJson s v r))"
  by (simp add: canonicalPolicyPayload_def canonicalizeJson_text wfJson_policyPayload)

text \<open>The rules record is determined by its JSON object.\<close>

lemma rulesJson_inject: "normJson (rulesJson r) = normJson (rulesJson r') \<longleftrightarrow> r = r'"
proof
  assume eq: "normJson (rulesJson r) = normJson (rulesJson r')"
  obtain ps qs where ps: "rulesJson r = JObj ps" "ps = (case rulesJson r of JObj ps \<Rightarrow> ps)"
    and qs: "rulesJson r' = JObj qs" "qs = (case rulesJson r' of JObj ps \<Rightarrow> ps)"
    by (simp add: rulesJson_def)
  have dist: "distinct (map fst ps)" "distinct (map fst qs)"
    by (simp_all add: ps(2) qs(2) rulesJson_def)
  from eq have "normObject ps = normObject qs" by (simp add: ps(1) qs(1) normJson_JObj del: normJson.simps)
  note look = normObject_eq_lookup [OF this dist]
  show "r = r'"
    using look [of "jstr ''max_total_cost_cents''"] look [of "jstr ''allow_auto_scale''"]
      look [of "jstr ''max_gpu_count''"] look [of "jstr ''max_hours''"]
      look [of "jstr ''require_manual_approval_above_cents''"] look [of "jstr ''max_retry_count''"]
    unfolding ps(2) qs(2) by (cases r; cases r') (simp add: rulesJson_def jint_def)
qed simp

end
