(* ===== verification/StrictPreflight.thy ===== *)
theory StrictPreflight
  imports PolicyTrust
begin

text \<open>
  \<open>src/preflight/engine.ts\<close>: from the raw request text to the validated input. \<open>runStrictPreflight\<close> is
  the function of that name; its body is cut, in its order, into the stages \<open>preflightSections\<close> (objects
  and unknown keys), \<open>preflightStrings\<close>, \<open>preflightLists\<close> (tool calls, parameters, signatures),
  \<open>preflightNumbers\<close>, \<open>preflightFlags\<close>, \<open>preflightTrust\<close> and \<open>preflightBuild\<close>, which puts the input together.
  A stage that finds a fault returns its reason code (\<open>Inl\<close>); \<open>None\<close> is an uncaught exception.
\<close>

section \<open>Helpers\<close>

definition pinnedPolicyVersion :: jsstring where
  "pinnedPolicyVersion = jstr ''policy.v1''"

definition reservedUnsafeFields :: "jsstring list" where
  "reservedUnsafeFields = map jstr
     [''timestamp'', ''time'', ''now'', ''random'', ''eval'', ''exec'', ''shell'', ''command'', ''commands'',
      ''__proto__'', ''constructor'', ''prototype'', ''nonce'', ''session_id'', ''depends_on'', ''previous_step_id'']"

definition decisionHashFromFailure :: "host \<Rightarrow> jsstring \<Rightarrow> reason_code \<Rightarrow> jsstring option" where
  "decisionHashFromFailure h requestHash reasonCode =
     hashCanonicalJson h (JObj
       [(jstr ''request_hash'', JStr requestHash),
        (jstr ''decision'', JStr (jstr ''REFUSE'')),
        (jstr ''reason_code'', JStr (reasonText reasonCode))])"

definition typedFailure :: "host \<Rightarrow> jsstring \<Rightarrow> reason_code \<Rightarrow> typed_failure option" where
  "typedFailure h requestHash reasonCode =
     map_option
       (\<lambda>d. \<lparr>tf_request_hash = requestHash, tf_decision_hash = d, tf_reason_code = reasonCode\<rparr>)
       (decisionHashFromFailure h requestHash reasonCode)"

definition rejectUnknownKeys :: "jsobject \<Rightarrow> string list \<Rightarrow> reason_code option" where
  "rejectUnknownKeys obj allowedKeys =
     (case find (\<lambda>k. k \<notin> set (map jstr allowedKeys)) (objectKeys obj) of
        None \<Rightarrow> None
      | Some k \<Rightarrow> Some (if k \<in> set reservedUnsafeFields then NonDeterministicInput else SchemaValidation))"

fun firstReason :: "reason_code option list \<Rightarrow> reason_code option" where
  "firstReason [] = None"
| "firstReason (r # rs) = orElse r (firstReason rs)"

text \<open>The entries are checked in the order of \<open>Object.entries\<close>, each key before its value.\<close>

fun rejectReservedFieldsRecursive :: "json \<Rightarrow> reason_code option" where
  "rejectReservedFieldsRecursive (JArr vs) = firstReason (map rejectReservedFieldsRecursive vs)"
| "rejectReservedFieldsRecursive (JObj ps) =
     firstReason
       (map (\<lambda>(k, r). if k \<in> set reservedUnsafeFields then Some NonDeterministicInput else r)
         (objectEntries (map (\<lambda>(k, v). (k, rejectReservedFieldsRecursive v)) ps)))"
| "rejectReservedFieldsRecursive JNull = None"
| "rejectReservedFieldsRecursive (JBool b) = None"
| "rejectReservedFieldsRecursive (JNum n) = None"
| "rejectReservedFieldsRecursive (JStr s) = None"

definition validateInteger :: "json option \<Rightarrow> int \<Rightarrow> bool \<Rightarrow> reason_code + int" where
  "validateInteger v minimum allowZero =
     (case v of
        Some (JNum n) \<Rightarrow>
          (case n of
             NegZero \<Rightarrow> Inl InvalidJsonNumber
           | FracNum m k \<Rightarrow> Inl InvalidJsonNumber
           | IntNum i \<Rightarrow>
               if \<not> isSafeInteger i then Inl InvalidJsonNumber
               else if \<not> allowZero \<and> i = 0 then Inl TypeMismatch
               else if i < minimum then Inl (if i < 0 then TypeMismatch else InvalidJsonNumber)
               else Inr i)
      | _ \<Rightarrow> Inl TypeMismatch)"

definition expectString :: "json option \<Rightarrow> jsstring option" where
  "expectString v = (case v of Some (JStr s) \<Rightarrow> if s \<noteq> [] then Some s else None | _ \<Rightarrow> None)"

definition expectBoolean :: "json option \<Rightarrow> bool option" where
  "expectBoolean v = (case v of Some (JBool b) \<Rightarrow> Some b | _ \<Rightarrow> None)"

definition parseParameters :: "json option \<Rightarrow> reason_code + jsobject option" where
  "parseParameters v =
     (case v of
        None \<Rightarrow> Inr None
      | Some (JObj ps) \<Rightarrow> failIf (rejectReservedFieldsRecursive (JObj ps)) (Inr (Some ps))
      | Some _ \<Rightarrow> Inl SchemaValidation)"

text \<open>The loop of \<open>parseToolCalls\<close>, with the tools seen so far.\<close>

fun parseToolCallItems :: "jsstring list \<Rightarrow> json list \<Rightarrow> reason_code + tool_call list" where
  "parseToolCallItems seenTools [] = Inr []"
| "parseToolCallItems seenTools (item # items) =
     needSome SchemaValidation (asRecord (Some item)) (\<lambda>obj.
     failIf (rejectUnknownKeys obj [''tool'', ''priority'', ''parameters'']) (
     needSome TypeMismatch (expectString (map_of obj (jstr ''tool''))) (\<lambda>tool.
     bindE (validateInteger (map_of obj (jstr ''priority'')) 0 True) (\<lambda>priority.
     if tool \<in> set seenTools then Inl SchemaValidation
     else bindE (parseParameters (map_of obj (jstr ''parameters''))) (\<lambda>parameters.
     bindE (parseToolCallItems (tool # seenTools) items) (\<lambda>rest.
     Inr (\<lparr>tc_tool = tool, tc_priority = priority, tc_parameters = parameters\<rparr> # rest)))))))"

definition parseToolCalls :: "json option \<Rightarrow> reason_code + tool_call list" where
  "parseToolCalls v =
     needSome SchemaValidation (asArray v) (\<lambda>items.
     if items = [] then Inl SchemaValidation else parseToolCallItems [] items)"

fun parseSignatureItems :: "json list \<Rightarrow> reason_code + signature_spec list" where
  "parseSignatureItems [] = Inr []"
| "parseSignatureItems (item # items) =
     needSome SchemaValidation (asRecord (Some item)) (\<lambda>obj.
     failIf (rejectUnknownKeys obj [''alg'', ''sig'']) (
     needSome TypeMismatch (expectString (map_of obj (jstr ''alg''))) (\<lambda>alg.
     needSome TypeMismatch (expectString (map_of obj (jstr ''sig''))) (\<lambda>sig.
     bindE (parseSignatureItems items) (\<lambda>rest.
     Inr (\<lparr>sg_alg = alg, sg_sig = sig\<rparr> # rest))))))"

section \<open>The stages\<close>

record preflight_sections =
  se_execution_request :: jsobject
  se_policy_document :: jsobject
  se_pricing_data :: jsobject
  se_actor :: jsobject
  se_resources :: jsobject
  se_execution :: jsobject
  se_orbit_intent :: jsobject
  se_release_request :: jsobject
  se_runtime_observation :: jsobject
  se_policy_rules :: jsobject

definition preflightSections :: "jsobject \<Rightarrow> reason_code + preflight_sections" where
  "preflightSections obj =
     failIf (rejectUnknownKeys obj [''execution_request'', ''policy_document'', ''pricing_data'']) (
     needSome SchemaValidation (asRecord (map_of obj (jstr ''execution_request''))) (\<lambda>executionRequest.
     needSome SchemaValidation (asRecord (map_of obj (jstr ''policy_document''))) (\<lambda>policyDocument.
     needSome SchemaValidation (asRecord (map_of obj (jstr ''pricing_data''))) (\<lambda>pricingData.
     failIf (rejectUnknownKeys executionRequest
       [''request_id'', ''submitted_region'', ''actor'', ''resources'', ''execution'', ''tool_calls'', ''parameters'',
        ''orbit_intent'', ''release_request'', ''runtime_observation'', ''budget_token'']) (
     needSome SchemaValidation (asRecord (map_of executionRequest (jstr ''actor''))) (\<lambda>actor.
     needSome SchemaValidation (asRecord (map_of executionRequest (jstr ''resources''))) (\<lambda>resources.
     needSome SchemaValidation (asRecord (map_of executionRequest (jstr ''execution''))) (\<lambda>execution.
     needSome SchemaValidation (asRecord (map_of executionRequest (jstr ''orbit_intent''))) (\<lambda>orbitIntent.
     needSome SchemaValidation (asRecord (map_of executionRequest (jstr ''release_request''))) (\<lambda>releaseRequest.
     needSome SchemaValidation (asRecord (map_of executionRequest (jstr ''runtime_observation''))) (\<lambda>runtimeObservation.
     failIf (firstReason
       [rejectUnknownKeys actor [''user_id''],
        rejectUnknownKeys resources [''gpu_type'', ''gpu_count'', ''hours''],
        rejectUnknownKeys execution [''auto_scale'', ''max_scale_multiplier'', ''retry_on_fail'', ''max_retries''],
        rejectUnknownKeys orbitIntent
          [''orbit_version'', ''action'', ''boundary'', ''payload'', ''lifecycle_state'', ''signatures''],
        rejectUnknownKeys releaseRequest [''execution_id'', ''hold_state'', ''already_consumed''],
        rejectUnknownKeys runtimeObservation
          [''kill_switch_active'', ''actual_gpu_count'', ''actual_hours'', ''actual_total_cost_cents''],
        rejectUnknownKeys pricingData [''gpu_hour_cents'']]) (
     failIf (rejectUnknownKeys policyDocument [''schema_version'', ''policy_version'', ''rules'', ''trust'']) (
     needSome SchemaValidation (asRecord (map_of policyDocument (jstr ''rules''))) (\<lambda>policyRules.
     failIf (rejectUnknownKeys policyRules
       [''max_total_cost_cents'', ''allow_auto_scale'', ''max_gpu_count'', ''max_hours'',
        ''require_manual_approval_above_cents'', ''max_retry_count'']) (
     Inr \<lparr>se_execution_request = executionRequest, se_policy_document = policyDocument,
          se_pricing_data = pricingData, se_actor = actor, se_resources = resources,
          se_execution = execution, se_orbit_intent = orbitIntent, se_release_request = releaseRequest,
          se_runtime_observation = runtimeObservation, se_policy_rules = policyRules\<rparr>)))))))))))))))"

record preflight_strings =
  sx_request_id :: jsstring
  sx_submitted_region :: jsstring
  sx_user_id :: jsstring
  sx_gpu_type :: jsstring
  sx_execution_id :: jsstring
  sx_hold_state :: jsstring
  sx_orbit_version :: jsstring
  sx_orbit_action :: jsstring
  sx_orbit_boundary :: jsstring
  sx_lifecycle_state :: jsstring
  sx_policy_schema_version :: jsstring
  sx_policy_version :: jsstring
  sx_budget_token :: "jsstring option"

text \<open>An absent budget token is fine, any other value must be a non-empty string.\<close>

definition parseBudgetToken :: "json option \<Rightarrow> reason_code + jsstring option" where
  "parseBudgetToken v =
     (case v of
        None \<Rightarrow> Inr None
      | Some w \<Rightarrow> needSome TypeMismatch (expectString (Some w)) (\<lambda>t. Inr (Some t)))"

definition preflightStrings :: "preflight_sections \<Rightarrow> reason_code + preflight_strings" where
  "preflightStrings s =
     needSome TypeMismatch (expectString (map_of (se_execution_request s) (jstr ''request_id''))) (\<lambda>requestId.
     needSome TypeMismatch (expectString (map_of (se_execution_request s) (jstr ''submitted_region''))) (\<lambda>submittedRegion.
     needSome TypeMismatch (expectString (map_of (se_actor s) (jstr ''user_id''))) (\<lambda>userId.
     needSome TypeMismatch (expectString (map_of (se_resources s) (jstr ''gpu_type''))) (\<lambda>gpuType.
     needSome TypeMismatch (expectString (map_of (se_release_request s) (jstr ''execution_id''))) (\<lambda>executionId.
     needSome TypeMismatch (expectString (map_of (se_release_request s) (jstr ''hold_state''))) (\<lambda>holdState.
     needSome TypeMismatch (expectString (map_of (se_orbit_intent s) (jstr ''orbit_version''))) (\<lambda>orbitVersion.
     needSome TypeMismatch (expectString (map_of (se_orbit_intent s) (jstr ''action''))) (\<lambda>orbitAction.
     needSome TypeMismatch (expectString (map_of (se_orbit_intent s) (jstr ''boundary''))) (\<lambda>orbitBoundary.
     needSome TypeMismatch (expectString (map_of (se_orbit_intent s) (jstr ''lifecycle_state''))) (\<lambda>lifecycleState.
     needSome TypeMismatch (expectString (map_of (se_policy_document s) (jstr ''schema_version''))) (\<lambda>policySchemaVersion.
     needSome TypeMismatch (expectString (map_of (se_policy_document s) (jstr ''policy_version''))) (\<lambda>policyVersion.
     bindE (parseBudgetToken (map_of (se_execution_request s) (jstr ''budget_token''))) (\<lambda>budgetToken.
     Inr \<lparr>sx_request_id = requestId, sx_submitted_region = submittedRegion, sx_user_id = userId,
          sx_gpu_type = gpuType, sx_execution_id = executionId, sx_hold_state = holdState,
          sx_orbit_version = orbitVersion, sx_orbit_action = orbitAction, sx_orbit_boundary = orbitBoundary,
          sx_lifecycle_state = lifecycleState, sx_policy_schema_version = policySchemaVersion,
          sx_policy_version = policyVersion, sx_budget_token = budgetToken\<rparr>)))))))))))))"

record preflight_lists =
  li_tool_calls :: "tool_call list"
  li_parameters :: "jsobject option"
  li_signatures :: "signature_spec list"
  li_orbit_tool_calls :: "tool_call list"

definition preflightLists :: "preflight_sections \<Rightarrow> reason_code + preflight_lists" where
  "preflightLists s =
     bindE (parseToolCalls (map_of (se_execution_request s) (jstr ''tool_calls''))) (\<lambda>toolCalls.
     bindE (parseParameters (map_of (se_execution_request s) (jstr ''parameters''))) (\<lambda>parameters.
     needSome SchemaValidation (asArray (map_of (se_orbit_intent s) (jstr ''signatures''))) (\<lambda>signatureItems.
     if signatureItems = [] then Inl SchemaValidation
     else bindE (parseSignatureItems signatureItems) (\<lambda>signatures.
     needSome SchemaValidation (asRecord (map_of (se_orbit_intent s) (jstr ''payload''))) (\<lambda>orbitPayload.
     failIf (rejectReservedFieldsRecursive (JObj orbitPayload)) (
     failIf (rejectUnknownKeys orbitPayload [''tool_calls'']) (
     bindE (parseToolCalls (map_of orbitPayload (jstr ''tool_calls''))) (\<lambda>orbitToolCalls.
     Inr \<lparr>li_tool_calls = toolCalls, li_parameters = parameters, li_signatures = signatures,
          li_orbit_tool_calls = orbitToolCalls\<rparr>))))))))"

record preflight_numbers =
  nu_gpu_count :: int
  nu_hours :: int
  nu_max_scale_multiplier :: int
  nu_max_retries :: int
  nu_actual_gpu_count :: int
  nu_actual_hours :: int
  nu_actual_total_cost_cents :: int
  nu_max_total_cost_cents :: int
  nu_max_gpu_count :: int
  nu_max_hours :: int
  nu_require_manual_approval_above_cents :: int
  nu_max_retry_count :: int
  nu_gpu_hour_cents :: int

text \<open>
  The loop over \<open>numericChecks\<close>: an invalid number is reported as soon as it is met, otherwise the
  first failure, after all of them were looked at.
\<close>

fun numericReason :: "reason_code option \<Rightarrow> (reason_code + int) list \<Rightarrow> reason_code option" where
  "numericReason firstNumericReason [] = firstNumericReason"
| "numericReason firstNumericReason (Inr n # checks) = numericReason firstNumericReason checks"
| "numericReason firstNumericReason (Inl r # checks) =
     (if r = InvalidJsonNumber then Some r else numericReason (orElse firstNumericReason (Some r)) checks)"

definition preflightNumbers :: "preflight_sections \<Rightarrow> reason_code + preflight_numbers" where
  "preflightNumbers s =
     (let gpuCount = validateInteger (map_of (se_resources s) (jstr ''gpu_count'')) 1 False;
          hours = validateInteger (map_of (se_resources s) (jstr ''hours'')) 1 False;
          maxScaleMultiplier = validateInteger (map_of (se_execution s) (jstr ''max_scale_multiplier'')) 1 False;
          maxRetries = validateInteger (map_of (se_execution s) (jstr ''max_retries'')) 0 True;
          actualGpuCount = validateInteger (map_of (se_runtime_observation s) (jstr ''actual_gpu_count'')) 0 True;
          actualHours = validateInteger (map_of (se_runtime_observation s) (jstr ''actual_hours'')) 0 True;
          actualTotalCostCents =
            validateInteger (map_of (se_runtime_observation s) (jstr ''actual_total_cost_cents'')) 0 True;
          maxTotalCostCents = validateInteger (map_of (se_policy_rules s) (jstr ''max_total_cost_cents'')) 1 False;
          maxGpuCount = validateInteger (map_of (se_policy_rules s) (jstr ''max_gpu_count'')) 1 False;
          maxHours = validateInteger (map_of (se_policy_rules s) (jstr ''max_hours'')) 1 False;
          requireManualApprovalAboveCents =
            validateInteger (map_of (se_policy_rules s) (jstr ''require_manual_approval_above_cents'')) 0 True;
          maxRetryCount = validateInteger (map_of (se_policy_rules s) (jstr ''max_retry_count'')) 0 True;
          gpuHourCents = validateInteger (map_of (se_pricing_data s) (jstr ''gpu_hour_cents'')) 1 False
      in failIf (numericReason None
           [gpuCount, hours, maxScaleMultiplier, gpuHourCents, actualGpuCount, actualHours, actualTotalCostCents,
            maxTotalCostCents, maxGpuCount, maxHours, requireManualApprovalAboveCents, maxRetryCount, maxRetries])
         (Inr \<lparr>nu_gpu_count = projr gpuCount, nu_hours = projr hours,
            nu_max_scale_multiplier = projr maxScaleMultiplier, nu_max_retries = projr maxRetries,
            nu_actual_gpu_count = projr actualGpuCount, nu_actual_hours = projr actualHours,
            nu_actual_total_cost_cents = projr actualTotalCostCents,
            nu_max_total_cost_cents = projr maxTotalCostCents, nu_max_gpu_count = projr maxGpuCount,
            nu_max_hours = projr maxHours,
            nu_require_manual_approval_above_cents = projr requireManualApprovalAboveCents,
            nu_max_retry_count = projr maxRetryCount, nu_gpu_hour_cents = projr gpuHourCents\<rparr>))"

record preflight_flags =
  fg_auto_scale :: bool
  fg_retry_on_fail :: bool
  fg_already_consumed :: bool
  fg_kill_switch_active :: bool
  fg_allow_auto_scale :: bool

definition preflightFlags :: "preflight_sections \<Rightarrow> jsstring \<Rightarrow> reason_code + preflight_flags" where
  "preflightFlags s policyVersion =
     needSome TypeMismatch (expectBoolean (map_of (se_execution s) (jstr ''auto_scale''))) (\<lambda>autoScale.
     needSome TypeMismatch (expectBoolean (map_of (se_execution s) (jstr ''retry_on_fail''))) (\<lambda>retryOnFail.
     needSome TypeMismatch (expectBoolean (map_of (se_release_request s) (jstr ''already_consumed''))) (\<lambda>alreadyConsumed.
     needSome TypeMismatch (expectBoolean (map_of (se_runtime_observation s) (jstr ''kill_switch_active''))) (\<lambda>killSwitchActive.
     needSome TypeMismatch (expectBoolean (map_of (se_policy_rules s) (jstr ''allow_auto_scale''))) (\<lambda>allowAutoScale.
     if policyVersion \<noteq> pinnedPolicyVersion then Inl PolicyVersionMismatch
     else Inr \<lparr>fg_auto_scale = autoScale, fg_retry_on_fail = retryOnFail, fg_already_consumed = alreadyConsumed,
            fg_kill_switch_active = killSwitchActive, fg_allow_auto_scale = allowAutoScale\<rparr>)))))"

definition preflightTrust ::
  "host \<Rightarrow> preflight_sections \<Rightarrow> jsstring \<Rightarrow> jsstring \<Rightarrow> policy_rules \<Rightarrow> (reason_code + policy_trust option) option" where
  "preflightTrust h s policySchemaVersion policyVersion rules =
     (case map_of (se_policy_document s) (jstr ''trust'') of
        None \<Rightarrow> Some (Inr None)
      | Some v \<Rightarrow>
          (case
             needSome InvalidPolicySignature (asRecord (Some v)) (\<lambda>trust.
             failIf (rejectUnknownKeys trust [''key_version'', ''key_id'', ''public_key'', ''signature'']) (
             needSome InvalidPolicySignature (expectString (map_of trust (jstr ''key_version''))) (\<lambda>keyVersion.
             needSome InvalidPolicySignature (expectString (map_of trust (jstr ''key_id''))) (\<lambda>keyId.
             needSome InvalidPolicySignature (expectString (map_of trust (jstr ''public_key''))) (\<lambda>publicKey.
             needSome InvalidPolicySignature (expectString (map_of trust (jstr ''signature''))) (\<lambda>signature.
             if deriveKeyId h publicKey \<noteq> keyId then Inl PolicyKeyIdMismatch
             else Inr \<lparr>pt_key_version = keyVersion, pt_key_id = keyId, pt_public_key = publicKey,
                    pt_signature = signature\<rparr>))))))
           of Inl r \<Rightarrow> Some (Inl r)
            | Inr t \<Rightarrow>
                (case canonicalPolicyPayload policySchemaVersion policyVersion rules of
                   None \<Rightarrow> None
                 | Some payload \<Rightarrow>
                     if pt_key_version t \<noteq> jstr ''ed25519.v1'' \<or>
                        verifyPolicySignature h (pt_public_key t) payload (pt_signature t) \<noteq> Some True
                     then Some (Inl InvalidPolicySignature)
                     else Some (Inr (Some t)))))"

definition builtRules :: "preflight_numbers \<Rightarrow> preflight_flags \<Rightarrow> policy_rules" where
  "builtRules n f =
     \<lparr>pr_max_total_cost_cents = nu_max_total_cost_cents n, pr_allow_auto_scale = fg_allow_auto_scale f,
      pr_max_gpu_count = nu_max_gpu_count n, pr_max_hours = nu_max_hours n,
      pr_require_manual_approval_above_cents = nu_require_manual_approval_above_cents n,
      pr_max_retry_count = nu_max_retry_count n\<rparr>"

definition builtInput ::
  "preflight_strings \<Rightarrow> preflight_lists \<Rightarrow> preflight_numbers \<Rightarrow> preflight_flags \<Rightarrow> policy_trust option \<Rightarrow>
    canonical_input" where
  "builtInput x l n f trust =
     \<lparr>ci_execution_request =
        \<lparr>er_request_id = sx_request_id x, er_submitted_region = sx_submitted_region x,
         er_user_id = sx_user_id x,
         er_resources = \<lparr>rs_gpu_type = sx_gpu_type x, rs_gpu_count = nu_gpu_count n, rs_hours = nu_hours n\<rparr>,
         er_execution =
           \<lparr>ex_auto_scale = fg_auto_scale f, ex_max_scale_multiplier = nu_max_scale_multiplier n,
            ex_retry_on_fail = fg_retry_on_fail f, ex_max_retries = nu_max_retries n\<rparr>,
         er_tool_calls = li_tool_calls l, er_parameters = li_parameters l,
         er_orbit_intent =
           \<lparr>oi_orbit_version = sx_orbit_version x, oi_action = sx_orbit_action x,
            oi_boundary = sx_orbit_boundary x, oi_payload_tool_calls = li_orbit_tool_calls l,
            oi_lifecycle_state = sx_lifecycle_state x, oi_signatures = li_signatures l\<rparr>,
         er_release_request =
           \<lparr>rr_execution_id = sx_execution_id x, rr_hold_state = sx_hold_state x,
            rr_already_consumed = fg_already_consumed f\<rparr>,
         er_runtime_observation =
           \<lparr>ro_kill_switch_active = fg_kill_switch_active f, ro_actual_gpu_count = nu_actual_gpu_count n,
            ro_actual_hours = nu_actual_hours n, ro_actual_total_cost_cents = nu_actual_total_cost_cents n\<rparr>,
         er_budget_token = sx_budget_token x\<rparr>,
      ci_policy_document =
        \<lparr>pd_schema_version = sx_policy_schema_version x, pd_policy_version = sx_policy_version x,
         pd_trust = trust, pd_rules = builtRules n f\<rparr>,
      ci_gpu_hour_cents = nu_gpu_hour_cents n\<rparr>"

definition preflightBuild :: "host \<Rightarrow> jsobject \<Rightarrow> (reason_code + canonical_input) option" where
  "preflightBuild h obj =
     (case
        bindE (preflightSections obj) (\<lambda>s.
        bindE (preflightStrings s) (\<lambda>x.
        bindE (preflightLists s) (\<lambda>l.
        bindE (preflightNumbers s) (\<lambda>n.
        bindE (preflightFlags s (sx_policy_version x)) (\<lambda>f.
        Inr (s, x, l, n, f))))))
      of Inl r \<Rightarrow> Some (Inl r)
       | Inr (s, x, l, n, f) \<Rightarrow>
           map_option (\<lambda>t. bindE t (\<lambda>trust. Inr (builtInput x l n f trust)))
             (preflightTrust h s (sx_policy_schema_version x) (sx_policy_version x) (builtRules n f)))"

fun parseReason :: "parse_failure_reason \<Rightarrow> reason_code" where
  "parseReason Duplicate_json_keys = DuplicateJsonKeys"
| "parseReason Invalid_json_number = InvalidJsonNumber"
| "parseReason Invalid_json_syntax = InvalidJsonSyntax"

definition runStrictPreflight :: "host \<Rightarrow> jsstring \<Rightarrow> (typed_failure + parsed_envelope) option" where
  "runStrictPreflight h rawInput =
     (case parseStrictJson rawInput of
        ParseStarved \<Rightarrow> None
      | ParseFail r \<Rightarrow> map_option Inl (typedFailure h (sha256Text h rawInput) (parseReason r))
      | ParseOk v _ \<Rightarrow>
          (case asRecord (Some v) of
             None \<Rightarrow> map_option Inl (typedFailure h (sha256Text h rawInput) SchemaValidation)
           | Some obj \<Rightarrow>
               (case canonicalizeJson v of
                  None \<Rightarrow> None
                | Some canonicalInput \<Rightarrow>
                    (case preflightBuild h obj of
                       None \<Rightarrow> None
                     | Some (Inl r) \<Rightarrow> map_option Inl (typedFailure h (sha256Text h canonicalInput) r)
                     | Some (Inr built) \<Rightarrow>
                         map_option
                           (\<lambda>ph. Inr \<lparr>pe_raw_input = rawInput, pe_canonical_input = canonicalInput,
                              pe_request_hash = sha256Text h canonicalInput, pe_parsed_input = built,
                              pe_policy_hash = ph\<rparr>)
                           (policyHash h (ci_policy_document built))))))"

end
