(* ===== verification/PreflightFacts.thy ===== *)
theory PreflightFacts
  imports StrictPreflight
begin

text \<open>
  What the preflight guarantees: it always answers (no exception escapes), the inputs it lets through
  are valid (\<open>validInput\<close>), and it is stable under replay: the canonical text of an accepted request is
  accepted again with the same hashes and the same input, its parameter objects in normal form.
\<close>

section \<open>Validators\<close>

definition wfObj :: "jsobject \<Rightarrow> bool" where
  "wfObj ps \<longleftrightarrow> wfJson (JObj ps)"

lemma wfObj_distinct: "wfObj ps \<Longrightarrow> distinct (map fst ps)"
  by (simp add: wfObj_def)

lemma wfObj_lookup:
  "wfObj ps \<Longrightarrow> map_of ps k = Some (JObj qs) \<Longrightarrow> wfObj qs"
  "wfObj ps \<Longrightarrow> map_of ps k = Some (JArr vs) \<Longrightarrow> \<forall>v \<in> set vs. wfJson v"
  using wfJson_lookup [of ps k] by (auto simp: wfObj_def)

lemma lookup_normObject: "wfObj ps \<Longrightarrow> map_of (normObject ps) k = map_option normJson (map_of ps k)"
  by (rule map_of_normObject) (rule wfObj_distinct)

lemma keys_normObject: "fst ` set (normObject ps) = fst ` set ps"
  by (force simp: normObject_def)

lemma rejectUnknownKeys_None_iff:
  "rejectUnknownKeys ps allowed = None \<longleftrightarrow> fst ` set ps \<subseteq> jstr ` set allowed"
proof -
  have "rejectUnknownKeys ps allowed = None \<longleftrightarrow> find (\<lambda>k. k \<notin> set (map jstr allowed)) (objectKeys ps) = None"
    by (simp add: rejectUnknownKeys_def split: option.splits)
  then show ?thesis by (auto simp: find_None_iff)
qed

lemma rejectUnknownKeys_norm:
  "rejectUnknownKeys ps allowed = None \<Longrightarrow> rejectUnknownKeys (normObject ps) allowed = None"
  by (simp add: rejectUnknownKeys_None_iff keys_normObject)

lemma validateInteger_Inr:
  "validateInteger v m z = Inr i \<Longrightarrow>
    v = Some (JNum (IntNum i)) \<and> isSafeInteger i \<and> m \<le> i \<and> (\<not> z \<longrightarrow> i \<noteq> 0)"
  by (auto simp: validateInteger_def split: option.splits json.splits jsnum.splits if_splits)

lemma validateInteger_norm:
  "validateInteger v m z = Inr i \<Longrightarrow> validateInteger (map_option normJson v) m z = Inr i"
  by (frule validateInteger_Inr) (simp add: validateInteger_def)

lemma expectString_norm: "expectString (map_option normJson v) = expectString v"
  by (cases v) (auto simp: expectString_def split: json.splits elim!: normJson.elims)

lemma expectBoolean_norm: "expectBoolean (map_option normJson v) = expectBoolean v"
  by (cases v) (auto simp: expectBoolean_def split: json.splits elim!: normJson.elims)

lemma expectString_Some: "expectString v = Some s \<longleftrightarrow> v = Some (JStr s) \<and> s \<noteq> []"
  by (auto simp: expectString_def split: option.splits json.splits)

lemma firstReason_None_iff: "firstReason rs = None \<longleftrightarrow> (\<forall>r \<in> set rs. r = None)"
  by (induction rs) (auto simp: orElse_eq_None_iff)

lemma numericReason_None_iff:
  "numericReason r cs = None \<longleftrightarrow> r = None \<and> (\<forall>c \<in> set cs. \<exists>n. c = Inr n)"
  by (induction r cs rule: numericReason.induct) (auto simp: orElse_eq_None_iff)

text \<open>A reserved name at any depth.\<close>

fun hasReservedKey :: "json \<Rightarrow> bool" where
  "hasReservedKey (JArr vs) = (\<exists>v \<in> set vs. hasReservedKey v)"
| "hasReservedKey (JObj ps) = (\<exists>p \<in> set ps. fst p \<in> set reservedUnsafeFields \<or> hasReservedKey (snd p))"
| "hasReservedKey _ = False"

lemma firstReason_uniform:
  "\<forall>r \<in> set rs. r = None \<or> r = Some c \<Longrightarrow> firstReason rs = (if Some c \<in> set rs then Some c else None)"
  by (induction rs) auto

lemma in_image_cond: "c \<in> (\<lambda>p. if A p then c else g p) ` S \<longleftrightarrow> (\<exists>p \<in> S. A p \<or> g p = c)"
  unfolding image_iff by auto

lemma rejectReserved_iff:
  "rejectReservedFieldsRecursive v = (if hasReservedKey v then Some NonDeterministicInput else None)"
proof (induction v)
  case (JArr vs)
  then have "\<forall>r \<in> set (map rejectReservedFieldsRecursive vs). r = None \<or> r = Some NonDeterministicInput" by auto
  from firstReason_uniform [OF this] JArr show ?case by auto
next
  case (JObj ps)
  let ?rs = "map (\<lambda>(k, r). if k \<in> set reservedUnsafeFields then Some NonDeterministicInput else r)
         (objectEntries (map (\<lambda>(k, v). (k, rejectReservedFieldsRecursive v)) ps))"
  have IH: "rejectReservedFieldsRecursive (snd p) = (if hasReservedKey (snd p) then Some NonDeterministicInput else None)"
    if "p \<in> set ps" for p
    using JObj [of p "snd p"] that by (cases p) auto
  then have "\<forall>r \<in> set ?rs. r = None \<or> r = Some NonDeterministicInput" by force
  from firstReason_uniform [OF this]
  have "firstReason ?rs = (if Some NonDeterministicInput \<in> set ?rs then Some NonDeterministicInput else None)" .
  moreover have "set ?rs =
      (\<lambda>p. if fst p \<in> set reservedUnsafeFields then Some NonDeterministicInput
        else rejectReservedFieldsRecursive (snd p)) ` set ps"
    by (simp only: set_map set_objectEntries image_image case_prod_unfold fst_conv snd_conv)
  then have "Some NonDeterministicInput \<in> set ?rs \<longleftrightarrow>
      (\<exists>p \<in> set ps. fst p \<in> set reservedUnsafeFields \<or>
        rejectReservedFieldsRecursive (snd p) = Some NonDeterministicInput)"
    by (simp only: in_image_cond)
  then have "Some NonDeterministicInput \<in> set ?rs \<longleftrightarrow> hasReservedKey (JObj ps)"
    using IH by (auto split: if_splits)
  ultimately show ?case by simp
qed auto

lemma hasReservedKey_norm: "hasReservedKey (normJson v) = hasReservedKey v"
proof (induction v)
  case (JObj ps)
  have "hasReservedKey (normJson (snd p)) = hasReservedKey (snd p)" if "p \<in> set ps" for p
    using JObj [of p "snd p"] that by (cases p) auto
  then show ?case by (force simp: image_iff)
qed auto

lemma rejectReserved_norm: "rejectReservedFieldsRecursive (normJson v) = rejectReservedFieldsRecursive v"
  by (simp add: rejectReserved_iff hasReservedKey_norm)

lemma parseParameters_Inr:
  "parseParameters v = Inr p \<longleftrightarrow>
     v = map_option JObj p \<and> (case p of None \<Rightarrow> True | Some ps \<Rightarrow> \<not> hasReservedKey (JObj ps))"
  by (auto simp: parseParameters_def rejectReserved_iff failIf_def split: option.splits json.splits simp del: hasReservedKey.simps)

lemma parseParameters_norm:
  "parseParameters v = Inr p \<Longrightarrow> parseParameters (map_option normJson v) = Inr (map_option normObject p)"
  using hasReservedKey_norm [of "JObj (the p)"]
  by (auto simp: parseParameters_Inr normJson_JObj split: option.splits simp del: hasReservedKey.simps normJson.simps)

section \<open>Valid inputs\<close>

definition validToolCall :: "tool_call \<Rightarrow> bool" where
  "validToolCall c \<longleftrightarrow> tc_tool c \<noteq> [] \<and> 0 \<le> tc_priority c \<and> wfToolCall c \<and>
     (case tc_parameters c of None \<Rightarrow> True | Some ps \<Rightarrow> \<not> hasReservedKey (JObj ps))"

definition validToolCalls :: "tool_call list \<Rightarrow> bool" where
  "validToolCalls cs \<longleftrightarrow> cs \<noteq> [] \<and> distinct (map tc_tool cs) \<and> (\<forall>c \<in> set cs. validToolCall c)"

definition normCall :: "tool_call \<Rightarrow> tool_call" where
  "normCall c = c\<lparr>tc_parameters := map_option normObject (tc_parameters c)\<rparr>"

lemma parseToolCallItems_valid:
  assumes "parseToolCallItems seen items = Inr cs" "\<forall>v \<in> set items. wfJson v"
  shows "distinct (map tc_tool cs) \<and> set (map tc_tool cs) \<inter> set seen = {} \<and> (\<forall>c \<in> set cs. validToolCall c)
    \<and> length cs = length items"
  using assms
proof (induction seen items arbitrary: cs rule: parseToolCallItems.induct)
  case (2 seen item items)
  from "2.prems"(1) obtain obj tool priority parameters rest where
    steps: "item = JObj obj" "expectString (map_of obj (jstr ''tool'')) = Some tool"
    "rejectUnknownKeys obj [''tool'', ''priority'', ''parameters''] = None"
    "validateInteger (map_of obj (jstr ''priority'')) 0 True = Inr priority" "tool \<notin> set seen"
    "parseParameters (map_of obj (jstr ''parameters'')) = Inr parameters"
    "parseToolCallItems (tool # seen) items = Inr rest"
    and cs: "cs = \<lparr>tc_tool = tool, tc_priority = priority, tc_parameters = parameters\<rparr> # rest"
    by (auto simp: guard_Inr asRecord_eq_Some split: if_splits)
  have "wfObj obj" using "2.prems"(2) steps(1) by (simp add: wfObj_def)
  then have "case parameters of None \<Rightarrow> True | Some ps \<Rightarrow> wfJson (JObj ps)"
    using steps(6) wfObj_lookup(1) [of obj] by (auto simp: parseParameters_Inr wfObj_def split: option.splits)
  then have "validToolCall \<lparr>tc_tool = tool, tc_priority = priority, tc_parameters = parameters\<rparr>"
    using steps by (auto simp: validToolCall_def wfToolCall_def expectString_Some parseParameters_Inr
        dest!: validateInteger_Inr split: option.splits simp del: hasReservedKey.simps)
  moreover have "distinct (map tc_tool rest) \<and> set (map tc_tool rest) \<inter> set (tool # seen) = {} \<and>
      (\<forall>c \<in> set rest. validToolCall c) \<and> length rest = length items"
    using "2.prems"(2) steps by (intro "2.IH") (auto simp: asRecord_eq_Some)
  ultimately show ?case using cs steps(5) by auto
qed simp

lemma parseToolCalls_valid:
  assumes "parseToolCalls v = Inr cs" "\<And>vs. v = Some (JArr vs) \<Longrightarrow> \<forall>w \<in> set vs. wfJson w"
  shows "validToolCalls cs"
proof -
  from assms(1) obtain items where v: "v = Some (JArr items)" "items \<noteq> []" "parseToolCallItems [] items = Inr cs"
    by (auto simp: parseToolCalls_def guard_Inr asArray_eq_Some split: if_splits)
  have "\<forall>w \<in> set items. wfJson w" using assms(2) v(1) .
  from parseToolCallItems_valid [OF v(3) this] v(2) show ?thesis
    by (auto simp: validToolCalls_def)
qed

lemma parseToolCallItems_norm:
  assumes "parseToolCallItems seen items = Inr cs" "\<forall>v \<in> set items. wfJson v"
  shows "parseToolCallItems seen (map normJson items) = Inr (map normCall cs)"
  using assms
proof (induction seen items arbitrary: cs rule: parseToolCallItems.induct)
  case (2 seen item items)
  from "2.prems"(1) obtain obj tool priority parameters rest where
    steps: "item = JObj obj" "rejectUnknownKeys obj [''tool'', ''priority'', ''parameters''] = None"
    "expectString (map_of obj (jstr ''tool'')) = Some tool"
    "validateInteger (map_of obj (jstr ''priority'')) 0 True = Inr priority" "tool \<notin> set seen"
    "parseParameters (map_of obj (jstr ''parameters'')) = Inr parameters"
    "parseToolCallItems (tool # seen) items = Inr rest"
    and cs: "cs = \<lparr>tc_tool = tool, tc_priority = priority, tc_parameters = parameters\<rparr> # rest"
    by (auto simp: guard_Inr asRecord_eq_Some split: if_splits)
  have wf: "wfObj obj" using "2.prems"(2) steps(1) by (simp add: wfObj_def)
  have "parseToolCallItems (tool # seen) (map normJson items) = Inr (map normCall rest)"
    using "2.prems"(2) steps by (intro "2.IH") (auto simp: asRecord_eq_Some)
  then show ?case
    using steps cs by (simp add: normJson_JObj lookup_normObject [OF wf] rejectUnknownKeys_norm expectString_norm
        validateInteger_norm parseParameters_norm normCall_def del: normJson.simps)
qed simp

lemma parseToolCalls_norm:
  assumes "parseToolCalls v = Inr cs" "\<And>vs. v = Some (JArr vs) \<Longrightarrow> \<forall>w \<in> set vs. wfJson w"
  shows "parseToolCalls (map_option normJson v) = Inr (map normCall cs)"
  using assms by (auto simp: parseToolCalls_def guard_Inr asArray_eq_Some parseToolCallItems_norm split: if_splits)

lemma parseSignatureItems_norm:
  assumes "parseSignatureItems items = Inr sgs" "\<forall>v \<in> set items. wfJson v"
  shows "parseSignatureItems (map normJson items) = Inr sgs"
  using assms
proof (induction items arbitrary: sgs)
  case (Cons item items)
  from Cons.prems(1) obtain obj alg sig rest where
    steps: "item = JObj obj" "rejectUnknownKeys obj [''alg'', ''sig''] = None"
    "expectString (map_of obj (jstr ''alg'')) = Some alg" "expectString (map_of obj (jstr ''sig'')) = Some sig"
    "parseSignatureItems items = Inr rest" and sgs: "sgs = \<lparr>sg_alg = alg, sg_sig = sig\<rparr> # rest"
    by (auto simp: guard_Inr asRecord_eq_Some)
  have wf: "wfObj obj" using Cons.prems(2) steps(1) by (simp add: wfObj_def)
  have "parseSignatureItems (map normJson items) = Inr rest"
    using Cons.prems(2) steps by (intro Cons.IH) auto
  then show ?case
    using steps sgs by (simp add: normJson_JObj lookup_normObject [OF wf] rejectUnknownKeys_norm expectString_norm
        del: normJson.simps)
qed simp

section \<open>The stages on well-formed objects and on their normal forms\<close>

definition wfSections :: "preflight_sections \<Rightarrow> bool" where
  "wfSections s \<longleftrightarrow> wfObj (se_execution_request s) \<and> wfObj (se_policy_document s) \<and> wfObj (se_pricing_data s) \<and>
     wfObj (se_actor s) \<and> wfObj (se_resources s) \<and> wfObj (se_execution s) \<and> wfObj (se_orbit_intent s) \<and>
     wfObj (se_release_request s) \<and> wfObj (se_runtime_observation s) \<and> wfObj (se_policy_rules s)"

definition normSections :: "preflight_sections \<Rightarrow> preflight_sections" where
  "normSections s =
     \<lparr>se_execution_request = normObject (se_execution_request s), se_policy_document = normObject (se_policy_document s),
      se_pricing_data = normObject (se_pricing_data s), se_actor = normObject (se_actor s),
      se_resources = normObject (se_resources s), se_execution = normObject (se_execution s),
      se_orbit_intent = normObject (se_orbit_intent s), se_release_request = normObject (se_release_request s),
      se_runtime_observation = normObject (se_runtime_observation s), se_policy_rules = normObject (se_policy_rules s)\<rparr>"

lemma normSections_simps [simp]:
  "se_execution_request (normSections s) = normObject (se_execution_request s)"
  "se_policy_document (normSections s) = normObject (se_policy_document s)"
  "se_pricing_data (normSections s) = normObject (se_pricing_data s)"
  "se_actor (normSections s) = normObject (se_actor s)"
  "se_resources (normSections s) = normObject (se_resources s)"
  "se_execution (normSections s) = normObject (se_execution s)"
  "se_orbit_intent (normSections s) = normObject (se_orbit_intent s)"
  "se_release_request (normSections s) = normObject (se_release_request s)"
  "se_runtime_observation (normSections s) = normObject (se_runtime_observation s)"
  "se_policy_rules (normSections s) = normObject (se_policy_rules s)"
  by (simp_all add: normSections_def)

lemma preflightSections_wf:
  assumes "preflightSections obj = Inr s" "wfObj obj"
  shows "wfSections s"
  using assms by (auto simp: preflightSections_def guard_Inr asRecord_eq_Some wfSections_def
      firstReason_None_iff intro: wfObj_lookup)

lemma preflightSections_norm:
  assumes "preflightSections obj = Inr s" "wfObj obj"
  shows "preflightSections (normObject obj) = Inr (normSections s)"
proof -
  have "wfSections s" using assms by (rule preflightSections_wf)
  with assms show ?thesis
    by (auto simp: preflightSections_def guard_Inr asRecord_eq_Some wfSections_def lookup_normObject
        rejectUnknownKeys_norm orElse_eq_None_iff normJson_JObj normSections_def simp del: normJson.simps)
qed

lemma parseBudgetToken_norm: "parseBudgetToken v = Inr t \<Longrightarrow> parseBudgetToken (map_option normJson v) = Inr t"
  using expectString_norm [of v] by (cases v) (auto simp: parseBudgetToken_def guard_Inr)

lemma preflightStrings_norm:
  assumes "preflightStrings s = Inr x" "wfSections s"
  shows "preflightStrings (normSections s) = Inr x"
  using assms unfolding preflightStrings_def wfSections_def
  by (auto simp: guard_Inr lookup_normObject expectString_norm parseBudgetToken_norm)

lemma preflightLists_norm:
  assumes "preflightLists s = Inr l" "wfSections s"
  shows "preflightLists (normSections s) = Inr
    \<lparr>li_tool_calls = map normCall (li_tool_calls l), li_parameters = map_option normObject (li_parameters l),
     li_signatures = li_signatures l, li_orbit_tool_calls = map normCall (li_orbit_tool_calls l)\<rparr>"
proof -
  have er: "wfObj (se_execution_request s)" and oi: "wfObj (se_orbit_intent s)"
    using assms(2) by (simp_all add: wfSections_def)
  obtain toolCalls parameters signatureItems signatures payload orbitCalls where
    steps: "parseToolCalls (map_of (se_execution_request s) (jstr ''tool_calls'')) = Inr toolCalls"
    "parseParameters (map_of (se_execution_request s) (jstr ''parameters'')) = Inr parameters"
    "map_of (se_orbit_intent s) (jstr ''signatures'') = Some (JArr signatureItems)" "signatureItems \<noteq> []"
    "parseSignatureItems signatureItems = Inr signatures"
    "map_of (se_orbit_intent s) (jstr ''payload'') = Some (JObj payload)"
    "rejectReservedFieldsRecursive (JObj payload) = None" "rejectUnknownKeys payload [''tool_calls''] = None"
    "parseToolCalls (map_of payload (jstr ''tool_calls'')) = Inr orbitCalls"
    and l: "l = \<lparr>li_tool_calls = toolCalls, li_parameters = parameters, li_signatures = signatures,
        li_orbit_tool_calls = orbitCalls\<rparr>"
    using assms(1) by (auto simp: preflightLists_def guard_Inr asRecord_eq_Some asArray_eq_Some
        simp del: rejectReservedFieldsRecursive.simps split: if_splits)
  have pl: "wfObj payload" using wfObj_lookup(1) [OF oi steps(6)] .
  have calls: "parseToolCalls (map_option normJson (map_of (se_execution_request s) (jstr ''tool_calls''))) = Inr (map normCall toolCalls)"
    using steps(1) wfObj_lookup(2) [OF er] by (rule parseToolCalls_norm)
  have orbit: "parseToolCalls (map_option normJson (map_of payload (jstr ''tool_calls''))) = Inr (map normCall orbitCalls)"
    using steps(9) wfObj_lookup(2) [OF pl] by (rule parseToolCalls_norm)
  have sigs: "parseSignatureItems (map normJson signatureItems) = Inr signatures"
    using steps(5) wfObj_lookup(2) [OF oi steps(3)] by (rule parseSignatureItems_norm)
  have reserved: "rejectReservedFieldsRecursive (JObj (normObject payload)) = None"
    using steps(7) rejectReserved_norm [of "JObj payload"] by (simp add: normJson_JObj del: normJson.simps rejectReservedFieldsRecursive.simps)
  show ?thesis
    using steps calls orbit sigs reserved
    by (simp add: preflightLists_def lookup_normObject er oi pl parseParameters_norm rejectUnknownKeys_norm l normJson_JObj
        del: normJson.simps(3) rejectReservedFieldsRecursive.simps)
qed

lemma preflightNumbers_Inr:
  assumes "preflightNumbers s = Inr n"
  shows "validateInteger (map_of (se_resources s) (jstr ''gpu_count'')) 1 False = Inr (nu_gpu_count n)"
    "validateInteger (map_of (se_resources s) (jstr ''hours'')) 1 False = Inr (nu_hours n)"
    "validateInteger (map_of (se_execution s) (jstr ''max_scale_multiplier'')) 1 False = Inr (nu_max_scale_multiplier n)"
    "validateInteger (map_of (se_execution s) (jstr ''max_retries'')) 0 True = Inr (nu_max_retries n)"
    "validateInteger (map_of (se_runtime_observation s) (jstr ''actual_gpu_count'')) 0 True = Inr (nu_actual_gpu_count n)"
    "validateInteger (map_of (se_runtime_observation s) (jstr ''actual_hours'')) 0 True = Inr (nu_actual_hours n)"
    "validateInteger (map_of (se_runtime_observation s) (jstr ''actual_total_cost_cents'')) 0 True =
       Inr (nu_actual_total_cost_cents n)"
    "validateInteger (map_of (se_policy_rules s) (jstr ''max_total_cost_cents'')) 1 False = Inr (nu_max_total_cost_cents n)"
    "validateInteger (map_of (se_policy_rules s) (jstr ''max_gpu_count'')) 1 False = Inr (nu_max_gpu_count n)"
    "validateInteger (map_of (se_policy_rules s) (jstr ''max_hours'')) 1 False = Inr (nu_max_hours n)"
    "validateInteger (map_of (se_policy_rules s) (jstr ''require_manual_approval_above_cents'')) 0 True =
       Inr (nu_require_manual_approval_above_cents n)"
    "validateInteger (map_of (se_policy_rules s) (jstr ''max_retry_count'')) 0 True = Inr (nu_max_retry_count n)"
    "validateInteger (map_of (se_pricing_data s) (jstr ''gpu_hour_cents'')) 1 False = Inr (nu_gpu_hour_cents n)"
  using assms by (auto simp: preflightNumbers_def Let_def failIf_Inr_iff numericReason_None_iff)

lemma preflightNumbers_norm:
  assumes "preflightNumbers s = Inr n" "wfSections s"
  shows "preflightNumbers (normSections s) = Inr n"
  using assms(2) preflightNumbers_Inr [OF assms(1), THEN validateInteger_norm]
  by (simp add: preflightNumbers_def Let_def lookup_normObject wfSections_def)

lemma preflightFlags_norm:
  assumes "preflightFlags s v = Inr f" "wfSections s"
  shows "preflightFlags (normSections s) v = Inr f"
  using assms unfolding preflightFlags_def wfSections_def
  by (auto simp: guard_Inr lookup_normObject expectBoolean_norm split: if_splits)

end
