(* ===== verification/PreflightProps.thy ===== *)
theory PreflightProps
  imports PreflightFacts
begin

text \<open>
  The properties of the preflight: it always answers, what it accepts is valid, and the canonical text
  of an accepted request is accepted again as the same request.
\<close>

section \<open>Trust and assembly\<close>

lemma wfRules_built: "preflightNumbers s = Inr n \<Longrightarrow> wfRules (builtRules n f)"
  using preflightNumbers_Inr [of s n, THEN validateInteger_Inr]
  by (simp add: wfRules_def builtRules_def)

definition trusts :: "host \<Rightarrow> jsstring \<Rightarrow> jsstring \<Rightarrow> policy_rules \<Rightarrow> policy_trust \<Rightarrow> bool" where
  "trusts h schemaVersion policyVersion rules t \<longleftrightarrow>
     pt_key_version t = jstr ''ed25519.v1'' \<and> deriveKeyId h (pt_public_key t) = pt_key_id t \<and>
     verifyPolicySignature h (pt_public_key t)
       (canonicalText (policyPayloadJson schemaVersion policyVersion rules)) (pt_signature t) = Some True"

lemma preflightTrust_total: "wfRules r \<Longrightarrow> preflightTrust h s sv pv r \<noteq> None"
  by (auto simp: preflightTrust_def canonicalPolicyPayload_total split: option.splits sum.splits)

lemma preflightTrust_trusts:
  assumes "preflightTrust h s sv pv r = Some (Inr (Some t))" "wfRules r"
  shows "trusts h sv pv r t"
  using assms by (auto simp: preflightTrust_def canonicalPolicyPayload_total trusts_def guard_Inr
      split: option.splits sum.splits if_splits)

lemma preflightTrust_norm:
  assumes "preflightTrust h s sv pv r = Some (Inr t)" "wfSections s" "wfRules r"
  shows "preflightTrust h (normSections s) sv pv r = Some (Inr t)"
proof (cases "map_of (se_policy_document s) (jstr ''trust'')")
  case None
  with assms show ?thesis by (simp add: preflightTrust_def lookup_normObject wfSections_def)
next
  case (Some v)
  have pd: "wfObj (se_policy_document s)" using assms(2) by (simp add: wfSections_def)
  from assms(1) Some obtain obj where v: "v = JObj obj"
    by (cases "asRecord (Some v)") (auto simp: preflightTrust_def asRecord_eq_Some)
  have wf: "wfObj obj" using wfObj_lookup(1) [OF pd] Some v by simp
  have unknown: "rejectUnknownKeys obj [''key_version'', ''key_id'', ''public_key'', ''signature''] = None"
    using assms(1) Some v
    by (cases "rejectUnknownKeys obj [''key_version'', ''key_id'', ''public_key'', ''signature'']")
      (simp_all add: preflightTrust_def)
  show ?thesis
    using assms(1) Some v unknown
    by (simp add: preflightTrust_def lookup_normObject [OF pd] lookup_normObject [OF wf] expectString_norm
        rejectUnknownKeys_norm normJson_JObj del: normJson.simps)
qed

text \<open>What a successful build went through.\<close>

lemma preflightBuild_Inr:
  assumes "preflightBuild h obj = Some (Inr ci)"
  obtains s x l n f t where
    "preflightSections obj = Inr s" "preflightStrings s = Inr x" "preflightLists s = Inr l"
    "preflightNumbers s = Inr n" "preflightFlags s (sx_policy_version x) = Inr f"
    "preflightTrust h s (sx_policy_schema_version x) (sx_policy_version x) (builtRules n f) = Some (Inr t)"
    "ci = builtInput x l n f t"
proof -
  let ?stages = "bindE (preflightSections obj) (\<lambda>s. bindE (preflightStrings s) (\<lambda>x.
      bindE (preflightLists s) (\<lambda>l. bindE (preflightNumbers s) (\<lambda>n.
      bindE (preflightFlags s (sx_policy_version x)) (\<lambda>f. Inr (s, x, l, n, f))))))"
  from assms obtain s x l n f where stages: "?stages = Inr (s, x, l, n, f)"
    by (cases ?stages) (auto simp: preflightBuild_def)
  then have steps: "preflightSections obj = Inr s" "preflightStrings s = Inr x" "preflightLists s = Inr l"
    "preflightNumbers s = Inr n" "preflightFlags s (sx_policy_version x) = Inr f"
    by (auto simp: bindE_Inr_iff)
  from assms stages obtain t where
    "preflightTrust h s (sx_policy_schema_version x) (sx_policy_version x) (builtRules n f) = Some (Inr t)"
    "ci = builtInput x l n f t"
    by (auto simp: preflightBuild_def bindE_Inr_iff)
  with steps that show ?thesis by blast
qed

lemma preflightBuild_total: "preflightBuild h obj \<noteq> None"
proof -
  let ?stages = "bindE (preflightSections obj) (\<lambda>s. bindE (preflightStrings s) (\<lambda>x.
      bindE (preflightLists s) (\<lambda>l. bindE (preflightNumbers s) (\<lambda>n.
      bindE (preflightFlags s (sx_policy_version x)) (\<lambda>f. Inr (s, x, l, n, f))))))"
  show ?thesis
  proof (cases ?stages)
    case (Inl r)
    then show ?thesis by (simp add: preflightBuild_def)
  next
    case (Inr p)
    then obtain s x l n f where p: "p = (s, x, l, n, f)" "preflightNumbers s = Inr n"
      by (auto simp: bindE_Inr_iff)
    from wfRules_built [OF p(2), of f]
    have "preflightTrust h s (sx_policy_schema_version x) (sx_policy_version x) (builtRules n f) \<noteq> None"
      by (rule preflightTrust_total)
    with Inr p show ?thesis by (simp add: preflightBuild_def)
  qed
qed

definition normInput :: "canonical_input \<Rightarrow> canonical_input" where
  "normInput ci =
     ci\<lparr>ci_execution_request := (ci_execution_request ci)
          \<lparr>er_tool_calls := map normCall (er_tool_calls (ci_execution_request ci)),
           er_parameters := map_option normObject (er_parameters (ci_execution_request ci)),
           er_orbit_intent := (er_orbit_intent (ci_execution_request ci))
             \<lparr>oi_payload_tool_calls :=
                map normCall (oi_payload_tool_calls (er_orbit_intent (ci_execution_request ci)))\<rparr>\<rparr>\<rparr>"

lemma preflightBuild_norm:
  assumes "preflightBuild h obj = Some (Inr ci)" "wfObj obj"
  shows "preflightBuild h (normObject obj) = Some (Inr (normInput ci))"
proof -
  from assms(1) obtain s x l n f t where steps:
    "preflightSections obj = Inr s" "preflightStrings s = Inr x" "preflightLists s = Inr l"
    "preflightNumbers s = Inr n" "preflightFlags s (sx_policy_version x) = Inr f"
    "preflightTrust h s (sx_policy_schema_version x) (sx_policy_version x) (builtRules n f) = Some (Inr t)"
    and ci: "ci = builtInput x l n f t"
    by (rule preflightBuild_Inr)
  have wf: "wfSections s" using steps(1) assms(2) by (rule preflightSections_wf)
  show ?thesis
    using steps wf assms(2) preflightTrust_norm [OF steps(6) wf wfRules_built [OF steps(4)]]
    by (simp add: preflightBuild_def preflightSections_norm preflightStrings_norm preflightLists_norm
        preflightNumbers_norm preflightFlags_norm ci normInput_def builtInput_def)
qed

section \<open>Validity\<close>

definition validCount :: "int \<Rightarrow> int \<Rightarrow> bool" where
  "validCount m n \<longleftrightarrow> m \<le> n \<and> isSafeInteger n"

definition validRules :: "policy_rules \<Rightarrow> bool" where
  "validRules r \<longleftrightarrow> validCount 1 (pr_max_total_cost_cents r) \<and> validCount 1 (pr_max_gpu_count r) \<and>
     validCount 1 (pr_max_hours r) \<and> validCount 0 (pr_require_manual_approval_above_cents r) \<and>
     validCount 0 (pr_max_retry_count r)"

definition validNumbers :: "canonical_input \<Rightarrow> bool" where
  "validNumbers ci \<longleftrightarrow>
     (let r = er_resources (ci_execution_request ci); e = er_execution (ci_execution_request ci);
          ob = er_runtime_observation (ci_execution_request ci)
      in validCount 1 (rs_gpu_count r) \<and> validCount 1 (rs_hours r) \<and> validCount 1 (ex_max_scale_multiplier e) \<and>
         validCount 0 (ex_max_retries e) \<and> validCount 0 (ro_actual_gpu_count ob) \<and> validCount 0 (ro_actual_hours ob) \<and>
         validCount 0 (ro_actual_total_cost_cents ob) \<and> validCount 1 (ci_gpu_hour_cents ci)) \<and>
     validRules (pd_rules (ci_policy_document ci))"

definition validParameters :: "jsobject option \<Rightarrow> bool" where
  "validParameters p \<longleftrightarrow>
     (case p of None \<Rightarrow> True | Some ps \<Rightarrow> wfJson (JObj ps) \<and> \<not> hasReservedKey (JObj ps))"

definition validSignature :: "signature_spec \<Rightarrow> bool" where
  "validSignature s \<longleftrightarrow> sg_alg s \<noteq> [] \<and> sg_sig s \<noteq> []"

definition validStrings :: "canonical_input \<Rightarrow> bool" where
  "validStrings ci \<longleftrightarrow>
     (let er = ci_execution_request ci; oi = er_orbit_intent er; rr = er_release_request er
      in list_all (\<lambda>t. t \<noteq> []) [er_request_id er, er_submitted_region er, er_user_id er, rs_gpu_type (er_resources er),
           rr_execution_id rr, rr_hold_state rr, oi_orbit_version oi, oi_action oi, oi_boundary oi,
           oi_lifecycle_state oi, pd_schema_version (ci_policy_document ci)] \<and>
         er_budget_token er \<noteq> Some [])"

definition validTrust :: "host \<Rightarrow> policy_document \<Rightarrow> bool" where
  "validTrust h p \<longleftrightarrow> pd_policy_version p = pinnedPolicyVersion \<and>
     (case pd_trust p of None \<Rightarrow> True
      | Some t \<Rightarrow> pt_key_id t \<noteq> [] \<and> pt_public_key t \<noteq> [] \<and> pt_signature t \<noteq> [] \<and>
          trusts h (pd_schema_version p) (pd_policy_version p) (pd_rules p) t)"

definition validInput :: "host \<Rightarrow> canonical_input \<Rightarrow> bool" where
  "validInput h ci \<longleftrightarrow> validNumbers ci \<and> validStrings ci \<and> validTrust h (ci_policy_document ci) \<and>
     (let er = ci_execution_request ci
      in validToolCalls (er_tool_calls er) \<and> validToolCalls (oi_payload_tool_calls (er_orbit_intent er)) \<and>
         validParameters (er_parameters er) \<and> oi_signatures (er_orbit_intent er) \<noteq> [] \<and>
         (\<forall>s \<in> set (oi_signatures (er_orbit_intent er)). validSignature s))"

lemma parseSignatureItems_valid:
  "parseSignatureItems items = Inr sgs \<Longrightarrow> length sgs = length items \<and> (\<forall>s \<in> set sgs. validSignature s)"
  by (induction items arbitrary: sgs) (auto simp: guard_Inr expectString_Some validSignature_def)

lemma preflightLists_valid:
  assumes "preflightLists s = Inr l" "wfSections s"
  shows "validToolCalls (li_tool_calls l) \<and> validToolCalls (li_orbit_tool_calls l) \<and>
    validParameters (li_parameters l) \<and> li_signatures l \<noteq> [] \<and> (\<forall>g \<in> set (li_signatures l). validSignature g)"
proof -
  have er: "wfObj (se_execution_request s)" and oi: "wfObj (se_orbit_intent s)"
    using assms(2) by (simp_all add: wfSections_def)
  obtain items payload where
    steps: "parseToolCalls (map_of (se_execution_request s) (jstr ''tool_calls'')) = Inr (li_tool_calls l)"
    "parseParameters (map_of (se_execution_request s) (jstr ''parameters'')) = Inr (li_parameters l)"
    "items \<noteq> []" "parseSignatureItems items = Inr (li_signatures l)"
    "map_of (se_orbit_intent s) (jstr ''payload'') = Some (JObj payload)"
    "parseToolCalls (map_of payload (jstr ''tool_calls'')) = Inr (li_orbit_tool_calls l)"
    using assms(1) by (auto simp: preflightLists_def guard_Inr asRecord_eq_Some asArray_eq_Some
        simp del: rejectReservedFieldsRecursive.simps split: if_splits)
  have "validToolCalls (li_tool_calls l)"
    using steps(1) wfObj_lookup(2) [OF er] by (rule parseToolCalls_valid)
  moreover have "validToolCalls (li_orbit_tool_calls l)"
    using steps(6) wfObj_lookup(2) [OF wfObj_lookup(1) [OF oi steps(5)]] by (rule parseToolCalls_valid)
  moreover have "validParameters (li_parameters l)"
    using steps(2) wfObj_lookup(1) [OF er]
    by (auto simp: validParameters_def parseParameters_Inr wfObj_def split: option.splits
        simp del: wfJson.simps hasReservedKey.simps)
  moreover have "li_signatures l \<noteq> [] \<and> (\<forall>g \<in> set (li_signatures l). validSignature g)"
    using steps(3) parseSignatureItems_valid [OF steps(4)] by auto
  ultimately show ?thesis by simp
qed

lemma preflightTrust_nonempty:
  "preflightTrust h s sv pv r = Some (Inr (Some t)) \<Longrightarrow>
    pt_key_id t \<noteq> [] \<and> pt_public_key t \<noteq> [] \<and> pt_signature t \<noteq> []"
  by (auto simp: preflightTrust_def guard_Inr expectString_Some split: option.splits sum.splits if_splits)

lemma preflightBuild_valid:
  assumes "preflightBuild h obj = Some (Inr ci)" "wfObj obj"
  shows "validInput h ci"
proof -
  from assms(1) obtain s x l n f t where steps:
    "preflightSections obj = Inr s" "preflightStrings s = Inr x" "preflightLists s = Inr l"
    "preflightNumbers s = Inr n" "preflightFlags s (sx_policy_version x) = Inr f"
    "preflightTrust h s (sx_policy_schema_version x) (sx_policy_version x) (builtRules n f) = Some (Inr t)"
    and ci: "ci = builtInput x l n f t"
    by (rule preflightBuild_Inr)
  have wf: "wfSections s" using steps(1) assms(2) by (rule preflightSections_wf)
  have numbers: "validNumbers ci"
    using preflightNumbers_Inr [OF steps(4), THEN validateInteger_Inr]
    by (simp add: validNumbers_def validRules_def validCount_def ci builtInput_def builtRules_def Let_def)
  have strings: "validStrings ci"
    using steps(2) by (auto simp: validStrings_def ci builtInput_def preflightStrings_def guard_Inr
        expectString_Some parseBudgetToken_def split: option.splits)
  have version: "sx_policy_version x = pinnedPolicyVersion"
    using steps(5) by (auto simp: preflightFlags_def guard_Inr split: if_splits)
  then have trust: "validTrust h (ci_policy_document ci)"
    using preflightTrust_trusts preflightTrust_nonempty steps(6) wfRules_built [OF steps(4)]
    by (auto simp: validTrust_def ci builtInput_def split: option.splits)
  show ?thesis
    using numbers strings trust preflightLists_valid [OF steps(3) wf]
    by (simp add: validInput_def Let_def) (simp add: ci builtInput_def)
qed

section \<open>Every valid input has a request text\<close>

text \<open>The JSON object of a validated input, as \<open>rawJson\<close> in \<open>src/audit/test_helpers.ts\<close> writes it.\<close>

definition trustJson :: "policy_trust \<Rightarrow> json" where
  "trustJson t = JObj
     [(jstr ''key_version'', JStr (pt_key_version t)),
      (jstr ''key_id'', JStr (pt_key_id t)),
      (jstr ''public_key'', JStr (pt_public_key t)),
      (jstr ''signature'', JStr (pt_signature t))]"

definition requestFields :: "execution_request \<Rightarrow> jsobject" where
  "requestFields er =
     [(jstr ''request_id'', JStr (er_request_id er)),
      (jstr ''submitted_region'', JStr (er_submitted_region er)),
      (jstr ''actor'', JObj [(jstr ''user_id'', JStr (er_user_id er))]),
      (jstr ''resources'', JObj
         [(jstr ''gpu_type'', JStr (rs_gpu_type (er_resources er))),
          (jstr ''gpu_count'', jint (rs_gpu_count (er_resources er))),
          (jstr ''hours'', jint (rs_hours (er_resources er)))]),
      (jstr ''execution'', JObj
         [(jstr ''auto_scale'', JBool (ex_auto_scale (er_execution er))),
          (jstr ''max_scale_multiplier'', jint (ex_max_scale_multiplier (er_execution er))),
          (jstr ''retry_on_fail'', JBool (ex_retry_on_fail (er_execution er))),
          (jstr ''max_retries'', jint (ex_max_retries (er_execution er)))]),
      (jstr ''tool_calls'', toolCallsJson (er_tool_calls er)),
      (jstr ''orbit_intent'', orbitIntentJson (er_orbit_intent er)),
      (jstr ''release_request'', JObj
         [(jstr ''execution_id'', JStr (rr_execution_id (er_release_request er))),
          (jstr ''hold_state'', JStr (rr_hold_state (er_release_request er))),
          (jstr ''already_consumed'', JBool (rr_already_consumed (er_release_request er)))]),
      (jstr ''runtime_observation'', runtimeObservationJson (er_runtime_observation er))] @
     optField ''parameters'' (map_option JObj (er_parameters er)) @
     optField ''budget_token'' (map_option JStr (er_budget_token er))"

definition policyFields :: "policy_document \<Rightarrow> jsobject" where
  "policyFields p =
     [(jstr ''schema_version'', JStr (pd_schema_version p)),
      (jstr ''policy_version'', JStr (pd_policy_version p))] @
     optField ''trust'' (map_option trustJson (pd_trust p)) @
     [(jstr ''rules'', rulesJson (pd_rules p))]"

definition inputFields :: "canonical_input \<Rightarrow> jsobject" where
  "inputFields ci =
     [(jstr ''execution_request'', JObj (requestFields (ci_execution_request ci))),
      (jstr ''policy_document'', JObj (policyFields (ci_policy_document ci))),
      (jstr ''pricing_data'', JObj [(jstr ''gpu_hour_cents'', jint (ci_gpu_hour_cents ci))])]"

definition requestText :: "canonical_input \<Rightarrow> jsstring" where
  "requestText ci = canonicalText (JObj (inputFields ci))"

lemma wfJson_parameters: "validParameters (Some ps) \<Longrightarrow> wfJson (JObj ps)"
  by (simp add: validParameters_def)

lemma wfObj_inputFields:
  assumes "validInput h ci"
  shows "wfObj (inputFields ci)"
proof -
  have calls: "wfJson (toolCallsJson (er_tool_calls (ci_execution_request ci)))"
    "wfJson (orbitIntentJson (er_orbit_intent (ci_execution_request ci)))"
    using assms by (auto intro!: wfJson_toolCalls wfJson_orbitIntent
        simp: validInput_def Let_def validToolCalls_def validToolCall_def)
  have obs: "wfJson (runtimeObservationJson (er_runtime_observation (ci_execution_request ci)))"
    "wfJson (rulesJson (pd_rules (ci_policy_document ci)))"
    using assms by (auto intro!: wfJson_runtimeObservation wfJson_rules
        simp: validInput_def validNumbers_def validRules_def wfRules_def validCount_def Let_def)
  have params: "er_parameters (ci_execution_request ci) = Some ps \<Longrightarrow> wfJson (JObj ps)" for ps
    using assms by (auto simp: validInput_def Let_def validParameters_def)
  show ?thesis
    using calls obs params assms
    by (auto simp: wfObj_def inputFields_def requestFields_def policyFields_def trustJson_def optField_def
        jint_def validInput_def validNumbers_def validCount_def Let_def split: option.splits)
qed

lemma parse_toolCallJson:
  assumes "validToolCall c" "tc_tool c \<notin> set seen"
  shows "parseToolCallItems seen (toolCallJson c # items) =
    bindE (parseToolCallItems (tc_tool c # seen) items) (\<lambda>rest. Inr (c # rest))"
proof -
  have unknown: "rejectUnknownKeys (case toolCallJson c of JObj ps \<Rightarrow> ps) [''tool'', ''priority'', ''parameters''] = None"
    by (auto simp: toolCallJson_def rejectUnknownKeys_None_iff optField_def split: option.splits)
  have "parseParameters (map_option JObj (tc_parameters c)) = Inr (tc_parameters c)"
    using assms by (auto simp: parseParameters_Inr validToolCall_def split: option.splits simp del: hasReservedKey.simps)
  then show ?thesis
    using assms unknown
    by (auto simp: toolCallJson_def validToolCall_def wfToolCall_def expectString_def validateInteger_def jint_def
        optField_def guard_Inr bindE_def split: option.splits sum.splits simp del: hasReservedKey.simps)
qed

lemma parse_toolCalls_list:
  "\<forall>c \<in> set cs. validToolCall c \<Longrightarrow> distinct (map tc_tool cs) \<Longrightarrow> set (map tc_tool cs) \<inter> set seen = {} \<Longrightarrow>
    parseToolCallItems seen (map toolCallJson cs) = Inr cs"
  by (induction cs arbitrary: seen) (simp_all add: parse_toolCallJson del: parseToolCallItems.simps(2))

lemma parse_toolCallsJson: "validToolCalls cs \<Longrightarrow> parseToolCalls (Some (toolCallsJson cs)) = Inr cs"
  by (simp add: parseToolCalls_def toolCallsJson_def validToolCalls_def parse_toolCalls_list)

lemma rejectUnknownKeys_ok: "fst ` set ps \<subseteq> jstr ` set allowed \<Longrightarrow> rejectUnknownKeys ps allowed = None"
  by (simp add: rejectUnknownKeys_None_iff)

lemma parse_signatures: "\<forall>s \<in> set sgs. validSignature s \<Longrightarrow> parseSignatureItems (map signatureJson sgs) = Inr sgs"
  by (induction sgs) (simp_all add: signatureJson_def rejectUnknownKeys_ok expectString_def validSignature_def)

lemma validate_jint: "validCount m n \<Longrightarrow> 0 \<le> m \<Longrightarrow> z \<or> 0 < m \<Longrightarrow> validateInteger (Some (jint n)) m z = Inr n"
  by (auto simp: validateInteger_def jint_def validCount_def)

definition inputSections :: "canonical_input \<Rightarrow> preflight_sections" where
  "inputSections ci =
     (let er = ci_execution_request ci; obj = (\<lambda>v. case v of JObj ps \<Rightarrow> ps | _ \<Rightarrow> [])
      in \<lparr>se_execution_request = requestFields er, se_policy_document = policyFields (ci_policy_document ci),
          se_pricing_data = [(jstr ''gpu_hour_cents'', jint (ci_gpu_hour_cents ci))],
          se_actor = [(jstr ''user_id'', JStr (er_user_id er))],
          se_resources =
            [(jstr ''gpu_type'', JStr (rs_gpu_type (er_resources er))),
             (jstr ''gpu_count'', jint (rs_gpu_count (er_resources er))),
             (jstr ''hours'', jint (rs_hours (er_resources er)))],
          se_execution =
            [(jstr ''auto_scale'', JBool (ex_auto_scale (er_execution er))),
             (jstr ''max_scale_multiplier'', jint (ex_max_scale_multiplier (er_execution er))),
             (jstr ''retry_on_fail'', JBool (ex_retry_on_fail (er_execution er))),
             (jstr ''max_retries'', jint (ex_max_retries (er_execution er)))],
          se_orbit_intent = obj (orbitIntentJson (er_orbit_intent er)),
          se_release_request =
            [(jstr ''execution_id'', JStr (rr_execution_id (er_release_request er))),
             (jstr ''hold_state'', JStr (rr_hold_state (er_release_request er))),
             (jstr ''already_consumed'', JBool (rr_already_consumed (er_release_request er)))],
          se_runtime_observation = obj (runtimeObservationJson (er_runtime_observation er)),
          se_policy_rules = obj (rulesJson (pd_rules (ci_policy_document ci)))\<rparr>)"

lemma requestFields_lookup [simp]:
  "map_of (requestFields er) (jstr ''request_id'') = Some (JStr (er_request_id er))"
  "map_of (requestFields er) (jstr ''submitted_region'') = Some (JStr (er_submitted_region er))"
  "map_of (requestFields er) (jstr ''tool_calls'') = Some (toolCallsJson (er_tool_calls er))"
  "map_of (requestFields er) (jstr ''parameters'') = map_option JObj (er_parameters er)"
  "map_of (requestFields er) (jstr ''budget_token'') = map_option JStr (er_budget_token er)"
  by (auto simp: requestFields_def optField_def split: option.splits)

lemma policyFields_lookup [simp]:
  "map_of (policyFields p) (jstr ''schema_version'') = Some (JStr (pd_schema_version p))"
  "map_of (policyFields p) (jstr ''policy_version'') = Some (JStr (pd_policy_version p))"
  "map_of (policyFields p) (jstr ''trust'') = map_option trustJson (pd_trust p)"
  "map_of (policyFields p) (jstr ''rules'') = Some (rulesJson (pd_rules p))"
  by (auto simp: policyFields_def optField_def split: option.splits)

lemma sections_inputFields: "preflightSections (inputFields ci) = Inr (inputSections ci)"
proof -
  have "rejectUnknownKeys (requestFields er)
       [''request_id'', ''submitted_region'', ''actor'', ''resources'', ''execution'', ''tool_calls'', ''parameters'',
        ''orbit_intent'', ''release_request'', ''runtime_observation'', ''budget_token''] = None" for er
    by (auto simp: rejectUnknownKeys_None_iff requestFields_def optField_def split: option.splits)
  moreover have "rejectUnknownKeys (policyFields p) [''schema_version'', ''policy_version'', ''rules'', ''trust''] = None" for p
    by (auto simp: rejectUnknownKeys_None_iff policyFields_def optField_def split: option.splits)
  moreover have
    "map_of (requestFields er) (jstr ''actor'') = Some (JObj [(jstr ''user_id'', JStr (er_user_id er))])"
    "map_of (requestFields er) (jstr ''orbit_intent'') = Some (orbitIntentJson (er_orbit_intent er))"
    "map_of (requestFields er) (jstr ''runtime_observation'') = Some (runtimeObservationJson (er_runtime_observation er))"
    "map_of (requestFields er) (jstr ''resources'') = Some (JObj
         [(jstr ''gpu_type'', JStr (rs_gpu_type (er_resources er))),
          (jstr ''gpu_count'', jint (rs_gpu_count (er_resources er))),
          (jstr ''hours'', jint (rs_hours (er_resources er)))])"
    "map_of (requestFields er) (jstr ''execution'') = Some (JObj
         [(jstr ''auto_scale'', JBool (ex_auto_scale (er_execution er))),
          (jstr ''max_scale_multiplier'', jint (ex_max_scale_multiplier (er_execution er))),
          (jstr ''retry_on_fail'', JBool (ex_retry_on_fail (er_execution er))),
          (jstr ''max_retries'', jint (ex_max_retries (er_execution er)))])"
    "map_of (requestFields er) (jstr ''release_request'') = Some (JObj
         [(jstr ''execution_id'', JStr (rr_execution_id (er_release_request er))),
          (jstr ''hold_state'', JStr (rr_hold_state (er_release_request er))),
          (jstr ''already_consumed'', JBool (rr_already_consumed (er_release_request er)))])" for er
    by (simp_all add: requestFields_def)
  ultimately show ?thesis
    by (simp add: preflightSections_def inputFields_def inputSections_def Let_def rejectUnknownKeys_ok
        rulesJson_def orbitIntentJson_def runtimeObservationJson_def)
qed

lemma strings_inputSections:
  assumes "validStrings ci" and that: "pd_policy_version (ci_policy_document ci) \<noteq> []"
  shows "preflightStrings (inputSections ci) = Inr
    (let er = ci_execution_request ci; oi = er_orbit_intent er; rr = er_release_request er; p = ci_policy_document ci
     in \<lparr>sx_request_id = er_request_id er, sx_submitted_region = er_submitted_region er, sx_user_id = er_user_id er,
          sx_gpu_type = rs_gpu_type (er_resources er), sx_execution_id = rr_execution_id rr,
          sx_hold_state = rr_hold_state rr, sx_orbit_version = oi_orbit_version oi, sx_orbit_action = oi_action oi,
          sx_orbit_boundary = oi_boundary oi, sx_lifecycle_state = oi_lifecycle_state oi,
          sx_policy_schema_version = pd_schema_version p, sx_policy_version = pd_policy_version p,
          sx_budget_token = er_budget_token er\<rparr>)"
proof -
  have str: "expectString (Some (JStr t)) = Some t" if "t \<noteq> []" for t
    using that by (simp add: expectString_def)
  have "parseBudgetToken (map_option JStr t) = Inr t" if "t \<noteq> Some []" for t
    using that by (cases t) (auto simp: parseBudgetToken_def str)
  with assms that show ?thesis
    by (simp add: preflightStrings_def inputSections_def validStrings_def Let_def orbitIntentJson_def str)
qed

lemma lists_inputSections:
  assumes "validInput h ci"
  shows "preflightLists (inputSections ci) = Inr
    (let er = ci_execution_request ci
     in \<lparr>li_tool_calls = er_tool_calls er, li_parameters = er_parameters er,
         li_signatures = oi_signatures (er_orbit_intent er),
         li_orbit_tool_calls = oi_payload_tool_calls (er_orbit_intent er)\<rparr>)"
proof -
  let ?er = "ci_execution_request ci" and ?oi = "er_orbit_intent (ci_execution_request ci)"
  have "parseToolCalls (Some (toolCallsJson (er_tool_calls ?er))) = Inr (er_tool_calls ?er)"
    "parseToolCalls (Some (toolCallsJson (oi_payload_tool_calls ?oi))) = Inr (oi_payload_tool_calls ?oi)"
    using assms by (auto simp: validInput_def Let_def intro!: parse_toolCallsJson)
  moreover have "parseParameters (map_option JObj (er_parameters ?er)) = Inr (er_parameters ?er)"
    using assms by (auto simp: parseParameters_Inr validInput_def validParameters_def Let_def split: option.splits
        simp del: hasReservedKey.simps)
  moreover have "parseSignatureItems (map signatureJson (oi_signatures ?oi)) = Inr (oi_signatures ?oi)"
    "oi_signatures ?oi \<noteq> []"
    using assms by (auto simp: validInput_def Let_def intro!: parse_signatures)
  moreover have "\<not> hasReservedKey (toolCallJson c)" if "c \<in> set (oi_payload_tool_calls ?oi)" for c
  proof -
    have "validToolCall c" using assms that by (auto simp: validInput_def validToolCalls_def Let_def)
    then show ?thesis
      by (auto simp: toolCallJson_def jint_def optField_def validToolCall_def reservedUnsafeFields_def split: option.splits)
  qed
  then have "rejectReservedFieldsRecursive (JObj [(jstr ''tool_calls'', toolCallsJson (oi_payload_tool_calls ?oi))]) = None"
    by (simp add: rejectReserved_iff toolCallsJson_def reservedUnsafeFields_def
        del: rejectReservedFieldsRecursive.simps)
  ultimately show ?thesis
    by (simp add: preflightLists_def inputSections_def Let_def orbitIntentJson_def rejectUnknownKeys_ok
        del: rejectReservedFieldsRecursive.simps)
qed

definition inputNumbers :: "canonical_input \<Rightarrow> preflight_numbers" where
  "inputNumbers ci =
     (let er = ci_execution_request ci; r = pd_rules (ci_policy_document ci); ob = er_runtime_observation er
      in \<lparr>nu_gpu_count = rs_gpu_count (er_resources er), nu_hours = rs_hours (er_resources er),
         nu_max_scale_multiplier = ex_max_scale_multiplier (er_execution er),
         nu_max_retries = ex_max_retries (er_execution er), nu_actual_gpu_count = ro_actual_gpu_count ob,
         nu_actual_hours = ro_actual_hours ob, nu_actual_total_cost_cents = ro_actual_total_cost_cents ob,
         nu_max_total_cost_cents = pr_max_total_cost_cents r, nu_max_gpu_count = pr_max_gpu_count r,
         nu_max_hours = pr_max_hours r,
         nu_require_manual_approval_above_cents = pr_require_manual_approval_above_cents r,
         nu_max_retry_count = pr_max_retry_count r, nu_gpu_hour_cents = ci_gpu_hour_cents ci\<rparr>)"

lemma numbers_inputSections:
  "validNumbers ci \<Longrightarrow> preflightNumbers (inputSections ci) = Inr (inputNumbers ci)"
  by (simp add: preflightNumbers_def inputSections_def inputNumbers_def Let_def rulesJson_def
      runtimeObservationJson_def validNumbers_def validRules_def validate_jint)

definition inputFlags :: "canonical_input \<Rightarrow> preflight_flags" where
  "inputFlags ci =
     (let er = ci_execution_request ci
      in \<lparr>fg_auto_scale = ex_auto_scale (er_execution er), fg_retry_on_fail = ex_retry_on_fail (er_execution er),
         fg_already_consumed = rr_already_consumed (er_release_request er),
         fg_kill_switch_active = ro_kill_switch_active (er_runtime_observation er),
         fg_allow_auto_scale = pr_allow_auto_scale (pd_rules (ci_policy_document ci))\<rparr>)"

lemma flags_inputSections: "preflightFlags (inputSections ci) pinnedPolicyVersion = Inr (inputFlags ci)"
  by (simp add: preflightFlags_def inputSections_def Let_def rulesJson_def runtimeObservationJson_def expectBoolean_def inputFlags_def)

lemma trust_inputSections:
  assumes "validTrust h (ci_policy_document ci)" "wfRules (pd_rules (ci_policy_document ci))"
  shows "preflightTrust h (inputSections ci) (pd_schema_version (ci_policy_document ci))
      (pd_policy_version (ci_policy_document ci)) (pd_rules (ci_policy_document ci)) =
    Some (Inr (pd_trust (ci_policy_document ci)))"
proof (cases "pd_trust (ci_policy_document ci)")
  case None
  then show ?thesis by (simp add: preflightTrust_def inputSections_def Let_def)
next
  case (Some t)
  have "rejectUnknownKeys (case trustJson t of JObj ps \<Rightarrow> ps) [''key_version'', ''key_id'', ''public_key'', ''signature''] = None"
    by (simp add: trustJson_def rejectUnknownKeys_ok)
  moreover have version: "pd_policy_version (ci_policy_document ci) = pinnedPolicyVersion"
    using assms(1) by (simp add: validTrust_def)
  ultimately show ?thesis
    using Some assms
    by (simp add: preflightTrust_def inputSections_def Let_def validTrust_def trusts_def trustJson_def expectString_def
        canonicalPolicyPayload_total version)
qed

lemma builtRules_input: "builtRules (inputNumbers ci) (inputFlags ci) = pd_rules (ci_policy_document ci)"
  by (rule policy_rules.equality) (simp_all add: builtRules_def inputNumbers_def inputFlags_def Let_def)

lemma builtInput_input:
  "builtInput
     (let er = ci_execution_request ci; oi = er_orbit_intent er; rr = er_release_request er; p = ci_policy_document ci
      in \<lparr>sx_request_id = er_request_id er, sx_submitted_region = er_submitted_region er, sx_user_id = er_user_id er,
          sx_gpu_type = rs_gpu_type (er_resources er), sx_execution_id = rr_execution_id rr,
          sx_hold_state = rr_hold_state rr, sx_orbit_version = oi_orbit_version oi, sx_orbit_action = oi_action oi,
          sx_orbit_boundary = oi_boundary oi, sx_lifecycle_state = oi_lifecycle_state oi,
          sx_policy_schema_version = pd_schema_version p, sx_policy_version = pd_policy_version p,
          sx_budget_token = er_budget_token er\<rparr>)
     (let er = ci_execution_request ci
      in \<lparr>li_tool_calls = er_tool_calls er, li_parameters = er_parameters er,
         li_signatures = oi_signatures (er_orbit_intent er),
         li_orbit_tool_calls = oi_payload_tool_calls (er_orbit_intent er)\<rparr>)
     (inputNumbers ci) (inputFlags ci) (pd_trust (ci_policy_document ci)) = ci"
  unfolding builtInput_def builtRules_input
  by (intro canonical_input.equality execution_request.equality resources_spec.equality execution_spec.equality
      orbit_intent.equality release_request.equality runtime_observation.equality policy_document.equality)
    (simp_all add: Let_def inputNumbers_def inputFlags_def)

lemma preflightBuild_complete:
  assumes "validInput h ci"
  shows "preflightBuild h (inputFields ci) = Some (Inr ci)"
proof -
  have parts: "validNumbers ci" "validStrings ci" "validTrust h (ci_policy_document ci)"
    using assms by (simp_all add: validInput_def)
  have rules: "wfRules (pd_rules (ci_policy_document ci))"
    using parts(1) by (simp add: validNumbers_def validRules_def wfRules_def validCount_def)
  have version: "pd_policy_version (ci_policy_document ci) = pinnedPolicyVersion" "pinnedPolicyVersion \<noteq> []"
    using parts(3) by (simp_all add: validTrust_def pinnedPolicyVersion_def)
  have nonempty: "pd_policy_version (ci_policy_document ci) \<noteq> []" using version by simp
  note stages = sections_inputFields strings_inputSections [OF parts(2) nonempty] lists_inputSections [OF assms]
    numbers_inputSections [OF parts(1)]
  show ?thesis
    using trust_inputSections [OF parts(3) rules] version flags_inputSections [of ci] builtInput_input [of ci]
    by (simp add: preflightBuild_def stages builtRules_input Let_def)
qed

section \<open>Properties\<close>

lemma hashCanonicalJson_strings:
  "distinct (map fst ps) \<Longrightarrow> \<forall>p \<in> set ps. \<exists>s. snd p = JStr s \<Longrightarrow> hashCanonicalJson h (JObj ps) \<noteq> None"
  using canonicalizeJson_total [of "JObj ps"] by (fastforce simp: hashCanonicalJson_def)

lemma typedFailure_total: "typedFailure h rh r \<noteq> None"
  using hashCanonicalJson_strings [of "[(jstr ''request_hash'', JStr rh), (jstr ''decision'', JStr (jstr ''REFUSE'')),
        (jstr ''reason_code'', JStr (reasonText r))]" h]
  by (simp add: typedFailure_def decisionHashFromFailure_def)

lemma policyHash_total: "wfRules (pd_rules p) \<Longrightarrow> policyHash h p =
    Some (sha256Text h (canonicalText (policyPayloadJson (pd_schema_version p) (pd_policy_version p) (pd_rules p))))"
  by (simp add: policyHash_def canonicalPolicyPayload_total)

lemma validInput_wfRules: "validInput h ci \<Longrightarrow> wfRules (pd_rules (ci_policy_document ci))"
  by (simp add: validInput_def validNumbers_def validRules_def wfRules_def validCount_def)

text \<open>What a successful run went through.\<close>

lemma runStrictPreflight_Inr:
  assumes "runStrictPreflight h raw = Some (Inr env)"
  obtains obj rest where "parseStrictJson raw = ParseOk (JObj obj) rest" "wfObj obj"
    "pe_canonical_input env = canonicalText (JObj obj)" "preflightBuild h obj = Some (Inr (pe_parsed_input env))"
    "policyHash h (ci_policy_document (pe_parsed_input env)) = Some (pe_policy_hash env)"
    "pe_request_hash env = sha256Text h (pe_canonical_input env)" "pe_raw_input env = raw"
proof -
  from assms obtain obj rest where parse: "parseStrictJson raw = ParseOk (JObj obj) rest"
    by (auto simp: runStrictPreflight_def asRecord_eq_Some split: parse_result.splits option.splits)
  then have wf: "wfJson (JObj obj)" by (rule parseStrictJson_wf)
  with parse assms obtain built ph where "preflightBuild h obj = Some (Inr built)"
    "policyHash h (ci_policy_document built) = Some ph"
    "env = \<lparr>pe_raw_input = raw, pe_canonical_input = canonicalText (JObj obj),
       pe_request_hash = sha256Text h (canonicalText (JObj obj)), pe_parsed_input = built, pe_policy_hash = ph\<rparr>"
    by (auto simp: runStrictPreflight_def canonicalizeJson_text split: option.splits sum.splits
        simp del: canonicalizeJson.simps wfJson.simps)
  with that parse wf show ?thesis by (auto simp: wfObj_def)
qed

lemma runStrictPreflight_of_text:
  assumes "wfObj obj" "preflightBuild h (normObject obj) = Some (Inr built)" "wfRules (pd_rules (ci_policy_document built))"
  shows "runStrictPreflight h (canonicalText (JObj obj)) = Some (Inr
    \<lparr>pe_raw_input = canonicalText (JObj obj), pe_canonical_input = canonicalText (JObj obj),
     pe_request_hash = sha256Text h (canonicalText (JObj obj)), pe_parsed_input = built,
     pe_policy_hash = the (policyHash h (ci_policy_document built))\<rparr>)"
proof -
  have wf: "wfJson (JObj obj)" using assms(1) by (simp only: wfObj_def)
  have "parseStrictJson (canonicalText (JObj obj)) = ParseOk (JObj (normObject obj)) []"
    using parse_canonicalText [OF wf] by (simp only: normJson_JObj)
  moreover have "canonicalizeJson (JObj (normObject obj)) = Some (canonicalText (JObj obj))"
    using canonicalizeJson_text [OF wfJson_normJson [OF wf]] canonicalText_normJson [OF wf] by (simp only: normJson_JObj)
  ultimately show ?thesis
    using assms(2,3) by (simp add: runStrictPreflight_def policyHash_total del: canonicalizeJson.simps)
qed

lemma preflight_of_valid:
  assumes "validInput h ci"
  shows "runStrictPreflight h (requestText ci) = Some (Inr
    \<lparr>pe_raw_input = requestText ci, pe_canonical_input = requestText ci,
     pe_request_hash = sha256Text h (requestText ci), pe_parsed_input = normInput ci,
     pe_policy_hash = the (policyHash h (ci_policy_document ci))\<rparr>)"
proof -
  note wf = wfObj_inputFields [OF assms]
  note build = preflightBuild_norm [OF preflightBuild_complete [OF assms] wf]
  have same: "ci_policy_document (normInput ci) = ci_policy_document ci" by (simp add: normInput_def)
  show ?thesis
    using runStrictPreflight_of_text [OF wf build] validInput_wfRules [OF assms] by (simp add: same requestText_def)
qed

text \<open>\<open>makeBaseInput\<close> of the audits, without overrides: the input the witnesses run.\<close>

definition baseCalls :: "tool_call list" where
  "baseCalls =
     [\<lparr>tc_tool = jstr ''compile'', tc_priority = 1, tc_parameters = None\<rparr>,
      \<lparr>tc_tool = jstr ''verify'', tc_priority = 2, tc_parameters = None\<rparr>]"

definition makeBaseInput :: canonical_input where
  "makeBaseInput =
     \<lparr>ci_execution_request =
        \<lparr>er_request_id = jstr ''req-allow-001'', er_submitted_region = jstr ''us-west-2'',
         er_user_id = jstr ''user-001'',
         er_resources = \<lparr>rs_gpu_type = jstr ''a10g'', rs_gpu_count = 2, rs_hours = 4\<rparr>,
         er_execution =
           \<lparr>ex_auto_scale = False, ex_max_scale_multiplier = 1, ex_retry_on_fail = False, ex_max_retries = 0\<rparr>,
         er_tool_calls = baseCalls, er_parameters = None,
         er_orbit_intent =
           \<lparr>oi_orbit_version = jstr ''2.0'', oi_action = jstr ''execute'', oi_boundary = jstr ''gpu-batch'',
            oi_payload_tool_calls = baseCalls, oi_lifecycle_state = jstr ''ARMED'',
            oi_signatures = [\<lparr>sg_alg = jstr ''hmac-sha256'', sg_sig = jstr ''orbit-signature-v1''\<rparr>]\<rparr>,
         er_release_request =
           \<lparr>rr_execution_id = jstr ''exec-001'', rr_hold_state = jstr ''APPROVED'', rr_already_consumed = False\<rparr>,
         er_runtime_observation =
           \<lparr>ro_kill_switch_active = False, ro_actual_gpu_count = 2, ro_actual_hours = 4,
            ro_actual_total_cost_cents = 4000\<rparr>,
         er_budget_token = None\<rparr>,
      ci_policy_document =
        \<lparr>pd_schema_version = jstr ''ecs.policy.v1'', pd_policy_version = jstr ''policy.v1'', pd_trust = None,
         pd_rules =
           \<lparr>pr_max_total_cost_cents = 500000, pr_allow_auto_scale = True, pr_max_gpu_count = 32, pr_max_hours = 72,
            pr_require_manual_approval_above_cents = 250000, pr_max_retry_count = 5\<rparr>\<rparr>,
      ci_gpu_hour_cents = 500\<rparr>"

lemma validInput_base: "validInput h makeBaseInput"
  by (simp add: validInput_def validNumbers_def validRules_def validCount_def isSafeInteger_def maxSafe_def
      validStrings_def validTrust_def pinnedPolicyVersion_def validToolCalls_def validToolCall_def wfToolCall_def
      validParameters_def validSignature_def makeBaseInput_def baseCalls_def Let_def)

lemma normInput_base: "normInput makeBaseInput = makeBaseInput"
  by (simp add: normInput_def normCall_def makeBaseInput_def baseCalls_def)

lemma preflight_replay:
  assumes "runStrictPreflight h raw = Some (Inr env)"
  shows "runStrictPreflight h (pe_canonical_input env) = Some (Inr
    (env\<lparr>pe_raw_input := pe_canonical_input env, pe_parsed_input := normInput (pe_parsed_input env)\<rparr>))"
proof -
  from assms obtain obj rest where run: "wfObj obj" "pe_canonical_input env = canonicalText (JObj obj)"
    "preflightBuild h obj = Some (Inr (pe_parsed_input env))"
    "policyHash h (ci_policy_document (pe_parsed_input env)) = Some (pe_policy_hash env)"
    "pe_request_hash env = sha256Text h (pe_canonical_input env)"
    by (rule runStrictPreflight_Inr)
  note build = preflightBuild_norm [OF run(3,1)]
  have same: "ci_policy_document (normInput ci) = ci_policy_document ci" for ci by (simp add: normInput_def)
  have rules: "wfRules (pd_rules (ci_policy_document (normInput (pe_parsed_input env))))"
    using preflightBuild_valid [OF run(3,1)] validInput_wfRules by (simp add: same)
  show ?thesis
    using runStrictPreflight_of_text [OF run(1) build rules] run(2,4,5) by (simp add: same)
qed

lemma preflight_total: "runStrictPreflight h raw \<noteq> None"
proof (cases "parseStrictJson raw")
  case (ParseOk v rest)
  then have wf: "wfJson v" by (rule parseStrictJson_wf)
  show ?thesis
  proof (cases "asRecord (Some v)")
    case None
    with ParseOk typedFailure_total show ?thesis by (simp add: runStrictPreflight_def)
  next
    case (Some obj)
    then have v: "v = JObj obj" by (simp add: asRecord_eq_Some)
    show ?thesis
    proof (cases "preflightBuild h obj")
      case None
      with preflightBuild_total show ?thesis by blast
    next
      case build: (Some out)
      have "wfRules (pd_rules (ci_policy_document ci))" if "out = Inr ci" for ci
        using preflightBuild_valid [of h obj ci] build that wf v validInput_wfRules by (simp add: wfObj_def)
      with build ParseOk Some wf typedFailure_total show ?thesis
        by (cases out) (simp_all add: runStrictPreflight_def canonicalizeJson_text policyHash_total)
    qed
  qed
next
  case ParseStarved
  with parse_not_starved show ?thesis by blast
next
  case (ParseFail r)
  with typedFailure_total show ?thesis by (simp add: runStrictPreflight_def)
qed

text \<open>
  The preflight always answers. For every request text it returns a validated envelope or a typed
  refusal; no exception escapes and no input is left undecided.
\<close>

theorem runStrictPreflight_answers: "runStrictPreflight h raw \<noteq> None"
  by (rule preflight_total)

text \<open>
  C16: the preflight lets only valid requests through. An accepted input has safe, in-range numbers,
  non-empty strings, tool lists without duplicates or reserved names at any depth, the pinned policy
  version and, when a trust block is present, a key id derived from its key and a valid signature over the
  canonical policy; its hashes are those of the canonical request and of the policy.
\<close>

theorem runStrictPreflight_accepts_valid:
  assumes "runStrictPreflight h raw = Some (Inr env)"
  shows "validInput h (pe_parsed_input env) \<and>
    pe_request_hash env = sha256Text h (pe_canonical_input env) \<and>
    policyHash h (ci_policy_document (pe_parsed_input env)) = Some (pe_policy_hash env)"
  using assms by (rule runStrictPreflight_Inr) (auto intro: preflightBuild_valid)

theorem runStrictPreflight_accepts_valid_witness:
  "\<exists>env. runStrictPreflight testHost (requestText makeBaseInput) = Some (Inr env) \<and>
     validInput testHost (pe_parsed_input env) \<and>
     pe_request_hash env = sha256Text testHost (pe_canonical_input env)"
proof -
  note run = preflight_of_valid [OF validInput_base [of testHost]]
  from runStrictPreflight_accepts_valid [OF run] run show ?thesis by blast
qed

text \<open>
  The preflight refuses no valid request. The request text of every valid input is accepted, and the
  input that comes out is that input (its parameter objects in normal form).
\<close>

theorem runStrictPreflight_complete:
  assumes "validInput h ci"
  shows "\<exists>env. runStrictPreflight h (requestText ci) = Some (Inr env) \<and> pe_parsed_input env = normInput ci"
  using preflight_of_valid [OF assms] by simp

theorem runStrictPreflight_complete_witness:
  "\<exists>env. runStrictPreflight testHost (requestText makeBaseInput) = Some (Inr env) \<and> pe_parsed_input env = makeBaseInput"
  using runStrictPreflight_complete [OF validInput_base [of testHost]] by (simp add: normInput_base)

text \<open>
  Replay of the stored request. The canonical text kept in a receipt is accepted again, with the same
  canonical text, request hash and policy hash and the same input (its parameter objects in normal form).
\<close>

theorem runStrictPreflight_replay:
  assumes "runStrictPreflight h raw = Some (Inr env)"
  shows "runStrictPreflight h (pe_canonical_input env) = Some (Inr
    (env\<lparr>pe_raw_input := pe_canonical_input env, pe_parsed_input := normInput (pe_parsed_input env)\<rparr>))"
  using assms by (rule preflight_replay)

theorem runStrictPreflight_replay_witness:
  "\<exists>env. runStrictPreflight testHost (requestText makeBaseInput) = Some (Inr env) \<and>
     runStrictPreflight testHost (pe_canonical_input env) = Some (Inr
       (env\<lparr>pe_raw_input := pe_canonical_input env, pe_parsed_input := normInput (pe_parsed_input env)\<rparr>))"
proof -
  note run = preflight_of_valid [OF validInput_base [of testHost]]
  from runStrictPreflight_replay [OF run] run show ?thesis by blast
qed

text \<open>
  The request hash identifies the request. Two accepted requests with the same request hash are the
  same input with the same policy hash (parameter objects in normal form), unless SHA-256 has a collision.
\<close>

theorem request_hash_identifies:
  assumes "runStrictPreflight h raw1 = Some (Inr env1)" "runStrictPreflight h raw2 = Some (Inr env2)"
    and "pe_request_hash env1 = pe_request_hash env2"
  shows "normInput (pe_parsed_input env1) = normInput (pe_parsed_input env2) \<and>
      pe_policy_hash env1 = pe_policy_hash env2 \<or> sha256Collision h"
proof -
  from assms(1) obtain o1 r1 where one: "wfObj o1" "pe_canonical_input env1 = canonicalText (JObj o1)"
    "preflightBuild h o1 = Some (Inr (pe_parsed_input env1))"
    "pe_request_hash env1 = sha256Text h (pe_canonical_input env1)"
    by (rule runStrictPreflight_Inr)
  from assms(2) obtain o2 r2 where two: "wfObj o2" "pe_canonical_input env2 = canonicalText (JObj o2)"
    "preflightBuild h o2 = Some (Inr (pe_parsed_input env2))"
    "pe_request_hash env2 = sha256Text h (pe_canonical_input env2)"
    by (rule runStrictPreflight_Inr)
  have wf: "wfJson (JObj o1)" "wfJson (JObj o2)" using one(1) two(1) by (simp_all only: wfObj_def)
  have "sha256Text h (canonicalText (JObj o1)) = sha256Text h (canonicalText (JObj o2))"
    using one two assms(3) by simp
  then have cases: "canonicalText (JObj o1) = canonicalText (JObj o2) \<or> sha256Collision h"
    by (rule sha256Text_eqD [OF wellFormed_canonicalText [OF wf(1)] wellFormed_canonicalText [OF wf(2)]])
  show ?thesis
  proof (cases "sha256Collision h")
    case False
    with cases one two have same_text: "pe_canonical_input env1 = pe_canonical_input env2" by simp
    from preflight_replay [OF assms(1)] preflight_replay [OF assms(2)] same_text
    have "env1\<lparr>pe_raw_input := pe_canonical_input env1, pe_parsed_input := normInput (pe_parsed_input env1)\<rparr> =
        env2\<lparr>pe_raw_input := pe_canonical_input env2, pe_parsed_input := normInput (pe_parsed_input env2)\<rparr>"
      by simp
    then have "normInput (pe_parsed_input env1) = normInput (pe_parsed_input env2)" "pe_policy_hash env1 = pe_policy_hash env2"
      by (cases env1; cases env2; simp)+
    then show ?thesis by simp
  qed simp
qed

theorem request_hash_identifies_witness:
  "\<exists>env. runStrictPreflight testHost (requestText makeBaseInput) = Some (Inr env) \<and>
     (normInput (pe_parsed_input env) = normInput (pe_parsed_input env) \<and> pe_policy_hash env = pe_policy_hash env \<or>
       sha256Collision testHost)"
proof -
  note run = preflight_of_valid [OF validInput_base [of testHost]]
  from request_hash_identifies [OF run run refl] run show ?thesis by blast
qed

end
