(* ===== verification/StrictArm.thy ===== *)
theory StrictArm
  imports AuthState PreflightProps
begin

text \<open>
  \<open>src/arm/engine.ts\<close>: the release layer. It projects the cost with overflow-checked products of
  doubles, consumes the execution id in the authority store, applies the policy limits and reserves the
  projected cost on the budget token. It is the only layer that changes state; every early return leaves
  the store changes made so far in place.
\<close>

section \<open>The layer\<close>

definition multiplyChecked :: "int \<Rightarrow> int \<Rightarrow> int option" where
  "multiplyChecked left right =
     (let result = jmul left right in if \<not> isSafeInteger result then None else Some result)"

definition projectedCost :: "canonical_input \<Rightarrow> int option" where
  "projectedCost ci =
     (let execution = er_execution (ci_execution_request ci); resources = er_resources (ci_execution_request ci)
      in case multiplyChecked (rs_gpu_count resources) (rs_hours resources) of
           None \<Rightarrow> None
         | Some base \<Rightarrow>
             (case multiplyChecked base (ci_gpu_hour_cents ci) of
                None \<Rightarrow> None
              | Some priced \<Rightarrow>
                  (case multiplyChecked priced
                      (if ex_auto_scale execution then ex_max_scale_multiplier execution else 1) of
                     None \<Rightarrow> None
                   | Some scaled \<Rightarrow>
                       multiplyChecked scaled
                         (if ex_retry_on_fail execution then jadd (ex_max_retries execution) 1 else 1))))"

definition resetArmStores :: "runtime_state \<Rightarrow> runtime_state" where
  "resetArmStores st =
     st\<lparr>st_authority := authorityReset (st_authority st), st_budget := budgetReset (st_budget st)\<rparr>"

definition defineBudgetToken :: "runtime_state \<Rightarrow> jsstring \<Rightarrow> int \<Rightarrow> runtime_state" where
  "defineBudgetToken st token maxBudgetCents = st\<lparr>st_budget := defineToken (st_budget st) token maxBudgetCents\<rparr>"

definition armTrace :: "canonical_input \<Rightarrow> decision \<Rightarrow> reason_code \<Rightarrow> int \<Rightarrow> int \<Rightarrow> int \<Rightarrow> arm_trace" where
  "armTrace ci d r projected allowed prevented =
     \<lparr>at_decision = d, at_reason_code = r, at_projected_total_cost_cents = projected,
      at_allowed_cost_cents = allowed, at_prevented_cost_cents = prevented,
      at_execution_id = rr_execution_id (er_release_request (ci_execution_request ci)),
      at_budget_token = er_budget_token (ci_execution_request ci)\<rparr>"

definition runStrictArm ::
  "runtime_state \<Rightarrow> canonical_input \<Rightarrow> orbit_trace \<Rightarrow> jsstring \<Rightarrow> runtime_state \<times> arm_trace" where
  "runStrictArm st ci orbit requestHash =
     (case projectedCost ci of
        None \<Rightarrow> (st, armTrace ci Refuse IntegerOverflow 0 0 0)
      | Some projected \<Rightarrow>
          (let er = ci_execution_request ci; rules = pd_rules (ci_policy_document ci);
               allowedCost = min projected (pr_max_total_cost_cents rules);
               preventedCost = max (jsub projected allowedCost) 0;
               executionId = rr_execution_id (er_release_request er);
               (records, beginStatus) = beginExecution (st_authority st) executionId requestHash;
               st1 = st\<lparr>st_authority := records\<rparr>;
               trace = (\<lambda>d r. armTrace ci d r projected allowedCost preventedCost)
           in if beginStatus = InflightExists then (st1, trace Refuse ExecutionIdAlreadyConsumed)
              else if beginStatus = AllowedExists then (st1, trace Refuse ExecutionIdReplayed)
              else if ot_decision orbit = Refuse then (st1, trace Refuse (ot_reason_code orbit))
              else if ex_auto_scale (er_execution er) \<and> \<not> pr_allow_auto_scale rules
                then (st1, trace Refuse AutoScaleDenied)
              else if rs_gpu_count (er_resources er) > pr_max_gpu_count rules then (st1, trace Refuse GpuLimit)
              else if rs_hours (er_resources er) > pr_max_hours rules then (st1, trace Refuse HoursLimit)
              else if ex_max_retries (er_execution er) > pr_max_retry_count rules then (st1, trace Refuse RetryLimit)
              else if projected > pr_max_total_cost_cents rules then (st1, trace Refuse CostLimit)
              else (case er_budget_token er of
                      None \<Rightarrow> (st1, trace Allow OkArm)
                    | Some budgetToken \<Rightarrow>
                        (let (tokens, budgetStatus) = reserveToken (st_budget st1) budgetToken projected
                         in if budgetStatus = Exhausted then (st1\<lparr>st_budget := tokens\<rparr>, trace Refuse BudgetTokenExhausted)
                            else (st1\<lparr>st_budget := tokens\<rparr>, trace Allow OkArm)))))"

definition commitArmAllow :: "runtime_state \<Rightarrow> jsstring \<Rightarrow> jsstring \<Rightarrow> jsstring \<Rightarrow> runtime_state" where
  "commitArmAllow st executionId requestHash decisionHash =
     st\<lparr>st_authority := commitAllow (st_authority st) executionId requestHash decisionHash\<rparr>"

section \<open>The overflow check is exact\<close>

definition exactCost :: "canonical_input \<Rightarrow> int" where
  "exactCost ci =
     (let execution = er_execution (ci_execution_request ci); resources = er_resources (ci_execution_request ci)
      in rs_gpu_count resources * rs_hours resources * ci_gpu_hour_cents ci *
         (if ex_auto_scale execution then ex_max_scale_multiplier execution else 1) *
         (if ex_retry_on_fail execution then ex_max_retries execution + 1 else 1))"

lemma multiplyChecked_eq: "multiplyChecked a b = (if isSafeInteger (a * b) then Some (a * b) else None)"
  by (simp add: multiplyChecked_def jmul_def isSafeInteger_fl fl_safe)

lemma safe_factor: "1 \<le> a \<Longrightarrow> 1 \<le> b \<Longrightarrow> isSafeInteger (a * b) \<Longrightarrow> isSafeInteger a"
proof -
  assume "1 \<le> a" "1 \<le> b" and safe: "isSafeInteger (a * b)"
  then have "a * 1 \<le> a * b" by (intro mult_left_mono) simp_all
  then have "a \<le> a * b" by simp
  with safe \<open>1 \<le> a\<close> show ?thesis unfolding isSafeInteger_def maxSafe_def by linarith
qed

lemma jadd_one: "0 \<le> x \<Longrightarrow> isSafeInteger x \<Longrightarrow> jadd x 1 = x + 1"
proof -
  assume x: "0 \<le> x" "isSafeInteger x"
  show ?thesis
  proof (cases "isSafeInteger (x + 1)")
    case True
    then show ?thesis by (simp add: jadd_def fl_safe)
  next
    case False
    with x have "x + 1 = 2 ^ 53" by (simp add: isSafeInteger_def maxSafe_def)
    moreover have "floorlog 2 (2 ^ 53) = 54"
      using floorlog_le_iff [of 2 "2 ^ 53" 54] floorlog_le_iff [of 2 "2 ^ 53" 53] by simp
    then have "fl (2 ^ 53) = 2 ^ 53" by (simp add: fl_def flNat_def Let_def)
    ultimately show ?thesis by (simp add: jadd_def)
  qed
qed

lemma pos_mult: "1 \<le> a \<Longrightarrow> 1 \<le> b \<Longrightarrow> 1 \<le> a * (b :: int)"
  by (metis mult_mono' mult_1 zero_le_one)

lemma projectedCost_exact:
  assumes "validNumbers ci"
  shows "projectedCost ci = (if isSafeInteger (exactCost ci) then Some (exactCost ci) else None)"
    and "1 \<le> exactCost ci"
proof -
  let ?e = "er_execution (ci_execution_request ci)" and ?r = "er_resources (ci_execution_request ci)"
  define g where "g = rs_gpu_count ?r"
  define t where "t = rs_hours ?r"
  define p where "p = ci_gpu_hour_cents ci"
  define m where "m = (if ex_auto_scale ?e then ex_max_scale_multiplier ?e else 1)"
  define k where "k = (if ex_retry_on_fail ?e then ex_max_retries ?e + 1 else 1)"
  have pos: "1 \<le> g" "1 \<le> t" "1 \<le> p" "1 \<le> m" "1 \<le> k"
    using assms by (auto simp: validNumbers_def validCount_def Let_def g_def t_def p_def m_def k_def)
  have k: "(if ex_retry_on_fail ?e then jadd (ex_max_retries ?e) 1 else 1) = k"
    using assms by (auto simp: validNumbers_def validCount_def Let_def k_def jadd_one)
  note gt = pos_mult [OF pos(1,2)]
  note gtp = pos_mult [OF gt pos(3)]
  note gtpm = pos_mult [OF gtp pos(4)]
  show "1 \<le> exactCost ci"
    using pos_mult [OF gtpm pos(5)] by (simp add: exactCost_def Let_def g_def t_def p_def m_def k_def)
  show "projectedCost ci = (if isSafeInteger (exactCost ci) then Some (exactCost ci) else None)"
    unfolding projectedCost_def exactCost_def Let_def k
    unfolding g_def [symmetric] t_def [symmetric] p_def [symmetric] m_def [symmetric] k_def [symmetric]
    using safe_factor [OF gt pos(3)] safe_factor [OF gtp pos(4)] safe_factor [OF gtpm pos(5)]
    by (auto simp: multiplyChecked_eq)
qed

end
