(* ===== verification/StrictOrbit.thy ===== *)
theory StrictOrbit
  imports Contracts JsRegex
begin

text \<open>
  \<open>src/orbit/engine.ts\<close>: the intent layer. It refuses a request whose orbit version or life cycle
  state is off, whose intent carries more than one action, whose parameter objects hold a forbidden
  pattern once normalized (Unicode, white space, encoded IP addresses), or whose approved tool calls
  are not the requested ones. \<open>normalize("NFKC")\<close> and \<open>toLowerCase\<close> are the host's. \<open>None\<close> is an
  exception thrown by \<open>canonicalizeJson\<close>.
\<close>

unbundle bit_operations_syntax

section \<open>Patterns\<close>

definition forbiddenCodePatterns :: "jsstring list" where
  "forbiddenCodePatterns = map jstr
     [''rm -rf'', ''drop_database'', ''delete_database'', ''/etc/credentials'', ''os.remove('', ''unlink('']"

definition forbiddenNetworkPatterns :: "jsstring list" where
  "forbiddenNetworkPatterns = map jstr
     [''169.254.169.254'', ''127.0.0.1'', ''::1'', ''localhost'', '':2375'', '':2376'']"

definition forbiddenQueryPatterns :: "jsstring list" where
  "forbiddenQueryPatterns = map jstr
     [''select * from secrets'', ''export select'', ''api_key'', ''token dump'']"

definition quoted :: "string \<Rightarrow> string" where
  "quoted s = [CHR 0x22] @ s @ [CHR 0x22]"

definition forbiddenPlanPatterns :: "jsstring list" where
  "forbiddenPlanPatterns = map jstr
     [''retry_until_success'', quoted ''limit'' @ '':'' @ quoted ''none'', quoted ''count'' @ '':1000'',
      quoted ''count'' @ '':10000'']"

definition actionFieldNames :: "jsstring list" where
  "actionFieldNames = map jstr
     [''action'', ''actions'', ''tool_calls'', ''execution_targets'', ''commands'', ''workflow'', ''steps'', ''tasks'',
      ''operations'', ''pipeline'', ''run'', ''exec'', ''spawn'', ''shell'']"

definition actionTextPatterns :: "jsstring list" where
  "actionTextPatterns = map jstr
     [''deploy_irreversible'', ''irreversible'', ''delete'', ''destroy'', ''scale_gpu_cluster'', ''start_training_job'',
      ''retry_failed_job'', ''run'', ''exec'', ''spawn'', ''shell'']"

section \<open>Normalization\<close>

definition normalizeSuspiciousText :: "host \<Rightarrow> jsstring \<Rightarrow> jsstring" where
  "normalizeSuspiciousText h value = collapseSpaces (jsTrim (hs_lower h (hs_nfkc h value)))"

definition normalizedPattern :: "host \<Rightarrow> jsstring \<Rightarrow> jsstring" where
  "normalizedPattern h pattern = normalizeSuspiciousText h pattern"

definition ipv4FromNumber :: "int \<Rightarrow> jsstring option" where
  "ipv4FromNumber value =
     (if \<not> isSafeInteger value \<or> value < 0 \<or> value > 4294967295 then None
      else
        (let w = word_of_int value :: 32 word;
             octet = (\<lambda>k. showInt (uint (drop_bit k w AND 255)))
         in Some (joinWith (jstr ''.'') [octet 24, octet 16, octet 8, octet 0])))"

definition lowerHexDigit :: "code_unit \<Rightarrow> bool" where
  "lowerHexDigit c \<longleftrightarrow> isDigit c \<or> 97 \<le> c \<and> c \<le> 102"

definition lowerAlnum :: "code_unit \<Rightarrow> bool" where
  "lowerAlnum c \<longleftrightarrow> isDigit c \<or> 97 \<le> c \<and> c \<le> 122"

text \<open>\<open>\d{1,3}(?:\.\d{1,3}){3}\<close>, \<open>0x[0-9a-f]{1,8}\<close> and \<open>\d{8,10}\<close>.\<close>

definition reDotted :: matcher where
  "reDotted = mSeq (mRep 1 3 (mCls isDigit)) (mTimes 3 (mSeq (mLit (jstr ''.'')) (mRep 1 3 (mCls isDigit))))"

definition reHex :: matcher where
  "reHex = mSeq (mLit (jstr ''0x'')) (mRep 1 8 (mCls lowerHexDigit))"

definition reDecimal :: matcher where
  "reDecimal = mRep 8 10 (mCls isDigit)"

definition hexValue :: "jsstring \<Rightarrow> nat" where
  "hexValue ds = foldl (\<lambda>n d. 16 * n + unat (hexDigitValue d)) 0 ds"

definition parseIpToken :: "host \<Rightarrow> jsstring \<Rightarrow> jsstring option" where
  "parseIpToken h token =
     (let trimmed = normalizeSuspiciousText h token
      in if fullMatch (mSeq (mLit (jstr ''::ffff:'')) reDotted) trimmed
         then Some (drop (length (jstr ''::ffff:'')) trimmed)
         else if trimmed = jstr ''0:0:0:0:0:0:0:1'' \<or> trimmed = jstr ''::1'' then Some (jstr ''::1'')
         else if fullMatch reHex trimmed then ipv4FromNumber (int (hexValue (drop 2 trimmed)))
         else if fullMatch reDecimal trimmed then ipv4FromNumber (int (digitsValue trimmed))
         else None)"

text \<open>The expression of \<open>normalizeOrbitText\<close>; \<open>prev\<close> is the character its lookbehind inspects.\<close>

definition ipTokenMatch :: "code_unit option \<Rightarrow> matcher" where
  "ipTokenMatch prev =
     (if (case prev of Some c \<Rightarrow> lowerAlnum c | None \<Rightarrow> False) then (\<lambda>s. [])
      else mNotAhead
        (mSeq (mOpt (mLit (jstr ''::ffff:'')))
          (mAlt [reHex, reDecimal, reDotted, mLit (jstr ''::1''), mLit (jstr ''0:0:0:0:0:0:0:1'')]))
        lowerAlnum)"

definition normalizeOrbitText :: "host \<Rightarrow> jsstring \<Rightarrow> jsstring" where
  "normalizeOrbitText h txt =
     replaceGlobal ipTokenMatch (\<lambda>token. case parseIpToken h token of Some ip \<Rightarrow> ip | None \<Rightarrow> token) None
       (collapseSpaces txt)"

definition parameterText :: "host \<Rightarrow> jsobject \<Rightarrow> jsstring option" where
  "parameterText h parameters =
     map_option (\<lambda>t. normalizeOrbitText h (normalizeSuspiciousText h t)) (canonicalizeJson (JObj parameters))"

section \<open>Rules\<close>

definition matchesPattern :: "host \<Rightarrow> jsstring list \<Rightarrow> jsobject \<Rightarrow> bool option" where
  "matchesPattern h patterns parameters =
     map_option (\<lambda>t. list_ex (\<lambda>p. jsIncludes t (normalizedPattern h p)) patterns) (parameterText h parameters)"

definition rules :: "(string \<times> jsstring list) list" where
  "rules =
     [(''destructive_code'', forbiddenCodePatterns), (''internal_network'', forbiddenNetworkPatterns),
      (''data_exfiltration'', forbiddenQueryPatterns), (''recursive_or_fanout'', forbiddenPlanPatterns)]"

text \<open>\<open>list.some(f)\<close> for an \<open>f\<close> that may throw.\<close>

fun someM :: "('a \<Rightarrow> bool option) \<Rightarrow> 'a list \<Rightarrow> bool option" where
  "someM f [] = Some False"
| "someM f (x # xs) = (case f x of None \<Rightarrow> None | Some True \<Rightarrow> Some True | Some False \<Rightarrow> someM f xs)"

definition toolCallsEqual :: "tool_call list \<Rightarrow> tool_call list \<Rightarrow> bool option" where
  "toolCallsEqual left right =
     (case (canonicalizeJson (toolCallsJson left), canonicalizeJson (toolCallsJson right)) of
        (Some a, Some b) \<Rightarrow> Some (a = b)
      | _ \<Rightarrow> None)"

definition hasActionText :: "host \<Rightarrow> jsstring \<Rightarrow> bool" where
  "hasActionText h value =
     (let lower = normalizeSuspiciousText h value
      in list_ex (\<lambda>p. jsIncludes lower (normalizedPattern h p)) actionTextPatterns \<and>
         (jsIncludes lower (jstr ''action'') \<or> jsIncludes lower (jstr ''task'') \<or> jsIncludes lower (jstr ''step'')))"

text \<open>A sum, so the order in which the entries are visited does not matter.\<close>

fun countNestedActionMarkers :: "host \<Rightarrow> json \<Rightarrow> nat" where
  "countNestedActionMarkers h (JArr vs) = sum_list (map (countNestedActionMarkers h) vs)"
| "countNestedActionMarkers h (JStr s) = (if hasActionText h s then 1 else 0)"
| "countNestedActionMarkers h (JObj ps) =
     sum_list (map (\<lambda>(key, nested).
       (if normalizeSuspiciousText h key \<in> set actionFieldNames
        then (case nested of JArr vs \<Rightarrow> length vs | _ \<Rightarrow> 1) else 0) +
       countNestedActionMarkers h nested) ps)"
| "countNestedActionMarkers h JNull = 0"
| "countNestedActionMarkers h (JBool b) = 0"
| "countNestedActionMarkers h (JNum n) = 0"

definition intentParameterObjects :: "canonical_input \<Rightarrow> jsobject list" where
  "intentParameterObjects ci =
     (let er = ci_execution_request ci
      in (case er_parameters er of None \<Rightarrow> [] | Some ps \<Rightarrow> [ps]) @
         List.map_filter tc_parameters (er_tool_calls er) @
         List.map_filter tc_parameters (oi_payload_tool_calls (er_orbit_intent er)))"

definition hasMultipleActions :: "host \<Rightarrow> canonical_input \<Rightarrow> bool" where
  "hasMultipleActions h ci \<longleftrightarrow>
     length (er_tool_calls (ci_execution_request ci)) > 1 \<and>
     list_ex (\<lambda>c. list_ex (\<lambda>p. jsIncludes (hs_lower h (tc_tool c)) p) actionTextPatterns)
       (er_tool_calls (ci_execution_request ci)) \<or>
     list_ex (\<lambda>ps. countNestedActionMarkers h (JObj ps) > 0) (intentParameterObjects ci)"

definition hasUnsafeParameters :: "host \<Rightarrow> canonical_input \<Rightarrow> bool option" where
  "hasUnsafeParameters h ci =
     someM (\<lambda>ps. someM (\<lambda>(id, patterns). matchesPattern h patterns ps) rules) (intentParameterObjects ci)"

section \<open>The layer\<close>

definition orbitTrace :: "decision \<Rightarrow> reason_code \<Rightarrow> jsstring \<Rightarrow> orbit_trace" where
  "orbitTrace d r vh = \<lparr>ot_decision = d, ot_reason_code = r, ot_validation_hash = vh\<rparr>"

definition runStrictOrbit :: "host \<Rightarrow> canonical_input \<Rightarrow> orbit_trace option" where
  "runStrictOrbit h ci =
     (let er = ci_execution_request ci; oi = er_orbit_intent er
      in case hashCanonicalJson h (orbitIntentJson oi) of
           None \<Rightarrow> None
         | Some vh \<Rightarrow>
             if oi_orbit_version oi \<noteq> jstr ''2.0'' \<or> oi_lifecycle_state oi \<noteq> jstr ''ARMED''
             then Some (orbitTrace Refuse ToolCallSequence vh)
             else if hasMultipleActions h ci then Some (orbitTrace Refuse OrbitMultipleActions vh)
             else (case hasUnsafeParameters h ci of
                     None \<Rightarrow> None
                   | Some True \<Rightarrow> Some (orbitTrace Refuse ForbiddenActionInParameters vh)
                   | Some False \<Rightarrow>
                       (case toolCallsEqual (er_tool_calls er) (oi_payload_tool_calls oi) of
                          None \<Rightarrow> None
                        | Some False \<Rightarrow> Some (orbitTrace Refuse ToolCallSequence vh)
                        | Some True \<Rightarrow> Some (orbitTrace Allow OkOrbit vh))))"

end
