(* ===== verification/ArmProps.thy ===== *)
theory ArmProps
  imports StrictArm StrictOrbit
begin

text \<open>
  The properties of the release layer. They rest on the contracts of the two stores (the
  interpretations \<open>authority\<close> and \<open>budget\<close> of \<open>AuthState\<close>).
\<close>

section \<open>One request\<close>

definition withinLimits :: "canonical_input \<Rightarrow> int \<Rightarrow> bool" where
  "withinLimits ci projected \<longleftrightarrow>
     (let er = ci_execution_request ci; rules = pd_rules (ci_policy_document ci)
      in (ex_auto_scale (er_execution er) \<longrightarrow> pr_allow_auto_scale rules) \<and>
         rs_gpu_count (er_resources er) \<le> pr_max_gpu_count rules \<and>
         rs_hours (er_resources er) \<le> pr_max_hours rules \<and>
         ex_max_retries (er_execution er) \<le> pr_max_retry_count rules \<and>
         projected \<le> pr_max_total_cost_cents rules)"

abbreviation requestedId :: "canonical_input \<Rightarrow> jsstring" where
  "requestedId ci \<equiv> rr_execution_id (er_release_request (ci_execution_request ci))"

definition tokenReserved :: "runtime_state \<Rightarrow> canonical_input \<Rightarrow> int \<Rightarrow> bool" where
  "tokenReserved st ci projected \<longleftrightarrow>
     (case er_budget_token (ci_execution_request ci) of None \<Rightarrow> True
      | Some t \<Rightarrow> snd (reserveToken (st_budget st) t projected) = Reserved)"

lemma reserve_exhausted: "snd (reserveToken s t c) \<noteq> Reserved \<Longrightarrow> fst (reserveToken s t c) = s"
  by (auto simp: reserveToken_def split: option.splits if_splits)

text \<open>The decision and the reason, once the cost is known.\<close>

definition armVerdict :: "runtime_state \<Rightarrow> canonical_input \<Rightarrow> orbit_trace \<Rightarrow> jsstring \<Rightarrow> int \<Rightarrow> decision \<times> reason_code" where
  "armVerdict st ci orbit rh p =
     (let er = ci_execution_request ci; rules = pd_rules (ci_policy_document ci);
          status = snd (beginExecution (st_authority st) (requestedId ci) rh)
      in if status = InflightExists then (Refuse, ExecutionIdAlreadyConsumed)
         else if status = AllowedExists then (Refuse, ExecutionIdReplayed)
         else if ot_decision orbit = Refuse then (Refuse, ot_reason_code orbit)
         else if ex_auto_scale (er_execution er) \<and> \<not> pr_allow_auto_scale rules then (Refuse, AutoScaleDenied)
         else if rs_gpu_count (er_resources er) > pr_max_gpu_count rules then (Refuse, GpuLimit)
         else if rs_hours (er_resources er) > pr_max_hours rules then (Refuse, HoursLimit)
         else if ex_max_retries (er_execution er) > pr_max_retry_count rules then (Refuse, RetryLimit)
         else if p > pr_max_total_cost_cents rules then (Refuse, CostLimit)
         else if \<not> tokenReserved st ci p then (Refuse, BudgetTokenExhausted)
         else (Allow, OkArm))"

lemma armVerdict_allow:
  "fst (armVerdict st ci orbit rh p) = Allow \<longleftrightarrow>
     snd (beginExecution (st_authority st) (requestedId ci) rh) = Created \<and>
     ot_decision orbit = Allow \<and> withinLimits ci p \<and> tokenReserved st ci p"
  by (cases "snd (beginExecution (st_authority st) (requestedId ci) rh)"; cases "ot_decision orbit")
    (simp_all add: armVerdict_def withinLimits_def Let_def not_less)

definition budgetAfter :: "runtime_state \<Rightarrow> canonical_input \<Rightarrow> decision \<Rightarrow> int \<Rightarrow> budget_records" where
  "budgetAfter st ci d p =
     (case er_budget_token (ci_execution_request ci) of
        None \<Rightarrow> st_budget st
      | Some t \<Rightarrow> if d = Allow then fst (reserveToken (st_budget st) t p) else st_budget st)"

lemma runStrictArm_Some:
  assumes "projectedCost ci = Some p"
  shows "runStrictArm st ci orbit rh =
    (\<lparr>st_authority = fst (beginExecution (st_authority st) (requestedId ci) rh),
      st_budget = budgetAfter st ci (fst (armVerdict st ci orbit rh p)) p\<rparr>,
     armTrace ci (fst (armVerdict st ci orbit rh p)) (snd (armVerdict st ci orbit rh p)) p
       (min p (pr_max_total_cost_cents (pd_rules (ci_policy_document ci))))
       (max (jsub p (min p (pr_max_total_cost_cents (pd_rules (ci_policy_document ci))))) 0))"
proof (cases "er_budget_token (ci_execution_request ci)")
  case None
  then show ?thesis
    by (simp add: runStrictArm_def assms Let_def case_prod_beta armVerdict_def tokenReserved_def budgetAfter_def)
next
  case (Some t)
  show ?thesis
  proof (cases "snd (reserveToken (st_budget st) t p)")
    case Reserved
    with Some show ?thesis
      by (simp add: runStrictArm_def assms Let_def case_prod_beta armVerdict_def tokenReserved_def budgetAfter_def)
  next
    case Exhausted
    moreover from this have "fst (reserveToken (st_budget st) t p) = st_budget st" by (intro reserve_exhausted) simp
    ultimately show ?thesis using Some
      by (simp add: runStrictArm_def assms Let_def case_prod_beta armVerdict_def tokenReserved_def budgetAfter_def)
  qed
qed

lemma runStrictArm_None: "projectedCost ci = None \<Longrightarrow> runStrictArm st ci orbit rh = (st, armTrace ci Refuse IntegerOverflow 0 0 0)"
  by (simp add: runStrictArm_def)

text \<open>The trace always names the request's execution id and token.\<close>

lemma runStrictArm_names:
  "at_execution_id (snd (runStrictArm st ci orbit rh)) = requestedId ci"
  "at_budget_token (snd (runStrictArm st ci orbit rh)) = er_budget_token (ci_execution_request ci)"
  by (cases "projectedCost ci"; simp add: runStrictArm_None runStrictArm_Some armTrace_def)+

lemma runStrictArm_allow:
  "at_decision (snd (runStrictArm st ci orbit rh)) = Allow \<longleftrightarrow>
     (\<exists>p. projectedCost ci = Some p \<and> snd (beginExecution (st_authority st) (requestedId ci) rh) = Created \<and>
        ot_decision orbit = Allow \<and> withinLimits ci p \<and> tokenReserved st ci p)"
  by (cases "projectedCost ci") (simp_all add: runStrictArm_None runStrictArm_Some armTrace_def armVerdict_allow)

lemma runStrictArm_cost:
  "at_projected_total_cost_cents (snd (runStrictArm st ci orbit rh)) =
     (case projectedCost ci of None \<Rightarrow> 0 | Some p \<Rightarrow> p)"
  "at_allowed_cost_cents (snd (runStrictArm st ci orbit rh)) =
     (case projectedCost ci of None \<Rightarrow> 0
      | Some p \<Rightarrow> min p (pr_max_total_cost_cents (pd_rules (ci_policy_document ci))))"
  "at_prevented_cost_cents (snd (runStrictArm st ci orbit rh)) =
     (case projectedCost ci of None \<Rightarrow> 0
      | Some p \<Rightarrow> max (jsub p (min p (pr_max_total_cost_cents (pd_rules (ci_policy_document ci))))) 0)"
  by (cases "projectedCost ci"; simp add: runStrictArm_None runStrictArm_Some armTrace_def)+

lemma runStrictArm_authority:
  "st_authority (fst (runStrictArm st ci orbit rh)) =
     (if projectedCost ci = None then st_authority st
      else fst (beginExecution (st_authority st) (requestedId ci) rh))"
  by (cases "projectedCost ci") (simp_all add: runStrictArm_None runStrictArm_Some)

lemma runStrictArm_budget:
  "st_budget (fst (runStrictArm st ci orbit rh)) =
     budgetAfter st ci (at_decision (snd (runStrictArm st ci orbit rh)))
       (at_projected_total_cost_cents (snd (runStrictArm st ci orbit rh)))"
  by (cases "projectedCost ci")
    (simp_all add: runStrictArm_None runStrictArm_Some armTrace_def budgetAfter_def split: option.splits)

section \<open>Sequences of requests and commits\<close>

datatype arm_op =
    ArmRequest canonical_input orbit_trace jsstring
  | ArmCommit jsstring jsstring jsstring

fun runArmOps :: "runtime_state \<Rightarrow> arm_op list \<Rightarrow> runtime_state \<times> arm_trace list" where
  "runArmOps st [] = (st, [])"
| "runArmOps st (ArmRequest ci orbit rh # ops) =
     (fst (runArmOps (fst (runStrictArm st ci orbit rh)) ops),
      snd (runStrictArm st ci orbit rh) # snd (runArmOps (fst (runStrictArm st ci orbit rh)) ops))"
| "runArmOps st (ArmCommit i rh dh # ops) = runArmOps (commitArmAllow st i rh dh) ops"

text \<open>The operations the authority store sees.\<close>

fun authorityOps :: "arm_op list \<Rightarrow> (jsstring, jsstring) authority_op list" where
  "authorityOps [] = []"
| "authorityOps (ArmRequest ci orbit rh # ops) =
     (if projectedCost ci = None then authorityOps ops else Begin (requestedId ci) rh # authorityOps ops)"
| "authorityOps (ArmCommit i rh dh # ops) = Commit i rh dh # authorityOps ops"

definition allowsOf :: "jsstring \<Rightarrow> arm_trace list \<Rightarrow> arm_trace list" where
  "allowsOf i ts = filter (\<lambda>t. at_decision t = Allow \<and> at_execution_id t = i) ts"

lemma runArmOps_authority:
  "st_authority (fst (runArmOps st ops)) = fst (authority.run (st_authority st) (authorityOps ops))"
  by (induction st ops rule: runArmOps.induct) (simp_all add: runStrictArm_authority commitArmAllow_def)

lemma allows_le_created:
  "length (allowsOf i (snd (runArmOps st ops))) \<le>
     length (filter (\<lambda>p. p = (i, Created)) (snd (authority.run (st_authority st) (authorityOps ops))))"
proof (induction st ops rule: runArmOps.induct)
  case (2 st ci orbit rh ops)
  let ?r = "runStrictArm st ci orbit rh"
  show ?case
  proof (cases "projectedCost ci")
    case None
    then have "at_decision (snd ?r) \<noteq> Allow" by (simp add: runStrictArm_allow)
    with 2 None show ?thesis by (simp add: allowsOf_def runStrictArm_authority)
  next
    case (Some p)
    have created: "snd (beginExecution (st_authority st) (requestedId ci) rh) = Created"
      if "at_decision (snd ?r) = Allow" using that by (auto simp: runStrictArm_allow)
    show ?thesis
      using 2 Some created by (auto simp: allowsOf_def runStrictArm_authority runStrictArm_names)
  qed
qed (simp_all add: allowsOf_def commitArmAllow_def)

text \<open>What the allowed traces took from a token.\<close>

definition paidWith :: "jsstring \<Rightarrow> arm_trace list \<Rightarrow> int" where
  "paidWith t ts =
     sum_list (map at_projected_total_cost_cents
       (filter (\<lambda>tr. at_decision tr = Allow \<and> at_budget_token tr = Some t) ts))"

fun validOp :: "arm_op \<Rightarrow> bool" where
  "validOp (ArmRequest ci orbit rh) = validNumbers ci"
| "validOp (ArmCommit i rh dh) = True"

lemma paid_is_consumed:
  assumes "tokenAccount (st_budget st) t = Some (m, u)" "isSafeInteger m" "0 \<le> u" "u \<le> m" "\<forall>opn \<in> set ops. validOp opn"
  shows "tokenAccount (st_budget (fst (runArmOps st ops))) t = Some (m, u + paidWith t (snd (runArmOps st ops))) \<and>
    u + paidWith t (snd (runArmOps st ops)) \<le> m"
  using assms
proof (induction st ops arbitrary: u rule: runArmOps.induct)
  case (2 st ci orbit rh ops)
  let ?r = "runStrictArm st ci orbit rh"
  show ?case
  proof (cases "at_decision (snd ?r) = Allow \<and> er_budget_token (ci_execution_request ci) = Some t")
    case True
    then have allow: "at_decision (snd ?r) = Allow" and tok: "er_budget_token (ci_execution_request ci) = Some t" by auto
    from allow obtain p where p: "projectedCost ci = Some p" "tokenReserved st ci p" by (auto simp: runStrictArm_allow)
    have cost: "at_projected_total_cost_cents (snd ?r) = p" by (simp add: runStrictArm_cost p)
    have "1 \<le> p" using projectedCost_exact [of ci] "2.prems"(5) p(1) by (auto split: if_splits)
    then have p0: "0 \<le> p" by simp
    have res: "snd (reserveToken (st_budget st) t p) = Reserved" using p(2) tok by (simp add: tokenReserved_def)
    then have "\<not> jadd u p > m" using "2.prems"(1) by (auto simp: budget.reserve_answer split: if_splits)
    note exact = budget.reserve_exact [OF "2.prems"(1-3) p0 this]
    have "tokenAccount (st_budget (fst ?r)) t = Some (m, u + p)"
      using "2.prems"(1) exact(1) by (simp add: runStrictArm_budget budgetAfter_def allow tok cost budget.reserve_account res)
    from "2.IH" [OF this] "2.prems" exact(2) p0
    show ?thesis by (simp add: paidWith_def allow tok runStrictArm_names cost)
  next
    case False
    then have other: "\<not> (at_decision (snd ?r) = Allow \<and> at_budget_token (snd ?r) = Some t)"
      by (simp add: runStrictArm_names)
    have "tokenAccount (st_budget (fst ?r)) t = Some (m, u)"
      using "2.prems"(1) False
      by (auto simp: runStrictArm_budget budgetAfter_def budget.reserve_account split: option.splits)
    from "2.IH" [OF this] "2.prems" other show ?thesis by (auto simp: paidWith_def)
  qed
qed (simp_all add: paidWith_def commitArmAllow_def)

lemma projectedCost_max:
  assumes "validNumbers ci"
  shows "projectedCost ci = (if exactCost ci \<le> maxSafe then Some (exactCost ci) else None) \<and> 1 \<le> exactCost ci"
  using projectedCost_exact [OF assms] by (auto simp: isSafeInteger_def maxSafe_def)

definition withApproval :: "canonical_input \<Rightarrow> jsstring \<Rightarrow> bool \<Rightarrow> int \<Rightarrow> canonical_input" where
  "withApproval ci hold consumed threshold =
     ci\<lparr>ci_execution_request := (ci_execution_request ci)
          \<lparr>er_release_request := (er_release_request (ci_execution_request ci))
             \<lparr>rr_hold_state := hold, rr_already_consumed := consumed\<rparr>\<rparr>,
        ci_policy_document := (ci_policy_document ci)
          \<lparr>pd_rules := (pd_rules (ci_policy_document ci))\<lparr>pr_require_manual_approval_above_cents := threshold\<rparr>\<rparr>\<rparr>"

lemma withApproval_simps:
  "er_resources (ci_execution_request (withApproval ci hold consumed threshold)) = er_resources (ci_execution_request ci)"
  "er_execution (ci_execution_request (withApproval ci hold consumed threshold)) = er_execution (ci_execution_request ci)"
  "er_budget_token (ci_execution_request (withApproval ci hold consumed threshold)) = er_budget_token (ci_execution_request ci)"
  "requestedId (withApproval ci hold consumed threshold) = requestedId ci"
  "ci_gpu_hour_cents (withApproval ci hold consumed threshold) = ci_gpu_hour_cents ci"
  "pr_max_total_cost_cents (pd_rules (ci_policy_document (withApproval ci hold consumed threshold))) =
     pr_max_total_cost_cents (pd_rules (ci_policy_document ci))"
  "pr_allow_auto_scale (pd_rules (ci_policy_document (withApproval ci hold consumed threshold))) =
     pr_allow_auto_scale (pd_rules (ci_policy_document ci))"
  "pr_max_gpu_count (pd_rules (ci_policy_document (withApproval ci hold consumed threshold))) =
     pr_max_gpu_count (pd_rules (ci_policy_document ci))"
  "pr_max_hours (pd_rules (ci_policy_document (withApproval ci hold consumed threshold))) =
     pr_max_hours (pd_rules (ci_policy_document ci))"
  "pr_max_retry_count (pd_rules (ci_policy_document (withApproval ci hold consumed threshold))) =
     pr_max_retry_count (pd_rules (ci_policy_document ci))"
  by (simp_all add: withApproval_def)

section \<open>Properties\<close>

text \<open>
  C30: the overflow check is exact. On validated numbers the chain of rounded double products returns the
  true product of all factors when that is a safe integer, and reports an overflow exactly when it is not.
\<close>

theorem projectedCost_is_exact:
  assumes "validNumbers ci"
  shows "projectedCost ci = (if exactCost ci \<le> maxSafe then Some (exactCost ci) else None) \<and> 1 \<le> exactCost ci"
  by (rule projectedCost_max [OF assms])

lemma validNumbers_base: "validNumbers makeBaseInput"
  using validInput_base by (simp add: validInput_def)

lemma exactCost_base: "exactCost makeBaseInput = 4000"
  by (simp add: exactCost_def makeBaseInput_def)

theorem projectedCost_is_exact_witness: "projectedCost makeBaseInput = Some 4000"
  using projectedCost_is_exact [OF validNumbers_base] by (simp add: exactCost_base maxSafe_def)

text \<open>
  One execution per id. Whatever sequence of requests and commits reaches the release layer, and from
  whatever state of its stores, it allows a given execution id at most once.
\<close>

theorem arm_allows_once: "length (allowsOf i (snd (runArmOps st ops))) \<le> 1"
  using allows_le_created [of i st ops] authority.created_once [of i "st_authority st" "authorityOps ops"]
  by simp

text \<open>
  C7: a budget token is never overspent. After a token is defined with a limit, any sequence of validated
  requests and commits leaves it with exactly the projected costs of the allowed requests consumed, and
  these never exceed the limit, in spite of the rounded additions.
\<close>

theorem arm_budget_conserved:
  assumes "isSafeInteger m" "0 \<le> m" "list_all validOp ops"
  shows "tokenAccount (st_budget (fst (runArmOps (defineBudgetToken st t m) ops))) t =
      Some (m, paidWith t (snd (runArmOps (defineBudgetToken st t m) ops))) \<and>
    paidWith t (snd (runArmOps (defineBudgetToken st t m) ops)) \<le> m"
  using paid_is_consumed [of "defineBudgetToken st t m" t m 0 ops] assms
  by (simp add: defineBudgetToken_def budget.define_account list_all_iff)

definition tokenInput :: "string \<Rightarrow> canonical_input" where
  "tokenInput i =
     makeBaseInput\<lparr>ci_execution_request := (ci_execution_request makeBaseInput)
       \<lparr>er_budget_token := Some (jstr ''team''),
        er_release_request := \<lparr>rr_execution_id = jstr i, rr_hold_state = jstr ''NONE'', rr_already_consumed = False\<rparr>\<rparr>\<rparr>"

definition allowOrbit :: orbit_trace where
  "allowOrbit = orbitTrace Allow OkOrbit []"

definition tokenOps :: "arm_op list" where
  "tokenOps = [ArmRequest (tokenInput ''a'') allowOrbit [], ArmRequest (tokenInput ''b'') allowOrbit []]"

lemma validNumbers_token: "validNumbers (tokenInput i)"
  using validNumbers_base by (simp add: tokenInput_def validNumbers_def)

lemma projectedCost_token: "projectedCost (tokenInput i) = Some 4000"
  using projectedCost_exact [OF validNumbers_token, of i]
  by (simp add: tokenInput_def exactCost_def makeBaseInput_def isSafeInteger_def maxSafe_def)

lemma token_fields:
  "requestedId (tokenInput i) = jstr i" "er_budget_token (ci_execution_request (tokenInput i)) = Some (jstr ''team'')"
  "er_execution (ci_execution_request (tokenInput i)) =
     \<lparr>ex_auto_scale = False, ex_max_scale_multiplier = 1, ex_retry_on_fail = False, ex_max_retries = 0\<rparr>"
  "er_resources (ci_execution_request (tokenInput i)) = \<lparr>rs_gpu_type = jstr ''a10g'', rs_gpu_count = 2, rs_hours = 4\<rparr>"
  "pr_max_total_cost_cents (pd_rules (ci_policy_document (tokenInput i))) = 500000"
  "pr_max_gpu_count (pd_rules (ci_policy_document (tokenInput i))) = 32"
  "pr_max_hours (pd_rules (ci_policy_document (tokenInput i))) = 72"
  "pr_max_retry_count (pd_rules (ci_policy_document (tokenInput i))) = 5"
  by (simp_all add: tokenInput_def makeBaseInput_def)

lemma jadd_small: "isSafeInteger (a + b) \<Longrightarrow> jadd a b = a + b"
  by (simp add: jadd_def fl_safe)

theorem arm_budget_conserved_witness:
  "tokenAccount (st_budget (fst (runArmOps (defineBudgetToken initialState (jstr ''team'') 5000) tokenOps))) (jstr ''team'') =
     Some (5000, 4000) \<and>
   map at_decision (snd (runArmOps (defineBudgetToken initialState (jstr ''team'') 5000) tokenOps)) = [Allow, Refuse]"
proof -
  let ?run = "runArmOps (defineBudgetToken initialState (jstr ''team'') 5000) tokenOps"
  have traces: "map at_decision (snd ?run) = [Allow, Refuse] \<and> paidWith (jstr ''team'') (snd ?run) = 4000"
    by (simp add: tokenOps_def runStrictArm_Some [OF projectedCost_token] armVerdict_def armTrace_def paidWith_def
        budgetAfter_def tokenReserved_def Let_def defineBudgetToken_def defineToken_def initialState_def
        beginExecution_def reserveToken_def jadd_small isSafeInteger_def maxSafe_def allowOrbit_def orbitTrace_def
        token_fields)
  have "list_all validOp tokenOps" by (simp add: tokenOps_def validNumbers_token)
  with arm_budget_conserved [of 5000 tokenOps initialState "jstr ''team''"] traces
  show ?thesis by (simp add: isSafeInteger_def maxSafe_def)
qed

text \<open>
  The costs of a trace balance. On validated numbers the allowed and the prevented cost are non-negative, add up
  to the projected cost, and nothing is prevented on an allowed request.
\<close>

theorem arm_costs_balance:
  assumes "validNumbers ci"
  shows "at_allowed_cost_cents (snd (runStrictArm st ci orbit rh)) +
      at_prevented_cost_cents (snd (runStrictArm st ci orbit rh)) =
      at_projected_total_cost_cents (snd (runStrictArm st ci orbit rh)) \<and>
    0 \<le> at_allowed_cost_cents (snd (runStrictArm st ci orbit rh)) \<and>
    0 \<le> at_prevented_cost_cents (snd (runStrictArm st ci orbit rh)) \<and>
    (if at_decision (snd (runStrictArm st ci orbit rh)) = Allow
     then at_prevented_cost_cents (snd (runStrictArm st ci orbit rh)) = 0 else True)"
proof (cases "projectedCost ci")
  case None
  then show ?thesis by (simp add: runStrictArm_cost)
next
  case (Some p)
  define m where "m = pr_max_total_cost_cents (pd_rules (ci_policy_document ci))"
  have p: "1 \<le> p" "isSafeInteger p"
    using Some projectedCost_exact [OF assms] by (auto split: if_splits)
  have m: "1 \<le> m" using assms by (simp add: validNumbers_def validRules_def validCount_def m_def)
  have "isSafeInteger (p - min p m)" using p m by (auto simp: isSafeInteger_def min_def)
  then have sub: "jsub p (min p m) = p - min p m" by (simp add: jsub_def fl_safe)
  have "p \<le> m" if "at_decision (snd (runStrictArm st ci orbit rh)) = Allow"
    using that Some by (auto simp: runStrictArm_allow withinLimits_def m_def Let_def)
  with p m sub show ?thesis by (auto simp: runStrictArm_cost Some m_def [symmetric] min_def)
qed

theorem arm_costs_balance_witness:
  "at_allowed_cost_cents (snd (runStrictArm initialState makeBaseInput allowOrbit [])) +
   at_prevented_cost_cents (snd (runStrictArm initialState makeBaseInput allowOrbit [])) = 4000"
  using arm_costs_balance [OF validNumbers_base, of initialState allowOrbit "[]"] projectedCost_exact [OF validNumbers_base]
  by (simp add: runStrictArm_cost exactCost_base isSafeInteger_def maxSafe_def)

text \<open>
  When a request is allowed. The release layer allows a validated request exactly when its exact cost is a safe
  integer within the policy, every other limit holds, the intent layer allowed it, the execution id was never seen
  and the budget token (if any) still covers the cost.
\<close>

theorem arm_allows_iff:
  assumes "validNumbers ci"
  shows "at_decision (snd (runStrictArm st ci orbit rh)) = Allow \<longleftrightarrow>
    exactCost ci \<le> maxSafe \<and> withinLimits ci (exactCost ci) \<and> ot_decision orbit = Allow \<and>
    authorityStatus (st_authority st) (requestedId ci) = None \<and>
    (case er_budget_token (ci_execution_request ci) of
       None \<Rightarrow> True
     | Some t \<Rightarrow> snd (reserveToken (st_budget st) t (exactCost ci)) = Reserved)"
proof -
  have "snd (beginExecution (st_authority st) (requestedId ci) rh) = Created \<longleftrightarrow>
      authorityStatus (st_authority st) (requestedId ci) = None"
    by (auto simp: authority.begin_answer split: option.splits execution_status.splits)
  then show ?thesis
    using projectedCost_max [OF assms] by (auto simp: runStrictArm_allow tokenReserved_def)
qed

theorem arm_allows_iff_witness:
  "at_decision (snd (runStrictArm initialState makeBaseInput allowOrbit [])) = Allow"
  by (subst arm_allows_iff [OF validNumbers_base])
    (simp only: exactCost_base, simp add: maxSafe_def withinLimits_def authorityStatus_def initialState_def
      allowOrbit_def orbitTrace_def makeBaseInput_def)

text \<open>
  The approval fields have no effect. The hold state, the already-consumed flag and the manual approval
  threshold are validated by the preflight, but the answer and the state changes of the release layer do not
  depend on them.
\<close>

theorem arm_ignores_approval:
  "runStrictArm st (withApproval ci hold consumed threshold) orbit rh = runStrictArm st ci orbit rh"
proof -
  have "projectedCost (withApproval ci hold consumed threshold) = projectedCost ci"
    by (simp only: projectedCost_def withApproval_simps)
  then show ?thesis
    by (simp only: runStrictArm_def armTrace_def withApproval_simps Let_def)
qed

end
