(* ===== verification/Pipeline.thy ===== *)
theory Pipeline
  imports StrictRamona ArmProps
begin

text \<open>
  \<open>src/audit/node_runtime.ts\<close> and the race of \<open>src/audit/test_helpers.ts\<close>: the composition of the four layers.
  A run is a function of the runtime state to the next state and the result; \<open>None\<close> is an uncaught exception,
  and the state keeps what the release layer had written when it was thrown.
\<close>

section \<open>The pipeline\<close>

definition typedFailureFromReceipt :: "signed_receipt \<Rightarrow> typed_failure" where
  "typedFailureFromReceipt receipt =
     \<lparr>tf_request_hash = rp_request_hash (sr_payload receipt),
      tf_decision_hash = do_decision_hash (rp_decision_output (sr_payload receipt)),
      tf_reason_code = do_reason_code (rp_decision_output (sr_payload receipt))\<rparr>"

record execution_result =
  xr_receipt :: signed_receipt
  xr_receipt_bytes :: jsstring

definition preflightTrace :: "parsed_envelope \<Rightarrow> preflight_trace" where
  "preflightTrace env =
     \<lparr>pft_request_hash = pe_request_hash env, pft_policy_hash = pe_policy_hash env,
      pft_policy_version = pd_policy_version (ci_policy_document (pe_parsed_input env))\<rparr>"

definition pipelineInput :: "parsed_envelope \<Rightarrow> orbit_trace \<Rightarrow> arm_trace \<Rightarrow> ramona_trace \<Rightarrow> receipt_input" where
  "pipelineInput env orbit arm ramona =
     \<lparr>ri_canonical_request = pe_canonical_input env, ri_request_hash = pe_request_hash env,
      ri_policy_hash = pe_policy_hash env, ri_preflight = preflightTrace env, ri_orbit = orbit, ri_arm = arm,
      ri_ramona = ramona, ri_policy_version = pd_policy_version (ci_policy_document (pe_parsed_input env))\<rparr>"

definition commitReceipt :: "runtime_state \<Rightarrow> parsed_envelope \<Rightarrow> arm_trace \<Rightarrow> signed_receipt \<Rightarrow> runtime_state" where
  "commitReceipt st env arm receipt =
     (if do_decision (rp_decision_output (sr_payload receipt)) = Allow
      then commitArmAllow st (at_execution_id arm) (pe_request_hash env)
             (do_decision_hash (rp_decision_output (sr_payload receipt)))
      else st)"

definition executeDeterministicPipeline ::
  "host \<Rightarrow> runtime_state \<Rightarrow> jsstring \<Rightarrow> runtime_state \<times> (typed_failure + execution_result) option" where
  "executeDeterministicPipeline h st rawInput =
     (case runStrictPreflight h rawInput of
        None \<Rightarrow> (st, None)
      | Some (Inl failure) \<Rightarrow> (st, Some (Inl failure))
      | Some (Inr env) \<Rightarrow>
          (case runStrictOrbit h (pe_parsed_input env) of
             None \<Rightarrow> (st, None)
           | Some orbit \<Rightarrow>
               (let (st1, arm) = runStrictArm st (pe_parsed_input env) orbit (pe_request_hash env)
                in case runStrictRamona h (pe_parsed_input env) arm of
                     None \<Rightarrow> (st1, None)
                   | Some ramona \<Rightarrow>
                       (case buildReceipt h (pipelineInput env orbit arm ramona) of
                          None \<Rightarrow> (st1, None)
                        | Some receipt \<Rightarrow>
                            (commitReceipt st1 env arm receipt,
                             map_option (\<lambda>bytes. Inr \<lparr>xr_receipt = receipt, xr_receipt_bytes = bytes\<rparr>)
                               (canonicalizeJson (JObj (receiptFields receipt))))))))"

definition resetRuntimeState :: "runtime_state \<Rightarrow> runtime_state" where
  "resetRuntimeState st = resetArmStores st"

definition seedBudgetToken :: "runtime_state \<Rightarrow> jsstring \<Rightarrow> int \<Rightarrow> runtime_state" where
  "seedBudgetToken st token maxBudgetCents = defineBudgetToken st token maxBudgetCents"

section \<open>Replaying a receipt store\<close>

text \<open>
  \<open>verifySignedReceipt\<close> on any parsed JSON value: the rest pattern of \<open>null\<close> throws; a string, a number and a
  Boolean have no \<open>verifiable_signature\<close>; an array is spread into an object of its elements, which is
  canonicalized first.
\<close>

fun verifySignedReceipt :: "host \<Rightarrow> json \<Rightarrow> bool option" where
  "verifySignedReceipt h (JObj receipt) = verifyReceiptSignature h receipt"
| "verifySignedReceipt h JNull = None"
| "verifySignedReceipt h (JArr vs) = (if list_all (\<lambda>v. canonicalizeJson v \<noteq> None) vs then Some False else None)"
| "verifySignedReceipt h _ = Some False"

record replay_report =
  rp_total :: nat
  rp_exact_matches :: nat
  rp_mismatches :: "(json option \<times> reason_code) list"

datatype replay_outcome = ReplayMatch | ReplayMiss "json option" reason_code

text \<open>
  One line of the store, and the runtime state it leaves. The parser of the host (\<open>JSON.parse\<close>) is the parameter
  \<open>parse\<close>; \<open>unparseable_receipt\<close> stands for the request hash of a line that is not JSON. A receipt whose
  \<open>canonical_request\<close> is no string makes the strict parser throw.
\<close>

definition replayLine ::
  "host \<Rightarrow> (jsstring \<Rightarrow> json option) \<Rightarrow> runtime_state \<Rightarrow> jsstring \<Rightarrow> runtime_state \<times> replay_outcome option" where
  "replayLine h parse st line =
     (case parse line of
        None \<Rightarrow> (st, Some (ReplayMiss (Some (JStr (jstr ''unparseable_receipt''))) InvalidJsonSyntax))
      | Some parsed \<Rightarrow>
          (let requestHash = getProp (Some parsed) ''request_hash''
           in case verifySignedReceipt h parsed of
                None \<Rightarrow> (st, None)
              | Some False \<Rightarrow> (st, Some (ReplayMiss requestHash ReceiptSignatureInvalid))
              | Some True \<Rightarrow>
                  (case (parsed, getProp (Some parsed) ''canonical_request'') of
                     (JObj receipt, Some (JStr request)) \<Rightarrow>
                       (case executeDeterministicPipeline h (resetRuntimeState st) request of
                          (st1, None) \<Rightarrow> (st1, None)
                        | (st1, Some (Inl failure)) \<Rightarrow> (st1, Some (ReplayMiss requestHash (tf_reason_code failure)))
                        | (st1, Some (Inr rerun)) \<Rightarrow>
                            (st1, map_option (\<lambda>(ok, r). if ok then ReplayMatch else ReplayMiss requestHash r)
                               (verifyReceiptReplay h receipt (receiptFields (xr_receipt rerun)))))
                   | _ \<Rightarrow> (resetRuntimeState st, None))))"

fun replayLines ::
  "host \<Rightarrow> (jsstring \<Rightarrow> json option) \<Rightarrow> runtime_state \<Rightarrow> jsstring list \<Rightarrow>
     runtime_state \<times> (nat \<times> (json option \<times> reason_code) list) option" where
  "replayLines h parse st [] = (st, Some (0, []))"
| "replayLines h parse st (line # lines) =
     (case replayLine h parse st line of
        (st1, None) \<Rightarrow> (st1, None)
      | (st1, Some outcome) \<Rightarrow>
          (let (st2, rest) = replayLines h parse st1 lines
           in (st2, map_option (\<lambda>(n, misses). case outcome of
                  ReplayMatch \<Rightarrow> (n + 1, misses) | ReplayMiss rh r \<Rightarrow> (n, (rh, r) # misses)) rest)))"

text \<open>\<open>source.split(/\r?\n/)\<close>.\<close>

fun splitLines :: "jsstring \<Rightarrow> jsstring \<Rightarrow> jsstring list" where
  "splitLines acc [] = [rev acc]"
| "splitLines acc (c # cs) =
     (if c = 10 then rev acc # splitLines [] cs
      else if c = 13 \<and> cs \<noteq> [] \<and> hd cs = 10 then rev acc # splitLines [] (tl cs)
      else splitLines (c # acc) cs)"

definition replayReceiptStore ::
  "host \<Rightarrow> (jsstring \<Rightarrow> json option) \<Rightarrow> runtime_state \<Rightarrow> jsstring \<Rightarrow> runtime_state \<times> replay_report option" where
  "replayReceiptStore h parse st content =
     (let source = jsTrim content; lines = (if source = [] then [] else splitLines [] source);
          (st1, counts) = replayLines h parse st lines
      in (st1, map_option (\<lambda>(n, misses).
           \<lparr>rp_total = length lines, rp_exact_matches = n, rp_mismatches = misses\<rparr>) counts))"

section \<open>Two requests that race\<close>

text \<open>
  \<open>simulateConcurrentDuplicate\<close>: the first request stops after the release layer, the second runs to its end,
  then the first is finished.
\<close>

fun outcomeOf :: "typed_failure + execution_result \<Rightarrow> decision \<times> reason_code" where
  "outcomeOf (Inl f) = (Refuse, tf_reason_code f)"
| "outcomeOf (Inr x) = (do_decision (rp_decision_output (sr_payload (xr_receipt x))),
     do_reason_code (rp_decision_output (sr_payload (xr_receipt x))))"

definition simulateConcurrentDuplicate ::
  "host \<Rightarrow> runtime_state \<Rightarrow> jsstring \<Rightarrow>
     runtime_state \<times> ((decision \<times> reason_code) \<times> (decision \<times> reason_code)) option" where
  "simulateConcurrentDuplicate h st rawInput =
     (let st0 = resetRuntimeState st
      in case runStrictPreflight h rawInput of
           None \<Rightarrow> (st0, None)
         | Some (Inl f) \<Rightarrow> (st0, Some ((Refuse, tf_reason_code f), (Refuse, tf_reason_code f)))
         | Some (Inr env) \<Rightarrow>
             (case runStrictOrbit h (pe_parsed_input env) of
                None \<Rightarrow> (st0, None)
              | Some orbit \<Rightarrow>
                  (let (st1, arm) = runStrictArm st0 (pe_parsed_input env) orbit (pe_request_hash env)
                   in case executeDeterministicPipeline h st1 rawInput of
                        (st2, None) \<Rightarrow> (st2, None)
                      | (st2, Some second) \<Rightarrow>
                          (case runStrictRamona h (pe_parsed_input env) arm of
                             None \<Rightarrow> (st2, None)
                           | Some ramona \<Rightarrow>
                               (case buildReceipt h (pipelineInput env orbit arm ramona) of
                                  None \<Rightarrow> (st2, None)
                                | Some receipt \<Rightarrow>
                                    (commitReceipt st2 env arm receipt,
                                     Some ((do_decision (rp_decision_output (sr_payload receipt)),
                                            do_reason_code (rp_decision_output (sr_payload receipt))),
                                           outcomeOf second)))))))"

end
