(* ===== verification/ReceiptVerifier.thy ===== *)
theory ReceiptVerifier
  imports Pipeline
begin

text \<open>
  \<open>src/tools/verify-receipt.mjs\<close>: the offline verifier of a receipt file. It checks the schema, that the stored request is
  canonical, the three hashes and the signature, and replays the request through the four layers. The file is what
  reading it yields (\<open>None\<close>: it cannot be read) and \<open>parse\<close> is \<open>JSON.parse\<close>; a check that fails says at which branch,
  the texts interpolated into its detail are left out. \<open>None\<close> in place of a report is an exception that leaves \<open>verifyReceiptFile\<close>.
\<close>

section \<open>Checks\<close>

datatype verifier_fault =
    LoadError bool
  | NotEvaluated
  | ReceiptNotObject
  | UnsupportedSchema
  | FieldRequired string
  | DecisionNotAllowOrRefuse
  | RequestParseFailed parse_failure_reason
  | RequestNotSerializable
  | RequestNotCanonical
  | HashMismatch
  | DecisionRequestHashMismatch
  | TracePreflightMismatch
  | DecisionHashThrew
  | PolicyDocumentRequired
  | SignatureRejected
  | SignatureThrew
  | ReplayParseBoundary reason_code
  | ReplayFieldMismatch string
  | ReplayThrew
  | CanonicalizationFailed
  | SignatureOrCanonicalizationFailed

text \<open>A check is the fault it fails with, \<open>None\<close> when it passes.\<close>

type_synonym check = "verifier_fault option"

fun firstFault :: "(bool \<times> verifier_fault) list \<Rightarrow> check" where
  "firstFault [] = None"
| "firstFault ((ok, fault) # rest) = (if ok then firstFault rest else Some fault)"

fun isObject :: "json option \<Rightarrow> bool" where
  "isObject (Some (JObj ps)) = True"
| "isObject _ = False"

definition nonEmptyString :: "json option \<Rightarrow> bool" where
  "nonEmptyString v \<longleftrightarrow> (case v of Some (JStr s) \<Rightarrow> s \<noteq> [] | _ \<Rightarrow> False)"

definition safeIntegerValue :: "json option \<Rightarrow> bool" where
  "safeIntegerValue v \<longleftrightarrow> (case v of Some (JNum NegZero) \<Rightarrow> True | Some (JNum (IntNum i)) \<Rightarrow> isSafeInteger i | _ \<Rightarrow> False)"

definition decisionOf :: "json \<Rightarrow> json option" where
  "decisionOf receipt = getProp (Some receipt) ''decision_output''"

definition layerOf :: "json \<Rightarrow> string \<Rightarrow> json option" where
  "layerOf receipt layer = getProp (getProp (Some receipt) ''pipeline_trace'') layer"

definition validateSchema :: "json \<Rightarrow> check" where
  "validateSchema receipt =
     (let field = getProp (Some receipt); decision = decisionOf receipt; arm = layerOf receipt ''arm'';
          signature = field ''verifiable_signature''
      in firstFault
        ([(isObject (Some receipt), ReceiptNotObject),
          (field ''schema_version'' = Some (JStr (jstr ''ecs.receipt.v2'')), UnsupportedSchema),
          (nonEmptyString (field ''canonical_request''), FieldRequired ''canonical_request''),
          (nonEmptyString (field ''request_hash''), FieldRequired ''request_hash''),
          (isObject decision, FieldRequired ''decision_output''),
          (getProp decision ''decision'' \<in> {Some (JStr (jstr ''ALLOW'')), Some (JStr (jstr ''REFUSE''))}, DecisionNotAllowOrRefuse)] @
         map (\<lambda>f. (nonEmptyString (getProp decision f), FieldRequired f))
           [''decision_hash'', ''request_hash'', ''reason_code'', ''policy_version'', ''policy_hash'', ''execution_id''] @
         [(isObject (field ''pipeline_trace''), FieldRequired ''pipeline_trace'')] @
         map (\<lambda>l. (isObject (layerOf receipt l), FieldRequired l)) [''preflight'', ''orbit'', ''arm'', ''ramona''] @
         map (\<lambda>f. (safeIntegerValue (getProp arm f), FieldRequired f))
           [''projected_total_cost_cents'', ''allowed_cost_cents'', ''prevented_cost_cents''] @
         [(nonEmptyString (getProp arm ''execution_id''), FieldRequired ''execution_id''),
          (isObject signature, FieldRequired ''verifiable_signature'')] @
         map (\<lambda>f. (nonEmptyString (getProp signature f), FieldRequired f))
           [''algorithm'', ''key_id'', ''public_key_fingerprint'', ''public_key_pem'', ''value'']))"

definition requestOf :: "json \<Rightarrow> jsstring" where
  "requestOf receipt = (case getProp (Some receipt) ''canonical_request'' of Some (JStr s) \<Rightarrow> s | _ \<Rightarrow> [])"

text \<open>The parsed request, or the fault.\<close>

definition verifyCanonicalization :: "json \<Rightarrow> verifier_fault + json" where
  "verifyCanonicalization receipt =
     (case parseStrictJson (requestOf receipt) of
        ParseOk v _ \<Rightarrow>
          (case canonicalizeJson v of
             None \<Rightarrow> Inl RequestNotSerializable
           | Some recanonicalized \<Rightarrow> if recanonicalized \<noteq> requestOf receipt then Inl RequestNotCanonical else Inr v)
      | ParseFail r \<Rightarrow> Inl (RequestParseFailed r)
      | ParseStarved \<Rightarrow> Inl (RequestParseFailed Invalid_json_syntax))"

text \<open>\<open>value && value !== expected\<close> on an optional member.\<close>

definition contradicts :: "json option \<Rightarrow> json option \<Rightarrow> bool" where
  "contradicts v expected \<longleftrightarrow> \<not> falsy v \<and> v \<noteq> expected"

definition verifyRequestHash :: "host \<Rightarrow> json \<Rightarrow> check" where
  "verifyRequestHash h receipt =
     (let reported = getProp (Some receipt) ''request_hash''
      in firstFault
        [(Some (JStr (sha256Text h (requestOf receipt))) = reported, HashMismatch),
         (\<not> contradicts (getProp (decisionOf receipt) ''request_hash'') reported, DecisionRequestHashMismatch),
         (\<not> contradicts (getProp (layerOf receipt ''preflight'') ''request_hash'') reported, TracePreflightMismatch)])"

text \<open>An object literal whose members may be undefined, which the serializer refuses.\<close>

definition objectLiteral :: "(string \<times> json option) list \<Rightarrow> json option" where
  "objectLiteral members = map_option (\<lambda>vs. JObj (zip (map (\<lambda>m. jstr (fst m)) members) vs)) (those (map snd members))"

definition recomputeDecisionHash :: "host \<Rightarrow> json \<Rightarrow> jsstring option" where
  "recomputeDecisionHash h receipt =
     (let decision = decisionOf receipt; arm = layerOf receipt ''arm''
      in Option.bind (objectLiteral
           [(''request_hash'', getProp (Some receipt) ''request_hash''),
            (''policy_hash'', getProp decision ''policy_hash''),
            (''decision'', getProp decision ''decision''),
            (''reason_code'', getProp decision ''reason_code''),
            (''policy_version'', getProp decision ''policy_version''),
            (''execution_id'', getProp arm ''execution_id''),
            (''projected_total_cost_cents'', getProp arm ''projected_total_cost_cents''),
            (''allowed_cost_cents'', getProp arm ''allowed_cost_cents''),
            (''prevented_cost_cents'', getProp arm ''prevented_cost_cents'')])
           (hashCanonicalJson h))"

definition verifyDecisionHash :: "host \<Rightarrow> json \<Rightarrow> check" where
  "verifyDecisionHash h receipt =
     (case recomputeDecisionHash h receipt of
        None \<Rightarrow> Some DecisionHashThrew
      | Some expected \<Rightarrow>
          if Some (JStr expected) \<noteq> getProp (decisionOf receipt) ''decision_hash'' then Some HashMismatch else None)"

text \<open>\<open>policyHash\<close> on a policy document that has not been validated.\<close>

definition documentHash :: "host \<Rightarrow> json option \<Rightarrow> jsstring option" where
  "documentHash h policy =
     Option.bind (objectLiteral
       [(''schema_version'', getProp policy ''schema_version''), (''policy_version'', getProp policy ''policy_version''),
        (''rules'', getProp policy ''rules'')])
       (hashCanonicalJson h)"

text \<open>\<open>None\<close>: \<open>policyHash\<close> throws, which nothing catches.\<close>

definition verifyPolicyHash :: "host \<Rightarrow> json \<Rightarrow> json \<Rightarrow> check option" where
  "verifyPolicyHash h receipt canonicalRequest =
     (let policy = getProp (Some canonicalRequest) ''policy_document''
      in if \<not> isObject policy then Some (Some PolicyDocumentRequired)
         else map_option
           (\<lambda>expected. firstFault
              [(Some (JStr expected) = getProp (decisionOf receipt) ''policy_hash'', HashMismatch),
               (\<not> contradicts (getProp (layerOf receipt ''preflight'') ''policy_hash'') (Some (JStr expected)), TracePreflightMismatch)])
           (documentHash h policy))"

definition verifySignature :: "host \<Rightarrow> json \<Rightarrow> check" where
  "verifySignature h receipt =
     (case receipt of
        JObj ps \<Rightarrow>
          (case verifyReceiptPublicSignature h ps of
             None \<Rightarrow> Some SignatureThrew
           | Some ok \<Rightarrow> if ok then None else Some SignatureRejected)
      | _ \<Rightarrow> Some SignatureRejected)"

section \<open>Replay\<close>

definition replayChecks :: "json \<Rightarrow> receipt_input \<Rightarrow> jsstring \<Rightarrow> (bool \<times> verifier_fault) list" where
  "replayChecks receipt i replayedDecisionHash =
     (let original = decisionOf receipt; arm = ri_arm i;
          same = (\<lambda>f v w. (v = Some (JStr w), ReplayFieldMismatch f))
      in [same ''request_hash'' (getProp (Some receipt) ''request_hash'') (ri_request_hash i),
          same ''decision'' (getProp original ''decision'') (decisionText (receiptDecision i)),
          same ''reason_code'' (getProp original ''reason_code'') (reasonText (receiptReason i)),
          same ''decision_hash'' (getProp original ''decision_hash'') replayedDecisionHash,
          same ''policy_hash'' (getProp original ''policy_hash'') (ri_policy_hash i),
          same ''policy_version'' (getProp original ''policy_version'') (ri_policy_version i),
          same ''execution_id'' (getProp original ''execution_id'') (at_execution_id arm),
          same ''total_cost_usd'' (getProp original ''total_cost_usd'') (formatUsdFromCents (at_projected_total_cost_cents arm)),
          same ''allowed_cost_usd'' (getProp original ''allowed_cost_usd'') (formatUsdFromCents (at_allowed_cost_cents arm)),
          same ''prevented_cost_usd'' (getProp original ''prevented_cost_usd'') (formatUsdFromCents (at_prevented_cost_cents arm))])"

definition verifyReplayDeterminism :: "host \<Rightarrow> runtime_state \<Rightarrow> json \<Rightarrow> runtime_state \<times> check" where
  "verifyReplayDeterminism h st receipt =
     (let st0 = resetArmStores st
      in case runStrictPreflight h (requestOf receipt) of
           None \<Rightarrow> (st0, Some ReplayThrew)
         | Some (Inl failure) \<Rightarrow> (st0, Some (ReplayParseBoundary (tf_reason_code failure)))
         | Some (Inr env) \<Rightarrow>
             (case runStrictOrbit h (pe_parsed_input env) of
                None \<Rightarrow> (st0, Some ReplayThrew)
              | Some orbit \<Rightarrow>
                  (let (st1, arm) = runStrictArm st0 (pe_parsed_input env) orbit (pe_request_hash env)
                   in case runStrictRamona h (pe_parsed_input env) arm of
                        None \<Rightarrow> (st1, Some ReplayThrew)
                      | Some ramona \<Rightarrow>
                          (let i = pipelineInput env orbit arm ramona
                           in case hashCanonicalJson h (receiptDecisionJson i) of
                                None \<Rightarrow> (st1, Some ReplayThrew)
                              | Some decisionHash \<Rightarrow> (st1, firstFault (replayChecks receipt i decisionHash))))))"

section \<open>The report\<close>

record verifier_report =
  vr_schema :: check
  vr_canonicalization :: check
  vr_request_hash :: check
  vr_decision_hash :: check
  vr_policy_hash :: check
  vr_signature :: check
  vr_replay :: check

definition unevaluated :: "verifier_fault \<Rightarrow> verifier_report" where
  "unevaluated fault =
     \<lparr>vr_schema = Some fault, vr_canonicalization = Some NotEvaluated, vr_request_hash = Some NotEvaluated,
      vr_decision_hash = Some NotEvaluated, vr_policy_hash = Some NotEvaluated, vr_signature = Some NotEvaluated,
      vr_replay = Some NotEvaluated\<rparr>"

text \<open>\<open>raw.replace(/^\uFEFF/, "")\<close>.\<close>

definition stripByteOrderMark :: "jsstring \<Rightarrow> jsstring" where
  "stripByteOrderMark raw = (case raw of [] \<Rightarrow> [] | c # cs \<Rightarrow> if c = 65279 then cs else raw)"

definition readReceipt :: "(jsstring \<Rightarrow> json option) \<Rightarrow> jsstring option \<Rightarrow> verifier_fault + json" where
  "readReceipt parse content =
     (case content of
        None \<Rightarrow> Inl (LoadError False)
      | Some raw \<Rightarrow> (case parse (stripByteOrderMark raw) of None \<Rightarrow> Inl (LoadError True) | Some receipt \<Rightarrow> Inr receipt))"

definition verifyReceiptFile ::
  "host \<Rightarrow> (jsstring \<Rightarrow> json option) \<Rightarrow> runtime_state \<Rightarrow> jsstring option \<Rightarrow> runtime_state \<times> verifier_report option" where
  "verifyReceiptFile h parse st content =
     (case readReceipt parse content of
        Inl fault \<Rightarrow> (st, Some (unevaluated fault))
      | Inr receipt \<Rightarrow>
          (case validateSchema receipt of
             Some fault \<Rightarrow> (st, Some (unevaluated fault))
           | None \<Rightarrow>
               (let canonicalization = verifyCanonicalization receipt;
                    requestCheck = (case canonicalization of Inl _ \<Rightarrow> Some CanonicalizationFailed | Inr _ \<Rightarrow> verifyRequestHash h receipt);
                    decisionCheck = verifyDecisionHash h receipt;
                    policyCheck = (case canonicalization of Inl _ \<Rightarrow> Some (Some CanonicalizationFailed)
                      | Inr v \<Rightarrow> verifyPolicyHash h receipt v)
                in case policyCheck of
                     None \<Rightarrow> (st, None)
                   | Some policyResult \<Rightarrow>
                       (let signatureCheck = verifySignature h receipt;
                            (st1, replayCheck) =
                              (if signatureCheck = None \<and> \<not> isl canonicalization then verifyReplayDeterminism h st receipt
                               else (st, Some SignatureOrCanonicalizationFailed))
                        in (st1, Some
                             \<lparr>vr_schema = None,
                              vr_canonicalization = (case canonicalization of Inl f \<Rightarrow> Some f | Inr _ \<Rightarrow> None),
                              vr_request_hash = requestCheck, vr_decision_hash = decisionCheck, vr_policy_hash = policyResult,
                              vr_signature = signatureCheck, vr_replay = replayCheck\<rparr>)))))"

definition reportChecks :: "verifier_report \<Rightarrow> (string \<times> check) list" where
  "reportChecks r =
     [(''Schema'', vr_schema r), (''Canonicalization'', vr_canonicalization r), (''Request Hash'', vr_request_hash r),
      (''Decision Hash'', vr_decision_hash r), (''Policy Hash'', vr_policy_hash r), (''Signature'', vr_signature r),
      (''Replay Determinism'', vr_replay r)]"

definition verificationPassed :: "verifier_report \<Rightarrow> bool" where
  "verificationPassed r \<longleftrightarrow> list_all (\<lambda>(name, result). result = None) (reportChecks r)"

definition formatReport :: "jsstring \<Rightarrow> verifier_report \<Rightarrow> jsstring" where
  "formatReport path r =
     joinWith [10]
       ([jstr ''========================================'', jstr ''MNDe Receipt Verification'',
         jstr ''========================================'', jstr ''Receipt File: '' @ path] @
        map (\<lambda>(name, result). jstr name @ jstr '': '' @ (if result = None then jstr ''PASS'' else jstr ''FAIL'')) (reportChecks r) @
        [jstr ''FINAL VERDICT: '' @ (if verificationPassed r then jstr ''VERIFIED'' else jstr ''FAILED'')]) @ [10]"

end
