(* ===== verification/RamonaProps.thy ===== *)
theory RamonaProps
  imports StrictRamona ArmProps
begin

text \<open>
  The properties of the runtime layer and of receipts: the amounts are printed exactly in spite of the
  division of doubles, the layer allows exactly what it observes within its bounds, the decision hash
  commits to the decision, every receipt built verifies, and what a verification does and does not show.
\<close>

section \<open>Cents\<close>

lemma quotientBits_bounds:
  assumes "0 < b"
  shows "2 * b * quotientBits a b k \<le> 2 * (a * 2 ^ k) + b" "a * 2 ^ k div b \<le> quotientBits a b k"
proof -
  define m where "m = a * 2 ^ k div b"
  define r where "r = a * 2 ^ k mod b"
  have x: "a * 2 ^ k = b * m + r" by (simp add: m_def r_def)
  have r: "r < b" using assms by (simp add: r_def)
  have q: "quotientBits a b k = (if 2 * r > b \<or> 2 * r = b \<and> odd m then m + 1 else m)"
    by (simp only: quotientBits_def Let_def m_def r_def)
  show "a * 2 ^ k div b \<le> quotientBits a b k" unfolding q by (simp add: m_def)
  show "2 * b * quotientBits a b k \<le> 2 * (a * 2 ^ k) + b"
    unfolding q x by (auto simp: algebra_simps)
qed

lemma floorQuotient_cents:
  assumes "0 \<le> c" "c \<le> maxSafe"
  shows "floorQuotient c 100 = c div 100"
proof -
  define n where "n = nat c"
  define d where "d = n div 100"
  define k where "k = 53 - floorlog 2 d"
  define P :: nat where "P = 2 ^ k"
  define q where "q = quotientBits n 100 k"
  have n: "n < 2 ^ 53" using assms by (simp add: n_def maxSafe_def)
  then have "d < 2 ^ 47" by (simp add: d_def)
  then have "floorlog 2 d \<le> 47" using floorlog_le_iff [of 2 d 47] by simp
  then have "6 \<le> k" by (simp add: k_def)
  then have "(2 :: nat) ^ 6 \<le> P" unfolding P_def by (intro power_increasing) simp_all
  then have P: "64 \<le> P" by simp
  have split: "n = 100 * d + n mod 100" by (simp add: d_def)
  have r: "n mod 100 \<le> 99" by simp
  note bounds = quotientBits_bounds [of 100 n k, folded P_def q_def]
  have "100 * d \<le> n" by (simp add: d_def)
  then have "100 * d * P \<le> n * P" by (rule mult_right_mono) simp
  then have "100 * (d * P) \<le> n * P" by (simp add: mult.assoc)
  then have low: "d * P \<le> q" using bounds(2) by linarith
  have "n \<le> 100 * d + 99" using split r by linarith
  then have "n * P \<le> (100 * d + 99) * P" by (rule mult_right_mono) simp
  then have "n * P \<le> 100 * (d * P) + 99 * P" by (simp add: algebra_simps)
  with bounds(1) P have "q < d * P + P" by linarith
  then have high: "q < Suc d * P" by simp
  have "q div P = d" by (rule div_nat_eqI) (use low high in \<open>simp_all add: mult.commute\<close>)
  then have "int (q div P) = int d" by simp
  then have "int q div 2 ^ k = int d" by (simp add: zdiv_int P_def)
  then show ?thesis
    using assms by (simp add: floorQuotient_def Let_def n_def d_def k_def q_def zdiv_int)
qed

lemma padStart2_showInt:
  assumes "0 \<le> r" "r < 100"
  shows "length (padStart2 (showInt r)) = 2 \<and> list_all isDigit (padStart2 (showInt r)) \<and>
    int (digitsValue (ds @ padStart2 (showInt r))) = 100 * int (digitsValue ds) + r"
proof -
  define n where "n = nat r"
  have n: "n < 100" "r = int n" using assms by (simp_all add: n_def)
  have two: "digitsValue (ds @ [a, b]) = 100 * digitsValue ds + 10 * unat (a - 48) + unat (b - 48)" for a b
    by (simp add: digitsValue_def)
  show ?thesis
  proof (cases "n < 10")
    case True
    then have "padStart2 (showInt r) = [48, 48 + word_of_nat n]"
      using n by (simp add: padStart2_def showInt_def showNat.simps)
    moreover have "digitsValue (ds @ [48, 48 + word_of_nat n]) = 100 * digitsValue ds + n"
      using True by (simp add: two unat_small_digit)
    moreover have "isDigit 48" by (simp add: isDigit_def)
    ultimately show ?thesis using True n(2) by (simp add: isDigit_digit)
  next
    case False
    from n have small: "n div 10 < 10" by linarith
    have "padStart2 (showInt r) = [48 + word_of_nat (n div 10), 48 + word_of_nat (n mod 10)]"
      using n False by (simp add: padStart2_def showInt_def showNat.simps [of n] showNat.simps [of "n div 10"] small)
    moreover have "digitsValue (ds @ [48 + word_of_nat (n div 10), 48 + word_of_nat (n mod 10)]) = 100 * digitsValue ds + n"
      using n by (simp add: two unat_small_digit)
    ultimately show ?thesis using False n by (simp add: isDigit_digit)
  qed
qed

section \<open>The layer\<close>

lemma validInput_observation:
  "validInput h ci \<Longrightarrow> wfJson (runtimeObservationJson (er_runtime_observation (ci_execution_request ci)))"
  by (rule wfJson_runtimeObservation) (simp_all add: validInput_def validNumbers_def validCount_def Let_def)

definition withinObservation :: "canonical_input \<Rightarrow> int \<Rightarrow> bool" where
  "withinObservation ci projected \<longleftrightarrow>
     (let ob = er_runtime_observation (ci_execution_request ci); res = er_resources (ci_execution_request ci)
      in \<not> ro_kill_switch_active ob \<and> ro_actual_gpu_count ob \<le> rs_gpu_count res \<and>
         ro_actual_hours ob \<le> rs_hours res \<and> ro_actual_total_cost_cents ob \<le> projected)"

definition ramonaVerdict :: "canonical_input \<Rightarrow> arm_trace \<Rightarrow> decision \<times> reason_code" where
  "ramonaVerdict ci arm =
     (let ob = er_runtime_observation (ci_execution_request ci); res = er_resources (ci_execution_request ci)
      in if at_decision arm = Refuse then (Refuse, at_reason_code arm)
         else if ro_kill_switch_active ob then (Refuse, KillSwitch)
         else if ro_actual_gpu_count ob > rs_gpu_count res then (Refuse, RuntimeGpuDrift)
         else if ro_actual_hours ob > rs_hours res then (Refuse, RuntimeHoursDrift)
         else if ro_actual_total_cost_cents ob > at_projected_total_cost_cents arm then (Refuse, RuntimeCostDrift)
         else (Allow, OkRamona))"

lemma ramonaVerdict_allow:
  "fst (ramonaVerdict ci arm) = Allow \<longleftrightarrow>
     at_decision arm = Allow \<and> withinObservation ci (at_projected_total_cost_cents arm)"
  by (cases "at_decision arm") (auto simp: ramonaVerdict_def withinObservation_def Let_def)

lemma runStrictRamona_valid:
  assumes "validInput h ci"
  shows "runStrictRamona h ci arm = Some (ramonaTrace (fst (ramonaVerdict ci arm)) (snd (ramonaVerdict ci arm))
    (sha256Text h (canonicalText (runtimeObservationJson (er_runtime_observation (ci_execution_request ci))))))"
  by (simp add: runStrictRamona_def hashCanonicalJson_wf [OF validInput_observation [OF assms]] ramonaVerdict_def Let_def)

section \<open>Building and verifying\<close>

lemma hexDecode_hexEncode: "hexDecode (hexEncode bs) = bs"
proof (induction bs)
  case (Cons b bs)
  have "list_all (\<lambda>n. isHexDigit (hexNibble n) \<and> unat (hexDigitValue (hexNibble n)) = n) [0..<16]"
    by code_simp
  then have nib: "isHexDigit (hexNibble n) \<and> unat (hexDigitValue (hexNibble n)) = n" if "n < 16" for n
    using that by (simp add: list_all_iff)
  have "unat b div 16 < 16" using unat_byte_less [of b] by simp
  then have "hexDecode (hexEncode (b # bs)) = word_of_nat (unat b div 16 * 16 + unat b mod 16) # hexDecode (hexEncode bs)"
    using nib by (simp add: hexEncode_def)
  then show ?case using Cons by (simp only: div_mult_mod_eq) simp
qed (simp add: hexEncode_def)

lemma payload_no_signature:
  "map_of (payloadFields p) (jstr ''signature'') = None" "map_of (payloadFields p) (jstr ''verifiable_signature'') = None"
  by (simp_all add: payloadFields_def)

lemma receiptRest_id:
  assumes "jstr ''signature'' \<notin> fst ` set ps" "jstr ''verifiable_signature'' \<notin> fst ` set ps"
  shows "receiptRest (ps @ [(jstr ''signature'', a), (jstr ''verifiable_signature'', b)]) = ps"
proof -
  have "filter (\<lambda>(k, v). k \<noteq> jstr ''signature'' \<and> k \<noteq> jstr ''verifiable_signature'') ps = ps"
    using assms by (intro filter_True) (auto simp: image_iff)
  then show ?thesis by (simp add: receiptRest_def)
qed

lemma canonicalizeJson_wfObject: "wfJson (JObj ps) \<Longrightarrow> canonicalizeJson (JObj ps) = Some (canonicalText (JObj ps))"
  by (rule canonicalizeJson_text)

lemma wfJson_decision: "wfArm (ri_arm i) \<Longrightarrow> wfJson (receiptDecisionJson i)"
  by (simp add: receiptDecisionJson_def jint_def wfArm_def)

definition decisionHash :: "host \<Rightarrow> receipt_input \<Rightarrow> jsstring" where
  "decisionHash h i = sha256Text h (canonicalText (receiptDecisionJson i))"

lemma buildReceipt_wf:
  assumes "wfArm (ri_arm i)"
  shows "buildReceipt h i =
    do {
      sig \<leftarrow> hs_receiptSign h (utf8Encode (canonicalText (JObj (payloadFields (receiptPayload i (decisionHash h i))))));
      fp \<leftarrow> keyFingerprint h (hs_publicPem h);
      Some
        \<lparr>sr_payload = receiptPayload i (decisionHash h i),
         sr_signature =
           (case signingConfig h of
              ConfigOk secret keyId \<Rightarrow>
                \<lparr>hm_key_id = keyId, hm_value = hexEncode (hs_hmac h (utf8Encode secret)
                   (utf8Encode (canonicalText (JObj (payloadFields (receiptPayload i (decisionHash h i)))))))\<rparr>
            | ConfigMissing r \<Rightarrow> \<lparr>hm_key_id = jstr ''unconfigured'', hm_value = []\<rparr>),
         sr_verifiable_signature =
           \<lparr>ps_key_id = receiptKeyId fp, ps_public_key_fingerprint = fp, ps_public_key_pem = hs_publicPem h,
            ps_value = hexEncode sig\<rparr>\<rparr>
    }"
proof -
  have "wfJson (JObj (payloadFields (receiptPayload i (decisionHash h i))))"
    using assms by (intro wfJson_payload) (simp add: receiptPayload_def)
  then show ?thesis
    by (auto simp: buildReceipt_def signPayload_def hashCanonicalJson_wf [OF wfJson_decision [OF assms(1)]]
        canonicalizeJson_text signReceiptPayload_def decisionHash_def [symmetric] Let_def bind_map_option comp_def
        split: signing_config.splits option.splits simp del: canonicalizeJson.simps wfJson.simps)
qed

lemma truthy_object: "\<not> falsy (Some (JObj ps))"
  by (simp add: falsy_def)

lemma receiptFields_parts:
  "map_of (receiptFields r) (jstr ''signature'') = Some (JObj
     [(jstr ''algorithm'', JStr (jstr ''HMAC-SHA256'')), (jstr ''key_id'', JStr (hm_key_id (sr_signature r))),
      (jstr ''value'', JStr (hm_value (sr_signature r)))])"
  "map_of (receiptFields r) (jstr ''verifiable_signature'') = Some (JObj
     [(jstr ''algorithm'', JStr (jstr ''ED25519'')),
      (jstr ''key_id'', JStr (ps_key_id (sr_verifiable_signature r))),
      (jstr ''public_key_fingerprint'', JStr (ps_public_key_fingerprint (sr_verifiable_signature r))),
      (jstr ''public_key_pem'', JStr (ps_public_key_pem (sr_verifiable_signature r))),
      (jstr ''value'', JStr (ps_value (sr_verifiable_signature r)))])"
  "receiptRest (receiptFields r) = payloadFields (sr_payload r)"
  by (simp_all add: receiptFields_def payloadFields_def receiptRest_def)

lemma verifyReceiptPublicSignature_fields:
  assumes "wfJson (JObj (receiptRest receipt))" "jsTrim pem \<noteq> []" "keyFingerprint h pem = Some fp"
    and "map_of receipt (jstr ''verifiable_signature'') = Some (JObj
     [(jstr ''algorithm'', JStr (jstr ''ED25519'')), (jstr ''key_id'', JStr (receiptKeyId fp)),
      (jstr ''public_key_fingerprint'', JStr fp), (jstr ''public_key_pem'', JStr pem), (jstr ''value'', JStr (hexEncode sig))])"
  shows "verifyReceiptPublicSignature h receipt =
    hs_receiptVerify h pem (utf8Encode (canonicalText (JObj (receiptRest receipt)))) sig"
  using assms(2,3)
  by (simp add: verifyReceiptPublicSignature_def assms(4) getProp_def truthy_object Let_def
      canonicalizeJson_text [OF assms(1)] verifyReceiptPayloadSignature_def hexDecode_hexEncode
      del: canonicalizeJson.simps wfJson.simps)

lemma verifyReceiptSignature_public:
  assumes "wfJson (JObj (receiptRest receipt))" "verifyReceiptPublicSignature h receipt = Some True"
  shows "verifyReceiptSignature h receipt = Some True"
proof -
  have "\<not> falsy (map_of receipt (jstr ''verifiable_signature''))"
    using assms(2) by (auto simp: verifyReceiptPublicSignature_def Let_def split: if_splits)
  with assms(2) show ?thesis
    by (simp add: verifyReceiptSignature_def canonicalizeJson_text [OF assms(1)] Let_def
        del: canonicalizeJson.simps wfJson.simps)
qed

lemma receipt_accepted:
  assumes "\<forall>m s. hs_receiptSign h m = Some s \<longrightarrow> hs_receiptVerify h (hs_publicPem h) m s = Some True"
    and "jsTrim (hs_publicPem h) \<noteq> []" "wfArm (ri_arm i)" "buildReceipt h i = Some r"
  shows "verifyReceiptPublicSignature h (receiptFields r) = Some True"
    "verifyReceiptSignature h (receiptFields r) = Some True"
proof -
  let ?p = "receiptPayload i (decisionHash h i)"
  from assms(4) obtain sig fp where sig: "hs_receiptSign h (utf8Encode (canonicalText (JObj (payloadFields ?p)))) = Some sig"
    and fp: "keyFingerprint h (hs_publicPem h) = Some fp"
    and r: "sr_payload r = ?p" "sr_verifiable_signature r =
       \<lparr>ps_key_id = receiptKeyId fp, ps_public_key_fingerprint = fp, ps_public_key_pem = hs_publicPem h, ps_value = hexEncode sig\<rparr>"
    by (auto simp: buildReceipt_wf [OF assms(3)] bind_eq_Some_conv)
  have rest: "receiptRest (receiptFields r) = payloadFields ?p" by (simp only: receiptFields_parts r)
  have wf: "wfJson (JObj (receiptRest (receiptFields r)))"
    unfolding rest using assms(3) by (intro wfJson_payload) (simp add: receiptPayload_def)
  have "verifyReceiptPublicSignature h (receiptFields r) =
      hs_receiptVerify h (hs_publicPem h) (utf8Encode (canonicalText (JObj (receiptRest (receiptFields r))))) sig"
    by (rule verifyReceiptPublicSignature_fields [OF wf assms(2) fp]) (simp add: receiptFields_parts r)
  also have "\<dots> = Some True" using assms(1) sig unfolding rest by blast
  finally show "verifyReceiptPublicSignature h (receiptFields r) = Some True" .
  then show "verifyReceiptSignature h (receiptFields r) = Some True" by (rule verifyReceiptSignature_public [OF wf])
qed

section \<open>What the decision hash covers\<close>

definition allReasons :: "reason_code list" where
  "allReasons =
  [SchemaValidation, DuplicateJsonKeys, InvalidJsonSyntax, InvalidJsonNumber, TypeMismatch,
   NonDeterministicInput, PolicyVersionMismatch, PolicyKeyIdMismatch, InvalidPolicySignature, ToolCallSequence,
   OrbitMultipleActions, ForbiddenActionInParameters, ExecutionIdAlreadyConsumed, ExecutionIdReplayed, BudgetTokenExhausted,
   IntegerOverflow, CostLimit, AutoScaleDenied, GpuLimit, HoursLimit,
   RetryLimit, ManualApprovalRequired, KillSwitch, RuntimeGpuDrift, RuntimeHoursDrift,
   RuntimeCostDrift, ReceiptSignatureInvalid, ReplayMismatch, OkAllow, OkOrbit,
   OkArm, OkRamona]"

lemma reasonText_inject: "reasonText a = reasonText b \<longleftrightarrow> a = b"
proof
  have "distinct (map reasonText allReasons)" unfolding allReasons_def by code_simp
  then have "inj_on reasonText (set allReasons)" by (simp add: distinct_map)
  moreover have "r \<in> set allReasons" for r by (cases r) (simp_all add: allReasons_def)
  ultimately show "reasonText a = reasonText b \<Longrightarrow> a = b" by (simp add: inj_on_def)
qed simp

lemma decisionText_inject: "decisionText a = decisionText b \<longleftrightarrow> a = b"
  by (cases a; cases b) (simp_all add: jstr_def unit_of_char_def)

lemma receiptDecisionJson_inject:
  assumes "normJson (receiptDecisionJson i) = normJson (receiptDecisionJson j)"
  shows "ri_request_hash i = ri_request_hash j \<and> ri_policy_hash i = ri_policy_hash j \<and>
    receiptDecision i = receiptDecision j \<and> receiptReason i = receiptReason j \<and>
    ri_policy_version i = ri_policy_version j \<and> at_execution_id (ri_arm i) = at_execution_id (ri_arm j) \<and>
    at_projected_total_cost_cents (ri_arm i) = at_projected_total_cost_cents (ri_arm j) \<and>
    at_allowed_cost_cents (ri_arm i) = at_allowed_cost_cents (ri_arm j) \<and>
    at_prevented_cost_cents (ri_arm i) = at_prevented_cost_cents (ri_arm j)"
proof -
  have key: "map_option normJson (map_of (case receiptDecisionJson i of JObj ps \<Rightarrow> ps) k) =
      map_option normJson (map_of (case receiptDecisionJson j of JObj ps \<Rightarrow> ps) k)" for k
    using assms by (intro normObject_eq_lookup) (auto simp: receiptDecisionJson_def normJson_JObj simp del: normJson.simps)
  note key [of "jstr ''request_hash''"] key [of "jstr ''policy_hash''"] key [of "jstr ''decision''"]
    key [of "jstr ''reason_code''"] key [of "jstr ''policy_version''"] key [of "jstr ''execution_id''"]
    key [of "jstr ''projected_total_cost_cents''"] key [of "jstr ''allowed_cost_cents''"] key [of "jstr ''prevented_cost_cents''"]
  then show ?thesis
    by (simp add: receiptDecisionJson_def jint_def decisionText_inject reasonText_inject)
qed

section \<open>Properties\<close>

text \<open>
  Amounts are printed exactly. For every safe non-negative number of cents the text is the dollars in decimal,
  a point and two digits, and its digits denote the number of cents, although the dollars are computed by
  rounding the quotient to a double.
\<close>

theorem formatUsd_exact:
  assumes "0 \<le> c" "c \<le> maxSafe"
  shows "\<exists>ds rs. formatUsdFromCents c = ds @ [46] @ rs \<and> ds = showInt (c div 100) \<and> length rs = 2 \<and>
    list_all isDigit (ds @ rs) \<and> int (digitsValue (ds @ rs)) = c"
proof -
  define r where "r = c mod 100"
  have r: "0 \<le> r" "r < 100" by (simp_all add: r_def)
  have ds: "showInt (c div 100) = showNat (nat (c div 100))" "int (digitsValue (showInt (c div 100))) = c div 100"
    using assms(1) pos_imp_zdiv_nonneg_iff [of 100 c] by (simp_all add: showInt_def digitsValue_showNat not_less)
  note pad = padStart2_showInt [OF r, of "showInt (c div 100)"]
  have "formatUsdFromCents c = showInt (c div 100) @ [46] @ padStart2 (showInt r)"
    using assms by (simp add: formatUsdFromCents_def floorQuotient_cents r_def Let_def jstr_def unit_of_char_def)
  moreover have "list_all isDigit (showInt (c div 100))" using showNat_digits by (simp add: ds(1) list_all_iff)
  moreover have "100 * (c div 100) + r = c" by (simp add: r_def)
  ultimately show ?thesis using pad ds(2) by fastforce
qed

theorem formatUsd_exact_witness:
  "\<exists>ds rs. formatUsdFromCents 9007199254740991 = ds @ [46] @ rs \<and> length rs = 2 \<and>
     int (digitsValue (ds @ rs)) = 9007199254740991"
  using formatUsd_exact [of 9007199254740991] by (fastforce simp: maxSafe_def)

text \<open>
  When the runtime layer allows. On a validated request it always answers, and it allows exactly when the
  release layer did, the kill switch is off and the observed GPU count, hours and cost are within the requested
  resources and the projected cost; a refusal of the release layer is passed on with its reason.
\<close>

theorem runStrictRamona_allows_iff:
  assumes "validInput h ci"
  shows "\<exists>tr. runStrictRamona h ci arm = Some tr \<and>
    (rt_decision tr = Allow \<longleftrightarrow>
       at_decision arm = Allow \<and> \<not> ro_kill_switch_active (er_runtime_observation (ci_execution_request ci)) \<and>
       ro_actual_gpu_count (er_runtime_observation (ci_execution_request ci)) \<le> rs_gpu_count (er_resources (ci_execution_request ci)) \<and>
       ro_actual_hours (er_runtime_observation (ci_execution_request ci)) \<le> rs_hours (er_resources (ci_execution_request ci)) \<and>
       ro_actual_total_cost_cents (er_runtime_observation (ci_execution_request ci)) \<le> at_projected_total_cost_cents arm) \<and>
    (if at_decision arm = Refuse then rt_reason_code tr = at_reason_code arm else True)"
  using ramonaVerdict_allow [of ci arm]
  by (simp add: runStrictRamona_valid [OF assms] ramonaTrace_def withinObservation_def Let_def)
    (simp add: ramonaVerdict_def)

theorem runStrictRamona_allows_iff_witness:
  "\<exists>tr. runStrictRamona testHost makeBaseInput (snd (runStrictArm initialState makeBaseInput allowOrbit [])) = Some tr \<and>
     rt_decision tr = Allow"
proof -
  define arm where "arm = snd (runStrictArm initialState makeBaseInput allowOrbit [])"
  have "projectedCost makeBaseInput = Some 4000"
    using projectedCost_exact [OF validNumbers_base] by (simp add: exactCost_base isSafeInteger_def maxSafe_def)
  then have arm: "at_projected_total_cost_cents arm = 4000" "at_decision arm = Allow"
    by (simp_all add: arm_def runStrictArm_cost runStrictArm_allow tokenReserved_def withinLimits_def initialState_def
        beginExecution_def allowOrbit_def orbitTrace_def makeBaseInput_def)
  have obs: "er_runtime_observation (ci_execution_request makeBaseInput) =
      \<lparr>ro_kill_switch_active = False, ro_actual_gpu_count = 2, ro_actual_hours = 4, ro_actual_total_cost_cents = 4000\<rparr>"
    "rs_gpu_count (er_resources (ci_execution_request makeBaseInput)) = 2"
    "rs_hours (er_resources (ci_execution_request makeBaseInput)) = 4"
    by (simp_all add: makeBaseInput_def)
  obtain tr where "runStrictRamona testHost makeBaseInput arm = Some tr" "rt_decision tr = Allow"
    using runStrictRamona_allows_iff [OF validInput_base, of testHost arm] by (auto simp: arm obs)
  then show ?thesis by (auto simp: arm_def)
qed

text \<open>
  C32: every receipt verifies. If the key pair belongs together (what the private key signs, the public key
  verifies) then any receipt that is built carries a valid signature under the published key, and the verification with
  or without the HMAC configuration accepts it.
\<close>

theorem buildReceipt_verifies:
  assumes "\<forall>m s. hs_receiptSign h m = Some s \<longrightarrow> hs_receiptVerify h (hs_publicPem h) m s = Some True"
    and "jsTrim (hs_publicPem h) \<noteq> []" "wfArm (ri_arm i)" "buildReceipt h i = Some r"
  shows "verifyReceiptPublicSignature h (receiptFields r) = Some True \<and>
    verifyReceiptSignature h (receiptFields r) = Some True"
  using receipt_accepted [OF assms] by blast

definition sampleReceiptInput :: receipt_input where
  "sampleReceiptInput =
     \<lparr>ri_canonical_request = jstr ''x'', ri_request_hash = jstr ''r'', ri_policy_hash = jstr ''p'',
      ri_preflight = \<lparr>pft_request_hash = jstr ''r'', pft_policy_hash = jstr ''p'', pft_policy_version = jstr ''policy.v1''\<rparr>,
      ri_orbit = orbitTrace Allow OkOrbit [], ri_arm = armTrace makeBaseInput Allow OkArm 4000 4000 0,
      ri_ramona = ramonaTrace Allow OkRamona [], ri_policy_version = jstr ''policy.v1''\<rparr>"

lemma wfArm_sample: "wfArm (ri_arm sampleReceiptInput)"
  by (simp add: sampleReceiptInput_def armTrace_def wfArm_def isSafeInteger_def maxSafe_def)

lemma buildReceipt_testHost: "wfArm (ri_arm i) \<Longrightarrow> \<exists>r. buildReceipt testHost i = Some r"
  by (simp add: buildReceipt_wf keyFingerprint_def)

lemma jsTrim_pem: "jsTrim [80] = [80]" "jsTrim [81] = [81]"
  by code_simp+

theorem buildReceipt_verifies_witness:
  "\<exists>r. buildReceipt testHost sampleReceiptInput = Some r \<and> verifyReceiptSignature testHost (receiptFields r) = Some True"
proof -
  obtain r where r: "buildReceipt testHost sampleReceiptInput = Some r"
    using buildReceipt_testHost [OF wfArm_sample] by blast
  have "verifyReceiptSignature testHost (receiptFields r) = Some True"
    using buildReceipt_verifies [OF _ _ wfArm_sample r] jsTrim_pem by simp
  with r show ?thesis by blast
qed

text \<open>
  C33: the key of a receipt is not pinned. Whatever key \<open>pem\<close> a forger holds, a payload of the forger's choice with
  a signature under that key, its own fingerprint and its own key id passes both verifications, even when \<open>pem\<close> is
  not the published key: the check ties the signature to the key in the receipt, not to \<open>RECEIPT_PUBLIC_KEY_PEM\<close>.
\<close>

theorem self_signed_receipt_accepted:
  assumes "wfJson (JObj payload)"
    and "jstr ''signature'' \<notin> fst ` set payload" "jstr ''verifiable_signature'' \<notin> fst ` set payload"
    and "jsTrim pem \<noteq> []" "keyFingerprint h pem = Some fp"
    and "hs_receiptVerify h pem (utf8Encode (canonicalText (JObj payload))) sig = Some True"
  defines "forged \<equiv> payload @ [(jstr ''signature'', JNull), (jstr ''verifiable_signature'', JObj
     [(jstr ''algorithm'', JStr (jstr ''ED25519'')), (jstr ''key_id'', JStr (receiptKeyId fp)),
      (jstr ''public_key_fingerprint'', JStr fp), (jstr ''public_key_pem'', JStr pem), (jstr ''value'', JStr (hexEncode sig))])]"
  shows "verifyReceiptPublicSignature h forged = Some True \<and> verifyReceiptSignature h forged = Some True"
proof -
  have rest: "receiptRest forged = payload" unfolding forged_def by (rule receiptRest_id [OF assms(2,3)])
  have wf: "wfJson (JObj (receiptRest forged))" unfolding rest by (rule assms(1))
  have "map_of payload (jstr ''verifiable_signature'') = None" using assms(3) by (simp add: map_of_eq_None_iff)
  then have "verifyReceiptPublicSignature h forged =
      hs_receiptVerify h pem (utf8Encode (canonicalText (JObj (receiptRest forged)))) sig"
    by (intro verifyReceiptPublicSignature_fields [OF wf assms(4,5)]) (simp add: forged_def map_add_def)
  then show ?thesis using verifyReceiptSignature_public [OF wf] assms(6) by (simp add: rest)
qed

theorem self_signed_receipt_accepted_witness:
  "hs_publicPem testHost \<noteq> [81] \<and>
   verifyReceiptSignature testHost
     ([(jstr ''request_hash'', JStr (jstr ''forged''))] @
      [(jstr ''signature'', JNull), (jstr ''verifiable_signature'', JObj
         [(jstr ''algorithm'', JStr (jstr ''ED25519'')), (jstr ''key_id'', JStr (receiptKeyId (the (keyFingerprint testHost [81])))),
          (jstr ''public_key_fingerprint'', JStr (the (keyFingerprint testHost [81]))), (jstr ''public_key_pem'', JStr [81]),
          (jstr ''value'', JStr (hexEncode (7 # utf8Encode (canonicalText (JObj [(jstr ''request_hash'', JStr (jstr ''forged''))])))))])])
   = Some True"
proof
  show "hs_publicPem testHost \<noteq> [81]" by simp
  have fp: "keyFingerprint testHost [81] = Some (the (keyFingerprint testHost [81]))" by (simp add: keyFingerprint_def)
  have "wfJson (JObj [(jstr ''request_hash'', JStr (jstr ''forged''))])"
    "jstr ''signature'' \<notin> fst ` set [(jstr ''request_hash'', JStr (jstr ''forged''))]"
    "jstr ''verifiable_signature'' \<notin> fst ` set [(jstr ''request_hash'', JStr (jstr ''forged''))]"
    by simp_all
  note forged = self_signed_receipt_accepted [where h = testHost, OF this _ fp]
  show "verifyReceiptSignature testHost
     ([(jstr ''request_hash'', JStr (jstr ''forged''))] @
      [(jstr ''signature'', JNull), (jstr ''verifiable_signature'', JObj
         [(jstr ''algorithm'', JStr (jstr ''ED25519'')), (jstr ''key_id'', JStr (receiptKeyId (the (keyFingerprint testHost [81])))),
          (jstr ''public_key_fingerprint'', JStr (the (keyFingerprint testHost [81]))), (jstr ''public_key_pem'', JStr [81]),
          (jstr ''value'', JStr (hexEncode (7 # utf8Encode (canonicalText (JObj [(jstr ''request_hash'', JStr (jstr ''forged''))])))))])])
    = Some True"
    by (rule forged [THEN conjunct2]) (simp_all only: jsTrim_pem testHost_simps simp_thms list.distinct)
qed

text \<open>
  The replay check is exact. The stored and the rerun receipt are reported equal exactly when both verify and
  they are the same JSON value up to property order and the sign of zero.
\<close>

theorem verifyReceiptReplay_exact:
  assumes "wfJson (JObj a)" "wfJson (JObj b)"
  shows "verifyReceiptReplay h a b = Some (True, r) \<longleftrightarrow>
    r = OkAllow \<and> verifyReceiptSignature h a = Some True \<and> verifyReceiptSignature h b = Some True \<and>
    normJson (JObj a) = normJson (JObj b)"
  using canonicalText_eq_iff [OF assms]
  by (cases "verifyReceiptSignature h a"; cases "verifyReceiptSignature h b")
    (auto simp: verifyReceiptReplay_def canonicalizeJson_text [OF assms(1)] canonicalizeJson_text [OF assms(2)]
      simp del: canonicalizeJson.simps wfJson.simps normJson.simps)

theorem verifyReceiptReplay_exact_witness:
  "\<exists>r. buildReceipt testHost sampleReceiptInput = Some r \<and>
     verifyReceiptReplay testHost (receiptFields r) (receiptFields r) = Some (True, OkAllow)"
proof -
  obtain r where r: "buildReceipt testHost sampleReceiptInput = Some r"
    using buildReceipt_testHost [OF wfArm_sample] by blast
  then have "rp_arm (sr_payload r) = ri_arm sampleReceiptInput"
    by (auto simp: buildReceipt_wf [OF wfArm_sample] bind_eq_Some_conv receiptPayload_def)
  then have wf: "wfJson (JObj (receiptFields r))" by (intro wfJson_receipt) (simp add: wfArm_sample)
  have "verifyReceiptSignature testHost (receiptFields r) = Some True"
    using receipt_accepted [OF _ _ wfArm_sample r] jsTrim_pem by simp
  with verifyReceiptReplay_exact [OF wf wf] r show ?thesis by blast
qed

text \<open>
  The decision hash commits to the decision. Two receipts with the same decision hash were built for the same
  request, policy, execution id and costs, with the same decision and reason, unless SHA-256 has a collision.
\<close>

theorem decision_hash_commits:
  assumes "wfArm (ri_arm i)" "wfArm (ri_arm j)" "buildReceipt h i = Some r" "buildReceipt h j = Some t"
    and "do_decision_hash (rp_decision_output (sr_payload r)) = do_decision_hash (rp_decision_output (sr_payload t))"
  shows "ri_request_hash i = ri_request_hash j \<and> ri_policy_hash i = ri_policy_hash j \<and>
      receiptDecision i = receiptDecision j \<and> receiptReason i = receiptReason j \<and>
      ri_policy_version i = ri_policy_version j \<and> at_execution_id (ri_arm i) = at_execution_id (ri_arm j) \<and>
      at_projected_total_cost_cents (ri_arm i) = at_projected_total_cost_cents (ri_arm j) \<and>
      at_allowed_cost_cents (ri_arm i) = at_allowed_cost_cents (ri_arm j) \<and>
      at_prevented_cost_cents (ri_arm i) = at_prevented_cost_cents (ri_arm j) \<or> sha256Collision h"
proof -
  note wf = wfJson_decision [OF assms(1)] wfJson_decision [OF assms(2)]
  from assms(3-5) have "decisionHash h i = decisionHash h j"
    by (auto simp: buildReceipt_wf [OF assms(1)] buildReceipt_wf [OF assms(2)] bind_eq_Some_conv receiptPayload_def)
  then have "canonicalText (receiptDecisionJson i) = canonicalText (receiptDecisionJson j) \<or> sha256Collision h"
    unfolding decisionHash_def by (rule sha256Text_eqD [OF wellFormed_canonicalText [OF wf(1)] wellFormed_canonicalText [OF wf(2)]])
  then show ?thesis
    using canonicalText_eq_iff [OF wf] receiptDecisionJson_inject [of i j] by blast
qed

theorem decision_hash_commits_witness:
  "\<exists>r. buildReceipt testHost sampleReceiptInput = Some r \<and>
     (receiptDecision sampleReceiptInput = Allow \<or> sha256Collision testHost)"
proof -
  obtain r where r: "buildReceipt testHost sampleReceiptInput = Some r"
    using buildReceipt_testHost [OF wfArm_sample] by blast
  have "receiptDecision sampleReceiptInput = Allow"
    by (simp add: receiptDecision_def sampleReceiptInput_def orbitTrace_def armTrace_def ramonaTrace_def)
  with decision_hash_commits [OF wfArm_sample wfArm_sample r r refl] r show ?thesis by auto
qed

end
