(* ===== verification/OrbitFacts.thy ===== *)
theory OrbitFacts
  imports StrictOrbit PreflightProps
begin

text \<open>
  What the intent layer guarantees on validated inputs: it never throws, it allows exactly the
  requests that pass its four tests (the last one being equality of the approved and the requested tool
  calls as values), its answer does not depend on the order of properties, and the encoded forms of an
  IPv4 address are decoded to the dotted form the patterns are written in.
\<close>

section \<open>No exceptions\<close>

lemma someM_Some: "(\<And>x. x \<in> set xs \<Longrightarrow> f x = Some (g x)) \<Longrightarrow> someM f xs = Some (list_ex g xs)"
  by (induction xs) (auto split: bool.splits)

definition paramText :: "host \<Rightarrow> jsobject \<Rightarrow> jsstring" where
  "paramText h ps = normalizeOrbitText h (normalizeSuspiciousText h (canonicalText (JObj ps)))"

definition forbiddenPatterns :: "jsstring list" where
  "forbiddenPatterns = forbiddenCodePatterns @ forbiddenNetworkPatterns @ forbiddenQueryPatterns @ forbiddenPlanPatterns"

definition unsafeParameters :: "host \<Rightarrow> jsobject \<Rightarrow> bool" where
  "unsafeParameters h ps \<longleftrightarrow>
     list_ex (\<lambda>p. jsIncludes (paramText h ps) (normalizedPattern h p)) forbiddenPatterns"

lemma matchesPattern_wf:
  "wfJson (JObj ps) \<Longrightarrow> matchesPattern h pats ps =
    Some (list_ex (\<lambda>p. jsIncludes (paramText h ps) (normalizedPattern h p)) pats)"
  by (simp add: matchesPattern_def parameterText_def paramText_def canonicalizeJson_text del: canonicalizeJson.simps)

lemma rules_wf:
  "wfJson (JObj ps) \<Longrightarrow> someM (\<lambda>(id, patterns). matchesPattern h patterns ps) rules = Some (unsafeParameters h ps)"
  by (subst someM_Some [where g = "\<lambda>(id, pats). list_ex (\<lambda>p. jsIncludes (paramText h ps) (normalizedPattern h p)) pats"])
    (auto simp: matchesPattern_wf rules_def unsafeParameters_def forbiddenPatterns_def)

definition wfParameters :: "canonical_input \<Rightarrow> bool" where
  "wfParameters ci \<longleftrightarrow> (\<forall>ps \<in> set (intentParameterObjects ci). wfJson (JObj ps))"

lemma set_map_filter: "set (List.map_filter f xs) = {y. \<exists>x \<in> set xs. f x = Some y}"
  by (induction xs) (auto simp: List.map_filter_def)

lemma validToolCall_parameters: "validToolCall c \<Longrightarrow> tc_parameters c = Some ps \<Longrightarrow> wfJson (JObj ps)"
  by (simp add: validToolCall_def wfToolCall_def)

lemma validInput_wfParameters: "validInput h ci \<Longrightarrow> wfParameters ci"
  by (auto simp: wfParameters_def intentParameterObjects_def Let_def set_map_filter validInput_def
      validParameters_def validToolCalls_def dest: validToolCall_parameters split: option.splits
      simp del: wfJson.simps)

lemma hasUnsafeParameters_wf:
  "wfParameters ci \<Longrightarrow> hasUnsafeParameters h ci = Some (list_ex (unsafeParameters h) (intentParameterObjects ci))"
  unfolding hasUnsafeParameters_def
  by (rule someM_Some) (simp add: rules_wf wfParameters_def del: wfJson.simps)

section \<open>Tool calls as values\<close>

lemma toolCallJson_inject:
  assumes "wfToolCall c" "wfToolCall d"
  shows "normJson (toolCallJson c) = normJson (toolCallJson d) \<longleftrightarrow> normCall c = normCall d"
proof
  assume eq: "normJson (toolCallJson c) = normJson (toolCallJson d)"
  define ps qs where "ps = (case toolCallJson c of JObj ps \<Rightarrow> ps)" and "qs = (case toolCallJson d of JObj ps \<Rightarrow> ps)"
  have json: "toolCallJson c = JObj ps" "toolCallJson d = JObj qs"
    by (simp_all add: ps_def qs_def toolCallJson_def)
  have wf: "wfObj ps" "wfObj qs"
    using wfJson_toolCall [OF assms(1)] wfJson_toolCall [OF assms(2)] by (simp_all add: json wfObj_def)
  from eq have "normObject ps = normObject qs" by (simp add: json normJson_JObj del: normJson.simps)
  note look = normObject_eq_lookup [OF this wf [THEN wfObj_distinct]]
  have "tc_tool c = tc_tool d" "tc_priority c = tc_priority d"
    using look [of "jstr ''tool''"] look [of "jstr ''priority''"]
    by (simp_all add: ps_def qs_def toolCallJson_def jint_def)
  moreover have "map_option normObject (tc_parameters c) = map_option normObject (tc_parameters d)"
    using look [of "jstr ''parameters''"]
    by (cases "tc_parameters c"; cases "tc_parameters d")
      (simp_all add: ps_def qs_def toolCallJson_def optField_def normJson_JObj del: normJson.simps(3))
  ultimately show "normCall c = normCall d" by (simp add: normCall_def)
next
  assume "normCall c = normCall d"
  then have "tc_tool c = tc_tool d" "tc_priority c = tc_priority d"
    "map_option normObject (tc_parameters c) = map_option normObject (tc_parameters d)"
    by (cases c; cases d; simp add: normCall_def)+
  then show "normJson (toolCallJson c) = normJson (toolCallJson d)"
    by (cases "tc_parameters c"; cases "tc_parameters d")
      (simp_all add: toolCallJson_def optField_def normObject_def jint_def)
qed

lemma list_map_inject:
  assumes "\<And>x y. x \<in> set xs \<Longrightarrow> y \<in> set ys \<Longrightarrow> f x = f y \<longleftrightarrow> g x = g y"
  shows "map f xs = map f ys \<longleftrightarrow> map g xs = map g ys"
  using assms
proof (induction xs arbitrary: ys)
  case (Cons x xs)
  then show ?case by (cases ys) auto
qed auto

lemma toolCallsEqual_iff:
  assumes "\<forall>c \<in> set cs. wfToolCall c" "\<forall>c \<in> set ds. wfToolCall c"
  shows "toolCallsEqual cs ds = Some (map normCall cs = map normCall ds)"
proof -
  have "normJson (toolCallsJson cs) = normJson (toolCallsJson ds) \<longleftrightarrow>
      map (\<lambda>c. normJson (toolCallJson c)) cs = map (\<lambda>c. normJson (toolCallJson c)) ds"
    by (simp add: toolCallsJson_def comp_def)
  also have "\<dots> \<longleftrightarrow> map normCall cs = map normCall ds"
    using assms by (intro list_map_inject toolCallJson_inject) auto
  finally show ?thesis
    using canonicalText_eq_iff [OF wfJson_toolCalls wfJson_toolCalls, OF assms]
    by (simp add: toolCallsEqual_def canonicalizeJson_text wfJson_toolCalls assms)
qed

section \<open>The answer of the layer\<close>

definition orbitVerdict :: "host \<Rightarrow> canonical_input \<Rightarrow> decision \<times> reason_code" where
  "orbitVerdict h ci =
     (let er = ci_execution_request ci; oi = er_orbit_intent er
      in if oi_orbit_version oi \<noteq> jstr ''2.0'' \<or> oi_lifecycle_state oi \<noteq> jstr ''ARMED'' then (Refuse, ToolCallSequence)
         else if hasMultipleActions h ci then (Refuse, OrbitMultipleActions)
         else if list_ex (unsafeParameters h) (intentParameterObjects ci) then (Refuse, ForbiddenActionInParameters)
         else if map normCall (er_tool_calls er) \<noteq> map normCall (oi_payload_tool_calls oi) then (Refuse, ToolCallSequence)
         else (Allow, OkOrbit))"

definition orbitHash :: "host \<Rightarrow> canonical_input \<Rightarrow> jsstring" where
  "orbitHash h ci = sha256Text h (canonicalText (orbitIntentJson (er_orbit_intent (ci_execution_request ci))))"

lemma validInput_calls:
  assumes "validInput h ci"
  shows "\<forall>c \<in> set (er_tool_calls (ci_execution_request ci)). wfToolCall c"
    "\<forall>c \<in> set (oi_payload_tool_calls (er_orbit_intent (ci_execution_request ci))). wfToolCall c"
  using assms by (auto simp: validInput_def validToolCalls_def validToolCall_def Let_def)

lemma runStrictOrbit_valid:
  assumes "validInput h ci"
  shows "runStrictOrbit h ci = Some (orbitTrace (fst (orbitVerdict h ci)) (snd (orbitVerdict h ci)) (orbitHash h ci))"
  using validInput_calls [OF assms] hasUnsafeParameters_wf [OF validInput_wfParameters [OF assms]]
  by (simp add: runStrictOrbit_def orbitVerdict_def orbitHash_def Let_def hashCanonicalJson_wf wfJson_orbitIntent
      toolCallsEqual_iff)

section \<open>Independence of the order of properties\<close>

lemma sum_list_sort_key: "sum_list (map f (sort_key g xs)) = (sum_list (map f xs) :: nat)"
  by (metis mset_map mset_sort sum_mset_sum_list)

lemma countNested_norm: "countNestedActionMarkers h (normJson v) = countNestedActionMarkers h v"
proof (induction v)
  case (JArr vs)
  then have "map (countNestedActionMarkers h \<circ> normJson) vs = map (countNestedActionMarkers h) vs" by simp
  then show ?case by (simp only: normJson.simps countNestedActionMarkers.simps map_map)
next
  case (JObj ps)
  let ?field = "\<lambda>key nested. if normalizeSuspiciousText h key \<in> set actionFieldNames
      then (case nested of JArr vs \<Rightarrow> length vs | _ \<Rightarrow> 1) else (0 :: nat)"
  have arr: "(case normJson v of JArr vs \<Rightarrow> length vs | _ \<Rightarrow> 1) = (case v of JArr vs \<Rightarrow> length vs | _ \<Rightarrow> (1 :: nat))" for v
    by (cases v) simp_all
  have IH: "countNestedActionMarkers h (normJson (snd p)) = countNestedActionMarkers h (snd p)" if "p \<in> set ps" for p
    using JObj [of p "snd p"] that by (cases p) auto
  let ?total = "\<lambda>(key, nested). ?field key nested + countNestedActionMarkers h nested"
  have "map ?total (map (\<lambda>(k, v). (k, normJson v)) ps) = map ?total ps"
    using IH by (auto simp: case_prod_unfold arr)
  then show ?case
    by (simp only: normJson.simps countNestedActionMarkers.simps sum_list_sort_key)
qed simp_all

lemma canonicalText_normObject: "wfJson (JObj ps) \<Longrightarrow> canonicalText (JObj (normObject ps)) = canonicalText (JObj ps)"
  using canonicalText_normJson [of "JObj ps"] by (simp only: normJson_JObj)

lemma unsafe_normObject: "wfJson (JObj ps) \<Longrightarrow> unsafeParameters h (normObject ps) = unsafeParameters h ps"
  by (simp add: unsafeParameters_def paramText_def canonicalText_normObject del: wfJson.simps)

lemma markers_normObject: "countNestedActionMarkers h (JObj (normObject ps)) = countNestedActionMarkers h (JObj ps)"
  using countNested_norm [of h "JObj ps"] by (simp only: normJson_JObj)

lemma normCall_simps [simp]:
  "tc_tool (normCall c) = tc_tool c" "tc_priority (normCall c) = tc_priority c"
  "tc_parameters (normCall c) = map_option normObject (tc_parameters c)"
  by (simp_all add: normCall_def)

lemma normInput_simps [simp]:
  "er_tool_calls (ci_execution_request (normInput ci)) = map normCall (er_tool_calls (ci_execution_request ci))"
  "er_parameters (ci_execution_request (normInput ci)) = map_option normObject (er_parameters (ci_execution_request ci))"
  "oi_payload_tool_calls (er_orbit_intent (ci_execution_request (normInput ci))) =
     map normCall (oi_payload_tool_calls (er_orbit_intent (ci_execution_request ci)))"
  "oi_orbit_version (er_orbit_intent (ci_execution_request (normInput ci))) =
     oi_orbit_version (er_orbit_intent (ci_execution_request ci))"
  "oi_action (er_orbit_intent (ci_execution_request (normInput ci))) = oi_action (er_orbit_intent (ci_execution_request ci))"
  "oi_boundary (er_orbit_intent (ci_execution_request (normInput ci))) =
     oi_boundary (er_orbit_intent (ci_execution_request ci))"
  "oi_lifecycle_state (er_orbit_intent (ci_execution_request (normInput ci))) =
     oi_lifecycle_state (er_orbit_intent (ci_execution_request ci))"
  "oi_signatures (er_orbit_intent (ci_execution_request (normInput ci))) =
     oi_signatures (er_orbit_intent (ci_execution_request ci))"
  "er_resources (ci_execution_request (normInput ci)) = er_resources (ci_execution_request ci)"
  "er_execution (ci_execution_request (normInput ci)) = er_execution (ci_execution_request ci)"
  "er_release_request (ci_execution_request (normInput ci)) = er_release_request (ci_execution_request ci)"
  "er_runtime_observation (ci_execution_request (normInput ci)) = er_runtime_observation (ci_execution_request ci)"
  "er_budget_token (ci_execution_request (normInput ci)) = er_budget_token (ci_execution_request ci)"
  "ci_policy_document (normInput ci) = ci_policy_document ci"
  "ci_gpu_hour_cents (normInput ci) = ci_gpu_hour_cents ci"
  by (simp_all add: normInput_def)

lemma map_filter_norm:
  "List.map_filter tc_parameters (map normCall cs) = map normObject (List.map_filter tc_parameters cs)"
  by (induction cs) (auto simp: List.map_filter_simps split: option.splits)

lemma intentParameterObjects_norm:
  "intentParameterObjects (normInput ci) = map normObject (intentParameterObjects ci)"
  by (simp add: intentParameterObjects_def Let_def map_filter_norm split: option.splits)

lemma normObject_idem: "normObject (normObject ps) = normObject ps"
  using normJson_idem [of "JObj ps"] by (simp add: normJson_JObj del: normJson.simps)

lemma normCall_idem: "normCall (normCall c) = normCall c"
  by (cases "tc_parameters c") (simp_all add: normCall_def normObject_idem)

lemma list_ex_map_eq: "(\<And>x. x \<in> set xs \<Longrightarrow> P (f x) = P x) \<Longrightarrow> list_ex P (map f xs) = list_ex P xs"
  by (induction xs) auto

lemma hasMultipleActions_norm: "hasMultipleActions h (normInput ci) = hasMultipleActions h ci"
proof -
  have "list_ex (\<lambda>ps. countNestedActionMarkers h (JObj ps) > 0) (map normObject (intentParameterObjects ci)) =
      list_ex (\<lambda>ps. countNestedActionMarkers h (JObj ps) > 0) (intentParameterObjects ci)"
    by (rule list_ex_map_eq) (simp only: markers_normObject)
  moreover have "list_ex (\<lambda>c. list_ex (\<lambda>p. jsIncludes (hs_lower h (tc_tool c)) p) actionTextPatterns) (map normCall cs) =
      list_ex (\<lambda>c. list_ex (\<lambda>p. jsIncludes (hs_lower h (tc_tool c)) p) actionTextPatterns) cs" for cs
    by (rule list_ex_map_eq) simp
  ultimately show ?thesis
    by (simp only: hasMultipleActions_def intentParameterObjects_norm normInput_simps length_map)
qed

lemma orbitVerdict_norm:
  assumes "validInput h ci"
  shows "orbitVerdict h (normInput ci) = orbitVerdict h ci"
proof -
  have "list_ex (unsafeParameters h) (map normObject (intentParameterObjects ci)) =
      list_ex (unsafeParameters h) (intentParameterObjects ci)"
    using validInput_wfParameters [OF assms]
    by (intro list_ex_map_eq) (simp add: unsafe_normObject wfParameters_def del: wfJson.simps)
  moreover have "map (normCall \<circ> normCall) cs = map normCall cs" for cs by (simp add: normCall_idem)
  ultimately show ?thesis
    by (simp only: orbitVerdict_def Let_def hasMultipleActions_norm intentParameterObjects_norm normInput_simps map_map)
qed

end
