(* ===== verification/OrbitProps.thy ===== *)
theory OrbitProps
  imports OrbitFacts
begin

text \<open>
  The properties of the intent layer, and the decoding of encoded IPv4 addresses.
\<close>

unbundle bit_operations_syntax

section \<open>Encoded addresses\<close>

text \<open>The documented behaviour of \<open>normalize\<close> and \<open>toLowerCase\<close> on ASCII text.\<close>

definition asciiFold :: "host \<Rightarrow> bool" where
  "asciiFold h \<longleftrightarrow> (\<forall>s. (\<forall>c \<in> set s. c < 128) \<longrightarrow>
     hs_nfkc h s = s \<and> hs_lower h s = map (\<lambda>c. if 65 \<le> c \<and> c \<le> 90 then c + 32 else c) s)"

definition lowerText :: "code_unit \<Rightarrow> bool" where
  "lowerText c \<longleftrightarrow> c < 128 \<and> \<not> (65 \<le> c \<and> c \<le> 90) \<and> \<not> isJsSpace c"

lemma normalize_lowerText:
  assumes "asciiFold h" "\<forall>c \<in> set s. lowerText c"
  shows "normalizeSuspiciousText h s = s"
proof -
  have "map (\<lambda>c. if 65 \<le> c \<and> c \<le> 90 then c + 32 else c) s = s"
    using assms(2) by (intro map_idI) (auto simp: lowerText_def)
  then have "hs_lower h (hs_nfkc h s) = s"
    using assms by (simp add: asciiFold_def lowerText_def)
  then show ?thesis
    using assms(2) by (simp add: normalizeSuspiciousText_def jsTrim_id collapseSpaces_id lowerText_def)
qed

lemma lowerText_alnum: "lowerAlnum c \<Longrightarrow> lowerText c"
  by (auto simp: lowerAlnum_def lowerText_def isDigit_def isJsSpace_def word_le_nat_alt word_less_nat_alt)

lemma lowerAlnum_hex: "lowerHexDigit c \<Longrightarrow> lowerAlnum c"
  by (auto simp: lowerAlnum_def lowerHexDigit_def word_le_nat_alt)

lemma lowerAlnum_digit: "isDigit c \<Longrightarrow> lowerAlnum c"
  by (simp add: lowerAlnum_def)

text \<open>A greedy repetition can take all of a run of its class.\<close>

lemma mUpTo_all: "\<forall>c \<in> set ds. P c \<Longrightarrow> length ds \<le> n \<Longrightarrow> (ds, []) \<in> set (mUpTo n (mCls P) ds)"
proof (induction n arbitrary: ds)
  case (Suc n)
  then show ?case by (cases ds) (force simp: mOpt_def mSeq_def mCls_def)+
qed simp

lemma mTimes_all: "\<forall>c \<in> set ds. P c \<Longrightarrow> (ds, r) \<in> set (mTimes (length ds) (mCls P) (ds @ r))"
  by (induction ds) (force simp: mSeq_def mCls_def)+

lemma mSeq_member: "(c, r) \<in> set (a s) \<Longrightarrow> (d, r2) \<in> set (b r) \<Longrightarrow> (c @ d, r2) \<in> set (mSeq a b s)"
  by (force simp: mSeq_def)

lemma mRep_all:
  assumes "\<forall>c \<in> set ds. P c" "m \<le> length ds" "length ds \<le> n"
  shows "(ds, []) \<in> set (mRep m n (mCls P) ds)"
proof -
  have "(take m ds, drop m ds) \<in> set (mTimes (length (take m ds)) (mCls P) (take m ds @ drop m ds))"
    using assms(1) by (intro mTimes_all) (auto dest: in_set_takeD)
  then have "(take m ds, drop m ds) \<in> set (mTimes m (mCls P) ds)" using assms(2) by (simp add: min_absorb2)
  moreover have "(drop m ds, []) \<in> set (mUpTo (n - m) (mCls P) (drop m ds))"
    using assms by (intro mUpTo_all) (auto dest: in_set_dropD)
  ultimately have "(take m ds @ drop m ds, []) \<in> set (mSeq (mTimes m (mCls P)) (mUpTo (n - m) (mCls P)) ds)"
    by (rule mSeq_member)
  then show ?thesis by (simp add: mRep_def)
qed

lemma fullMatchI: "(s, []) \<in> set (a s) \<Longrightarrow> fullMatch a s"
  by (force simp: fullMatch_def list_ex_iff)

lemma mLit_head: "c \<noteq> d \<Longrightarrow> mLit (d # t) (c # s) = []"
  by (simp add: mLit_def)

lemma fullMatch_lit_head: "c \<noteq> d \<Longrightarrow> \<not> fullMatch (mSeq (mLit (d # t)) b) (c # s)"
  by (simp add: fullMatch_def mSeq_def mLit_head)

lemma fullMatch_hex:
  assumes "\<forall>c \<in> set ds. lowerHexDigit c" "1 \<le> length ds" "length ds \<le> 8"
  shows "fullMatch reHex (jstr ''0x'' @ ds)"
  unfolding reHex_def
proof (intro fullMatchI mSeq_member)
  show "(jstr ''0x'', ds) \<in> set (mLit (jstr ''0x'') (jstr ''0x'' @ ds))"
    by (simp add: mLit_def jsStartsWith_iff)
  show "(ds, []) \<in> set (mRep 1 8 (mCls lowerHexDigit) ds)"
    by (rule mRep_all [OF assms])
qed

definition dottedQuad :: "nat \<Rightarrow> nat \<Rightarrow> nat \<Rightarrow> nat \<Rightarrow> jsstring" where
  "dottedQuad a b c d = joinWith (jstr ''.'') (map (\<lambda>n. showInt (int n)) [a, b, c, d])"

definition ipv4Number :: "nat \<Rightarrow> nat \<Rightarrow> nat \<Rightarrow> nat \<Rightarrow> nat" where
  "ipv4Number a b c d = ((a * 256 + b) * 256 + c) * 256 + d"

lemma uint_and_255: "uint (w AND 255 :: 32 word) = uint w mod 256"
proof -
  have "w AND 255 = take_bit 8 w" by (simp add: take_bit_eq_mask mask_eq_exp_minus_1)
  then show ?thesis by (simp only: unsigned_take_bit_eq) (simp add: take_bit_eq_mod)
qed

lemma uint_drop: "uint (drop_bit k (w :: 32 word)) = uint w div 2 ^ k"
proof -
  have "unat (drop_bit k w) = unat w div 2 ^ k"
    by (simp add: unat_drop_bit_eq) (simp add: drop_bit_eq_div)
  then have "int (unat (drop_bit k w)) = int (unat w) div 2 ^ k" by (simp only: zdiv_int of_nat_power of_nat_numeral)
  then show ?thesis by simp
qed

lemma uint_small: "0 \<le> i \<Longrightarrow> i < 4294967296 \<Longrightarrow> uint (word_of_int i :: 32 word) = i"
  by (simp add: uint_word_of_int take_bit_eq_mod)

lemma octets:
  fixes a b c d :: nat
  assumes "a < 256" "b < 256" "c < 256" "d < 256"
  defines "n \<equiv> ((a * 256 + b) * 256 + c) * 256 + d"
  shows "n div 16777216 mod 256 = a" "n div 65536 mod 256 = b" "n div 256 mod 256 = c" "n mod 256 = d" "n < 4294967296"
proof -
  have step: "(x * 256 + y) div 256 = x" "(x * 256 + y) mod 256 = y" if "y < 256" for x y :: nat
    using that by simp_all
  define m where "m = (a * 256 + b) * 256 + c"
  define k where "k = a * 256 + b"
  have n: "n = m * 256 + d" and m: "m = k * 256 + c" and k: "k = a * 256 + b"
    by (simp_all add: n_def m_def k_def)
  have "n div 256 = m" "m div 256 = k" "k div 256 = a"
    unfolding n m k using step assms by blast+
  moreover have "n mod 256 = d" "m mod 256 = c" "k mod 256 = b"
    unfolding n m k using step assms by blast+
  moreover have "n div 65536 = n div 256 div 256" "n div 16777216 = n div 256 div 256 div 256"
    by (simp_all flip: div_mult2_eq)
  ultimately show "n div 16777216 mod 256 = a" "n div 65536 mod 256 = b" "n div 256 mod 256 = c" "n mod 256 = d"
    using assms(1) by simp_all
  have "k < 65536" using assms(1,2) by (simp add: k)
  then have "m < 16777216" using assms(3) by (simp add: m)
  then show "n < 4294967296" using assms(4) by (simp add: n)
qed

lemma ipv4FromNumber_dotted:
  assumes "a < 256" "b < 256" "c < 256" "d < 256"
  shows "ipv4FromNumber (int (ipv4Number a b c d)) = Some (dottedQuad a b c d)"
proof -
  note oct = octets [OF assms, folded ipv4Number_def]
  let ?n = "ipv4Number a b c d"
  have u: "uint (word_of_nat ?n :: 32 word) = int ?n"
    using oct(5) uint_small [of "int ?n"] by simp
  have o: "uint (drop_bit k (word_of_nat ?n) AND 255 :: 32 word) = int (?n div 2 ^ k mod 256)" for k
    by (simp add: uint_and_255 uint_drop u zdiv_int zmod_int)
  show ?thesis
    using oct o [of 24] o [of 16] o [of 8] o [of 0]
    by (simp add: ipv4FromNumber_def isSafeInteger_def maxSafe_def dottedQuad_def Let_def)
qed

lemma parseIpToken_hex:
  assumes "asciiFold h" "\<forall>c \<in> set ds. lowerHexDigit c" "1 \<le> length ds" "length ds \<le> 8"
  shows "parseIpToken h (jstr ''0x'' @ ds) = ipv4FromNumber (int (hexValue ds))"
proof -
  have low: "lowerText 48" "lowerText 120" by (simp_all add: lowerText_def isJsSpace_def)
  have x: "jstr ''0x'' = [48, 120]" by (simp add: jstr_def unit_of_char_def)
  have "\<forall>c \<in> set (jstr ''0x'' @ ds). lowerText c"
    using assms(2) low lowerText_alnum lowerAlnum_hex by (auto simp: x)
  then have "normalizeSuspiciousText h (jstr ''0x'' @ ds) = jstr ''0x'' @ ds"
    using assms(1) by (intro normalize_lowerText)
  moreover have "\<not> fullMatch (mSeq (mLit (jstr ''::ffff:'')) reDotted) (jstr ''0x'' @ ds)"
    using fullMatch_lit_head [of 48 58] by (simp add: jstr_def unit_of_char_def)
  moreover have "jstr ''0x'' @ ds \<noteq> jstr ''0:0:0:0:0:0:0:1''" "jstr ''0x'' @ ds \<noteq> jstr ''::1''"
    by (simp_all add: jstr_def unit_of_char_def)
  ultimately show ?thesis
    using fullMatch_hex [OF assms(2-4)] by (simp add: parseIpToken_def Let_def)
qed

lemma parseIpToken_decimal:
  assumes "asciiFold h" "\<forall>c \<in> set ds. isDigit c" "8 \<le> length ds" "length ds \<le> 10"
  shows "parseIpToken h ds = ipv4FromNumber (int (digitsValue ds))"
proof -
  obtain a b es where ds: "ds = a # b # es" using assms(3) by (cases ds; cases "tl ds") auto
  have dig: "isDigit a" "isDigit b" using assms(2) ds by simp_all
  then have ne: "a \<noteq> 58" "b \<noteq> 58" "b \<noteq> 120" by (auto simp: isDigit_def)
  have "normalizeSuspiciousText h ds = ds"
    using assms(1,2) lowerText_alnum lowerAlnum_digit by (intro normalize_lowerText) auto
  moreover have "\<not> fullMatch (mSeq (mLit (jstr ''::ffff:'')) reDotted) ds"
    using fullMatch_lit_head [of a 58] ne by (simp add: ds jstr_def unit_of_char_def)
  moreover have "ds \<noteq> jstr ''0:0:0:0:0:0:0:1''" "ds \<noteq> jstr ''::1''"
    using ne by (auto simp: ds jstr_def unit_of_char_def)
  moreover have "\<not> fullMatch reHex ds"
    using ne by (auto simp: ds fullMatch_def reHex_def mSeq_def mLit_def jstr_def unit_of_char_def)
  moreover have "fullMatch reDecimal ds"
    unfolding reDecimal_def using mRep_all [OF assms(2-4)] by (rule fullMatchI)
  ultimately show ?thesis by (simp add: parseIpToken_def Let_def)
qed

section \<open>Encoded addresses inside a parameter\<close>

text \<open>The first answer of a matcher, the one the engine takes.\<close>

definition startsMatch :: "matcher \<Rightarrow> jsstring \<Rightarrow> jsstring \<Rightarrow> jsstring \<Rightarrow> bool" where
  "startsMatch a s c r \<longleftrightarrow> (\<exists>others. a s = (c, r) # others)"

lemma startsMatch_seq: "startsMatch a s c r \<Longrightarrow> startsMatch b r d r2 \<Longrightarrow> startsMatch (mSeq a b) s (c @ d) r2"
  by (auto simp: startsMatch_def mSeq_def)

lemma startsMatch_lit: "startsMatch (mLit t) (t @ r) t r"
  by (simp add: startsMatch_def mLit_def jsStartsWith_iff)

lemma startsMatch_mTimes:
  "\<forall>c \<in> set ds. P c \<Longrightarrow> startsMatch (mTimes (length ds) (mCls P)) (ds @ r) ds r"
proof (induction ds)
  case (Cons d ds)
  have "startsMatch (mCls P) (d # ds @ r) [d] (ds @ r)" using Cons.prems by (simp add: startsMatch_def mCls_def)
  from startsMatch_seq [OF this] Cons show ?case by (simp add: startsMatch_def)
qed (simp add: startsMatch_def)

lemma startsMatch_mUpTo:
  "\<forall>c \<in> set ds. P c \<Longrightarrow> length ds \<le> n \<Longrightarrow> r = [] \<or> \<not> P (hd r) \<Longrightarrow> startsMatch (mUpTo n (mCls P)) (ds @ r) ds r"
proof (induction n arbitrary: ds)
  case (Suc n)
  show ?case
  proof (cases ds)
    case Nil
    with Suc.prems show ?thesis by (cases r) (simp_all add: startsMatch_def mOpt_def mSeq_def mCls_def)
  next
    case (Cons d es)
    have "startsMatch (mCls P) (d # es @ r) [d] (es @ r)" using Suc.prems Cons by (simp add: startsMatch_def mCls_def)
    moreover have "startsMatch (mUpTo n (mCls P)) (es @ r) es r"
      using Suc.prems Cons by (intro Suc.IH) simp_all
    ultimately have "startsMatch (mSeq (mCls P) (mUpTo n (mCls P))) (d # es @ r) ([d] @ es) r"
      by (rule startsMatch_seq)
    with Cons show ?thesis by (auto simp: startsMatch_def mOpt_def)
  qed
qed (simp add: startsMatch_def)

lemma startsMatch_mRep:
  assumes "\<forall>c \<in> set ds. P c" "m \<le> length ds" "length ds \<le> n" "r = [] \<or> \<not> P (hd r)"
  shows "startsMatch (mRep m n (mCls P)) (ds @ r) ds r"
proof -
  have "startsMatch (mTimes (length (take m ds)) (mCls P)) (take m ds @ drop m ds @ r) (take m ds) (drop m ds @ r)"
    using assms(1) by (intro startsMatch_mTimes) (auto dest: in_set_takeD)
  then have "startsMatch (mTimes m (mCls P)) (ds @ r) (take m ds) (drop m ds @ r)"
    using assms(2) by (simp add: min_absorb2 flip: append_assoc)
  moreover have "startsMatch (mUpTo (n - m) (mCls P)) (drop m ds @ r) (drop m ds) r"
    using assms by (intro startsMatch_mUpTo) (auto dest: in_set_dropD)
  ultimately have "startsMatch (mSeq (mTimes m (mCls P)) (mUpTo (n - m) (mCls P))) (ds @ r) (take m ds @ drop m ds) r"
    by (rule startsMatch_seq)
  then show ?thesis by (simp add: mRep_def startsMatch_def)
qed

lemma startsMatch_optional: "a s = [] \<Longrightarrow> startsMatch b s d r \<Longrightarrow> startsMatch (mSeq (mOpt a) b) s d r"
  by (auto simp: startsMatch_def mSeq_def mOpt_def)

lemma startsMatch_alt:
  "startsMatch m s c r \<Longrightarrow> startsMatch (mAlt (m # ms)) s c r"
  "m s = [] \<Longrightarrow> startsMatch (mAlt ms) s c r \<Longrightarrow> startsMatch (mAlt (m # ms)) s c r"
  by (auto simp: startsMatch_def mAlt_def)

lemma startsMatch_notAhead: "startsMatch a s c r \<Longrightarrow> r = [] \<or> \<not> P (hd r) \<Longrightarrow> startsMatch (mNotAhead a P) s c r"
  by (auto simp: startsMatch_def mNotAhead_def split: list.splits)

definition ipToken :: "jsstring \<Rightarrow> bool" where
  "ipToken t \<longleftrightarrow>
     (\<exists>ds. t = jstr ''0x'' @ ds \<and> (\<forall>c \<in> set ds. lowerHexDigit c) \<and> 1 \<le> length ds \<and> length ds \<le> 8) \<or>
     (\<forall>c \<in> set t. isDigit c) \<and> 8 \<le> length t \<and> length t \<le> 10"

lemma quote_ahead: "\<not> lowerAlnum 34" "\<not> lowerHexDigit 34" "\<not> isDigit 34"
  by (simp_all add: lowerAlnum_def lowerHexDigit_def isDigit_def)

lemma ipTokenMatch_token:
  assumes "ipToken t" "\<not> lowerAlnum p" "r = [] \<or> \<not> lowerAlnum (hd r)"
  shows "startsMatch (ipTokenMatch (Some p)) (t @ r) t r"
proof -
  have ahead: "r = [] \<or> \<not> lowerHexDigit (hd r)" "r = [] \<or> \<not> isDigit (hd r)"
    using assms(3) lowerAlnum_hex lowerAlnum_digit by blast+
  have "startsMatch (mSeq (mOpt (mLit (jstr ''::ffff:'')))
          (mAlt [reHex, reDecimal, reDotted, mLit (jstr ''::1''), mLit (jstr ''0:0:0:0:0:0:0:1'')])) (t @ r) t r"
    using assms(1) unfolding ipToken_def
  proof (elim disjE exE conjE)
    fix ds assume t: "t = jstr ''0x'' @ ds" and ds: "\<forall>c \<in> set ds. lowerHexDigit c" "1 \<le> length ds" "length ds \<le> 8"
    have "mLit (jstr ''::ffff:'') (t @ r) = []" by (simp add: t mLit_def jstr_def unit_of_char_def)
    moreover have "startsMatch reHex (t @ r) t r"
      unfolding reHex_def t append_assoc
      by (rule startsMatch_seq [OF startsMatch_lit]) (rule startsMatch_mRep [OF ds ahead(1)])
    ultimately show ?thesis by (intro startsMatch_optional startsMatch_alt(1))
  next
    assume t: "\<forall>c \<in> set t. isDigit c" "8 \<le> length t" "length t \<le> 10"
    obtain a b es where ab: "t = a # b # es" using t(2) by (cases t; cases "tl t") auto
    have ne: "a \<noteq> 58" "b \<noteq> 120" using t(1) by (auto simp: ab isDigit_def)
    have "mLit (jstr ''::ffff:'') (t @ r) = []" "reHex (t @ r) = []"
      using ne by (simp_all add: ab reHex_def mSeq_def mLit_def jstr_def unit_of_char_def)
    moreover have "startsMatch reDecimal (t @ r) t r"
      unfolding reDecimal_def by (rule startsMatch_mRep [OF t ahead(2)])
    ultimately show ?thesis by (intro startsMatch_optional startsMatch_alt)
  qed
  then show ?thesis
    unfolding ipTokenMatch_def using assms(2,3) by (simp add: startsMatch_notAhead)
qed

text \<open>Characters at which no token starts are copied.\<close>

definition inert :: "code_unit \<Rightarrow> bool" where
  "inert c \<longleftrightarrow> \<not> isDigit c \<and> c \<noteq> 58"

lemma mCls_head: "\<not> P c \<Longrightarrow> mCls P (c # cs) = []"
  by (simp add: mCls_def)

lemma mRep_head: "\<not> P c \<Longrightarrow> 1 \<le> m \<Longrightarrow> mRep m n (mCls P) (c # cs) = []"
  by (cases m) (simp_all add: mRep_def mSeq_def mCls_head)

lemma ipTokenMatch_none:
  assumes "inert c \<or> c = 58 \<and> cs \<noteq> [] \<and> hd cs \<noteq> 58"
  shows "ipTokenMatch prev (c # cs) = []"
proof -
  have colon: "\<not> isDigit 58" by (simp add: isDigit_def)
  have "c \<noteq> 48" "\<not> isDigit c" using assms colon by (auto simp: inert_def isDigit_def)
  moreover have "mLit (jstr ''::ffff:'') (c # cs) = []" "mLit (jstr ''::1'') (c # cs) = []"
    using assms by (cases cs; auto simp: mLit_def jstr_def unit_of_char_def inert_def)+
  ultimately show ?thesis
    by (simp add: ipTokenMatch_def mNotAhead_def mSeq_def mOpt_def mAlt_def reHex_def reDecimal_def reDotted_def
        mRep_head mLit_head jstr_def unit_of_char_def)
qed

lemma replaceGlobal_token:
  assumes "ipToken t" "\<not> lowerAlnum p" "r = [] \<or> \<not> lowerAlnum (hd r)"
  shows "replaceGlobal ipTokenMatch f (Some p) (t @ r) = f t @ replaceGlobal ipTokenMatch f (Some (last t)) r"
proof -
  have "t \<noteq> []" using assms(1) by (auto simp: ipToken_def)
  then obtain a u where t: "t = a # u" by (cases t) auto
  have "firstMatch (ipTokenMatch (Some p)) (t @ r) = Some (t, r)"
    using ipTokenMatch_token [OF assms] by (auto simp: startsMatch_def firstMatch_def)
  then show ?thesis by (simp add: t)
qed

text \<open>The units a token is made of: a match never extends over any other.\<close>

definition tokenUnit :: "code_unit \<Rightarrow> bool" where
  "tokenUnit c \<longleftrightarrow> lowerAlnum c \<or> c = 46 \<or> c = 58"

definition takesOnly :: "(code_unit \<Rightarrow> bool) \<Rightarrow> matcher \<Rightarrow> bool" where
  "takesOnly P a \<longleftrightarrow> (\<forall>s c r. (c, r) \<in> set (a s) \<longrightarrow> (\<forall>x \<in> set c. P x))"

lemma takesOnly_lit: "\<forall>x \<in> set t. P x \<Longrightarrow> takesOnly P (mLit t)"
  by (auto simp: takesOnly_def mLit_def)

lemma takesOnly_cls: "(\<And>x. Q x \<Longrightarrow> P x) \<Longrightarrow> takesOnly P (mCls Q)"
  by (auto simp: takesOnly_def mCls_def split: list.splits if_splits)

lemma takesOnly_seq: "takesOnly P a \<Longrightarrow> takesOnly P b \<Longrightarrow> takesOnly P (mSeq a b)"
  by (fastforce simp: takesOnly_def mSeq_def)

lemma takesOnly_alt: "\<forall>a \<in> set ms. takesOnly P a \<Longrightarrow> takesOnly P (mAlt ms)"
  by (fastforce simp: takesOnly_def mAlt_def)

lemma takesOnly_opt: "takesOnly P a \<Longrightarrow> takesOnly P (mOpt a)"
  by (fastforce simp: takesOnly_def mOpt_def)

lemma takesOnly_notAhead: "takesOnly P a \<Longrightarrow> takesOnly P (mNotAhead a Q)"
  by (fastforce simp: takesOnly_def mNotAhead_def)

lemma takesOnly_times: "takesOnly P a \<Longrightarrow> takesOnly P (mTimes n a)"
proof (induction n)
  case (Suc n)
  then have "takesOnly P (mSeq a (mTimes n a))" by (intro takesOnly_seq) simp_all
  then show ?case by (simp add: takesOnly_def)
qed (simp add: takesOnly_def)

lemma takesOnly_upTo: "takesOnly P a \<Longrightarrow> takesOnly P (mUpTo n a)"
proof (induction n)
  case (Suc n)
  then have "takesOnly P (mOpt (mSeq a (mUpTo n a)))" by (intro takesOnly_opt takesOnly_seq) simp_all
  then show ?case by (simp add: takesOnly_def)
qed (simp add: takesOnly_def)

lemma takesOnly_rep: "takesOnly P a \<Longrightarrow> takesOnly P (mRep m n a)"
  unfolding mRep_def by (intro takesOnly_seq takesOnly_times takesOnly_upTo)

lemma token_matchers:
  "takesOnly tokenUnit (ipTokenMatch prev)" "splits (ipTokenMatch prev)"
proof -
  have lits: "\<forall>x \<in> set (jstr ''::ffff:'') \<union> set (jstr ''::1'') \<union> set (jstr ''0:0:0:0:0:0:0:1'') \<union> set (jstr ''0x'') \<union> set (jstr ''.'').
      tokenUnit x"
    by (simp add: tokenUnit_def jstr_def unit_of_char_def lowerAlnum_def isDigit_def)
  have digit: "takesOnly tokenUnit (mCls isDigit)" "takesOnly tokenUnit (mCls lowerHexDigit)"
    by (rule takesOnly_cls, simp add: tokenUnit_def lowerAlnum_digit lowerAlnum_hex)+
  let ?token = "mNotAhead (mSeq (mOpt (mLit (jstr ''::ffff:'')))
    (mAlt [reHex, reDecimal, reDotted, mLit (jstr ''::1''), mLit (jstr ''0:0:0:0:0:0:0:1'')])) lowerAlnum"
  have "takesOnly tokenUnit reHex" "takesOnly tokenUnit reDecimal" "takesOnly tokenUnit reDotted"
    unfolding reHex_def reDecimal_def reDotted_def using lits digit
    by (auto intro!: takesOnly_seq takesOnly_rep takesOnly_times takesOnly_lit)
  then have "takesOnly tokenUnit ?token"
    using lits by (intro takesOnly_notAhead takesOnly_seq takesOnly_opt takesOnly_alt takesOnly_lit) (auto intro!: takesOnly_lit)
  then show "takesOnly tokenUnit (ipTokenMatch prev)" by (simp add: ipTokenMatch_def takesOnly_def)
  have "splits reHex" "splits reDecimal" "splits reDotted"
    unfolding reHex_def reDecimal_def reDotted_def by blast+
  then have "splits ?token" by (intro splits_intros) auto
  then show "splits (ipTokenMatch prev)" by (simp add: ipTokenMatch_def splits_def)
qed

text \<open>So the search always stands at such a unit, whatever it replaced before.\<close>

lemma replaceGlobal_reach:
  assumes "\<not> tokenUnit c"
  shows "\<exists>out. replaceGlobal ipTokenMatch f prev (pre @ c # r) = out @ c # replaceGlobal ipTokenMatch f (Some c) r"
proof (induction "length pre" arbitrary: pre prev rule: less_induct)
  case less
  have take: "c \<notin> set tok \<and> pre @ c # r = tok @ rest" if "firstMatch (ipTokenMatch prev) (pre @ c # r) = Some (tok, rest)" for tok rest
  proof -
    from that have "(tok, rest) \<in> set (ipTokenMatch prev (pre @ c # r))" by (auto simp: firstMatch_def split: list.splits)
    then have "\<forall>x \<in> set tok. tokenUnit x" using token_matchers(1) [of prev] unfolding takesOnly_def by blast
    with firstMatch_split [OF token_matchers(2) that] assms show ?thesis by blast
  qed
  show ?case
  proof (cases pre)
    case Nil
    then show ?thesis
      using take by (force split: option.splits simp: append_eq_Cons_conv Cons_eq_append_conv)
  next
    case (Cons a u)
    have copy: "\<exists>out. a # replaceGlobal ipTokenMatch f (Some a) (u @ c # r) = out @ c # replaceGlobal ipTokenMatch f (Some c) r"
      using less [of u "Some a"] Cons by (metis append_Cons length_Cons lessI)
    show ?thesis
    proof (cases "firstMatch (ipTokenMatch prev) (pre @ c # r)")
      case None
      with copy Cons show ?thesis by simp
    next
      case (Some p)
      obtain tok rest where p: "p = (tok, rest)" by fastforce
      note split = take [OF Some [unfolded p]]
      show ?thesis
      proof (cases "tok = []")
        case True
        with split Some p Cons have "firstMatch (ipTokenMatch prev) (a # u @ c # r) = Some ([], a # u @ c # r)" by simp
        with copy Cons show ?thesis by simp
      next
        case False
        from split obtain v where v: "pre = tok @ v" "rest = v @ c # r"
          by (auto simp: append_eq_append_conv2 Cons_eq_append_conv)
        then have "length v < length pre" using False by simp
        from less [OF this, of "Some (last tok)"] obtain out where
          "replaceGlobal ipTokenMatch f (Some (last tok)) rest = out @ c # replaceGlobal ipTokenMatch f (Some c) r" using v by blast
        moreover have "replaceGlobal ipTokenMatch f prev (pre @ c # r) = f tok @ replaceGlobal ipTokenMatch f (Some (last tok)) rest"
          using Some p v False by (cases tok) simp_all
        ultimately show ?thesis by (metis append_assoc)
      qed
    qed
  qed
qed

text \<open>
  A token stands alone when a character of no token is before it, or the colon after the quoted name of a member, and no letter or
  digit follows.
\<close>

definition standsAlone :: "jsstring \<Rightarrow> jsstring \<Rightarrow> bool" where
  "standsAlone pre post \<longleftrightarrow>
     (\<exists>q c. pre = q @ [c] \<and> \<not> tokenUnit c \<or> pre = q @ [34, 58]) \<and> (post = [] \<or> \<not> lowerAlnum (hd post))"

lemma quoteUnits_lower: "\<forall>c \<in> set s. lowerAlnum c \<Longrightarrow> quoteUnits s = s"
proof (induction s rule: quoteUnits.induct)
  case (2 c)
  then show ?case by (auto simp: quoteUnit_def lowerAlnum_def isDigit_def isHighSurrogate_def isLowSurrogate_def
        word_le_nat_alt word_less_nat_alt)
next
  case (3 c d cs)
  then have "\<not> isHighSurrogate c" "quoteUnit c = [c]"
    by (auto simp: quoteUnit_def lowerAlnum_def isDigit_def isHighSurrogate_def isLowSurrogate_def
        word_le_nat_alt word_less_nat_alt)
  with 3 show ?case by simp
qed simp

lemma ipToken_alnum: "ipToken t \<Longrightarrow> \<forall>c \<in> set t. lowerAlnum c"
proof -
  have "\<forall>c \<in> set (jstr ''0x''). lowerAlnum c" by (simp add: jstr_def unit_of_char_def lowerAlnum_def isDigit_def)
  then show "ipToken t \<Longrightarrow> \<forall>c \<in> set t. lowerAlnum c"
    using lowerAlnum_hex lowerAlnum_digit by (auto simp: ipToken_def)
qed

lemma replaceGlobal_alone:
  assumes "ipToken t" "standsAlone pre post"
  shows "\<exists>out more. replaceGlobal ipTokenMatch f prev (pre @ t @ post) = out @ f t @ more"
proof -
  have after: "post = [] \<or> \<not> lowerAlnum (hd post)" using assms(2) by (simp add: standsAlone_def)
  have apart: "\<not> lowerAlnum 58" "\<not> tokenUnit 34" by (simp_all add: lowerAlnum_def tokenUnit_def isDigit_def)
  from assms(2) consider q c where "pre = q @ [c]" "\<not> tokenUnit c" | q where "pre = q @ [34, 58]"
    by (auto simp: standsAlone_def)
  then show ?thesis
  proof cases
    case 1
    then have "\<not> lowerAlnum c" by (simp add: tokenUnit_def)
    from replaceGlobal_reach [OF 1(2), of f prev q "t @ post"] replaceGlobal_token [OF assms(1) this after, of f] 1(1)
    show ?thesis by (metis append_Cons append_Nil append_assoc)
  next
    case 2
    have "t \<noteq> []" using assms(1) by (auto simp: ipToken_def)
    then obtain a u where t: "t = a # u" "lowerAlnum a"
      using ipToken_alnum [OF assms(1)] by (cases t) simp_all
    then have "a \<noteq> 58" using apart(1) by auto
    then have "ipTokenMatch (Some 34) (58 # t @ post) = []" by (intro ipTokenMatch_none) (simp add: t(1))
    then have "replaceGlobal ipTokenMatch f (Some 34) (58 # t @ post) = 58 # f t @ replaceGlobal ipTokenMatch f (Some (last t)) post"
      using replaceGlobal_token [OF assms(1) apart(1) after, of f] by (simp add: firstMatch_def)
    with replaceGlobal_reach [OF apart(2), of f prev q "58 # t @ post"] 2 show ?thesis
      by (metis append_Cons append_Nil append_assoc)
  qed
qed

lemma collapseSpaces_idem: "collapseSpaces (collapseSpaces s) = collapseSpaces s"
proof (induction s rule: collapseSpaces.induct)
  case (2 c cs)
  have space: "isJsSpace 32" by (simp add: isJsSpace_def)
  have tail: "dropWhile isJsSpace (collapseSpaces (dropWhile isJsSpace cs)) = collapseSpaces (dropWhile isJsSpace cs)"
  proof -
    have fixed: "dropWhile isJsSpace (collapseSpaces xs) = collapseSpaces xs" if "xs = [] \<or> \<not> isJsSpace (hd xs)" for xs
      using that by (cases xs) simp_all
    have "dropWhile isJsSpace cs = [] \<or> \<not> isJsSpace (hd (dropWhile isJsSpace cs))" by (cases "dropWhile isJsSpace cs = []") (simp_all add: hd_dropWhile)
    then show ?thesis by (rule fixed)
  qed
  with 2 space show ?case by simp
qed simp

lemma paramText_alone:
  assumes "ipToken t" "standsAlone pre post" "normalizeSuspiciousText h (canonicalText (JObj ps)) = pre @ t @ post"
    and "parseIpToken h t = Some p"
  shows "jsIncludes (paramText h ps) p"
proof -
  have "collapseSpaces (pre @ t @ post) = pre @ t @ post"
    unfolding assms(3) [symmetric] normalizeSuspiciousText_def by (rule collapseSpaces_idem)
  with replaceGlobal_alone [OF assms(1,2), of "\<lambda>token. case parseIpToken h token of Some ip \<Rightarrow> ip | None \<Rightarrow> token" None] assms(3,4)
  show ?thesis by (auto simp: paramText_def normalizeOrbitText_def jsIncludes_iff)
qed

definition tokenNumber :: "jsstring \<Rightarrow> nat" where
  "tokenNumber t = (if jsStartsWith t (jstr ''0x'') then hexValue (drop 2 t) else digitsValue t)"

lemma parseIpToken_token:
  assumes "asciiFold h" "ipToken t"
  shows "parseIpToken h t = ipv4FromNumber (int (tokenNumber t))"
  using assms(2) unfolding ipToken_def
proof (elim disjE exE conjE)
  fix ds assume "t = jstr ''0x'' @ ds" "\<forall>c \<in> set ds. lowerHexDigit c" "1 \<le> length ds" "length ds \<le> 8"
  then show ?thesis
    using parseIpToken_hex [OF assms(1), of ds] by (simp add: tokenNumber_def jsStartsWith_iff)
next
  assume t: "\<forall>c \<in> set t. isDigit c" "8 \<le> length t" "length t \<le> 10"
  have "\<not> jsStartsWith t (jstr ''0x'')"
    using t(1) by (cases t; cases "tl t") (auto simp: jstr_def unit_of_char_def isDigit_def)
  then show ?thesis using parseIpToken_decimal [OF assms(1) t] by (simp add: tokenNumber_def)
qed

lemma parseIpToken_dotted:
  assumes "asciiFold h" "ipToken t" "tokenNumber t = ipv4Number a b c d"
    and "a < 256" "b < 256" "c < 256" "d < 256"
  shows "parseIpToken h t = Some (dottedQuad a b c d)"
  using parseIpToken_token [OF assms(1,2)] ipv4FromNumber_dotted [OF assms(4-7)] assms(3) by simp

lemma dotted_patterns:
  "dottedQuad 127 0 0 1 = jstr ''127.0.0.1''" "dottedQuad 169 254 169 254 = jstr ''169.254.169.254''"
  by code_simp+

lemma network_pattern:
  assumes "asciiFold h" "p \<in> {jstr ''127.0.0.1'', jstr ''169.254.169.254''}"
  shows "normalizedPattern h p = p"
proof -
  have "\<forall>c \<in> set p. lowerText c"
    using assms(2) by (auto simp: jstr_def unit_of_char_def lowerText_def isJsSpace_def)
  then show ?thesis using assms(1) by (simp add: normalizedPattern_def normalize_lowerText)
qed

section \<open>Properties\<close>

text \<open>
  Encoded addresses are decoded. A hexadecimal (\<open>0x..\<close>) or decimal spelling of the IPv4 number
  \<open>a.b.c.d\<close> is rewritten to its dotted form, on a host whose Unicode functions are the identity on
  lower-case ASCII.
\<close>

theorem parseIpToken_decodes:
  assumes "asciiFold h" "ipToken t" "tokenNumber t = ipv4Number a b c d"
    and "a < 256" "b < 256" "c < 256" "d < 256"
  shows "parseIpToken h t = Some (dottedQuad a b c d)"
  using assms by (rule parseIpToken_dotted)

lemma asciiFold_testHost: "asciiFold testHost"
  by (simp add: asciiFold_def)

lemma loopback_tokens: "ipToken (jstr ''0x7f000001'')" "tokenNumber (jstr ''0x7f000001'') = ipv4Number 127 0 0 1"
proof -
  have "jstr ''0x7f000001'' = jstr ''0x'' @ jstr ''7f000001''" by (simp flip: jstr_append)
  moreover have "\<forall>c \<in> set (jstr ''7f000001''). lowerHexDigit c"
    by (simp add: jstr_def unit_of_char_def lowerHexDigit_def isDigit_def)
  ultimately show "ipToken (jstr ''0x7f000001'')" by (auto simp: ipToken_def)
  show "tokenNumber (jstr ''0x7f000001'') = ipv4Number 127 0 0 1"
    by (simp add: tokenNumber_def ipv4Number_def hexValue_def hexDigitValue_def isDigit_def jstr_def unit_of_char_def)
qed

theorem parseIpToken_decodes_witness:
  "parseIpToken testHost (jstr ''0x7f000001'') = Some (dottedQuad 127 0 0 1)"
  by (rule parseIpToken_decodes [OF asciiFold_testHost loopback_tokens]) simp_all

lemma address_refused:
  assumes "asciiFold h" "validInput h ci" "ps \<in> set (intentParameterObjects ci)"
    and "normalizeSuspiciousText h (canonicalText (JObj ps)) = pre @ t @ post" "standsAlone pre post"
    and "ipToken t" "tokenNumber t \<in> {ipv4Number 127 0 0 1, ipv4Number 169 254 169 254}"
  shows "\<exists>trace. runStrictOrbit h ci = Some trace \<and> ot_decision trace = Refuse"
proof -
  obtain p where p: "p \<in> {jstr ''127.0.0.1'', jstr ''169.254.169.254''}" "parseIpToken h t = Some p"
    using assms(7) parseIpToken_dotted [OF assms(1,6)] dotted_patterns by force
  have "p \<in> set forbiddenPatterns"
    using p(1) by (auto simp: forbiddenPatterns_def forbiddenNetworkPatterns_def)
  then have "unsafeParameters h ps"
    using paramText_alone [OF assms(6,5,4) p(2)] network_pattern [OF assms(1) p(1)]
    unfolding unsafeParameters_def list_ex_iff by (intro bexI [of _ p]) simp_all
  then have "list_ex (unsafeParameters h) (intentParameterObjects ci)" using assms(3) by (auto simp: list_ex_iff)
  then have "fst (orbitVerdict h ci) = Refuse" by (simp add: orbitVerdict_def Let_def)
  then show ?thesis using runStrictOrbit_valid [OF assms(2)] by (simp add: orbitTrace_def)
qed

text \<open>A value inside another at any depth; its text is inside the other text, between brackets, commas or the colon of a member.\<close>

inductive occursIn :: "json \<Rightarrow> json \<Rightarrow> bool" for v where
  WithinSelf: "occursIn v v"
| WithinItem: "w \<in> set vs \<Longrightarrow> occursIn v w \<Longrightarrow> occursIn v (JArr vs)"
| WithinMember: "(k, w) \<in> set ps \<Longrightarrow> occursIn v w \<Longrightarrow> occursIn v (JObj ps)"

lemma standsAlone_extend: "standsAlone q r \<Longrightarrow> r \<noteq> [] \<Longrightarrow> standsAlone (x @ q) (r @ y)"
  unfolding standsAlone_def by (metis append_assoc append_is_Nil_conv hd_append2)

lemma joinWith_member:
  fixes t :: jsstring
  shows "t \<in> set ts \<Longrightarrow> \<exists>a b. joinWith [44] ts = a @ t @ b \<and> (a = [] \<or> last a = 44) \<and> (b = [] \<or> hd b = 44)"
proof (induction "[44 :: code_unit]" ts rule: joinWith.induct)
  case (2 u)
  then show ?case by (intro exI [of _ "[]"]) simp
next
  case (3 u w ts)
  show ?case
  proof (cases "t = u")
    case True
    then show ?thesis by (intro exI [of _ "[]"] exI [of _ "[44] @ joinWith [44] (w # ts)"]) simp
  next
    case False
    with 3 obtain a b where "joinWith [44] (w # ts) = a @ t @ b" "a = [] \<or> last a = 44" "b = [] \<or> hd b = 44" by auto
    then show ?thesis by (intro exI [of _ "u @ [44] @ a"] exI [of _ b]) auto
  qed
qed simp

lemma bracketed:
  fixes t :: jsstring
  assumes "t \<in> set ts" "c \<in> {91, 123}" "d \<in> {93, 125}"
  shows "\<exists>q r. [c] @ joinWith [44] ts @ [d] = q @ t @ r \<and> last q \<in> {c, 44} \<and> q \<noteq> [] \<and> r \<noteq> [] \<and> hd r \<in> {44, d}"
proof -
  obtain a b where ab: "joinWith [44] ts = a @ t @ b" "a = [] \<or> last a = 44" "b = [] \<or> hd b = 44"
    using joinWith_member [OF assms(1)] by blast
  then show ?thesis by (intro exI [of _ "c # a"] exI [of _ "b @ [d]"]) (auto simp: hd_append)
qed

lemma boundary_units:
  "c \<in> {91, 123, 44, 34} \<Longrightarrow> \<not> tokenUnit c" "c \<in> {93, 125, 44, 34} \<Longrightarrow> \<not> lowerAlnum c"
  by (auto simp: tokenUnit_def lowerAlnum_def isDigit_def)

lemma standsAlone_units: "q \<noteq> [] \<Longrightarrow> \<not> tokenUnit (last q) \<Longrightarrow> r \<noteq> [] \<Longrightarrow> \<not> lowerAlnum (hd r) \<Longrightarrow> standsAlone q r"
  unfolding standsAlone_def by (metis append_butlast_last_id)

lemma occursIn_wf: "occursIn v w \<Longrightarrow> wfJson w \<Longrightarrow> wfJson v"
  by (induction rule: occursIn.induct) auto

lemma occursIn_text:
  assumes "occursIn v w" "wfJson w"
  shows "v = w \<or> (\<exists>q r. canonicalText w = q @ canonicalText v @ r \<and> standsAlone q r \<and> r \<noteq> [])"
  using assms
proof (induction rule: occursIn.induct)
  case (WithinItem w vs)
  have wf: "wfJson w" using WithinItem.prems WithinItem.hyps(1) by simp
  obtain q r where qr: "canonicalText (JArr vs) = q @ canonicalText w @ r" "standsAlone q r" "r \<noteq> []"
    using bracketed [of "canonicalText w" "map canonicalText vs" 91 93] WithinItem.hyps(1)
    unfolding canonicalText_JArr [OF WithinItem.prems] by (force intro!: standsAlone_units boundary_units)
  from WithinItem.IH [OF wf] show ?case
  proof (elim disjE exE conjE)
    fix q' r' assume "canonicalText w = q' @ canonicalText v @ r'" "standsAlone q' r'" "r' \<noteq> []"
    with qr show ?thesis by (intro disjI2 exI [of _ "q @ q'"] exI [of _ "r' @ r"]) (simp add: standsAlone_extend)
  qed (use qr in blast)
next
  case (WithinMember k w ps)
  have wf: "wfJson w" using WithinMember.prems WithinMember.hyps(1) by auto
  obtain q r where qr: "canonicalText (JObj ps) = q @ memberText (k, canonicalText w) @ r" "r \<noteq> []" "hd r \<in> {44, 125}"
    using bracketed [of "memberText (k, canonicalText w)" "map (\<lambda>(k, v). memberText (k, canonicalText v)) (sort_key fst ps)" 123 125]
      WithinMember.hyps(1)
    unfolding canonicalText_JObj [OF WithinMember.prems] by force
  obtain m where "memberText (k, canonicalText w) = m @ [34, 58] @ canonicalText w"
    by (auto simp: memberText_def jsonStringifyString_def)
  with qr have whole: "canonicalText (JObj ps) = (q @ m @ [34, 58]) @ canonicalText w @ r" by simp
  have alone: "standsAlone (q @ m @ [34, 58]) r" using qr(2,3) boundary_units(2) by (auto simp: standsAlone_def)
  from WithinMember.IH [OF wf] show ?case
  proof (elim disjE exE conjE)
    fix q' r' assume inner: "canonicalText w = q' @ canonicalText v @ r'" "standsAlone q' r'" "r' \<noteq> []"
    with whole have "canonicalText (JObj ps) = ((q @ m @ [34, 58]) @ q') @ canonicalText v @ r' @ r" by simp
    with standsAlone_extend [OF inner(2,3)] inner(3) show ?thesis by blast
  qed (use whole alone qr(2) in blast)
qed simp

text \<open>So a parameter object in plain lower case that has such a number among its values, as a string or as a number, is refused.\<close>

lemma encoded_value_refused:
  assumes "asciiFold h" "validInput h ci" "ps \<in> set (intentParameterObjects ci)"
    and "\<forall>c \<in> set (canonicalText (JObj ps)). lowerText c" "occursIn v (JObj ps)"
    and "v = JStr t \<or> v = JNum (IntNum n) \<and> t = showInt n"
    and "ipToken t" "tokenNumber t \<in> {ipv4Number 127 0 0 1, ipv4Number 169 254 169 254}"
  shows "\<exists>trace. runStrictOrbit h ci = Some trace \<and> ot_decision trace = Refuse"
proof -
  have wf: "wfJson (JObj ps)" using validInput_wfParameters [OF assms(2)] assms(3) by (simp add: wfParameters_def)
  obtain q r where qr: "canonicalText (JObj ps) = q @ canonicalText v @ r" "standsAlone q r" "r \<noteq> []"
    using occursIn_text [OF assms(5) wf] assms(6) by blast
  obtain pre post where alone: "canonicalText (JObj ps) = pre @ t @ post" "standsAlone pre post"
  proof (cases "v = JStr t")
    case True
    then have "canonicalText v = 34 # t @ [34]"
      using quoteUnits_lower [OF ipToken_alnum [OF assms(7)]] by (simp add: canonicalText_def jsonStringifyString_def)
    with qr show thesis
      by (intro that [of "q @ [34]" "34 # r"]) (simp_all add: standsAlone_units boundary_units)
  next
    case False
    with assms(6) have "v = JNum (IntNum n)" "t = showInt n" by simp_all
    then have "canonicalText v = t"
      using occursIn_wf [OF assms(5) wf] by (simp add: canonicalText_def serializeNumber_def)
    with qr show thesis by (intro that [of q r]) simp_all
  qed
  from address_refused [OF assms(1-3) _ alone(2) assms(7,8)] normalize_lowerText [OF assms(1,4)] alone(1) show ?thesis by simp
qed

text \<open>
  C27: an encoded internal address is refused. When, in the normalized canonical text of any parameter object of a validated
  request (its own, or one of a requested or approved tool call), the number of the loopback or the metadata address stands alone in
  hexadecimal (\<open>0x..\<close>) or in 8 to 10 decimal digits, as a string, a number or the part of a text between other characters
  than letters, digits, dots and colons, the request never passes the intent layer.
\<close>

theorem encoded_internal_address_refused:
  assumes "asciiFold h" "validInput h ci" "ps \<in> set (intentParameterObjects ci)"
    and "normalizeSuspiciousText h (canonicalText (JObj ps)) = pre @ t @ post" "standsAlone pre post"
    and "ipToken t" "tokenNumber t \<in> {ipv4Number 127 0 0 1, ipv4Number 169 254 169 254}"
  shows "\<exists>trace. runStrictOrbit h ci = Some trace \<and> ot_decision trace = Refuse"
  by (rule address_refused [OF assms])

text \<open>A requested call whose parameters hold a list of two addresses, the second an encoded loopback.\<close>

definition loopbackCall :: tool_call where
  "loopbackCall = \<lparr>tc_tool = jstr ''probe'', tc_priority = 1,
     tc_parameters = Some [(jstr ''targets'', JArr [JStr (jstr ''http://a.b/''), JStr (jstr ''http://0x7f000001/'')])]\<rparr>"

definition loopbackInput :: canonical_input where
  "loopbackInput =
     makeBaseInput\<lparr>ci_execution_request := (ci_execution_request makeBaseInput)\<lparr>er_tool_calls := [loopbackCall]\<rparr>\<rparr>"

lemma validInput_loopback: "validInput h loopbackInput"
  by (simp add: validInput_def validNumbers_def validRules_def validCount_def isSafeInteger_def maxSafe_def
      validStrings_def validTrust_def pinnedPolicyVersion_def validToolCalls_def validToolCall_def wfToolCall_def
      validParameters_def validSignature_def loopbackInput_def loopbackCall_def makeBaseInput_def baseCalls_def
      reservedUnsafeFields_def Let_def)

theorem encoded_internal_address_refused_witness:
  "\<exists>trace. runStrictOrbit testHost loopbackInput = Some trace \<and> ot_decision trace = Refuse"
proof (rule encoded_internal_address_refused [OF asciiFold_testHost validInput_loopback])
  let ?ps = "[(jstr ''targets'', JArr [JStr (jstr ''http://a.b/''), JStr (jstr ''http://0x7f000001/'')])]"
  let ?pre = "[123, 34] @ jstr ''targets'' @ [34, 58, 91, 34] @ jstr ''http://a.b/'' @ [34, 44, 34] @ jstr ''http://''"
  show "?ps \<in> set (intentParameterObjects loopbackInput)"
    by (simp add: intentParameterObjects_def loopbackInput_def loopbackCall_def List.map_filter_simps)
  have "canonicalText (JObj ?ps) = ?pre @ jstr ''0x7f000001'' @ [47, 34, 93, 125]" by code_simp
  moreover have "normalizeSuspiciousText testHost (?pre @ jstr ''0x7f000001'' @ [47, 34, 93, 125]) = ?pre @ jstr ''0x7f000001'' @ [47, 34, 93, 125]"
    by (rule normalize_lowerText [OF asciiFold_testHost])
      (simp add: jstr_def unit_of_char_def lowerText_def isJsSpace_def)
  ultimately show "normalizeSuspiciousText testHost (canonicalText (JObj ?ps)) = ?pre @ jstr ''0x7f000001'' @ [47, 34, 93, 125]"
    by simp
  show "standsAlone ?pre [47, 34, 93, 125]"
    unfolding standsAlone_def
    by (intro conjI disjI2 exI [of _ "butlast ?pre"] exI [of _ 47] disjI1)
      (simp_all add: jstr_def unit_of_char_def tokenUnit_def lowerAlnum_def isDigit_def)
  show "ipToken (jstr ''0x7f000001'')" by (rule loopback_tokens)
  show "tokenNumber (jstr ''0x7f000001'') \<in> {ipv4Number 127 0 0 1, ipv4Number 169 254 169 254}"
    by (simp add: loopback_tokens)
qed

text \<open>
  C28: the intent layer always answers on a validated input, and allows exactly the armed version-2.0
  intents without a second action, without a forbidden pattern in any parameter object, whose approved tool calls
  are the requested ones as values.
\<close>

theorem runStrictOrbit_allows_iff:
  assumes "validInput h ci"
  shows "\<exists>trace. runStrictOrbit h ci = Some trace \<and>
    (ot_decision trace = Allow \<longleftrightarrow>
       oi_orbit_version (er_orbit_intent (ci_execution_request ci)) = jstr ''2.0'' \<and>
       oi_lifecycle_state (er_orbit_intent (ci_execution_request ci)) = jstr ''ARMED'' \<and>
       \<not> hasMultipleActions h ci \<and>
       filter (unsafeParameters h) (intentParameterObjects ci) = [] \<and>
       map normCall (er_tool_calls (ci_execution_request ci)) =
         map normCall (oi_payload_tool_calls (er_orbit_intent (ci_execution_request ci)))) \<and>
    (ot_decision trace = Allow \<longleftrightarrow> ot_reason_code trace = OkOrbit)"
  using runStrictOrbit_valid [OF assms]
  by (auto simp: orbitVerdict_def Let_def orbitTrace_def filter_empty_conv list_ex_iff)

lemma intentParameterObjects_base: "intentParameterObjects makeBaseInput = []"
  by (simp add: intentParameterObjects_def makeBaseInput_def baseCalls_def List.map_filter_simps)

lemma base_intent:
  "oi_orbit_version (er_orbit_intent (ci_execution_request makeBaseInput)) = jstr ''2.0''"
  "oi_lifecycle_state (er_orbit_intent (ci_execution_request makeBaseInput)) = jstr ''ARMED''"
  "oi_payload_tool_calls (er_orbit_intent (ci_execution_request makeBaseInput)) = baseCalls"
  "er_tool_calls (ci_execution_request makeBaseInput) = baseCalls"
  by (simp_all add: makeBaseInput_def)

lemma hasMultipleActions_base: "\<not> hasMultipleActions testHost makeBaseInput"
proof -
  have "\<not> list_ex (\<lambda>c. list_ex (\<lambda>p. jsIncludes (hs_lower testHost (tc_tool c)) p) actionTextPatterns) baseCalls"
    by (simp add: baseCalls_def actionTextPatterns_def jstr_def unit_of_char_def)
  then show ?thesis
    by (simp add: hasMultipleActions_def intentParameterObjects_base) (simp add: makeBaseInput_def)
qed

lemma orbitVerdict_base: "orbitVerdict testHost makeBaseInput = (Allow, OkOrbit)"
  using hasMultipleActions_base
  by (simp add: orbitVerdict_def intentParameterObjects_base Let_def) (simp add: makeBaseInput_def)

theorem runStrictOrbit_allows_iff_witness:
  "\<exists>trace. runStrictOrbit testHost makeBaseInput = Some trace \<and> ot_decision trace = Allow"
proof -
  from runStrictOrbit_allows_iff [OF validInput_base [of testHost]] hasMultipleActions_base
  show ?thesis
    by (auto simp: intentParameterObjects_base base_intent)
qed

lemma normJson_JObj_cong:
  "map (\<lambda>(k, v). (k, normJson v)) ps = map (\<lambda>(k, v). (k, normJson v)) qs \<Longrightarrow> normJson (JObj ps) = normJson (JObj qs)"
  by (simp only: normJson.simps)

lemma wfToolCall_normCall: "wfToolCall c \<Longrightarrow> wfToolCall (normCall c)"
  using wfJson_normJson [of "JObj ps" for ps]
  by (auto simp: wfToolCall_def normJson_JObj simp del: wfJson.simps normJson.simps split: option.splits)

lemma toolCallJson_normCall: "wfToolCall c \<Longrightarrow> normJson (toolCallJson (normCall c)) = normJson (toolCallJson c)"
  by (subst toolCallJson_inject) (simp_all add: wfToolCall_normCall normCall_idem)

lemma validInput_normInput: "validInput h ci \<Longrightarrow> validInput h (normInput ci)"
  using preflight_of_valid [of h ci] by (auto elim!: runStrictPreflight_Inr intro: preflightBuild_valid)

lemma orbitHash_norm:
  assumes "validInput h ci"
  shows "orbitHash h (normInput ci) = orbitHash h ci"
proof -
  let ?oi = "er_orbit_intent (ci_execution_request ci)" and ?oi' = "er_orbit_intent (ci_execution_request (normInput ci))"
  note calls = validInput_calls [OF assms]
  have "map normJson (map toolCallJson (map normCall (oi_payload_tool_calls ?oi))) =
      map normJson (map toolCallJson (oi_payload_tool_calls ?oi))"
    using calls(2) by (simp add: toolCallJson_normCall)
  then have tools: "normJson (toolCallsJson (oi_payload_tool_calls ?oi')) = normJson (toolCallsJson (oi_payload_tool_calls ?oi))"
    by (simp only: toolCallsJson_def normJson.simps normInput_simps)
  have "normJson (JObj [(jstr ''tool_calls'', toolCallsJson (oi_payload_tool_calls ?oi'))]) =
      normJson (JObj [(jstr ''tool_calls'', toolCallsJson (oi_payload_tool_calls ?oi))])"
    by (rule normJson_JObj_cong) (simp only: list.map prod.case tools)
  then have "normJson (orbitIntentJson ?oi') = normJson (orbitIntentJson ?oi)"
    unfolding orbitIntentJson_def normInput_simps
    by (intro normJson_JObj_cong) (simp only: list.map prod.case)
  moreover have "wfJson (orbitIntentJson ?oi)" using calls(2) by (rule wfJson_orbitIntent)
  moreover have "wfJson (orbitIntentJson ?oi')"
    using validInput_calls(2) [OF validInput_normInput [OF assms]] by (rule wfJson_orbitIntent)
  ultimately have "canonicalText (orbitIntentJson ?oi') = canonicalText (orbitIntentJson ?oi)"
    by (simp only: canonicalText_eq_iff)
  then show ?thesis by (simp only: orbitHash_def)
qed

text \<open>
  The answer of the intent layer, its validation hash included, does not change when the parameter
  objects are re-read from their canonical text.
\<close>

theorem runStrictOrbit_stable:
  assumes "validInput h ci"
  shows "runStrictOrbit h (normInput ci) = runStrictOrbit h ci"
  using runStrictOrbit_valid [OF assms] runStrictOrbit_valid [OF validInput_normInput [OF assms]]
    orbitVerdict_norm [OF assms] orbitHash_norm [OF assms] by simp

definition reorderedInput :: canonical_input where
  "reorderedInput =
     makeBaseInput\<lparr>ci_execution_request := (ci_execution_request makeBaseInput)
       \<lparr>er_parameters := Some [(jstr ''size'', JNum (IntNum 2)), (jstr ''note'', JStr (jstr ''ok''))]\<rparr>\<rparr>"

theorem runStrictOrbit_stable_witness:
  "runStrictOrbit testHost (normInput reorderedInput) = runStrictOrbit testHost reorderedInput \<and>
   normInput reorderedInput \<noteq> reorderedInput"
proof
  have "validInput testHost reorderedInput"
    using validInput_base [of testHost]
    by (simp add: reorderedInput_def validInput_def validNumbers_def validStrings_def validParameters_def
        reservedUnsafeFields_def isSafeInteger_def maxSafe_def Let_def)
  then show "runStrictOrbit testHost (normInput reorderedInput) = runStrictOrbit testHost reorderedInput"
    by (rule runStrictOrbit_stable)
  have "normObject [(jstr ''size'', JNum (IntNum 2)), (jstr ''note'', JStr (jstr ''ok''))] \<noteq>
      [(jstr ''size'', JNum (IntNum 2)), (jstr ''note'', JStr (jstr ''ok''))]"
    by code_simp
  then have "er_parameters (ci_execution_request (normInput reorderedInput)) \<noteq>
      er_parameters (ci_execution_request reorderedInput)"
    by (simp add: reorderedInput_def)
  then show "normInput reorderedInput \<noteq> reorderedInput" by metis
qed

end
