(* ===== verification/PipelineFacts.thy ===== *)
theory PipelineFacts
  imports Pipeline RamonaProps OrbitProps
begin

text \<open>
  The pipeline on an accepted request: what each layer contributes, when a receipt is built and what it says,
  and that the parsed form of the parameters does not matter.
\<close>

section \<open>Traces of an accepted request\<close>

lemma wfArm_runStrictArm:
  assumes "validNumbers ci"
  shows "wfArm (snd (runStrictArm st ci orbit rh))"
proof (cases "projectedCost ci")
  case None
  then show ?thesis by (simp add: wfArm_def runStrictArm_cost isSafeInteger_def maxSafe_def)
next
  case (Some p)
  define m where "m = pr_max_total_cost_cents (pd_rules (ci_policy_document ci))"
  have p: "1 \<le> p" "isSafeInteger p" using Some projectedCost_exact [OF assms] by (auto split: if_splits)
  have m: "1 \<le> m" using assms by (simp add: validNumbers_def validRules_def validCount_def m_def)
  have safe: "isSafeInteger x" if "0 \<le> x" "x \<le> p" for x
    using that p by (auto simp: isSafeInteger_def)
  have "isSafeInteger (p - min p m)" using p m by (intro safe) (auto simp: min_def)
  then have "jsub p (min p m) = p - min p m" by (simp add: jsub_def fl_safe)
  then show ?thesis
    using p m by (auto simp: wfArm_def runStrictArm_cost Some m_def [symmetric] intro!: safe)
qed

definition envOrbit :: "host \<Rightarrow> parsed_envelope \<Rightarrow> orbit_trace" where
  "envOrbit h env = (let v = orbitVerdict h (pe_parsed_input env)
     in orbitTrace (fst v) (snd v) (orbitHash h (pe_parsed_input env)))"

definition envArm :: "host \<Rightarrow> runtime_state \<Rightarrow> parsed_envelope \<Rightarrow> runtime_state \<times> arm_trace" where
  "envArm h st env = runStrictArm st (pe_parsed_input env) (envOrbit h env) (pe_request_hash env)"

definition envRamona :: "host \<Rightarrow> parsed_envelope \<Rightarrow> arm_trace \<Rightarrow> ramona_trace" where
  "envRamona h env arm = (let v = ramonaVerdict (pe_parsed_input env) arm
     in ramonaTrace (fst v) (snd v)
          (sha256Text h (canonicalText (runtimeObservationJson
             (er_runtime_observation (ci_execution_request (pe_parsed_input env)))))))"

definition envInput :: "host \<Rightarrow> parsed_envelope \<Rightarrow> arm_trace \<Rightarrow> receipt_input" where
  "envInput h env arm = pipelineInput env (envOrbit h env) arm (envRamona h env arm)"

lemma preflight_valid: "runStrictPreflight h raw = Some (Inr env) \<Longrightarrow> validInput h (pe_parsed_input env)"
  by (rule runStrictPreflight_Inr) (auto intro: preflightBuild_valid)

lemma env_layers:
  assumes "validInput h (pe_parsed_input env)"
  shows "runStrictOrbit h (pe_parsed_input env) = Some (envOrbit h env)"
    and "runStrictRamona h (pe_parsed_input env) arm = Some (envRamona h env arm)"
    and "wfArm (snd (envArm h st env))"
  using assms
  by (simp_all add: runStrictOrbit_valid envOrbit_def runStrictRamona_valid envRamona_def envArm_def Let_def
      wfArm_runStrictArm validInput_def)

section \<open>What a built receipt says\<close>

lemma buildReceipt_fields:
  assumes "wfArm (ri_arm i)" "buildReceipt h i = Some r"
  shows "sr_payload r = receiptPayload i (decisionHash h i)"
    and "do_decision (rp_decision_output (sr_payload r)) = receiptDecision i"
    and "do_reason_code (rp_decision_output (sr_payload r)) = receiptReason i"
    and "do_decision_hash (rp_decision_output (sr_payload r)) = decisionHash h i"
    and "rp_arm (sr_payload r) = ri_arm i"
    and "rp_canonical_request (sr_payload r) = ri_canonical_request i"
  using assms by (auto simp: buildReceipt_wf bind_eq_Some_conv receiptPayload_def)

lemma pipelineInput_fields [simp]:
  "ri_canonical_request (pipelineInput env orbit arm ramona) = pe_canonical_input env"
  "ri_orbit (pipelineInput env orbit arm ramona) = orbit"
  "ri_arm (pipelineInput env orbit arm ramona) = arm"
  "ri_ramona (pipelineInput env orbit arm ramona) = ramona"
  by (simp_all add: pipelineInput_def)

lemma receiptDecision_allow:
  "receiptDecision (envInput h env arm) = Allow \<longleftrightarrow>
     ot_decision (envOrbit h env) = Allow \<and> at_decision arm = Allow \<and>
     withinObservation (pe_parsed_input env) (at_projected_total_cost_cents arm)"
  by (auto simp: receiptDecision_def envInput_def envRamona_def ramonaTrace_def ramonaVerdict_allow Let_def)

lemma commitReceipt_env:
  assumes "wfArm arm" "buildReceipt h (envInput h env arm) = Some r"
  shows "commitReceipt st env arm r =
    (if receiptDecision (envInput h env arm) = Allow
     then commitArmAllow st (at_execution_id arm) (pe_request_hash env) (decisionHash h (envInput h env arm)) else st)"
  using buildReceipt_fields [of "envInput h env arm" h r] assms by (simp add: commitReceipt_def envInput_def)

lemma pipeline_env:
  assumes "runStrictPreflight h raw = Some (Inr env)"
  shows "executeDeterministicPipeline h st raw =
    (case buildReceipt h (envInput h env (snd (envArm h st env))) of
       None \<Rightarrow> (fst (envArm h st env), None)
     | Some r \<Rightarrow> (commitReceipt (fst (envArm h st env)) env (snd (envArm h st env)) r,
         Some (Inr \<lparr>xr_receipt = r, xr_receipt_bytes = canonicalText (JObj (receiptFields r))\<rparr>)))"
proof -
  note valid = preflight_valid [OF assms]
  note layers = env_layers [OF valid]
  have "wfJson (JObj (receiptFields r))" if "buildReceipt h (envInput h env (snd (envArm h st env))) = Some r" for r
    using buildReceipt_fields(5) [OF _ that] layers(3) by (intro wfJson_receipt) (simp add: envInput_def)
  then show ?thesis
    by (auto simp: executeDeterministicPipeline_def assms layers(1,2) case_prod_beta envArm_def [symmetric]
        envInput_def [symmetric] canonicalizeJson_text split: option.splits
        simp del: canonicalizeJson.simps wfJson.simps)
qed

text \<open>The host can sign: the private key file is there and the public key is one.\<close>

definition canSign :: "host \<Rightarrow> bool" where
  "canSign h \<longleftrightarrow> (\<forall>m. hs_receiptSign h m \<noteq> None) \<and> hs_rawKey h (hs_publicPem h) \<noteq> None"

lemma canSign_builds: "canSign h \<Longrightarrow> wfArm (ri_arm i) \<Longrightarrow> \<exists>r. buildReceipt h i = Some r"
proof -
  assume h: "canSign h" and wf: "wfArm (ri_arm i)"
  then obtain sig where sig: "hs_receiptSign h
      (utf8Encode (canonicalText (JObj (payloadFields (receiptPayload i (decisionHash h i)))))) = Some sig"
    unfolding canSign_def by (metis not_None_eq)
  from h obtain key where "hs_rawKey h (hs_publicPem h) = Some key" by (auto simp: canSign_def)
  then show ?thesis by (simp add: buildReceipt_wf [OF wf] sig keyFingerprint_def)
qed

section \<open>Normalized requests\<close>

lemma runStrictArm_norm: "runStrictArm st (normInput ci) orbit rh = runStrictArm st ci orbit rh"
proof -
  have "projectedCost (normInput ci) = projectedCost ci"
    by (simp only: projectedCost_def normInput_simps)
  then show ?thesis by (simp only: runStrictArm_def armTrace_def normInput_simps Let_def)
qed

lemma ramonaVerdict_norm: "ramonaVerdict (normInput ci) arm = ramonaVerdict ci arm"
  by (simp only: ramonaVerdict_def normInput_simps)

definition normEnv :: "jsstring \<Rightarrow> parsed_envelope \<Rightarrow> parsed_envelope" where
  "normEnv raw env = env\<lparr>pe_raw_input := raw, pe_parsed_input := normInput (pe_parsed_input env)\<rparr>"

lemma env_norm:
  assumes "validInput h (pe_parsed_input env)"
  shows "envOrbit h (normEnv raw env) = envOrbit h env"
    and "envArm h st (normEnv raw env) = envArm h st env"
    and "envInput h (normEnv raw env) arm = envInput h env arm"
    and "commitReceipt st (normEnv raw env) arm r = commitReceipt st env arm r"
proof -
  have orbit: "envOrbit h (normEnv raw env) = envOrbit h env"
    using orbitVerdict_norm [OF assms] orbitHash_norm [OF assms] by (simp add: envOrbit_def normEnv_def)
  show "envOrbit h (normEnv raw env) = envOrbit h env" by (rule orbit)
  show "envArm h st (normEnv raw env) = envArm h st env"
    unfolding envArm_def orbit by (simp add: normEnv_def runStrictArm_norm)
  show "envInput h (normEnv raw env) arm = envInput h env arm"
    unfolding envInput_def envRamona_def orbit
    by (simp add: normEnv_def ramonaVerdict_norm pipelineInput_def preflightTrace_def)
  show "commitReceipt st (normEnv raw env) arm r = commitReceipt st env arm r"
    by (simp add: commitReceipt_def normEnv_def)
qed

end
