(* ===== verification/PipelineProps.thy ===== *)
theory PipelineProps
  imports PipelineFacts
begin

text \<open>
  The properties of the whole pipeline: it answers, it allows exactly when every layer does, an execution id is
  allowed once over any history and any race, and a receipt replays to itself.
\<close>

section \<open>Histories\<close>

fun runPipeline :: "host \<Rightarrow> runtime_state \<Rightarrow> jsstring list \<Rightarrow> runtime_state \<times> (typed_failure + execution_result) list" where
  "runPipeline h st [] = (st, [])"
| "runPipeline h st (raw # raws) =
     (let (st1, out) = executeDeterministicPipeline h st raw; (st2, outs) = runPipeline h st1 raws
      in (st2, case out of None \<Rightarrow> outs | Some x \<Rightarrow> x # outs))"

fun allowedId :: "typed_failure + execution_result \<Rightarrow> jsstring option" where
  "allowedId (Inl f) = None"
| "allowedId (Inr x) =
     (if do_decision (rp_decision_output (sr_payload (xr_receipt x))) = Allow
      then Some (do_execution_id (rp_decision_output (sr_payload (xr_receipt x)))) else None)"

text \<open>What one run does to the status of an execution id.\<close>

lemma pipeline_unaccepted:
  "\<nexists>env. runStrictPreflight h raw = Some (Inr env) \<Longrightarrow>
     fst (executeDeterministicPipeline h st raw) = st \<and>
     (\<forall>x. snd (executeDeterministicPipeline h st raw) = Some x \<longrightarrow> allowedId x = None)"
  by (cases "runStrictPreflight h raw") (auto simp: executeDeterministicPipeline_def split: sum.splits)

lemma allowed_receipt:
  assumes "wfArm arm" "buildReceipt h (envInput h env arm) = Some r"
  shows "allowedId (Inr \<lparr>xr_receipt = r, xr_receipt_bytes = b\<rparr>) =
    (if receiptDecision (envInput h env arm) = Allow then Some (at_execution_id arm) else None)"
  using buildReceipt_fields [of "envInput h env arm" h r] assms
  by (simp add: envInput_def receiptPayload_def)

lemma envArm_status:
  "authorityStatus (st_authority (fst (envArm h st env))) i =
     (if projectedCost (pe_parsed_input env) \<noteq> None \<and> i = requestedId (pe_parsed_input env) \<and>
         authorityStatus (st_authority st) i = None
      then Some Inflight else authorityStatus (st_authority st) i)"
  by (auto simp: envArm_def runStrictArm_authority authority.begin_status)

lemma envArm_allow_new:
  "at_decision (snd (envArm h st env)) = Allow \<Longrightarrow>
     authorityStatus (st_authority st) (requestedId (pe_parsed_input env)) = None \<and>
     projectedCost (pe_parsed_input env) \<noteq> None"
  by (auto simp: envArm_def runStrictArm_allow authority.begin_answer split: option.splits execution_status.splits)

lemma envArm_id: "at_execution_id (snd (envArm h st env)) = requestedId (pe_parsed_input env)"
  by (simp add: envArm_def runStrictArm_names)

section \<open>Replay of the stored request\<close>

lemma pipeline_replay:
  assumes "runStrictPreflight h raw = Some (Inr env)"
  shows "executeDeterministicPipeline h st (pe_canonical_input env) = executeDeterministicPipeline h st raw"
proof -
  have "runStrictPreflight h (pe_canonical_input env) = Some (Inr (normEnv (pe_canonical_input env) env))"
    using preflight_replay [OF assms] by (simp add: normEnv_def)
  from pipeline_env [OF this] pipeline_env [OF assms] show ?thesis
    by (simp only: env_norm [OF preflight_valid [OF assms]])
qed

lemma pipeline_Inr:
  assumes "executeDeterministicPipeline h st raw = (st', Some (Inr x))"
  obtains env where "runStrictPreflight h raw = Some (Inr env)"
    and "buildReceipt h (envInput h env (snd (envArm h st env))) = Some (xr_receipt x)"
    and "st' = commitReceipt (fst (envArm h st env)) env (snd (envArm h st env)) (xr_receipt x)"
    and "xr_receipt_bytes x = canonicalText (JObj (receiptFields (xr_receipt x)))"
    and "wfArm (snd (envArm h st env))"
proof -
  from assms obtain env where pre: "runStrictPreflight h raw = Some (Inr env)"
    by (auto simp: executeDeterministicPipeline_def split: option.splits sum.splits)
  note wf = env_layers(3) [OF preflight_valid [OF pre], of st]
  from assms have "buildReceipt h (envInput h env (snd (envArm h st env))) = Some (xr_receipt x)"
    "st' = commitReceipt (fst (envArm h st env)) env (snd (envArm h st env)) (xr_receipt x)"
    "xr_receipt_bytes x = canonicalText (JObj (receiptFields (xr_receipt x)))"
    by (auto simp: pipeline_env [OF pre] split: option.splits)
  with pre wf that show ?thesis by blast
qed

lemma receipt_request:
  assumes "executeDeterministicPipeline h st raw = (st', Some (Inr x))"
  shows "executeDeterministicPipeline h st (rp_canonical_request (sr_payload (xr_receipt x))) =
    executeDeterministicPipeline h st raw"
proof -
  from assms obtain env where env: "runStrictPreflight h raw = Some (Inr env)"
    "buildReceipt h (envInput h env (snd (envArm h st env))) = Some (xr_receipt x)"
    "wfArm (snd (envArm h st env))"
    by (rule pipeline_Inr)
  have "rp_canonical_request (sr_payload (xr_receipt x)) = pe_canonical_input env"
    using buildReceipt_fields(6) [OF _ env(2)] env(3) by (simp add: envInput_def)
  then show ?thesis using pipeline_replay [OF env(1)] by simp
qed

section \<open>Interleaved requests\<close>

text \<open>
  Any number of requests in flight: a request is admitted (preflight, intent and release layer), later finished
  (runtime layer, receipt, commit) or abandoned (an exception), in any order.
\<close>

record race_state =
  rc_state :: runtime_state
  rc_pending :: "(parsed_envelope \<times> orbit_trace \<times> arm_trace) list"
  rc_issued :: "signed_receipt list"

definition raceStart :: "runtime_state \<Rightarrow> race_state" where
  "raceStart st = \<lparr>rc_state = st, rc_pending = [], rc_issued = []\<rparr>"

inductive race_step :: "host \<Rightarrow> race_state \<Rightarrow> race_state \<Rightarrow> bool" for h where
  admit: "runStrictPreflight h raw = Some (Inr env) \<Longrightarrow> runStrictOrbit h (pe_parsed_input env) = Some orbit \<Longrightarrow>
    runStrictArm (rc_state s) (pe_parsed_input env) orbit (pe_request_hash env) = (st1, arm) \<Longrightarrow>
    race_step h s (s\<lparr>rc_state := st1, rc_pending := (env, orbit, arm) # rc_pending s\<rparr>)"
| finish: "rc_pending s = xs @ (env, orbit, arm) # ys \<Longrightarrow> runStrictRamona h (pe_parsed_input env) arm = Some ramona \<Longrightarrow>
    buildReceipt h (pipelineInput env orbit arm ramona) = Some r \<Longrightarrow>
    race_step h s (s\<lparr>rc_state := commitReceipt (rc_state s) env arm r, rc_pending := xs @ ys, rc_issued := r # rc_issued s\<rparr>)"
| abandon: "rc_pending s = xs @ p # ys \<Longrightarrow> race_step h s (s\<lparr>rc_pending := xs @ ys\<rparr>)"

inductive race_reachable :: "host \<Rightarrow> runtime_state \<Rightarrow> race_state \<Rightarrow> bool" for h st where
  start: "race_reachable h st (raceStart st)"
| step: "race_reachable h st s \<Longrightarrow> race_step h s t \<Longrightarrow> race_reachable h st t"

definition allowReceipt :: "jsstring \<Rightarrow> signed_receipt \<Rightarrow> bool" where
  "allowReceipt i r \<longleftrightarrow> do_decision (rp_decision_output (sr_payload r)) = Allow \<and>
     do_execution_id (rp_decision_output (sr_payload r)) = i"

definition allowPending :: "jsstring \<Rightarrow> parsed_envelope \<times> orbit_trace \<times> arm_trace \<Rightarrow> bool" where
  "allowPending i = (\<lambda>(env, orbit, arm). at_decision arm = Allow \<and> at_execution_id arm = i)"

text \<open>How many times the id has been, or may still be, allowed.\<close>

definition claims :: "jsstring \<Rightarrow> race_state \<Rightarrow> nat" where
  "claims i s = length (filter (allowReceipt i) (rc_issued s)) + length (filter (allowPending i) (rc_pending s))"

definition raceInv :: "race_state \<Rightarrow> bool" where
  "raceInv s \<longleftrightarrow>
     (\<forall>i. claims i s \<le> 1 \<and> (claims i s = 1 \<longrightarrow> authorityStatus (st_authority (rc_state s)) i \<noteq> None)) \<and>
     (\<forall>(env, orbit, arm) \<in> set (rc_pending s). wfArm arm)"

lemma raceInv_start: "raceInv (raceStart st)"
  by (simp add: raceInv_def raceStart_def claims_def)

lemma commitReceipt_status:
  "authorityStatus (st_authority st) i \<noteq> None \<Longrightarrow> authorityStatus (st_authority (commitReceipt st env arm r)) i \<noteq> None"
  by (simp add: commitReceipt_def commitArmAllow_def authority.commit_status)

lemma receipt_of_pending:
  assumes "wfArm arm" "buildReceipt h (pipelineInput env orbit arm ramona) = Some r"
  shows "allowReceipt i r \<Longrightarrow> allowPending i (env, orbit, arm)"
  using buildReceipt_fields [of "pipelineInput env orbit arm ramona" h r] assms
  by (auto simp: allowReceipt_def allowPending_def receiptPayload_def receiptDecision_def split: if_splits)

lemma race_step_inv: "race_step h s t \<Longrightarrow> raceInv s \<Longrightarrow> raceInv t"
proof (induction rule: race_step.induct)
  case (admit raw env orbit s st1 arm)
  let ?ci = "pe_parsed_input env"
  note valid = preflight_valid [OF admit.hyps(1)]
  have run: "st1 = fst (runStrictArm (rc_state s) ?ci orbit (pe_request_hash env))"
    "arm = snd (runStrictArm (rc_state s) ?ci orbit (pe_request_hash env))"
    using admit.hyps(3) by simp_all
  have wf: "wfArm arm" using valid by (simp add: run wfArm_runStrictArm validInput_def)
  have known: "authorityStatus (st_authority st1) i \<noteq> None" if "authorityStatus (st_authority (rc_state s)) i \<noteq> None" for i
    using that by (auto simp: run runStrictArm_authority authority.begin_status)
  have new: "authorityStatus (st_authority (rc_state s)) i = None \<and> authorityStatus (st_authority st1) i \<noteq> None"
    if "allowPending i (env, orbit, arm)" for i
    using that by (auto simp: allowPending_def run runStrictArm_names runStrictArm_allow runStrictArm_authority
        authority.begin_answer authority.begin_status split: option.splits execution_status.splits)
  have "claims i (s\<lparr>rc_state := st1, rc_pending := (env, orbit, arm) # rc_pending s\<rparr>) =
      claims i s + (if allowPending i (env, orbit, arm) then 1 else 0)" for i
    by (simp add: claims_def)
  with admit.prems known new wf show ?case
    by (auto simp: raceInv_def le_Suc_eq)
next
  case (finish s xs env orbit arm ys ramona r)
  have wf: "wfArm arm" using finish.prems finish.hyps(1) by (auto simp: raceInv_def)
  note implies = receipt_of_pending [OF wf finish.hyps(3)]
  let ?t = "s\<lparr>rc_state := commitReceipt (rc_state s) env arm r, rc_pending := xs @ ys, rc_issued := r # rc_issued s\<rparr>"
  have less: "claims i ?t \<le> claims i s" for i
    using implies [of i] by (auto simp: claims_def finish.hyps(1))
  have "claims i ?t \<le> 1 \<and> (claims i ?t = 1 \<longrightarrow> authorityStatus (st_authority (rc_state ?t)) i \<noteq> None)" for i
  proof -
    have "claims i s \<le> 1" "claims i s = 1 \<Longrightarrow> authorityStatus (st_authority (rc_state s)) i \<noteq> None"
      using finish.prems by (auto simp: raceInv_def)
    with less [of i] commitReceipt_status [of "rc_state s" i env arm r] show ?thesis by auto
  qed
  with finish.prems finish.hyps(1) show ?case by (auto simp: raceInv_def)
next
  case (abandon s xs p ys)
  let ?t = "s\<lparr>rc_pending := xs @ ys\<rparr>"
  have less: "claims i ?t \<le> claims i s" for i by (auto simp: claims_def abandon.hyps)
  have "claims i ?t \<le> 1 \<and> (claims i ?t = 1 \<longrightarrow> authorityStatus (st_authority (rc_state ?t)) i \<noteq> None)" for i
  proof -
    have "claims i s \<le> 1" "claims i s = 1 \<Longrightarrow> authorityStatus (st_authority (rc_state s)) i \<noteq> None"
      using abandon.prems by (auto simp: raceInv_def)
    with less [of i] show ?thesis by auto
  qed
  with abandon.prems abandon.hyps show ?case by (auto simp: raceInv_def)
qed

lemma race_reachable_inv: "race_reachable h st s \<Longrightarrow> raceInv s"
  by (induction rule: race_reachable.induct) (auto intro: raceInv_start race_step_inv)

text \<open>A run of the pipeline is a path of the interleaved system.\<close>

definition receiptsOf :: "(typed_failure + execution_result) option \<Rightarrow> signed_receipt list" where
  "receiptsOf out = (case out of Some (Inr x) \<Rightarrow> [xr_receipt x] | _ \<Rightarrow> [])"

lemma pipeline_path:
  assumes "race_reachable h st0 \<lparr>rc_state = st, rc_pending = [], rc_issued = rs\<rparr>"
  shows "race_reachable h st0 \<lparr>rc_state = fst (executeDeterministicPipeline h st raw), rc_pending = [],
    rc_issued = receiptsOf (snd (executeDeterministicPipeline h st raw)) @ rs\<rparr>"
proof (cases "\<exists>env. runStrictPreflight h raw = Some (Inr env)")
  case False
  then have "fst (executeDeterministicPipeline h st raw) = st" "receiptsOf (snd (executeDeterministicPipeline h st raw)) = []"
    by (cases "runStrictPreflight h raw"; auto simp: executeDeterministicPipeline_def receiptsOf_def split: sum.splits)+
  with assms show ?thesis by simp
next
  case True
  then obtain env where pre: "runStrictPreflight h raw = Some (Inr env)" by blast
  note layers = env_layers [OF preflight_valid [OF pre]]
  let ?arm = "snd (envArm h st env)" and ?st1 = "fst (envArm h st env)"
  have "race_step h \<lparr>rc_state = st, rc_pending = [], rc_issued = rs\<rparr>
      \<lparr>rc_state = ?st1, rc_pending = [(env, envOrbit h env, ?arm)], rc_issued = rs\<rparr>"
    using race_step.admit [OF pre layers(1), of "\<lparr>rc_state = st, rc_pending = [], rc_issued = rs\<rparr>" ?st1 ?arm]
    by (simp add: envArm_def)
  with assms have admitted: "race_reachable h st0
      \<lparr>rc_state = ?st1, rc_pending = [(env, envOrbit h env, ?arm)], rc_issued = rs\<rparr>"
    by (rule race_reachable.step)
  show ?thesis
  proof (cases "buildReceipt h (envInput h env ?arm)")
    case None
    have "race_step h \<lparr>rc_state = ?st1, rc_pending = [(env, envOrbit h env, ?arm)], rc_issued = rs\<rparr>
        \<lparr>rc_state = ?st1, rc_pending = [], rc_issued = rs\<rparr>"
      using race_step.abandon [of "\<lparr>rc_state = ?st1, rc_pending = [(env, envOrbit h env, ?arm)], rc_issued = rs\<rparr>" "[]"]
      by simp
    with admitted have "race_reachable h st0 \<lparr>rc_state = ?st1, rc_pending = [], rc_issued = rs\<rparr>"
      by (rule race_reachable.step)
    with None show ?thesis by (simp add: pipeline_env [OF pre] receiptsOf_def)
  next
    case (Some r)
    have "race_step h \<lparr>rc_state = ?st1, rc_pending = [(env, envOrbit h env, ?arm)], rc_issued = rs\<rparr>
        \<lparr>rc_state = commitReceipt ?st1 env ?arm r, rc_pending = [], rc_issued = r # rs\<rparr>"
      using race_step.finish [of "\<lparr>rc_state = ?st1, rc_pending = [(env, envOrbit h env, ?arm)], rc_issued = rs\<rparr>" "[]"]
        layers(2) Some by (fastforce simp: envInput_def)
    with admitted have "race_reachable h st0
        \<lparr>rc_state = commitReceipt ?st1 env ?arm r, rc_pending = [], rc_issued = r # rs\<rparr>"
      by (rule race_reachable.step)
    with Some show ?thesis by (simp add: pipeline_env [OF pre] receiptsOf_def)
  qed
qed

lemma runPipeline_path:
  "race_reachable h st
     \<lparr>rc_state = fst (runPipeline h st raws), rc_pending = [],
      rc_issued = rev (concat (map (\<lambda>x. receiptsOf (Some x)) (snd (runPipeline h st raws))))\<rparr>"
proof -
  have "race_reachable h st0 \<lparr>rc_state = st, rc_pending = [], rc_issued = rs\<rparr> \<Longrightarrow>
    race_reachable h st0 \<lparr>rc_state = fst (runPipeline h st raws), rc_pending = [],
      rc_issued = rev (concat (map (\<lambda>x. receiptsOf (Some x)) (snd (runPipeline h st raws)))) @ rs\<rparr>" for st0 st rs
  proof (induction raws arbitrary: st rs)
    case (Cons raw raws)
    have one: "rev (receiptsOf out) = receiptsOf out" for out
      by (simp add: receiptsOf_def split: option.splits sum.splits)
    have none: "receiptsOf None = []" by (simp add: receiptsOf_def)
    from Cons.IH [OF pipeline_path [OF Cons.prems, of raw]] show ?case
      by (cases "snd (executeDeterministicPipeline h st raw)") (simp_all add: case_prod_beta Let_def one none)
  qed simp
  from this [of st st "[]"] race_reachable.start [of h st] show ?thesis by (simp add: raceStart_def)
qed

text \<open>The base request of the audits is allowed from the empty stores.\<close>

lemma base_run:
  obtains env r where "runStrictPreflight testHost (requestText makeBaseInput) = Some (Inr env)"
    and "pe_parsed_input env = makeBaseInput" "pe_canonical_input env = requestText makeBaseInput"
    and "buildReceipt testHost (envInput testHost env (snd (envArm testHost initialState env))) = Some r"
    and "receiptDecision (envInput testHost env (snd (envArm testHost initialState env))) = Allow"
    and "allowReceipt (jstr ''exec-001'') r"
proof -
  note run = preflight_of_valid [OF validInput_base [of testHost]]
  obtain env where env: "runStrictPreflight testHost (requestText makeBaseInput) = Some (Inr env)"
    "pe_parsed_input env = makeBaseInput" "pe_canonical_input env = requestText makeBaseInput"
    using run by (simp add: normInput_base)
  let ?arm = "snd (envArm testHost initialState env)"
  note wf = env_layers(3) [OF preflight_valid [OF env(1)], of initialState]
  have orbit: "ot_decision (envOrbit testHost env) = Allow"
    by (simp add: envOrbit_def env(2) orbitVerdict_base orbitTrace_def)
  have cost: "projectedCost makeBaseInput = Some 4000"
    using projectedCost_exact [OF validNumbers_base] by (simp add: exactCost_base isSafeInteger_def maxSafe_def)
  have base: "withinLimits makeBaseInput 4000" "requestedId makeBaseInput = jstr ''exec-001''"
    "er_budget_token (ci_execution_request makeBaseInput) = None"
    by (simp_all add: withinLimits_def makeBaseInput_def)
  have arm: "at_decision ?arm = Allow" "at_projected_total_cost_cents ?arm = 4000" "at_execution_id ?arm = jstr ''exec-001''"
    using orbit
    by (simp_all add: envArm_def env(2) runStrictArm_allow runStrictArm_cost runStrictArm_names cost base
        tokenReserved_def initialState_def beginExecution_def)
  have "withinObservation makeBaseInput 4000" by (simp add: withinObservation_def makeBaseInput_def)
  then have allow: "receiptDecision (envInput testHost env ?arm) = Allow"
    by (simp add: receiptDecision_allow orbit arm env(2))
  obtain r where r: "buildReceipt testHost (envInput testHost env ?arm) = Some r"
    using buildReceipt_testHost [of "envInput testHost env ?arm"] wf by (auto simp: envInput_def)
  have "allowReceipt (jstr ''exec-001'') r"
    using buildReceipt_fields(1) [OF _ r] wf allow arm(3) by (simp add: allowReceipt_def receiptPayload_def envInput_def)
  with that env r allow show ?thesis by blast
qed

section \<open>When a request may run\<close>

text \<open>The conditions of the layers together; the cost is the exact product, not a rounded one.\<close>

definition mayRun :: "host \<Rightarrow> runtime_state \<Rightarrow> canonical_input \<Rightarrow> bool" where
  "mayRun h st ci \<longleftrightarrow>
     (\<exists>orbit. runStrictOrbit h ci = Some orbit \<and> ot_decision orbit = Allow) \<and>
     exactCost ci \<le> maxSafe \<and> withinLimits ci (exactCost ci) \<and> tokenReserved st ci (exactCost ci) \<and>
     withinObservation ci (exactCost ci) \<and> authorityStatus (st_authority st) (requestedId ci) = None"

text \<open>The request needs a manual approval by the rules of the policy and does not carry one.\<close>

definition approvalMissing :: "canonical_input \<Rightarrow> bool" where
  "approvalMissing ci \<longleftrightarrow>
     exactCost ci > pr_require_manual_approval_above_cents (pd_rules (ci_policy_document ci)) \<and>
     rr_hold_state (er_release_request (ci_execution_request ci)) \<noteq> jstr ''APPROVED''"

lemma valid_request_answered:
  assumes "validInput testHost ci" "normInput ci = ci"
  shows "\<exists>env st' x. runStrictPreflight testHost (requestText ci) = Some (Inr env) \<and> pe_parsed_input env = ci \<and>
    executeDeterministicPipeline testHost initialState (requestText ci) = (st', Some (Inr x))"
proof -
  obtain env where env: "runStrictPreflight testHost (requestText ci) = Some (Inr env)" "pe_parsed_input env = ci"
    using preflight_of_valid [OF assms(1)] assms(2) by simp
  have "canSign testHost" by (simp add: canSign_def)
  from canSign_builds [OF this, of "envInput testHost env (snd (envArm testHost initialState env))"]
    env_layers(3) [OF preflight_valid [OF env(1)], of initialState]
  obtain r where "buildReceipt testHost (envInput testHost env (snd (envArm testHost initialState env))) = Some r"
    by (auto simp: envInput_def)
  with env show ?thesis by (simp add: pipeline_env [OF env(1)])
qed

lemma orbit_layer_base: "\<exists>orbit. runStrictOrbit testHost makeBaseInput = Some orbit \<and> ot_decision orbit = Allow"
  using runStrictOrbit_valid [OF validInput_base [of testHost]] by (simp add: orbitVerdict_base orbitTrace_def)

section \<open>Properties\<close>

text \<open>
  C1: no execution id is allowed twice. Whatever requests are in flight, in whatever order they are admitted,
  finished or abandoned, and from whatever state of the stores, at most one receipt that allows a given execution
  id is ever issued.
\<close>

theorem race_allows_once:
  assumes "race_reachable h st s"
  shows "length (filter (allowReceipt i) (rc_issued s)) \<le> 1"
proof -
  have "claims i s \<le> 1" using race_reachable_inv [OF assms] by (auto simp: raceInv_def)
  then show ?thesis by (simp add: claims_def)
qed

theorem race_allows_once_witness:
  "length (filter (allowReceipt (jstr ''exec-001''))
     (rev (concat (map (\<lambda>x. receiptsOf (Some x))
       (snd (runPipeline testHost initialState [requestText makeBaseInput, requestText makeBaseInput])))))) = 1"
proof -
  let ?b = "requestText makeBaseInput"
  obtain env r where run: "runStrictPreflight testHost ?b = Some (Inr env)" "pe_parsed_input env = makeBaseInput"
    "pe_canonical_input env = ?b"
    "buildReceipt testHost (envInput testHost env (snd (envArm testHost initialState env))) = Some r"
    "receiptDecision (envInput testHost env (snd (envArm testHost initialState env))) = Allow"
    "allowReceipt (jstr ''exec-001'') r" by (rule base_run)
  note race_allows_once [OF runPipeline_path, of "jstr ''exec-001''" testHost initialState "[?b, ?b]"]
  moreover have "r \<in> set (concat (map (\<lambda>x. receiptsOf (Some x)) (snd (runPipeline testHost initialState [?b, ?b]))))"
    by (simp add: pipeline_env [OF run(1)] run(4) case_prod_beta Let_def receiptsOf_def)
  then have "filter (allowReceipt (jstr ''exec-001''))
     (rev (concat (map (\<lambda>x. receiptsOf (Some x)) (snd (runPipeline testHost initialState [?b, ?b]))))) \<noteq> []"
    using run(6) by (auto simp: filter_empty_conv)
  ultimately show ?thesis by (simp add: le_Suc_eq del: runPipeline.simps)
qed

text \<open>
  C20: the pipeline always answers. On a host that can sign, every request text gets a typed refusal or a receipt,
  whatever the state of the stores: no exception escapes.
\<close>

theorem pipeline_answers:
  assumes "canSign h"
  shows "snd (executeDeterministicPipeline h st raw) \<noteq> None"
proof (cases "runStrictPreflight h raw")
  case None
  then show ?thesis using preflight_total by blast
next
  case (Some out)
  show ?thesis
  proof (cases out)
    case (Inl f)
    with Some show ?thesis by (simp add: executeDeterministicPipeline_def)
  next
    case (Inr env)
    with Some have pre: "runStrictPreflight h raw = Some (Inr env)" by simp
    from canSign_builds [OF assms, of "envInput h env (snd (envArm h st env))"] env_layers(3) [OF preflight_valid [OF pre], of st]
    obtain r where "buildReceipt h (envInput h env (snd (envArm h st env))) = Some r" by (auto simp: envInput_def)
    then show ?thesis by (simp add: pipeline_env [OF pre])
  qed
qed

lemma canSign_testHost: "canSign testHost"
  by (simp add: canSign_def)

theorem pipeline_answers_witness: "snd (executeDeterministicPipeline testHost initialState []) \<noteq> None"
  by (rule pipeline_answers [OF canSign_testHost])

lemma pipeline_decides:
  assumes "runStrictPreflight h raw = Some (Inr env)"
    and "executeDeterministicPipeline h st raw = (st', Some (Inr x))"
  shows "(do_decision (rp_decision_output (sr_payload (xr_receipt x))) = Allow \<longleftrightarrow> mayRun h st (pe_parsed_input env)) \<and>
    (authorityStatus (st_authority st') (requestedId (pe_parsed_input env)) = Some Allowed \<longleftrightarrow>
      do_decision (rp_decision_output (sr_payload (xr_receipt x))) = Allow \<or>
      authorityStatus (st_authority st) (requestedId (pe_parsed_input env)) = Some Allowed)"
proof -
  let ?ci = "pe_parsed_input env"
  note valid = preflight_valid [OF assms(1)]
  have num: "validNumbers ?ci" using valid by (simp add: validInput_def)
  from assms(2) obtain env' where "runStrictPreflight h raw = Some (Inr env')"
    "buildReceipt h (envInput h env' (snd (envArm h st env'))) = Some (xr_receipt x)"
    "st' = commitReceipt (fst (envArm h st env')) env' (snd (envArm h st env')) (xr_receipt x)"
    "wfArm (snd (envArm h st env'))" by (rule pipeline_Inr)
  with assms(1) have run: "buildReceipt h (envInput h env (snd (envArm h st env))) = Some (xr_receipt x)"
    "st' = commitReceipt (fst (envArm h st env)) env (snd (envArm h st env)) (xr_receipt x)"
    "wfArm (snd (envArm h st env))" by simp_all
  have dec: "do_decision (rp_decision_output (sr_payload (xr_receipt x))) =
      receiptDecision (envInput h env (snd (envArm h st env)))"
    using buildReceipt_fields(2) [OF _ run(1)] run(3) by (simp add: envInput_def)
  have new: "snd (beginExecution (st_authority st) (requestedId ?ci) (pe_request_hash env)) = Created \<longleftrightarrow>
      authorityStatus (st_authority st) (requestedId ?ci) = None"
    by (auto simp: authority.begin_answer split: option.splits execution_status.splits)
  have iff: "receiptDecision (envInput h env (snd (envArm h st env))) = Allow \<longleftrightarrow>
      ot_decision (envOrbit h env) = Allow \<and> exactCost ?ci \<le> maxSafe \<and> withinLimits ?ci (exactCost ?ci) \<and>
      tokenReserved st ?ci (exactCost ?ci) \<and> withinObservation ?ci (exactCost ?ci) \<and>
      authorityStatus (st_authority st) (requestedId ?ci) = None"
    using projectedCost_max [OF num]
    by (auto simp: receiptDecision_allow envArm_def runStrictArm_allow runStrictArm_cost new)
  have "authorityStatus (st_authority st') (requestedId ?ci) = Some Allowed \<longleftrightarrow>
      receiptDecision (envInput h env (snd (envArm h st env))) = Allow \<or>
      authorityStatus (st_authority st) (requestedId ?ci) = Some Allowed"
    by (auto simp: run(2) commitReceipt_env [OF run(3,1)] commitArmAllow_def authority.commit_status envArm_id envArm_status)
  then show ?thesis unfolding dec mayRun_def using iff env_layers(1) [OF valid] by auto
qed

text \<open>
  C2: when a request is allowed. Whatever the stores, an accepted request gets an allowing receipt only if the intent layer allows it, its
  exact cost is safe and within every limit and budget of the policy, the runtime observation is within bounds and the execution
  id was never seen; a request that meets these conditions and lacks no manual approval is allowed; and only an allowed request records its
  id as allowed. A request above the threshold of the policy without an approved hold is left to the theorem that follows.
\<close>

theorem pipeline_allows_iff:
  assumes "runStrictPreflight h raw = Some (Inr env)"
    and "executeDeterministicPipeline h st raw = (st', Some (Inr x))"
  shows "(do_decision (rp_decision_output (sr_payload (xr_receipt x))) = Allow \<longrightarrow> mayRun h st (pe_parsed_input env)) \<and>
    (mayRun h st (pe_parsed_input env) \<and> \<not> approvalMissing (pe_parsed_input env) \<longrightarrow>
      do_decision (rp_decision_output (sr_payload (xr_receipt x))) = Allow) \<and>
    (authorityStatus (st_authority st') (requestedId (pe_parsed_input env)) = Some Allowed \<longleftrightarrow>
      do_decision (rp_decision_output (sr_payload (xr_receipt x))) = Allow \<or>
      authorityStatus (st_authority st) (requestedId (pe_parsed_input env)) = Some Allowed)"
  using pipeline_decides [OF assms] by blast

theorem pipeline_allows_iff_witness:
  "\<exists>st' x. executeDeterministicPipeline testHost initialState (requestText makeBaseInput) = (st', Some (Inr x)) \<and>
     do_decision (rp_decision_output (sr_payload (xr_receipt x))) = Allow \<and>
     authorityStatus (st_authority st') (jstr ''exec-001'') = Some Allowed"
proof -
  obtain env st' x where run: "runStrictPreflight testHost (requestText makeBaseInput) = Some (Inr env)"
    "pe_parsed_input env = makeBaseInput"
    "executeDeterministicPipeline testHost initialState (requestText makeBaseInput) = (st', Some (Inr x))"
    using valid_request_answered [OF validInput_base normInput_base] by blast
  have "mayRun testHost initialState makeBaseInput"
    using orbit_layer_base by (simp add: mayRun_def exactCost_base maxSafe_def)
      (simp add: withinLimits_def withinObservation_def tokenReserved_def authorityStatus_def initialState_def makeBaseInput_def)
  moreover have "\<not> approvalMissing makeBaseInput" by (simp add: approvalMissing_def exactCost_base) (simp add: makeBaseInput_def)
  moreover have "requestedId makeBaseInput = jstr ''exec-001''" by (simp add: makeBaseInput_def)
  ultimately show ?thesis using pipeline_allows_iff [OF run(1,3)] run(2,3) by auto
qed

text \<open>
  C3: manual approval is not enforced. An accepted request whose exact cost exceeds the threshold of the policy and whose hold is not
  approved is allowed under the same conditions as any other: the strict layers never read the threshold or the hold. The witness is case
  PX-015 of \<open>src/audit/run_proof_expansion.ts\<close>, which expects a refusal, as does the first-generation core (\<open>src/arm/index.ts\<close>).
\<close>

theorem manual_approval_not_enforced:
  assumes "runStrictPreflight h raw = Some (Inr env)"
    and "executeDeterministicPipeline h st raw = (st', Some (Inr x))"
    and "approvalMissing (pe_parsed_input env)" "mayRun h st (pe_parsed_input env)"
  shows "do_decision (rp_decision_output (sr_payload (xr_receipt x))) = Allow \<and>
    authorityStatus (st_authority st') (requestedId (pe_parsed_input env)) = Some Allowed"
  using pipeline_decides [OF assms(1,2)] assms(4) by blast

definition px015Input :: canonical_input where
  "px015Input =
     makeBaseInput\<lparr>ci_execution_request := (ci_execution_request makeBaseInput)
       \<lparr>er_request_id := jstr ''px-015'',
        er_resources := \<lparr>rs_gpu_type = jstr ''a10g'', rs_gpu_count = 20, rs_hours = 10\<rparr>,
        er_execution := \<lparr>ex_auto_scale = True, ex_max_scale_multiplier = 3, ex_retry_on_fail = False, ex_max_retries = 0\<rparr>,
        er_release_request :=
          \<lparr>rr_execution_id = jstr ''px-015'', rr_hold_state = jstr ''PENDING'', rr_already_consumed = False\<rparr>\<rparr>\<rparr>"

lemma px015_valid: "validInput h px015Input" "normInput px015Input = px015Input"
  by (simp_all add: validInput_def validNumbers_def validRules_def validCount_def isSafeInteger_def maxSafe_def
      validStrings_def validTrust_def pinnedPolicyVersion_def validToolCalls_def validToolCall_def wfToolCall_def
      validParameters_def validSignature_def px015Input_def makeBaseInput_def baseCalls_def normInput_def normCall_def Let_def)

lemma px015_cost: "exactCost px015Input = 300000"
  by (simp add: exactCost_def px015Input_def makeBaseInput_def)

lemma px015_orbit: "orbitVerdict testHost px015Input = (Allow, OkOrbit)"
proof -
  have same: "er_parameters (ci_execution_request px015Input) = er_parameters (ci_execution_request makeBaseInput)"
    "er_tool_calls (ci_execution_request px015Input) = er_tool_calls (ci_execution_request makeBaseInput)"
    "er_orbit_intent (ci_execution_request px015Input) = er_orbit_intent (ci_execution_request makeBaseInput)"
    by (simp_all add: px015Input_def)
  have objects: "intentParameterObjects px015Input = intentParameterObjects makeBaseInput"
    unfolding intentParameterObjects_def Let_def same ..
  have "hasMultipleActions testHost px015Input = hasMultipleActions testHost makeBaseInput"
    unfolding hasMultipleActions_def objects same ..
  then have "orbitVerdict testHost px015Input = orbitVerdict testHost makeBaseInput"
    unfolding orbitVerdict_def Let_def objects same by simp
  then show ?thesis by (simp add: orbitVerdict_base)
qed

theorem manual_approval_not_enforced_witness:
  "\<exists>st' x. executeDeterministicPipeline testHost initialState (requestText px015Input) = (st', Some (Inr x)) \<and>
     do_decision (rp_decision_output (sr_payload (xr_receipt x))) = Allow"
proof -
  obtain env st' x where run: "runStrictPreflight testHost (requestText px015Input) = Some (Inr env)"
    "pe_parsed_input env = px015Input"
    "executeDeterministicPipeline testHost initialState (requestText px015Input) = (st', Some (Inr x))"
    using valid_request_answered [OF px015_valid] by blast
  have "\<exists>orbit. runStrictOrbit testHost px015Input = Some orbit \<and> ot_decision orbit = Allow"
    using runStrictOrbit_valid [OF px015_valid(1) [of testHost]] by (simp add: px015_orbit orbitTrace_def)
  then have "mayRun testHost initialState px015Input"
    by (simp add: mayRun_def px015_cost maxSafe_def)
      (simp add: withinLimits_def withinObservation_def tokenReserved_def authorityStatus_def initialState_def px015Input_def makeBaseInput_def)
  moreover have "approvalMissing px015Input"
    by (simp add: approvalMissing_def px015_cost) (simp add: px015Input_def makeBaseInput_def)
  ultimately show ?thesis using manual_approval_not_enforced [OF run(1,3)] run(2,3) by auto
qed

text \<open>
  C15: a receipt replays to itself. Running the request stored in a receipt from the stores the original run started
  with gives the same stores, the same receipt and the same bytes, although its text was normalized.
\<close>

theorem pipeline_replays_receipt:
  assumes "executeDeterministicPipeline h st raw = (st', Some (Inr x))"
  shows "executeDeterministicPipeline h st (rp_canonical_request (sr_payload (xr_receipt x))) = (st', Some (Inr x))"
  using receipt_request [OF assms] assms by simp

theorem pipeline_replays_receipt_witness:
  "\<exists>st' x. executeDeterministicPipeline testHost initialState (requestText makeBaseInput) = (st', Some (Inr x)) \<and>
     executeDeterministicPipeline testHost initialState (rp_canonical_request (sr_payload (xr_receipt x))) = (st', Some (Inr x))"
proof -
  obtain env r where run: "runStrictPreflight testHost (requestText makeBaseInput) = Some (Inr env)"
    "pe_parsed_input env = makeBaseInput" "pe_canonical_input env = requestText makeBaseInput"
    "buildReceipt testHost (envInput testHost env (snd (envArm testHost initialState env))) = Some r"
    "receiptDecision (envInput testHost env (snd (envArm testHost initialState env))) = Allow"
    "allowReceipt (jstr ''exec-001'') r" by (rule base_run)
  obtain st' x where x: "executeDeterministicPipeline testHost initialState (requestText makeBaseInput) = (st', Some (Inr x))"
    by (simp add: pipeline_env [OF run(1)] run(4))
  from pipeline_replays_receipt [OF x] x show ?thesis by blast
qed

end
