(* ===== verification/ReplayStore.thy ===== *)
theory ReplayStore
  imports PipelineProps
begin

text \<open>
  The receipt store end to end: \<open>appendReceipts\<close> of \<open>src/audit/test_helpers.ts\<close> writes one canonical receipt per
  line, \<open>replayReceiptStore\<close> reads them back. Canonical text never holds a line break, and verification does
  not depend on the order of properties, so the parsed line counts as the receipt that was written.
\<close>

definition appendReceipts :: "signed_receipt list \<Rightarrow> jsstring option" where
  "appendReceipts receipts =
     map_option (\<lambda>lines. joinWith [10] lines @ [10])
       (those (map (\<lambda>r. canonicalizeJson (JObj (receiptFields r))) receipts))"

section \<open>Lines\<close>

definition visible :: "code_unit \<Rightarrow> bool" where
  "visible c \<longleftrightarrow> 32 \<le> c"

lemma visible_consts [simp]:
  "visible 34" "visible 44" "visible 45" "visible 58" "visible 91" "visible 93" "visible 123" "visible 125"
  by (simp_all add: visible_def)

lemma visible_unicodeEscape: "list_all visible (unicodeEscape c)"
proof -
  have "visible (hexDigitOf d)" if "d < 16" for d
    using that by (auto simp: visible_def hexDigitOf_def word_le_nat_alt word_less_nat_alt unat_add_unit)
  then show ?thesis by (simp add: unicodeEscape_def nibble_less) (simp add: visible_def)
qed

lemma visible_quoteUnits: "list_all visible (quoteUnits s)"
proof -
  have one: "list_all visible (quoteUnit c)" for c
    by (auto simp: quoteUnit_def visible_unicodeEscape) (auto simp: visible_def not_less)
  have "visible c" if "isHighSurrogate c \<or> isLowSurrogate c" for c
    using that by (auto simp: visible_def isHighSurrogate_def isLowSurrogate_def word_le_nat_alt)
  with one show ?thesis by (induction s rule: quoteUnits.induct) (auto simp: list_all_append)
qed

lemma visible_quoted: "list_all visible (jsonStringifyString s)"
  by (simp add: jsonStringifyString_def visible_quoteUnits)

lemma visible_join: "\<forall>t \<in> set ts. list_all visible t \<Longrightarrow> list_all visible (joinWith [44] ts)"
  by (induction "[44] :: jsstring" ts rule: joinWith.induct) (auto simp: visible_def)

lemma visible_canonicalText: "wfJson v \<Longrightarrow> list_all visible (canonicalText v)"
proof (induction v)
  case (JNum x)
  have "visible c" if "isDigit c" for c
    using that by (auto simp: isDigit_def visible_def word_le_nat_alt)
  then have "list_all visible (showInt n)" for n
    using showNat_digits by (auto simp: showInt_def list_all_iff visible_def)
  with JNum show ?case
    by (cases x) (auto simp: canonicalText_def serializeNumber_def jstr_def unit_of_char_def, simp add: visible_def)
next
  case (JArr vs)
  then have "list_all visible (joinWith [44] (map canonicalText vs))" by (intro visible_join) auto
  then show ?case unfolding canonicalText_JArr [OF JArr.prems] by simp
next
  case (JObj ps)
  have "list_all visible (memberText (k, t))" if "list_all visible t" for k t
    using that visible_quoted by (simp add: memberText_def)
  with JObj have "list_all visible (joinWith [44] (map (\<lambda>(k, v). memberText (k, canonicalText v)) (sort_key fst ps)))"
    by (intro visible_join) (auto split: prod.splits)
  then show ?case unfolding canonicalText_JObj [OF JObj.prems] by simp
qed (auto simp: canonicalText_def visible_quoted jstr_def unit_of_char_def visible_def)

lemma splitLines_line: "list_all visible t \<Longrightarrow> splitLines acc (t @ 10 # rest) = (rev acc @ t) # splitLines [] rest"
  by (induction t arbitrary: acc) (auto simp: visible_def)

lemma splitLines_last: "list_all visible t \<Longrightarrow> splitLines acc t = [rev acc @ t]"
  by (induction t arbitrary: acc) (auto simp: visible_def)

lemma splitLines_join:
  "ts \<noteq> [] \<Longrightarrow> \<forall>t \<in> set ts. list_all visible t \<Longrightarrow> splitLines [] (joinWith [10] ts) = ts"
  by (induction "[10] :: jsstring" ts rule: joinWith.induct) (simp_all add: splitLines_line splitLines_last)

lemma jsTrim_lines:
  assumes "ts \<noteq> []" "\<forall>t \<in> set ts. \<exists>u. t = [123] @ u @ [125]"
  shows "jsTrim (joinWith [10] ts @ [10]) = joinWith [10] ts"
proof -
  have "\<exists>u. joinWith [10] ts = [123] @ u" using assms by (cases "([10] :: jsstring, ts)" rule: joinWith.cases) auto
  moreover have "\<exists>u. joinWith [10] ts = u @ [125]"
    using assms
  proof (induction "[10] :: jsstring" ts rule: joinWith.induct)
    case (3 t u ts)
    then obtain w where "joinWith [10] (u # ts) = w @ [125]" by auto
    then have "joinWith [10] (t # u # ts) = (t @ [10] @ w) @ [125]" by simp
    then show ?case by blast
  qed auto
  moreover have "\<not> isJsSpace 123" "\<not> isJsSpace 125" "isJsSpace 10" by code_simp+
  moreover from this have "dropWhile isJsSpace ([123] @ u) = [123] @ u" for u by simp
  ultimately show ?thesis
    unfolding jsTrim_def by (metis append_Cons append_assoc append_Nil dropWhile.simps(2) rev_append rev_rev_ident rev_singleton_conv)
qed

section \<open>Verification does not depend on the order of properties\<close>

lemma getProp_norm:
  assumes "case v of None \<Rightarrow> True | Some w \<Rightarrow> wfJson w"
  shows "getProp (map_option normJson v) k = map_option normJson (getProp v k)"
proof (cases v)
  case (Some w)
  with assms show ?thesis
    by (cases w) (auto simp: getProp_def map_of_normObject [unfolded normObject_def, simplified])
qed (simp add: getProp_def)

lemma normJson_string: "map_option normJson v = Some (JStr s) \<longleftrightarrow> v = Some (JStr s)"
proof (cases v)
  case (Some w)
  then show ?thesis by (cases w rule: normJson.cases) (auto split: jsnum.splits)
qed simp

lemma falsy_norm: "falsy (map_option normJson v) \<longleftrightarrow> falsy v"
proof (cases v)
  case (Some w)
  then show ?thesis by (cases w rule: normJson.cases) (auto simp: falsy_def split: jsnum.splits)
qed simp

lemma receiptRest_norm: "receiptRest (normObject ps) = normObject (receiptRest ps)"
  unfolding receiptRest_def normObject_def
  by (subst filter_sort) (simp add: filter_map comp_def case_prod_unfold)

lemma wfJson_receiptRest: "wfJson (JObj ps) \<Longrightarrow> wfJson (JObj (receiptRest ps))"
  by (auto simp: receiptRest_def distinct_map_filter)

lemma getProp_lookup_norm:
  assumes "wfJson (JObj ps)"
  shows "getProp (map_option normJson (map_of ps k)) j = map_option normJson (getProp (map_of ps k) j)"
proof (rule getProp_norm)
  show "case map_of ps k of None \<Rightarrow> True | Some w \<Rightarrow> wfJson w"
    using wfJson_lookup [OF assms] by (simp split: option.splits)
qed

lemma getProp_string_norm:
  assumes "wfJson (JObj ps)"
  shows "getProp (map_of (normObject ps) k) j = Some (JStr s) \<longleftrightarrow> getProp (map_of ps k) j = Some (JStr s)"
proof -
  have "map_of (normObject ps) k = map_option normJson (map_of ps k)" using assms by (simp add: map_of_normObject)
  then show ?thesis by (simp only: getProp_lookup_norm [OF assms] normJson_string)
qed

lemma verifyReceiptPublicSignature_norm:
  assumes "wfJson (JObj ps)"
  shows "verifyReceiptPublicSignature h (normObject ps) = verifyReceiptPublicSignature h ps"
proof -
  let ?v = "jstr ''verifiable_signature''"
  have wf: "wfJson (JObj (receiptRest ps))" "wfJson (JObj (normObject (receiptRest ps)))"
    using wfJson_receiptRest [OF assms] wfJson_normJson [OF wfJson_receiptRest [OF assms]] by (simp_all only: normJson_JObj)
  have canon: "canonicalizeJson (JObj (normObject (receiptRest ps))) = canonicalizeJson (JObj (receiptRest ps))"
    using canonicalText_normObject [OF wf(1)] wf by (simp only: canonicalizeJson_text)
  have lookup: "map_of (normObject ps) ?v = map_option normJson (map_of ps ?v)" using assms by (simp add: map_of_normObject)
  have str: "getProp (map_option normJson (map_of ps ?v)) j = Some (JStr s) \<longleftrightarrow> getProp (map_of ps ?v) j = Some (JStr s)" for j s
    using getProp_string_norm [OF assms, of ?v j s] by (simp only: lookup)
  have choose: "(case getProp (map_option normJson (map_of ps ?v)) j of Some (JStr s) \<Rightarrow> f s | _ \<Rightarrow> d) =
      (case getProp (map_of ps ?v) j of Some (JStr s) \<Rightarrow> f s | _ \<Rightarrow> d)" for j d and f :: "jsstring \<Rightarrow> bool option"
    unfolding getProp_lookup_norm [OF assms]
  proof (cases "getProp (map_of ps ?v) j")
    case (Some w)
    then show "(case map_option normJson (getProp (map_of ps ?v) j) of Some (JStr s) \<Rightarrow> f s | _ \<Rightarrow> d) =
        (case getProp (map_of ps ?v) j of Some (JStr s) \<Rightarrow> f s | _ \<Rightarrow> d)" by (cases w) simp_all
  qed simp
  show ?thesis
    unfolding verifyReceiptPublicSignature_def receiptRest_norm canon lookup Let_def falsy_norm choose str by simp
qed

lemma verifyReceiptSignature_norm:
  assumes "wfJson (JObj ps)"
  shows "verifyReceiptSignature h (normObject ps) = verifyReceiptSignature h ps"
proof -
  have wf: "wfJson (JObj (receiptRest ps))" "wfJson (JObj (normObject (receiptRest ps)))"
    using wfJson_receiptRest [OF assms] wfJson_normJson [OF wfJson_receiptRest [OF assms]] by (simp_all only: normJson_JObj)
  have canon: "canonicalizeJson (JObj (normObject (receiptRest ps))) = canonicalizeJson (JObj (receiptRest ps))"
    using canonicalText_normObject [OF wf(1)] wf by (simp only: canonicalizeJson_text)
  have falsy: "falsy (map_of (normObject ps) k) \<longleftrightarrow> falsy (map_of ps k)" for k
    using assms falsy_norm by (simp add: map_of_normObject)
  show ?thesis
    unfolding verifyReceiptSignature_def receiptRest_norm canon Let_def falsy getProp_string_norm [OF assms]
      verifyReceiptPublicSignature_norm [OF assms] by (simp cong: signing_config.case_cong)
qed

section \<open>Replaying what was written\<close>

text \<open>What the replay relies on: the host's parser reads canonical text, the key pair belongs together.\<close>

definition readsCanonical :: "(jsstring \<Rightarrow> json option) \<Rightarrow> bool" where
  "readsCanonical parse \<longleftrightarrow> (\<forall>v. wfJson v \<longrightarrow> parse (canonicalText v) = Some (normJson v))"

definition keyPair :: "host \<Rightarrow> bool" where
  "keyPair h \<longleftrightarrow> (\<forall>m s. hs_receiptSign h m = Some s \<longrightarrow> hs_receiptVerify h (hs_publicPem h) m s = Some True) \<and>
     jsTrim (hs_publicPem h) \<noteq> []"

lemma executed_receipt:
  assumes "keyPair h" "executeDeterministicPipeline h st raw = (st', Some (Inr x))"
  shows "wfJson (JObj (receiptFields (xr_receipt x)))"
    and "verifyReceiptSignature h (receiptFields (xr_receipt x)) = Some True"
    and "getProp (Some (JObj (receiptFields (xr_receipt x)))) ''canonical_request'' =
      Some (JStr (rp_canonical_request (sr_payload (xr_receipt x))))"
    and "xr_receipt_bytes x = canonicalText (JObj (receiptFields (xr_receipt x)))"
proof -
  from assms(2) obtain env where env: "runStrictPreflight h raw = Some (Inr env)"
    "buildReceipt h (envInput h env (snd (envArm h st env))) = Some (xr_receipt x)"
    "xr_receipt_bytes x = canonicalText (JObj (receiptFields (xr_receipt x)))"
    "wfArm (snd (envArm h st env))" by (rule pipeline_Inr)
  have wf: "wfArm (ri_arm (envInput h env (snd (envArm h st env))))" using env(4) by (simp add: envInput_def)
  show "wfJson (JObj (receiptFields (xr_receipt x)))"
    using buildReceipt_fields(5) [OF wf env(2)] wf by (intro wfJson_receipt) simp
  show "verifyReceiptSignature h (receiptFields (xr_receipt x)) = Some True"
    using receipt_accepted(2) [OF _ _ wf env(2)] assms(1) by (simp add: keyPair_def)
  show "getProp (Some (JObj (receiptFields (xr_receipt x)))) ''canonical_request'' =
      Some (JStr (rp_canonical_request (sr_payload (xr_receipt x))))"
    by (simp add: getProp_def receiptFields_def payloadFields_def)
  show "xr_receipt_bytes x = canonicalText (JObj (receiptFields (xr_receipt x)))" by (rule env(3))
qed

lemma replay_same:
  assumes "wfJson (JObj ps)" "verifyReceiptSignature h ps = Some True"
  shows "verifyReceiptReplay h (normObject ps) ps = Some (True, OkAllow)"
proof -
  have "canonicalizeJson (JObj (normObject ps)) = canonicalizeJson (JObj ps)"
    using canonicalText_normObject [OF assms(1)] assms(1) wfJson_normJson [OF assms(1)]
    by (simp only: canonicalizeJson_text normJson_JObj)
  with assms show ?thesis
    by (simp add: verifyReceiptReplay_def verifyReceiptSignature_norm canonicalizeJson_text
        del: canonicalizeJson.simps wfJson.simps)
qed

lemma replayLine_match:
  assumes "readsCanonical parse" "keyPair h"
    and "executeDeterministicPipeline h initialState raw = (st', Some (Inr x))"
  shows "replayLine h parse st (xr_receipt_bytes x) = (st', Some ReplayMatch)"
proof -
  let ?ps = "receiptFields (xr_receipt x)"
  note x = executed_receipt [OF assms(2,3)]
  have reset: "resetRuntimeState st = initialState"
    by (simp add: resetRuntimeState_def resetArmStores_def initialState_def authorityReset_def budgetReset_def)
  have parse: "parse (xr_receipt_bytes x) = Some (JObj (normObject ?ps))"
    using assms(1) x(1) unfolding readsCanonical_def x(4) by (simp only: normJson_JObj)
  have request: "getProp (Some (JObj (normObject ?ps))) ''canonical_request'' =
      Some (JStr (rp_canonical_request (sr_payload (xr_receipt x))))"
    using getProp_norm [of "Some (JObj ?ps)" "''canonical_request''"] x(1,3) by (simp only: option.map normJson_JObj option.case normJson.simps)
  have "executeDeterministicPipeline h initialState (rp_canonical_request (sr_payload (xr_receipt x))) = (st', Some (Inr x))"
    using receipt_request [OF assms(3)] assms(3) by simp
  then show ?thesis
    using replay_same [OF x(1,2)]
    by (simp add: replayLine_def parse Let_def request reset verifyReceiptSignature_norm [OF x(1)] x(2)
        del: wfJson.simps)
qed

lemma replayLines_match:
  assumes "readsCanonical parse" "keyPair h"
    and "\<forall>x \<in> set xs. \<exists>raw st'. executeDeterministicPipeline h initialState raw = (st', Some (Inr x))"
  shows "snd (replayLines h parse st (map xr_receipt_bytes xs)) = Some (length xs, [])"
  using assms(3)
proof (induction xs arbitrary: st)
  case (Cons x xs)
  then obtain raw st' where "executeDeterministicPipeline h initialState raw = (st', Some (Inr x))" by auto
  from replayLine_match [OF assms(1,2) this, of st] Cons.IH [of st'] Cons.prems show ?case
    by (cases "replayLines h parse st' (map xr_receipt_bytes xs)") simp
qed simp

lemma braces: "wfJson (JObj ps) \<Longrightarrow> \<exists>u. canonicalText (JObj ps) = [123] @ u @ [125]"
  using canonicalText_JObj [of ps] by blast

lemma replay_written:
  assumes "readsCanonical parse" "keyPair h"
    and "\<forall>x \<in> set xs. \<exists>raw st'. executeDeterministicPipeline h initialState raw = (st', Some (Inr x))"
  shows "\<exists>content. appendReceipts (map xr_receipt xs) = Some content \<and>
    snd (replayReceiptStore h parse st content) =
      Some \<lparr>rp_total = length xs, rp_exact_matches = length xs, rp_mismatches = []\<rparr>"
proof -
  let ?ts = "map xr_receipt_bytes xs"
  have each: "wfJson (JObj (receiptFields (xr_receipt x))) \<and> xr_receipt_bytes x = canonicalText (JObj (receiptFields (xr_receipt x)))"
    if "x \<in> set xs" for x
    using assms(3) that executed_receipt(1,4) [OF assms(2)] by blast
  have "those (map (\<lambda>r. canonicalizeJson (JObj (receiptFields r))) (map xr_receipt xs)) = Some ?ts"
    using each canonicalizeJson_text by (induction xs) (simp_all del: canonicalizeJson.simps wfJson.simps)
  then have written: "appendReceipts (map xr_receipt xs) = Some (joinWith [10] ?ts @ [10])"
    by (simp add: appendReceipts_def)
  have vis: "\<forall>t \<in> set ?ts. list_all visible t" and br: "\<forall>t \<in> set ?ts. \<exists>u. t = [123] @ u @ [125]"
    using each visible_canonicalText braces by auto
  have lines: "(if jsTrim (joinWith [10] ?ts @ [10]) = [] then [] else splitLines [] (jsTrim (joinWith [10] ?ts @ [10]))) = ?ts"
  proof (cases "xs = []")
    case True
    have "jsTrim [10] = []" by code_simp
    with True show ?thesis by simp
  next
    case False
    then have trim: "jsTrim (joinWith [10] ?ts @ [10]) = joinWith [10] ?ts" using br by (intro jsTrim_lines) auto
    have "joinWith [10] ?ts \<noteq> []" using False br
      by (cases "([10] :: jsstring, ?ts)" rule: joinWith.cases) auto
    then show ?thesis using splitLines_join [OF _ vis] False by (simp add: trim)
  qed
  have "snd (replayReceiptStore h parse st (joinWith [10] ?ts @ [10])) =
      map_option (\<lambda>(n, misses). \<lparr>rp_total = length ?ts, rp_exact_matches = n, rp_mismatches = misses\<rparr>)
        (snd (replayLines h parse st ?ts))"
    unfolding replayReceiptStore_def Let_def lines by (simp add: case_prod_beta)
  then show ?thesis using replayLines_match [OF assms, of st] written by simp
qed

section \<open>The race of two equal requests\<close>

lemma executed_decision:
  assumes "runStrictPreflight h raw = Some (Inr env)" "executeDeterministicPipeline h st raw = (st', Some (Inr x))"
  shows "do_decision (rp_decision_output (sr_payload (xr_receipt x))) =
    receiptDecision (envInput h env (snd (envArm h st env)))"
proof -
  from assms(2) obtain env' where "runStrictPreflight h raw = Some (Inr env')"
    "buildReceipt h (envInput h env' (snd (envArm h st env'))) = Some (xr_receipt x)"
    "wfArm (snd (envArm h st env'))" by (rule pipeline_Inr)
  with assms(1) have run: "buildReceipt h (envInput h env (snd (envArm h st env))) = Some (xr_receipt x)"
    and wf: "wfArm (ri_arm (envInput h env (snd (envArm h st env))))" by (simp_all add: envInput_def)
  show ?thesis by (rule buildReceipt_fields(2) [OF wf run])
qed

lemma second_refused:
  assumes "runStrictPreflight h raw = Some (Inr env)" "st1 = fst (envArm h st env)"
    and "executeDeterministicPipeline h st1 raw = (st2, Some out)"
  shows "fst (outcomeOf out) = Refuse"
proof (cases out)
  case (Inr x)
  have "at_decision (snd (envArm h st1 env)) \<noteq> Allow"
    using envArm_allow_new [of h st1 env] by (auto simp: assms(2) envArm_status split: if_splits)
  then have "receiptDecision (envInput h env (snd (envArm h st1 env))) = Refuse"
    by (metis receiptDecision_allow decision.exhaust)
  then show ?thesis using executed_decision [OF assms(1)] assms(3) Inr by simp
qed simp

lemma race_outcomes:
  assumes "simulateConcurrentDuplicate h st raw = (st', Some (first, second))"
  shows "fst second = Refuse \<and>
    (\<exists>st1 out. executeDeterministicPipeline h (resetRuntimeState st) raw = (st1, Some out) \<and> outcomeOf out = first)"
proof (cases "\<exists>env. runStrictPreflight h raw = Some (Inr env)")
  case False
  with assms show ?thesis
    by (auto simp: simulateConcurrentDuplicate_def executeDeterministicPipeline_def Let_def split: option.splits sum.splits)
next
  case True
  then obtain env where pre: "runStrictPreflight h raw = Some (Inr env)" by blast
  let ?st0 = "resetRuntimeState st"
  let ?arm = "snd (envArm h ?st0 env)" and ?st1 = "fst (envArm h ?st0 env)"
  note layers = env_layers [OF preflight_valid [OF pre]]
  from assms obtain st2 out r where run: "executeDeterministicPipeline h ?st1 raw = (st2, Some out)"
    "buildReceipt h (envInput h env ?arm) = Some r" "second = outcomeOf out"
    "first = (do_decision (rp_decision_output (sr_payload r)), do_reason_code (rp_decision_output (sr_payload r)))"
    by (auto simp: simulateConcurrentDuplicate_def pre layers(1,2) Let_def case_prod_beta envArm_def [symmetric]
        envInput_def [symmetric] split: option.splits prod.splits) (metis prod.collapse)
  then show ?thesis
    using second_refused [OF pre refl run(1)] by (simp add: pipeline_env [OF pre])
qed

section \<open>Invariants of the stores\<close>

definition wfRuntime :: "runtime_state \<Rightarrow> bool" where
  "wfRuntime st \<longleftrightarrow> wfAuthority (st_authority st) \<and> wfBudget (st_budget st)"

lemma wfRuntime_arm: "wfRuntime st \<Longrightarrow> wfRuntime (fst (runStrictArm st ci orbit rh))"
  by (auto simp: wfRuntime_def runStrictArm_authority runStrictArm_budget budgetAfter_def wfAuthority_begin
      wfBudget_reserve split: option.splits)

lemma wfRuntime_commit: "wfRuntime st \<Longrightarrow> wfRuntime (commitReceipt st env arm r)"
  by (simp add: wfRuntime_def commitReceipt_def commitArmAllow_def wfAuthority_commit)

lemma wfRuntime_pipeline: "wfRuntime st \<Longrightarrow> wfRuntime (fst (executeDeterministicPipeline h st raw))"
  by (auto simp: executeDeterministicPipeline_def case_prod_beta wfRuntime_arm wfRuntime_commit Let_def
      split: option.splits sum.splits)

lemma wfRuntime_seed: "wfRuntime st \<Longrightarrow> wfRuntime (seedBudgetToken st t m)"
  by (simp add: wfRuntime_def seedBudgetToken_def defineBudgetToken_def wfBudget_define)

lemma wfRuntime_run: "wfRuntime st \<Longrightarrow> wfRuntime (fst (runPipeline h st raws))"
  by (induction raws arbitrary: st) (simp_all add: case_prod_beta Let_def wfRuntime_pipeline)

section \<open>Properties\<close>

text \<open>
  C18: what is written replays. Receipts that the pipeline issued from fresh stores and \<open>appendReceipts\<close> wrote are
  all reported as exact matches by \<open>replayReceiptStore\<close>, whatever the stores hold when it starts, if the host's JSON
  parser reads canonical text and the key pair belongs together.
\<close>

theorem replayReceiptStore_exact:
  assumes "readsCanonical parse" "keyPair h"
    and "\<forall>x \<in> set xs. \<exists>raw st'. executeDeterministicPipeline h initialState raw = (st', Some (Inr x))"
  shows "\<exists>content. appendReceipts (map xr_receipt xs) = Some content \<and>
    snd (replayReceiptStore h parse st content) =
      Some \<lparr>rp_total = length xs, rp_exact_matches = length xs, rp_mismatches = []\<rparr>"
  using assms by (rule replay_written)

definition strictReader :: "jsstring \<Rightarrow> json option" where
  "strictReader s = (case parseStrictJson s of ParseOk v rest \<Rightarrow> Some v | _ \<Rightarrow> None)"

lemma host_laws: "readsCanonical strictReader" "keyPair testHost"
  using jsTrim_pem by (simp_all add: readsCanonical_def strictReader_def parse_canonicalText keyPair_def)

theorem replayReceiptStore_exact_witness:
  "\<exists>st' x content. executeDeterministicPipeline testHost initialState (requestText makeBaseInput) = (st', Some (Inr x)) \<and>
     appendReceipts [xr_receipt x, xr_receipt x] = Some content \<and>
     snd (replayReceiptStore testHost strictReader st' content) =
       Some \<lparr>rp_total = 2, rp_exact_matches = 2, rp_mismatches = []\<rparr>"
proof -
  obtain env r where run: "runStrictPreflight testHost (requestText makeBaseInput) = Some (Inr env)"
    "pe_parsed_input env = makeBaseInput" "pe_canonical_input env = requestText makeBaseInput"
    "buildReceipt testHost (envInput testHost env (snd (envArm testHost initialState env))) = Some r"
    "receiptDecision (envInput testHost env (snd (envArm testHost initialState env))) = Allow"
    "allowReceipt (jstr ''exec-001'') r" by (rule base_run)
  obtain st' x where x: "executeDeterministicPipeline testHost initialState (requestText makeBaseInput) = (st', Some (Inr x))"
    by (simp add: pipeline_env [OF run(1)] run(4))
  then have "\<forall>y \<in> set [x, x]. \<exists>raw st'. executeDeterministicPipeline testHost initialState raw = (st', Some (Inr y))"
    by auto
  from replayReceiptStore_exact [OF host_laws this, of st'] x show ?thesis by (auto simp: numeral_2_eq_2)
qed

text \<open>
  A racing duplicate is refused. When a second copy of a request runs to its end between the release layer and
  the commit of the first, the second is refused, and the first gets what it would have got alone.
\<close>

theorem simulateConcurrentDuplicate_refuses_second:
  assumes "simulateConcurrentDuplicate h st raw = (st', Some (first, second))"
  shows "fst second = Refuse \<and>
    (\<exists>st1 out. executeDeterministicPipeline h (resetRuntimeState st) raw = (st1, Some out) \<and> outcomeOf out = first)"
  using assms by (rule race_outcomes)

theorem simulateConcurrentDuplicate_refuses_second_witness:
  "\<exists>st' first second. simulateConcurrentDuplicate testHost initialState (requestText makeBaseInput) = (st', Some (first, second)) \<and>
     fst second = Refuse"
proof -
  obtain env r where run: "runStrictPreflight testHost (requestText makeBaseInput) = Some (Inr env)"
    "pe_parsed_input env = makeBaseInput" "pe_canonical_input env = requestText makeBaseInput"
    "buildReceipt testHost (envInput testHost env (snd (envArm testHost initialState env))) = Some r"
    "receiptDecision (envInput testHost env (snd (envArm testHost initialState env))) = Allow"
    "allowReceipt (jstr ''exec-001'') r" by (rule base_run)
  have reset: "resetRuntimeState initialState = initialState"
    by (simp add: resetRuntimeState_def resetArmStores_def initialState_def authorityReset_def budgetReset_def)
  note layers = env_layers [OF preflight_valid [OF run(1)]]
  have wf: "wfArm (ri_arm (envInput testHost env (snd (envArm testHost st env))))" for st
    using layers(3) by (simp add: envInput_def)
  obtain st2 out where second: "executeDeterministicPipeline testHost (fst (envArm testHost initialState env))
      (requestText makeBaseInput) = (st2, Some out)"
    using buildReceipt_testHost [OF wf, of "fst (envArm testHost initialState env)"] by (auto simp: pipeline_env [OF run(1)])
  then obtain st' first snd' where sim: "simulateConcurrentDuplicate testHost initialState (requestText makeBaseInput) =
      (st', Some (first, snd'))"
    using run(4) by (simp add: simulateConcurrentDuplicate_def run(1) layers(1,2) reset Let_def case_prod_beta
        envArm_def [symmetric] envInput_def [symmetric])
  from simulateConcurrentDuplicate_refuses_second [OF sim] sim show ?thesis by blast
qed

text \<open>
  The stores stay well-formed. Every record stays under its own name, an execution is recorded as allowed
  exactly when its decision hash is, and no token has consumed more than its limit, over any sequence of requests.
\<close>

theorem runPipeline_keeps_stores:
  assumes "wfAuthority (st_authority st)" "wfBudget (st_budget st)"
  shows "wfAuthority (st_authority (fst (runPipeline h st raws))) \<and> wfBudget (st_budget (fst (runPipeline h st raws)))"
  using wfRuntime_run [of st h raws] assms by (simp add: wfRuntime_def)

theorem runPipeline_keeps_stores_witness:
  "wfAuthority (st_authority (fst (runPipeline testHost
     (seedBudgetToken initialState (jstr ''team'') 5000) [requestText makeBaseInput, jstr ''[]''])))"
proof -
  have "wfRuntime (seedBudgetToken initialState (jstr ''team'') 5000)"
    by (intro wfRuntime_seed) (simp add: wfRuntime_def initialState_def wfAuthority_def wfBudget_def)
  then have "wfAuthority (st_authority (seedBudgetToken initialState (jstr ''team'') 5000))"
    "wfBudget (st_budget (seedBudgetToken initialState (jstr ''team'') 5000))" by (simp_all add: wfRuntime_def)
  from runPipeline_keeps_stores [OF this] show ?thesis by blast
qed

text \<open>
  A paid receipt does not replay. \<open>resetRuntimeState\<close> forgets the budget tokens, so the replay of any receipt
  whose request names a token refuses it, whatever the original decision was.
\<close>

theorem token_receipt_replay_refused:
  assumes "runStrictPreflight h raw = Some (Inr env)"
    and "er_budget_token (ci_execution_request (pe_parsed_input env)) = Some t"
    and "executeDeterministicPipeline h (resetRuntimeState st) raw = (st', Some (Inr x))"
  shows "do_decision (rp_decision_output (sr_payload (xr_receipt x))) = Refuse"
proof -
  have reset: "resetRuntimeState st = initialState"
    by (simp add: resetRuntimeState_def resetArmStores_def initialState_def authorityReset_def budgetReset_def)
  have "\<not> tokenReserved initialState (pe_parsed_input env) p" for p
    using assms(2) by (simp add: tokenReserved_def initialState_def reserveToken_def)
  then have "at_decision (snd (envArm h initialState env)) \<noteq> Allow"
    by (simp add: envArm_def runStrictArm_allow)
  then have "receiptDecision (envInput h env (snd (envArm h initialState env))) = Refuse"
    by (metis receiptDecision_allow decision.exhaust)
  then show ?thesis using executed_decision [OF assms(1)] assms(3) by (simp add: reset)
qed

lemma validInput_token: "validInput h (tokenInput ''a'')"
  using validInput_base [of h] validNumbers_token [of "''a''"]
  by (simp add: tokenInput_def validInput_def validStrings_def validTrust_def Let_def makeBaseInput_def)

theorem token_receipt_replay_refused_witness:
  "\<exists>st' x. executeDeterministicPipeline testHost (resetRuntimeState initialState) (requestText (tokenInput ''a'')) =
      (st', Some (Inr x)) \<and> do_decision (rp_decision_output (sr_payload (xr_receipt x))) = Refuse"
proof -
  note run = preflight_of_valid [OF validInput_token [of testHost]]
  obtain env where env: "runStrictPreflight testHost (requestText (tokenInput ''a'')) = Some (Inr env)"
    "pe_parsed_input env = normInput (tokenInput ''a'')"
    using run by simp
  have tok: "er_budget_token (ci_execution_request (pe_parsed_input env)) = Some (jstr ''team'')"
    by (simp add: env(2) token_fields)
  have wf: "wfArm (ri_arm (envInput testHost env (snd (envArm testHost (resetRuntimeState initialState) env))))"
    using env_layers(3) [OF preflight_valid [OF env(1)]] by (simp add: envInput_def)
  obtain st' x where "executeDeterministicPipeline testHost (resetRuntimeState initialState) (requestText (tokenInput ''a'')) =
      (st', Some (Inr x))"
    using buildReceipt_testHost [OF wf] by (auto simp: pipeline_env [OF env(1)])
  with token_receipt_replay_refused [OF env(1) tok this] show ?thesis by blast
qed

end
