(* ===== verification/VerifierProps.thy ===== *)
theory VerifierProps
  imports ReceiptVerifier ReplayStore
begin

text \<open>
  The offline verifier against the pipeline: what the pipeline issues from empty stores it accepts (completeness), what it
  accepts is what the pipeline decides on the stored request (soundness), and a refused duplicate is never accepted.
\<close>

section \<open>The hash of an unvalidated policy document\<close>

lemma objectLiteral_Some [simp]:
  "objectLiteral [] = Some (JObj [])"
  "objectLiteral ((k, Some v) # ms) = (case objectLiteral ms of Some (JObj ps) \<Rightarrow> Some (JObj ((jstr k, v) # ps)) | _ \<Rightarrow> None)"
  "objectLiteral ((k, None) # ms) = None"
  by (auto simp: objectLiteral_def split: option.split)

lemma normJson_object_eq:
  assumes "distinct (map fst ps)" "distinct (map fst qs)" "fst ` set ps \<subseteq> fst ` set qs"
    and "\<And>k v. map_of qs k = Some v \<Longrightarrow> map_of ps k = Some v"
  shows "normJson (JObj ps) = normJson (JObj qs)"
proof -
  have "set ps = set qs"
  proof
    show "set qs \<subseteq> set ps" using assms(2,4) map_of_SomeD by fastforce
    show "set ps \<subseteq> set qs"
    proof
      fix p assume p: "p \<in> set ps"
      then obtain v where v: "map_of qs (fst p) = Some v" using assms(3) by (metis image_eqI map_of_eq_None_iff not_None_eq subsetD)
      moreover have "map_of ps (fst p) = Some (snd p)" using assms(1) p by simp
      ultimately have "snd p = v" using assms(4) by fastforce
      with v show "p \<in> set qs" using map_of_SomeD by (metis prod.collapse)
    qed
  qed
  then have "mset ps = mset qs"
    using assms(1,2) by (simp add: distinct_map set_eq_iff_mset_eq_distinct)
  then show ?thesis by (rule normJson_reorder [OF assms(1)])
qed

lemma expectBoolean_Some: "expectBoolean v = Some b \<longleftrightarrow> v = Some (JBool b)"
  by (auto simp: expectBoolean_def split: option.splits json.splits)

lemma sections_policy:
  assumes "preflightSections obj = Inr s"
  shows "map_of obj (jstr ''policy_document'') = Some (JObj (se_policy_document s)) \<and>
    map_of (se_policy_document s) (jstr ''rules'') = Some (JObj (se_policy_rules s)) \<and>
    rejectUnknownKeys (se_policy_rules s) [''max_total_cost_cents'', ''allow_auto_scale'', ''max_gpu_count'',
      ''max_hours'', ''require_manual_approval_above_cents'', ''max_retry_count''] = None"
  using assms unfolding preflightSections_def guard_Inr asRecord_eq_Some by (elim exE conjE) clarsimp

lemma built_rules:
  assumes "preflightSections obj = Inr s" "wfObj obj" "preflightNumbers s = Inr n" "preflightFlags s v = Inr f"
  shows "normJson (JObj (se_policy_rules s)) = normJson (rulesJson (builtRules n f))"
proof -
  note nums = preflightNumbers_Inr [OF assms(3), THEN validateInteger_Inr]
  have flag: "map_of (se_policy_rules s) (jstr ''allow_auto_scale'') = Some (JBool (fg_allow_auto_scale f))"
    using assms(4) unfolding preflightFlags_def guard_Inr by (elim exE conjE) (clarsimp simp: expectBoolean_Some split: if_splits)
  note keys = sections_policy [OF assms(1), THEN conjunct2, THEN conjunct2, unfolded rejectUnknownKeys_None_iff]
  have dist: "distinct (map fst (se_policy_rules s))"
    using preflightSections_wf [OF assms(1,2)] by (auto simp: wfSections_def dest: wfObj_distinct)
  let ?qs = "case rulesJson (builtRules n f) of JObj qs \<Rightarrow> qs"
  have qs: "rulesJson (builtRules n f) = JObj ?qs" by (simp add: rulesJson_def)
  have "normJson (JObj (se_policy_rules s)) = normJson (JObj ?qs)"
  proof (rule normJson_object_eq [OF dist])
    show "distinct (map fst ?qs)" by (simp add: rulesJson_def)
    show "fst ` set (se_policy_rules s) \<subseteq> fst ` set ?qs" using keys by (simp add: rulesJson_def)
    have "list_all (\<lambda>(k, w). map_of (se_policy_rules s) k = Some w) ?qs"
      using nums flag by (simp add: rulesJson_def builtRules_def jint_def)
    then show "map_of ?qs k = Some w \<Longrightarrow> map_of (se_policy_rules s) k = Some w" for k w
      by (auto simp only: list_all_iff dest: map_of_SomeD)
  qed
  with qs show ?thesis by metis
qed

lemma built_document:
  assumes "preflightBuild h obj = Some (Inr ci)" "wfObj obj"
  shows "isObject (map_of obj (jstr ''policy_document''))"
    and "documentHash h (map_of obj (jstr ''policy_document'')) = policyHash h (ci_policy_document ci)"
proof -
  from assms(1) obtain s x l n f t where st:
    "preflightSections obj = Inr s" "preflightStrings s = Inr x" "preflightNumbers s = Inr n"
    "preflightFlags s (sx_policy_version x) = Inr f" "ci = builtInput x l n f t" by (rule preflightBuild_Inr)
  note doc = sections_policy [OF st(1)]
  have strs: "map_of (se_policy_document s) (jstr ''schema_version'') = Some (JStr (sx_policy_schema_version x))"
    "map_of (se_policy_document s) (jstr ''policy_version'') = Some (JStr (sx_policy_version x))"
    using st(2) by (auto simp: preflightStrings_def guard_Inr expectString_Some)
  show "isObject (map_of obj (jstr ''policy_document''))" by (simp add: doc)
  let ?raw = "JObj [(jstr ''schema_version'', JStr (sx_policy_schema_version x)), (jstr ''policy_version'', JStr (sx_policy_version x)),
    (jstr ''rules'', JObj (se_policy_rules s))]"
  let ?built = "policyPayloadJson (sx_policy_schema_version x) (sx_policy_version x) (builtRules n f)"
  have "wfRules (builtRules n f)"
    using preflightNumbers_Inr [OF st(3), THEN validateInteger_Inr] by (simp add: wfRules_def builtRules_def)
  then have wf2: "wfJson ?built" by (rule wfJson_policyPayload)
  have "wfJson (JObj (se_policy_rules s))"
    using preflightSections_wf [OF st(1) assms(2)] by (simp add: wfSections_def wfObj_def)
  then have wf1: "wfJson ?raw" by simp
  have "normJson ?raw = normJson ?built"
    unfolding policyPayloadJson_def by (rule normJson_JObj_cong) (simp only: list.map prod.case built_rules [OF st(1) assms(2) st(3,4)])
  then have "canonicalText ?raw = canonicalText ?built" by (simp only: canonicalText_eq_iff [OF wf1 wf2])
  moreover have "documentHash h (map_of obj (jstr ''policy_document'')) = hashCanonicalJson h ?raw"
    by (simp add: documentHash_def getProp_def doc strs)
  moreover have "policyHash h (ci_policy_document ci) = hashCanonicalJson h ?built"
    by (simp add: policyHash_def canonicalPolicyPayload_def hashCanonicalJson_def st(5) builtInput_def)
  ultimately show "documentHash h (map_of obj (jstr ''policy_document'')) = policyHash h (ci_policy_document ci)"
    by (simp only: hashCanonicalJson_wf [OF wf1] hashCanonicalJson_wf [OF wf2])
qed

section \<open>Paths in a parsed receipt\<close>

definition wfValue :: "json option \<Rightarrow> bool" where
  "wfValue v \<longleftrightarrow> (case v of None \<Rightarrow> True | Some w \<Rightarrow> wfJson w)"

lemma wfValue_getProp: "wfValue v \<Longrightarrow> wfValue (getProp v k)"
  by (auto simp: wfValue_def getProp_def split: option.splits json.splits intro: wfJson_lookup simp del: wfJson.simps)

lemma getProp_norm1: "wfValue v \<Longrightarrow> getProp (map_option normJson v) k = map_option normJson (getProp v k)"
  using getProp_norm [of v k] by (simp add: wfValue_def)

lemma isObject_norm: "isObject (map_option normJson v) = isObject v"
  by (cases v rule: isObject.cases) auto

lemma getProp_object: "getProp (Some (JObj ps)) k = map_of ps (jstr k)"
  by (simp add: getProp_def)

lemma getProp_Cons: "getProp (Some (JObj ((k, v) # ps))) j = (if k = jstr j then Some v else getProp (Some (JObj ps)) j)"
  by (simp add: getProp_def)

lemma getProp_Nil: "getProp (Some (JObj [])) j = None" "getProp None j = None"
  by (simp_all add: getProp_def)

lemma getProp_append: "getProp (Some (JObj (ps @ qs))) j = orElse (getProp (Some (JObj ps)) j) (getProp (Some (JObj qs)) j)"
  by (simp add: getProp_def map_of_append map_add_def orElse_def split: option.splits)

lemmas getProp_eval = getProp_Cons getProp_Nil getProp_append

text \<open>The fields of an issued receipt, as the verifier's parser sees them.\<close>

definition issuedJson :: "signed_receipt \<Rightarrow> json" where
  "issuedJson r = normJson (JObj (receiptFields r))"

lemma issued_norm:
  assumes "wfJson (JObj (receiptFields r))"
  shows "getProp (Some (issuedJson r)) k = map_option normJson (getProp (Some (JObj (receiptFields r))) k)"
    and "decisionOf (issuedJson r) = map_option normJson (decisionOf (JObj (receiptFields r)))"
    and "getProp (decisionOf (issuedJson r)) k = map_option normJson (getProp (decisionOf (JObj (receiptFields r))) k)"
    and "layerOf (issuedJson r) l = map_option normJson (layerOf (JObj (receiptFields r)) l)"
    and "getProp (layerOf (issuedJson r) l) k = map_option normJson (getProp (layerOf (JObj (receiptFields r)) l) k)"
    and "getProp (getProp (Some (issuedJson r)) l) k =
      map_option normJson (getProp (getProp (Some (JObj (receiptFields r))) l) k)"
proof -
  have wf: "wfValue (Some (JObj (receiptFields r)))" using assms by (simp only: wfValue_def option.case)
  have start: "Some (issuedJson r) = map_option normJson (Some (JObj (receiptFields r)))" by (simp only: issuedJson_def option.map)
  note step = getProp_norm1 [OF wf] getProp_norm1 [OF wfValue_getProp [OF wf]]
    getProp_norm1 [OF wfValue_getProp [OF wfValue_getProp [OF wf]]]
  show "getProp (Some (issuedJson r)) k = map_option normJson (getProp (Some (JObj (receiptFields r))) k)"
    "decisionOf (issuedJson r) = map_option normJson (decisionOf (JObj (receiptFields r)))"
    "getProp (decisionOf (issuedJson r)) k = map_option normJson (getProp (decisionOf (JObj (receiptFields r))) k)"
    "layerOf (issuedJson r) l = map_option normJson (layerOf (JObj (receiptFields r)) l)"
    "getProp (layerOf (issuedJson r) l) k = map_option normJson (getProp (layerOf (JObj (receiptFields r)) l) k)"
    "getProp (getProp (Some (issuedJson r)) l) k = map_option normJson (getProp (getProp (Some (JObj (receiptFields r))) l) k)"
    by (simp_all only: decisionOf_def layerOf_def start step)
qed

lemma receipt_parts:
  "getProp (Some (JObj (receiptFields r))) ''schema_version'' = Some (JStr (jstr ''ecs.receipt.v2''))"
  "getProp (Some (JObj (receiptFields r))) ''canonical_request'' = Some (JStr (rp_canonical_request (sr_payload r)))"
  "getProp (Some (JObj (receiptFields r))) ''request_hash'' = Some (JStr (rp_request_hash (sr_payload r)))"
  "decisionOf (JObj (receiptFields r)) = Some (decisionOutputJson (rp_decision_output (sr_payload r)))"
  "getProp (Some (JObj (receiptFields r))) ''pipeline_trace'' = Some (JObj
     [(jstr ''preflight'', preflightTraceJson (rp_preflight (sr_payload r))), (jstr ''orbit'', orbitTraceJson (rp_orbit (sr_payload r))),
      (jstr ''arm'', armTraceJson (rp_arm (sr_payload r))), (jstr ''ramona'', ramonaTraceJson (rp_ramona (sr_payload r)))])"
  "getProp (Some (JObj (receiptFields r))) ''verifiable_signature'' = Some (JObj
     [(jstr ''algorithm'', JStr (jstr ''ED25519'')),
      (jstr ''key_id'', JStr (ps_key_id (sr_verifiable_signature r))),
      (jstr ''public_key_fingerprint'', JStr (ps_public_key_fingerprint (sr_verifiable_signature r))),
      (jstr ''public_key_pem'', JStr (ps_public_key_pem (sr_verifiable_signature r))),
      (jstr ''value'', JStr (ps_value (sr_verifiable_signature r)))])"
  by (simp_all add: decisionOf_def receiptFields_def payloadFields_def getProp_eval)

lemma receipt_layers:
  "layerOf (JObj (receiptFields r)) ''preflight'' = Some (preflightTraceJson (rp_preflight (sr_payload r)))"
  "layerOf (JObj (receiptFields r)) ''orbit'' = Some (orbitTraceJson (rp_orbit (sr_payload r)))"
  "layerOf (JObj (receiptFields r)) ''arm'' = Some (armTraceJson (rp_arm (sr_payload r)))"
  "layerOf (JObj (receiptFields r)) ''ramona'' = Some (ramonaTraceJson (rp_ramona (sr_payload r)))"
  by (simp_all add: layerOf_def receipt_parts getProp_eval)

lemma decision_fields:
  "getProp (Some (decisionOutputJson d)) ''decision'' = Some (JStr (decisionText (do_decision d)))"
  "getProp (Some (decisionOutputJson d)) ''decision_hash'' = Some (JStr (do_decision_hash d))"
  "getProp (Some (decisionOutputJson d)) ''request_hash'' = Some (JStr (do_request_hash d))"
  "getProp (Some (decisionOutputJson d)) ''reason_code'' = Some (JStr (reasonText (do_reason_code d)))"
  "getProp (Some (decisionOutputJson d)) ''policy_version'' = Some (JStr (do_policy_version d))"
  "getProp (Some (decisionOutputJson d)) ''policy_hash'' = Some (JStr (do_policy_hash d))"
  "getProp (Some (decisionOutputJson d)) ''execution_id'' = Some (JStr (do_execution_id d))"
  "getProp (Some (decisionOutputJson d)) ''total_cost_usd'' = Some (JStr (do_total_cost_usd d))"
  "getProp (Some (decisionOutputJson d)) ''allowed_cost_usd'' = Some (JStr (do_allowed_cost_usd d))"
  "getProp (Some (decisionOutputJson d)) ''prevented_cost_usd'' = Some (JStr (do_prevented_cost_usd d))"
  by (simp_all add: decisionOutputJson_def getProp_eval)

lemma trace_fields:
  "getProp (Some (preflightTraceJson p)) ''request_hash'' = Some (JStr (pft_request_hash p))"
  "getProp (Some (preflightTraceJson p)) ''policy_hash'' = Some (JStr (pft_policy_hash p))"
  "getProp (Some (armTraceJson a)) ''execution_id'' = Some (JStr (at_execution_id a))"
  "getProp (Some (armTraceJson a)) ''projected_total_cost_cents'' = Some (jint (at_projected_total_cost_cents a))"
  "getProp (Some (armTraceJson a)) ''allowed_cost_cents'' = Some (jint (at_allowed_cost_cents a))"
  "getProp (Some (armTraceJson a)) ''prevented_cost_cents'' = Some (jint (at_prevented_cost_cents a))"
  by (simp_all add: preflightTraceJson_def armTraceJson_def getProp_eval)

lemma json_objects:
  "isObject (Some (decisionOutputJson d))" "isObject (Some (preflightTraceJson p))" "isObject (Some (orbitTraceJson t))"
  "isObject (Some (armTraceJson a))" "isObject (Some (ramonaTraceJson m))" "isObject (Some (JObj ps))"
  by (simp_all add: decisionOutputJson_def preflightTraceJson_def orbitTraceJson_def armTraceJson_def ramonaTraceJson_def)

lemma norm_leaf: "map_option normJson (Some (JStr s)) = Some (JStr s)" "map_option normJson (Some (jint i)) = Some (jint i)"
  by (simp_all add: jint_def)

lemmas receipt_eval = receipt_parts receipt_layers decision_fields trace_fields json_objects norm_leaf isObject_norm

lemma issued_top:
  assumes "wfJson (JObj (receiptFields r))"
  shows "getProp (Some (issuedJson r)) ''schema_version'' = Some (JStr (jstr ''ecs.receipt.v2''))"
    and "getProp (Some (issuedJson r)) ''canonical_request'' = Some (JStr (rp_canonical_request (sr_payload r)))"
    and "getProp (Some (issuedJson r)) ''request_hash'' = Some (JStr (rp_request_hash (sr_payload r)))"
    and "isObject (getProp (Some (issuedJson r)) ''pipeline_trace'')"
    and "isObject (getProp (Some (issuedJson r)) ''verifiable_signature'')"
    and "isObject (decisionOf (issuedJson r))"
    and "isObject (layerOf (issuedJson r) ''preflight'')" and "isObject (layerOf (issuedJson r) ''orbit'')"
    and "isObject (layerOf (issuedJson r) ''arm'')" and "isObject (layerOf (issuedJson r) ''ramona'')"
  by (simp_all only: issued_norm(1,2,4) [OF assms] receipt_eval)

lemma issued_decision:
  assumes "wfJson (JObj (receiptFields r))"
  defines "d \<equiv> rp_decision_output (sr_payload r)"
  shows "getProp (decisionOf (issuedJson r)) ''decision'' = Some (JStr (decisionText (do_decision d)))"
    and "getProp (decisionOf (issuedJson r)) ''decision_hash'' = Some (JStr (do_decision_hash d))"
    and "getProp (decisionOf (issuedJson r)) ''request_hash'' = Some (JStr (do_request_hash d))"
    and "getProp (decisionOf (issuedJson r)) ''reason_code'' = Some (JStr (reasonText (do_reason_code d)))"
    and "getProp (decisionOf (issuedJson r)) ''policy_version'' = Some (JStr (do_policy_version d))"
    and "getProp (decisionOf (issuedJson r)) ''policy_hash'' = Some (JStr (do_policy_hash d))"
    and "getProp (decisionOf (issuedJson r)) ''execution_id'' = Some (JStr (do_execution_id d))"
    and "getProp (decisionOf (issuedJson r)) ''total_cost_usd'' = Some (JStr (do_total_cost_usd d))"
    and "getProp (decisionOf (issuedJson r)) ''allowed_cost_usd'' = Some (JStr (do_allowed_cost_usd d))"
    and "getProp (decisionOf (issuedJson r)) ''prevented_cost_usd'' = Some (JStr (do_prevented_cost_usd d))"
  unfolding d_def by (simp_all only: issued_norm(3) [OF assms(1)] receipt_eval)

lemma issued_trace:
  assumes "wfJson (JObj (receiptFields r))"
  defines "a \<equiv> rp_arm (sr_payload r)"
  shows "getProp (layerOf (issuedJson r) ''preflight'') ''request_hash'' = Some (JStr (pft_request_hash (rp_preflight (sr_payload r))))"
    and "getProp (layerOf (issuedJson r) ''preflight'') ''policy_hash'' = Some (JStr (pft_policy_hash (rp_preflight (sr_payload r))))"
    and "getProp (layerOf (issuedJson r) ''arm'') ''execution_id'' = Some (JStr (at_execution_id a))"
    and "getProp (layerOf (issuedJson r) ''arm'') ''projected_total_cost_cents'' = Some (jint (at_projected_total_cost_cents a))"
    and "getProp (layerOf (issuedJson r) ''arm'') ''allowed_cost_cents'' = Some (jint (at_allowed_cost_cents a))"
    and "getProp (layerOf (issuedJson r) ''arm'') ''prevented_cost_cents'' = Some (jint (at_prevented_cost_cents a))"
  unfolding a_def by (simp_all only: issued_norm(5) [OF assms(1)] receipt_eval)

lemma issued_signature:
  assumes "wfJson (JObj (receiptFields r))"
  defines "s \<equiv> sr_verifiable_signature r"
  shows "getProp (getProp (Some (issuedJson r)) ''verifiable_signature'') ''algorithm'' = Some (JStr (jstr ''ED25519''))"
    and "getProp (getProp (Some (issuedJson r)) ''verifiable_signature'') ''key_id'' = Some (JStr (ps_key_id s))"
    and "getProp (getProp (Some (issuedJson r)) ''verifiable_signature'') ''public_key_fingerprint'' =
      Some (JStr (ps_public_key_fingerprint s))"
    and "getProp (getProp (Some (issuedJson r)) ''verifiable_signature'') ''public_key_pem'' = Some (JStr (ps_public_key_pem s))"
    and "getProp (getProp (Some (issuedJson r)) ''verifiable_signature'') ''value'' = Some (JStr (ps_value s))"
  unfolding s_def issued_norm(6) [OF assms(1)] by (simp_all add: receipt_parts getProp_eval del: normJson.simps(3))

lemma firstFault_None: "firstFault cs = None \<longleftrightarrow> list_all fst cs"
  by (induction cs rule: firstFault.induct) simp_all

text \<open>What makes a receipt complete: no field the schema asks for is empty.\<close>

definition fullReceipt :: "signed_receipt \<Rightarrow> bool" where
  "fullReceipt r \<longleftrightarrow>
     (let p = sr_payload r; d = rp_decision_output p; s = sr_verifiable_signature r
      in list_all (\<lambda>t. t \<noteq> []) [rp_canonical_request p, rp_request_hash p, do_decision_hash d, do_request_hash d, do_policy_version d,
           do_policy_hash d, do_execution_id d, at_execution_id (rp_arm p), ps_key_id s, ps_public_key_fingerprint s,
           ps_public_key_pem s, ps_value s])"

lemma reasonText_not_Nil: "reasonText c \<noteq> []"
  by (cases c) simp_all

lemma issued_schema:
  assumes "wfJson (JObj (receiptFields r))" "fullReceipt r" "wfArm (rp_arm (sr_payload r))"
  shows "validateSchema (issuedJson r) = None"
proof -
  have obj: "isObject (Some (issuedJson r))" by (simp add: issuedJson_def)
  have dec: "decisionText x = jstr ''ALLOW'' \<or> decisionText x = jstr ''REFUSE''" for x by (cases x) simp_all
  show ?thesis
    using assms(2,3) dec [of "do_decision (rp_decision_output (sr_payload r))"]
    unfolding validateSchema_def Let_def firstFault_None
    by (simp add: obj issued_top [OF assms(1)] issued_decision [OF assms(1)] issued_trace [OF assms(1)]
        issued_signature [OF assms(1)] nonEmptyString_def safeIntegerValue_def jint_def fullReceipt_def Let_def
        reasonText_not_Nil wfArm_def)
qed

section \<open>The replay of the verifier is a run of the pipeline from empty stores\<close>

definition freshInput :: "host \<Rightarrow> parsed_envelope \<Rightarrow> receipt_input" where
  "freshInput h env = envInput h env (snd (envArm h initialState env))"

lemma wfArm_fresh:
  assumes "runStrictPreflight h raw = Some (Inr env)"
  shows "wfArm (ri_arm (freshInput h env))"
  using env_layers(3) [OF preflight_valid [OF assms], of initialState] by (simp add: freshInput_def envInput_def)

lemma replay_eval:
  assumes "runStrictPreflight h (requestOf receipt) = Some (Inr env)"
  shows "snd (verifyReplayDeterminism h st receipt) =
    firstFault (replayChecks receipt (freshInput h env) (decisionHash h (freshInput h env)))"
proof -
  note layers = env_layers(1,2) [OF preflight_valid [OF assms]]
  have reset: "resetArmStores st = initialState"
    by (simp add: resetArmStores_def initialState_def authorityReset_def budgetReset_def)
  have "hashCanonicalJson h (receiptDecisionJson (freshInput h env)) = Some (decisionHash h (freshInput h env))"
    using hashCanonicalJson_wf [OF wfJson_decision [OF wfArm_fresh [OF assms]]] by (simp add: decisionHash_def)
  then show ?thesis
    unfolding verifyReplayDeterminism_def Let_def reset assms option.case sum.case layers
    by (simp add: layers case_prod_beta envArm_def [symmetric] envInput_def [symmetric] freshInput_def [symmetric])
qed

section \<open>Completeness\<close>

text \<open>What the check of non-empty fields relies on: digests, raw keys and signatures are not empty.\<close>

definition digestsExist :: "host \<Rightarrow> bool" where
  "digestsExist h \<longleftrightarrow> (\<forall>m. m \<noteq> [] \<longrightarrow> hs_sha256 h m \<noteq> []) \<and> (\<forall>pem raw. hs_rawKey h pem = Some raw \<longrightarrow> raw \<noteq> []) \<and>
     (\<forall>m s. hs_receiptSign h m = Some s \<longrightarrow> s \<noteq> [])"

lemma hexEncode_Nil: "hexEncode bs = [] \<longleftrightarrow> bs = []"
  by (cases bs) (simp_all add: hexEncode_def)

lemma utf8Encode_Nil: "utf8Encode t = [] \<longleftrightarrow> t = []"
  by (cases t rule: codePoints.cases) (simp_all add: utf8Encode_def utf8Bytes_not_Nil)

lemma digest_not_Nil: "digestsExist h \<Longrightarrow> wfJson (JObj ps) \<Longrightarrow> sha256Text h (canonicalText (JObj ps)) \<noteq> []"
  using braces [of ps] by (auto simp: digestsExist_def sha256Text_def sha256Hex_def hexEncode_Nil utf8Encode_Nil)

lemma fingerprint_not_Nil: "digestsExist h \<Longrightarrow> keyFingerprint h pem = Some fp \<Longrightarrow> fp \<noteq> []"
  by (auto simp: digestsExist_def keyFingerprint_def sha256Hex_def hexEncode_Nil hexDecode_hexEncode)

lemma issued_run:
  assumes "executeDeterministicPipeline h initialState raw = (st', Some (Inr x))"
  obtains env where "runStrictPreflight h raw = Some (Inr env)"
    and "runStrictPreflight h (pe_canonical_input env) = Some (Inr (normEnv (pe_canonical_input env) env))"
    and "freshInput h (normEnv (pe_canonical_input env) env) = freshInput h env"
    and "buildReceipt h (freshInput h env) = Some (xr_receipt x)"
    and "sr_payload (xr_receipt x) = receiptPayload (freshInput h env) (decisionHash h (freshInput h env))"
proof -
  from assms obtain env where env: "runStrictPreflight h raw = Some (Inr env)"
    "buildReceipt h (freshInput h env) = Some (xr_receipt x)"
    unfolding freshInput_def by (rule pipeline_Inr)
  show ?thesis
  proof (rule that [OF env(1) _ _ env(2)])
    show "runStrictPreflight h (pe_canonical_input env) = Some (Inr (normEnv (pe_canonical_input env) env))"
      using preflight_replay [OF env(1)] by (simp add: normEnv_def)
    show "freshInput h (normEnv (pe_canonical_input env) env) = freshInput h env"
      by (simp only: freshInput_def env_norm [OF preflight_valid [OF env(1)]])
    show "sr_payload (xr_receipt x) = receiptPayload (freshInput h env) (decisionHash h (freshInput h env))"
      by (rule buildReceipt_fields(1) [OF wfArm_fresh [OF env(1)] env(2)])
  qed
qed

lemma freshInput_fields:
  "ri_canonical_request (freshInput h env) = pe_canonical_input env" "ri_request_hash (freshInput h env) = pe_request_hash env"
  "ri_policy_hash (freshInput h env) = pe_policy_hash env" "ri_preflight (freshInput h env) = preflightTrace env"
  "ri_policy_version (freshInput h env) = pd_policy_version (ci_policy_document (pe_parsed_input env))"
  "at_execution_id (ri_arm (freshInput h env)) = requestedId (pe_parsed_input env)"
  by (simp_all add: freshInput_def envInput_def pipelineInput_def envArm_id)

lemma issued_full:
  assumes "digestsExist h" "jsTrim (hs_publicPem h) \<noteq> []" "runStrictPreflight h raw = Some (Inr env)"
    and "buildReceipt h (freshInput h env) = Some r"
    and "sr_payload r = receiptPayload (freshInput h env) (decisionHash h (freshInput h env))"
  shows "fullReceipt r"
proof -
  note valid = preflight_valid [OF assms(3)]
  from assms(3) obtain obj rest where pre: "pe_canonical_input env = canonicalText (JObj obj)" "wfObj obj"
    "policyHash h (ci_policy_document (pe_parsed_input env)) = Some (pe_policy_hash env)"
    "pe_request_hash env = sha256Text h (pe_canonical_input env)"
    by (rule runStrictPreflight_Inr)
  have body: "pe_canonical_input env \<noteq> []" using braces [of obj] pre(1,2) by (auto simp: wfObj_def)
  have hashes: "pe_policy_hash env \<noteq> []" "decisionHash h (freshInput h env) \<noteq> []" "pe_request_hash env \<noteq> []"
  proof -
    have "wfJson (policyPayloadJson a b (pd_rules (ci_policy_document (pe_parsed_input env))))" for a b
      by (rule wfJson_policyPayload [OF validInput_wfRules [OF valid]])
    then show "pe_policy_hash env \<noteq> []"
      using pre(3) digest_not_Nil [OF assms(1)]
      by (auto simp: policyHash_total [OF validInput_wfRules [OF valid]] policyPayloadJson_def simp del: wfJson.simps)
    show "decisionHash h (freshInput h env) \<noteq> []"
      using wfJson_decision [OF wfArm_fresh [OF assms(3)]] digest_not_Nil [OF assms(1)]
      by (simp add: decisionHash_def receiptDecisionJson_def del: wfJson.simps)
    show "pe_request_hash env \<noteq> []"
      using pre(1,2,4) digest_not_Nil [OF assms(1)] by (simp add: wfObj_def)
  qed
  have strings: "requestedId (pe_parsed_input env) \<noteq> []"
    "pd_policy_version (ci_policy_document (pe_parsed_input env)) \<noteq> []"
    using valid by (simp_all add: validInput_def validStrings_def validTrust_def pinnedPolicyVersion_def Let_def)
  have pem: "hs_publicPem h \<noteq> []" using assms(2) by (auto simp: jsTrim_def)
  from assms(4) obtain m sig fp where parts: "hs_receiptSign h m = Some sig" "keyFingerprint h (hs_publicPem h) = Some fp"
    "sr_verifiable_signature r = \<lparr>ps_key_id = receiptKeyId fp, ps_public_key_fingerprint = fp,
       ps_public_key_pem = hs_publicPem h, ps_value = hexEncode sig\<rparr>"
    by (auto simp: buildReceipt_wf [OF wfArm_fresh [OF assms(3)]] bind_eq_Some_conv hexEncode_inject)
  have sig: "sig \<noteq> []" using parts(1) assms(1) by (simp add: digestsExist_def)
  have fp: "fp \<noteq> []" by (rule fingerprint_not_Nil [OF assms(1) parts(2)])
  show ?thesis
    using body hashes strings pem parts sig fp
    by (simp add: fullReceipt_def assms(5) receiptPayload_def freshInput_fields receiptKeyId_def hexEncode_Nil)
qed

lemma issued_hashes:
  assumes "wfJson (JObj (receiptFields r))" "sr_payload r = receiptPayload i (decisionHash h i)"
    and "ri_request_hash i = sha256Text h (ri_canonical_request i)" "pft_request_hash (ri_preflight i) = ri_request_hash i"
  shows "requestOf (issuedJson r) = ri_canonical_request i"
    and "verifyRequestHash h (issuedJson r) = None"
    and "wfArm (ri_arm i) \<Longrightarrow> verifyDecisionHash h (issuedJson r) = None"
    and "list_all fst (replayChecks (issuedJson r) i (decisionHash h i))"
proof -
  note eval = issued_top [OF assms(1)] issued_decision [OF assms(1)] issued_trace [OF assms(1)] assms(2) receiptPayload_def
  show req: "requestOf (issuedJson r) = ri_canonical_request i"
    by (simp add: requestOf_def eval)
  show "verifyRequestHash h (issuedJson r) = None"
    by (simp add: verifyRequestHash_def Let_def firstFault_None req eval contradicts_def assms(3,4))
  show "list_all fst (replayChecks (issuedJson r) i (decisionHash h i))"
    by (simp add: replayChecks_def Let_def eval)
  assume wf: "wfArm (ri_arm i)"
  have "recomputeDecisionHash h (issuedJson r) = hashCanonicalJson h (receiptDecisionJson i)"
    by (simp add: recomputeDecisionHash_def Let_def eval receiptDecisionJson_def)
  then show "verifyDecisionHash h (issuedJson r) = None"
    by (simp add: verifyDecisionHash_def eval hashCanonicalJson_wf [OF wfJson_decision [OF wf]] decisionHash_def)
qed

lemma issued_policy:
  assumes "runStrictPreflight h raw = Some (Inr env)"
    and "wfJson (JObj (receiptFields r))" "sr_payload r = receiptPayload i d" "ri_canonical_request i = pe_canonical_input env"
    and "ri_policy_hash i = pe_policy_hash env" "ri_preflight i = preflightTrace env"
  shows "\<exists>v. verifyCanonicalization (issuedJson r) = Inr v \<and> verifyPolicyHash h (issuedJson r) v = Some None"
proof -
  from assms(1) obtain obj rest where pre: "pe_canonical_input env = canonicalText (JObj obj)" "wfObj obj"
    "preflightBuild h obj = Some (Inr (pe_parsed_input env))"
    "policyHash h (ci_policy_document (pe_parsed_input env)) = Some (pe_policy_hash env)"
    by (rule runStrictPreflight_Inr)
  have wf: "wfJson (JObj obj)" using pre(2) by (simp only: wfObj_def)
  note eval = issued_top [OF assms(2)] issued_decision [OF assms(2)] issued_trace [OF assms(2)] assms(3-6) receiptPayload_def
    preflightTrace_def
  have req: "requestOf (issuedJson r) = canonicalText (JObj obj)" by (simp add: requestOf_def eval pre(1))
  have canon: "verifyCanonicalization (issuedJson r) = Inr (JObj (normObject obj))"
    using parse_canonicalText [OF wf] canonicalizeJson_text [OF wfJson_normJson [OF wf]] canonicalText_normJson [OF wf]
    by (simp only: verifyCanonicalization_def req normJson_JObj parse_result.case option.case) simp
  have norm: "wfObj (normObject obj)" using wfJson_normJson [OF wf] by (simp only: wfObj_def normJson_JObj)
  note doc = built_document [OF preflightBuild_norm [OF pre(3,2)] norm]
  have same: "ci_policy_document (normInput (pe_parsed_input env)) = ci_policy_document (pe_parsed_input env)"
    by (simp add: normInput_def)
  have "verifyPolicyHash h (issuedJson r) (JObj (normObject obj)) = Some None"
    using doc pre(4)
    by (simp add: verifyPolicyHash_def Let_def getProp_object same firstFault_None eval contradicts_def)
  with canon show ?thesis by blast
qed

lemma issued_accepted:
  assumes "keyPair h" "wfJson (JObj (receiptFields r))" "wfArm (ri_arm i)" "buildReceipt h i = Some r"
  shows "verifySignature h (issuedJson r) = None"
proof -
  have "verifyReceiptPublicSignature h (receiptFields r) = Some True"
    using receipt_accepted(1) [OF _ _ assms(3,4)] assms(1) by (simp add: keyPair_def)
  then show ?thesis
    using verifyReceiptPublicSignature_norm [OF assms(2), of h]
    by (simp add: verifySignature_def issuedJson_def normJson_JObj del: normJson.simps)
qed

lemma readReceipt_issued:
  assumes "readsCanonical parse" "wfJson (JObj (receiptFields r))"
  shows "readReceipt parse (Some (canonicalText (JObj (receiptFields r)))) = Inr (issuedJson r)"
proof -
  obtain u where u: "canonicalText (JObj (receiptFields r)) = [123] @ u @ [125]" using braces [OF assms(2)] by blast
  have "stripByteOrderMark (canonicalText (JObj (receiptFields r))) = canonicalText (JObj (receiptFields r))"
    by (simp add: u stripByteOrderMark_def)
  then show ?thesis
    using assms(1)[unfolded readsCanonical_def, rule_format, OF assms(2)] by (simp add: readReceipt_def issuedJson_def)
qed

lemma issued_passes:
  assumes "readsCanonical parse" "keyPair h" "digestsExist h"
    and "executeDeterministicPipeline h initialState raw = (st', Some (Inr x))"
  shows "\<exists>st1 report. verifyReceiptFile h parse st (Some (xr_receipt_bytes x)) = (st1, Some report) \<and> verificationPassed report"
proof -
  let ?r = "xr_receipt x"
  note x = executed_receipt [OF assms(2,4)]
  from assms(4) obtain env where env: "runStrictPreflight h raw = Some (Inr env)"
    "runStrictPreflight h (pe_canonical_input env) = Some (Inr (normEnv (pe_canonical_input env) env))"
    "freshInput h (normEnv (pe_canonical_input env) env) = freshInput h env"
    "buildReceipt h (freshInput h env) = Some ?r"
    "sr_payload ?r = receiptPayload (freshInput h env) (decisionHash h (freshInput h env))" by (rule issued_run)
  note wf = wfArm_fresh [OF env(1)]
  have full: "fullReceipt ?r" using issued_full [OF assms(3) _ env(1,4,5)] assms(2) by (simp add: keyPair_def)
  have schema: "validateSchema (issuedJson ?r) = None"
    using issued_schema [OF x(1) full] wf env(5) by (simp add: receiptPayload_def)
  have hash: "ri_request_hash (freshInput h env) = sha256Text h (ri_canonical_request (freshInput h env))"
    "pft_request_hash (ri_preflight (freshInput h env)) = ri_request_hash (freshInput h env)"
    using env(1) by (auto simp: freshInput_fields preflightTrace_def elim: runStrictPreflight_Inr)
  note checks = issued_hashes [OF x(1) env(5) hash]
  have replay: "snd (verifyReplayDeterminism h st (issuedJson ?r)) = None"
    using replay_eval [of h "issuedJson ?r", OF checks(1) [THEN ssubst, of "\<lambda>t. runStrictPreflight h t = _"]]
      env(2) checks(4) by (simp add: env(3) firstFault_None freshInput_fields checks(1))
  obtain v where v: "verifyCanonicalization (issuedJson ?r) = Inr v" "verifyPolicyHash h (issuedJson ?r) v = Some None"
    using issued_policy [OF env(1) x(1) env(5)] by (auto simp: freshInput_fields)
  show ?thesis
    unfolding x(4)
    by (simp add: verifyReceiptFile_def readReceipt_issued [OF assms(1) x(1)] schema v checks(2) checks(3) [OF wf]
        issued_accepted [OF assms(2) x(1) wf env(4)] replay case_prod_beta verificationPassed_def reportChecks_def)
qed

section \<open>Properties\<close>

text \<open>
  C13: the offline verifier accepts what the pipeline issues. Every receipt issued from empty stores, allowed or refused,
  passes all seven checks when its bytes are read back, whatever the verifier process has replayed before.
\<close>

theorem verifier_accepts_issued:
  assumes "readsCanonical parse" "keyPair h" "digestsExist h"
    and "executeDeterministicPipeline h initialState raw = (st', Some (Inr x))"
  shows "\<exists>st1 report. verifyReceiptFile h parse st (Some (xr_receipt_bytes x)) = (st1, Some report) \<and> verificationPassed report"
  using assms by (rule issued_passes)

theorem verifier_accepts_issued_witness:
  "\<exists>st' x st1 report. executeDeterministicPipeline testHost initialState (requestText makeBaseInput) = (st', Some (Inr x)) \<and>
     verifyReceiptFile testHost strictReader st' (Some (xr_receipt_bytes x)) = (st1, Some report) \<and> verificationPassed report"
proof -
  obtain env r where run: "runStrictPreflight testHost (requestText makeBaseInput) = Some (Inr env)"
    "pe_parsed_input env = makeBaseInput" "pe_canonical_input env = requestText makeBaseInput"
    "buildReceipt testHost (envInput testHost env (snd (envArm testHost initialState env))) = Some r"
    "receiptDecision (envInput testHost env (snd (envArm testHost initialState env))) = Allow"
    "allowReceipt (jstr ''exec-001'') r" by (rule base_run)
  obtain st' x where x: "executeDeterministicPipeline testHost initialState (requestText makeBaseInput) = (st', Some (Inr x))"
    by (simp add: pipeline_env [OF run(1)] run(4))
  have "digestsExist testHost" by (simp add: digestsExist_def)
  from verifier_accepts_issued [OF host_laws this x, of st'] x show ?thesis by blast
qed

section \<open>Soundness\<close>

lemma verified_bytes:
  assumes "readsCanonical parse" "keyPair h" "executeDeterministicPipeline h st raw = (st', Some (Inr x))"
  shows "\<exists>st1 report. verifyReceiptFile h parse st0 (Some (xr_receipt_bytes x)) = (st1, Some report)"
proof -
  note x = executed_receipt [OF assms(2,3)]
  from assms(3) obtain env where env: "runStrictPreflight h raw = Some (Inr env)"
    "buildReceipt h (envInput h env (snd (envArm h st env))) = Some (xr_receipt x)" "wfArm (snd (envArm h st env))"
    by (rule pipeline_Inr)
  then have "sr_payload (xr_receipt x) = receiptPayload (envInput h env (snd (envArm h st env)))
      (decisionHash h (envInput h env (snd (envArm h st env))))"
    by (intro buildReceipt_fields(1)) (simp_all add: envInput_def)
  from issued_policy [OF env(1) x(1) this] obtain v where
    "verifyCanonicalization (issuedJson (xr_receipt x)) = Inr v" "verifyPolicyHash h (issuedJson (xr_receipt x)) v = Some None"
    by (auto simp: envInput_def pipelineInput_def)
  then show ?thesis
    unfolding x(4)
    by (auto simp: verifyReceiptFile_def readReceipt_issued [OF assms(1) x(1)] case_prod_beta Let_def split: option.split)
qed

lemma passed_checks:
  assumes "verifyReceiptFile h parse st content = (st1, Some report)" "verificationPassed report"
  obtains ps v where "readReceipt parse content = Inr (JObj ps)" "validateSchema (JObj ps) = None"
    "verifyCanonicalization (JObj ps) = Inr v" "verifyRequestHash h (JObj ps) = None"
    "verifySignature h (JObj ps) = None" "snd (verifyReplayDeterminism h st (JObj ps)) = None"
proof -
  from assms obtain receipt where read: "readReceipt parse content = Inr receipt"
    by (auto simp: verifyReceiptFile_def verificationPassed_def reportChecks_def unevaluated_def split: sum.splits)
  with assms have schema: "validateSchema receipt = None"
    by (auto simp: verifyReceiptFile_def verificationPassed_def reportChecks_def unevaluated_def split: option.splits)
  then obtain ps where ps: "receipt = JObj ps"
    by (cases receipt) (auto simp: validateSchema_def Let_def)
  from assms read schema have "\<exists>v. verifyCanonicalization receipt = Inr v"
    by (auto simp: verifyReceiptFile_def verificationPassed_def reportChecks_def Let_def split: sum.splits option.splits prod.splits)
  then obtain v where v: "verifyCanonicalization receipt = Inr v" ..
  with assms read schema have "verifyRequestHash h receipt = None" "verifySignature h receipt = None"
    "snd (verifyReplayDeterminism h st receipt) = None"
    by (auto simp: verifyReceiptFile_def verificationPassed_def reportChecks_def Let_def split: option.splits prod.splits if_splits)
  with that read schema ps v show ?thesis by blast
qed

lemma replay_passed:
  assumes "snd (verifyReplayDeterminism h st receipt) = None"
  obtains env where "runStrictPreflight h (requestOf receipt) = Some (Inr env)"
    "list_all fst (replayChecks receipt (freshInput h env) (decisionHash h (freshInput h env)))"
proof -
  from assms obtain env where env: "runStrictPreflight h (requestOf receipt) = Some (Inr env)"
    by (auto simp: verifyReplayDeterminism_def Let_def split: option.splits sum.splits)
  with assms that show ?thesis by (simp add: replay_eval firstFault_None)
qed

definition checkedFields :: "string list" where
  "checkedFields = [''decision'', ''decision_hash'', ''request_hash'', ''reason_code'', ''total_cost_usd'', ''allowed_cost_usd'',
     ''prevented_cost_usd'', ''policy_version'', ''policy_hash'', ''execution_id'']"

text \<open>
  C12: what the offline verifier accepts is the decision of the pipeline. When all seven checks pass, on whatever file, the
  signature is valid for the key the receipt names, and every stated field of the decision (verdict, reason, hashes,
  costs, policy and execution id) is the one the pipeline issues for the stored request from empty stores.
\<close>

theorem verifier_sound:
  assumes "canSign h" "verifyReceiptFile h parse st content = (st1, Some report)" "verificationPassed report"
  shows "\<exists>ps st' x. readReceipt parse content = Inr (JObj ps) \<and> verifyReceiptPublicSignature h ps = Some True \<and>
    executeDeterministicPipeline h initialState (requestOf (JObj ps)) = (st', Some (Inr x)) \<and>
    (\<forall>f \<in> set checkedFields. getProp (decisionOf (JObj ps)) f =
       getProp (Some (decisionOutputJson (rp_decision_output (sr_payload (xr_receipt x))))) f)"
proof -
  from assms(2,3) obtain ps v where ps: "readReceipt parse content = Inr (JObj ps)" "validateSchema (JObj ps) = None"
    "verifyCanonicalization (JObj ps) = Inr v" "verifyRequestHash h (JObj ps) = None"
    "verifySignature h (JObj ps) = None" "snd (verifyReplayDeterminism h st (JObj ps)) = None" by (rule passed_checks)
  from ps(6) obtain env where env: "runStrictPreflight h (requestOf (JObj ps)) = Some (Inr env)"
    and checks: "list_all fst (replayChecks (JObj ps) (freshInput h env) (decisionHash h (freshInput h env)))"
    by (rule replay_passed)
  obtain r where r: "buildReceipt h (freshInput h env) = Some r"
    using canSign_builds [OF assms(1) wfArm_fresh [OF env]] by blast
  note payload = buildReceipt_fields(1) [OF wfArm_fresh [OF env] r]
  obtain st' x where x: "executeDeterministicPipeline h initialState (requestOf (JObj ps)) = (st', Some (Inr x))" "xr_receipt x = r"
    using pipeline_env [OF env, of initialState] r by (simp add: freshInput_def)
  have sig: "verifyReceiptPublicSignature h ps = Some True"
    using ps(5) by (auto simp: verifySignature_def split: option.splits if_splits)
  have "nonEmptyString (getProp (decisionOf (JObj ps)) ''request_hash'')"
    using ps(2) unfolding validateSchema_def Let_def firstFault_None by simp
  then have "\<not> falsy (getProp (decisionOf (JObj ps)) ''request_hash'')"
    by (auto simp: nonEmptyString_def falsy_def split: option.splits json.splits)
  then have "getProp (decisionOf (JObj ps)) ''request_hash'' = getProp (Some (JObj ps)) ''request_hash''"
    using ps(4) unfolding verifyRequestHash_def Let_def firstFault_None by (simp add: contradicts_def)
  then have "\<forall>f \<in> set checkedFields. getProp (decisionOf (JObj ps)) f = getProp (Some (decisionOutputJson (rp_decision_output (sr_payload r)))) f"
    using checks by (simp add: checkedFields_def replayChecks_def Let_def decision_fields payload receiptPayload_def)
  with ps(1) sig x show ?thesis by blast
qed

theorem verifier_sound_witness:
  "\<exists>content st1 report. verifyReceiptFile testHost strictReader initialState content = (st1, Some report) \<and> verificationPassed report \<and>
     (\<exists>ps st' x. readReceipt strictReader content = Inr (JObj ps) \<and>
        executeDeterministicPipeline testHost initialState (requestOf (JObj ps)) = (st', Some (Inr x)) \<and>
        getProp (decisionOf (JObj ps)) ''decision'' = Some (JStr (decisionText (do_decision (rp_decision_output (sr_payload (xr_receipt x)))))))"
proof -
  obtain st' x st1 report where x: "executeDeterministicPipeline testHost initialState (requestText makeBaseInput) = (st', Some (Inr x))"
    "verifyReceiptFile testHost strictReader initialState (Some (xr_receipt_bytes x)) = (st1, Some report)" "verificationPassed report"
  proof -
    obtain env r where "runStrictPreflight testHost (requestText makeBaseInput) = Some (Inr env)"
      "pe_parsed_input env = makeBaseInput" "pe_canonical_input env = requestText makeBaseInput"
      "buildReceipt testHost (envInput testHost env (snd (envArm testHost initialState env))) = Some r"
      "receiptDecision (envInput testHost env (snd (envArm testHost initialState env))) = Allow"
      "allowReceipt (jstr ''exec-001'') r" by (rule base_run)
    then obtain st' x where run: "executeDeterministicPipeline testHost initialState (requestText makeBaseInput) = (st', Some (Inr x))"
      by (simp add: pipeline_env)
    have "digestsExist testHost" by (simp add: digestsExist_def)
    from issued_passes [OF host_laws this run, of initialState] that run show ?thesis by blast
  qed
  from verifier_sound [OF canSign_testHost x(2,3)] obtain ps st2 y where y:
    "readReceipt strictReader (Some (xr_receipt_bytes x)) = Inr (JObj ps)"
    "executeDeterministicPipeline testHost initialState (requestOf (JObj ps)) = (st2, Some (Inr y))"
    "\<forall>f \<in> set checkedFields. getProp (decisionOf (JObj ps)) f =
       getProp (Some (decisionOutputJson (rp_decision_output (sr_payload (xr_receipt y))))) f" by blast
  then have "getProp (decisionOf (JObj ps)) ''decision'' = Some (JStr (decisionText (do_decision (rp_decision_output (sr_payload (xr_receipt y))))))"
    by (simp add: checkedFields_def decision_fields)
  with x y show ?thesis by blast
qed

section \<open>Duplicates\<close>

definition duplicateReasons :: "reason_code set" where
  "duplicateReasons = {ExecutionIdAlreadyConsumed, ExecutionIdReplayed}"

lemma fresh_reason: "receiptReason (freshInput h env) \<notin> duplicateReasons"
proof -
  let ?ci = "pe_parsed_input env"
  have orbit: "snd (orbitVerdict h ?ci) \<notin> duplicateReasons"
    by (simp add: orbitVerdict_def Let_def duplicateReasons_def)
  have new: "snd (beginExecution (st_authority initialState) i rh) = Created" for i rh
    by (simp add: initialState_def beginExecution_def)
  have "snd (armVerdict initialState ?ci (envOrbit h env) rh p) \<notin> duplicateReasons" for rh p
    using orbit by (simp add: armVerdict_def new Let_def envOrbit_def orbitTrace_def) (simp add: duplicateReasons_def)
  then have arm: "at_reason_code (snd (envArm h initialState env)) \<notin> duplicateReasons"
  proof (cases "projectedCost ?ci")
    case None
    then show ?thesis by (simp add: envArm_def runStrictArm_None armTrace_def duplicateReasons_def)
  qed (simp add: envArm_def runStrictArm_Some armTrace_def)
  have "snd (ramonaVerdict ?ci (snd (envArm h initialState env))) \<notin> duplicateReasons"
    using arm by (simp add: ramonaVerdict_def Let_def) (simp add: duplicateReasons_def)
  then show ?thesis
    by (simp add: receiptReason_def freshInput_def envInput_def envRamona_def ramonaTrace_def Let_def) (simp add: duplicateReasons_def)
qed

text \<open>
  A refused duplicate does not verify. A receipt that refuses an execution id as already consumed or replayed, from
  whatever state it was issued, is genuine and signed but fails the offline verifier, which replays it from empty stores.
\<close>

theorem duplicate_not_verified:
  assumes "readsCanonical parse" "keyPair h" "canSign h" "executeDeterministicPipeline h st raw = (st', Some (Inr x))"
    and "do_reason_code (rp_decision_output (sr_payload (xr_receipt x))) \<in> duplicateReasons"
    and "verifyReceiptFile h parse st0 (Some (xr_receipt_bytes x)) = (st1, Some report)"
  shows "\<not> verificationPassed report"
proof
  assume "verificationPassed report"
  with assms(6) obtain ps v where ps: "readReceipt parse (Some (xr_receipt_bytes x)) = Inr (JObj ps)"
    "snd (verifyReplayDeterminism h st0 (JObj ps)) = None" by (rule passed_checks)
  from ps(2) obtain env where env: "list_all fst (replayChecks (JObj ps) (freshInput h env) (decisionHash h (freshInput h env)))"
    by (rule replay_passed)
  note x = executed_receipt [OF assms(2,4)]
  have "JObj ps = issuedJson (xr_receipt x)"
    using ps(1) readReceipt_issued [OF assms(1) x(1)] by (simp only: x(4)) simp
  with env issued_decision(4) [OF x(1)] have "reasonText (do_reason_code (rp_decision_output (sr_payload (xr_receipt x)))) =
      reasonText (receiptReason (freshInput h env))"
    by (simp add: replayChecks_def Let_def)
  with fresh_reason [of h env] assms(5) show False by (simp add: reasonText_inject)
qed


theorem duplicate_not_verified_witness:
  "\<exists>st1 x st2 y st3 report.
     executeDeterministicPipeline testHost initialState (requestText makeBaseInput) = (st1, Some (Inr x)) \<and>
     executeDeterministicPipeline testHost st1 (requestText makeBaseInput) = (st2, Some (Inr y)) \<and>
     verifyReceiptFile testHost strictReader initialState (Some (xr_receipt_bytes y)) = (st3, Some report) \<and>
     \<not> verificationPassed report"
proof -
  let ?b = "requestText makeBaseInput"
  obtain env r where run: "runStrictPreflight testHost ?b = Some (Inr env)" "pe_parsed_input env = makeBaseInput"
    "pe_canonical_input env = ?b"
    "buildReceipt testHost (envInput testHost env (snd (envArm testHost initialState env))) = Some r"
    "receiptDecision (envInput testHost env (snd (envArm testHost initialState env))) = Allow"
    "allowReceipt (jstr ''exec-001'') r" by (rule base_run)
  note layers = env_layers(3) [OF preflight_valid [OF run(1)]]
  obtain st1 x where x: "executeDeterministicPipeline testHost initialState ?b = (st1, Some (Inr x))"
    "st1 = commitReceipt (fst (envArm testHost initialState env)) env (snd (envArm testHost initialState env)) r"
    by (simp add: pipeline_env [OF run(1)] run(4))
  have allowed: "authorityStatus (st_authority st1) (requestedId (pe_parsed_input env)) = Some Allowed"
    by (simp add: x(2) commitReceipt_env [OF layers run(4)] run(5) commitArmAllow_def authority.commit_status envArm_id)
  have cost: "projectedCost makeBaseInput = Some 4000"
    using projectedCost_exact [OF validNumbers_base] by (simp add: exactCost_base isSafeInteger_def maxSafe_def)
  have arm: "at_decision (snd (envArm testHost st1 env)) = Refuse" "at_reason_code (snd (envArm testHost st1 env)) = ExecutionIdReplayed"
    using allowed by (simp_all add: envArm_def runStrictArm_Some [OF cost] run(2) armTrace_def armVerdict_def Let_def authority.begin_answer)
  obtain r2 where r2: "buildReceipt testHost (envInput testHost env (snd (envArm testHost st1 env))) = Some r2"
    using canSign_builds [OF canSign_testHost, of "envInput testHost env (snd (envArm testHost st1 env))"] layers [of st1]
    by (auto simp: envInput_def)
  then obtain st2 y where y: "executeDeterministicPipeline testHost st1 ?b = (st2, Some (Inr y))" "xr_receipt y = r2"
    by (simp add: pipeline_env [OF run(1)])
  have "do_reason_code (rp_decision_output (sr_payload r2)) = ExecutionIdReplayed"
    using buildReceipt_fields(3) [OF _ r2] layers [of st1] arm
    by (simp add: envInput_def receiptReason_def receiptDecision_def envRamona_def ramonaTrace_def ramonaVerdict_def Let_def)
  then have reason: "do_reason_code (rp_decision_output (sr_payload (xr_receipt y))) \<in> duplicateReasons"
    by (simp add: y(2) duplicateReasons_def)
  obtain st3 report where v: "verifyReceiptFile testHost strictReader initialState (Some (xr_receipt_bytes y)) = (st3, Some report)"
    using verified_bytes [OF host_laws y(1)] by blast
  from duplicate_not_verified [OF host_laws canSign_testHost y(1) reason v] x(1) y(1) v show ?thesis by blast
qed

end
