(* ===== verification/LegacyPreflight.thy ===== *)
theory LegacyPreflight
  imports Contracts
begin

text \<open>
  The first-generation core: its types (\<open>src/shared/types.ts\<close>, \<open>src/preflight/types.ts\<close>), its error
  (\<open>src/shared/errors.ts\<close>) and \<open>runPreflight\<close> of \<open>src/preflight/index.ts\<close>. Where the strict core returns a typed
  refusal, this one throws: \<open>FailClosed\<close> is a \<open>FailClosedError\<close> with its layer, code and message, \<open>OtherError\<close> any other
  exception (a number that cannot be canonicalized). The fields of a literal are evaluated in source order,
  so the first faulty one decides the error.
\<close>

section \<open>Types\<close>

datatype legacy_error = FailClosed jsstring jsstring jsstring | OtherError

record legacy_orbit =
  lo_orbit_version :: jsstring
  lo_action :: jsstring
  lo_boundary :: jsstring
  lo_payload :: jsobject
  lo_lifecycle_state :: jsstring
  lo_signatures :: "signature_spec list"
  lo_ext :: "jsobject option"

record legacy_runtime =
  lr_kill_switch_active :: bool
  lr_observed_request_hash :: jsstring
  lr_observed_policy_hash :: jsstring
  lr_actual_gpu_count :: int
  lr_actual_hours :: int
  lr_actual_total_cost_usd :: int

record request_object =
  rq_request_id :: jsstring
  rq_submitted_region :: jsstring
  rq_user_id :: jsstring
  rq_resources :: resources_spec
  rq_gpu_hour_usd :: int
  rq_execution :: execution_spec
  rq_orbit_intent :: legacy_orbit
  rq_release_request :: release_request
  rq_runtime_request :: legacy_runtime

record legacy_rules =
  lu_max_total_cost_usd :: int
  lu_allow_auto_scale :: bool
  lu_max_gpu_count :: int
  lu_max_hours :: int
  lu_require_manual_approval_above_usd :: int

record legacy_trust =
  lt_key_version :: jsstring
  lt_key_id :: jsstring
  lt_signing_public_key :: jsstring
  lt_signature :: jsstring

record policy_object =
  po_schema_version :: jsstring
  po_policy_version :: jsstring
  po_allowed_request_keys :: "jsstring list"
  po_rules :: legacy_rules
  po_trust :: legacy_trust

record preflight_envelope =
  pv_job_id :: jsstring
  pv_user_id :: jsstring
  pv_region :: jsstring
  pv_resources :: resources_spec
  pv_gpu_hour_usd :: int
  pv_execution :: execution_spec
  pv_orbit :: legacy_orbit
  pv_policy :: policy_object
  pv_release :: release_request
  pv_kill_switch_active :: bool
  pv_actual_gpu_count :: int
  pv_actual_hours :: int
  pv_actual_total_cost_usd :: int

record preflight_result =
  pf_request_object :: request_object
  pf_policy_object :: policy_object
  pf_request_hash :: jsstring

section \<open>Expectations\<close>

definition schemaError :: "jsstring \<Rightarrow> legacy_error" where
  "schemaError message = FailClosed (jstr ''preflight'') (jstr ''ERR_INVALID_SCHEMA'') message"

definition expectObject :: "json option \<Rightarrow> jsstring \<Rightarrow> legacy_error + jsobject" where
  "expectObject v message = (case asRecord v of None \<Rightarrow> Inl (schemaError message) | Some ps \<Rightarrow> Inr ps)"

definition expectStringAt :: "jsobject \<Rightarrow> string \<Rightarrow> legacy_error + jsstring" where
  "expectStringAt obj key =
     (case map_of obj (jstr key) of
        Some (JStr s) \<Rightarrow>
          if s = [] then Inl (schemaError (jstr (''Expected non-empty string at '' @ key))) else Inr s
      | _ \<Rightarrow> Inl (schemaError (jstr (''Expected non-empty string at '' @ key))))"

definition expectBooleanAt :: "jsobject \<Rightarrow> string \<Rightarrow> legacy_error + bool" where
  "expectBooleanAt obj key =
     (case map_of obj (jstr key) of
        Some (JBool b) \<Rightarrow> Inr b
      | _ \<Rightarrow> Inl (schemaError (jstr (''Expected boolean at '' @ key))))"

text \<open>A minus zero passes the non-negative check; nothing that follows tells it from zero.\<close>

fun safeIntegerOf :: "json option \<Rightarrow> int option" where
  "safeIntegerOf (Some (JNum (IntNum i))) = (if isSafeInteger i then Some i else None)"
| "safeIntegerOf (Some (JNum NegZero)) = Some 0"
| "safeIntegerOf _ = None"

definition expectPositiveInteger :: "jsobject \<Rightarrow> string \<Rightarrow> legacy_error + int" where
  "expectPositiveInteger obj key =
     (case safeIntegerOf (map_of obj (jstr key)) of
        Some i \<Rightarrow> if i \<le> 0 then Inl (schemaError (jstr (''Expected positive integer at '' @ key))) else Inr i
      | None \<Rightarrow> Inl (schemaError (jstr (''Expected positive integer at '' @ key))))"

definition expectNonNegativeInteger :: "jsobject \<Rightarrow> string \<Rightarrow> legacy_error + int" where
  "expectNonNegativeInteger obj key =
     (case safeIntegerOf (map_of obj (jstr key)) of
        Some i \<Rightarrow> if i < 0 then Inl (schemaError (jstr (''Expected non-negative integer at '' @ key))) else Inr i
      | None \<Rightarrow> Inl (schemaError (jstr (''Expected non-negative integer at '' @ key))))"

definition rejectUnknownFields :: "jsobject \<Rightarrow> string list \<Rightarrow> jsstring \<Rightarrow> legacy_error option" where
  "rejectUnknownFields obj allowedKeys scope =
     (case find (\<lambda>k. k \<notin> set (map jstr allowedKeys)) (objectKeys obj) of
        None \<Rightarrow> None
      | Some k \<Rightarrow> Some (FailClosed (jstr ''preflight'') (jstr ''ERR_UNKNOWN_FIELD'')
          (jstr ''Unknown field '' @ scope @ jstr ''.'' @ k)))"

section \<open>The orbit intent\<close>

fun parseOrbitSignatures :: "nat \<Rightarrow> json list \<Rightarrow> legacy_error + signature_spec list" where
  "parseOrbitSignatures index [] = Inr []"
| "parseOrbitSignatures index (item # items) =
     (let scope = jstr ''orbit.signatures['' @ showInt (int index) @ jstr '']''
      in bindE (expectObject (Some item) (scope @ jstr '' must be an object'')) (\<lambda>signatureRecord.
         failIf (rejectUnknownFields signatureRecord [''alg'', ''sig''] scope)
        (bindE (expectStringAt signatureRecord ''alg'') (\<lambda>alg.
         bindE (expectStringAt signatureRecord ''sig'') (\<lambda>sig.
         bindE (parseOrbitSignatures (Suc index) items) (\<lambda>rest.
         Inr (\<lparr>sg_alg = alg, sg_sig = sig\<rparr> # rest)))))))"

definition nonEmptyArray :: "json option \<Rightarrow> jsstring \<Rightarrow> legacy_error + json list" where
  "nonEmptyArray v message =
     (case v of Some (JArr vs) \<Rightarrow> if vs = [] then Inl (schemaError message) else Inr vs
      | _ \<Rightarrow> Inl (schemaError message))"

definition parseOrbitExt :: "json option \<Rightarrow> legacy_error + jsobject option" where
  "parseOrbitExt v =
     (case v of None \<Rightarrow> Inr None
      | Some w \<Rightarrow> bindE (expectObject (Some w) (jstr ''orbit.ext must be an object when present'')) (\<lambda>e. Inr (Some e)))"

definition parseOrbitIntent :: "jsobject \<Rightarrow> legacy_error + legacy_orbit" where
  "parseOrbitIntent obj =
     failIf (rejectUnknownFields obj
       [''action'', ''boundary'', ''ext'', ''lifecycle_state'', ''orbit_version'', ''payload'', ''signatures''] (jstr ''orbit''))
    (bindE (expectObject (map_of obj (jstr ''payload'')) (jstr ''orbit.payload must be an object'')) (\<lambda>payload.
     bindE (nonEmptyArray (map_of obj (jstr ''signatures'')) (jstr ''orbit.signatures must be a non-empty array'')) (\<lambda>items.
     bindE (parseOrbitSignatures 0 items) (\<lambda>signatures.
     bindE (parseOrbitExt (map_of obj (jstr ''ext''))) (\<lambda>ext.
     bindE (expectStringAt obj ''orbit_version'') (\<lambda>orbitVersion.
     bindE (expectStringAt obj ''action'') (\<lambda>action.
     bindE (expectStringAt obj ''boundary'') (\<lambda>boundary.
     bindE (expectStringAt obj ''lifecycle_state'') (\<lambda>lifecycleState.
     Inr \<lparr>lo_orbit_version = orbitVersion, lo_action = action, lo_boundary = boundary, lo_payload = payload,
          lo_lifecycle_state = lifecycleState, lo_signatures = signatures, lo_ext = ext\<rparr>)))))))))"

section \<open>The policy\<close>

fun parseAllowedKeys :: "nat \<Rightarrow> json list \<Rightarrow> legacy_error + jsstring list" where
  "parseAllowedKeys index [] = Inr []"
| "parseAllowedKeys index (item # items) =
     (let bad = schemaError (jstr ''policy.allowed_request_keys['' @ showInt (int index) @ jstr ''] must be a non-empty string'')
      in case item of
           JStr s \<Rightarrow> if s = [] then Inl bad else bindE (parseAllowedKeys (Suc index) items) (\<lambda>rest. Inr (s # rest))
         | _ \<Rightarrow> Inl bad)"

definition parseLegacyRules :: "jsobject \<Rightarrow> legacy_error + legacy_rules" where
  "parseLegacyRules obj =
     bindE (expectPositiveInteger obj ''max_total_cost_usd'') (\<lambda>maxTotalCost.
     bindE (expectBooleanAt obj ''allow_auto_scale'') (\<lambda>allowAutoScale.
     bindE (expectPositiveInteger obj ''max_gpu_count'') (\<lambda>maxGpuCount.
     bindE (expectPositiveInteger obj ''max_hours'') (\<lambda>maxHours.
     bindE (expectPositiveInteger obj ''require_manual_approval_above_usd'') (\<lambda>approvalAbove.
     Inr \<lparr>lu_max_total_cost_usd = maxTotalCost, lu_allow_auto_scale = allowAutoScale, lu_max_gpu_count = maxGpuCount,
          lu_max_hours = maxHours, lu_require_manual_approval_above_usd = approvalAbove\<rparr>)))))"

definition parseLegacyTrust :: "jsobject \<Rightarrow> legacy_error + legacy_trust" where
  "parseLegacyTrust obj =
     bindE (expectStringAt obj ''key_version'') (\<lambda>keyVersion.
     bindE (expectStringAt obj ''key_id'') (\<lambda>keyId.
     bindE (expectStringAt obj ''signing_public_key'') (\<lambda>signingPublicKey.
     bindE (expectStringAt obj ''signature'') (\<lambda>signature.
     Inr \<lparr>lt_key_version = keyVersion, lt_key_id = keyId, lt_signing_public_key = signingPublicKey,
          lt_signature = signature\<rparr>))))"

definition parsePolicyObject :: "jsobject \<Rightarrow> legacy_error + policy_object" where
  "parsePolicyObject obj =
     failIf (rejectUnknownFields obj [''allowed_request_keys'', ''policy_version'', ''rules'', ''schema_version'', ''trust''] (jstr ''policy''))
    (bindE (expectObject (map_of obj (jstr ''rules'')) (jstr ''policy.rules must be an object'')) (\<lambda>rulesRoot.
     failIf (rejectUnknownFields rulesRoot
       [''allow_auto_scale'', ''max_gpu_count'', ''max_hours'', ''max_total_cost_usd'', ''require_manual_approval_above_usd'']
       (jstr ''policy.rules''))
    (bindE (expectObject (map_of obj (jstr ''trust'')) (jstr ''policy.trust must be an object'')) (\<lambda>trustRoot.
     failIf (rejectUnknownFields trustRoot [''key_id'', ''key_version'', ''signature'', ''signing_public_key''] (jstr ''policy.trust''))
    (bindE (nonEmptyArray (map_of obj (jstr ''allowed_request_keys''))
       (jstr ''policy.allowed_request_keys must be a non-empty array'')) (\<lambda>keys.
     bindE (expectStringAt obj ''schema_version'') (\<lambda>schemaVersion.
     bindE (expectStringAt obj ''policy_version'') (\<lambda>policyVersion.
     bindE (parseAllowedKeys 0 keys) (\<lambda>allowedKeys.
     bindE (parseLegacyRules rulesRoot) (\<lambda>policyRules.
     bindE (parseLegacyTrust trustRoot) (\<lambda>trust.
     Inr \<lparr>po_schema_version = schemaVersion, po_policy_version = policyVersion, po_allowed_request_keys = allowedKeys,
          po_rules = policyRules, po_trust = trust\<rparr>)))))))))))"

section \<open>The envelope\<close>

record envelope_roots =
  vr_request :: jsobject
  vr_resources :: jsobject
  vr_pricing :: jsobject
  vr_execution :: jsobject
  vr_release :: jsobject
  vr_runtime :: jsobject
  vr_orbit :: jsobject
  vr_policy :: jsobject

definition envelopeRoots :: "json \<Rightarrow> legacy_error + envelope_roots" where
  "envelopeRoots v =
     bindE (expectObject (Some v) (jstr ''Input root must be an object'')) (\<lambda>top.
     failIf (rejectUnknownFields top [''orbit'', ''policy'', ''release'', ''request'', ''runtime''] (jstr ''root''))
    (bindE (expectObject (map_of top (jstr ''request'')) (jstr ''request must be an object'')) (\<lambda>request.
     failIf (rejectUnknownFields request [''execution'', ''job_id'', ''pricing'', ''region'', ''resources'', ''user_id''] (jstr ''request''))
    (bindE (expectObject (map_of request (jstr ''resources'')) (jstr ''request.resources must be an object'')) (\<lambda>resources.
     failIf (rejectUnknownFields resources [''gpu_count'', ''gpu_type'', ''hours''] (jstr ''request.resources''))
    (bindE (expectObject (map_of request (jstr ''pricing'')) (jstr ''request.pricing must be an object'')) (\<lambda>pricing.
     failIf (rejectUnknownFields pricing [''gpu_hour_usd''] (jstr ''request.pricing''))
    (bindE (expectObject (map_of request (jstr ''execution'')) (jstr ''request.execution must be an object'')) (\<lambda>execution.
     failIf (rejectUnknownFields execution [''auto_scale'', ''max_retries'', ''max_scale_multiplier'', ''retry_on_fail'']
       (jstr ''request.execution''))
    (bindE (expectObject (map_of top (jstr ''release'')) (jstr ''release must be an object'')) (\<lambda>release.
     failIf (rejectUnknownFields release [''already_consumed'', ''execution_id'', ''hold_state''] (jstr ''release''))
    (bindE (expectObject (map_of top (jstr ''runtime'')) (jstr ''runtime must be an object'')) (\<lambda>runtime.
     failIf (rejectUnknownFields runtime [''actual_gpu_count'', ''actual_hours'', ''actual_total_cost_usd'', ''kill_switch_active'']
       (jstr ''runtime''))
    (bindE (expectObject (map_of top (jstr ''orbit'')) (jstr ''orbit must be an object'')) (\<lambda>orbit.
     bindE (expectObject (map_of top (jstr ''policy'')) (jstr ''policy must be an object'')) (\<lambda>policy.
     Inr \<lparr>vr_request = request, vr_resources = resources, vr_pricing = pricing, vr_execution = execution,
          vr_release = release, vr_runtime = runtime, vr_orbit = orbit, vr_policy = policy\<rparr>))))))))))))))))"

definition envelopeFields :: "envelope_roots \<Rightarrow> legacy_error + preflight_envelope" where
  "envelopeFields r =
     bindE (expectStringAt (vr_request r) ''job_id'') (\<lambda>jobId.
     bindE (expectStringAt (vr_request r) ''user_id'') (\<lambda>userId.
     bindE (expectStringAt (vr_request r) ''region'') (\<lambda>region.
     bindE (expectStringAt (vr_resources r) ''gpu_type'') (\<lambda>gpuType.
     bindE (expectPositiveInteger (vr_resources r) ''gpu_count'') (\<lambda>gpuCount.
     bindE (expectPositiveInteger (vr_resources r) ''hours'') (\<lambda>hours.
     bindE (expectPositiveInteger (vr_pricing r) ''gpu_hour_usd'') (\<lambda>gpuHourUsd.
     bindE (expectBooleanAt (vr_execution r) ''auto_scale'') (\<lambda>autoScale.
     bindE (expectPositiveInteger (vr_execution r) ''max_scale_multiplier'') (\<lambda>maxScaleMultiplier.
     bindE (expectBooleanAt (vr_execution r) ''retry_on_fail'') (\<lambda>retryOnFail.
     bindE (expectNonNegativeInteger (vr_execution r) ''max_retries'') (\<lambda>maxRetries.
     bindE (parseOrbitIntent (vr_orbit r)) (\<lambda>orbit.
     bindE (parsePolicyObject (vr_policy r)) (\<lambda>policy.
     bindE (expectStringAt (vr_release r) ''execution_id'') (\<lambda>executionId.
     bindE (expectStringAt (vr_release r) ''hold_state'') (\<lambda>holdState.
     bindE (expectBooleanAt (vr_release r) ''already_consumed'') (\<lambda>alreadyConsumed.
     bindE (expectBooleanAt (vr_runtime r) ''kill_switch_active'') (\<lambda>killSwitch.
     bindE (expectPositiveInteger (vr_runtime r) ''actual_gpu_count'') (\<lambda>actualGpu.
     bindE (expectPositiveInteger (vr_runtime r) ''actual_hours'') (\<lambda>actualHours.
     bindE (expectNonNegativeInteger (vr_runtime r) ''actual_total_cost_usd'') (\<lambda>actualCost.
     Inr \<lparr>pv_job_id = jobId, pv_user_id = userId, pv_region = region,
          pv_resources = \<lparr>rs_gpu_type = gpuType, rs_gpu_count = gpuCount, rs_hours = hours\<rparr>,
          pv_gpu_hour_usd = gpuHourUsd,
          pv_execution = \<lparr>ex_auto_scale = autoScale, ex_max_scale_multiplier = maxScaleMultiplier,
             ex_retry_on_fail = retryOnFail, ex_max_retries = maxRetries\<rparr>,
          pv_orbit = orbit, pv_policy = policy,
          pv_release = \<lparr>rr_execution_id = executionId, rr_hold_state = holdState, rr_already_consumed = alreadyConsumed\<rparr>,
          pv_kill_switch_active = killSwitch, pv_actual_gpu_count = actualGpu, pv_actual_hours = actualHours,
          pv_actual_total_cost_usd = actualCost\<rparr>))))))))))))))))))))"

fun failureText :: "parse_failure_reason \<Rightarrow> jsstring" where
  "failureText Invalid_json_syntax = jstr ''invalid_json_syntax''"
| "failureText Duplicate_json_keys = jstr ''duplicate_json_keys''"
| "failureText Invalid_json_number = jstr ''invalid_json_number''"

definition parseEnvelope :: "jsstring \<Rightarrow> legacy_error + preflight_envelope" where
  "parseEnvelope rawInput =
     (case parseStrictJson rawInput of
        ParseStarved \<Rightarrow> Inl OtherError
      | ParseFail r \<Rightarrow> Inl (FailClosed (jstr ''preflight'') (jstr ''ERR_INPUT_PARSE'') (failureText r))
      | ParseOk v _ \<Rightarrow> bindE (envelopeRoots v) envelopeFields)"

section \<open>The request object\<close>

definition legacyOrbitFields :: "legacy_orbit \<Rightarrow> jsobject" where
  "legacyOrbitFields oi =
     [(jstr ''orbit_version'', JStr (lo_orbit_version oi)),
      (jstr ''action'', JStr (lo_action oi)),
      (jstr ''boundary'', JStr (lo_boundary oi)),
      (jstr ''payload'', JObj (lo_payload oi)),
      (jstr ''lifecycle_state'', JStr (lo_lifecycle_state oi)),
      (jstr ''signatures'', JArr (map signatureJson (lo_signatures oi)))] @
     optField ''ext'' (map_option JObj (lo_ext oi))"

definition runtimeJson :: "legacy_runtime \<Rightarrow> json" where
  "runtimeJson r = JObj
     [(jstr ''kill_switch_active'', JBool (lr_kill_switch_active r)),
      (jstr ''observed_request_hash'', JStr (lr_observed_request_hash r)),
      (jstr ''observed_policy_hash'', JStr (lr_observed_policy_hash r)),
      (jstr ''actual_gpu_count'', jint (lr_actual_gpu_count r)),
      (jstr ''actual_hours'', jint (lr_actual_hours r)),
      (jstr ''actual_total_cost_usd'', jint (lr_actual_total_cost_usd r))]"

definition requestJson :: "request_object \<Rightarrow> json" where
  "requestJson q = JObj
     [(jstr ''schema_version'', JStr (jstr ''mnde.request.v1'')),
      (jstr ''request_id'', JStr (rq_request_id q)),
      (jstr ''submitted_region'', JStr (rq_submitted_region q)),
      (jstr ''actor'', JObj [(jstr ''user_id'', JStr (rq_user_id q))]),
      (jstr ''resources'', JObj
         [(jstr ''gpu_type'', JStr (rs_gpu_type (rq_resources q))),
          (jstr ''gpu_count'', jint (rs_gpu_count (rq_resources q))),
          (jstr ''hours'', jint (rs_hours (rq_resources q)))]),
      (jstr ''pricing'', JObj [(jstr ''gpu_hour_usd'', jint (rq_gpu_hour_usd q))]),
      (jstr ''execution'', JObj
         [(jstr ''auto_scale'', JBool (ex_auto_scale (rq_execution q))),
          (jstr ''max_scale_multiplier'', jint (ex_max_scale_multiplier (rq_execution q))),
          (jstr ''retry_on_fail'', JBool (ex_retry_on_fail (rq_execution q))),
          (jstr ''max_retries'', jint (ex_max_retries (rq_execution q)))]),
      (jstr ''orbit_intent'', JObj (legacyOrbitFields (rq_orbit_intent q))),
      (jstr ''release_request'', JObj
         [(jstr ''execution_id'', JStr (rr_execution_id (rq_release_request q))),
          (jstr ''hold_state'', JStr (rr_hold_state (rq_release_request q))),
          (jstr ''already_consumed'', JBool (rr_already_consumed (rq_release_request q)))]),
      (jstr ''runtime_request'', runtimeJson (rq_runtime_request q))]"

definition envelopeRequest :: "preflight_envelope \<Rightarrow> request_object" where
  "envelopeRequest e =
     \<lparr>rq_request_id = pv_job_id e, rq_submitted_region = pv_region e, rq_user_id = pv_user_id e,
      rq_resources = pv_resources e, rq_gpu_hour_usd = pv_gpu_hour_usd e, rq_execution = pv_execution e,
      rq_orbit_intent = pv_orbit e, rq_release_request = pv_release e,
      rq_runtime_request =
        \<lparr>lr_kill_switch_active = pv_kill_switch_active e, lr_observed_request_hash = [], lr_observed_policy_hash = [],
         lr_actual_gpu_count = pv_actual_gpu_count e, lr_actual_hours = pv_actual_hours e,
         lr_actual_total_cost_usd = pv_actual_total_cost_usd e\<rparr>\<rparr>"

definition setRequestHash :: "jsstring \<Rightarrow> request_object \<Rightarrow> request_object" where
  "setRequestHash hash q =
     q\<lparr>rq_runtime_request := (rq_runtime_request q)\<lparr>lr_observed_request_hash := hash\<rparr>\<rparr>"

definition runPreflight :: "host \<Rightarrow> jsstring \<Rightarrow> legacy_error + preflight_result" where
  "runPreflight h rawInput =
     bindE (parseEnvelope rawInput) (\<lambda>envelope.
       (case hashCanonicalJson h (requestJson (envelopeRequest envelope)) of
          None \<Rightarrow> Inl OtherError
        | Some requestHash \<Rightarrow>
            Inr \<lparr>pf_request_object = setRequestHash requestHash (envelopeRequest envelope),
                 pf_policy_object = pv_policy envelope, pf_request_hash = requestHash\<rparr>))"

end
