(* ===== verification/LegacyCore.thy ===== *)
theory LegacyCore
  imports LegacyPreflight PolicyTrust
begin

text \<open>
  The layers of the first-generation core and their composition: \<open>src/orbit/index.ts\<close>, \<open>src/policy/index.ts\<close>,
  \<open>src/arm/index.ts\<close>, \<open>src/ram0na/index.ts\<close> and \<open>runMndePipeline\<close> of \<open>src/mnde-core/index.ts\<close>. Reasons are the texts of
  the source; costs are products of doubles and are not checked for overflow here.
\<close>

section \<open>Numbers in texts\<close>

text \<open>
  \<open>`${n}`\<close> of an integer-valued double: its digits up to \<open>2 ^ 53\<close>, beyond that the fewest digits that still round to
  the number, padded with zeros, in exponential form from \<open>10 ^ 21\<close> on.
\<close>

definition fewestDigits :: "nat \<Rightarrow> nat \<Rightarrow> (nat \<times> nat) option" where
  "fewestDigits v k =
     (let n = length (showNat v); unit = 10 ^ (n - k); s = (2 * v + unit) div (2 * unit)
      in if flNat (s * unit) = v then Some (s, n - k) else None)"

definition shortestDigits :: "nat \<Rightarrow> nat \<times> nat" where
  "shortestDigits v =
     (case List.map_filter (fewestDigits v) [1..<18] of [] \<Rightarrow> (v, 0) | p # _ \<Rightarrow> p)"

definition bigText :: "nat \<Rightarrow> jsstring" where
  "bigText v =
     (let (s, zeros) = shortestDigits v; ds = showNat s; n = length ds + zeros;
          sig = rev (dropWhile (\<lambda>c. c = 48) (rev ds))
      in if n \<le> 21 then ds @ replicate zeros 48
         else take 1 sig @ (if length sig \<le> 1 then [] else 46 # drop 1 sig) @ jstr ''e+'' @ showNat (n - 1))"

definition numberText :: "int \<Rightarrow> jsstring" where
  "numberText i =
     (if \<bar>i\<bar> \<le> 2 ^ 53 then showInt i
      else if i < 0 then 45 # bigText (nat (- i)) else bigText (nat i))"

definition boolText :: "bool \<Rightarrow> jsstring" where
  "boolText b = (if b then jstr ''true'' else jstr ''false'')"

definition reasonIf :: "bool \<Rightarrow> jsstring \<Rightarrow> jsstring list" where
  "reasonIf c t = (if c then [t] else [])"

section \<open>Orbit\<close>

datatype orbit_reason =
    Authorized | InvalidJsonRoot | ForbiddenComposition | InvalidTopLevelKeys | MissingRequiredField
  | InvalidOrbitVersion | InvalidAction | InvalidBoundary | InvalidPayload | InvalidLifecycleState
  | LifecycleNotArmed | InvalidSignatures | InvalidSignatureRecord | InternalError

fun orbitReasonText :: "orbit_reason \<Rightarrow> jsstring" where
  "orbitReasonText Authorized = jstr ''authorized''"
| "orbitReasonText InvalidJsonRoot = jstr ''invalid_json_root''"
| "orbitReasonText ForbiddenComposition = jstr ''forbidden_composition''"
| "orbitReasonText InvalidTopLevelKeys = jstr ''invalid_top_level_keys''"
| "orbitReasonText MissingRequiredField = jstr ''missing_required_field''"
| "orbitReasonText InvalidOrbitVersion = jstr ''invalid_orbit_version''"
| "orbitReasonText InvalidAction = jstr ''invalid_action''"
| "orbitReasonText InvalidBoundary = jstr ''invalid_boundary''"
| "orbitReasonText InvalidPayload = jstr ''invalid_payload''"
| "orbitReasonText InvalidLifecycleState = jstr ''invalid_lifecycle_state''"
| "orbitReasonText LifecycleNotArmed = jstr ''lifecycle_not_armed''"
| "orbitReasonText InvalidSignatures = jstr ''invalid_signatures''"
| "orbitReasonText InvalidSignatureRecord = jstr ''invalid_signature_record''"
| "orbitReasonText InternalError = jstr ''internal_error''"

text \<open>The decision is \<open>PASS\<close> exactly for the reason \<open>authorized\<close>; the two constant fields are left out.\<close>

record orbit_validation =
  ov_pass :: bool
  ov_reason :: orbit_reason
  ov_validation_hash :: jsstring

definition allowedTopLevelKeys :: "jsstring list" where
  "allowedTopLevelKeys = map jstr
     [''orbit_version'', ''action'', ''boundary'', ''payload'', ''lifecycle_state'', ''signatures'', ''ext'']"

definition requiredTopLevelKeys :: "jsstring list" where
  "requiredTopLevelKeys = map jstr
     [''orbit_version'', ''action'', ''boundary'', ''payload'', ''lifecycle_state'', ''signatures'']"

definition forbiddenCompositionKeys :: "jsstring list" where
  "forbiddenCompositionKeys = map jstr [''intent'', ''intents'', ''bundle'']"

definition lifecycleStates :: "jsstring list" where
  "lifecycleStates = map jstr [''CREATED'', ''ARMED'', ''RELEASED'', ''CONSUMED'', ''EXPIRED'', ''FAILED'']"

text \<open>
  The rest pattern of \<open>stripExt\<close> on any JSON value: it throws on \<open>null\<close>, spreads the elements of an array and the
  units of a string, and makes an empty object of a number or a Boolean.
\<close>

fun stripExt :: "json \<Rightarrow> json option" where
  "stripExt (JObj ps) = Some (JObj (filter (\<lambda>p. fst p \<noteq> jstr ''ext'') ps))"
| "stripExt JNull = None"
| "stripExt (JArr vs) = Some (JObj (map (\<lambda>(i, v). (showNat i, v)) (enumerate 0 vs)))"
| "stripExt (JStr s) = Some (JObj (map (\<lambda>(i, c). (showNat i, JStr [c])) (enumerate 0 s)))"
| "stripExt (JBool b) = Some (JObj [])"
| "stripExt (JNum n) = Some (JObj [])"

definition buildResult :: "orbit_reason \<Rightarrow> jsstring \<Rightarrow> orbit_validation" where
  "buildResult reason validationHash =
     \<lparr>ov_pass = (reason = Authorized), ov_reason = reason, ov_validation_hash = validationHash\<rparr>"

fun isStringValue :: "json option \<Rightarrow> bool" where
  "isStringValue (Some (JStr s)) = True"
| "isStringValue _ = False"

fun isNonEmptyString :: "json option \<Rightarrow> bool" where
  "isNonEmptyString (Some (JStr s)) = (s \<noteq> [])"
| "isNonEmptyString _ = False"

fun isValidSignatureRecord :: "json \<Rightarrow> bool" where
  "isValidSignatureRecord (JObj ps) =
     (length ps = 2 \<and> isStringValue (map_of ps (jstr ''alg'')) \<and> isStringValue (map_of ps (jstr ''sig'')))"
| "isValidSignatureRecord _ = False"

definition orbitReasonOf :: "jsobject \<Rightarrow> orbit_reason" where
  "orbitReasonOf intent =
     (if list_ex (\<lambda>k. map_of intent k \<noteq> None) forbiddenCompositionKeys then ForbiddenComposition
      else if list_ex (\<lambda>k. k \<notin> set allowedTopLevelKeys) (objectKeys intent) then InvalidTopLevelKeys
      else if list_ex (\<lambda>k. map_of intent k = None) requiredTopLevelKeys then MissingRequiredField
      else if map_of intent (jstr ''orbit_version'') \<noteq> Some (JStr (jstr ''2.0'')) then InvalidOrbitVersion
      else if \<not> isNonEmptyString (map_of intent (jstr ''action'')) then InvalidAction
      else if \<not> isNonEmptyString (map_of intent (jstr ''boundary'')) then InvalidBoundary
      else if asRecord (map_of intent (jstr ''payload'')) = None then InvalidPayload
      else if \<not> list_ex (\<lambda>t. map_of intent (jstr ''lifecycle_state'') = Some (JStr t)) lifecycleStates
      then InvalidLifecycleState
      else if map_of intent (jstr ''lifecycle_state'') \<noteq> Some (JStr (jstr ''ARMED'')) then LifecycleNotArmed
      else (case asArray (map_of intent (jstr ''signatures'')) of
              None \<Rightarrow> InvalidSignatures
            | Some sigs \<Rightarrow>
                if sigs = [] then InvalidSignatures
                else if list_ex (\<lambda>s. \<not> isValidSignatureRecord s) sigs then InvalidSignatureRecord
                else Authorized))"

definition validateOrbitIntent :: "host \<Rightarrow> json \<Rightarrow> orbit_validation option" where
  "validateOrbitIntent h intent =
     do {
       stripped \<leftarrow> stripExt intent;
       validationHash \<leftarrow> hashCanonicalJson h stripped;
       (case intent of
          JObj ps \<Rightarrow> Some (buildResult (orbitReasonOf ps) validationHash)
        | _ \<Rightarrow> Some (buildResult InvalidJsonRoot validationHash))
     }"

section \<open>Policy trust\<close>

record policy_trust_result =
  tr_trusted :: bool
  tr_policy_hash :: jsstring
  tr_reasons :: "jsstring list"
  tr_key_id :: jsstring
  tr_policy_version :: jsstring

definition allowedRequestKeys :: "jsstring list" where
  "allowedRequestKeys = map jstr
     [''actor'', ''execution'', ''orbit_intent'', ''pricing'', ''release_request'', ''request_id'', ''resources'',
      ''runtime_request'', ''schema_version'', ''submitted_region'']"

definition legacyRulesJson :: "legacy_rules \<Rightarrow> json" where
  "legacyRulesJson r = JObj
     [(jstr ''max_total_cost_usd'', jint (lu_max_total_cost_usd r)),
      (jstr ''allow_auto_scale'', JBool (lu_allow_auto_scale r)),
      (jstr ''max_gpu_count'', jint (lu_max_gpu_count r)),
      (jstr ''max_hours'', jint (lu_max_hours r)),
      (jstr ''require_manual_approval_above_usd'', jint (lu_require_manual_approval_above_usd r))]"

definition buildPolicyPayload :: "policy_object \<Rightarrow> json" where
  "buildPolicyPayload p = JObj
     [(jstr ''schema_version'', JStr (po_schema_version p)),
      (jstr ''policy_version'', JStr (po_policy_version p)),
      (jstr ''allowed_request_keys'', JArr (map JStr (sort (po_allowed_request_keys p)))),
      (jstr ''rules'', legacyRulesJson (po_rules p))]"

definition requestKeys :: "request_object \<Rightarrow> jsstring list" where
  "requestKeys q = (case requestJson q of JObj ps \<Rightarrow> objectKeys ps | _ \<Rightarrow> [])"

definition keyIdFromPublicKey :: "host \<Rightarrow> jsstring \<Rightarrow> jsstring" where
  "keyIdFromPublicKey h publicKeyHex = take 16 (sha256Hex h (hexDecode publicKeyHex))"

definition trustReasons :: "host \<Rightarrow> policy_object \<Rightarrow> request_object \<Rightarrow> jsstring \<Rightarrow> jsstring list" where
  "trustReasons h p q pinnedPolicyVersion =
     (let trust = po_trust p; keys = po_allowed_request_keys p; derivedKeyId = keyIdFromPublicKey h (lt_signing_public_key trust)
      in reasonIf (po_schema_version p \<noteq> jstr ''mnde.policy.v1'')
           (jstr ''policy.schema_version='' @ po_schema_version p @ jstr '' does not match mnde.policy.v1'') @
         reasonIf (po_policy_version p \<noteq> pinnedPolicyVersion)
           (jstr ''policy.policy_version='' @ po_policy_version p @ jstr '' does not match pinned version '' @ pinnedPolicyVersion) @
         reasonIf (lt_key_version trust \<noteq> jstr ''ed25519.v1'')
           (jstr ''policy.trust.key_version='' @ lt_key_version trust @ jstr '' does not match ed25519.v1'') @
         reasonIf (length (remdups keys) \<noteq> length keys) (jstr ''policy.allowed_request_keys contains duplicates'') @
         map (\<lambda>k. jstr ''policy.allowed_request_keys contains unsupported key '' @ k)
           (filter (\<lambda>k. k \<notin> set allowedRequestKeys) keys) @
         map (\<lambda>k. jstr ''request_object key '' @ k @ jstr '' is not allowed by policy.allowed_request_keys'')
           (filter (\<lambda>k. k \<notin> set keys) (requestKeys q)) @
         reasonIf (derivedKeyId \<noteq> lt_key_id trust)
           (jstr ''policy.trust.key_id='' @ lt_key_id trust @ jstr '' does not match derived key id '' @ derivedKeyId) @
         (case Option.bind (canonicalizeJson (buildPolicyPayload p)) (\<lambda>text.
                 hs_policyVerify h (ed25519SpkiPrefix @ hexDecode (lt_signing_public_key trust)) (utf8Encode text)
                   (hexDecode (lt_signature trust))) of
            None \<Rightarrow> [jstr ''policy signature verification raised an error'']
          | Some ok \<Rightarrow> reasonIf (\<not> ok) (jstr ''policy signature verification failed'')))"

definition verifyPolicyTrust :: "host \<Rightarrow> policy_object \<Rightarrow> request_object \<Rightarrow> jsstring \<Rightarrow> policy_trust_result option" where
  "verifyPolicyTrust h p q pinnedPolicyVersion =
     map_option
       (\<lambda>hash. let reasons = trustReasons h p q pinnedPolicyVersion
          in \<lparr>tr_trusted = (reasons = []), tr_policy_hash = hash, tr_reasons = reasons,
              tr_key_id = lt_key_id (po_trust p), tr_policy_version = po_policy_version p\<rparr>)
       (hashCanonicalJson h (buildPolicyPayload p))"

section \<open>Release control\<close>

datatype decision_state = StateAllow | StateRefuse | StateHold

fun decisionStateText :: "decision_state \<Rightarrow> jsstring" where
  "decisionStateText StateAllow = jstr ''ALLOW''"
| "decisionStateText StateRefuse = jstr ''REFUSE''"
| "decisionStateText StateHold = jstr ''HOLD''"

record arm_result =
  ar_decision :: decision_state
  ar_reasons :: "jsstring list"
  ar_release_hash :: jsstring
  ar_projected_total_cost_usd :: int
  ar_allowed_cost_usd :: int
  ar_prevented_cost_usd :: int

definition retryMultiplier :: "request_object \<Rightarrow> int" where
  "retryMultiplier q =
     (if ex_retry_on_fail (rq_execution q) then jadd (ex_max_retries (rq_execution q)) 1 else 1)"

definition totalCost :: "request_object \<Rightarrow> int" where
  "totalCost q =
     (let res = rq_resources q; ex = rq_execution q;
          baseCost = jmul (jmul (rs_gpu_count res) (rs_hours res)) (rq_gpu_hour_usd q);
          scaledCost = jmul baseCost (if ex_auto_scale ex then ex_max_scale_multiplier ex else 1)
      in jmul scaledCost (retryMultiplier q))"

definition releaseReasons ::
  "request_object \<Rightarrow> orbit_validation \<Rightarrow> policy_trust_result \<Rightarrow> legacy_rules \<Rightarrow> jsstring list" where
  "releaseReasons q orbit trust rules =
     (let res = rq_resources q; ex = rq_execution q; total = totalCost q
      in reasonIf (\<not> ov_pass orbit) (jstr ''orbit validation failed with reason '' @ orbitReasonText (ov_reason orbit)) @
         reasonIf (\<not> tr_trusted trust) (jstr ''policy trust did not pass'') @
         reasonIf (ex_auto_scale ex \<and> \<not> lu_allow_auto_scale rules)
           (jstr ''request.execution.auto_scale='' @ boolText (ex_auto_scale ex) @
            jstr '' violates policy.allow_auto_scale='' @ boolText (lu_allow_auto_scale rules)) @
         reasonIf (rs_gpu_count res > lu_max_gpu_count rules)
           (jstr ''request.resources.gpu_count='' @ numberText (rs_gpu_count res) @
            jstr '' exceeds policy.max_gpu_count='' @ numberText (lu_max_gpu_count rules)) @
         reasonIf (rs_hours res > lu_max_hours rules)
           (jstr ''request.resources.hours='' @ numberText (rs_hours res) @
            jstr '' exceeds policy.max_hours='' @ numberText (lu_max_hours rules)) @
         reasonIf (ex_retry_on_fail ex)
           (jstr ''request.execution.retry_on_fail='' @ boolText (ex_retry_on_fail ex) @
            jstr '' with max_retries='' @ numberText (ex_max_retries ex) @
            jstr '' multiplies projected exposure by '' @ numberText (retryMultiplier q)) @
         reasonIf (total > lu_max_total_cost_usd rules)
           (jstr ''projected_total_cost_usd='' @ numberText total @
            jstr '' exceeds policy.max_total_cost_usd='' @ numberText (lu_max_total_cost_usd rules)) @
         reasonIf (rr_already_consumed (rq_release_request q))
           (jstr ''release request is already consumed and cannot be executed again''))"

definition releaseJson :: "request_object \<Rightarrow> json" where
  "releaseJson q = JObj
     [(jstr ''execution_id'', JStr (rr_execution_id (rq_release_request q))),
      (jstr ''hold_state'', JStr (rr_hold_state (rq_release_request q))),
      (jstr ''already_consumed'', JBool (rr_already_consumed (rq_release_request q))),
      (jstr ''one_shot_execution'', JBool True)]"

definition needsApproval :: "request_object \<Rightarrow> legacy_rules \<Rightarrow> bool" where
  "needsApproval q rules \<longleftrightarrow>
     totalCost q > lu_require_manual_approval_above_usd rules \<and>
     rr_hold_state (rq_release_request q) \<noteq> jstr ''APPROVED''"

definition evaluateReleaseControl ::
  "host \<Rightarrow> request_object \<Rightarrow> orbit_validation \<Rightarrow> policy_trust_result \<Rightarrow> legacy_rules \<Rightarrow> arm_result option" where
  "evaluateReleaseControl h q orbit trust rules =
     map_option
       (\<lambda>releaseHash.
          let reasons = releaseReasons q orbit trust rules; total = totalCost q;
              result = (\<lambda>d rs. \<lparr>ar_decision = d, ar_reasons = rs, ar_release_hash = releaseHash,
                 ar_projected_total_cost_usd = total, ar_allowed_cost_usd = lu_max_total_cost_usd rules,
                 ar_prevented_cost_usd = max (jsub total (lu_max_total_cost_usd rules)) 0\<rparr>)
          in if reasons \<noteq> [] then result StateRefuse reasons
             else if needsApproval q rules
             then result StateHold
               [jstr ''projected_total_cost_usd='' @ numberText total @
                  jstr '' exceeds policy.require_manual_approval_above_usd='' @
                  numberText (lu_require_manual_approval_above_usd rules),
                jstr ''release.hold_state='' @ rr_hold_state (rq_release_request q) @ jstr '' is not APPROVED'']
             else result StateAllow [])
       (hashCanonicalJson h (releaseJson q))"

section \<open>Runtime refusal\<close>

record ramona_result =
  rm_decision :: decision
  rm_reasons :: "jsstring list"
  rm_runtime_hash :: jsstring

definition runtimeReasons :: "request_object \<Rightarrow> jsstring \<Rightarrow> jsstring \<Rightarrow> int \<Rightarrow> int \<Rightarrow> jsstring list" where
  "runtimeReasons q requestHash policyDigest projectedTotalCostUsd maxTotalCostUsd =
     (let r = rq_runtime_request q; res = rq_resources q
      in reasonIf (lr_kill_switch_active r) (jstr ''runtime kill switch is active'') @
         reasonIf (lr_observed_request_hash r \<noteq> requestHash)
           (jstr ''runtime.observed_request_hash='' @ lr_observed_request_hash r @
            jstr '' does not match request_hash='' @ requestHash) @
         reasonIf (lr_observed_policy_hash r \<noteq> policyDigest)
           (jstr ''runtime.observed_policy_hash='' @ lr_observed_policy_hash r @
            jstr '' does not match policy_hash='' @ policyDigest) @
         reasonIf (lr_actual_gpu_count r > rs_gpu_count res)
           (jstr ''runtime.actual_gpu_count='' @ numberText (lr_actual_gpu_count r) @
            jstr '' exceeds requested gpu_count='' @ numberText (rs_gpu_count res)) @
         reasonIf (lr_actual_hours r > rs_hours res)
           (jstr ''runtime.actual_hours='' @ numberText (lr_actual_hours r) @
            jstr '' exceeds requested hours='' @ numberText (rs_hours res)) @
         reasonIf (lr_actual_total_cost_usd r > projectedTotalCostUsd)
           (jstr ''runtime.actual_total_cost_usd='' @ numberText (lr_actual_total_cost_usd r) @
            jstr '' exceeds projected_total_cost_usd='' @ numberText projectedTotalCostUsd) @
         reasonIf (lr_actual_total_cost_usd r > maxTotalCostUsd)
           (jstr ''runtime.actual_total_cost_usd='' @ numberText (lr_actual_total_cost_usd r) @
            jstr '' exceeds policy.max_total_cost_usd='' @ numberText maxTotalCostUsd))"

definition evaluateRuntimeRefusal ::
  "host \<Rightarrow> request_object \<Rightarrow> jsstring \<Rightarrow> jsstring \<Rightarrow> int \<Rightarrow> int \<Rightarrow> ramona_result option" where
  "evaluateRuntimeRefusal h q requestHash policyDigest projectedTotalCostUsd maxTotalCostUsd =
     map_option
       (\<lambda>runtimeHash.
          let reasons = runtimeReasons q requestHash policyDigest projectedTotalCostUsd maxTotalCostUsd
          in \<lparr>rm_decision = (if reasons = [] then Allow else Refuse), rm_reasons = reasons, rm_runtime_hash = runtimeHash\<rparr>)
       (hashCanonicalJson h (runtimeJson (rq_runtime_request q)))"

section \<open>The pipeline\<close>

record decision_object =
  dc_decision :: decision_state
  dc_reasons :: "jsstring list"
  dc_request_hash :: jsstring
  dc_policy_hash :: jsstring
  dc_validation_hash :: jsstring
  dc_projected_total_cost_usd :: int
  dc_allowed_cost_usd :: int
  dc_prevented_cost_usd :: int
  dc_policy_version :: jsstring
  dc_release_hash :: "jsstring option"
  dc_runtime_hash :: "jsstring option"
  dc_decision_hash :: jsstring

definition orNull :: "jsstring option \<Rightarrow> json" where
  "orNull v = (case v of None \<Rightarrow> JNull | Some s \<Rightarrow> JStr s)"

definition decisionJson :: "decision_object \<Rightarrow> json" where
  "decisionJson d = JObj
     [(jstr ''schema_version'', JStr (jstr ''mnde.decision.v1'')),
      (jstr ''decision'', JStr (decisionStateText (dc_decision d))),
      (jstr ''reasons'', JArr (map JStr (dc_reasons d))),
      (jstr ''request_hash'', JStr (dc_request_hash d)),
      (jstr ''policy_hash'', JStr (dc_policy_hash d)),
      (jstr ''validation_hash'', JStr (dc_validation_hash d)),
      (jstr ''projected_total_cost_usd'', jint (dc_projected_total_cost_usd d)),
      (jstr ''allowed_cost_usd'', jint (dc_allowed_cost_usd d)),
      (jstr ''prevented_cost_usd'', jint (dc_prevented_cost_usd d)),
      (jstr ''policy_version'', JStr (dc_policy_version d)),
      (jstr ''release_hash'', orNull (dc_release_hash d)),
      (jstr ''runtime_hash'', orNull (dc_runtime_hash d))]"

definition buildDecisionObject :: "host \<Rightarrow> decision_object \<Rightarrow> decision_object option" where
  "buildDecisionObject h input =
     map_option (\<lambda>decisionHash. input\<lparr>dc_decision_hash := decisionHash\<rparr>) (hashCanonicalJson h (decisionJson input))"

record mnde_result =
  mn_request_object :: request_object
  mn_policy_object :: policy_object
  mn_decision_object :: decision_object
  mn_orbit_result :: orbit_validation
  mn_policy_trust_result :: policy_trust_result
  mn_arm_result :: arm_result
  mn_ramona_result :: "ramona_result option"

definition decisionInput ::
  "preflight_result \<Rightarrow> orbit_validation \<Rightarrow> policy_trust_result \<Rightarrow> arm_result \<Rightarrow> decision_state \<Rightarrow> jsstring list \<Rightarrow>
     jsstring option \<Rightarrow> decision_object" where
  "decisionInput pf orbit trust arm d reasons runtimeHash =
     \<lparr>dc_decision = d, dc_reasons = reasons, dc_request_hash = pf_request_hash pf, dc_policy_hash = tr_policy_hash trust,
      dc_validation_hash = ov_validation_hash orbit,
      dc_projected_total_cost_usd = ar_projected_total_cost_usd arm, dc_allowed_cost_usd = ar_allowed_cost_usd arm,
      dc_prevented_cost_usd = ar_prevented_cost_usd arm, dc_policy_version = tr_policy_version trust,
      dc_release_hash = Some (ar_release_hash arm), dc_runtime_hash = runtimeHash, dc_decision_hash = []\<rparr>"

definition setPolicyHash :: "jsstring \<Rightarrow> request_object \<Rightarrow> request_object" where
  "setPolicyHash hash q =
     q\<lparr>rq_runtime_request := (rq_runtime_request q)\<lparr>lr_observed_policy_hash := hash\<rparr>\<rparr>"

definition orThrow :: "'a option \<Rightarrow> ('a \<Rightarrow> legacy_error + 'b) \<Rightarrow> legacy_error + 'b" where
  "orThrow v k = needSome OtherError v k"

definition runMndePipeline :: "host \<Rightarrow> jsstring \<Rightarrow> jsstring \<Rightarrow> legacy_error + mnde_result" where
  "runMndePipeline h rawInput pinnedPolicyVersion =
     bindE (runPreflight h rawInput) (\<lambda>pf.
     orThrow (validateOrbitIntent h (JObj (legacyOrbitFields (rq_orbit_intent (pf_request_object pf))))) (\<lambda>orbit.
     orThrow (verifyPolicyTrust h (pf_policy_object pf) (pf_request_object pf) pinnedPolicyVersion) (\<lambda>trust.
     let request = setPolicyHash (tr_policy_hash trust) (pf_request_object pf);
         policyRules = po_rules (pf_policy_object pf)
     in orThrow (evaluateReleaseControl h request orbit trust policyRules) (\<lambda>arm.
        let result = (\<lambda>d ramona. \<lparr>mn_request_object = request, mn_policy_object = pf_policy_object pf,
              mn_decision_object = d, mn_orbit_result = orbit, mn_policy_trust_result = trust, mn_arm_result = arm,
              mn_ramona_result = ramona\<rparr>)
        in if \<not> ov_pass orbit \<or> \<not> tr_trusted trust \<or> ar_decision arm \<noteq> StateAllow
           then orThrow (buildDecisionObject h (decisionInput pf orbit trust arm
               (if \<not> ov_pass orbit \<or> \<not> tr_trusted trust then StateRefuse else ar_decision arm)
               (reasonIf (\<not> ov_pass orbit) (jstr ''orbit.reason='' @ orbitReasonText (ov_reason orbit)) @
                tr_reasons trust @ ar_reasons arm) None))
             (\<lambda>d. Inr (result d None))
           else
             orThrow (evaluateRuntimeRefusal h request (pf_request_hash pf) (tr_policy_hash trust)
               (ar_projected_total_cost_usd arm) (lu_max_total_cost_usd policyRules)) (\<lambda>ramona.
             orThrow (buildDecisionObject h (decisionInput pf orbit trust arm
               (if rm_decision ramona = Allow then StateAllow else StateRefuse) (rm_reasons ramona)
               (Some (rm_runtime_hash ramona))))
             (\<lambda>d. Inr (result d (Some ramona))))))))"

end
