(* ===== verification/LegacyProps.thy ===== *)
theory LegacyProps
  imports LegacyCore StrictArm
begin

text \<open>
  The properties of the first-generation core: its preflight fails closed, its decision is an exact function of the
  request, the policy and the observation, and a projected cost that is no safe integer makes it throw
  instead of refusing.
\<close>

section \<open>What the preflight lets through\<close>

lemma expectObject_Inr: "expectObject v m = Inr ps \<longleftrightarrow> v = Some (JObj ps)"
  by (auto simp: expectObject_def asRecord_eq_Some split: option.splits)

lemma expectStringAt_Inr: "expectStringAt obj k = Inr s \<longleftrightarrow> map_of obj (jstr k) = Some (JStr s) \<and> s \<noteq> []"
  by (auto simp: expectStringAt_def split: option.splits json.splits)

lemma safeIntegerOf_safe: "safeIntegerOf v = Some i \<Longrightarrow> isSafeInteger i"
  by (cases v rule: safeIntegerOf.cases) (auto simp: isSafeInteger_def maxSafe_def split: if_splits)

lemma expectPositiveInteger_Inr: "expectPositiveInteger obj k = Inr i \<Longrightarrow> 1 \<le> i \<and> isSafeInteger i"
  using safeIntegerOf_safe by (auto simp: expectPositiveInteger_def split: option.splits if_splits)

lemma expectNonNegativeInteger_Inr: "expectNonNegativeInteger obj k = Inr i \<Longrightarrow> 0 \<le> i \<and> isSafeInteger i"
  using safeIntegerOf_safe by (auto simp: expectNonNegativeInteger_def split: option.splits if_splits)

lemmas expect_Inr = expectObject_Inr expectStringAt_Inr
lemmas expect_numbers = expectPositiveInteger_Inr expectNonNegativeInteger_Inr

definition legacyOrbitOk :: "legacy_orbit \<Rightarrow> bool" where
  "legacyOrbitOk i \<longleftrightarrow> lo_action i \<noteq> [] \<and> lo_boundary i \<noteq> [] \<and> lo_signatures i \<noteq> [] \<and> wfJson (JObj (lo_payload i)) \<and>
     (case lo_ext i of None \<Rightarrow> True | Some e \<Rightarrow> wfJson (JObj e))"

lemma parseOrbitSignatures_Nil: "parseOrbitSignatures n items = Inr sigs \<Longrightarrow> sigs = [] \<longleftrightarrow> items = []"
  by (cases items) (auto simp: guard_Inr Let_def)

lemma nonEmptyArray_Inr: "nonEmptyArray v m = Inr vs \<longleftrightarrow> v = Some (JArr vs) \<and> vs \<noteq> []"
  by (auto simp: nonEmptyArray_def split: option.splits json.splits)

lemma parseOrbitExt_Inr: "parseOrbitExt v = Inr e \<longleftrightarrow> v = map_option JObj e"
  by (cases v; cases e) (auto simp: parseOrbitExt_def guard_Inr expect_Inr)

lemma parseOrbitIntent_ok:
  assumes "parseOrbitIntent obj = Inr i" "wfJson (JObj obj)"
  shows "legacyOrbitOk i"
proof -
  from assms(1) show ?thesis
    unfolding parseOrbitIntent_def guard_Inr expect_Inr nonEmptyArray_Inr parseOrbitExt_Inr
  proof (elim exE conjE)
    fix payload items sigs ext v action boundary st
    assume p: "map_of obj (jstr ''payload'') = Some (JObj payload)" "items \<noteq> []" "parseOrbitSignatures 0 items = Inr sigs"
      "map_of obj (jstr ''ext'') = map_option JObj ext" "action \<noteq> []" "boundary \<noteq> []"
      and i: "Inr \<lparr>lo_orbit_version = v, lo_action = action, lo_boundary = boundary, lo_payload = payload,
          lo_lifecycle_state = st, lo_signatures = sigs, lo_ext = ext\<rparr> = Inr i"
    have "wfJson (JObj payload)" by (rule wfJson_lookup [OF assms(2) p(1)])
    moreover have "wfJson (JObj e)" if "ext = Some e" for e
      by (rule wfJson_lookup [OF assms(2), of "jstr ''ext''"]) (simp add: p(4) that)
    ultimately show ?thesis
      using p parseOrbitSignatures_Nil i by (auto simp: legacyOrbitOk_def simp del: wfJson.simps split: option.splits)
  qed
qed

definition legacyRulesOk :: "legacy_rules \<Rightarrow> bool" where
  "legacyRulesOk r \<longleftrightarrow> isSafeInteger (lu_max_total_cost_usd r) \<and> 1 \<le> lu_max_total_cost_usd r \<and>
     isSafeInteger (lu_max_gpu_count r) \<and> isSafeInteger (lu_max_hours r) \<and>
     isSafeInteger (lu_require_manual_approval_above_usd r)"

lemma parseLegacyRules_ok: "parseLegacyRules obj = Inr r \<Longrightarrow> legacyRulesOk r"
  unfolding parseLegacyRules_def guard_Inr by (elim exE conjE) (auto simp: legacyRulesOk_def dest!: expect_numbers)

lemma parsePolicyObject_ok: "parsePolicyObject obj = Inr p \<Longrightarrow> legacyRulesOk (po_rules p)"
  unfolding parsePolicyObject_def guard_Inr by (elim exE conjE) (auto dest: parseLegacyRules_ok)

definition envelopeOk :: "preflight_envelope \<Rightarrow> bool" where
  "envelopeOk e \<longleftrightarrow>
     (let res = pv_resources e; ex = pv_execution e
      in 1 \<le> rs_gpu_count res \<and> isSafeInteger (rs_gpu_count res) \<and> 1 \<le> rs_hours res \<and> isSafeInteger (rs_hours res) \<and>
         1 \<le> pv_gpu_hour_usd e \<and> isSafeInteger (pv_gpu_hour_usd e) \<and>
         1 \<le> ex_max_scale_multiplier ex \<and> isSafeInteger (ex_max_scale_multiplier ex) \<and>
         0 \<le> ex_max_retries ex \<and> isSafeInteger (ex_max_retries ex) \<and>
         isSafeInteger (pv_actual_gpu_count e) \<and> isSafeInteger (pv_actual_hours e) \<and>
         isSafeInteger (pv_actual_total_cost_usd e) \<and> legacyOrbitOk (pv_orbit e) \<and> legacyRulesOk (po_rules (pv_policy e)))"

lemma envelopeFields_ok:
  assumes "envelopeFields r = Inr e" "wfJson (JObj (vr_orbit r))"
  shows "envelopeOk e"
  using assms(1) unfolding envelopeFields_def guard_Inr
  by (elim exE conjE)
    (auto simp: envelopeOk_def dest!: expect_numbers parsePolicyObject_ok parseOrbitIntent_ok [OF _ assms(2)])

lemma parseEnvelope_ok:
  assumes "parseEnvelope raw = Inr e"
  shows "envelopeOk e"
proof -
  from assms obtain v rest r where parse: "parseStrictJson raw = ParseOk v rest" "envelopeRoots v = Inr r" "envelopeFields r = Inr e"
    by (auto simp: parseEnvelope_def guard_Inr split: parse_result.splits)
  then have wf: "wfJson v" by (intro parseStrictJson_wf)
  from parse(2) obtain top where "v = JObj top" "map_of top (jstr ''orbit'') = Some (JObj (vr_orbit r))"
    by (auto simp: envelopeRoots_def guard_Inr expect_Inr)
  with wf wfJson_lookup have "wfJson (JObj (vr_orbit r))" by metis
  with parse(3) show ?thesis by (rule envelopeFields_ok)
qed

section \<open>Hashes that exist\<close>

lemma wfJson_legacyOrbit: "legacyOrbitOk i \<Longrightarrow> wfJson (JObj (legacyOrbitFields i))"
  by (auto simp: legacyOrbitOk_def legacyOrbitFields_def optField_def signatureJson_def split: option.splits)

definition runtimeOk :: "legacy_runtime \<Rightarrow> bool" where
  "runtimeOk r \<longleftrightarrow> isSafeInteger (lr_actual_gpu_count r) \<and> isSafeInteger (lr_actual_hours r) \<and>
     isSafeInteger (lr_actual_total_cost_usd r)"

lemma wfJson_runtime: "runtimeOk r \<Longrightarrow> wfJson (runtimeJson r)"
  by (simp add: runtimeOk_def runtimeJson_def jint_def)

lemma wfJson_request: "envelopeOk e \<Longrightarrow> wfJson (requestJson (envelopeRequest e))"
  using wfJson_legacyOrbit [of "pv_orbit e"]
  by (simp add: envelopeOk_def envelopeRequest_def requestJson_def runtimeJson_def jint_def Let_def)

lemma wfJson_legacyPayload: "legacyRulesOk (po_rules p) \<Longrightarrow> wfJson (buildPolicyPayload p)"
  by (auto simp: buildPolicyPayload_def legacyRulesJson_def legacyRulesOk_def jint_def)

lemma wfJson_release: "wfJson (releaseJson q)"
  by (simp add: releaseJson_def)

lemma runPreflight_Inr:
  assumes "runPreflight h raw = Inr pf"
  obtains e where "parseEnvelope raw = Inr e" "envelopeOk e" "pf_policy_object pf = pv_policy e"
    "pf_request_hash pf = sha256Text h (canonicalText (requestJson (envelopeRequest e)))"
    "pf_request_object pf = setRequestHash (pf_request_hash pf) (envelopeRequest e)"
proof -
  from assms obtain e where e: "parseEnvelope raw = Inr e" by (auto simp: runPreflight_def guard_Inr)
  note ok = parseEnvelope_ok [OF e]
  from assms have "pf = \<lparr>pf_request_object = setRequestHash (sha256Text h (canonicalText (requestJson (envelopeRequest e)))) (envelopeRequest e),
      pf_policy_object = pv_policy e, pf_request_hash = sha256Text h (canonicalText (requestJson (envelopeRequest e)))\<rparr>"
    by (simp add: runPreflight_def e hashCanonicalJson_wf [OF wfJson_request [OF ok]])
  with that e ok show ?thesis by simp
qed

section \<open>The cost\<close>

definition exactTotal :: "request_object \<Rightarrow> int" where
  "exactTotal q =
     rs_gpu_count (rq_resources q) * rs_hours (rq_resources q) * rq_gpu_hour_usd q *
     (if ex_auto_scale (rq_execution q) then ex_max_scale_multiplier (rq_execution q) else 1) *
     (if ex_retry_on_fail (rq_execution q) then ex_max_retries (rq_execution q) + 1 else 1)"

text \<open>A chain of rounded products of positive factors is exact while the product is safe, and unsafe when it is not.\<close>

definition tracks :: "int \<Rightarrow> int \<Rightarrow> bool" where
  "tracks r x \<longleftrightarrow> 1 \<le> x \<and> 1 \<le> r \<and> (if isSafeInteger x then r = x else maxSafe < r)"

lemma tracks_self: "1 \<le> x \<Longrightarrow> isSafeInteger x \<Longrightarrow> tracks x x"
  by (simp add: tracks_def)

lemma tracks_mult:
  assumes "tracks r x" "1 \<le> y"
  shows "tracks (jmul r y) (x * y)"
proof -
  have x: "1 \<le> x" "1 \<le> r" using assms(1) by (simp_all add: tracks_def)
  have xy: "1 \<le> x * y" by (rule pos_mult [OF x(1) assms(2)])
  have "r * 1 \<le> r * y" using x assms(2) by (intro mult_left_mono) simp_all
  then have r: "r \<le> r * y" by simp
  show ?thesis
  proof (cases "isSafeInteger (x * y)")
    case True
    then have "isSafeInteger x" by (rule safe_factor [OF x(1) assms(2)])
    with assms(1) have "r = x" by (simp add: tracks_def)
    with True xy show ?thesis by (simp add: tracks_def jmul_def fl_safe)
  next
    case False
    then have big: "maxSafe < x * y" using xy by (auto simp: isSafeInteger_def maxSafe_def)
    have "maxSafe < r * y"
    proof (cases "isSafeInteger x")
      case True
      with assms(1) big show ?thesis by (simp add: tracks_def)
    next
      case False
      with assms(1) have "maxSafe < r" by (simp add: tracks_def)
      with r show ?thesis by linarith
    qed
    then have "maxSafe < jmul r y" unfolding jmul_def by (rule fl_unsafe_pos)
    with False xy show ?thesis by (auto simp: tracks_def maxSafe_def)
  qed
qed

lemma tracks_safe: "tracks r x \<Longrightarrow> isSafeInteger r \<longleftrightarrow> isSafeInteger x"
  by (auto simp: tracks_def isSafeInteger_def split: if_splits)

lemma totalCost_tracks:
  assumes "envelopeOk e" "rq_resources q = pv_resources e" "rq_gpu_hour_usd q = pv_gpu_hour_usd e" "rq_execution q = pv_execution e"
  shows "tracks (totalCost q) (exactTotal q)"
proof -
  let ?m = "if ex_auto_scale (rq_execution q) then ex_max_scale_multiplier (rq_execution q) else 1"
  let ?k = "if ex_retry_on_fail (rq_execution q) then ex_max_retries (rq_execution q) + 1 else 1"
  have k: "retryMultiplier q = ?k"
    using assms by (simp add: retryMultiplier_def envelopeOk_def Let_def jadd_one)
  have pos: "1 \<le> rs_hours (rq_resources q)" "1 \<le> rq_gpu_hour_usd q" "1 \<le> ?m" "1 \<le> ?k"
    "1 \<le> rs_gpu_count (rq_resources q)" "isSafeInteger (rs_gpu_count (rq_resources q))"
    using assms by (simp_all add: envelopeOk_def Let_def)
  show ?thesis
    unfolding totalCost_def exactTotal_def Let_def k
    by (intro tracks_mult [OF tracks_mult [OF tracks_mult [OF tracks_mult [OF tracks_self]]]] pos)
qed

section \<open>The layers on what the preflight lets through\<close>

lemma validSignature_signatureJson: "isValidSignatureRecord (signatureJson sg)"
  by (simp add: signatureJson_def)

definition legacyArmed :: "legacy_orbit \<Rightarrow> bool" where
  "legacyArmed i \<longleftrightarrow> lo_orbit_version i = jstr ''2.0'' \<and> lo_lifecycle_state i = jstr ''ARMED''"

lemma orbitReasonOf_legacy:
  assumes "legacyOrbitOk i"
  shows "orbitReasonOf (legacyOrbitFields i) = Authorized \<longleftrightarrow> legacyArmed i"
  using assms
  by (auto simp: orbitReasonOf_def legacyArmed_def legacyOrbitOk_def legacyOrbitFields_def optField_def objectKeys_def
      forbiddenCompositionKeys_def allowedTopLevelKeys_def requiredTopLevelKeys_def lifecycleStates_def
      list_ex_iff validSignature_signatureJson split: option.splits)

lemma validateOrbitIntent_legacy:
  assumes "legacyOrbitOk i"
  obtains v where "validateOrbitIntent h (JObj (legacyOrbitFields i)) = Some v" "ov_pass v \<longleftrightarrow> legacyArmed i"
proof -
  have "wfJson (JObj (filter (\<lambda>p. fst p \<noteq> jstr ''ext'') (legacyOrbitFields i)))"
    using wfJson_legacyOrbit [OF assms] by (auto simp: distinct_map_filter)
  then have "validateOrbitIntent h (JObj (legacyOrbitFields i)) =
      Some (buildResult (orbitReasonOf (legacyOrbitFields i))
        (sha256Text h (canonicalText (JObj (filter (\<lambda>p. fst p \<noteq> jstr ''ext'') (legacyOrbitFields i))))))"
    by (simp add: validateOrbitIntent_def hashCanonicalJson_wf)
  with that orbitReasonOf_legacy [OF assms] show ?thesis by (simp add: buildResult_def)
qed

definition withinPolicy :: "request_object \<Rightarrow> legacy_rules \<Rightarrow> bool" where
  "withinPolicy q rules \<longleftrightarrow>
     (ex_auto_scale (rq_execution q) \<longrightarrow> lu_allow_auto_scale rules) \<and>
     rs_gpu_count (rq_resources q) \<le> lu_max_gpu_count rules \<and> rs_hours (rq_resources q) \<le> lu_max_hours rules \<and>
     \<not> ex_retry_on_fail (rq_execution q) \<and> exactTotal q \<le> lu_max_total_cost_usd rules \<and>
     \<not> rr_already_consumed (rq_release_request q)"

definition approved :: "request_object \<Rightarrow> legacy_rules \<Rightarrow> bool" where
  "approved q rules \<longleftrightarrow>
     exactTotal q \<le> lu_require_manual_approval_above_usd rules \<or>
     rr_hold_state (rq_release_request q) = jstr ''APPROVED''"

definition observedWithin :: "request_object \<Rightarrow> legacy_rules \<Rightarrow> bool" where
  "observedWithin q rules \<longleftrightarrow>
     (let r = rq_runtime_request q
      in \<not> lr_kill_switch_active r \<and> lr_actual_gpu_count r \<le> rs_gpu_count (rq_resources q) \<and>
         lr_actual_hours r \<le> rs_hours (rq_resources q) \<and> lr_actual_total_cost_usd r \<le> exactTotal q \<and>
         lr_actual_total_cost_usd r \<le> lu_max_total_cost_usd rules)"

lemma reasonIf_Nil [simp]: "reasonIf c t = [] \<longleftrightarrow> \<not> c" "[] = reasonIf c t \<longleftrightarrow> \<not> c"
  by (auto simp: reasonIf_def)

lemma releaseReasons_Nil:
  assumes "totalCost q = exactTotal q"
  shows "releaseReasons q orbit trust rules = [] \<longleftrightarrow> ov_pass orbit \<and> tr_trusted trust \<and> withinPolicy q rules"
  by (auto simp: releaseReasons_def withinPolicy_def Let_def assms)

lemma runtimeReasons_Nil:
  "runtimeReasons q rh ph projected maximum = [] \<longleftrightarrow>
     lr_observed_request_hash (rq_runtime_request q) = rh \<and> lr_observed_policy_hash (rq_runtime_request q) = ph \<and>
     \<not> lr_kill_switch_active (rq_runtime_request q) \<and>
     lr_actual_gpu_count (rq_runtime_request q) \<le> rs_gpu_count (rq_resources q) \<and>
     lr_actual_hours (rq_runtime_request q) \<le> rs_hours (rq_resources q) \<and>
     lr_actual_total_cost_usd (rq_runtime_request q) \<le> projected \<and>
     lr_actual_total_cost_usd (rq_runtime_request q) \<le> maximum"
  by (auto simp: runtimeReasons_def Let_def)

lemma decisionJson_wf:
  assumes "isSafeInteger (dc_projected_total_cost_usd d)" "isSafeInteger (dc_allowed_cost_usd d)"
    "isSafeInteger (dc_prevented_cost_usd d)"
  shows "wfJson (decisionJson d)"
  using assms by (auto simp: decisionJson_def jint_def orNull_def split: option.splits)

section \<open>The pipeline\<close>

lemma orThrow_Some [simp]: "orThrow (Some x) k = k x"
  by (simp add: orThrow_def needSome_def)

lemma orThrow_None [simp]: "orThrow None k = Inl OtherError"
  by (simp add: orThrow_def needSome_def)

definition legacyDecision :: "host \<Rightarrow> jsstring \<Rightarrow> preflight_result \<Rightarrow> decision_state" where
  "legacyDecision h pin pf =
     (let q = pf_request_object pf; rules = po_rules (pf_policy_object pf)
      in if \<not> legacyArmed (rq_orbit_intent q) \<or> trustReasons h (pf_policy_object pf) q pin \<noteq> [] \<or> \<not> withinPolicy q rules
         then StateRefuse
         else if \<not> approved q rules then StateHold
         else if observedWithin q rules then StateAllow else StateRefuse)"

lemma setPolicyHash_simps [simp]:
  "rq_resources (setPolicyHash ph q) = rq_resources q" "rq_execution (setPolicyHash ph q) = rq_execution q"
  "rq_gpu_hour_usd (setPolicyHash ph q) = rq_gpu_hour_usd q" "rq_release_request (setPolicyHash ph q) = rq_release_request q"
  "rq_orbit_intent (setPolicyHash ph q) = rq_orbit_intent q"
  "rq_runtime_request (setPolicyHash ph q) = (rq_runtime_request q)\<lparr>lr_observed_policy_hash := ph\<rparr>"
  by (simp_all add: setPolicyHash_def)

lemma setPolicyHash_cost [simp]:
  "exactTotal (setPolicyHash ph q) = exactTotal q" "totalCost (setPolicyHash ph q) = totalCost q"
  "withinPolicy (setPolicyHash ph q) rules = withinPolicy q rules"
  "observedWithin (setPolicyHash ph q) rules = observedWithin q rules"
  by (simp_all add: exactTotal_def totalCost_def retryMultiplier_def withinPolicy_def observedWithin_def Let_def)

text \<open>The four answers every run that passes the preflight computes before it decides.\<close>

lemma legacy_layers:
  assumes "runPreflight h raw = Inr pf"
  obtains e orbit trust arm q where
    "envelopeOk e" "pf_policy_object pf = pv_policy e" "q = setPolicyHash (tr_policy_hash trust) (pf_request_object pf)"
    "rq_resources q = pv_resources e" "rq_gpu_hour_usd q = pv_gpu_hour_usd e" "rq_execution q = pv_execution e"
    "lr_observed_request_hash (rq_runtime_request q) = pf_request_hash pf" "runtimeOk (rq_runtime_request q)"
    "validateOrbitIntent h (JObj (legacyOrbitFields (rq_orbit_intent (pf_request_object pf)))) = Some orbit"
    "ov_pass orbit \<longleftrightarrow> legacyArmed (rq_orbit_intent (pf_request_object pf))"
    "verifyPolicyTrust h (pf_policy_object pf) (pf_request_object pf) pin = Some trust"
    "tr_trusted trust \<longleftrightarrow> trustReasons h (pf_policy_object pf) (pf_request_object pf) pin = []"
    "evaluateReleaseControl h q orbit trust (po_rules (pf_policy_object pf)) = Some arm"
proof -
  from assms obtain e where e: "envelopeOk e" "pf_policy_object pf = pv_policy e"
    "pf_request_object pf = setRequestHash (pf_request_hash pf) (envelopeRequest e)"
    by (rule runPreflight_Inr)
  have q: "rq_orbit_intent (pf_request_object pf) = pv_orbit e" by (simp add: e(3) setRequestHash_def envelopeRequest_def)
  have "legacyOrbitOk (pv_orbit e)" using e(1) by (simp add: envelopeOk_def Let_def)
  then obtain orbit where orbit: "validateOrbitIntent h (JObj (legacyOrbitFields (pv_orbit e))) = Some orbit"
    "ov_pass orbit \<longleftrightarrow> legacyArmed (pv_orbit e)"
    by (rule validateOrbitIntent_legacy)
  have "legacyRulesOk (po_rules (pf_policy_object pf))" using e(1,2) by (simp add: envelopeOk_def Let_def)
  then obtain trust where trust: "verifyPolicyTrust h (pf_policy_object pf) (pf_request_object pf) pin = Some trust"
    "tr_trusted trust \<longleftrightarrow> trustReasons h (pf_policy_object pf) (pf_request_object pf) pin = []"
    by (simp add: verifyPolicyTrust_def hashCanonicalJson_wf [OF wfJson_legacyPayload] Let_def)
  let ?q = "setPolicyHash (tr_policy_hash trust) (pf_request_object pf)"
  obtain arm where arm: "evaluateReleaseControl h ?q orbit trust (po_rules (pf_policy_object pf)) = Some arm"
    by (simp add: evaluateReleaseControl_def hashCanonicalJson_wf [OF wfJson_release] Let_def)
  have "runtimeOk (rq_runtime_request ?q)"
    using e(1) by (simp add: e(3) setRequestHash_def envelopeRequest_def runtimeOk_def envelopeOk_def Let_def)
  with e orbit trust arm q show ?thesis
    by (intro that [of e ?q trust orbit arm]) (simp_all add: setRequestHash_def envelopeRequest_def)
qed

lemma jsub_safe:
  assumes "isSafeInteger x" "isSafeInteger y" "0 \<le> x" "0 \<le> y"
  shows "jsub x y = x - y"
  using assms by (simp add: jsub_def fl_safe isSafeInteger_def)

lemma prevented_safe:
  assumes "isSafeInteger x" "isSafeInteger y" "0 \<le> x" "0 \<le> y"
  shows "isSafeInteger (max (jsub x y) 0)"
  using assms by (auto simp: jsub_safe isSafeInteger_def max_def)

lemma evaluateReleaseControl_fields:
  assumes "evaluateReleaseControl h q orbit trust rules = Some arm"
  shows "ar_projected_total_cost_usd arm = totalCost q" "ar_allowed_cost_usd arm = lu_max_total_cost_usd rules"
    "ar_prevented_cost_usd arm = max (jsub (totalCost q) (lu_max_total_cost_usd rules)) 0"
    "ar_decision arm = (if releaseReasons q orbit trust rules \<noteq> [] then StateRefuse
       else if needsApproval q rules then StateHold else StateAllow)"
  using assms by (auto simp: evaluateReleaseControl_def Let_def split: if_splits)

lemma buildDecision_Some:
  assumes "isSafeInteger (dc_projected_total_cost_usd d)" "isSafeInteger (dc_allowed_cost_usd d)"
    "isSafeInteger (dc_prevented_cost_usd d)"
  obtains d' where "buildDecisionObject h d = Some d'" "dc_decision d' = dc_decision d"
    "dc_request_hash d' = dc_request_hash d" "dc_policy_hash d' = dc_policy_hash d"
  using that by (simp add: buildDecisionObject_def hashCanonicalJson_wf [OF decisionJson_wf [OF assms]])

lemma canonicalize_member_None:
  assumes "(k, v) \<in> set ps" "canonicalizeJson v = None"
  shows "canonicalizeJson (JObj ps) = None"
proof -
  have "None \<in> set (map (\<lambda>(k, v). map_option (\<lambda>t. (k, t)) (canonicalizeJson v)) ps)"
    using image_eqI [OF _ assms(1), of None "\<lambda>(k, v). map_option (\<lambda>t. (k, t)) (canonicalizeJson v)"] assms(2) by simp
  then show ?thesis by (simp only: canonicalizeJson.simps those_eq_None_iff [symmetric]) simp
qed

lemma buildDecision_None:
  assumes "\<not> isSafeInteger (dc_projected_total_cost_usd d)"
  shows "buildDecisionObject h d = None"
proof -
  have "canonicalizeJson (jint (dc_projected_total_cost_usd d)) = None"
    using assms by (simp add: jint_def serializeNumber_None_iff)
  then have "canonicalizeJson (decisionJson d) = None"
    unfolding decisionJson_def by (intro canonicalize_member_None [of "jstr ''projected_total_cost_usd''"]) simp_all
  then show ?thesis by (simp add: buildDecisionObject_def hashCanonicalJson_def)
qed

lemma evaluateRuntimeRefusal_Some:
  assumes "runtimeOk (rq_runtime_request q)"
  obtains rm where "evaluateRuntimeRefusal h q rh ph projected maximum = Some rm"
    "rm_decision rm = (if runtimeReasons q rh ph projected maximum = [] then Allow else Refuse)"
  using that by (simp add: evaluateRuntimeRefusal_def hashCanonicalJson_wf [OF wfJson_runtime [OF assms]] Let_def)

text \<open>Every accepted run ends in one decision object; whether it can be built depends on the three amounts only.\<close>

lemma legacy_run:
  assumes "runPreflight h raw = Inr pf"
  obtains orbit trust arm d rs rh k where
    "runMndePipeline h raw pin = orThrow (buildDecisionObject h (decisionInput pf orbit trust arm d rs rh)) k"
    "\<And>x. \<exists>r. k x = Inr r \<and> mn_decision_object r = x"
    "tracks (ar_projected_total_cost_usd arm) (exactTotal (pf_request_object pf))"
    "ar_allowed_cost_usd arm = lu_max_total_cost_usd (po_rules (pf_policy_object pf))"
    "ar_prevented_cost_usd arm = max (jsub (ar_projected_total_cost_usd arm) (ar_allowed_cost_usd arm)) 0"
    "legacyRulesOk (po_rules (pf_policy_object pf))"
    "isSafeInteger (exactTotal (pf_request_object pf)) \<Longrightarrow> d = legacyDecision h pin pf"
    "hashCanonicalJson h (buildPolicyPayload (pf_policy_object pf)) = Some (tr_policy_hash trust)"
proof -
  obtain e orbit trust arm q where L: "envelopeOk e" "pf_policy_object pf = pv_policy e"
    and q: "q = setPolicyHash (tr_policy_hash trust) (pf_request_object pf)"
    and fields: "rq_resources q = pv_resources e" "rq_gpu_hour_usd q = pv_gpu_hour_usd e" "rq_execution q = pv_execution e"
    and seen: "lr_observed_request_hash (rq_runtime_request q) = pf_request_hash pf"
    and rt: "runtimeOk (rq_runtime_request q)"
    and orbit: "validateOrbitIntent h (JObj (legacyOrbitFields (rq_orbit_intent (pf_request_object pf)))) = Some orbit"
      "ov_pass orbit \<longleftrightarrow> legacyArmed (rq_orbit_intent (pf_request_object pf))"
    and trust: "verifyPolicyTrust h (pf_policy_object pf) (pf_request_object pf) pin = Some trust"
      "tr_trusted trust \<longleftrightarrow> trustReasons h (pf_policy_object pf) (pf_request_object pf) pin = []"
    and arm: "evaluateReleaseControl h q orbit trust (po_rules (pf_policy_object pf)) = Some arm"
    using legacy_layers [OF assms(1), of pin] by metis
  let ?rules = "po_rules (pf_policy_object pf)" and ?p = "pf_request_object pf"
  note armf = evaluateReleaseControl_fields [OF arm]
  have tracks: "tracks (totalCost q) (exactTotal q)" by (rule totalCost_tracks [OF L(1) fields])
  obtain rm where rm: "evaluateRuntimeRefusal h q (pf_request_hash pf) (tr_policy_hash trust)
      (ar_projected_total_cost_usd arm) (lu_max_total_cost_usd ?rules) = Some rm"
    "rm_decision rm = (if runtimeReasons q (pf_request_hash pf) (tr_policy_hash trust)
      (ar_projected_total_cost_usd arm) (lu_max_total_cost_usd ?rules) = [] then Allow else Refuse)"
    by (rule evaluateRuntimeRefusal_Some [OF rt])
  let ?through = "ov_pass orbit \<and> tr_trusted trust \<and> ar_decision arm = StateAllow"
  define d where "d = (if ?through then (if rm_decision rm = Allow then StateAllow else StateRefuse)
    else if \<not> ov_pass orbit \<or> \<not> tr_trusted trust then StateRefuse else ar_decision arm)"
  define rs where "rs = (if ?through then rm_reasons rm
    else reasonIf (\<not> ov_pass orbit) (jstr ''orbit.reason='' @ orbitReasonText (ov_reason orbit)) @ tr_reasons trust @ ar_reasons arm)"
  define rh where "rh = (if ?through then Some (rm_runtime_hash rm) else None)"
  define k where "k = (\<lambda>x. Inr \<lparr>mn_request_object = q, mn_policy_object = pf_policy_object pf, mn_decision_object = x,
    mn_orbit_result = orbit, mn_policy_trust_result = trust, mn_arm_result = arm,
    mn_ramona_result = (if ?through then Some rm else None)\<rparr> :: legacy_error + mnde_result)"
  have run: "runMndePipeline h raw pin = orThrow (buildDecisionObject h (decisionInput pf orbit trust arm d rs rh)) k"
    by (simp add: runMndePipeline_def assms(1) orbit(1) trust(1) q [symmetric] arm rm(1) Let_def d_def rs_def rh_def k_def)
  have "d = legacyDecision h pin pf" if safe: "isSafeInteger (exactTotal ?p)"
  proof -
    have cost: "totalCost q = exactTotal q" using tracks safe by (simp add: tracks_def q)
    have "needsApproval q ?rules = (\<not> approved ?p ?rules)" "withinPolicy q ?rules = withinPolicy ?p ?rules"
      "(runtimeReasons q (pf_request_hash pf) (tr_policy_hash trust) (ar_projected_total_cost_usd arm)
        (lu_max_total_cost_usd ?rules) = []) = observedWithin ?p ?rules"
      using seen by (auto simp: runtimeReasons_Nil observedWithin_def needsApproval_def approved_def armf(1) cost Let_def)
        (simp_all add: q)
    then show ?thesis
      by (auto simp: legacyDecision_def Let_def d_def rm(2) armf(4) releaseReasons_Nil [OF cost] orbit(2) trust(2))
  qed
  moreover have "hashCanonicalJson h (buildPolicyPayload (pf_policy_object pf)) = Some (tr_policy_hash trust)"
    using trust(1) by (auto simp: verifyPolicyTrust_def Let_def)
  moreover have "legacyRulesOk ?rules" using L by (simp add: envelopeOk_def Let_def)
  ultimately show ?thesis using tracks by (intro that [OF run]) (simp_all add: k_def armf q)
qed

text \<open>
  C11: the first-generation core decides. When the preflight accepts and the exact projected cost is a safe integer, the
  pipeline returns, and its decision is the one of the rules: refused unless the intent is an armed version-2.0
  intent, the policy is trusted and the request is within the policy's limits; held while a cost above the approval
  threshold is not approved; otherwise allowed exactly when the observed run is within request and policy. The
  decision names the hashes of the request and of the policy.
\<close>

theorem runMndePipeline_decides:
  assumes "runPreflight h raw = Inr pf" and "isSafeInteger (exactTotal (pf_request_object pf))"
  shows "\<exists>r. runMndePipeline h raw pin = Inr r \<and>
    dc_decision (mn_decision_object r) = legacyDecision h pin pf \<and>
    dc_request_hash (mn_decision_object r) = pf_request_hash pf \<and>
    hashCanonicalJson h (buildPolicyPayload (pf_policy_object pf)) = Some (dc_policy_hash (mn_decision_object r))"
proof -
  obtain orbit trust arm d rs rh k where
    run: "runMndePipeline h raw pin = orThrow (buildDecisionObject h (decisionInput pf orbit trust arm d rs rh)) k"
      "\<And>x. \<exists>r. k x = Inr r \<and> mn_decision_object r = x"
    and amounts: "tracks (ar_projected_total_cost_usd arm) (exactTotal (pf_request_object pf))"
      "ar_allowed_cost_usd arm = lu_max_total_cost_usd (po_rules (pf_policy_object pf))"
      "ar_prevented_cost_usd arm = max (jsub (ar_projected_total_cost_usd arm) (ar_allowed_cost_usd arm)) 0"
      "legacyRulesOk (po_rules (pf_policy_object pf))"
    and d: "d = legacyDecision h pin pf"
    and hash: "hashCanonicalJson h (buildPolicyPayload (pf_policy_object pf)) = Some (tr_policy_hash trust)"
    using legacy_run [OF assms(1), of pin] assms(2) by metis
  have "isSafeInteger (max (jsub (ar_projected_total_cost_usd arm) (ar_allowed_cost_usd arm)) 0)"
    using amounts assms(2) by (intro prevented_safe) (auto simp: tracks_def legacyRulesOk_def)
  then obtain d' where "buildDecisionObject h (decisionInput pf orbit trust arm d rs rh) = Some d'" "dc_decision d' = d"
    "dc_request_hash d' = pf_request_hash pf" "dc_policy_hash d' = tr_policy_hash trust"
    using buildDecision_Some [of "decisionInput pf orbit trust arm d rs rh" h] amounts assms(2)
    by (auto simp: decisionInput_def tracks_def legacyRulesOk_def)
  with run(1) run(2) [of d'] d hash show ?thesis by auto
qed

text \<open>
  C37: a huge cost is no refusal. When the preflight accepts but the exact projected cost is no safe integer, the
  pipeline throws (the decision cannot be canonicalized), although the policy's cost limit is exceeded.
\<close>

theorem runMndePipeline_throws:
  assumes "runPreflight h raw = Inr pf" and "\<not> isSafeInteger (exactTotal (pf_request_object pf))"
  shows "runMndePipeline h raw pin = Inl OtherError \<and>
    lu_max_total_cost_usd (po_rules (pf_policy_object pf)) < exactTotal (pf_request_object pf)"
proof -
  obtain orbit trust arm d rs rh k where
    run: "runMndePipeline h raw pin = orThrow (buildDecisionObject h (decisionInput pf orbit trust arm d rs rh)) k"
    and amounts: "tracks (ar_projected_total_cost_usd arm) (exactTotal (pf_request_object pf))"
      "legacyRulesOk (po_rules (pf_policy_object pf))"
    using legacy_run [OF assms(1), of pin] by metis
  have "buildDecisionObject h (decisionInput pf orbit trust arm d rs rh) = None"
    using tracks_safe [OF amounts(1)] assms(2) by (intro buildDecision_None) (simp add: decisionInput_def)
  with run amounts assms(2) show ?thesis by (auto simp: tracks_def legacyRulesOk_def isSafeInteger_def)
qed

section \<open>The preflight fails closed\<close>

definition failsClosed :: "(legacy_error + 'a) \<Rightarrow> bool" where
  "failsClosed r \<longleftrightarrow> (case r of Inl (FailClosed layer code message) \<Rightarrow> layer = jstr ''preflight'' | Inl OtherError \<Rightarrow> False | Inr x \<Rightarrow> True)"

lemma failsClosed_simps [simp]:
  "failsClosed (Inr x)" "failsClosed (Inl (schemaError message))"
  "failsClosed (Inl (FailClosed layer code message)) \<longleftrightarrow> layer = jstr ''preflight''" "\<not> failsClosed (Inl OtherError)"
  by (simp_all add: failsClosed_def schemaError_def)

lemma failsClosed_bindE: "failsClosed r \<Longrightarrow> (\<And>x. failsClosed (k x)) \<Longrightarrow> failsClosed (bindE r k)"
  by (cases r) (simp_all add: failsClosed_def)

lemma failsClosed_unknown: "failsClosed r \<Longrightarrow> failsClosed (failIf (rejectUnknownFields obj ks scope) r)"
  by (auto simp: rejectUnknownFields_def failIf_def split: option.splits)

lemma failsClosed_expect:
  "failsClosed (expectObject v m)" "failsClosed (expectStringAt obj key)" "failsClosed (expectBooleanAt obj key)"
  "failsClosed (expectPositiveInteger obj key)" "failsClosed (expectNonNegativeInteger obj key)" "failsClosed (nonEmptyArray v m)"
  by (auto simp: expectObject_def expectStringAt_def expectBooleanAt_def expectPositiveInteger_def
      expectNonNegativeInteger_def nonEmptyArray_def split: option.splits json.splits)

lemmas closed = failsClosed_bindE failsClosed_unknown failsClosed_expect

lemma failsClosed_signatures: "failsClosed (parseOrbitSignatures n items)"
  by (induction items arbitrary: n) (simp_all add: Let_def closed)

lemma failsClosed_ext: "failsClosed (parseOrbitExt v)"
  by (auto simp: parseOrbitExt_def closed split: option.splits)

lemma failsClosed_orbit: "failsClosed (parseOrbitIntent obj)"
  unfolding parseOrbitIntent_def by (intro closed failsClosed_signatures failsClosed_ext) simp

lemma failsClosed_keys: "failsClosed (parseAllowedKeys n items)"
  by (induction items arbitrary: n) (auto simp: Let_def split: json.splits intro!: closed)

lemma failsClosed_policy: "failsClosed (parsePolicyObject obj)"
  unfolding parsePolicyObject_def parseLegacyRules_def parseLegacyTrust_def
  by (intro closed failsClosed_keys) simp_all

lemma failsClosed_envelope: "failsClosed (bindE (envelopeRoots v) envelopeFields)"
  unfolding envelopeRoots_def envelopeFields_def by (intro closed failsClosed_orbit failsClosed_policy) simp_all

lemma failsClosed_parseEnvelope: "failsClosed (parseEnvelope raw)"
  using parse_not_starved [of raw] by (auto simp: parseEnvelope_def failsClosed_envelope split: parse_result.splits)

lemma runPreflight_Inl: "runPreflight h raw = Inl err \<Longrightarrow> parseEnvelope raw = Inl err"
  by (cases "parseEnvelope raw") (auto simp: runPreflight_def hashCanonicalJson_wf [OF wfJson_request [OF parseEnvelope_ok]])

text \<open>
  The first-generation preflight fails closed. Whatever text it is given, it returns a request or throws a
  \<open>FailClosedError\<close> of its own layer, and no other exception: the hash of an accepted request always exists.
\<close>

theorem runPreflight_fails_closed:
  assumes "runPreflight h raw = Inl err"
  shows "\<exists>code message. err = FailClosed (jstr ''preflight'') code message"
  using failsClosed_parseEnvelope [of raw] runPreflight_Inl [OF assms]
  by (cases err) (simp_all add: failsClosed_def)

theorem runPreflight_fails_closed_witness:
  "\<exists>code message. runPreflight testHost [] = Inl (FailClosed (jstr ''preflight'') code message)"
proof -
  have "parseStrictJson [] = ParseFail Invalid_json_syntax" by code_simp
  then have "\<exists>err. runPreflight testHost [] = Inl err" by (simp add: runPreflight_def parseEnvelope_def bindE_def)
  then show ?thesis using runPreflight_fails_closed [of testHost "[]"] by blast
qed

section \<open>A request for the witnesses\<close>

definition sampleOrbit :: jsobject where
  "sampleOrbit =
     [(jstr ''action'', JStr (jstr ''train'')), (jstr ''boundary'', JStr (jstr ''gpu'')),
      (jstr ''lifecycle_state'', JStr (jstr ''ARMED'')), (jstr ''orbit_version'', JStr (jstr ''2.0'')),
      (jstr ''payload'', JObj []),
      (jstr ''signatures'', JArr [JObj [(jstr ''alg'', JStr (jstr ''a'')), (jstr ''sig'', JStr (jstr ''s''))]])]"

definition sampleRules :: jsobject where
  "sampleRules =
     [(jstr ''allow_auto_scale'', JBool False), (jstr ''max_gpu_count'', jint 8), (jstr ''max_hours'', jint 10),
      (jstr ''max_total_cost_usd'', jint 500), (jstr ''require_manual_approval_above_usd'', jint 400)]"

definition sampleTrust :: jsobject where
  "sampleTrust =
     [(jstr ''key_id'', JStr (jstr ''0102030405060708'')), (jstr ''key_version'', JStr (jstr ''ed25519.v1'')),
      (jstr ''signature'', JStr (jstr ''00'')), (jstr ''signing_public_key'', JStr (jstr ''0102030405060708''))]"

definition samplePolicy :: jsobject where
  "samplePolicy =
     [(jstr ''allowed_request_keys'', JArr (map JStr allowedRequestKeys)), (jstr ''policy_version'', JStr (jstr ''v1'')),
      (jstr ''rules'', JObj sampleRules), (jstr ''schema_version'', JStr (jstr ''mnde.policy.v1'')),
      (jstr ''trust'', JObj sampleTrust)]"

definition sampleRelease :: jsobject where
  "sampleRelease =
     [(jstr ''already_consumed'', JBool False), (jstr ''execution_id'', JStr (jstr ''x1'')), (jstr ''hold_state'', JStr (jstr ''NONE''))]"

definition sampleExecution :: jsobject where
  "sampleExecution =
     [(jstr ''auto_scale'', JBool False), (jstr ''max_retries'', jint 0), (jstr ''max_scale_multiplier'', jint 1),
      (jstr ''retry_on_fail'', JBool False)]"

definition sampleResources :: jsobject where
  "sampleResources = [(jstr ''gpu_count'', jint 4), (jstr ''gpu_type'', JStr (jstr ''g'')), (jstr ''hours'', jint 5)]"

definition sampleRequest :: "int \<Rightarrow> jsobject" where
  "sampleRequest price =
     [(jstr ''execution'', JObj sampleExecution), (jstr ''job_id'', JStr (jstr ''j'')),
      (jstr ''pricing'', JObj [(jstr ''gpu_hour_usd'', jint price)]), (jstr ''region'', JStr (jstr ''r'')),
      (jstr ''resources'', JObj sampleResources), (jstr ''user_id'', JStr (jstr ''u''))]"

definition sampleRuntime :: jsobject where
  "sampleRuntime =
     [(jstr ''actual_gpu_count'', jint 4), (jstr ''actual_hours'', jint 5), (jstr ''actual_total_cost_usd'', jint 200),
      (jstr ''kill_switch_active'', JBool False)]"

definition legacySampleJson :: "int \<Rightarrow> json" where
  "legacySampleJson price = JObj
     [(jstr ''orbit'', JObj sampleOrbit), (jstr ''policy'', JObj samplePolicy), (jstr ''release'', JObj sampleRelease),
      (jstr ''request'', JObj (sampleRequest price)), (jstr ''runtime'', JObj sampleRuntime)]"

lemmas sample_defs = sampleOrbit_def sampleRules_def sampleTrust_def samplePolicy_def sampleRelease_def sampleExecution_def
  sampleResources_def sampleRequest_def sampleRuntime_def legacySampleJson_def

definition acceptAnySignature :: host where
  "acceptAnySignature = testHost\<lparr>hs_policyVerify := (\<lambda>key message signature. Some True)\<rparr>"

lemma legacySample_wf: "isSafeInteger price \<Longrightarrow> wfJson (legacySampleJson price)"
  by (simp add: sample_defs jint_def isSafeInteger_def maxSafe_def allowedRequestKeys_def jstr_def unit_of_char_def)

lemma legacySample_norm: "isSafeInteger price \<Longrightarrow> normJson (legacySampleJson price) = legacySampleJson price"
  by (simp add: sample_defs jint_def jstr_def unit_of_char_def allowedRequestKeys_def)

definition legacySampleEnvelope :: "int \<Rightarrow> preflight_envelope" where
  "legacySampleEnvelope price =
     \<lparr>pv_job_id = jstr ''j'', pv_user_id = jstr ''u'', pv_region = jstr ''r'',
      pv_resources = \<lparr>rs_gpu_type = jstr ''g'', rs_gpu_count = 4, rs_hours = 5\<rparr>,
      pv_gpu_hour_usd = price,
      pv_execution = \<lparr>ex_auto_scale = False, ex_max_scale_multiplier = 1, ex_retry_on_fail = False, ex_max_retries = 0\<rparr>,
      pv_orbit = \<lparr>lo_orbit_version = jstr ''2.0'', lo_action = jstr ''train'', lo_boundary = jstr ''gpu'', lo_payload = [],
        lo_lifecycle_state = jstr ''ARMED'', lo_signatures = [\<lparr>sg_alg = jstr ''a'', sg_sig = jstr ''s''\<rparr>], lo_ext = None\<rparr>,
      pv_policy = \<lparr>po_schema_version = jstr ''mnde.policy.v1'', po_policy_version = jstr ''v1'',
        po_allowed_request_keys = allowedRequestKeys,
        po_rules = \<lparr>lu_max_total_cost_usd = 500, lu_allow_auto_scale = False, lu_max_gpu_count = 8, lu_max_hours = 10,
          lu_require_manual_approval_above_usd = 400\<rparr>,
        po_trust = \<lparr>lt_key_version = jstr ''ed25519.v1'', lt_key_id = jstr ''0102030405060708'',
          lt_signing_public_key = jstr ''0102030405060708'', lt_signature = jstr ''00''\<rparr>\<rparr>,
      pv_release = \<lparr>rr_execution_id = jstr ''x1'', rr_hold_state = jstr ''NONE'', rr_already_consumed = False\<rparr>,
      pv_kill_switch_active = False, pv_actual_gpu_count = 4, pv_actual_hours = 5, pv_actual_total_cost_usd = 200\<rparr>"

lemma rejectUnknownFields_None: "fst ` set obj \<subseteq> set (map jstr ks) \<Longrightarrow> rejectUnknownFields obj ks scope = None"
  by (force simp: rejectUnknownFields_def set_objectKeys find_None_iff split: option.splits)

lemma safe_small: "0 \<le> i \<Longrightarrow> i \<le> 500 \<Longrightarrow> isSafeInteger i"
  by (simp add: isSafeInteger_def maxSafe_def)

lemmas expect_defs = expectObject_def expectStringAt_def expectBooleanAt_def expectPositiveInteger_def
  expectNonNegativeInteger_def nonEmptyArray_def jint_def safe_small rejectUnknownFields_None

lemma sampleOrbit_parses: "parseOrbitIntent sampleOrbit = Inr (pv_orbit (legacySampleEnvelope price))"
  by (simp add: parseOrbitIntent_def sampleOrbit_def expect_defs parseOrbitExt_def legacySampleEnvelope_def)

lemma sampleRules_parses: "parseLegacyRules sampleRules = Inr (po_rules (pv_policy (legacySampleEnvelope price)))"
  by (simp add: parseLegacyRules_def sampleRules_def expect_defs legacySampleEnvelope_def)

lemma sampleTrust_parses: "parseLegacyTrust sampleTrust = Inr (po_trust (pv_policy (legacySampleEnvelope price)))"
  by (simp add: parseLegacyTrust_def sampleTrust_def expect_defs legacySampleEnvelope_def)

lemma sample_keys:
  "rejectUnknownFields sampleRules [''allow_auto_scale'', ''max_gpu_count'', ''max_hours'', ''max_total_cost_usd'',
     ''require_manual_approval_above_usd''] scope = None"
  "rejectUnknownFields sampleTrust [''key_id'', ''key_version'', ''signature'', ''signing_public_key''] scope = None"
  "parseAllowedKeys 0 (map JStr allowedRequestKeys) = Inr allowedRequestKeys" "allowedRequestKeys \<noteq> []"
  by (simp_all add: rejectUnknownFields_None sample_defs allowedRequestKeys_def)

lemma samplePolicy_parses: "parsePolicyObject samplePolicy = Inr (pv_policy (legacySampleEnvelope price))"
  by (simp add: parsePolicyObject_def samplePolicy_def expect_defs sample_keys sampleRules_parses [where price = price]
      sampleTrust_parses [where price = price]) (simp add: legacySampleEnvelope_def)

lemma sample_roots:
  "envelopeRoots (legacySampleJson price) = Inr
     \<lparr>vr_request = sampleRequest price, vr_resources = sampleResources, vr_pricing = [(jstr ''gpu_hour_usd'', jint price)],
      vr_execution = sampleExecution, vr_release = sampleRelease, vr_runtime = sampleRuntime, vr_orbit = sampleOrbit,
      vr_policy = samplePolicy\<rparr>"
proof -
  have "rejectUnknownFields sampleResources [''gpu_count'', ''gpu_type'', ''hours''] scope = None"
    "rejectUnknownFields sampleExecution [''auto_scale'', ''max_retries'', ''max_scale_multiplier'', ''retry_on_fail''] scope = None"
    "rejectUnknownFields sampleRelease [''already_consumed'', ''execution_id'', ''hold_state''] scope = None"
    "rejectUnknownFields sampleRuntime [''actual_gpu_count'', ''actual_hours'', ''actual_total_cost_usd'', ''kill_switch_active''] scope = None"
    for scope
    by (simp_all add: rejectUnknownFields_None sample_defs)
  then show ?thesis
    by (simp add: envelopeRoots_def legacySampleJson_def sampleRequest_def expectObject_def rejectUnknownFields_None)
qed

lemma legacySample_fields:
  assumes "isSafeInteger price" "1 \<le> price"
  shows "bindE (envelopeRoots (legacySampleJson price)) envelopeFields = Inr (legacySampleEnvelope price)"
  unfolding sample_roots using assms
  by (simp add: linorder_not_le envelopeFields_def sampleOrbit_parses [where price = price] samplePolicy_parses [where price = price] expect_defs
      sampleRequest_def sampleResources_def sampleExecution_def sampleRelease_def sampleRuntime_def)
    (simp add: legacySampleEnvelope_def)

lemma legacySample_preflight:
  assumes "isSafeInteger price" "1 \<le> price"
  obtains pf where "runPreflight h (canonicalText (legacySampleJson price)) = Inr pf"
    "pf_policy_object pf = pv_policy (legacySampleEnvelope price)"
    "pf_request_object pf = setRequestHash (pf_request_hash pf) (envelopeRequest (legacySampleEnvelope price))"
proof -
  have e: "parseEnvelope (canonicalText (legacySampleJson price)) = Inr (legacySampleEnvelope price)"
    using legacySample_fields [OF assms] by (simp add: parseEnvelope_def parse_canonicalText [OF legacySample_wf]
        legacySample_norm assms)
  obtain pf where pf: "runPreflight h (canonicalText (legacySampleJson price)) = Inr pf"
    by (simp add: runPreflight_def e hashCanonicalJson_wf [OF wfJson_request [OF parseEnvelope_ok [OF e]]])
  from pf obtain e' where e': "parseEnvelope (canonicalText (legacySampleJson price)) = Inr e'"
    "pf_policy_object pf = pv_policy e'" "pf_request_object pf = setRequestHash (pf_request_hash pf) (envelopeRequest e')"
    by (rule runPreflight_Inr)
  from e e'(1) have "e' = legacySampleEnvelope price" by simp
  with e'(2,3) show ?thesis by (intro that [OF pf]) simp_all
qed

lemma sample_keyId: "keyIdFromPublicKey acceptAnySignature (jstr ''0102030405060708'') = jstr ''0102030405060708''"
  by code_simp

lemma requestKeys_allowed: "set (requestKeys q) = set allowedRequestKeys"
  by (auto simp: requestKeys_def requestJson_def allowedRequestKeys_def)

lemma sample_trusted:
  assumes "wfJson (buildPolicyPayload (pv_policy (legacySampleEnvelope price)))"
  shows "trustReasons acceptAnySignature (pv_policy (legacySampleEnvelope price)) q (jstr ''v1'') = []"
proof -
  have "distinct allowedRequestKeys" by (simp add: allowedRequestKeys_def)
  moreover have "hs_policyVerify acceptAnySignature = (\<lambda>key message signature. Some True)" by (simp add: acceptAnySignature_def)
  ultimately show ?thesis
    unfolding trustReasons_def Let_def canonicalizeJson_text [OF assms]
    by (simp add: legacySampleEnvelope_def sample_keyId requestKeys_allowed distinct_card)
qed

text \<open>A sample price of 10 costs 200 in all and is allowed; the largest safe price costs no safe integer.\<close>

theorem runMndePipeline_decides_witness:
  "\<exists>pf r. runPreflight acceptAnySignature (canonicalText (legacySampleJson 10)) = Inr pf \<and>
     runMndePipeline acceptAnySignature (canonicalText (legacySampleJson 10)) (jstr ''v1'') = Inr r \<and>
     dc_decision (mn_decision_object r) = StateAllow"
proof -
  have price: "isSafeInteger 10" "1 \<le> (10::int)" by (simp_all add: safe_small)
  obtain pf where pf: "runPreflight acceptAnySignature (canonicalText (legacySampleJson 10)) = Inr pf"
    "pf_policy_object pf = pv_policy (legacySampleEnvelope 10)"
    "pf_request_object pf = setRequestHash (pf_request_hash pf) (envelopeRequest (legacySampleEnvelope 10))"
    by (rule legacySample_preflight [OF price])
  have cost: "exactTotal (pf_request_object pf) = 200"
    by (simp add: pf(3) exactTotal_def setRequestHash_def envelopeRequest_def legacySampleEnvelope_def)
  have wf: "wfJson (buildPolicyPayload (pf_policy_object pf))"
    by (rule wfJson_legacyPayload) (simp add: pf(2) legacySampleEnvelope_def legacyRulesOk_def safe_small)
  have "trustReasons acceptAnySignature (pf_policy_object pf) (pf_request_object pf) (jstr ''v1'') = []"
    by (simp add: sample_trusted [OF wf [unfolded pf(2)]] pf(2))
  then have "legacyDecision acceptAnySignature (jstr ''v1'') pf = StateAllow"
    by (simp add: legacyDecision_def Let_def withinPolicy_def approved_def observedWithin_def cost)
      (simp add: pf setRequestHash_def envelopeRequest_def legacySampleEnvelope_def legacyArmed_def)
  then show ?thesis
    using runMndePipeline_decides [OF pf(1), of "jstr ''v1''"] pf(1) cost by (auto simp: safe_small)
qed

theorem runMndePipeline_throws_witness:
  "\<exists>pf. runPreflight testHost (canonicalText (legacySampleJson maxSafe)) = Inr pf \<and>
     runMndePipeline testHost (canonicalText (legacySampleJson maxSafe)) (jstr ''v1'') = Inl OtherError"
proof -
  have price: "isSafeInteger maxSafe" "1 \<le> maxSafe" by (simp_all add: isSafeInteger_def maxSafe_def)
  obtain pf where pf: "runPreflight testHost (canonicalText (legacySampleJson maxSafe)) = Inr pf"
    "pf_request_object pf = setRequestHash (pf_request_hash pf) (envelopeRequest (legacySampleEnvelope maxSafe))"
    by (rule legacySample_preflight [OF price])
  have "\<not> isSafeInteger (exactTotal (pf_request_object pf))"
    by (simp add: pf(2) exactTotal_def setRequestHash_def envelopeRequest_def legacySampleEnvelope_def isSafeInteger_def maxSafe_def)
  then show ?thesis using runMndePipeline_throws [OF pf(1)] pf(1) by blast
qed

end
