(* ===== verification/Admission.thy ===== *)
theory Admission
  imports Json
begin

text \<open>
  \<open>src/sidecar/http_admission.mjs\<close>: the limits of the HTTP front, read from the environment, and the admission
  controller that hands out request and socket slots. A slot is a closure with a \<open>released\<close> flag of its own; here it is
  its number in the order of creation and the list of flags is part of the state. A socket is a number (the identity
  the \<open>WeakMap\<close> compares). Waiting times are left out.

  The locale \<open>slot_pool\<close> is the contract of such a counter: it never hands out more slots than its limit, a slot frees
  exactly one place however often it is released, and a place freed is handed out again. It is interpreted twice, on
  the request slots and on the socket slots of the controller.
\<close>

section \<open>Limits from the environment\<close>

text \<open>\<open>Number.parseInt(raw, 10)\<close>: white space and a sign are skipped, the longest run of digits counts, \<open>None\<close> is \<open>NaN\<close>.\<close>

definition parseIntTen :: "jsstring \<Rightarrow> int option" where
  "parseIntTen raw =
     (let s = dropWhile isJsSpace raw;
          (negative, t) = (case s of [] \<Rightarrow> (False, []) | c # cs \<Rightarrow> if c = 45 then (True, cs) else if c = 43 then (False, cs) else (False, s));
          ds = takeWhile isDigit t; n = int (digitsValue ds)
      in if ds = [] then None else Some (if negative then - n else n))"

definition positiveInteger :: "int option \<Rightarrow> bool" where
  "positiveInteger v = (case v of None \<Rightarrow> False | Some i \<Rightarrow> isSafeInteger i \<and> 0 < i)"

text \<open>Rounding to a double does not matter to \<open>parseLimit\<close>: what is not a safe integer is refused.\<close>

definition parseLimit :: "(jsstring \<Rightarrow> jsstring option) \<Rightarrow> string \<Rightarrow> int \<Rightarrow> jsstring + int" where
  "parseLimit env name fallback =
     (case env (jstr name) of
        None \<Rightarrow> Inr fallback
      | Some raw \<Rightarrow>
          if raw = [] then Inr fallback
          else (case parseIntTen raw of
                  None \<Rightarrow> Inl (jstr (''ERR_HTTP_LIMIT_CONFIG: '' @ name @ '' must be a positive safe integer''))
                | Some parsed \<Rightarrow>
                    if positiveInteger (Some parsed) then Inr parsed
                    else Inl (jstr (''ERR_HTTP_LIMIT_CONFIG: '' @ name @ '' must be a positive safe integer''))))"

record http_limits =
  hl_max_active_requests :: int
  hl_max_active_sockets :: int
  hl_max_request_body_bytes :: int
  hl_request_timeout_ms :: int
  hl_keep_alive_timeout_ms :: int
  hl_headers_timeout_ms :: int
  hl_max_requests_per_socket :: int

definition defaultHttpLimits :: http_limits where
  "defaultHttpLimits =
     \<lparr>hl_max_active_requests = 96, hl_max_active_sockets = 128, hl_max_request_body_bytes = 1048576,
      hl_request_timeout_ms = 10000, hl_keep_alive_timeout_ms = 1000, hl_headers_timeout_ms = 2000,
      hl_max_requests_per_socket = 100\<rparr>"

definition parseHttpLimitConfig :: "(jsstring \<Rightarrow> jsstring option) \<Rightarrow> jsstring + http_limits" where
  "parseHttpLimitConfig env =
     bindE (parseLimit env ''MNDE_HTTP_MAX_ACTIVE_REQUESTS'' (hl_max_active_requests defaultHttpLimits)) (\<lambda>maxActiveRequests.
     bindE (parseLimit env ''MNDE_HTTP_MAX_ACTIVE_SOCKETS'' (hl_max_active_sockets defaultHttpLimits)) (\<lambda>maxActiveSockets.
     bindE (parseLimit env ''MNDE_HTTP_MAX_REQUEST_BODY_BYTES'' (hl_max_request_body_bytes defaultHttpLimits)) (\<lambda>maxBody.
     bindE (parseLimit env ''MNDE_HTTP_REQUEST_TIMEOUT_MS'' (hl_request_timeout_ms defaultHttpLimits)) (\<lambda>requestTimeout.
     bindE (parseLimit env ''MNDE_HTTP_KEEP_ALIVE_TIMEOUT_MS'' (hl_keep_alive_timeout_ms defaultHttpLimits)) (\<lambda>keepAlive.
     bindE (parseLimit env ''MNDE_HTTP_HEADERS_TIMEOUT_MS'' (hl_headers_timeout_ms defaultHttpLimits)) (\<lambda>headersTimeout.
     bindE (parseLimit env ''MNDE_HTTP_MAX_REQUESTS_PER_SOCKET'' (hl_max_requests_per_socket defaultHttpLimits)) (\<lambda>perSocket.
     Inr \<lparr>hl_max_active_requests = maxActiveRequests, hl_max_active_sockets = maxActiveSockets,
          hl_max_request_body_bytes = maxBody, hl_request_timeout_ms = requestTimeout,
          hl_keep_alive_timeout_ms = keepAlive, hl_headers_timeout_ms = headersTimeout,
          hl_max_requests_per_socket = perSocket\<rparr>)))))))"

record l0_limits =
  l0_enable :: bool
  l0_max_connections :: int
  l0_hybrid_503_connections :: int
  l0_backlog :: int
  l0_keepalive_timeout_ms :: int
  l0_headers_timeout_ms :: int
  l0_shed_mode :: jsstring

definition defaultL0Limits :: l0_limits where
  "defaultL0Limits =
     \<lparr>l0_enable = True, l0_max_connections = 64, l0_hybrid_503_connections = 72, l0_backlog = 128,
      l0_keepalive_timeout_ms = 250, l0_headers_timeout_ms = 750, l0_shed_mode = jstr ''503''\<rparr>"

definition parseL0LimitConfig :: "(jsstring \<Rightarrow> jsstring option) \<Rightarrow> jsstring + l0_limits" where
  "parseL0LimitConfig env =
     (let enable = (case env (jstr ''MNDE_L0_ENABLE'') of None \<Rightarrow> l0_enable defaultL0Limits | Some v \<Rightarrow> v = jstr ''1'');
          shedMode = (case env (jstr ''MNDE_L0_SHED_MODE'') of None \<Rightarrow> l0_shed_mode defaultL0Limits | Some v \<Rightarrow> v)
      in if shedMode \<notin> {jstr ''destroy'', jstr ''503'', jstr ''hybrid''}
         then Inl (jstr ''ERR_L0_LIMIT_CONFIG: MNDE_L0_SHED_MODE must be destroy, 503, or hybrid'')
         else
           bindE (parseLimit env ''MNDE_L0_MAX_CONNECTIONS'' (l0_max_connections defaultL0Limits)) (\<lambda>maxConnections.
           bindE (parseLimit env ''MNDE_L0_HYBRID_503_CONNECTIONS'' (l0_hybrid_503_connections defaultL0Limits)) (\<lambda>hybrid.
           bindE (parseLimit env ''MNDE_L0_BACKLOG'' (l0_backlog defaultL0Limits)) (\<lambda>backlog.
           bindE (parseLimit env ''MNDE_L0_KEEPALIVE_TIMEOUT_MS'' (l0_keepalive_timeout_ms defaultL0Limits)) (\<lambda>keepAlive.
           bindE (parseLimit env ''MNDE_L0_HEADERS_TIMEOUT_MS'' (l0_headers_timeout_ms defaultL0Limits)) (\<lambda>headersTimeout.
           if hybrid < maxConnections
           then Inl (jstr ''ERR_L0_LIMIT_CONFIG: MNDE_L0_HYBRID_503_CONNECTIONS must be >= MNDE_L0_MAX_CONNECTIONS'')
           else Inr \<lparr>l0_enable = enable, l0_max_connections = maxConnections, l0_hybrid_503_connections = hybrid,
                     l0_backlog = backlog, l0_keepalive_timeout_ms = keepAlive, l0_headers_timeout_ms = headersTimeout,
                     l0_shed_mode = shedMode\<rparr>))))))"

section \<open>The admission controller\<close>

record admission_limits =
  al_max_active_requests :: int
  al_max_active_sockets :: int
  al_max_requests_per_socket :: int

record admission =
  ad_active_requests :: int
  ad_active_sockets :: int
  ad_refused :: int
  ad_request_slots :: "bool list"
  ad_socket_slots :: "bool list"
  ad_socket_requests :: "(nat \<times> int) list"

text \<open>\<open>config.max_active_requests ?? DEFAULT\<close>; the limits are checked in the order of the fields.\<close>

definition orDefault :: "'a option \<Rightarrow> 'a \<Rightarrow> 'a" where
  "orDefault v d = (case v of None \<Rightarrow> d | Some x \<Rightarrow> x)"

definition checkLimit :: "string \<Rightarrow> int \<Rightarrow> jsstring option" where
  "checkLimit key value =
     (if positiveInteger (Some value) then None
      else Some (jstr (''ERR_HTTP_LIMIT_CONFIG: '' @ key @ '' must be a positive safe integer'')))"

definition createAdmissionController ::
  "int option \<Rightarrow> int option \<Rightarrow> int option \<Rightarrow> jsstring + admission_limits \<times> admission" where
  "createAdmissionController maxActiveRequests maxActiveSockets maxRequestsPerSocket =
     (let requests = orDefault maxActiveRequests (hl_max_active_requests defaultHttpLimits);
          sockets = orDefault maxActiveSockets (hl_max_active_sockets defaultHttpLimits);
          perSocket = orDefault maxRequestsPerSocket (hl_max_requests_per_socket defaultHttpLimits)
      in failIf (checkLimit ''max_active_requests'' requests)
        (failIf (checkLimit ''max_active_sockets'' sockets)
        (failIf (checkLimit ''max_requests_per_socket'' perSocket)
        (Inr (\<lparr>al_max_active_requests = requests, al_max_active_sockets = sockets, al_max_requests_per_socket = perSocket\<rparr>,
              \<lparr>ad_active_requests = 0, ad_active_sockets = 0, ad_refused = 0, ad_request_slots = [], ad_socket_slots = [],
               ad_socket_requests = []\<rparr>)))))"

text \<open>\<open>None\<close> is the refusal \<open>ERR_SIDECAR_SATURATED\<close>, \<open>Some k\<close> the slot.\<close>

definition tryAcquireRequest :: "admission_limits \<Rightarrow> admission \<Rightarrow> admission \<times> nat option" where
  "tryAcquireRequest limits st =
     (if ad_active_requests st \<ge> al_max_active_requests limits
      then (st\<lparr>ad_refused := ad_refused st + 1\<rparr>, None)
      else (st\<lparr>ad_active_requests := ad_active_requests st + 1, ad_request_slots := ad_request_slots st @ [False]\<rparr>,
            Some (length (ad_request_slots st))))"

definition releaseRequest :: "admission \<Rightarrow> nat \<Rightarrow> admission" where
  "releaseRequest st slot =
     (if slot < length (ad_request_slots st) \<and> \<not> ad_request_slots st ! slot
      then st\<lparr>ad_request_slots := (ad_request_slots st)[slot := True],
              ad_active_requests := max 0 (ad_active_requests st - 1)\<rparr>
      else st)"

definition tryAcquireSocket :: "admission_limits \<Rightarrow> admission \<Rightarrow> admission \<times> nat option" where
  "tryAcquireSocket limits st =
     (if ad_active_sockets st \<ge> al_max_active_sockets limits
      then (st\<lparr>ad_refused := ad_refused st + 1\<rparr>, None)
      else (st\<lparr>ad_active_sockets := ad_active_sockets st + 1, ad_socket_slots := ad_socket_slots st @ [False]\<rparr>,
            Some (length (ad_socket_slots st))))"

definition releaseSocket :: "admission \<Rightarrow> nat \<Rightarrow> admission" where
  "releaseSocket st slot =
     (if slot < length (ad_socket_slots st) \<and> \<not> ad_socket_slots st ! slot
      then st\<lparr>ad_socket_slots := (ad_socket_slots st)[slot := True],
              ad_active_sockets := max 0 (ad_active_sockets st - 1)\<rparr>
      else st)"

definition noteSocketRequest :: "admission_limits \<Rightarrow> admission \<Rightarrow> nat \<Rightarrow> admission \<times> bool" where
  "noteSocketRequest limits st socket =
     (let next = orDefault (map_of (ad_socket_requests st) socket) 0 + 1;
          st1 = st\<lparr>ad_socket_requests := AList.update socket next (ad_socket_requests st)\<rparr>
      in if next > al_max_requests_per_socket limits then (st1\<lparr>ad_refused := ad_refused st1 + 1\<rparr>, False) else (st1, True))"

definition recordAdmissionRefusal :: "admission \<Rightarrow> admission" where
  "recordAdmissionRefusal st = st\<lparr>ad_refused := ad_refused st + 1\<rparr>"

definition admissionSnapshot :: "admission \<Rightarrow> int \<times> int \<times> int" where
  "admissionSnapshot st = (ad_active_requests st, ad_active_sockets st, ad_refused st)"

section \<open>The contract of a slot counter\<close>

definition openSlots :: "bool list \<Rightarrow> nat" where
  "openSlots flags = length (filter Not flags)"

lemma openSlots_snoc: "openSlots (flags @ [False]) = openSlots flags + 1"
  by (simp add: openSlots_def)

lemma openSlots_close: "k < length flags \<Longrightarrow> \<not> flags ! k \<Longrightarrow> openSlots flags = openSlots (flags[k := True]) + 1"
  by (induction flags arbitrary: k) (auto simp: openSlots_def nth_Cons split: nat.splits)

locale slot_pool =
  fixes acquire :: "'s \<Rightarrow> 's \<times> nat option"
    and release :: "'s \<Rightarrow> nat \<Rightarrow> 's"
    and flags :: "'s \<Rightarrow> bool list"
    and used :: "'s \<Rightarrow> int"
    and limit :: int
  assumes acquire_full: "limit \<le> used s \<Longrightarrow> snd (acquire s) = None \<and> flags (fst (acquire s)) = flags s \<and> used (fst (acquire s)) = used s"
    and acquire_free: "used s < limit \<Longrightarrow> snd (acquire s) = Some (length (flags s)) \<and>
      flags (fst (acquire s)) = flags s @ [False] \<and> used (fst (acquire s)) = used s + 1"
    and release_open: "k < length (flags s) \<Longrightarrow> \<not> flags s ! k \<Longrightarrow>
      flags (release s k) = (flags s)[k := True] \<and> used (release s k) = max 0 (used s - 1)"
    and release_other: "\<not> (k < length (flags s) \<and> \<not> flags s ! k) \<Longrightarrow>
      flags (release s k) = flags s \<and> used (release s k) = used s"
begin

definition exact :: "'s \<Rightarrow> bool" where
  "exact s \<longleftrightarrow> used s = int (openSlots (flags s)) \<and> used s \<le> limit"

lemma acquire_exact: "exact s \<Longrightarrow> exact (fst (acquire s))"
  using acquire_full [of s] acquire_free [of s]
  by (cases "used s < limit") (auto simp: exact_def openSlots_snoc)

lemma release_exact: "exact s \<Longrightarrow> exact (release s k)"
  using release_open [of k s] release_other [of k s] openSlots_close [of k "flags s"]
  by (cases "k < length (flags s) \<and> \<not> flags s ! k") (auto simp: exact_def)

lemma granted_iff: "exact s \<Longrightarrow> snd (acquire s) \<noteq> None \<longleftrightarrow> int (openSlots (flags s)) < limit"
  using acquire_full [of s] acquire_free [of s] by (cases "used s < limit") (auto simp: exact_def)

lemma release_once: "flags (release (release s k) k) = flags (release s k) \<and> used (release (release s k) k) = used (release s k)"
proof (cases "k < length (flags s) \<and> \<not> flags s ! k")
  case True
  then have "\<not> (k < length (flags (release s k)) \<and> \<not> flags (release s k) ! k)"
    using release_open [of k s] by simp
  then show ?thesis by (rule release_other)
next
  case False
  note other = release_other [OF False]
  then have "\<not> (k < length (flags (release s k)) \<and> \<not> flags (release s k) ! k)" using False by simp
  then show ?thesis by (rule release_other)
qed

lemma freed_is_granted:
  assumes "exact s" "k < length (flags s)" "\<not> flags s ! k"
  shows "snd (acquire (release s k)) \<noteq> None"
proof -
  have "openSlots (flags s) = openSlots (flags (release s k)) + 1"
    using release_open [OF assms(2,3)] openSlots_close [OF assms(2,3)] by simp
  with assms(1) have "int (openSlots (flags (release s k))) < limit" by (simp add: exact_def)
  with granted_iff [OF release_exact [OF assms(1)]] show ?thesis by simp
qed

end

interpretation rq: slot_pool "tryAcquireRequest limits" releaseRequest ad_request_slots ad_active_requests
    "al_max_active_requests limits" for limits
  by unfold_locales (auto simp: tryAcquireRequest_def releaseRequest_def)

interpretation sk: slot_pool "tryAcquireSocket limits" releaseSocket ad_socket_slots ad_active_sockets
    "al_max_active_sockets limits" for limits
  by unfold_locales (auto simp: tryAcquireSocket_def releaseSocket_def)

section \<open>Sequences of operations\<close>

datatype admission_op = AcquireRequest | ReleaseRequest nat | AcquireSocket | ReleaseSocket nat | NoteRequest nat | RecordRefusal

fun admissionStep :: "admission_limits \<Rightarrow> admission \<Rightarrow> admission_op \<Rightarrow> admission \<times> bool" where
  "admissionStep limits st AcquireRequest = map_prod id (\<lambda>r. r \<noteq> None) (tryAcquireRequest limits st)"
| "admissionStep limits st (ReleaseRequest k) = (releaseRequest st k, True)"
| "admissionStep limits st AcquireSocket = map_prod id (\<lambda>r. r \<noteq> None) (tryAcquireSocket limits st)"
| "admissionStep limits st (ReleaseSocket k) = (releaseSocket st k, True)"
| "admissionStep limits st (NoteRequest socket) = noteSocketRequest limits st socket"
| "admissionStep limits st RecordRefusal = (recordAdmissionRefusal st, False)"

fun admissionRun :: "admission_limits \<Rightarrow> admission \<Rightarrow> admission_op list \<Rightarrow> admission \<times> bool list" where
  "admissionRun limits st [] = (st, [])"
| "admissionRun limits st (x # xs) =
     (let (st1, answer) = admissionStep limits st x; (st2, answers) = admissionRun limits st1 xs in (st2, answer # answers))"

definition admissionOk :: "admission_limits \<Rightarrow> admission \<Rightarrow> bool" where
  "admissionOk limits st \<longleftrightarrow> rq.exact limits st \<and> sk.exact limits st"

lemma exact_frame:
  "ad_active_requests st' = ad_active_requests st \<Longrightarrow> ad_request_slots st' = ad_request_slots st \<Longrightarrow>
    rq.exact limits st \<Longrightarrow> rq.exact limits st'"
  "ad_active_sockets st' = ad_active_sockets st \<Longrightarrow> ad_socket_slots st' = ad_socket_slots st \<Longrightarrow>
    sk.exact limits st \<Longrightarrow> sk.exact limits st'"
  by (simp_all add: rq.exact_def sk.exact_def)

lemma admissionStep_ok:
  assumes "admissionOk limits st"
  shows "admissionOk limits (fst (admissionStep limits st x))"
proof -
  have r: "rq.exact limits st" "sk.exact limits st" using assms by (simp_all add: admissionOk_def)
  show ?thesis
  proof (cases x)
    case AcquireRequest
    have "sk.exact limits (fst (tryAcquireRequest limits st))"
      by (rule exact_frame(2) [OF _ _ r(2)]) (simp_all add: tryAcquireRequest_def)
    with assms AcquireRequest show ?thesis by (simp add: admissionOk_def rq.acquire_exact)
  next
    case (ReleaseRequest k)
    have "sk.exact limits (releaseRequest st k)"
      by (rule exact_frame(2) [OF _ _ r(2)]) (simp_all add: releaseRequest_def)
    with assms ReleaseRequest show ?thesis by (simp add: admissionOk_def rq.release_exact)
  next
    case AcquireSocket
    have "rq.exact limits (fst (tryAcquireSocket limits st))"
      by (rule exact_frame(1) [OF _ _ r(1)]) (simp_all add: tryAcquireSocket_def)
    with assms AcquireSocket show ?thesis by (simp add: admissionOk_def sk.acquire_exact)
  next
    case (ReleaseSocket k)
    have "rq.exact limits (releaseSocket st k)"
      by (rule exact_frame(1) [OF _ _ r(1)]) (simp_all add: releaseSocket_def)
    with assms ReleaseSocket show ?thesis by (simp add: admissionOk_def sk.release_exact)
  next
    case (NoteRequest socket)
    have "rq.exact limits (fst (noteSocketRequest limits st socket))"
      by (rule exact_frame(1) [OF _ _ r(1)]) (simp_all add: noteSocketRequest_def Let_def)
    moreover have "sk.exact limits (fst (noteSocketRequest limits st socket))"
      by (rule exact_frame(2) [OF _ _ r(2)]) (simp_all add: noteSocketRequest_def Let_def)
    ultimately show ?thesis using NoteRequest by (simp add: admissionOk_def)
  next
    case RecordRefusal
    with assms show ?thesis by (simp add: admissionOk_def recordAdmissionRefusal_def rq.exact_def sk.exact_def)
  qed
qed

lemma admissionRun_ok: "admissionOk limits st \<Longrightarrow> admissionOk limits (fst (admissionRun limits st xs))"
proof (induction xs arbitrary: st)
  case (Cons x xs)
  from Cons.IH [OF admissionStep_ok [OF Cons.prems]] show ?case by (simp add: case_prod_unfold Let_def)
qed simp

lemma admissionStep_refused:
  "ad_refused (fst (admissionStep limits st x)) = ad_refused st + (if snd (admissionStep limits st x) then 0 else 1)"
  by (cases x) (auto simp: tryAcquireRequest_def tryAcquireSocket_def releaseRequest_def releaseSocket_def noteSocketRequest_def
      recordAdmissionRefusal_def Let_def)

lemma admissionRun_refused:
  "ad_refused (fst (admissionRun limits st xs)) = ad_refused st + int (length (filter Not (snd (admissionRun limits st xs))))"
proof (induction xs arbitrary: st)
  case (Cons x xs)
  from Cons.IH [of "fst (admissionStep limits st x)"] show ?case
    by (simp add: case_prod_unfold Let_def admissionStep_refused)
qed simp

lemma createAdmissionController_ok:
  "createAdmissionController a b c = Inr (limits, st) \<Longrightarrow> admissionOk limits st \<and> ad_refused st = 0 \<and>
     0 < al_max_active_requests limits \<and> 0 < al_max_active_sockets limits \<and> 0 < al_max_requests_per_socket limits"
proof -
  assume create: "createAdmissionController a b c = Inr (limits, st)"
  then have "checkLimit ''max_active_requests'' (al_max_active_requests limits) = None"
    "checkLimit ''max_active_sockets'' (al_max_active_sockets limits) = None"
    "checkLimit ''max_requests_per_socket'' (al_max_requests_per_socket limits) = None"
    unfolding createAdmissionController_def Let_def guard_Inr by auto
  then have pos: "0 < al_max_active_requests limits" "0 < al_max_active_sockets limits" "0 < al_max_requests_per_socket limits"
    by (simp_all add: checkLimit_def positiveInteger_def split: if_splits)
  have "ad_active_requests st = 0 \<and> ad_active_sockets st = 0 \<and> ad_request_slots st = [] \<and> ad_socket_slots st = [] \<and> ad_refused st = 0"
    using create unfolding createAdmissionController_def Let_def guard_Inr by auto
  with pos show ?thesis by (simp add: admissionOk_def rq.exact_def sk.exact_def openSlots_def)
qed

text \<open>
  C25: slots are counted exactly. From a fresh controller, after any sequence of acquisitions, releases (of the same
  slot any number of times), socket requests and recorded refusals: the active requests and sockets are the slots handed out
  and not yet released, never more than the limits; the next request is admitted exactly when a slot is free; and
  the refusal counter is the number of refusals answered.
\<close>

theorem admission_counts_exactly:
  assumes "createAdmissionController a b c = Inr (limits, st0)" and "admissionRun limits st0 xs = (st, answers)"
  shows "ad_active_requests st = int (openSlots (ad_request_slots st)) \<and> ad_active_requests st \<le> al_max_active_requests limits \<and>
    ad_active_sockets st = int (openSlots (ad_socket_slots st)) \<and> ad_active_sockets st \<le> al_max_active_sockets limits \<and>
    (snd (tryAcquireRequest limits st) \<noteq> None \<longleftrightarrow> int (openSlots (ad_request_slots st)) < al_max_active_requests limits) \<and>
    ad_refused st = int (length (filter Not answers))"
proof -
  note start = createAdmissionController_ok [OF assms(1)]
  have ok: "admissionOk limits st" using admissionRun_ok [of limits st0 xs] start assms(2) by simp
  have "ad_refused st = int (length (filter Not answers))"
    using admissionRun_refused [of limits st0 xs] start assms(2) by simp
  with ok rq.granted_iff [of limits st] show ?thesis by (simp add: admissionOk_def rq.exact_def sk.exact_def)
qed

theorem admission_counts_exactly_witness:
  "\<exists>limits st0 st answers. createAdmissionController (Some 1) None None = Inr (limits, st0) \<and>
     admissionRun limits st0 [AcquireRequest, AcquireRequest, ReleaseRequest 0, ReleaseRequest 0, AcquireRequest] = (st, answers) \<and>
     answers = [True, False, True, True, True] \<and> ad_active_requests st = 1 \<and> ad_refused st = int (length (filter Not answers))"
proof -
  obtain limits st0 where new: "createAdmissionController (Some 1) None None = Inr (limits, st0)"
    "limits = \<lparr>al_max_active_requests = 1, al_max_active_sockets = 128, al_max_requests_per_socket = 100\<rparr>"
    "st0 = \<lparr>ad_active_requests = 0, ad_active_sockets = 0, ad_refused = 0, ad_request_slots = [], ad_socket_slots = [], ad_socket_requests = []\<rparr>"
    by (auto simp: createAdmissionController_def checkLimit_def positiveInteger_def isSafeInteger_def maxSafe_def orDefault_def
        defaultHttpLimits_def Let_def)
  obtain st answers where run: "admissionRun limits st0 [AcquireRequest, AcquireRequest, ReleaseRequest 0, ReleaseRequest 0, AcquireRequest] = (st, answers)"
    by (cases "admissionRun limits st0 [AcquireRequest, AcquireRequest, ReleaseRequest 0, ReleaseRequest 0, AcquireRequest]") simp
  then have "answers = [True, False, True, True, True] \<and> ad_active_requests st = 1"
    by (auto simp: new tryAcquireRequest_def releaseRequest_def)
  with new(1) run admission_counts_exactly [OF new(1) run] show ?thesis by blast
qed

end
