(* ===== verification/ReceiptQueue.thy ===== *)
theory ReceiptQueue
  imports Admission Bytes
begin

text \<open>
  \<open>src/sidecar/receipt_persistence_queue.mjs\<close>: the bounded queue between the decision handlers and the receipt log,
  and the saturation controller. A promise is its number in the order of creation, and the settlements are recorded
  in the order in which they happen. Everything the queue does between two turns of the event loop is one step of
  \<open>queue_step\<close>: a call of \<open>enqueue\<close>, the batch timer, the settlement of \<open>appendFile\<close> (done, or failed, or timed out,
  with whatever part of the batch reached the file), the \<open>finally\<close> callback, and the polls of \<open>shutdown\<close>.
  Times are left out: a timer may fire at any later step, a deadline may be over at any poll.
\<close>

section \<open>Configuration\<close>

text \<open>A configuration field that should hold an integer: undefined, something else (such as \<open>NaN\<close>), or an integer.\<close>

datatype js_integer = Undefined | NoInteger | Integer int

fun isPositive :: "js_integer \<Rightarrow> bool" where
  "isPositive (Integer i) = positiveInteger (Some i)"
| "isPositive _ = False"

fun integerOr :: "int \<Rightarrow> js_integer \<Rightarrow> int" where
  "integerOr d (Integer i) = i"
| "integerOr d _ = d"

record queue_options =
  qo_path :: "jsstring option"
  qo_durability_mode :: "jsstring option"
  qo_max_items :: js_integer
  qo_max_bytes :: js_integer
  qo_max_batch_size :: js_integer
  qo_max_batch_age_ms :: js_integer
  qo_flush_timeout_ms :: js_integer

record queue_config =
  qc_path :: jsstring
  qc_durability_mode :: jsstring
  qc_max_items :: int
  qc_max_bytes :: int
  qc_max_batch_size :: int
  qc_max_batch_age_ms :: int
  qc_flush_timeout_ms :: int

definition problemIf :: "bool \<Rightarrow> string \<Rightarrow> jsstring list" where
  "problemIf c t = (if c then [jstr t] else [])"

definition configProblems :: "queue_options \<Rightarrow> jsstring list" where
  "configProblems o1 =
     problemIf (qo_path o1 = None \<or> qo_path o1 = Some []) ''path must be a non-empty string'' @
     problemIf (qo_durability_mode o1 \<notin> {Some (jstr ''strict_audit''), Some (jstr ''throughput'')})
       ''durability_mode must be strict_audit or throughput'' @
     problemIf (\<not> isPositive (qo_max_items o1)) ''max_items must be a positive safe integer'' @
     problemIf (\<not> isPositive (qo_max_bytes o1)) ''max_bytes must be a positive safe integer'' @
     problemIf (\<not> isPositive (qo_max_batch_size o1)) ''max_batch_size must be a positive safe integer'' @
     problemIf (\<not> isPositive (qo_max_batch_age_ms o1)) ''max_batch_age_ms must be a positive safe integer'' @
     problemIf (qo_flush_timeout_ms o1 \<noteq> Undefined \<and> \<not> isPositive (qo_flush_timeout_ms o1))
       ''flush_timeout_ms must be a positive safe integer'' @
     problemIf (isPositive (qo_max_items o1) \<and> isPositive (qo_max_batch_size o1) \<and>
         integerOr 0 (qo_max_batch_size o1) > integerOr 0 (qo_max_items o1))
       ''max_batch_size cannot exceed max_items'' @
     problemIf (isPositive (qo_max_bytes o1) \<and> isPositive (qo_max_items o1) \<and>
         integerOr 0 (qo_max_bytes o1) < jmul (integerOr 0 (qo_max_items o1)) 128)
       ''max_bytes is too small for configured max_items''"

definition validateReceiptPersistenceConfig :: "queue_options \<Rightarrow> jsstring + queue_config" where
  "validateReceiptPersistenceConfig o1 =
     (if configProblems o1 \<noteq> []
      then Inl (jstr ''ERR_RECEIPT_PERSISTENCE_CONFIG: '' @ joinWith (jstr ''; '') (configProblems o1))
      else Inr \<lparr>qc_path = orDefault (qo_path o1) [], qc_durability_mode = orDefault (qo_durability_mode o1) [],
                qc_max_items = integerOr 0 (qo_max_items o1), qc_max_bytes = integerOr 0 (qo_max_bytes o1),
                qc_max_batch_size = integerOr 0 (qo_max_batch_size o1),
                qc_max_batch_age_ms = integerOr 0 (qo_max_batch_age_ms o1),
                qc_flush_timeout_ms = integerOr 2000 (qo_flush_timeout_ms o1)\<rparr>)"

section \<open>The queue\<close>

record queue_item =
  qi_promise :: nat
  qi_line :: jsstring
  qi_bytes :: int

record queue_metrics =
  qm_accepted :: int
  qm_saturated :: int
  qm_flush_failures :: int
  qm_flush_count :: int
  qm_flush_timeouts :: int
  qm_flushed_receipts :: int
  qm_queue_depth :: int
  qm_queue_bytes :: int
  qm_max_queue_depth :: int
  qm_max_queue_bytes :: int

text \<open>
  \<open>pq_flight\<close> is the batch whose \<open>appendFile\<close> has not settled; \<open>flushActive\<close> stays set until the \<open>finally\<close> callback.
  \<open>pq_file\<close> is what the queue has appended to the log, after whatever the file held when it was opened; \<open>pq_settled\<close> are
  the settled promises (\<open>True\<close>: resolved durable), \<open>pq_log\<close> the accepted lines.
\<close>

record receipt_queue =
  pq_queue :: "queue_item list"
  pq_queued_bytes :: int
  pq_timer :: bool
  pq_flush_active :: bool
  pq_flight :: "queue_item list option"
  pq_started :: bool
  pq_closed :: bool
  pq_fail_closed :: bool
  pq_metrics :: queue_metrics
  pq_file :: jsstring
  pq_settled :: "(nat \<times> bool) list"
  pq_log :: "jsstring list"

datatype enqueue_answer = Queued nat int | QueueRefused jsstring | QueueThrew

definition newQueue :: receipt_queue where
  "newQueue =
     \<lparr>pq_queue = [], pq_queued_bytes = 0, pq_timer = False, pq_flush_active = False, pq_flight = None, pq_started = False,
      pq_closed = False, pq_fail_closed = False,
      pq_metrics = \<lparr>qm_accepted = 0, qm_saturated = 0, qm_flush_failures = 0, qm_flush_count = 0, qm_flush_timeouts = 0,
        qm_flushed_receipts = 0, qm_queue_depth = 0, qm_queue_bytes = 0, qm_max_queue_depth = 0, qm_max_queue_bytes = 0\<rparr>,
      pq_file = [], pq_settled = [], pq_log = []\<rparr>"

definition startQueue :: "receipt_queue \<Rightarrow> receipt_queue" where
  "startQueue st = st\<lparr>pq_started := True\<rparr>"

definition syncDepthMetrics :: "receipt_queue \<Rightarrow> receipt_queue" where
  "syncDepthMetrics st =
     (let m = pq_metrics st; depth = int (length (pq_queue st)); bytes = pq_queued_bytes st
      in st\<lparr>pq_metrics := m\<lparr>qm_queue_depth := depth, qm_queue_bytes := bytes,
          qm_max_queue_depth := max (qm_max_queue_depth m) depth,
          qm_max_queue_bytes := max (qm_max_queue_bytes m) bytes\<rparr>\<rparr>)"

definition clearTimer :: "receipt_queue \<Rightarrow> receipt_queue" where
  "clearTimer st = st\<lparr>pq_timer := False\<rparr>"

definition scheduleFlush :: "receipt_queue \<Rightarrow> receipt_queue" where
  "scheduleFlush st = (if pq_timer st \<or> pq_closed st then st else st\<lparr>pq_timer := True\<rparr>)"

definition bytesOf :: "queue_item list \<Rightarrow> int" where
  "bytesOf items = sum_list (map qi_bytes items)"

definition flush :: "queue_config \<Rightarrow> receipt_queue \<Rightarrow> receipt_queue" where
  "flush cfg st =
     (if pq_flush_active st \<or> pq_queue st = [] then st
      else
        (let n = nat (qc_max_batch_size cfg); batch = take n (pq_queue st)
         in syncDepthMetrics ((clearTimer st)\<lparr>pq_flush_active := True, pq_flight := Some batch,
              pq_queue := drop n (pq_queue st), pq_queued_bytes := pq_queued_bytes st - bytesOf batch\<rparr>)))"

definition enqueue :: "queue_config \<Rightarrow> receipt_queue \<Rightarrow> json \<Rightarrow> receipt_queue \<times> enqueue_answer" where
  "enqueue cfg st receipt =
     (if \<not> pq_started st \<or> pq_closed st \<or> pq_fail_closed st
      then (st, QueueRefused (jstr ''ERR_RECEIPT_FLUSH_FAILED''))
      else
        (case canonicalizeJson receipt of
           None \<Rightarrow> (st, QueueThrew)
         | Some text \<Rightarrow>
             (let line = text @ [10]; byteLength = int (length (utf8Encode line)); m = pq_metrics st
              in if int (length (pq_queue st)) \<ge> qc_max_items cfg \<or> pq_queued_bytes st + byteLength > qc_max_bytes cfg
                 then (st\<lparr>pq_metrics := m\<lparr>qm_saturated := qm_saturated m + 1\<rparr>\<rparr>,
                       QueueRefused (jstr ''ERR_RECEIPT_QUEUE_SATURATED''))
                 else
                   (let promise = length (pq_log st);
                        st1 = syncDepthMetrics (st\<lparr>pq_queue := pq_queue st @
                             [\<lparr>qi_promise = promise, qi_line = line, qi_bytes = byteLength\<rparr>],
                           pq_queued_bytes := pq_queued_bytes st + byteLength, pq_log := pq_log st @ [line],
                           pq_metrics := m\<lparr>qm_accepted := qm_accepted m + 1\<rparr>\<rparr>);
                        st2 = (if int (length (pq_queue st1)) \<ge> qc_max_batch_size cfg then flush cfg st1 else scheduleFlush st1)
                    in (st2, Queued promise byteLength)))))"

definition batchText :: "queue_item list \<Rightarrow> jsstring" where
  "batchText batch = concat (map qi_line batch)"

text \<open>The callbacks of the race between \<open>appendFile\<close> and the timeout, on the batch they captured.\<close>

definition appendDone :: "queue_item list \<Rightarrow> receipt_queue \<Rightarrow> receipt_queue" where
  "appendDone batch st =
     (let m = pq_metrics st
      in st\<lparr>pq_flight := None, pq_file := pq_file st @ batchText batch,
          pq_metrics := m\<lparr>qm_flush_count := qm_flush_count m + 1,
            qm_flushed_receipts := qm_flushed_receipts m + int (length batch)\<rparr>,
          pq_settled := pq_settled st @ map (\<lambda>i. (qi_promise i, True)) batch\<rparr>)"

definition appendFailed :: "queue_item list \<Rightarrow> bool \<Rightarrow> jsstring \<Rightarrow> receipt_queue \<Rightarrow> receipt_queue" where
  "appendFailed batch timedOut written st =
     (let m = pq_metrics st
      in syncDepthMetrics (st\<lparr>pq_flight := None, pq_file := pq_file st @ written, pq_fail_closed := True,
          pq_metrics := m\<lparr>qm_flush_failures := qm_flush_failures m + 1,
            qm_flush_timeouts := qm_flush_timeouts m + (if timedOut then 1 else 0)\<rparr>,
          pq_settled := pq_settled st @ map (\<lambda>i. (qi_promise i, False)) (batch @ pq_queue st),
          pq_queue := [], pq_queued_bytes := 0\<rparr>))"

definition flushFinally :: "queue_config \<Rightarrow> receipt_queue \<Rightarrow> receipt_queue" where
  "flushFinally cfg st =
     (let st1 = st\<lparr>pq_flush_active := False\<rparr>
      in if \<not> pq_fail_closed st1 \<and> pq_queue st1 \<noteq> []
         then (if int (length (pq_queue st1)) \<ge> qc_max_batch_size cfg then flush cfg st1 else scheduleFlush st1)
         else st1)"

definition beginShutdown :: "receipt_queue \<Rightarrow> receipt_queue" where
  "beginShutdown st = clearTimer (st\<lparr>pq_closed := True\<rparr>)"

definition shutdownPoll :: "queue_config \<Rightarrow> bool \<Rightarrow> receipt_queue \<Rightarrow> receipt_queue" where
  "shutdownPoll cfg overdue st =
     (if pq_queue st = [] \<and> \<not> pq_flush_active st then st
      else if overdue then st\<lparr>pq_fail_closed := True\<rparr>
      else if \<not> pq_flush_active st then flush cfg st else st)"

section \<open>The saturation controller\<close>

record saturation_config =
  sc_max_inflight :: int
  sc_inflight_shed_threshold :: int
  sc_max_event_loop_lag_ms :: int
  sc_queue_high_watermark_items :: int
  sc_queue_high_watermark_bytes :: int

definition newSaturationController :: "js_integer \<Rightarrow> js_integer \<Rightarrow> js_integer \<Rightarrow> js_integer \<Rightarrow> js_integer \<Rightarrow> jsstring + saturation_config" where
  "newSaturationController maxInflight shedThreshold maxLag highItems highBytes =
     (let bad = (\<lambda>t. jstr (''ERR_RECEIPT_PERSISTENCE_CONFIG: '' @ t))
      in if \<not> isPositive maxInflight then Inl (bad ''max_inflight must be positive'')
         else if \<not> isPositive shedThreshold then Inl (bad ''inflight_shed_threshold must be positive'')
         else if integerOr 0 shedThreshold > integerOr 0 maxInflight then Inl (bad ''inflight_shed_threshold cannot exceed max_inflight'')
         else if \<not> isPositive maxLag then Inl (bad ''max_event_loop_lag_ms must be positive'')
         else if \<not> isPositive highItems then Inl (bad ''queue_high_watermark_items must be positive'')
         else if \<not> isPositive highBytes then Inl (bad ''queue_high_watermark_bytes must be positive'')
         else Inr \<lparr>sc_max_inflight = integerOr 0 maxInflight, sc_inflight_shed_threshold = integerOr 0 shedThreshold,
                   sc_max_event_loop_lag_ms = integerOr 0 maxLag, sc_queue_high_watermark_items = integerOr 0 highItems,
                   sc_queue_high_watermark_bytes = integerOr 0 highBytes\<rparr>)"

datatype saturation_signal = InflightSignal | LagSignal | DepthSignal | BytesSignal

text \<open>\<open>None\<close>: not refused; otherwise the signal of the refusal \<open>ERR_SYSTEM_SATURATED\<close>.\<close>

definition shouldRefuse :: "saturation_config \<Rightarrow> int \<Rightarrow> int \<Rightarrow> int \<Rightarrow> int \<Rightarrow> saturation_signal option" where
  "shouldRefuse cfg inflight lag depth bytes =
     (if inflight \<ge> sc_inflight_shed_threshold cfg \<or> inflight \<ge> sc_max_inflight cfg then Some InflightSignal
      else if lag > sc_max_event_loop_lag_ms cfg then Some LagSignal
      else if depth > sc_queue_high_watermark_items cfg then Some DepthSignal
      else if bytes > sc_queue_high_watermark_bytes cfg then Some BytesSignal
      else None)"

end
