(* ===== verification/WorkerPool.thy ===== *)
theory WorkerPool
  imports ReceiptQueue
begin

text \<open>
  \<open>src/sidecar/deterministic_worker_pool.mjs\<close>: the pool that runs the pipeline in worker threads. The state object of a
  worker is compared by identity and captured by its event handlers, also after it has been replaced; here it is its index
  in \<open>wp_heap\<close>, the list of all state objects ever created. A task is answered by resolving its promise; the answers are
  recorded in \<open>wp_replies\<close>. Times are left out: the timer of a task may fire at any later step. The program calls \<open>start\<close> when it
  comes up, never after \<open>shutdown\<close>.
\<close>

section \<open>Configuration\<close>

record pool_config =
  wc_worker_count :: nat
  wc_max_queue_depth :: int
  wc_task_timeout_ms :: int

definition poolProblems :: "js_integer \<Rightarrow> js_integer \<Rightarrow> js_integer \<Rightarrow> jsstring list" where
  "poolProblems workerCount maxQueueDepth taskTimeout =
     problemIf (\<not> isPositive workerCount) ''worker_count must be a positive safe integer'' @
     problemIf (\<not> isPositive maxQueueDepth) ''max_queue_depth must be a positive safe integer'' @
     problemIf (taskTimeout \<noteq> Undefined \<and> \<not> isPositive taskTimeout) ''task_timeout_ms must be a positive safe integer''"

definition validateWorkerPoolConfig :: "js_integer \<Rightarrow> js_integer \<Rightarrow> js_integer \<Rightarrow> jsstring + pool_config" where
  "validateWorkerPoolConfig workerCount maxQueueDepth taskTimeout =
     (if poolProblems workerCount maxQueueDepth taskTimeout \<noteq> []
      then Inl (jstr ''ERR_WORKER_POOL_CONFIG: '' @ joinWith (jstr ''; '') (poolProblems workerCount maxQueueDepth taskTimeout))
      else Inr \<lparr>wc_worker_count = nat (integerOr 0 workerCount), wc_max_queue_depth = integerOr 0 maxQueueDepth,
                wc_task_timeout_ms = integerOr 2000 taskTimeout\<rparr>)"

section \<open>State\<close>

record pool_task =
  pt_id :: nat
  pt_raw_input :: jsstring

record pool_worker =
  pw_worker_id :: nat
  pw_busy :: bool
  pw_active :: "pool_task option"
  pw_replacing :: bool
  pw_throughput :: int
  pw_failed :: int

text \<open>What a worker posts back, and what a promise is resolved with.\<close>

datatype 'r worker_message = WorkerMessage "nat option" "jsstring option + 'r"

datatype 'r pool_reply = Answered 'r | Rejected jsstring

record 'r worker_pool =
  wp_heap :: "pool_worker list"
  wp_workers :: "nat list"
  wp_idle :: "nat list"
  wp_queue :: "pool_task list"
  wp_next_task :: nat
  wp_closed :: bool
  wp_submitted :: int
  wp_completed :: int
  wp_failed :: int
  wp_refused :: int
  wp_timeout_count :: int
  wp_restart_count :: int
  wp_queue_depth :: int
  wp_max_queue_depth :: int
  wp_posted :: "(nat \<times> nat \<times> jsstring) list"
  wp_replies :: "(nat \<times> 'r pool_reply) list"

datatype submit_answer = Submitted nat | SubmitRefused jsstring

definition newPool :: "'r worker_pool" where
  "newPool =
     \<lparr>wp_heap = [], wp_workers = [], wp_idle = [], wp_queue = [], wp_next_task = 1, wp_closed = False, wp_submitted = 0,
      wp_completed = 0, wp_failed = 0, wp_refused = 0, wp_timeout_count = 0, wp_restart_count = 0, wp_queue_depth = 0,
      wp_max_queue_depth = 0, wp_posted = [], wp_replies = []\<rparr>"

section \<open>Operations\<close>

definition newWorker :: "nat \<Rightarrow> pool_worker" where
  "newWorker workerId =
     \<lparr>pw_worker_id = workerId, pw_busy = False, pw_active = None, pw_replacing = False, pw_throughput = 0, pw_failed = 0\<rparr>"

definition startPool :: "pool_config \<Rightarrow> 'r worker_pool \<Rightarrow> 'r worker_pool" where
  "startPool cfg st =
     (if wp_workers st \<noteq> [] then st
      else
        (let n = wc_worker_count cfg; refs = map (\<lambda>i. length (wp_heap st) + i) [0..<n]
         in st\<lparr>wp_heap := wp_heap st @ map newWorker [0..<n], wp_workers := wp_workers st @ refs,
             wp_idle := wp_idle st @ refs\<rparr>))"

definition syncPoolDepth :: "'r worker_pool \<Rightarrow> 'r worker_pool" where
  "syncPoolDepth st =
     st\<lparr>wp_queue_depth := int (length (wp_queue st)),
        wp_max_queue_depth := max (wp_max_queue_depth st) (int (length (wp_queue st)))\<rparr>"

fun dispatchLoop ::
  "nat list \<Rightarrow> pool_task list \<Rightarrow> pool_worker list \<Rightarrow> (nat \<times> nat \<times> jsstring) list \<Rightarrow>
     nat list \<times> pool_task list \<times> pool_worker list \<times> (nat \<times> nat \<times> jsstring) list" where
  "dispatchLoop (r # idle) (t # queue) heap posted =
     dispatchLoop idle queue (heap[r := (heap ! r)\<lparr>pw_busy := True, pw_active := Some t\<rparr>])
       (posted @ [(r, pt_id t, pt_raw_input t)])"
| "dispatchLoop idle queue heap posted = (idle, queue, heap, posted)"

definition dispatch :: "'r worker_pool \<Rightarrow> 'r worker_pool" where
  "dispatch st =
     (let (idle, queue, heap, posted) = dispatchLoop (wp_idle st) (wp_queue st) (wp_heap st) (wp_posted st)
      in syncPoolDepth (st\<lparr>wp_idle := idle, wp_queue := queue, wp_heap := heap, wp_posted := posted\<rparr>))"

definition submit :: "pool_config \<Rightarrow> 'r worker_pool \<Rightarrow> jsstring \<Rightarrow> 'r worker_pool \<times> submit_answer" where
  "submit cfg st rawInput =
     (if wp_closed st then (st, SubmitRefused (jstr ''ERR_WORKER_POOL_FAILED''))
      else
        (let st1 = startPool cfg st
         in if wp_idle st1 = [] \<and> int (length (wp_queue st1)) \<ge> wc_max_queue_depth cfg
            then (st1\<lparr>wp_refused := wp_refused st1 + 1\<rparr>, SubmitRefused (jstr ''ERR_WORKER_POOL_SATURATED''))
            else
              (let task = \<lparr>pt_id = wp_next_task st1, pt_raw_input = rawInput\<rparr>;
                   st2 = st1\<lparr>wp_next_task := wp_next_task st1 + 1, wp_submitted := wp_submitted st1 + 1,
                     wp_queue := wp_queue st1 @ [task]\<rparr>
               in (dispatch (syncPoolDepth st2), Submitted (pt_id task)))))"

definition shutdownPool :: "'r worker_pool \<Rightarrow> 'r worker_pool" where
  "shutdownPool st =
     syncPoolDepth (st\<lparr>wp_closed := True,
       wp_replies := wp_replies st @ map (\<lambda>t. (pt_id t, Rejected (jstr ''ERR_WORKER_POOL_FAILED''))) (wp_queue st),
       wp_queue := [], wp_workers := [], wp_idle := []\<rparr>)"

definition setWorker :: "nat \<Rightarrow> pool_worker \<Rightarrow> 'r worker_pool \<Rightarrow> 'r worker_pool" where
  "setWorker ref w st = st\<lparr>wp_heap := (wp_heap st)[ref := w]\<rparr>"

definition handleMessage :: "'r worker_pool \<Rightarrow> nat \<Rightarrow> 'r worker_message \<Rightarrow> 'r worker_pool" where
  "handleMessage st ref message =
     (case message of WorkerMessage taskId outcome \<Rightarrow>
        (case pw_active (wp_heap st ! ref) of
           None \<Rightarrow> st\<lparr>wp_failed := wp_failed st + 1\<rparr>
         | Some task \<Rightarrow>
             if taskId \<noteq> Some (pt_id task) then st\<lparr>wp_failed := wp_failed st + 1\<rparr>
             else
               (let w = wp_heap st ! ref;
                    st1 = setWorker ref (w\<lparr>pw_busy := False, pw_active := None, pw_throughput := pw_throughput w + 1\<rparr>) st;
                    reply = (case outcome of Inr r \<Rightarrow> Answered r
                       | Inl reason \<Rightarrow> Rejected (orDefault reason (jstr ''ERR_WORKER_POOL_FAILED'')));
                    st2 = st1\<lparr>wp_completed := wp_completed st1 + 1, wp_replies := wp_replies st1 @ [(pt_id task, reply)]\<rparr>;
                    st3 = (if wp_closed st2 then st2 else st2\<lparr>wp_idle := wp_idle st2 @ [ref]\<rparr>)
                in dispatch st3)))"

definition replaceWorker :: "'r worker_pool \<Rightarrow> nat \<Rightarrow> 'r worker_pool" where
  "replaceWorker st ref =
     (let w = wp_heap st ! ref
      in if wp_closed st \<or> pw_replacing w then st
         else
           (let replacement = length (wp_heap st)
            in st\<lparr>wp_restart_count := wp_restart_count st + 1,
                wp_heap := (wp_heap st)[ref := w\<lparr>pw_replacing := True\<rparr>] @ [newWorker (pw_worker_id w)],
                wp_workers := (if ref \<in> set (wp_workers st) then map (\<lambda>r. if r = ref then replacement else r) (wp_workers st)
                  else wp_workers st @ [replacement]),
                wp_idle := wp_idle st @ [replacement]\<rparr>))"

text \<open>Resolving the task a worker was running, if any, with a failure.\<close>

definition failActive :: "jsstring \<Rightarrow> nat \<Rightarrow> 'r worker_pool \<Rightarrow> 'r worker_pool" where
  "failActive reason ref st =
     (let w = wp_heap st ! ref
      in (setWorker ref (w\<lparr>pw_failed := pw_failed w + 1, pw_busy := False, pw_active := None\<rparr>) st)
         \<lparr>wp_replies := wp_replies st @ (case pw_active w of None \<Rightarrow> [] | Some t \<Rightarrow> [(pt_id t, Rejected reason)]),
          wp_failed := wp_failed st + 1\<rparr>)"

definition handleWorkerFailure :: "'r worker_pool \<Rightarrow> nat \<Rightarrow> 'r worker_pool" where
  "handleWorkerFailure st ref =
     (if pw_replacing (wp_heap st ! ref) then st
      else
        (let st1 = failActive (jstr ''ERR_WORKER_POOL_FAILED'') ref st;
             st2 = st1\<lparr>wp_idle := filter (\<lambda>r. r \<noteq> ref) (wp_idle st1)\<rparr>
         in dispatch (replaceWorker st2 ref)))"

definition handleTaskTimeout :: "'r worker_pool \<Rightarrow> nat \<Rightarrow> nat \<Rightarrow> 'r worker_pool" where
  "handleTaskTimeout st ref taskId =
     (case pw_active (wp_heap st ! ref) of
        None \<Rightarrow> st
      | Some task \<Rightarrow>
          if pt_id task \<noteq> taskId then st
          else
            (let st1 = (failActive (jstr ''ERR_WORKER_TIMEOUT'') ref st)\<lparr>wp_timeout_count := wp_timeout_count st + 1\<rparr>;
                 st2 = st1\<lparr>wp_idle := filter (\<lambda>r. r \<noteq> ref) (wp_idle st1)\<rparr>
             in dispatch (replaceWorker st2 ref)))"

definition handleWorkerExit :: "'r worker_pool \<Rightarrow> nat \<Rightarrow> int \<Rightarrow> 'r worker_pool" where
  "handleWorkerExit st ref code =
     (if \<not> wp_closed st \<and> \<not> pw_replacing (wp_heap st ! ref) \<and> code \<noteq> 0 then handleWorkerFailure st ref else st)"

section \<open>Steps\<close>

inductive pool_step :: "pool_config \<Rightarrow> 'r worker_pool \<Rightarrow> 'r worker_pool \<Rightarrow> bool" for cfg where
  PoolStart: "\<not> wp_closed st \<Longrightarrow> pool_step cfg st (startPool cfg st)"
| PoolSubmit: "submit cfg st rawInput = (st', answer) \<Longrightarrow> pool_step cfg st st'"
| PoolMessage: "ref < length (wp_heap st) \<Longrightarrow> pool_step cfg st (handleMessage st ref message)"
| PoolError: "ref < length (wp_heap st) \<Longrightarrow> pool_step cfg st (handleWorkerFailure st ref)"
| PoolExit: "ref < length (wp_heap st) \<Longrightarrow> pool_step cfg st (handleWorkerExit st ref code)"
| PoolTimeout: "ref < length (wp_heap st) \<Longrightarrow> pool_step cfg st (handleTaskTimeout st ref taskId)"
| PoolShutdown: "pool_step cfg st (shutdownPool st)"

text \<open>
  \<open>dispatch\<close> starts a timer for each task it hands to a worker, and answering the task clears it: the pending timers are those of the
  running tasks. One of them fires.
\<close>

inductive timer_step :: "'r worker_pool \<Rightarrow> 'r worker_pool \<Rightarrow> bool" where
  TimerFires: "ref < length (wp_heap st) \<Longrightarrow> pw_active (wp_heap st ! ref) = Some t \<Longrightarrow>
    timer_step st (handleTaskTimeout st ref (pt_id t))"

inductive pool_reachable :: "pool_config \<Rightarrow> 'r worker_pool \<Rightarrow> bool" for cfg where
  PoolInit: "pool_reachable cfg newPool"
| PoolStep: "pool_reachable cfg st \<Longrightarrow> pool_step cfg st st' \<Longrightarrow> pool_reachable cfg st'"

end
