(* ===== verification/ReceiptQueueProps.thy ===== *)
theory ReceiptQueueProps
  imports ReceiptQueue
begin

text \<open>
  The receipt queue as a transition system, and its invariants over the reachable states: what is queued stays within the
  configured bounds, every accepted receipt is settled once and in order, a receipt reported durable is in the
  log file behind all receipts accepted before it, and while the queue is open a waiting receipt always has a flush
  in progress or a timer that will start one.
\<close>

section \<open>Steps\<close>

inductive queue_step :: "queue_config \<Rightarrow> receipt_queue \<Rightarrow> receipt_queue \<Rightarrow> bool" for cfg where
  Start: "queue_step cfg st (startQueue st)"
| Enqueue: "enqueue cfg st receipt = (st', answer) \<Longrightarrow> queue_step cfg st st'"
| TimerFires: "pq_timer st \<Longrightarrow> queue_step cfg st (flush cfg (clearTimer st))"
| AppendDone: "pq_flight st = Some batch \<Longrightarrow> queue_step cfg st (appendDone batch st)"
| AppendFailed: "pq_flight st = Some batch \<Longrightarrow> batchText batch = written @ unwritten \<Longrightarrow>
    queue_step cfg st (appendFailed batch timedOut written st)"
| FlushFinally: "pq_flush_active st \<Longrightarrow> pq_flight st = None \<Longrightarrow> queue_step cfg st (flushFinally cfg st)"
| BeginShutdown: "queue_step cfg st (beginShutdown st)"
| ShutdownPoll: "pq_closed st \<Longrightarrow> queue_step cfg st (shutdownPoll cfg overdue st)"

inductive queue_reachable :: "queue_config \<Rightarrow> receipt_queue \<Rightarrow> bool" for cfg where
  Init: "queue_reachable cfg newQueue"
| Step: "queue_reachable cfg st \<Longrightarrow> queue_step cfg st st' \<Longrightarrow> queue_reachable cfg st'"

definition configOk :: "queue_config \<Rightarrow> bool" where
  "configOk cfg \<longleftrightarrow> 0 < qc_max_items cfg \<and> 0 < qc_max_bytes cfg \<and> 0 < qc_max_batch_size cfg \<and>
     qc_max_batch_size cfg \<le> qc_max_items cfg"

lemma problemIf_Nil [simp]: "problemIf c t = [] \<longleftrightarrow> \<not> c" "[] = problemIf c t \<longleftrightarrow> \<not> c"
  by (auto simp: problemIf_def)

lemma isPositive_integerOr: "isPositive v \<Longrightarrow> 0 < integerOr d v"
  by (cases v) (auto simp: positiveInteger_def)

lemma validated_configOk: "validateReceiptPersistenceConfig o1 = Inr cfg \<Longrightarrow> configOk cfg"
  using isPositive_integerOr
  by (auto simp: validateReceiptPersistenceConfig_def configProblems_def configOk_def split: if_splits)

section \<open>Frames\<close>

lemma syncDepthMetrics_simps [simp]:
  "pq_queue (syncDepthMetrics st) = pq_queue st" "pq_queued_bytes (syncDepthMetrics st) = pq_queued_bytes st"
  "pq_timer (syncDepthMetrics st) = pq_timer st" "pq_flush_active (syncDepthMetrics st) = pq_flush_active st"
  "pq_flight (syncDepthMetrics st) = pq_flight st" "pq_started (syncDepthMetrics st) = pq_started st"
  "pq_closed (syncDepthMetrics st) = pq_closed st" "pq_fail_closed (syncDepthMetrics st) = pq_fail_closed st"
  "pq_file (syncDepthMetrics st) = pq_file st" "pq_settled (syncDepthMetrics st) = pq_settled st"
  "pq_log (syncDepthMetrics st) = pq_log st"
  by (simp_all add: syncDepthMetrics_def Let_def)

lemma clearTimer_simps [simp]:
  "pq_queue (clearTimer st) = pq_queue st" "pq_queued_bytes (clearTimer st) = pq_queued_bytes st"
  "\<not> pq_timer (clearTimer st)" "pq_flush_active (clearTimer st) = pq_flush_active st"
  "pq_flight (clearTimer st) = pq_flight st" "pq_closed (clearTimer st) = pq_closed st"
  "pq_fail_closed (clearTimer st) = pq_fail_closed st" "pq_file (clearTimer st) = pq_file st"
  "pq_settled (clearTimer st) = pq_settled st" "pq_log (clearTimer st) = pq_log st" "pq_metrics (clearTimer st) = pq_metrics st"
  by (simp_all add: clearTimer_def)

lemma scheduleFlush_simps [simp]:
  "pq_queue (scheduleFlush st) = pq_queue st" "pq_queued_bytes (scheduleFlush st) = pq_queued_bytes st"
  "pq_timer (scheduleFlush st) \<longleftrightarrow> pq_timer st \<or> \<not> pq_closed st" "pq_flush_active (scheduleFlush st) = pq_flush_active st"
  "pq_flight (scheduleFlush st) = pq_flight st" "pq_closed (scheduleFlush st) = pq_closed st"
  "pq_fail_closed (scheduleFlush st) = pq_fail_closed st" "pq_file (scheduleFlush st) = pq_file st"
  "pq_settled (scheduleFlush st) = pq_settled st" "pq_log (scheduleFlush st) = pq_log st" "pq_metrics (scheduleFlush st) = pq_metrics st"
  by (simp_all add: scheduleFlush_def)

lemma flush_simps [simp]:
  "pq_closed (flush cfg st) = pq_closed st" "pq_fail_closed (flush cfg st) = pq_fail_closed st"
  "pq_file (flush cfg st) = pq_file st" "pq_settled (flush cfg st) = pq_settled st" "pq_log (flush cfg st) = pq_log st"
  by (simp_all add: flush_def Let_def)

section \<open>Invariants\<close>

definition flightItems :: "receipt_queue \<Rightarrow> queue_item list" where
  "flightItems st = (case pq_flight st of None \<Rightarrow> [] | Some batch \<Rightarrow> batch)"

definition waiting :: "receipt_queue \<Rightarrow> queue_item list" where
  "waiting st = flightItems st @ pq_queue st"

definition boundsOk :: "queue_config \<Rightarrow> receipt_queue \<Rightarrow> bool" where
  "boundsOk cfg st \<longleftrightarrow> pq_queued_bytes st = bytesOf (pq_queue st) \<and> (\<forall>i \<in> set (pq_queue st). 0 \<le> qi_bytes i) \<and>
     int (length (pq_queue st)) \<le> qc_max_items cfg \<and> pq_queued_bytes st \<le> qc_max_bytes cfg"

definition orderOk :: "receipt_queue \<Rightarrow> bool" where
  "orderOk st \<longleftrightarrow>
     map fst (pq_settled st) @ map qi_promise (waiting st) = [0..<length (pq_log st)] \<and>
     map qi_line (waiting st) = drop (length (pq_settled st)) (pq_log st) \<and>
     (pq_flight st \<noteq> None \<longrightarrow> pq_flush_active st) \<and>
     (pq_fail_closed st \<and> pq_queue st \<noteq> [] \<longrightarrow> pq_closed st)"

definition durableCount :: "(nat \<times> bool) list \<Rightarrow> nat" where
  "durableCount settled = length (filter snd settled)"

text \<open>
  The resolved promises come first; the file holds their lines, and after a failure at most a part of what
  follows them in the log.
\<close>

definition logMatches :: "(nat \<times> bool) list \<Rightarrow> jsstring list \<Rightarrow> jsstring \<Rightarrow> bool" where
  "logMatches settled lines text \<longleftrightarrow>
     map snd settled = replicate (durableCount settled) True @ replicate (length settled - durableCount settled) False \<and>
     (\<exists>written unwritten. text = concat (take (durableCount settled) lines) @ written \<and>
        concat (drop (durableCount settled) lines) = written @ unwritten \<and>
        (durableCount settled = length settled \<longrightarrow> written = []))"

definition fileOk :: "receipt_queue \<Rightarrow> bool" where
  "fileOk st \<longleftrightarrow> logMatches (pq_settled st) (pq_log st) (pq_file st) \<and>
     (durableCount (pq_settled st) \<noteq> length (pq_settled st) \<longrightarrow> pq_fail_closed st \<and> waiting st = [])"

definition wakeOk :: "receipt_queue \<Rightarrow> bool" where
  "wakeOk st \<longleftrightarrow> (pq_queue st \<noteq> [] \<and> \<not> pq_closed st \<longrightarrow> pq_flush_active st \<or> pq_timer st)"

lemma waiting_flush: "orderOk st \<Longrightarrow> waiting (flush cfg st) = waiting st"
  by (auto simp: waiting_def flightItems_def flush_def orderOk_def Let_def split: option.splits)

lemma flush_orderOk: "orderOk st \<Longrightarrow> orderOk (flush cfg st)"
  using waiting_flush [of st cfg] by (auto simp: orderOk_def) (auto simp: flush_def Let_def)

lemma bytesOf_append: "bytesOf (xs @ ys) = bytesOf xs + bytesOf ys"
  by (simp add: bytesOf_def)

lemma bytesOf_nonneg: "\<forall>i \<in> set xs. 0 \<le> qi_bytes i \<Longrightarrow> 0 \<le> bytesOf xs"
  by (induction xs) (auto simp: bytesOf_def)

lemma flush_boundsOk:
  assumes "boundsOk cfg st"
  shows "boundsOk cfg (flush cfg st)"
proof (cases "pq_flush_active st \<or> pq_queue st = []")
  case True
  with assms show ?thesis by (auto simp: flush_def)
next
  case False
  let ?n = "nat (qc_max_batch_size cfg)" and ?q = "pq_queue st"
  have split: "bytesOf ?q = bytesOf (take ?n ?q) + bytesOf (drop ?n ?q)"
    by (simp flip: bytesOf_append)
  have nonneg: "\<forall>i \<in> set (take ?n ?q). 0 \<le> qi_bytes i" "\<forall>i \<in> set (drop ?n ?q). 0 \<le> qi_bytes i"
    using assms by (auto simp: boundsOk_def dest: in_set_takeD in_set_dropD)
  then have "0 \<le> bytesOf (take ?n ?q)" by (intro bytesOf_nonneg)
  with False assms split nonneg(2) show ?thesis by (auto simp: boundsOk_def flush_def Let_def)
qed

lemma flush_active: "pq_queue st \<noteq> [] \<Longrightarrow> pq_flush_active (flush cfg st)"
  by (simp add: flush_def Let_def)

lemma flush_queue_Nil: "pq_queue st = [] \<Longrightarrow> flush cfg st = st"
  by (simp add: flush_def)

lemma flush_wakeOk: "wakeOk (flush cfg st)"
  by (cases "pq_queue st = []") (auto simp: wakeOk_def flush_active flush_queue_Nil)

lemma wakeOk_flush_timer: "wakeOk (scheduleFlush st)"
  by (auto simp: wakeOk_def)

lemma flush_fileOk: "orderOk st \<Longrightarrow> fileOk st \<Longrightarrow> fileOk (flush cfg st)"
  by (simp add: fileOk_def waiting_flush)

definition queueOk :: "queue_config \<Rightarrow> receipt_queue \<Rightarrow> bool" where
  "queueOk cfg st \<longleftrightarrow> boundsOk cfg st \<and> orderOk st \<and> fileOk st \<and> wakeOk st"

lemma queueOk_flush: "boundsOk cfg st \<Longrightarrow> orderOk st \<Longrightarrow> fileOk st \<Longrightarrow> queueOk cfg (flush cfg st)"
  by (simp add: queueOk_def flush_boundsOk flush_orderOk flush_fileOk flush_wakeOk)

text \<open>Only these fields matter to the first three invariants.\<close>

lemma queue_frame:
  assumes "pq_queue st' = pq_queue st" "pq_queued_bytes st' = pq_queued_bytes st" "pq_flight st' = pq_flight st"
    "pq_flush_active st' = pq_flush_active st \<or> pq_flight st = None" "pq_settled st' = pq_settled st" "pq_log st' = pq_log st"
    "pq_file st' = pq_file st" "pq_fail_closed st \<longrightarrow> pq_fail_closed st'" "pq_fail_closed st' \<longrightarrow> pq_fail_closed st \<or> pq_closed st'"
    "pq_closed st \<longrightarrow> pq_closed st'"
  shows "boundsOk cfg st \<Longrightarrow> boundsOk cfg st'" "orderOk st \<Longrightarrow> orderOk st'" "fileOk st \<Longrightarrow> fileOk st'"
  using assms by (auto simp: boundsOk_def orderOk_def fileOk_def waiting_def flightItems_def)

lemma queueOk_schedule: "boundsOk cfg st \<Longrightarrow> orderOk st \<Longrightarrow> fileOk st \<Longrightarrow> queueOk cfg (scheduleFlush st)"
  using queue_frame [where st' = "scheduleFlush st" and st = st] by (simp add: queueOk_def wakeOk_flush_timer)

section \<open>Every operation keeps them\<close>

lemma durableCount_le: "durableCount settled \<le> length settled"
  by (simp add: durableCount_def)

lemma settled_le: "orderOk st \<Longrightarrow> length (pq_settled st) \<le> length (pq_log st)"
proof -
  assume "orderOk st"
  then have "length (map fst (pq_settled st) @ map qi_promise (waiting st)) = length (pq_log st)"
    unfolding orderOk_def by simp
  then show ?thesis by simp
qed

lemma logMatches_log:
  assumes "logMatches settled lines text" "length settled \<le> length lines"
  shows "logMatches settled (lines @ extra) text"
proof -
  let ?k = "durableCount settled"
  have k: "?k \<le> length lines" using durableCount_le assms(2) by (rule le_trans)
  from assms(1) obtain written unwritten where "text = concat (take ?k lines) @ written"
    "concat (drop ?k lines) = written @ unwritten" "?k = length settled \<longrightarrow> written = []"
    "map snd settled = replicate ?k True @ replicate (length settled - ?k) False"
    unfolding logMatches_def by blast
  with k have "text = concat (take ?k (lines @ extra)) @ written \<and> concat (drop ?k (lines @ extra)) = written @ (unwritten @ concat extra) \<and>
      (?k = length settled \<longrightarrow> written = [])"
    "map snd settled = replicate ?k True @ replicate (length settled - ?k) False" by simp_all
  then show ?thesis unfolding logMatches_def by blast
qed

lemma durable_all: "durableCount settled = length settled \<Longrightarrow> map snd settled = replicate (length settled) True"
proof (induction settled)
  case (Cons p settled)
  have "length (filter snd settled) \<le> length settled" by simp
  with Cons show ?case by (cases "snd p") (auto simp: durableCount_def)
qed simp

lemma logMatches_all:
  assumes "durableCount settled = length settled"
  shows "logMatches settled lines text \<longleftrightarrow> text = concat (take (length settled) lines)"
  using durable_all [OF assms] by (auto simp: logMatches_def assms)

lemma durableCount_done:
  "durableCount (settled @ map (\<lambda>i. (f i, True)) batch) = durableCount settled + length batch"
  "durableCount (settled @ map (\<lambda>i. (f i, False)) batch) = durableCount settled"
  by (simp_all add: durableCount_def filter_map comp_def)

lemma enqueue_queueOk:
  assumes "queueOk cfg st" "enqueue cfg st receipt = (st', answer)"
  shows "queueOk cfg st'"
proof (cases answer)
  case (Queued promise bytes)
  then obtain t where accept: "\<not> pq_fail_closed st" "canonicalizeJson receipt = Some t"
    "bytes = int (length (utf8Encode (t @ [10])))" "int (length (pq_queue st)) < qc_max_items cfg"
    "pq_queued_bytes st + bytes \<le> qc_max_bytes cfg"
    using assms(2) by (auto simp: enqueue_def Let_def split: if_splits option.splits)
  let ?item = "\<lparr>qi_promise = length (pq_log st), qi_line = t @ [10], qi_bytes = bytes\<rparr>"
  define st1 where "st1 = syncDepthMetrics (st\<lparr>pq_queue := pq_queue st @ [?item], pq_queued_bytes := pq_queued_bytes st + bytes,
      pq_log := pq_log st @ [t @ [10]], pq_metrics := (pq_metrics st)\<lparr>qm_accepted := qm_accepted (pq_metrics st) + 1\<rparr>\<rparr>)"
  have "st' = (if int (length (pq_queue st1)) \<ge> qc_max_batch_size cfg then flush cfg st1 else scheduleFlush st1)"
    using assms(2) accept Queued by (auto simp: enqueue_def Let_def st1_def split: if_splits)
  moreover have "boundsOk cfg st1"
    using assms(1) accept by (auto simp: queueOk_def boundsOk_def st1_def bytesOf_def)
  moreover have "orderOk st1" "fileOk st1"
    using assms(1) accept(1) settled_le [of st] logMatches_log [of "pq_settled st" "pq_log st" "pq_file st" "[t @ [10]]"]
    by (auto simp: queueOk_def orderOk_def fileOk_def waiting_def flightItems_def st1_def)
  ultimately show ?thesis by (auto intro: queueOk_flush queueOk_schedule)
next
  case (QueueRefused reason)
  with assms(2) have "st' = st \<or> st' = st\<lparr>pq_metrics := (pq_metrics st)\<lparr>qm_saturated := qm_saturated (pq_metrics st) + 1\<rparr>\<rparr>"
    by (auto simp: enqueue_def Let_def split: if_splits option.splits)
  with assms(1) queue_frame [where st' = st' and st = st] show ?thesis by (auto simp: queueOk_def wakeOk_def)
next
  case QueueThrew
  with assms show ?thesis by (auto simp: enqueue_def Let_def split: if_splits option.splits)
qed

lemma appendDone_queueOk:
  assumes "queueOk cfg st" "pq_flight st = Some batch"
  shows "queueOk cfg (appendDone batch st)"
proof -
  let ?st = "appendDone batch st" and ?n = "length (pq_settled st)"
  have order: "orderOk st" and matches: "fileOk st" using assms(1) by (simp_all add: queueOk_def)
  have lines: "map qi_line (batch @ pq_queue st) = drop ?n (pq_log st)"
    using order assms(2) by (simp add: orderOk_def waiting_def flightItems_def)
  then have batch: "map qi_line batch = take (length batch) (drop ?n (pq_log st))"
    by (metis append_eq_conv_conj length_map map_append)
  have rest: "map qi_line (pq_queue st) = drop (?n + length batch) (pq_log st)"
    using arg_cong [OF lines, of "drop (length batch)"] by (simp add: add.commute)
  have "orderOk ?st"
    using order assms(2) rest by (simp add: orderOk_def waiting_def flightItems_def appendDone_def Let_def comp_def)
  moreover have "fileOk ?st"
  proof (cases "durableCount (pq_settled st) = ?n")
    case True
    with matches have "pq_file st @ batchText batch = concat (take ?n (pq_log st)) @ concat (take (length batch) (drop ?n (pq_log st)))"
      by (simp add: fileOk_def logMatches_all batchText_def flip: batch)
    also have "\<dots> = concat (take (?n + length batch) (pq_log st))" by (simp add: take_add)
    finally show ?thesis using True
      by (simp add: fileOk_def appendDone_def Let_def durableCount_done logMatches_all)
  next
    case False
    with matches have "batch = []" using assms(2) by (auto simp: fileOk_def waiting_def flightItems_def)
    then show ?thesis using False matches assms(2)
      by (simp add: fileOk_def appendDone_def Let_def waiting_def flightItems_def batchText_def)
  qed
  ultimately show ?thesis
    using assms by (simp add: queueOk_def boundsOk_def wakeOk_def appendDone_def Let_def)
qed

lemma appendFailed_queueOk:
  assumes "queueOk cfg st" "pq_flight st = Some batch" "batchText batch = written @ unwritten" "configOk cfg"
  shows "queueOk cfg (appendFailed batch timedOut written st)"
proof -
  let ?st = "appendFailed batch timedOut written st" and ?n = "length (pq_settled st)" and ?gone = "batch @ pq_queue st"
  have order: "orderOk st" and matches: "fileOk st" using assms(1) by (simp_all add: queueOk_def)
  have lines: "map qi_line ?gone = drop ?n (pq_log st)" and ids: "map fst (pq_settled st) @ map qi_promise ?gone = [0..<length (pq_log st)]"
    using order assms(2) by (simp_all add: orderOk_def waiting_def flightItems_def)
  have fields: "pq_settled ?st = pq_settled st @ map (\<lambda>i. (qi_promise i, False)) ?gone" "pq_log ?st = pq_log st" "waiting ?st = []"
    "pq_file ?st = pq_file st @ written" "pq_fail_closed ?st" "pq_flight ?st = None" "pq_queue ?st = []" "pq_queued_bytes ?st = 0"
    by (simp_all add: appendFailed_def Let_def waiting_def flightItems_def)
  have "length (pq_log st) = ?n + length ?gone" using arg_cong [OF ids, of length] by simp
  then have "orderOk ?st" using ids by (simp add: orderOk_def fields comp_def)
  moreover have "fileOk ?st"
  proof (cases "durableCount (pq_settled st) = ?n")
    case True
    have "concat (drop ?n (pq_log st)) = written @ (unwritten @ batchText (pq_queue st))"
      using assms(3) by (simp add: batchText_def flip: lines)
    moreover have "pq_file ?st = concat (take ?n (pq_log st)) @ written"
      using matches True by (simp add: fileOk_def fields logMatches_all)
    moreover have "?gone = [] \<Longrightarrow> written = []" using assms(3) by (simp add: batchText_def)
    moreover have "map snd (pq_settled ?st) = replicate ?n True @ replicate (length ?gone) False"
      using durable_all [OF True] by (simp add: fields comp_def map_replicate_const replicate_add)
    moreover have "durableCount (pq_settled ?st) = ?n" by (simp only: fields durableCount_done True)
    moreover have "length (pq_settled ?st) = ?n + length ?gone" by (simp add: fields)
    ultimately have "logMatches (pq_settled ?st) (pq_log ?st) (pq_file ?st)" by (auto simp: logMatches_def fields(2))
    then show ?thesis by (simp add: fileOk_def fields(3,5))
  next
    case False
    with matches have none: "batch = []" "pq_queue st = []" using assms(2) by (auto simp: fileOk_def waiting_def flightItems_def)
    then have "written = []" using assms(3) by (simp add: batchText_def)
    then have "pq_settled ?st = pq_settled st" "pq_file ?st = pq_file st" using fields(1,4) none by simp_all
    with matches show ?thesis by (simp add: fileOk_def fields(2,3,5))
  qed
  ultimately show ?thesis
    using assms(4) by (simp add: queueOk_def boundsOk_def wakeOk_def fields bytesOf_def configOk_def)
qed

lemma flushFinally_queueOk:
  assumes "queueOk cfg st" "pq_flight st = None"
  shows "queueOk cfg (flushFinally cfg st)"
proof -
  let ?st = "st\<lparr>pq_flush_active := False\<rparr>"
  have "boundsOk cfg ?st" "orderOk ?st" "fileOk ?st"
    using assms queue_frame [where st' = ?st and st = st] by (auto simp: queueOk_def)
  then have "queueOk cfg (flush cfg ?st)" "queueOk cfg (scheduleFlush ?st)"
      "pq_queue ?st = [] \<Longrightarrow> queueOk cfg ?st"
    using queueOk_flush queueOk_schedule by (simp_all add: queueOk_def wakeOk_def)
  moreover have "pq_queue st \<noteq> [] \<Longrightarrow> pq_fail_closed st \<Longrightarrow> queueOk cfg ?st"
    using \<open>boundsOk cfg ?st\<close> \<open>orderOk ?st\<close> \<open>fileOk ?st\<close> by (auto simp: queueOk_def wakeOk_def orderOk_def)
  ultimately show ?thesis by (auto simp: flushFinally_def Let_def)
qed

lemma shutdown_queueOk:
  assumes "queueOk cfg st"
  shows "queueOk cfg (beginShutdown st)" "pq_closed st \<Longrightarrow> queueOk cfg (shutdownPoll cfg overdue st)"
proof -
  have "boundsOk cfg (beginShutdown st)" "orderOk (beginShutdown st)" "fileOk (beginShutdown st)"
    using assms queue_frame [where st' = "beginShutdown st" and st = st] by (auto simp: queueOk_def beginShutdown_def)
  then show "queueOk cfg (beginShutdown st)" by (simp add: queueOk_def wakeOk_def beginShutdown_def)
  assume closed: "pq_closed st"
  let ?st = "st\<lparr>pq_fail_closed := True\<rparr>"
  have "boundsOk cfg ?st" "orderOk ?st" "fileOk ?st"
    using assms closed queue_frame [where st' = ?st and st = st] by (auto simp: queueOk_def)
  with assms closed show "queueOk cfg (shutdownPoll cfg overdue st)"
    using queueOk_flush [of cfg st] by (auto simp: shutdownPoll_def queueOk_def wakeOk_def)
qed

lemma queue_step_ok:
  assumes "queue_step cfg st st'" "queueOk cfg st" "configOk cfg"
  shows "queueOk cfg st'"
  using assms
proof (induction rule: queue_step.induct)
  case (Start st)
  then show ?case using queue_frame [where st' = "startQueue st" and st = st]
    by (auto simp: queueOk_def startQueue_def wakeOk_def)
next
  case (TimerFires st)
  have "boundsOk cfg (clearTimer st)" "orderOk (clearTimer st)" "fileOk (clearTimer st)"
    using TimerFires queue_frame [where st' = "clearTimer st" and st = st] by (auto simp: queueOk_def)
  then show ?case by (rule queueOk_flush)
qed (simp_all add: enqueue_queueOk appendDone_queueOk appendFailed_queueOk flushFinally_queueOk shutdown_queueOk)

lemma queue_reachable_ok: "queue_reachable cfg st \<Longrightarrow> configOk cfg \<Longrightarrow> queueOk cfg st"
proof (induction rule: queue_reachable.induct)
  case Init
  then show ?case
    by (simp add: queueOk_def boundsOk_def orderOk_def fileOk_def wakeOk_def logMatches_def newQueue_def waiting_def
        flightItems_def durableCount_def bytesOf_def configOk_def)
qed (rule queue_step_ok)

section \<open>Draining\<close>

inductive_cases queue_stepE: "queue_step cfg st st'"

definition drainMeasure :: "receipt_queue \<Rightarrow> nat" where
  "drainMeasure st = 3 * length (pq_queue st) +
     (if pq_flush_active st then (if pq_flight st = None then 1 else 2) else 0)"

lemma flush_drains:
  assumes "\<not> pq_flush_active st" "pq_queue st \<noteq> []" "configOk cfg"
  shows "drainMeasure (flush cfg st) < 3 * length (pq_queue st)"
proof -
  have "0 < nat (qc_max_batch_size cfg)" using assms(3) by (simp add: configOk_def)
  moreover have "0 < length (pq_queue st)" using assms(2) by simp
  ultimately have "length (drop (nat (qc_max_batch_size cfg)) (pq_queue st)) < length (pq_queue st)" by simp
  with assms(1,2) show ?thesis by (simp add: drainMeasure_def flush_def Let_def)
qed

text \<open>One step that brings a queue that has not failed closer to empty.\<close>

lemma drain_step:
  assumes "queueOk cfg st" "configOk cfg" "\<not> pq_fail_closed st" "pq_flush_active st \<or> pq_queue st \<noteq> []"
  shows "\<exists>st'. queue_step cfg st st' \<and> drainMeasure st' < drainMeasure st \<and> pq_log st' = pq_log st \<and> \<not> pq_fail_closed st'"
proof (cases "pq_flush_active st")
  case True
  show ?thesis
  proof (cases "pq_flight st")
    case None
    have "drainMeasure (flushFinally cfg st) < drainMeasure st"
      using True None flush_drains [of "st\<lparr>pq_flush_active := False\<rparr>" cfg] assms(2,3)
      by (auto simp: flushFinally_def Let_def drainMeasure_def)
    moreover have "pq_log (flushFinally cfg st) = pq_log st \<and> pq_fail_closed (flushFinally cfg st) = pq_fail_closed st"
      by (simp add: flushFinally_def Let_def)
    ultimately show ?thesis using queue_step.FlushFinally [OF True None, of cfg] assms(3) by metis
  next
    case (Some batch)
    have "drainMeasure (appendDone batch st) < drainMeasure st" "pq_log (appendDone batch st) = pq_log st"
      "pq_fail_closed (appendDone batch st) = pq_fail_closed st"
      using True Some by (simp_all add: appendDone_def Let_def drainMeasure_def)
    with queue_step.AppendDone [OF Some, of cfg] assms(3) show ?thesis by metis
  qed
next
  case False
  with assms(4) have queue: "pq_queue st \<noteq> []" by simp
  show ?thesis
  proof (cases "pq_closed st")
    case True
    have "queue_step cfg st (shutdownPoll cfg False st)" using True by (rule queue_step.ShutdownPoll)
    moreover have "shutdownPoll cfg False st = flush cfg st" using False queue by (simp add: shutdownPoll_def)
    ultimately show ?thesis using False queue flush_drains [OF False queue assms(2)] assms(3)
      by (intro exI [of _ "flush cfg st"]) (simp add: drainMeasure_def)
  next
    case open_queue: False
    then have "pq_timer st" using assms(1) False queue by (simp add: queueOk_def wakeOk_def)
    then have "queue_step cfg st (flush cfg (clearTimer st))" by (rule queue_step.TimerFires)
    with False queue flush_drains [of "clearTimer st" cfg] assms(2,3) show ?thesis
      by (intro exI [of _ "flush cfg (clearTimer st)"]) (simp add: drainMeasure_def)
  qed
qed

lemma drains:
  "queueOk cfg st \<Longrightarrow> configOk cfg \<Longrightarrow> \<not> pq_fail_closed st \<Longrightarrow>
    \<exists>st'. (queue_step cfg)\<^sup>*\<^sup>* st st' \<and> queueOk cfg st' \<and> \<not> pq_fail_closed st' \<and> pq_log st' = pq_log st \<and>
      \<not> pq_flush_active st' \<and> pq_queue st' = []"
proof (induction "drainMeasure st" arbitrary: st rule: less_induct)
  case less
  show ?case
  proof (cases "pq_flush_active st \<or> pq_queue st \<noteq> []")
    case True
    from drain_step [OF less.prems this] obtain st1 where st1: "queue_step cfg st st1" "drainMeasure st1 < drainMeasure st"
      "pq_log st1 = pq_log st" "\<not> pq_fail_closed st1" by blast
    note ok = queue_step_ok [OF st1(1) less.prems(1,2)]
    from less.hyps [OF st1(2) ok less.prems(2) st1(4)] st1(1,3) show ?thesis
      by (metis converse_rtranclp_into_rtranclp)
  next
    case False
    with less.prems show ?thesis by blast
  qed
qed

lemma allDurable:
  assumes "queueOk cfg st" "\<not> pq_fail_closed st" "\<not> pq_flush_active st" "pq_queue st = []"
  shows "pq_settled st = map (\<lambda>i. (i, True)) [0..<length (pq_log st)] \<and> pq_file st = concat (pq_log st)"
proof -
  have none: "waiting st = []" using assms by (auto simp: queueOk_def orderOk_def waiting_def flightItems_def)
  then have ids: "map fst (pq_settled st) = [0..<length (pq_log st)]" using assms(1) by (simp add: queueOk_def orderOk_def)
  have count: "durableCount (pq_settled st) = length (pq_settled st)" using assms(1,2) by (auto simp: queueOk_def fileOk_def)
  have len: "length (pq_settled st) = length (pq_log st)" using arg_cong [OF ids, of length] by simp
  have "pq_settled st = zip (map fst (pq_settled st)) (map snd (pq_settled st))" by (rule zip_map_fst_snd [symmetric])
  also have "\<dots> = map (\<lambda>i. (i, True)) [0..<length (pq_log st)]"
    unfolding ids durable_all [OF count] len by (simp add: zip_replicate2)
  finally show ?thesis using assms(1) count len by (simp add: queueOk_def fileOk_def logMatches_all)
qed

section \<open>A run for the witnesses\<close>

definition sampleQueueOptions :: queue_options where
  "sampleQueueOptions =
     \<lparr>qo_path = Some (jstr ''log''), qo_durability_mode = Some (jstr ''throughput''), qo_max_items = Integer 2,
      qo_max_bytes = Integer 256, qo_max_batch_size = Integer 1, qo_max_batch_age_ms = Integer 10,
      qo_flush_timeout_ms = Undefined\<rparr>"

definition sampleQueueConfig :: queue_config where
  "sampleQueueConfig =
     \<lparr>qc_path = jstr ''log'', qc_durability_mode = jstr ''throughput'', qc_max_items = 2, qc_max_bytes = 256,
      qc_max_batch_size = 1, qc_max_batch_age_ms = 10, qc_flush_timeout_ms = 2000\<rparr>"

lemma sample_validates: "validateReceiptPersistenceConfig sampleQueueOptions = Inr sampleQueueConfig"
proof -
  have "jmul 2 128 = 256" by (simp add: jmul_def fl_safe isSafeInteger_def maxSafe_def)
  then show ?thesis
    by (simp add: validateReceiptPersistenceConfig_def configProblems_def sampleQueueOptions_def sampleQueueConfig_def
        problemIf_def positiveInteger_def isSafeInteger_def maxSafe_def orDefault_def)
qed

lemma sample_bytes: "length (utf8Encode (jstr ''null'' @ [10])) = 5"
  by code_simp

text \<open>Two receipts: the first is flushed at once, the second waits behind it.\<close>

lemma sample_run:
  obtains st where "queue_reachable sampleQueueConfig st" "pq_log st = [jstr ''null'' @ [10], jstr ''null'' @ [10]]"
    "pq_settled st = [(0, True)]" "pq_file st = jstr ''null'' @ [10]" "\<not> pq_fail_closed st" "length (pq_queue st) = 1"
proof -
  let ?c = sampleQueueConfig and ?st0 = "startQueue newQueue" and ?n = "jstr ''null'' @ [10]"
  obtain st1 a1 where e1: "enqueue ?c ?st0 JNull = (st1, a1)" by fastforce
  obtain st2 a2 where e2: "enqueue ?c st1 JNull = (st2, a2)" by fastforce
  have s1: "pq_queue st1 = [] \<and> pq_flight st1 = Some [\<lparr>qi_promise = 0, qi_line = ?n, qi_bytes = 5\<rparr>] \<and> pq_flush_active st1 \<and>
      pq_started st1 \<and> \<not> pq_closed st1 \<and> \<not> pq_fail_closed st1 \<and> pq_log st1 = [?n] \<and> pq_settled st1 = [] \<and> pq_file st1 = [] \<and>
      pq_queued_bytes st1 = 0"
    using e1 by (auto simp: enqueue_def startQueue_def newQueue_def sampleQueueConfig_def sample_bytes flush_def
        syncDepthMetrics_def clearTimer_def bytesOf_def Let_def)
  have s2: "length (pq_queue st2) = 1 \<and> pq_flight st2 = pq_flight st1 \<and> pq_log st2 = [?n, ?n] \<and> pq_settled st2 = [] \<and>
      pq_file st2 = [] \<and> \<not> pq_fail_closed st2"
    using e2 s1 by (auto simp: enqueue_def sampleQueueConfig_def sample_bytes flush_def syncDepthMetrics_def Let_def)
  have "queue_reachable ?c st2"
    using queue_reachable.Step [OF queue_reachable.Step [OF queue_reachable.Step [OF queue_reachable.Init queue_step.Start]
        queue_step.Enqueue [OF e1]] queue_step.Enqueue [OF e2]] .
  then have "queue_reachable ?c (appendDone [\<lparr>qi_promise = 0, qi_line = ?n, qi_bytes = 5\<rparr>] st2)"
    using s1 s2 by (intro queue_reachable.Step [OF _ queue_step.AppendDone]) simp_all
  then show ?thesis using s2
    by (intro that [of "appendDone [\<lparr>qi_promise = 0, qi_line = ?n, qi_bytes = 5\<rparr>] st2"])
      (simp_all add: appendDone_def batchText_def Let_def)
qed

section \<open>Properties\<close>

text \<open>
  C5: a durable receipt is in the log. In every reachable state of a validly configured queue the promises are settled
  once and in the order in which the receipts were accepted, those resolved durable come first, and the log file
  begins with exactly their lines, in order; it holds nothing else unless a flush has failed, and after a failed
  flush nothing is ever resolved durable again.
\<close>

theorem durable_receipts_are_logged:
  assumes "validateReceiptPersistenceConfig o1 = Inr cfg" "queue_reachable cfg st"
  shows "map fst (pq_settled st) @ map qi_promise (waiting st) = [0..<length (pq_log st)] \<and>
    map snd (pq_settled st) = replicate (durableCount (pq_settled st)) True @
      replicate (length (pq_settled st) - durableCount (pq_settled st)) False \<and>
    (\<exists>written. pq_file st = concat (take (durableCount (pq_settled st)) (pq_log st)) @ written \<and>
      (written \<noteq> [] \<longrightarrow> pq_fail_closed st \<and> waiting st = []))"
  using queue_reachable_ok [OF assms(2) validated_configOk [OF assms(1)]]
  by (auto simp: queueOk_def orderOk_def fileOk_def logMatches_def)

theorem durable_receipts_are_logged_witness:
  "\<exists>st. pq_settled st = [(0, True)] \<and> map fst (pq_settled st) @ map qi_promise (waiting st) = [0..<length (pq_log st)] \<and>
     (\<exists>written. pq_file st = concat (take (durableCount (pq_settled st)) (pq_log st)) @ written \<and> written = [])"
proof -
  obtain st where st: "queue_reachable sampleQueueConfig st" "pq_settled st = [(0, True)]" "\<not> pq_fail_closed st"
    by (rule sample_run)
  from durable_receipts_are_logged [OF sample_validates st(1)] st(2,3) show ?thesis by (auto intro!: exI [of _ st])
qed

text \<open>
  The queue is bounded. In every reachable state the queued receipts are at most \<open>max_items\<close>, the byte counter is
  the size of what is queued, and it is at most \<open>max_bytes\<close>.
\<close>

theorem receipt_queue_bounded:
  assumes "validateReceiptPersistenceConfig o1 = Inr cfg" "queue_reachable cfg st"
  shows "int (length (pq_queue st)) \<le> qc_max_items cfg \<and> pq_queued_bytes st = bytesOf (pq_queue st) \<and>
    0 \<le> pq_queued_bytes st \<and> pq_queued_bytes st \<le> qc_max_bytes cfg"
  using queue_reachable_ok [OF assms(2) validated_configOk [OF assms(1)]] bytesOf_nonneg [of "pq_queue st"]
  by (simp add: queueOk_def boundsOk_def)

theorem receipt_queue_bounded_witness:
  "\<exists>st :: receipt_queue. length (pq_queue st) = 1 \<and> int (length (pq_queue st)) \<le> 2 \<and> pq_queued_bytes st = bytesOf (pq_queue st) \<and>
     pq_queued_bytes st \<le> 256"
proof -
  obtain st where st: "queue_reachable sampleQueueConfig st" "length (pq_queue st) = 1" by (rule sample_run)
  from receipt_queue_bounded [OF sample_validates st(1)]
  have "int (length (pq_queue st)) \<le> 2 \<and> pq_queued_bytes st = bytesOf (pq_queue st) \<and> pq_queued_bytes st \<le> 256"
    by (simp add: sampleQueueConfig_def)
  with st(2) show ?thesis by blast
qed

text \<open>
  C21: no receipt is forgotten. In every reachable state that has not failed, a queued receipt has a flush in progress, a timer
  that will start one, or the polls of a shutdown; and if every append succeeds, the queue can run until every accepted
  receipt is resolved durable and the log file is exactly the accepted lines in order.
\<close>

theorem receipt_queue_drains:
  assumes "validateReceiptPersistenceConfig o1 = Inr cfg" "queue_reachable cfg st" "\<not> pq_fail_closed st"
  shows "(pq_queue st \<noteq> [] \<longrightarrow> pq_flush_active st \<or> pq_timer st \<or> pq_closed st) \<and>
    (\<exists>st'. (queue_step cfg)\<^sup>*\<^sup>* st st' \<and> pq_log st' = pq_log st \<and>
      pq_settled st' = map (\<lambda>i. (i, True)) [0..<length (pq_log st)] \<and> pq_file st' = concat (pq_log st))"
proof -
  have cfg: "configOk cfg" by (rule validated_configOk [OF assms(1)])
  have ok: "queueOk cfg st" by (rule queue_reachable_ok [OF assms(2) cfg])
  from drains [OF ok cfg assms(3)] obtain st' where st': "(queue_step cfg)\<^sup>*\<^sup>* st st'" "queueOk cfg st'" "\<not> pq_fail_closed st'"
    "pq_log st' = pq_log st" "\<not> pq_flush_active st'" "pq_queue st' = []" by blast
  from allDurable [OF st'(2,3,5,6)] st'(1,4) ok show ?thesis by (auto simp: queueOk_def wakeOk_def)
qed

theorem receipt_queue_drains_witness:
  "\<exists>st st'. length (pq_queue st) = 1 \<and> (queue_step sampleQueueConfig)\<^sup>*\<^sup>* st st' \<and>
     pq_settled st' = [(0, True), (1, True)] \<and> pq_file st' = jstr ''null'' @ [10] @ jstr ''null'' @ [10]"
proof -
  obtain st where st: "queue_reachable sampleQueueConfig st" "pq_log st = [jstr ''null'' @ [10], jstr ''null'' @ [10]]"
    "\<not> pq_fail_closed st" "length (pq_queue st) = 1"
    by (rule sample_run)
  from receipt_queue_drains [OF sample_validates st(1,3)] obtain st' where st': "(queue_step sampleQueueConfig)\<^sup>*\<^sup>* st st'"
    "pq_settled st' = map (\<lambda>i. (i, True)) [0..<length (pq_log st)]" "pq_file st' = concat (pq_log st)" by blast
  then have "pq_settled st' = [(0, True), (1, True)]" "pq_file st' = jstr ''null'' @ [10] @ jstr ''null'' @ [10]"
    by (simp_all add: st(2) upt_rec)
  with st(4) st'(1) show ?thesis by blast
qed

end
