(* ===== verification/WorkerPoolProps.thy ===== *)
theory WorkerPoolProps
  imports WorkerPool ReceiptQueueProps
begin

text \<open>
  The worker pool: every submitted task is at any time in exactly one of three places (queued, running on one worker,
  answered), the queue and the number of running tasks are bounded, no task waits while a worker is idle, and every accepted
  task is answered, by its timer when by nothing else.
\<close>

section \<open>Where a task is\<close>

definition taskIds :: "pool_worker \<Rightarrow> nat multiset" where
  "taskIds w = (case pw_active w of None \<Rightarrow> {#} | Some t \<Rightarrow> {#pt_id t#})"

fun runningIds :: "pool_worker list \<Rightarrow> nat multiset" where
  "runningIds [] = {#}"
| "runningIds (w # ws) = taskIds w + runningIds ws"

lemma runningIds_append [simp]: "runningIds (xs @ ys) = runningIds xs + runningIds ys"
  by (induction xs) simp_all

lemma runningIds_update: "r < length ws \<Longrightarrow> runningIds (ws[r := w]) + taskIds (ws ! r) = runningIds ws + taskIds w"
  by (induction ws arbitrary: r) (auto simp: nth_Cons ac_simps split: nat.splits)

lemma runningIds_idle: "r < length ws \<Longrightarrow> taskIds w = taskIds (ws ! r) \<Longrightarrow> runningIds (ws[r := w]) = runningIds ws"
  using runningIds_update [of r ws w] by simp

lemma runningIds_new: "runningIds (map newWorker ns) = {#}"
  by (induction ns) (simp_all add: taskIds_def newWorker_def)

definition placeIds :: "'r worker_pool \<Rightarrow> nat multiset" where
  "placeIds st = mset (map fst (wp_replies st)) + runningIds (wp_heap st) + mset (map pt_id (wp_queue st))"

section \<open>The invariant\<close>

definition freeRefs :: "pool_worker list \<Rightarrow> nat set" where
  "freeRefs heap = {r. r < length heap \<and> \<not> pw_replacing (heap ! r) \<and> pw_active (heap ! r) = None}"

definition liveRefs :: "pool_worker list \<Rightarrow> nat set" where
  "liveRefs heap = {r. r < length heap \<and> \<not> pw_replacing (heap ! r)}"

definition workersOk :: "pool_config \<Rightarrow> 'r worker_pool \<Rightarrow> bool" where
  "workersOk cfg st \<longleftrightarrow>
     (\<forall>r < length (wp_heap st). pw_active (wp_heap st ! r) \<noteq> None \<longrightarrow> \<not> pw_replacing (wp_heap st ! r)) \<and>
     (if wp_closed st then wp_idle st = [] \<and> wp_queue st = []
      else distinct (wp_idle st) \<and> set (wp_idle st) = freeRefs (wp_heap st) \<and>
        distinct (wp_workers st) \<and> set (wp_workers st) = liveRefs (wp_heap st) \<and>
        (wp_workers st = [] \<or> length (wp_workers st) = wc_worker_count cfg))"

definition tasksOk :: "'r worker_pool \<Rightarrow> bool" where
  "tasksOk st \<longleftrightarrow> placeIds st = mset [1..<wp_next_task st] \<and> 1 \<le> wp_next_task st"

definition poolOk :: "pool_config \<Rightarrow> 'r worker_pool \<Rightarrow> bool" where
  "poolOk cfg st \<longleftrightarrow> workersOk cfg st \<and> tasksOk st \<and> (wp_idle st = [] \<or> wp_queue st = []) \<and>
     (wp_workers st = [] \<longrightarrow> wp_queue st = []) \<and> int (length (wp_queue st)) \<le> wc_max_queue_depth cfg"

section \<open>Dispatch\<close>

lemma freeRefs_assign:
  "r < length heap \<Longrightarrow> freeRefs (heap[r := (heap ! r)\<lparr>pw_busy := b, pw_active := Some t\<rparr>]) = freeRefs heap - {r}"
  "r < length heap \<Longrightarrow> liveRefs (heap[r := (heap ! r)\<lparr>pw_busy := b, pw_active := a\<rparr>]) = liveRefs heap"
  by (auto simp: freeRefs_def liveRefs_def nth_list_update)

lemma dispatchLoop_spec:
  assumes "dispatchLoop idle queue heap posted = (idle', queue', heap', posted')" "distinct idle" "set idle = freeRefs heap"
    "\<forall>r < length heap. pw_active (heap ! r) \<noteq> None \<longrightarrow> \<not> pw_replacing (heap ! r)"
  shows "distinct idle' \<and> set idle' = freeRefs heap' \<and> liveRefs heap' = liveRefs heap \<and> length heap' = length heap \<and>
    (\<forall>r < length heap'. pw_active (heap' ! r) \<noteq> None \<longrightarrow> \<not> pw_replacing (heap' ! r)) \<and>
    runningIds heap' + mset (map pt_id queue') = runningIds heap + mset (map pt_id queue) \<and>
    (idle' = [] \<or> queue' = []) \<and> queue' = drop (length idle) queue"
  using assms
proof (induction idle queue heap posted rule: dispatchLoop.induct)
  case (1 r idle t queue heap posted)
  let ?heap = "heap[r := (heap ! r)\<lparr>pw_busy := True, pw_active := Some t\<rparr>]"
  have r: "r \<in> freeRefs heap" using 1(4) by auto
  then have r': "r < length heap" "pw_active (heap ! r) = None" "\<not> pw_replacing (heap ! r)" by (simp_all add: freeRefs_def)
  have "runningIds ?heap = runningIds heap + {#pt_id t#}"
    using runningIds_update [OF r'(1), of "(heap ! r)\<lparr>pw_busy := True, pw_active := Some t\<rparr>"] r'(2) by (simp add: taskIds_def)
  moreover have "set idle = freeRefs ?heap" using 1(3,4) freeRefs_assign(1) [OF r'(1)] by auto
  moreover have "\<forall>q < length ?heap. pw_active (?heap ! q) \<noteq> None \<longrightarrow> \<not> pw_replacing (?heap ! q)"
    using 1(5) r' by (auto simp: nth_list_update)
  ultimately show ?case
    using 1(1,2,3) freeRefs_assign(2) [OF r'(1)] by (auto simp: ac_simps)
qed auto

lemma syncPoolDepth_simps [simp]:
  "wp_heap (syncPoolDepth st) = wp_heap st" "wp_workers (syncPoolDepth st) = wp_workers st" "wp_idle (syncPoolDepth st) = wp_idle st"
  "wp_queue (syncPoolDepth st) = wp_queue st" "wp_next_task (syncPoolDepth st) = wp_next_task st"
  "wp_closed (syncPoolDepth st) = wp_closed st" "wp_replies (syncPoolDepth st) = wp_replies st"
  "wp_posted (syncPoolDepth st) = wp_posted st"
  by (simp_all add: syncPoolDepth_def)

lemma dispatch_simps [simp]:
  "wp_workers (dispatch st) = wp_workers st" "wp_next_task (dispatch st) = wp_next_task st"
  "wp_closed (dispatch st) = wp_closed st" "wp_replies (dispatch st) = wp_replies st"
  by (simp_all add: dispatch_def case_prod_unfold Let_def)

lemma dispatch_closed: "wp_idle st = [] \<Longrightarrow> wp_heap (dispatch st) = wp_heap st \<and> wp_idle (dispatch st) = [] \<and> wp_queue (dispatch st) = wp_queue st"
  by (simp add: dispatch_def)

lemma dispatch_ok:
  assumes "workersOk cfg st"
  shows "workersOk cfg (dispatch st)" "placeIds (dispatch st) = placeIds st" "wp_idle (dispatch st) = [] \<or> wp_queue (dispatch st) = []"
    "wp_queue (dispatch st) = drop (length (wp_idle st)) (wp_queue st)" "length (wp_heap (dispatch st)) = length (wp_heap st)"
proof -
  obtain idle' queue' heap' posted' where loop: "dispatchLoop (wp_idle st) (wp_queue st) (wp_heap st) (wp_posted st) = (idle', queue', heap', posted')"
    by (metis prod_cases4)
  have fields: "wp_idle (dispatch st) = idle'" "wp_queue (dispatch st) = queue'" "wp_heap (dispatch st) = heap'"
    by (simp_all add: dispatch_def loop)
  have all: "workersOk cfg (dispatch st) \<and> placeIds (dispatch st) = placeIds st \<and> (idle' = [] \<or> queue' = []) \<and>
      queue' = drop (length (wp_idle st)) (wp_queue st) \<and> length heap' = length (wp_heap st)"
  proof (cases "wp_closed st")
    case True
    with assms loop show ?thesis by (auto simp: workersOk_def placeIds_def fields)
  next
    case False
    with assms dispatchLoop_spec [OF loop] show ?thesis by (auto simp: workersOk_def placeIds_def fields ac_simps)
  qed
  then show "workersOk cfg (dispatch st)" "placeIds (dispatch st) = placeIds st" "wp_idle (dispatch st) = [] \<or> wp_queue (dispatch st) = []"
    "wp_queue (dispatch st) = drop (length (wp_idle st)) (wp_queue st)" "length (wp_heap (dispatch st)) = length (wp_heap st)"
    unfolding fields by blast+
qed

lemma poolOk_dispatch:
  assumes "workersOk cfg st" "tasksOk st" "int (length (wp_queue st) - length (wp_idle st)) \<le> wc_max_queue_depth cfg"
    "wp_workers st = [] \<longrightarrow> wp_queue st = []"
  shows "poolOk cfg (dispatch st)"
  using assms dispatch_ok [OF assms(1)] by (simp add: poolOk_def tasksOk_def)

lemma tasksOk_frame: "placeIds st' = placeIds st \<Longrightarrow> wp_next_task st' = wp_next_task st \<Longrightarrow> tasksOk st \<Longrightarrow> tasksOk st'"
  by (simp add: tasksOk_def)

section \<open>Every step keeps it\<close>

lemma refs_append:
  "freeRefs (heap @ map newWorker ns) = freeRefs heap \<union> {length heap ..< length heap + length ns}"
  "liveRefs (heap @ map newWorker ns) = liveRefs heap \<union> {length heap ..< length heap + length ns}"
  by (auto simp: freeRefs_def liveRefs_def nth_append newWorker_def)

lemma startPool_ok:
  assumes "poolOk cfg st" "\<not> wp_closed st" "0 < wc_worker_count cfg"
  shows "poolOk cfg (startPool cfg st)" "wp_workers (startPool cfg st) \<noteq> []" "\<not> wp_closed (startPool cfg st)"
    "wp_next_task (startPool cfg st) = wp_next_task st" "wp_queue (startPool cfg st) = wp_queue st"
proof -
  let ?n = "wc_worker_count cfg" and ?h = "wp_heap st"
  have "poolOk cfg (startPool cfg st)" if none: "wp_workers st = []"
  proof -
    have refs: "set (map (\<lambda>i. length ?h + i) [0..<?n]) = {length ?h ..< length ?h + ?n}" by (auto simp: image_iff Bex_def)
    have live: "liveRefs ?h = {}" using assms(1,2) none by (simp add: poolOk_def workersOk_def)
    then have "freeRefs ?h = {}" by (auto simp: freeRefs_def liveRefs_def)
    with assms(1,2) none live refs show ?thesis
      by (auto simp: poolOk_def workersOk_def tasksOk_def placeIds_def startPool_def refs_append runningIds_new distinct_map
          inj_on_def Let_def nth_append newWorker_def)
  qed
  with assms show "poolOk cfg (startPool cfg st)" by (cases "wp_workers st = []") (simp_all add: startPool_def)
qed (use assms in \<open>auto simp: startPool_def Let_def\<close>)

lemma submit_ok:
  assumes "submit cfg st rawInput = (st', answer)" "poolOk cfg st" "0 < wc_worker_count cfg"
  shows "poolOk cfg st'"
proof (cases "wp_closed st")
  case True
  with assms show ?thesis by (simp add: submit_def)
next
  case False
  note start = startPool_ok [OF assms(2) False assms(3)]
  let ?s = "startPool cfg st"
  let ?task = "\<lparr>pt_id = wp_next_task ?s, pt_raw_input = rawInput\<rparr>"
  let ?s2 = "?s\<lparr>wp_next_task := wp_next_task ?s + 1, wp_submitted := wp_submitted ?s + 1, wp_queue := wp_queue ?s @ [?task]\<rparr>"
  show ?thesis
  proof (cases "wp_idle ?s = [] \<and> int (length (wp_queue ?s)) \<ge> wc_max_queue_depth cfg")
    case True
    with assms(1) False have "st' = ?s\<lparr>wp_refused := wp_refused ?s + 1\<rparr>" by (auto simp: submit_def Let_def)
    with start(1) show ?thesis by (simp add: poolOk_def workersOk_def tasksOk_def placeIds_def)
  next
    case room: False
    with assms(1) False have st': "st' = dispatch (syncPoolDepth ?s2)" by (auto simp: submit_def Let_def)
    have "workersOk cfg (syncPoolDepth ?s2)" using start(1,3) by (simp add: poolOk_def workersOk_def)
    moreover have "tasksOk (syncPoolDepth ?s2)" using start(1) by (simp add: poolOk_def tasksOk_def placeIds_def)
    moreover have "int (length (wp_queue ?s2) - length (wp_idle ?s2)) \<le> wc_max_queue_depth cfg"
      using room start(1) by (cases "wp_idle ?s") (auto simp: poolOk_def)
    ultimately show ?thesis unfolding st' using start(2) by (intro poolOk_dispatch) simp_all
  qed
qed

lemma handleMessage_ok:
  assumes "poolOk cfg st" "ref < length (wp_heap st)"
  shows "poolOk cfg (handleMessage st ref message)"
proof -
  obtain taskId outcome where message: "message = WorkerMessage taskId outcome" by (cases message)
  have ignored: "poolOk cfg (st\<lparr>wp_failed := wp_failed st + 1\<rparr>)"
    using assms(1) by (simp add: poolOk_def workersOk_def tasksOk_def placeIds_def)
  show ?thesis
  proof (cases "\<exists>task. pw_active (wp_heap st ! ref) = Some task \<and> taskId = Some (pt_id task)")
    case False
    with ignored show ?thesis by (auto simp: handleMessage_def message split: option.splits)
  next
    case True
    then obtain task where task: "pw_active (wp_heap st ! ref) = Some task" "taskId = Some (pt_id task)" by blast
    let ?w = "(wp_heap st ! ref)\<lparr>pw_busy := False, pw_active := None, pw_throughput := pw_throughput (wp_heap st ! ref) + 1\<rparr>"
    define reply where "reply = (case outcome of Inr r \<Rightarrow> Answered r | Inl reason \<Rightarrow> Rejected (orDefault reason (jstr ''ERR_WORKER_POOL_FAILED'')))"
    define st3 where "st3 = st\<lparr>wp_heap := (wp_heap st)[ref := ?w], wp_completed := wp_completed st + 1,
      wp_replies := wp_replies st @ [(pt_id task, reply)], wp_idle := (if wp_closed st then wp_idle st else wp_idle st @ [ref])\<rparr>"
    have st3: "handleMessage st ref message = dispatch st3"
      by (simp add: handleMessage_def message task setWorker_def st3_def reply_def Let_def)
    have live: "\<not> pw_replacing (wp_heap st ! ref)" using assms task(1) by (auto simp: poolOk_def workersOk_def)
    have "freeRefs ((wp_heap st)[ref := ?w]) = insert ref (freeRefs (wp_heap st))" "ref \<notin> freeRefs (wp_heap st)"
      "liveRefs ((wp_heap st)[ref := ?w]) = liveRefs (wp_heap st)"
      using assms(2) live task(1) by (auto simp: freeRefs_def liveRefs_def nth_list_update)
    with assms live have workers: "workersOk cfg st3"
      by (auto simp: poolOk_def workersOk_def st3_def nth_list_update)
    have "runningIds ((wp_heap st)[ref := ?w]) + {#pt_id task#} = runningIds (wp_heap st)"
      using runningIds_update [OF assms(2), of ?w] task(1) by (simp add: taskIds_def)
    then have "placeIds st3 = placeIds st" by (simp add: placeIds_def st3_def)
    then have "tasksOk st3" using assms(1) by (intro tasksOk_frame [of st3 st]) (simp_all add: poolOk_def st3_def)
    with workers show ?thesis unfolding st3 using assms(1)
      by (intro poolOk_dispatch) (auto simp: poolOk_def st3_def)
  qed
qed

lemma fail_replace_ok:
  fixes st :: "'r worker_pool" and n :: int and reason :: jsstring
  assumes "workersOk cfg st" "ref < length (wp_heap st)" "\<not> pw_replacing (wp_heap st ! ref)" "0 < wc_worker_count cfg"
    "wp_idle st = [] \<or> wp_queue st = []" "wp_workers st = [] \<longrightarrow> wp_queue st = []"
  defines "st' \<equiv> replaceWorker ((failActive reason ref st)
    \<lparr>wp_timeout_count := n, wp_idle := filter (\<lambda>r. r \<noteq> ref) (wp_idle (failActive reason ref st))\<rparr>) ref"
  shows "workersOk cfg st' \<and> placeIds st' = placeIds st \<and> wp_queue st' = wp_queue st \<and> wp_next_task st' = wp_next_task st \<and>
    (wp_workers st' = [] \<longrightarrow> wp_workers st = [])"
proof -
  let ?h = "wp_heap st" and ?w = "wp_heap st ! ref"
  let ?w1 = "?w\<lparr>pw_failed := pw_failed ?w + 1, pw_busy := False, pw_active := None\<rparr>"
  define st1 where "st1 = (failActive reason ref st)
    \<lparr>wp_timeout_count := n, wp_idle := filter (\<lambda>r. r \<noteq> ref) (wp_idle (failActive reason ref st))\<rparr>"
  have st1: "wp_heap st1 = ?h[ref := ?w1]" "wp_idle st1 = filter (\<lambda>r. r \<noteq> ref) (wp_idle st)" "wp_queue st1 = wp_queue st"
    "wp_workers st1 = wp_workers st" "wp_closed st1 = wp_closed st" "wp_next_task st1 = wp_next_task st"
    "mset (map fst (wp_replies st1)) = mset (map fst (wp_replies st)) + taskIds ?w"
    by (auto simp: st1_def failActive_def setWorker_def taskIds_def Let_def split: option.splits)
  have running: "runningIds (?h[ref := ?w1]) + taskIds ?w = runningIds ?h"
    using runningIds_update [OF assms(2), of ?w1] by (simp add: taskIds_def)
  have "placeIds st1 = mset (map fst (wp_replies st)) + (runningIds (?h[ref := ?w1]) + taskIds ?w) + mset (map pt_id (wp_queue st))"
    unfolding placeIds_def st1(1,3,7) by (simp only: ac_simps)
  then have places: "placeIds st1 = placeIds st" by (simp only: running placeIds_def)
  have st': "st' = replaceWorker st1 ref" by (simp add: st'_def st1_def)
  show ?thesis
  proof (cases "wp_closed st")
    case True
    then have "st' = st1" by (simp add: st' replaceWorker_def st1 Let_def)
    with True assms(1,2) places show ?thesis by (auto simp: workersOk_def st1 nth_list_update)
  next
    case False
    let ?w2 = "?w1\<lparr>pw_replacing := True\<rparr>" and ?new = "newWorker (pw_worker_id ?w)"
    have w1: "wp_heap st1 ! ref = ?w1" using assms(2) by (simp add: st1)
    have ws: "set (wp_workers st) = liveRefs ?h" "distinct (wp_workers st)" "ref \<in> set (wp_workers st)"
      using assms(1-3) False by (auto simp: workersOk_def liveRefs_def)
    have fields: "wp_heap st' = ?h[ref := ?w2] @ [?new]" "wp_idle st' = filter (\<lambda>r. r \<noteq> ref) (wp_idle st) @ [length ?h]"
      "wp_workers st' = map (\<lambda>r. if r = ref then length ?h else r) (wp_workers st)" "wp_queue st' = wp_queue st"
      "wp_closed st' = wp_closed st" "wp_next_task st' = wp_next_task st" "wp_replies st' = wp_replies st1"
      using False assms(2,3) ws(3) by (simp_all add: st' replaceWorker_def w1 st1 Let_def)
    have free: "freeRefs (wp_heap st') = freeRefs ?h - {ref} \<union> {length ?h}" and live: "liveRefs (wp_heap st') = liveRefs ?h - {ref} \<union> {length ?h}"
      using assms(2) by (auto simp: fields freeRefs_def liveRefs_def nth_append nth_list_update newWorker_def)
    have "runningIds (wp_heap st') = runningIds (wp_heap st1)"
      using runningIds_idle [of ref "wp_heap st1" ?w2] assms(2) w1 by (simp add: fields st1 taskIds_def newWorker_def)
    then have "placeIds st' = placeIds st" using places by (simp add: placeIds_def fields st1)
    moreover have "\<forall>r < length (wp_heap st'). pw_active (wp_heap st' ! r) \<noteq> None \<longrightarrow> \<not> pw_replacing (wp_heap st' ! r)"
      using assms(1,2) by (auto simp: fields workersOk_def nth_append nth_list_update newWorker_def)
    moreover have "length ?h \<notin> set (wp_workers st)" "length ?h \<notin> set (wp_idle st)"
      using ws(1) assms(1) False by (auto simp: liveRefs_def freeRefs_def workersOk_def)
    then have "set (wp_workers st') = liveRefs (wp_heap st') \<and> distinct (wp_workers st')"
      using ws by (auto simp: live fields(3) distinct_map inj_on_def)
    moreover have "set (wp_idle st') = freeRefs (wp_heap st') \<and> distinct (wp_idle st')"
      using assms(1) False \<open>length ?h \<notin> set (wp_idle st)\<close> by (auto simp: free fields(2) workersOk_def)
    moreover have "length (wp_workers st') = length (wp_workers st)" by (simp add: fields)
    ultimately show ?thesis using False assms(1) by (auto simp: workersOk_def fields(4-6))
  qed
qed

lemma failed_dispatch_ok:
  assumes "poolOk cfg st" "ref < length (wp_heap st)" "\<not> pw_replacing (wp_heap st ! ref)" "0 < wc_worker_count cfg"
  shows "poolOk cfg (dispatch (replaceWorker ((failActive reason ref st)
    \<lparr>wp_timeout_count := n, wp_idle := filter (\<lambda>r. r \<noteq> ref) (wp_idle (failActive reason ref st))\<rparr>) ref))"
proof -
  let ?st = "replaceWorker ((failActive reason ref st)
    \<lparr>wp_timeout_count := n, wp_idle := filter (\<lambda>r. r \<noteq> ref) (wp_idle (failActive reason ref st))\<rparr>) ref"
  have ok: "workersOk cfg ?st \<and> placeIds ?st = placeIds st \<and> wp_queue ?st = wp_queue st \<and> wp_next_task ?st = wp_next_task st \<and>
      (wp_workers ?st = [] \<longrightarrow> wp_workers st = [])"
    using assms by (intro fail_replace_ok) (auto simp: poolOk_def)
  then have "tasksOk ?st" using assms(1) by (intro tasksOk_frame [of ?st st]) (simp_all add: poolOk_def)
  with ok assms(1) show ?thesis by (intro poolOk_dispatch) (auto simp: poolOk_def)
qed

lemma handleWorkerFailure_ok:
  assumes "poolOk cfg st" "ref < length (wp_heap st)" "0 < wc_worker_count cfg"
  shows "poolOk cfg (handleWorkerFailure st ref)"
  using failed_dispatch_ok [OF assms(1,2) _ assms(3), of "jstr ''ERR_WORKER_POOL_FAILED''" "wp_timeout_count st"] assms(1)
  by (auto simp: handleWorkerFailure_def Let_def failActive_def setWorker_def)

lemma handleTaskTimeout_ok:
  assumes "poolOk cfg st" "ref < length (wp_heap st)" "0 < wc_worker_count cfg"
  shows "poolOk cfg (handleTaskTimeout st ref taskId)"
proof (cases "\<exists>task. pw_active (wp_heap st ! ref) = Some task \<and> pt_id task = taskId")
  case True
  then have "\<not> pw_replacing (wp_heap st ! ref)" using assms by (auto simp: poolOk_def workersOk_def)
  from failed_dispatch_ok [OF assms(1,2) this assms(3), of "jstr ''ERR_WORKER_TIMEOUT''" "wp_timeout_count st + 1"] True
  show ?thesis by (auto simp: handleTaskTimeout_def Let_def)
next
  case False
  with assms(1) show ?thesis by (auto simp: handleTaskTimeout_def split: option.splits)
qed

lemma shutdownPool_ok: "poolOk cfg st \<Longrightarrow> 0 < wc_max_queue_depth cfg \<Longrightarrow> poolOk cfg (shutdownPool st)"
  by (auto simp: poolOk_def workersOk_def tasksOk_def placeIds_def shutdownPool_def comp_def ac_simps)

lemma pool_step_ok:
  assumes "pool_step cfg st st'" "poolOk cfg st" "0 < wc_worker_count cfg" "0 < wc_max_queue_depth cfg"
  shows "poolOk cfg st'"
  using assms
  by (induction rule: pool_step.induct)
    (simp_all add: startPool_ok submit_ok handleMessage_ok handleWorkerFailure_ok handleTaskTimeout_ok shutdownPool_ok handleWorkerExit_def)

lemma validated_pool: "validateWorkerPoolConfig a b c = Inr cfg \<Longrightarrow> 0 < wc_worker_count cfg \<and> 0 < wc_max_queue_depth cfg"
  using isPositive_integerOr [of a 0] isPositive_integerOr [of b 0]
  by (auto simp: validateWorkerPoolConfig_def poolProblems_def split: if_splits)

lemma pool_reachable_ok:
  assumes "pool_reachable cfg st" "0 < wc_worker_count cfg" "0 < wc_max_queue_depth cfg"
  shows "poolOk cfg st"
  using assms
proof (induction rule: pool_reachable.induct)
  case PoolInit
  then show ?case
    by (simp add: poolOk_def workersOk_def tasksOk_def placeIds_def newPool_def freeRefs_def liveRefs_def)
qed (simp add: pool_step_ok)

section \<open>Answers\<close>

lemma size_runningIds: "size (runningIds ws) = length (filter (\<lambda>w. pw_active w \<noteq> None) ws)"
  by (induction ws) (auto simp: taskIds_def split: option.splits)

lemma length_filter_mono: "(\<And>x. x \<in> set xs \<Longrightarrow> P x \<Longrightarrow> Q x) \<Longrightarrow> length (filter P xs) \<le> length (filter Q xs)"
  by (induction xs) auto

lemma running_bounded:
  assumes "workersOk cfg st" "\<not> wp_closed st"
  shows "size (runningIds (wp_heap st)) \<le> wc_worker_count cfg"
proof -
  let ?h = "wp_heap st"
  have "size (runningIds ?h) \<le> length (filter (\<lambda>w. \<not> pw_replacing w) ?h)"
    unfolding size_runningIds using assms(1) by (intro length_filter_mono) (auto simp: workersOk_def in_set_conv_nth)
  also have "\<dots> = card (liveRefs ?h)" by (simp add: liveRefs_def length_filter_conv_card)
  also have "\<dots> = length (wp_workers st)" using assms by (simp add: workersOk_def distinct_card flip: distinct_card)
  also have "\<dots> \<le> wc_worker_count cfg" using assms by (auto simp: workersOk_def)
  finally show ?thesis .
qed

lemma replaceWorker_simps [simp]:
  "wp_replies (replaceWorker st ref) = wp_replies st" "wp_next_task (replaceWorker st ref) = wp_next_task st"
  by (simp_all add: replaceWorker_def Let_def)

lemma timeout_answers:
  assumes "pw_active (wp_heap st ! ref) = Some t"
  shows "wp_replies (handleTaskTimeout st ref (pt_id t)) = wp_replies st @ [(pt_id t, Rejected (jstr ''ERR_WORKER_TIMEOUT''))]"
    "wp_next_task (handleTaskTimeout st ref (pt_id t)) = wp_next_task st"
  using assms by (simp_all add: handleTaskTimeout_def failActive_def setWorker_def Let_def)

lemma busy_or_done:
  assumes "poolOk cfg st" "runningIds (wp_heap st) = {#}"
  shows "wp_queue st = []"
proof (rule ccontr)
  assume queue: "wp_queue st \<noteq> []"
  with assms(1) have still: "\<not> wp_closed st" "wp_idle st = []" "wp_workers st \<noteq> []" by (auto simp: poolOk_def workersOk_def)
  with assms(1) have "liveRefs (wp_heap st) \<noteq> {}" "freeRefs (wp_heap st) = {}"
    by (auto simp: poolOk_def workersOk_def)
  then obtain r where "r < length (wp_heap st)" "pw_active (wp_heap st ! r) \<noteq> None" by (auto simp: freeRefs_def liveRefs_def)
  then have "0 < length (filter (\<lambda>w. pw_active w \<noteq> None) (wp_heap st))"
    by (auto simp: length_greater_0_conv filter_empty_conv)
  with assms(2) show False by (metis size_runningIds size_empty less_irrefl)
qed

lemma unanswered: "tasksOk st \<Longrightarrow> length (wp_replies st) + size (runningIds (wp_heap st)) + length (wp_queue st) = wp_next_task st - 1"
  unfolding tasksOk_def placeIds_def by (metis length_map length_upt size_mset size_union)

text \<open>The tasks accepted and not yet answered.\<close>

definition unansweredTasks :: "'r worker_pool \<Rightarrow> nat" where
  "unansweredTasks st = wp_next_task st - 1 - length (wp_replies st)"

lemma timer_step_ok:
  assumes "timer_step st st'" "poolOk cfg st" "0 < wc_worker_count cfg"
  shows "poolOk cfg st'" "wp_next_task st' = wp_next_task st" "unansweredTasks st = Suc (unansweredTasks st')"
proof -
  from assms(1) obtain ref t where ref: "ref < length (wp_heap st)" "pw_active (wp_heap st ! ref) = Some t"
    and st': "st' = handleTaskTimeout st ref (pt_id t)" by (auto elim: timer_step.cases)
  show "poolOk cfg st'" unfolding st' by (rule handleTaskTimeout_ok [OF assms(2) ref(1) assms(3)])
  show same: "wp_next_task st' = wp_next_task st" unfolding st' by (rule timeout_answers(2) [OF ref(2)])
  have "wp_heap st ! ref \<in> set (filter (\<lambda>w. pw_active w \<noteq> None) (wp_heap st))" using ref by simp
  then have "0 < size (runningIds (wp_heap st))" unfolding size_runningIds by (rule length_pos_if_in_set)
  moreover have "tasksOk st" using assms(2) by (simp add: poolOk_def)
  ultimately have "length (wp_replies st) < wp_next_task st - 1" using unanswered [of st] by linarith
  moreover have "length (wp_replies st') = Suc (length (wp_replies st))" unfolding st' timeout_answers(1) [OF ref(2)] by simp
  ultimately show "unansweredTasks st = Suc (unansweredTasks st')" unfolding unansweredTasks_def same by linarith
qed

lemma timer_steps_ok:
  assumes "(timer_step ^^ k) st st'" "poolOk cfg st" "0 < wc_worker_count cfg"
  shows "poolOk cfg st' \<and> wp_next_task st' = wp_next_task st \<and> unansweredTasks st = k + unansweredTasks st'"
  using assms(1)
proof (induction k arbitrary: st')
  case 0
  with assms(2) show ?case by simp
next
  case (Suc k)
  then obtain s where "(timer_step ^^ k) st s" and step: "timer_step s st'" by auto
  with Suc.IH have "poolOk cfg s \<and> wp_next_task s = wp_next_task st \<and> unansweredTasks st = k + unansweredTasks s" by blast
  with timer_step_ok [OF step _ assms(3)] show ?case by auto
qed

lemma answered_all:
  assumes "poolOk cfg st" "unansweredTasks st = 0"
  shows "mset (map fst (wp_replies st)) = mset [1..<wp_next_task st]"
proof -
  have tasks: "tasksOk st" using assms(1) by (simp add: poolOk_def)
  have "size (runningIds (wp_heap st)) = 0 \<and> length (wp_queue st) = 0"
    using unanswered [OF tasks] assms(2) unfolding unansweredTasks_def by linarith
  with tasks show ?thesis by (simp add: tasksOk_def placeIds_def)
qed

lemma timer_pending:
  assumes "poolOk cfg st" "0 < unansweredTasks st"
  shows "\<exists>st'. timer_step st st'"
proof -
  have "tasksOk st" using assms(1) by (simp add: poolOk_def)
  have "runningIds (wp_heap st) \<noteq> {#}"
  proof
    assume none: "runningIds (wp_heap st) = {#}"
    from unanswered [OF \<open>tasksOk st\<close>] busy_or_done [OF assms(1) none] assms(2) none show False
      by (simp add: unansweredTasks_def)
  qed
  then have "0 < length (filter (\<lambda>w. pw_active w \<noteq> None) (wp_heap st))" by (metis size_runningIds nonempty_has_size)
  then obtain ref t where "ref < length (wp_heap st)" "pw_active (wp_heap st ! ref) = Some t"
    by (auto simp: length_greater_0_conv filter_empty_conv in_set_conv_nth)
  then show ?thesis by (blast intro: timer_step.TimerFires)
qed

section \<open>Properties\<close>

text \<open>
  C6: a task is answered at most once. In every reachable state of a validly configured pool, each task ever accepted is in
  exactly one place: answered, running on exactly one worker, or queued; so no promise is resolved twice and no
  task runs on two workers, whatever messages, failures and timers of live or replaced workers arrive in whatever order.
\<close>

theorem pool_task_in_one_place:
  assumes "validateWorkerPoolConfig a b c = Inr cfg" "pool_reachable cfg st"
  shows "mset (map fst (wp_replies st)) + runningIds (wp_heap st) + mset (map pt_id (wp_queue st)) = mset [1..<wp_next_task st] \<and>
    distinct (map fst (wp_replies st))"
proof -
  have "poolOk cfg st" using assms validated_pool pool_reachable_ok by blast
  then have places: "mset (map fst (wp_replies st)) + runningIds (wp_heap st) + mset (map pt_id (wp_queue st)) = mset [1..<wp_next_task st]"
    by (simp add: poolOk_def tasksOk_def placeIds_def)
  obtain others where "mset others = runningIds (wp_heap st) + mset (map pt_id (wp_queue st))" using ex_mset by blast
  with places have "mset (map fst (wp_replies st) @ others) = mset [1..<wp_next_task st]" by (simp add: ac_simps)
  then have "distinct (map fst (wp_replies st) @ others)" using mset_eq_imp_distinct_iff distinct_upt by blast
  then have "distinct (map fst (wp_replies st))" by simp
  with places show ?thesis by blast
qed

text \<open>
  The pool is bounded and keeps its workers busy. In every reachable open state at most \<open>max_queue_depth\<close> tasks are queued,
  at most \<open>worker_count\<close> tasks run, and a task waits only while no worker is idle.
\<close>

theorem pool_bounded:
  assumes "validateWorkerPoolConfig a b c = Inr cfg" "pool_reachable cfg st" "\<not> wp_closed st"
  shows "int (length (wp_queue st)) \<le> wc_max_queue_depth cfg \<and> size (runningIds (wp_heap st)) \<le> wc_worker_count cfg \<and>
    (wp_queue st \<noteq> [] \<longrightarrow> wp_idle st = [])"
proof -
  have ok: "poolOk cfg st" using assms validated_pool pool_reachable_ok by blast
  then have "size (runningIds (wp_heap st)) \<le> wc_worker_count cfg"
    using assms(3) by (intro running_bounded) (simp_all add: poolOk_def)
  with ok show ?thesis by (auto simp: poolOk_def)
qed

text \<open>
  C22: every accepted task is answered. From every reachable state, when no worker ever replies and only the timers of the running
  tasks fire, in whatever order, each of them answers one task; while a task is unanswered a timer is pending; and after as many timers as
  tasks were unanswered, each task ever accepted has been answered exactly once.
\<close>

theorem pool_answers_every_task:
  assumes "validateWorkerPoolConfig a b c = Inr cfg" "pool_reachable cfg st"
  shows "\<forall>k st'. (timer_step ^^ k) st st' \<longrightarrow>
    k + unansweredTasks st' = unansweredTasks st \<and> wp_next_task st' = wp_next_task st \<and>
    (k < unansweredTasks st \<longrightarrow> (\<exists>st''. timer_step st' st'')) \<and>
    (k = unansweredTasks st \<longrightarrow> mset (map fst (wp_replies st')) = mset [1..<wp_next_task st'])"
proof (intro allI impI)
  fix k st'
  assume run: "(timer_step ^^ k) st st'"
  have cfg: "0 < wc_worker_count cfg" "0 < wc_max_queue_depth cfg" using validated_pool [OF assms(1)] by simp_all
  have "poolOk cfg st" by (rule pool_reachable_ok [OF assms(2) cfg])
  from timer_steps_ok [OF run this cfg(1)] timer_pending answered_all
  show "k + unansweredTasks st' = unansweredTasks st \<and> wp_next_task st' = wp_next_task st \<and>
    (k < unansweredTasks st \<longrightarrow> (\<exists>st''. timer_step st' st'')) \<and>
    (k = unansweredTasks st \<longrightarrow> mset (map fst (wp_replies st')) = mset [1..<wp_next_task st'])" by force
qed

section \<open>A run for the witnesses\<close>

definition samplePool :: pool_config where
  "samplePool = \<lparr>wc_worker_count = 1, wc_max_queue_depth = 1, wc_task_timeout_ms = 2000\<rparr>"

lemma samplePool_validates: "validateWorkerPoolConfig (Integer 1) (Integer 1) Undefined = Inr samplePool"
  by (simp add: validateWorkerPoolConfig_def poolProblems_def problemIf_def positiveInteger_def isSafeInteger_def maxSafe_def samplePool_def)

text \<open>Two tasks on one worker: the first runs, the second waits.\<close>

lemma samplePool_run:
  obtains st :: "'r worker_pool" where "pool_reachable samplePool st" "wp_next_task st = 3" "length (wp_queue st) = 1" "\<not> wp_closed st"
    "wp_replies st = []"
proof -
  obtain st1 :: "'r worker_pool" and a1 where s1: "submit samplePool newPool [] = (st1, a1)" by fastforce
  obtain st2 and a2 where s2: "submit samplePool st1 [] = (st2, a2)" by fastforce
  have one: "wp_workers st1 = [0] \<and> wp_idle st1 = [] \<and> wp_queue st1 = [] \<and> wp_next_task st1 = 2 \<and> \<not> wp_closed st1 \<and> wp_replies st1 = []"
    using s1 by (auto simp: submit_def newPool_def startPool_def samplePool_def dispatch_def syncPoolDepth_def newWorker_def Let_def)
  then have two: "length (wp_queue st2) = 1 \<and> wp_next_task st2 = 3 \<and> \<not> wp_closed st2 \<and> wp_replies st2 = []"
    using s2 by (auto simp: submit_def startPool_def samplePool_def dispatch_def syncPoolDepth_def Let_def)
  have "pool_reachable samplePool st2"
    by (rule pool_reachable.PoolStep [OF pool_reachable.PoolStep [OF pool_reachable.PoolInit pool_step.PoolSubmit [OF s1]] pool_step.PoolSubmit [OF s2]])
  with two show ?thesis by (intro that [of st2]) simp_all
qed

theorem pool_task_in_one_place_witness:
  "\<exists>st :: nat worker_pool. length (wp_queue st) = 1 \<and> distinct (map fst (wp_replies st)) \<and>
     mset (map fst (wp_replies st)) + runningIds (wp_heap st) + mset (map pt_id (wp_queue st)) = mset [1..<3]"
proof -
  obtain st :: "nat worker_pool" where st: "pool_reachable samplePool st" "wp_next_task st = 3" "length (wp_queue st) = 1"
    by (rule samplePool_run)
  from pool_task_in_one_place [OF samplePool_validates st(1)] st(2,3) show ?thesis by (intro exI [of _ st] conjI) simp_all
qed

theorem pool_bounded_witness:
  "\<exists>st :: nat worker_pool. length (wp_queue st) = 1 \<and> size (runningIds (wp_heap st)) \<le> 1 \<and> wp_idle st = []"
proof -
  obtain st :: "nat worker_pool" where st: "pool_reachable samplePool st" "length (wp_queue st) = 1" "\<not> wp_closed st"
    by (rule samplePool_run)
  from pool_bounded [OF samplePool_validates st(1,3)] have "size (runningIds (wp_heap st)) \<le> 1" "wp_idle st = []"
    using st(2) by (auto simp: samplePool_def)
  with st(2) show ?thesis by blast
qed

theorem pool_answers_every_task_witness:
  "\<exists>st st1 st2 :: nat worker_pool. length (wp_queue st) = 1 \<and> timer_step st st1 \<and> timer_step st1 st2 \<and>
     mset (map fst (wp_replies st2)) = mset [1, 2]"
proof -
  obtain st :: "nat worker_pool" where st: "pool_reachable samplePool st" "wp_next_task st = 3" "length (wp_queue st) = 1"
    "wp_replies st = []" by (rule samplePool_run)
  note all = pool_answers_every_task [OF samplePool_validates st(1), rule_format]
  have two: "unansweredTasks st = 2" using st(2,4) by (simp add: unansweredTasks_def)
  obtain st1 where st1: "timer_step st st1" using all [of 0 st] two by auto
  then obtain st2 where st2: "timer_step st1 st2" using all [of 1 st1] two by auto
  have "(timer_step ^^ 2) st st2" using st1 st2 by (auto simp: numeral_2_eq_2)
  from all [OF this] two st(2) have "mset (map fst (wp_replies st2)) = mset [1..<3]" by simp
  moreover have "mset [1..<3::nat] = mset [1, 2]" by (simp add: upt_rec)
  ultimately show ?thesis using st(3) st1 st2 by metis
qed

end
