(* ===== verification/AuthAssertion.thy ===== *)
theory AuthAssertion
  imports Admission Bytes
begin

text \<open>
  \<open>src/sidecar/auth_authority.mjs\<close>: who may use the sensitive paths of the sidecar. A path needs a capability, a signed
  assertion carries roles and capabilities for a short time, and its nonce is used once; the nonces are kept in memory
  and in a file that is read and rewritten around every use.

  Not under \<open>src\<close>, and therefore the fields of \<open>auth_host\<close>: decoding and parsing the payload (\<open>Buffer.from\<close> with base64url and
  \<open>JSON.parse\<close>), the Ed25519 check (false when it throws) and the environment. A number of the payload is an exact rational,
  or \<open>None\<close> when it is not finite; near the clock readings it is compared with, differences of doubles are exact.
  The texts of the actor are left out, but not the exception that rendering them may raise.
\<close>

section \<open>Roles and paths\<close>

definition roleCapabilities :: "jsstring \<Rightarrow> jsstring list option" where
  "roleCapabilities role =
     (if role = jstr ''ADMIN'' then Some (map jstr [''activate_policy'', ''manage_runtime'', ''export_audit'', ''manage_integrations'',
        ''manage_users'', ''view_runtime'', ''replay_decisions'', ''inspect_receipts'', ''verify_receipts'', ''view_dashboard''])
      else if role = jstr ''OPERATOR'' then Some (map jstr [''view_runtime'', ''replay_decisions'', ''inspect_receipts'',
        ''verify_receipts'', ''view_dashboard''])
      else if role = jstr ''AUDITOR'' then Some (map jstr [''inspect_receipts'', ''verify_receipts'', ''replay_decisions'',
        ''export_audit'', ''view_dashboard''])
      else if role = jstr ''VIEWER'' then Some (map jstr [''view_dashboard''])
      else None)"

text \<open>The table is a plain object: these names are found on its prototype, and what is found there cannot be spread.\<close>

definition prototypeNames :: "jsstring list" where
  "prototypeNames = map jstr
     [''constructor'', ''toString'', ''valueOf'', ''toLocaleString'', ''hasOwnProperty'', ''isPrototypeOf'', ''propertyIsEnumerable'',
      ''__proto__'', ''__defineGetter__'', ''__defineSetter__'', ''__lookupGetter__'', ''__lookupSetter__'']"

definition requiredCapabilityForPath :: "jsstring \<Rightarrow> jsstring option" where
  "requiredCapabilityForPath pathname =
     map_of (map (\<lambda>(p, c). (jstr p, jstr c))
       [(''/policy/activate'', ''activate_policy''), (''/audit/bundle'', ''export_audit''), (''/replay/recent'', ''replay_decisions''),
        (''/receipts/verify'', ''verify_receipts''), (''/verify'', ''verify_receipts'')]) pathname"

section \<open>Assertions\<close>

datatype js_value =
    JsNull
  | JsBool bool
  | JsNumber "rat option"
  | JsString jsstring
  | JsArray "js_value list"
  | JsObject "(jsstring \<times> js_value) list"

record auth_host =
  ah_payload :: "jsstring \<Rightarrow> js_value option"
  ah_verify :: "jsstring \<Rightarrow> jsstring \<Rightarrow> jsstring \<Rightarrow> bool"
  ah_publicKey :: "jsstring option"

datatype assertion_header = NoHeader | OneHeader jsstring | ManyHeaders "jsstring list"

fun parseAuthorityAssertion :: "assertion_header \<Rightarrow> jsstring option" where
  "parseAuthorityAssertion NoHeader = None"
| "parseAuthorityAssertion (OneHeader raw) = (if jsTrim raw \<noteq> [] then Some (jsTrim raw) else None)"
| "parseAuthorityAssertion (ManyHeaders [raw]) = Some raw"
| "parseAuthorityAssertion (ManyHeaders raws) = None"

datatype auth_reason =
    ErrAuthRequired | ErrKeyMissing | ErrMalformed | ErrSignature | ErrClaimsMissing | ErrIssuer | ErrAudience | ErrNonce | ErrTime
  | ErrExpired | ErrClockSkew | ErrTooLong | ErrRole | ErrCapability | ErrAuthzRefused | ErrReplay

fun authReasonText :: "auth_reason \<Rightarrow> jsstring" where
  "authReasonText ErrAuthRequired = jstr ''ERR_AUTH_REQUIRED''"
| "authReasonText ErrKeyMissing = jstr ''ERR_AUTH_ASSERTION_KEY_MISSING''"
| "authReasonText ErrMalformed = jstr ''ERR_AUTH_ASSERTION_MALFORMED''"
| "authReasonText ErrSignature = jstr ''ERR_AUTH_SIGNATURE_INVALID''"
| "authReasonText ErrClaimsMissing = jstr ''ERR_AUTH_CLAIMS_MISSING''"
| "authReasonText ErrIssuer = jstr ''ERR_AUTH_ISSUER_INVALID''"
| "authReasonText ErrAudience = jstr ''ERR_AUTH_AUDIENCE_INVALID''"
| "authReasonText ErrNonce = jstr ''ERR_AUTH_NONCE_INVALID''"
| "authReasonText ErrTime = jstr ''ERR_AUTH_TIME_INVALID''"
| "authReasonText ErrExpired = jstr ''ERR_AUTH_EXPIRED''"
| "authReasonText ErrClockSkew = jstr ''ERR_AUTH_CLOCK_SKEW''"
| "authReasonText ErrTooLong = jstr ''ERR_AUTH_ASSERTION_TOO_LONG''"
| "authReasonText ErrRole = jstr ''ERR_AUTH_ROLE_INVALID''"
| "authReasonText ErrCapability = jstr ''ERR_AUTH_CAPABILITY_INVALID''"
| "authReasonText ErrAuthzRefused = jstr ''ERR_AUTHZ_REFUSED''"
| "authReasonText ErrReplay = jstr ''ERR_AUTH_REPLAY''"

fun splitOn :: "code_unit \<Rightarrow> jsstring \<Rightarrow> jsstring \<Rightarrow> jsstring list" where
  "splitOn sep acc [] = [rev acc]"
| "splitOn sep acc (c # cs) = (if c = sep then rev acc # splitOn sep [] cs else splitOn sep (c # acc) cs)"

definition noncePattern :: "jsstring \<Rightarrow> bool" where
  "noncePattern s \<longleftrightarrow> 24 \<le> length s \<and> length s \<le> 128 \<and>
     list_all (\<lambda>c. isDigit c \<or> 65 \<le> c \<and> c \<le> 90 \<or> 97 \<le> c \<and> c \<le> 122 \<or> c = 95 \<or> c = 45) s"

definition constantStringEqual :: "jsstring \<Rightarrow> jsstring \<Rightarrow> bool" where
  "constantStringEqual left right \<longleftrightarrow> utf8Encode left = utf8Encode right"

definition claimText :: "(jsstring \<times> js_value) list \<Rightarrow> string \<Rightarrow> jsstring option" where
  "claimText payload key =
     (case map_of payload (jstr key) of Some (JsString s) \<Rightarrow> if jsTrim s = [] then None else Some s | _ \<Rightarrow> None)"

definition claimTime :: "(jsstring \<times> js_value) list \<Rightarrow> string \<Rightarrow> rat option" where
  "claimTime payload key = (case map_of payload (jstr key) of Some (JsNumber (Some t)) \<Rightarrow> Some t | _ \<Rightarrow> None)"

definition claimList :: "(jsstring \<times> js_value) list \<Rightarrow> string \<Rightarrow> js_value list option" where
  "claimList payload key = (case map_of payload (jstr key) of Some (JsArray vs) \<Rightarrow> if vs = [] then None else Some vs | _ \<Rightarrow> None)"

text \<open>\<open>new Set(values.map(trim))\<close> without the empty string, in order of insertion.\<close>

fun trimmed :: "js_value \<Rightarrow> jsstring" where
  "trimmed (JsString s) = jsTrim s"
| "trimmed v = []"

fun dedupe :: "'a list \<Rightarrow> 'a list" where
  "dedupe [] = []"
| "dedupe (x # xs) = x # filter (\<lambda>y. y \<noteq> x) (dedupe xs)"

definition nameSet :: "js_value list \<Rightarrow> jsstring list" where
  "nameSet vs = filter (\<lambda>s. s \<noteq> []) (dedupe (map trimmed vs))"

record granted =
  gr_capabilities :: "jsstring list"
  gr_nonce :: jsstring

text \<open>\<open>None\<close>: an exception (a role that names a member of the prototype, an actor that cannot be rendered).\<close>

definition validateAssertionClaims :: "(jsstring \<times> js_value) list \<Rightarrow> int \<Rightarrow> (auth_reason + granted) option" where
  "validateAssertionClaims payload now =
     (case (claimText payload ''issuer'', claimText payload ''audience'', claimText payload ''subject'', claimText payload ''nonce'',
            claimText payload ''session_id'') of
        (Some issuer, Some audience, Some subject, Some nonce, Some sessionId) \<Rightarrow>
          if \<not> constantStringEqual issuer (jstr ''mnde-desktop'') then Some (Inl ErrIssuer)
          else if \<not> constantStringEqual audience (jstr ''mnde-sidecar'') then Some (Inl ErrAudience)
          else if \<not> noncePattern nonce then Some (Inl ErrNonce)
          else
            (case (claimTime payload ''issued_at'', claimTime payload ''expires_at'') of
               (Some issuedAt, Some expiresAt) \<Rightarrow>
                 if expiresAt \<le> of_int now then Some (Inl ErrExpired)
                 else if issuedAt > of_int (now + 30000) then Some (Inl ErrClockSkew)
                 else if issuedAt < of_int (now - 120000 - 30000) then Some (Inl ErrClockSkew)
                 else if expiresAt - issuedAt > 120000 then Some (Inl ErrTooLong)
                 else
                   (case claimList payload ''roles'' of
                      None \<Rightarrow> Some (Inl ErrRole)
                    | Some roleValues \<Rightarrow>
                        (case claimList payload ''capabilities'' of
                           None \<Rightarrow> Some (Inl ErrCapability)
                         | Some capabilityValues \<Rightarrow>
                             (let roles = nameSet roleValues; asserted = nameSet capabilityValues
                              in if length roles \<noteq> length roleValues \<or>
                                   list_ex (\<lambda>r. roleCapabilities r = None \<and> r \<notin> set prototypeNames) roles
                                 then Some (Inl ErrRole)
                                 else if list_ex (\<lambda>r. roleCapabilities r = None) roles then None
                                 else if length asserted \<noteq> length capabilityValues then Some (Inl ErrCapability)
                                 else if list_ex (\<lambda>c. \<not> list_ex (\<lambda>r. c \<in> set (orDefault (roleCapabilities r) [])) roles) asserted
                                 then Some (Inl ErrCapability)
                                 else Some (Inr \<lparr>gr_capabilities = asserted, gr_nonce = nonce\<rparr>))))
             | _ \<Rightarrow> Some (Inl ErrTime))
      | _ \<Rightarrow> Some (Inl ErrClaimsMissing))"

text \<open>
  \<open>sanitizeActor\<close> renders the claims of the actor with \<open>String\<close>, which throws on an object (also inside an array) with an own
  member \<open>toString\<close>, and a missing login time or session expiry as a date, which throws out of the range of dates.
\<close>

fun rendersText :: "js_value \<Rightarrow> bool" where
  "rendersText (JsArray vs) = list_all rendersText vs"
| "rendersText (JsObject members) \<longleftrightarrow> map_of members (jstr ''toString'') = None"
| "rendersText _ = True"

definition dateRenders :: "(jsstring \<times> js_value) list \<Rightarrow> string \<Rightarrow> string \<Rightarrow> bool" where
  "dateRenders payload key timeKey \<longleftrightarrow>
     (if map_of payload (jstr key) \<in> {None, Some JsNull}
      then (case claimTime payload timeKey of None \<Rightarrow> False | Some t \<Rightarrow> \<bar>t\<bar> \<le> 8640000000000000) else True)"

definition actorRenders :: "(jsstring \<times> js_value) list \<Rightarrow> bool" where
  "actorRenders payload \<longleftrightarrow>
     list_all (\<lambda>key. case map_of payload (jstr key) of None \<Rightarrow> True | Some v \<Rightarrow> rendersText v)
       [''user_id'', ''display_name'', ''email'', ''tenant_id'', ''provider'', ''login_time'', ''session_expiry'', ''session_id''] \<and>
     dateRenders payload ''login_time'' ''issued_at'' \<and> dateRenders payload ''session_expiry'' ''expires_at''"

definition validateAuthorityAssertion :: "auth_host \<Rightarrow> jsstring option \<Rightarrow> int \<Rightarrow> (auth_reason + granted) option" where
  "validateAuthorityAssertion h assertion now =
     (case assertion of
        None \<Rightarrow> Some (Inl ErrAuthRequired)
      | Some a \<Rightarrow>
          if jsTrim a = [] then Some (Inl ErrAuthRequired)
          else
            (case ah_publicKey h of
               None \<Rightarrow> Some (Inl ErrKeyMissing)
             | Some key \<Rightarrow>
                 if jsTrim key = [] then Some (Inl ErrKeyMissing)
                 else
                   (case splitOn 46 [] a of
                      [payloadPart, signaturePart] \<Rightarrow>
                        if payloadPart = [] \<or> signaturePart = [] then Some (Inl ErrMalformed)
                        else
                          (case ah_payload h payloadPart of
                             Some (JsObject payload) \<Rightarrow>
                               if \<not> ah_verify h key payloadPart signaturePart then Some (Inl ErrSignature)
                               else
                                 (case validateAssertionClaims payload now of
                                    Some (Inr g) \<Rightarrow> if actorRenders payload then Some (Inr g) else None
                                  | claims \<Rightarrow> claims)
                           | _ \<Rightarrow> Some (Inl ErrMalformed))
                    | _ \<Rightarrow> Some (Inl ErrMalformed))))"

section \<open>Nonces\<close>

text \<open>
  \<open>au_file\<close> is what parsing the cache file yields, \<open>None\<close> when it cannot be read. A failed write leaves the file as it was or
  unreadable.
\<close>

record auth_state =
  au_seen :: "(jsstring \<times> int) list"
  au_file :: "(jsstring \<times> int) list option"

datatype write_outcome = Written | FileKept | FileLost

definition loadPersistentNonces :: "auth_state \<Rightarrow> int \<Rightarrow> auth_state" where
  "loadPersistentNonces st now =
     (case au_file st of
        None \<Rightarrow> st
      | Some entries \<Rightarrow>
          st\<lparr>au_seen := foldl (\<lambda>seen (nonce, expiresAt).
            if noncePattern nonce \<and> expiresAt > now then AList.update nonce expiresAt seen else seen) (au_seen st) entries\<rparr>)"

definition persistNonces :: "auth_state \<Rightarrow> int \<Rightarrow> write_outcome \<Rightarrow> auth_state \<times> bool" where
  "persistNonces st now outcome =
     (case outcome of
        Written \<Rightarrow> (st\<lparr>au_file := Some (filter (\<lambda>(nonce, expiresAt). expiresAt > now) (au_seen st))\<rparr>, True)
      | FileKept \<Rightarrow> (st, False)
      | FileLost \<Rightarrow> (st\<lparr>au_file := None\<rparr>, False))"

definition cleanupNonces :: "auth_state \<Rightarrow> int \<Rightarrow> write_outcome \<Rightarrow> auth_state" where
  "cleanupNonces st now outcome =
     (let kept = filter (\<lambda>(nonce, expiresAt). \<not> expiresAt \<le> now) (au_seen st); st1 = st\<lparr>au_seen := kept\<rparr>
      in if kept \<noteq> au_seen st then fst (persistNonces st1 now outcome) else st1)"

definition reserveNonce :: "auth_state \<Rightarrow> jsstring \<Rightarrow> int \<Rightarrow> write_outcome \<Rightarrow> write_outcome \<Rightarrow> auth_state \<times> bool" where
  "reserveNonce st nonce now cleanupWrite reserveWrite =
     (let st1 = cleanupNonces (loadPersistentNonces st now) now cleanupWrite
      in if map_of (au_seen st1) nonce \<noteq> None then (st1, False)
         else
           (let st2 = st1\<lparr>au_seen := AList.update nonce (now + 120000 + 30000) (au_seen st1)\<rparr>
            in case persistNonces st2 now reserveWrite of
                 (st3, True) \<Rightarrow> (st3, True)
               | (st3, False) \<Rightarrow> (st3\<lparr>au_seen := AList.delete nonce (au_seen st3)\<rparr>, False)))"

section \<open>Authorization\<close>

text \<open>The answer: \<open>AuthOpen\<close> for a path that needs no capability, \<open>AuthGranted\<close>, a refusal, or an exception.\<close>

datatype auth_answer = AuthOpen | AuthGranted jsstring | AuthRefused auth_reason | AuthThrew

definition authorizeAuthorityAction ::
  "auth_host \<Rightarrow> auth_state \<Rightarrow> jsstring \<Rightarrow> jsstring option \<Rightarrow> int \<Rightarrow> write_outcome \<Rightarrow> write_outcome \<Rightarrow> auth_state \<times> auth_answer" where
  "authorizeAuthorityAction h st pathname assertion now cleanupWrite reserveWrite =
     (case requiredCapabilityForPath pathname of
        None \<Rightarrow> (st, AuthOpen)
      | Some capability \<Rightarrow>
          (case validateAuthorityAssertion h assertion now of
             None \<Rightarrow> (st, AuthThrew)
           | Some (Inl reason) \<Rightarrow> (st, AuthRefused reason)
           | Some (Inr context) \<Rightarrow>
               if capability \<notin> set (gr_capabilities context) then (st, AuthRefused ErrAuthzRefused)
               else
                 (case reserveNonce st (gr_nonce context) now cleanupWrite reserveWrite of
                    (st1, True) \<Rightarrow> (st1, AuthGranted capability)
                  | (st1, False) \<Rightarrow> (st1, AuthRefused ErrReplay))))"

end
