(* ===== verification/AuthProps.thy ===== *)
theory AuthProps
  imports AuthAssertion
begin

text \<open>
  An assertion opens a sensitive path only to whom it is entitled, and only once: its nonce is kept at least as long as
  the assertion is valid, in memory and in the file.
\<close>

section \<open>The nonce cache\<close>

definition authOk :: "auth_state \<Rightarrow> bool" where
  "authOk st \<longleftrightarrow> distinct (map fst (au_seen st)) \<and>
     (\<forall>f. au_file st = Some f \<longrightarrow> distinct (map fst f) \<and>
        (\<forall>n e e'. map_of (au_seen st) n = Some e \<longrightarrow> (n, e') \<in> set f \<longrightarrow> e' = e))"

definition loadEntry :: "int \<Rightarrow> (jsstring \<times> int) list \<Rightarrow> jsstring \<times> int \<Rightarrow> (jsstring \<times> int) list" where
  "loadEntry now seen p = (if noncePattern (fst p) \<and> snd p > now then AList.update (fst p) (snd p) seen else seen)"

lemma load_seen:
  "au_seen (loadPersistentNonces st now) = (case au_file st of None \<Rightarrow> au_seen st | Some f \<Rightarrow> foldl (loadEntry now) (au_seen st) f)"
  "au_file (loadPersistentNonces st now) = au_file st"
proof -
  have "loadEntry now = (\<lambda>seen (nonce, expiresAt). if noncePattern nonce \<and> expiresAt > now then AList.update nonce expiresAt seen else seen)"
    by (intro ext) (simp add: loadEntry_def split: prod.splits)
  then show "au_seen (loadPersistentNonces st now) = (case au_file st of None \<Rightarrow> au_seen st | Some f \<Rightarrow> foldl (loadEntry now) (au_seen st) f)"
    "au_file (loadPersistentNonces st now) = au_file st"
    by (simp_all add: loadPersistentNonces_def split: option.splits)
qed

lemma loadEntry_lookup:
  "map_of (loadEntry now seen p) n = (if n = fst p \<and> noncePattern n \<and> snd p > now then Some (snd p) else map_of seen n)"
  by (auto simp: loadEntry_def update_conv')

lemma foldl_load_distinct: "distinct (map fst seen) \<Longrightarrow> distinct (map fst (foldl (loadEntry now) seen f))"
  by (induction f arbitrary: seen) (simp_all add: loadEntry_def distinct_update)

lemma foldl_load_lookup:
  "distinct (map fst f) \<Longrightarrow> map_of (foldl (loadEntry now) seen f) n =
     (case map_of f n of Some e \<Rightarrow> if noncePattern n \<and> e > now then Some e else map_of seen n | None \<Rightarrow> map_of seen n)"
proof (induction f arbitrary: seen)
  case (Cons p f)
  then have IH: "map_of (foldl (loadEntry now) (loadEntry now seen p) f) n =
     (case map_of f n of Some e \<Rightarrow> if noncePattern n \<and> e > now then Some e else map_of (loadEntry now seen p) n
        | None \<Rightarrow> map_of (loadEntry now seen p) n)" by simp
  show ?case
  proof (cases "n = fst p")
    case True
    then have "map_of f n = None" using Cons.prems by (simp add: map_of_eq_None_iff)
    with IH True show ?thesis by (cases p) (simp add: loadEntry_lookup)
  next
    case False
    then have "map_of (loadEntry now seen p) n = map_of seen n" "map_of (p # f) n = map_of f n"
      by (simp add: loadEntry_lookup) (use False in \<open>cases p; simp\<close>)
    with IH show ?thesis by (simp split: option.split)
  qed
qed simp

lemma load_ok:
  assumes "authOk st"
  shows "authOk (loadPersistentNonces st now)"
    "map_of (au_seen st) n = Some e \<Longrightarrow> map_of (au_seen (loadPersistentNonces st now)) n = Some e"
proof -
  show keep: "map_of (au_seen st) n = Some e \<Longrightarrow> map_of (au_seen (loadPersistentNonces st now)) n = Some e" for n e
  proof (cases "au_file st")
    case (Some f)
    assume seen: "map_of (au_seen st) n = Some e"
    have f: "distinct (map fst f)" using assms Some by (simp add: authOk_def)
    have "map_of f n = Some e' \<Longrightarrow> e' = e" for e' using assms Some seen by (auto simp: authOk_def dest: map_of_SomeD)
    then show ?thesis by (auto simp: load_seen Some foldl_load_lookup [OF f] seen split: option.splits)
  qed (simp add: load_seen)
  show "authOk (loadPersistentNonces st now)"
  proof (cases "au_file st")
    case (Some f)
    have f: "distinct (map fst f)" using assms Some by (simp add: authOk_def)
    have "e' = e" if new: "map_of (au_seen (loadPersistentNonces st now)) n = Some e" and "(n, e') \<in> set f" for n e e'
    proof (cases "map_of (au_seen st) n")
      case None
      have "map_of f n = Some e'" using that(2) f by simp
      with new None show ?thesis by (auto simp: load_seen Some foldl_load_lookup [OF f] split: if_splits)
    next
      case (Some e1)
      from keep [OF this] new have "e1 = e" by simp
      with Some assms \<open>au_file st = Some f\<close> that(2) show ?thesis by (auto simp: authOk_def)
    qed
    with assms Some show ?thesis by (auto simp: authOk_def load_seen(2)) (simp add: load_seen foldl_load_distinct)
  qed (use assms in \<open>simp add: authOk_def load_seen\<close>)
qed

lemma map_of_filter_distinct: "distinct (map fst xs) \<Longrightarrow> map_of xs n = Some e \<Longrightarrow> P (n, e) \<Longrightarrow> map_of (filter P xs) n = Some e"
  by (induction xs) (auto split: if_splits)

lemma map_of_filter_Some: "distinct (map fst xs) \<Longrightarrow> map_of (filter P xs) n = Some e \<Longrightarrow> map_of xs n = Some e"
  by (induction xs) (auto split: if_splits dest: map_of_SomeD simp: rev_image_eqI)

lemma persist_ok:
  assumes "distinct (map fst (au_seen st))" "outcome = Written \<or> authOk st"
  shows "authOk (fst (persistNonces st now outcome))" "au_seen (fst (persistNonces st now outcome)) = au_seen st"
proof -
  have "e' = e" if "map_of (au_seen st) n = Some e" "(n, e') \<in> set (filter P (au_seen st))" for n e e' P
    using eq_key_imp_eq_value [OF assms(1), of n e' e] that by (auto dest: map_of_SomeD)
  then show "authOk (fst (persistNonces st now outcome))"
    using assms by (cases outcome) (auto simp: persistNonces_def authOk_def distinct_map_filter)
qed (simp add: persistNonces_def split: write_outcome.splits)

lemma cleanup_ok:
  assumes "authOk st"
  shows "authOk (cleanupNonces st now outcome)"
    "map_of (au_seen st) n = Some e \<Longrightarrow> now < e \<Longrightarrow> map_of (au_seen (cleanupNonces st now outcome)) n = Some e"
proof -
  let ?P = "\<lambda>(nonce, expiresAt). \<not> expiresAt \<le> now" and ?st = "st\<lparr>au_seen := filter (\<lambda>(nonce, expiresAt). \<not> expiresAt \<le> now) (au_seen st)\<rparr>"
  have dist: "distinct (map fst (au_seen st))" using assms by (simp add: authOk_def)
  have ok: "authOk ?st" using assms map_of_filter_Some [OF dist] by (auto simp: authOk_def distinct_map_filter)
  then have "distinct (map fst (au_seen ?st))" by (simp add: authOk_def)
  note persist = persist_ok [OF this disjI2 [OF ok], of now outcome]
  show "authOk (cleanupNonces st now outcome)" using ok persist(1) assms by (simp add: cleanupNonces_def Let_def)
  have "au_seen (cleanupNonces st now outcome) = filter ?P (au_seen st)"
    using persist(2) by (simp add: cleanupNonces_def Let_def)
  then show "map_of (au_seen st) n = Some e \<Longrightarrow> now < e \<Longrightarrow> map_of (au_seen (cleanupNonces st now outcome)) n = Some e"
    using map_of_filter_distinct [OF dist, of n e ?P] by simp
qed

lemma reserveNonce_ok:
  assumes "authOk st" "reserveNonce st nonce now cw rw = (st', accepted)"
  shows "authOk st'" "accepted \<Longrightarrow> map_of (au_seen st') nonce = Some (now + 150000)"
    "map_of (au_seen st) n = Some e \<Longrightarrow> now < e \<Longrightarrow> map_of (au_seen st') n = Some e"
    "map_of (au_seen st) nonce = Some e \<Longrightarrow> now < e \<Longrightarrow> \<not> accepted"
proof -
  let ?st1 = "cleanupNonces (loadPersistentNonces st now) now cw"
  have ok1: "authOk ?st1" using load_ok(1) [OF assms(1)] by (rule cleanup_ok)
  have keep1: "map_of (au_seen st) n = Some e \<Longrightarrow> now < e \<Longrightarrow> map_of (au_seen ?st1) n = Some e" for n e
    by (rule cleanup_ok(2) [OF load_ok(1) [OF assms(1)] load_ok(2) [OF assms(1)]])
  let ?st2 = "?st1\<lparr>au_seen := AList.update nonce (now + 120000 + 30000) (au_seen ?st1)\<rparr>"
  show "map_of (au_seen st) nonce = Some e \<Longrightarrow> now < e \<Longrightarrow> \<not> accepted"
    using keep1 [of nonce e] assms(2) by (auto simp: reserveNonce_def Let_def split: option.splits)
  show "accepted \<Longrightarrow> map_of (au_seen st') nonce = Some (now + 150000)"
    using assms(2) by (auto simp: reserveNonce_def Let_def persistNonces_def update_conv' split: if_splits write_outcome.splits)
  have dist: "distinct (map fst (au_seen ?st2))" using ok1 by (simp add: authOk_def distinct_update)
  have "authOk st'" if new: "map_of (au_seen ?st1) nonce = None"
  proof (cases rw)
    case Written
    then have "st' = fst (persistNonces ?st2 now Written)" using assms(2) new
      by (auto simp: reserveNonce_def Let_def persistNonces_def)
    with persist_ok(1) [OF dist, of Written now] show ?thesis by simp
  next
    case FileKept
    then have "st' = ?st1\<lparr>au_seen := AList.delete nonce (au_seen ?st2)\<rparr>" using assms(2) new
      by (auto simp: reserveNonce_def Let_def persistNonces_def)
    with ok1 dist new show ?thesis by (auto simp: authOk_def distinct_delete delete_conv' update_conv' split: if_splits)
  next
    case FileLost
    then have "st' = ?st1\<lparr>au_file := None, au_seen := AList.delete nonce (au_seen ?st2)\<rparr>" using assms(2) new
      by (auto simp: reserveNonce_def Let_def persistNonces_def)
    with dist show ?thesis by (simp add: authOk_def distinct_delete)
  qed
  moreover have "st' = ?st1" if "map_of (au_seen ?st1) nonce \<noteq> None" using assms(2) that by (simp add: reserveNonce_def Let_def)
  ultimately show "authOk st'" using ok1 by (cases "map_of (au_seen ?st1) nonce") auto
  show "map_of (au_seen st) n = Some e \<Longrightarrow> now < e \<Longrightarrow> map_of (au_seen st') n = Some e"
    using keep1 [of n e] assms(2)
    by (auto simp: reserveNonce_def Let_def persistNonces_def update_conv' delete_conv' split: if_splits write_outcome.splits option.splits)
qed

section \<open>Claims\<close>

definition assertionPayload :: "auth_host \<Rightarrow> jsstring option \<Rightarrow> (jsstring \<times> js_value) list option" where
  "assertionPayload h assertion =
     (case assertion of None \<Rightarrow> None
      | Some a \<Rightarrow>
          (case splitOn 46 [] a of
             [payloadPart, signaturePart] \<Rightarrow>
               (case ah_payload h payloadPart of
                  Some (JsObject payload) \<Rightarrow>
                    (case ah_publicKey h of
                       None \<Rightarrow> None
                     | Some key \<Rightarrow> if ah_verify h key payloadPart signaturePart then Some payload else None)
                | _ \<Rightarrow> None)
           | _ \<Rightarrow> None))"

lemma validateAssertion_Inr:
  assumes "validateAuthorityAssertion h assertion now = Some (Inr g)"
  obtains payload where "assertionPayload h assertion = Some payload" "validateAssertionClaims payload now = Some (Inr g)"
  using assms
  by (auto simp: validateAuthorityAssertion_def assertionPayload_def split: option.splits if_splits list.splits js_value.splits sum.splits)

definition entitled :: "(jsstring \<times> js_value) list \<Rightarrow> jsstring \<Rightarrow> bool" where
  "entitled payload capability \<longleftrightarrow>
     (\<exists>roles r caps. map_of payload (jstr ''roles'') = Some (JsArray roles) \<and> r \<in> trimmed ` set roles \<and>
        roleCapabilities r = Some caps \<and> capability \<in> set caps)"

lemma set_dedupe: "set (dedupe xs) = set xs"
  by (induction xs) auto

lemma validateClaims_Inr:
  assumes "validateAssertionClaims payload now = Some (Inr g)"
  shows "claimText payload ''nonce'' = Some (gr_nonce g)"
    "\<exists>i e. claimTime payload ''issued_at'' = Some i \<and> claimTime payload ''expires_at'' = Some e \<and> of_int now < e \<and>
       i \<le> of_int (now + 30000) \<and> e - i \<le> 120000"
    "\<forall>c \<in> set (gr_capabilities g). entitled payload c"
proof -
  from assms obtain nonce issuedAt expiresAt roleValues capabilityValues where parts:
    "claimText payload ''nonce'' = Some nonce" "claimTime payload ''issued_at'' = Some issuedAt"
    "claimTime payload ''expires_at'' = Some expiresAt" "claimList payload ''roles'' = Some roleValues"
    "claimList payload ''capabilities'' = Some capabilityValues"
    and checks: "\<not> expiresAt \<le> of_int now" "\<not> issuedAt > of_int (now + 30000)" "\<not> expiresAt - issuedAt > 120000"
      "\<not> list_ex (\<lambda>r. roleCapabilities r = None) (nameSet roleValues)"
      "\<not> list_ex (\<lambda>c. \<not> list_ex (\<lambda>r. c \<in> set (orDefault (roleCapabilities r) [])) (nameSet roleValues)) (nameSet capabilityValues)"
      "g = \<lparr>gr_capabilities = nameSet capabilityValues, gr_nonce = nonce\<rparr>"
    unfolding validateAssertionClaims_def Let_def by (clarsimp split: option.splits if_splits)
  show "claimText payload ''nonce'' = Some (gr_nonce g)" using parts(1) checks(6) by simp
  show "\<exists>i e. claimTime payload ''issued_at'' = Some i \<and> claimTime payload ''expires_at'' = Some e \<and> of_int now < e \<and>
       i \<le> of_int (now + 30000) \<and> e - i \<le> 120000"
    using parts(2,3) checks(1-3) by (intro exI [of _ issuedAt] exI [of _ expiresAt]) simp
  show "\<forall>c \<in> set (gr_capabilities g). entitled payload c"
  proof
    fix c assume "c \<in> set (gr_capabilities g)"
    with checks(5,6) obtain r where r: "r \<in> set (nameSet roleValues)" "c \<in> set (orDefault (roleCapabilities r) [])"
      by (auto simp: list_ex_iff)
    with checks(4) obtain caps where "roleCapabilities r = Some caps" "c \<in> set caps"
      by (auto simp: list_ex_iff orDefault_def split: option.splits)
    moreover have "r \<in> trimmed ` set roleValues" using r(1) by (auto simp: nameSet_def set_dedupe)
    moreover have "map_of payload (jstr ''roles'') = Some (JsArray roleValues)"
      using parts(4) by (auto simp: claimList_def split: option.splits js_value.splits if_splits)
    ultimately show "entitled payload c" unfolding entitled_def by blast
  qed
qed

lemma authorize_granted:
  assumes "authorizeAuthorityAction h st pathname assertion now cw rw = (st', AuthGranted capability)"
  obtains g where "requiredCapabilityForPath pathname = Some capability" "validateAuthorityAssertion h assertion now = Some (Inr g)"
    "capability \<in> set (gr_capabilities g)" "reserveNonce st (gr_nonce g) now cw rw = (st', True)"
  using assms by (auto simp: authorizeAuthorityAction_def split: option.splits sum.splits if_splits prod.splits bool.splits)

lemma authorize_ok:
  assumes "authOk st"
  shows "authOk (fst (authorizeAuthorityAction h st pathname assertion now cw rw))"
    "map_of (au_seen st) n = Some e \<Longrightarrow> now < e \<Longrightarrow>
      map_of (au_seen (fst (authorizeAuthorityAction h st pathname assertion now cw rw))) n = Some e"
proof -
  have "fst (authorizeAuthorityAction h st pathname assertion now cw rw) = st \<or>
      (\<exists>nonce. fst (authorizeAuthorityAction h st pathname assertion now cw rw) = fst (reserveNonce st nonce now cw rw))"
    by (auto simp: authorizeAuthorityAction_def split: option.splits sum.splits if_splits prod.splits bool.splits) (metis fst_conv)+
  then show "authOk (fst (authorizeAuthorityAction h st pathname assertion now cw rw))"
    "map_of (au_seen st) n = Some e \<Longrightarrow> now < e \<Longrightarrow>
      map_of (au_seen (fst (authorizeAuthorityAction h st pathname assertion now cw rw))) n = Some e"
    using assms reserveNonce_ok(1,3) [OF assms] by (metis prod.collapse)+
qed

section \<open>Properties\<close>

record auth_call =
  ac_pathname :: jsstring
  ac_assertion :: "jsstring option"
  ac_now :: int
  ac_cleanup_write :: write_outcome
  ac_reserve_write :: write_outcome

definition authCall :: "auth_host \<Rightarrow> auth_state \<Rightarrow> auth_call \<Rightarrow> auth_state \<times> auth_answer" where
  "authCall h st c =
     authorizeAuthorityAction h st (ac_pathname c) (ac_assertion c) (ac_now c) (ac_cleanup_write c) (ac_reserve_write c)"

definition authCalls :: "auth_host \<Rightarrow> auth_state \<Rightarrow> auth_call list \<Rightarrow> auth_state" where
  "authCalls h st cs = foldl (\<lambda>s c. fst (authCall h s c)) st cs"

lemma authCalls_ok:
  "authOk st \<Longrightarrow> authOk (authCalls h st cs)"
  "authOk st \<Longrightarrow> map_of (au_seen st) n = Some e \<Longrightarrow> \<forall>c \<in> set cs. ac_now c < e \<Longrightarrow> map_of (au_seen (authCalls h st cs)) n = Some e"
  by (induction cs arbitrary: st) (simp_all add: authCalls_def authCall_def authorize_ok)

text \<open>
  C10: an assertion is used once. After an assertion has opened a sensitive path, no later call with the same assertion
  opens any sensitive path, whatever calls come in between and whichever writes of the cache file fail, as long as the
  clock does not run back below an earlier reading.
\<close>

theorem assertion_used_once:
  assumes "authOk st"
    and "authCall h st c1 = (st1, AuthGranted capability1)"
    and "\<forall>c \<in> set between. ac_now c \<le> ac_now c2" and "ac_assertion c2 = ac_assertion c1"
  shows "snd (authCall h (authCalls h st1 between) c2) \<noteq> AuthGranted capability2"
proof
  assume "snd (authCall h (authCalls h st1 between) c2) = AuthGranted capability2"
  then obtain st2 where second: "authCall h (authCalls h st1 between) c2 = (st2, AuthGranted capability2)" by (metis prod.collapse)
  from assms(2) obtain g1 where g1: "validateAuthorityAssertion h (ac_assertion c1) (ac_now c1) = Some (Inr g1)"
    "reserveNonce st (gr_nonce g1) (ac_now c1) (ac_cleanup_write c1) (ac_reserve_write c1) = (st1, True)"
    unfolding authCall_def by (rule authorize_granted)
  from second obtain g2 where g2: "validateAuthorityAssertion h (ac_assertion c1) (ac_now c2) = Some (Inr g2)"
    "reserveNonce (authCalls h st1 between) (gr_nonce g2) (ac_now c2) (ac_cleanup_write c2) (ac_reserve_write c2) = (st2, True)"
    unfolding authCall_def assms(4) by (rule authorize_granted)
  from g1(1) obtain p1 where p1: "assertionPayload h (ac_assertion c1) = Some p1" "validateAssertionClaims p1 (ac_now c1) = Some (Inr g1)"
    by (rule validateAssertion_Inr)
  from g2(1) obtain p2 where p2: "assertionPayload h (ac_assertion c1) = Some p2" "validateAssertionClaims p2 (ac_now c2) = Some (Inr g2)"
    by (rule validateAssertion_Inr)
  have same: "gr_nonce g2 = gr_nonce g1" using validateClaims_Inr(1) [OF p1(2)] validateClaims_Inr(1) [OF p2(2)] p1(1) p2(1) by simp
  obtain i e where ie: "claimTime p1 ''issued_at'' = Some i" "claimTime p1 ''expires_at'' = Some e"
    "i \<le> of_int (ac_now c1 + 30000)" "e - i \<le> 120000" using validateClaims_Inr(2) [OF p1(2)] by auto
  have "of_int (ac_now c2) < e" using validateClaims_Inr(2) [OF p2(2)] p1(1) p2(1) ie(2) by auto
  also have "e \<le> of_int (ac_now c1 + 150000)" using ie(3,4) by simp
  finally have late: "ac_now c2 < ac_now c1 + 150000" by (simp only: of_int_less_iff)
  have seen: "map_of (au_seen st1) (gr_nonce g1) = Some (ac_now c1 + 150000)" by (rule reserveNonce_ok(2) [OF assms(1) g1(2)]) simp
  have "map_of (au_seen (authCalls h st1 between)) (gr_nonce g1) = Some (ac_now c1 + 150000)"
    using assms(3) late by (intro authCalls_ok(2) reserveNonce_ok(1) [OF assms(1) g1(2)] seen) fastforce
  from reserveNonce_ok(4) [OF authCalls_ok(1) [OF reserveNonce_ok(1) [OF assms(1) g1(2)]] g2(2)] this late same
  show False by simp
qed

text \<open>
  C26: only the entitled get in. When a sensitive path is opened, the assertion's payload carries a valid signature of the
  configured key, one of its roles has the capability the path requires, and it has not expired and was not issued
  in the future beyond the permitted skew.
\<close>

theorem granted_is_entitled:
  assumes "authorizeAuthorityAction h st pathname assertion now cw rw = (st', AuthGranted capability)"
  shows "requiredCapabilityForPath pathname = Some capability \<and>
    (\<exists>payload i e. assertionPayload h assertion = Some payload \<and> entitled payload capability \<and>
       claimTime payload ''issued_at'' = Some i \<and> claimTime payload ''expires_at'' = Some e \<and>
       of_int now < e \<and> i \<le> of_int (now + 30000) \<and> e \<le> of_int (now + 150000))"
proof -
  from assms obtain g where g: "requiredCapabilityForPath pathname = Some capability"
    "validateAuthorityAssertion h assertion now = Some (Inr g)" "capability \<in> set (gr_capabilities g)"
    by (rule authorize_granted)
  from g(2) obtain payload where p: "assertionPayload h assertion = Some payload" "validateAssertionClaims payload now = Some (Inr g)"
    by (rule validateAssertion_Inr)
  from validateClaims_Inr(2) [OF p(2)] obtain i e where ie: "claimTime payload ''issued_at'' = Some i"
    "claimTime payload ''expires_at'' = Some e" "of_int now < e" "i \<le> of_int (now + 30000)" "e - i \<le> 120000" by blast
  then have "e \<le> of_int (now + 150000)" by simp
  with ie g(1,3) p(1) validateClaims_Inr(3) [OF p(2)] show ?thesis by blast
qed

section \<open>An assertion for the witnesses\<close>

definition samplePayload :: "string \<Rightarrow> string \<Rightarrow> (jsstring \<times> js_value) list" where
  "samplePayload role capability =
     [(jstr ''issuer'', JsString (jstr ''mnde-desktop'')), (jstr ''audience'', JsString (jstr ''mnde-sidecar'')),
      (jstr ''subject'', JsString (jstr ''s'')), (jstr ''nonce'', JsString (replicate 24 65)), (jstr ''session_id'', JsString (jstr ''s'')),
      (jstr ''issued_at'', JsNumber (Some 0)), (jstr ''expires_at'', JsNumber (Some 1000)),
      (jstr ''roles'', JsArray [JsString (jstr role)]), (jstr ''capabilities'', JsArray [JsString (jstr capability)])]"

definition sampleAuthHost :: auth_host where
  "sampleAuthHost =
     \<lparr>ah_payload = (\<lambda>part. Some (JsObject (samplePayload ''AUDITOR'' ''verify_receipts''))),
      ah_verify = (\<lambda>key payload signature. True), ah_publicKey = Some (jstr ''k'')\<rparr>"

definition emptyAuth :: auth_state where
  "emptyAuth = \<lparr>au_seen = [], au_file = None\<rparr>"

definition sampleCall :: "int \<Rightarrow> auth_call" where
  "sampleCall now =
     \<lparr>ac_pathname = jstr ''/verify'', ac_assertion = Some (jstr ''p.s''), ac_now = now, ac_cleanup_write = FileKept, ac_reserve_write = Written\<rparr>"

lemma sample_claims:
  "validateAssertionClaims (samplePayload ''AUDITOR'' ''verify_receipts'') 0 =
     Some (Inr \<lparr>gr_capabilities = [jstr ''verify_receipts''], gr_nonce = replicate 24 65\<rparr>)"
  by code_simp

lemma sample_renders: "actorRenders (samplePayload ''AUDITOR'' ''verify_receipts'')"
  by code_simp

lemma sample_granted: "\<exists>st1. authCall sampleAuthHost emptyAuth (sampleCall 0) = (st1, AuthGranted (jstr ''verify_receipts''))"
proof -
  have split: "splitOn 46 [] (jstr ''p.s'') = [jstr ''p'', jstr ''s'']" by code_simp
  have trim: "jsTrim (jstr ''p.s'') = jstr ''p.s''" "jsTrim (jstr ''k'') = jstr ''k''" by code_simp+
  have "validateAuthorityAssertion sampleAuthHost (Some (jstr ''p.s'')) 0 =
      Some (Inr \<lparr>gr_capabilities = [jstr ''verify_receipts''], gr_nonce = replicate 24 65\<rparr>)"
    using sample_claims sample_renders by (simp add: validateAuthorityAssertion_def sampleAuthHost_def split trim)
  then show ?thesis
    by (simp add: authCall_def authorizeAuthorityAction_def sampleCall_def requiredCapabilityForPath_def reserveNonce_def emptyAuth_def
        loadPersistentNonces_def cleanupNonces_def persistNonces_def Let_def)
qed

lemma emptyAuth_ok: "authOk emptyAuth"
  by (simp add: authOk_def emptyAuth_def)

theorem assertion_used_once_witness:
  "\<exists>st1. authCall sampleAuthHost emptyAuth (sampleCall 0) = (st1, AuthGranted (jstr ''verify_receipts'')) \<and>
     snd (authCall sampleAuthHost (authCalls sampleAuthHost st1 [sampleCall 1]) (sampleCall 2)) \<noteq> AuthGranted (jstr ''verify_receipts'')"
proof -
  obtain st1 where st1: "authCall sampleAuthHost emptyAuth (sampleCall 0) = (st1, AuthGranted (jstr ''verify_receipts''))"
    using sample_granted by blast
  have "snd (authCall sampleAuthHost (authCalls sampleAuthHost st1 [sampleCall 1]) (sampleCall 2)) \<noteq> AuthGranted (jstr ''verify_receipts'')"
    by (rule assertion_used_once [OF emptyAuth_ok st1]) (simp_all add: sampleCall_def)
  with st1 show ?thesis by blast
qed

theorem granted_is_entitled_witness:
  "entitled (samplePayload ''AUDITOR'' ''verify_receipts'') (jstr ''verify_receipts'')"
proof -
  obtain st1 where "authorizeAuthorityAction sampleAuthHost emptyAuth (jstr ''/verify'') (Some (jstr ''p.s'')) 0 FileKept Written =
      (st1, AuthGranted (jstr ''verify_receipts''))"
    using sample_granted by (auto simp: authCall_def sampleCall_def)
  from granted_is_entitled [OF this] obtain payload where
    "assertionPayload sampleAuthHost (Some (jstr ''p.s'')) = Some payload" "entitled payload (jstr ''verify_receipts'')" by blast
  moreover have "splitOn 46 [] (jstr ''p.s'') = [jstr ''p'', jstr ''s'']" by code_simp
  ultimately show ?thesis by (simp add: assertionPayload_def sampleAuthHost_def)
qed

text \<open>A role that names a member of the prototype of the role table is an exception, not a refusal.\<close>

lemma prototype_role_throws: "validateAssertionClaims (samplePayload ''constructor'' ''view_dashboard'') 0 = None"
  by code_simp

end
