(* ===== verification/Watchdog.thy ===== *)
theory Watchdog
  imports Complex_Main ReceiptQueue
begin

text \<open>
  \<open>src/sidecar/runtime_watchdog.mjs\<close>: the watchdog that measures the lag of the event loop and the open sockets and
  decides whether the sidecar may accept decisions. Its state object is the record \<open>watchdog\<close>; \<open>performance.now()\<close> is the
  argument \<open>now\<close> (a rational number of milliseconds, whose differences are taken exactly), and what \<open>snapshotProvider\<close>
  returns is an argument of \<open>tick\<close>. A timer that fires is \<open>tick\<close>, which only a running timer does.
\<close>

section \<open>Configuration\<close>

record watchdog_config =
  dc_interval_ms :: int
  dc_max_event_loop_lag_ms :: int
  dc_fatal_event_loop_lag_ms :: int
  dc_max_open_sockets :: int
  dc_fatal_open_sockets :: int

fun nullishOr :: "int \<Rightarrow> js_integer \<Rightarrow> js_integer" where
  "nullishOr d Undefined = Integer d"
| "nullishOr d v = v"

definition mustBePositive :: "string \<Rightarrow> string \<Rightarrow> js_integer \<Rightarrow> jsstring option" where
  "mustBePositive code key v = (if isPositive v then None else Some (jstr (code @ '': '' @ key @ '' must be positive'')))"

definition validateWatchdogConfig ::
  "js_integer \<Rightarrow> js_integer \<Rightarrow> js_integer \<Rightarrow> js_integer \<Rightarrow> js_integer \<Rightarrow> jsstring + watchdog_config" where
  "validateWatchdogConfig interval maxLag fatalLag maxSockets fatalSockets =
     (let i = nullishOr 250 interval; ml = nullishOr 250 maxLag; fl = nullishOr 2000 fatalLag;
          ms = nullishOr 256 maxSockets; fs = nullishOr 1024 fatalSockets; must = mustBePositive ''ERR_RUNTIME_WATCHDOG_CONFIG''
      in failIf (must ''interval_ms'' i) (failIf (must ''max_event_loop_lag_ms'' ml) (failIf (must ''fatal_event_loop_lag_ms'' fl)
        (failIf (must ''max_open_sockets'' ms) (failIf (must ''fatal_open_sockets'' fs)
        (Inr \<lparr>dc_interval_ms = integerOr 0 i, dc_max_event_loop_lag_ms = integerOr 0 ml,
              dc_fatal_event_loop_lag_ms = integerOr 0 fl, dc_max_open_sockets = integerOr 0 ms,
              dc_fatal_open_sockets = integerOr 0 fs\<rparr>))))))"

section \<open>State\<close>

record watchdog =
  wd_started_at_ms :: rat
  wd_last_heartbeat_ms :: rat
  wd_last_watchdog_ms :: rat
  wd_event_loop_lag_ms :: int
  wd_degraded :: bool
  wd_degraded_reason :: "jsstring option"
  wd_fatal :: bool
  wd_fatal_reason :: "jsstring option"
  wd_interventions :: nat
  wd_degraded_transitions :: nat
  wd_fatal_transitions :: nat
  wd_endpoint_responsiveness_ms :: rat
  wd_timer :: bool
  wd_expected_next_tick :: rat

definition newWatchdog :: "rat \<Rightarrow> watchdog" where
  "newWatchdog now =
     \<lparr>wd_started_at_ms = now, wd_last_heartbeat_ms = now, wd_last_watchdog_ms = 0, wd_event_loop_lag_ms = 0,
      wd_degraded = False, wd_degraded_reason = None, wd_fatal = False, wd_fatal_reason = None, wd_interventions = 0,
      wd_degraded_transitions = 0, wd_fatal_transitions = 0, wd_endpoint_responsiveness_ms = 0, wd_timer = False,
      wd_expected_next_tick = 0\<rparr>"

text \<open>What the snapshot provider returns; an open socket count that is missing is never at a limit.\<close>

record watchdog_view =
  wv_open_sockets :: "int option"
  wv_receipt_fail_closed :: bool

section \<open>Operations\<close>

definition startWatchdog :: "watchdog_config \<Rightarrow> rat \<Rightarrow> watchdog \<Rightarrow> watchdog" where
  "startWatchdog cfg now st =
     (if wd_timer st then st else st\<lparr>wd_expected_next_tick := now + of_int (dc_interval_ms cfg), wd_timer := True\<rparr>)"

definition stopWatchdog :: "watchdog \<Rightarrow> watchdog" where
  "stopWatchdog st = st\<lparr>wd_timer := False\<rparr>"

definition heartbeat :: "string \<Rightarrow> rat \<Rightarrow> watchdog \<Rightarrow> watchdog" where
  "heartbeat label now st =
     (let st1 = st\<lparr>wd_last_heartbeat_ms := now\<rparr>
      in if label = ''healthz'' then st1\<lparr>wd_endpoint_responsiveness_ms := now\<rparr> else st1)"

definition markIntervention :: "watchdog \<Rightarrow> watchdog" where
  "markIntervention st = st\<lparr>wd_interventions := wd_interventions st + 1\<rparr>"

definition setDegraded :: "jsstring \<Rightarrow> watchdog \<Rightarrow> watchdog" where
  "setDegraded reason st =
     (let st1 = (if \<not> wd_degraded st \<or> wd_degraded_reason st \<noteq> Some reason
                 then st\<lparr>wd_degraded_transitions := wd_degraded_transitions st + 1\<rparr> else st)
      in st1\<lparr>wd_degraded := True, wd_degraded_reason := Some reason\<rparr>)"

definition clearDegraded :: "watchdog \<Rightarrow> watchdog" where
  "clearDegraded st = st\<lparr>wd_degraded := False, wd_degraded_reason := None\<rparr>"

definition setFatal :: "jsstring \<Rightarrow> watchdog \<Rightarrow> watchdog" where
  "setFatal reason st =
     (let st1 = (if \<not> wd_fatal st \<or> wd_fatal_reason st \<noteq> Some reason
                 then st\<lparr>wd_fatal_transitions := wd_fatal_transitions st + 1\<rparr> else st)
      in setDegraded reason (st1\<lparr>wd_fatal := True, wd_fatal_reason := Some reason\<rparr>))"

definition canAcceptDecisions :: "watchdog \<Rightarrow> bool" where
  "canAcceptDecisions st \<longleftrightarrow> \<not> wd_degraded st \<and> \<not> wd_fatal st"

text \<open>\<open>Math.max(0, Math.round(x))\<close>\<close>

definition roundMs :: "rat \<Rightarrow> int" where
  "roundMs x = max 0 \<lfloor>x + 1 / 2\<rfloor>"

definition atLeast :: "int option \<Rightarrow> int \<Rightarrow> bool" where
  "atLeast v limit \<longleftrightarrow> (case v of None \<Rightarrow> False | Some n \<Rightarrow> limit \<le> n)"

definition tick :: "watchdog_config \<Rightarrow> rat \<Rightarrow> watchdog_view \<Rightarrow> watchdog \<Rightarrow> watchdog" where
  "tick cfg now view st =
     (let lag = roundMs (now - wd_expected_next_tick st);
          st1 = st\<lparr>wd_expected_next_tick := now + of_int (dc_interval_ms cfg), wd_last_watchdog_ms := now,
                   wd_event_loop_lag_ms := lag\<rparr>
      in if lag \<ge> dc_fatal_event_loop_lag_ms cfg then setFatal (jstr ''ERR_EVENT_LOOP_FATAL'') st1
         else if atLeast (wv_open_sockets view) (dc_fatal_open_sockets cfg) then setFatal (jstr ''ERR_SOCKET_ACCUMULATION_FATAL'') st1
         else if lag \<ge> dc_max_event_loop_lag_ms cfg then setDegraded (jstr ''ERR_EVENT_LOOP_LAG'') st1
         else if atLeast (wv_open_sockets view) (dc_max_open_sockets cfg) then setDegraded (jstr ''ERR_SOCKET_ACCUMULATION'') st1
         else if \<not> wv_receipt_fail_closed view then clearDegraded st1
         else st1)"

section \<open>Runs\<close>

datatype watchdog_op = StartTimer rat | StopTimer | Heartbeat string rat | MarkIntervention | Tick rat watchdog_view

fun watchdogStep :: "watchdog_config \<Rightarrow> watchdog \<Rightarrow> watchdog_op \<Rightarrow> watchdog" where
  "watchdogStep cfg st (StartTimer now) = startWatchdog cfg now st"
| "watchdogStep cfg st StopTimer = stopWatchdog st"
| "watchdogStep cfg st (Heartbeat label now) = heartbeat label now st"
| "watchdogStep cfg st MarkIntervention = markIntervention st"
| "watchdogStep cfg st (Tick now view) = (if wd_timer st then tick cfg now view st else st)"

fun watchdogRun :: "watchdog_config \<Rightarrow> watchdog \<Rightarrow> watchdog_op list \<Rightarrow> watchdog" where
  "watchdogRun cfg st [] = st"
| "watchdogRun cfg st (x # xs) = watchdogRun cfg (watchdogStep cfg st x) xs"

text \<open>The watchdog as it is meant: an abstract state of the timer and a level, whose fatal level nothing leaves.\<close>

datatype watchdog_level = Healthy | Degraded | Fatal

definition levelOf :: "watchdog \<Rightarrow> watchdog_level" where
  "levelOf st = (if wd_fatal st then Fatal else if wd_degraded st then Degraded else Healthy)"

definition nextLevel :: "watchdog_config \<Rightarrow> int \<Rightarrow> watchdog_view \<Rightarrow> watchdog_level \<Rightarrow> watchdog_level" where
  "nextLevel cfg lag view level =
     (if level = Fatal \<or> dc_fatal_event_loop_lag_ms cfg \<le> lag \<or> atLeast (wv_open_sockets view) (dc_fatal_open_sockets cfg) then Fatal
      else if dc_max_event_loop_lag_ms cfg \<le> lag \<or> atLeast (wv_open_sockets view) (dc_max_open_sockets cfg) then Degraded
      else if wv_receipt_fail_closed view then level
      else Healthy)"

text \<open>The levels of a run: the times when the timer is due and the ticks, nothing else.\<close>

fun levelRun :: "watchdog_config \<Rightarrow> rat option \<Rightarrow> watchdog_level \<Rightarrow> watchdog_op list \<Rightarrow> watchdog_level" where
  "levelRun cfg due level [] = level"
| "levelRun cfg due level (StartTimer now # xs) =
     levelRun cfg (if due = None then Some (now + of_int (dc_interval_ms cfg)) else due) level xs"
| "levelRun cfg due level (StopTimer # xs) = levelRun cfg None level xs"
| "levelRun cfg (Some d) level (Tick now view # xs) =
     levelRun cfg (Some (now + of_int (dc_interval_ms cfg))) (nextLevel cfg (roundMs (now - d)) view level) xs"
| "levelRun cfg due level (x # xs) = levelRun cfg due level xs"

section \<open>Refinement\<close>

text \<open>When the timer is due: \<open>None\<close> while it is stopped.\<close>

definition dueAt :: "watchdog \<Rightarrow> rat option" where
  "dueAt st = (if wd_timer st then Some (wd_expected_next_tick st) else None)"

lemmas watchdog_ops = startWatchdog_def stopWatchdog_def heartbeat_def markIntervention_def setDegraded_def clearDegraded_def
  setFatal_def tick_def Let_def

lemma tick_level:
  "levelOf (tick cfg now view st) = nextLevel cfg (roundMs (now - wd_expected_next_tick st)) view (levelOf st)"
  by (simp add: levelOf_def nextLevel_def watchdog_ops)

lemma tick_due:
  "wd_timer (tick cfg now view st) = wd_timer st \<and> wd_expected_next_tick (tick cfg now view st) = now + of_int (dc_interval_ms cfg)"
  by (simp add: watchdog_ops)

lemma watchdogRun_level: "levelOf (watchdogRun cfg st ops) = levelRun cfg (dueAt st) (levelOf st) ops"
proof (induction ops arbitrary: st)
  case (Cons x xs)
  show ?case
  proof (cases x)
    case (StartTimer now)
    have "levelOf (startWatchdog cfg now st) = levelOf st" by (simp add: startWatchdog_def levelOf_def)
    moreover have "dueAt (startWatchdog cfg now st) =
        (if dueAt st = None then Some (now + of_int (dc_interval_ms cfg)) else dueAt st)"
      by (simp add: startWatchdog_def dueAt_def)
    ultimately show ?thesis using Cons.IH [of "startWatchdog cfg now st"] StartTimer by (simp only: watchdogStep.simps watchdogRun.simps levelRun.simps)
  next
    case (Tick now view)
    show ?thesis
    proof (cases "wd_timer st")
      case True
      have "dueAt (tick cfg now view st) = Some (now + of_int (dc_interval_ms cfg))" using True tick_due by (simp add: dueAt_def)
      with True Tick Cons.IH [of "tick cfg now view st"] show ?thesis by (simp add: dueAt_def tick_level)
    next
      case False
      with Tick Cons.IH [of st] show ?thesis by (simp add: dueAt_def)
    qed
  qed (use Cons.IH in \<open>simp_all add: dueAt_def levelOf_def stopWatchdog_def heartbeat_def markIntervention_def Let_def\<close>)
qed simp

lemma canAccept_level: "canAcceptDecisions st \<longleftrightarrow> levelOf st = Healthy"
  by (simp add: canAcceptDecisions_def levelOf_def)

lemma levelRun_Fatal: "levelRun cfg due Fatal xs = Fatal"
  by (induction cfg due Fatal xs rule: levelRun.induct) (simp_all add: nextLevel_def)

lemma watchdogRun_append: "watchdogRun cfg st (xs @ ys) = watchdogRun cfg (watchdogRun cfg st xs) ys"
  by (induction xs arbitrary: st) simp_all

lemma new_level: "levelOf (newWatchdog now) = Healthy" "dueAt (newWatchdog now) = None"
  by (simp_all add: levelOf_def dueAt_def newWatchdog_def)

lemma fatal_level: "wd_fatal st \<longleftrightarrow> levelOf st = Fatal"
  by (simp add: levelOf_def)

text \<open>
  C39: the watchdog refines its three levels. Over any run of starts, stops, heartbeats, interventions and ticks it
  accepts decisions exactly when the abstract machine is healthy, and is fatal exactly when that machine is: a machine which sees the
  rounded lag and the open sockets of each tick a running timer made, recovers only while the receipt log has not failed,
  and never leaves the fatal level. So no continuation of a run that became fatal accepts a decision.
\<close>

theorem watchdog_refines_levels:
  "(canAcceptDecisions (watchdogRun cfg (newWatchdog now) ops) \<longleftrightarrow> levelRun cfg None Healthy ops = Healthy) \<and>
   (wd_fatal (watchdogRun cfg (newWatchdog now) ops) \<longleftrightarrow> levelRun cfg None Healthy ops = Fatal) \<and>
   \<not> (wd_fatal (watchdogRun cfg (newWatchdog now) ops) \<and>
      canAcceptDecisions (watchdogRun cfg (newWatchdog now) (ops @ more_ops)))"
proof -
  let ?st = "watchdogRun cfg (newWatchdog now) ops"
  have level: "levelOf ?st = levelRun cfg None Healthy ops"
    using watchdogRun_level [of cfg "newWatchdog now" ops] by (simp only: new_level)
  have "levelOf ?st = Fatal \<Longrightarrow> levelOf (watchdogRun cfg ?st more_ops) = Fatal"
    by (simp add: watchdogRun_level levelRun_Fatal)
  with level show ?thesis by (auto simp: canAccept_level fatal_level watchdogRun_append)
qed

end
