(* ===== verification/SocketRegistry.thy ===== *)
theory SocketRegistry
  imports "HOL-Library.AList" Watchdog
begin

text \<open>
  \<open>src/sidecar/socket_registry.mjs\<close>: the open sockets of the sidecar, when each was last active, and the eviction of idle
  ones. A socket is a number (its identity), the \<open>Map\<close> an association list in insertion order. The listeners that \<open>track\<close>
  attaches are the operations \<open>closeEvent\<close>, \<open>errorEvent\<close> and \<open>dataEvent\<close>; a call of \<open>socket.destroy()\<close> is recorded in
  \<open>sr_destroy_calls\<close>, and the close event that follows it is a later step. The closing time, which is written to a state
  object after it has left the map, is left out; readings of the clock are arguments.
\<close>

section \<open>Configuration and state\<close>

record registry_config =
  gc_idle_timeout_ms :: int
  gc_eviction_interval_ms :: int
  gc_shutdown_grace_ms :: int

definition validateSocketRegistryConfig :: "js_integer \<Rightarrow> js_integer \<Rightarrow> js_integer \<Rightarrow> jsstring + registry_config" where
  "validateSocketRegistryConfig idle interval grace =
     (let i = nullishOr 1000 idle; e = nullishOr 250 interval; g = nullishOr 500 grace;
          must = mustBePositive ''ERR_SOCKET_REGISTRY_CONFIG''
      in failIf (must ''idle_timeout_ms'' i) (failIf (must ''eviction_interval_ms'' e) (failIf (must ''shutdown_grace_ms'' g)
        (Inr \<lparr>gc_idle_timeout_ms = integerOr 0 i, gc_eviction_interval_ms = integerOr 0 e,
              gc_shutdown_grace_ms = integerOr 0 g\<rparr>))))"

record socket_state =
  ss_id :: nat
  ss_opened_at_ms :: rat
  ss_last_active_at_ms :: rat
  ss_first_byte_at_ms :: rat
  ss_requests :: nat
  ss_destroyed :: bool

record registry =
  sr_sockets :: "(nat \<times> socket_state) list"
  sr_timer :: bool
  sr_next_id :: nat
  sr_opened :: nat
  sr_closed :: nat
  sr_destroyed :: nat
  sr_idle_destroyed :: nat
  sr_shutdown_destroyed :: nat
  sr_errors :: nat
  sr_max_open :: nat
  sr_destroy_calls :: "nat list"

definition newRegistry :: registry where
  "newRegistry =
     \<lparr>sr_sockets = [], sr_timer = False, sr_next_id = 1, sr_opened = 0, sr_closed = 0, sr_destroyed = 0, sr_idle_destroyed = 0,
      sr_shutdown_destroyed = 0, sr_errors = 0, sr_max_open = 0, sr_destroy_calls = []\<rparr>"

section \<open>Operations\<close>

definition startRegistry :: "registry \<Rightarrow> registry" where
  "startRegistry st = st\<lparr>sr_timer := True\<rparr>"

definition stopRegistry :: "registry \<Rightarrow> registry" where
  "stopRegistry st = st\<lparr>sr_timer := False\<rparr>"

definition track :: "nat \<Rightarrow> rat \<Rightarrow> registry \<Rightarrow> registry" where
  "track socket now st =
     (let state = \<lparr>ss_id = sr_next_id st, ss_opened_at_ms = now, ss_last_active_at_ms = now, ss_first_byte_at_ms = 0,
                   ss_requests = 0, ss_destroyed = False\<rparr>;
          sockets = AList.update socket state (sr_sockets st)
      in st\<lparr>sr_next_id := sr_next_id st + 1, sr_sockets := sockets, sr_opened := sr_opened st + 1,
            sr_max_open := max (sr_max_open st) (length sockets)\<rparr>)"

definition socketState :: "nat \<Rightarrow> registry \<Rightarrow> socket_state option" where
  "socketState socket st = map_of (sr_sockets st) socket"

definition changeState :: "nat \<Rightarrow> (socket_state \<Rightarrow> socket_state) \<Rightarrow> registry \<Rightarrow> registry" where
  "changeState socket f st =
     (case map_of (sr_sockets st) socket of
        None \<Rightarrow> st
      | Some state \<Rightarrow> st\<lparr>sr_sockets := AList.update socket (f state) (sr_sockets st)\<rparr>)"

definition markRequest :: "nat \<Rightarrow> rat \<Rightarrow> registry \<Rightarrow> registry" where
  "markRequest socket now = changeState socket (\<lambda>s. s\<lparr>ss_requests := ss_requests s + 1, ss_last_active_at_ms := now\<rparr>)"

definition markActive :: "nat \<Rightarrow> rat \<Rightarrow> registry \<Rightarrow> registry" where
  "markActive socket now = changeState socket (\<lambda>s. s\<lparr>ss_last_active_at_ms := now\<rparr>)"

definition closeEvent :: "nat \<Rightarrow> registry \<Rightarrow> registry" where
  "closeEvent socket st =
     (if map_of (sr_sockets st) socket = None then st
      else st\<lparr>sr_sockets := AList.delete socket (sr_sockets st), sr_closed := sr_closed st + 1\<rparr>)"

definition errorEvent :: "registry \<Rightarrow> registry" where
  "errorEvent st = st\<lparr>sr_errors := sr_errors st + 1\<rparr>"

definition dataEvent :: "nat \<Rightarrow> rat \<Rightarrow> rat \<Rightarrow> registry \<Rightarrow> registry" where
  "dataEvent socket now later st =
     changeState socket (\<lambda>s. if ss_first_byte_at_ms s = 0 then s\<lparr>ss_first_byte_at_ms := later\<rparr> else s) (markActive socket now st)"

datatype destroy_reason = ReasonDestroyed | ReasonIdle | ReasonShutdown

definition destroy :: "destroy_reason \<Rightarrow> nat \<Rightarrow> registry \<Rightarrow> registry" where
  "destroy reason socket st =
     (let st1 = (case map_of (sr_sockets st) socket of
                   None \<Rightarrow> st
                 | Some state \<Rightarrow>
                     if ss_destroyed state then st
                     else (changeState socket (\<lambda>s. s\<lparr>ss_destroyed := True\<rparr>) st)
                       \<lparr>sr_destroyed := sr_destroyed st + 1,
                        sr_idle_destroyed := sr_idle_destroyed st + (if reason = ReasonIdle then 1 else 0),
                        sr_shutdown_destroyed := sr_shutdown_destroyed st + (if reason = ReasonShutdown then 1 else 0)\<rparr>)
      in st1\<lparr>sr_destroy_calls := sr_destroy_calls st1 @ [socket]\<rparr>)"

definition isIdle :: "registry_config \<Rightarrow> rat \<Rightarrow> socket_state \<Rightarrow> bool" where
  "isIdle cfg now s \<longleftrightarrow> now - ss_last_active_at_ms s > of_int (gc_idle_timeout_ms cfg)"

definition destroyIdle :: "registry_config \<Rightarrow> rat \<Rightarrow> registry \<Rightarrow> registry" where
  "destroyIdle cfg now st = fold (destroy ReasonIdle) (map fst (filter (\<lambda>(_, s). isIdle cfg now s) (sr_sockets st))) st"

definition destroyAll :: "registry \<Rightarrow> registry" where
  "destroyAll st = fold (destroy ReasonShutdown) (map fst (sr_sockets st)) st"

text \<open>\<open>shutdown\<close> up to its first wait; what it does after the last one is \<open>destroyAll\<close> again.\<close>

definition beginRegistryShutdown :: "registry \<Rightarrow> registry" where
  "beginRegistryShutdown st = destroyAll (stopRegistry st)"

text \<open>The open and the idle sockets that \<open>metrics\<close> reports.\<close>

definition registryMetrics :: "registry_config \<Rightarrow> rat \<Rightarrow> registry \<Rightarrow> nat \<times> nat" where
  "registryMetrics cfg now st =
     (length (sr_sockets st), length (filter (\<lambda>(_, s). isIdle cfg now s) (sr_sockets st)))"

section \<open>Runs\<close>

datatype registry_op =
    StartEviction | StopEviction
  | Track nat rat
  | MarkRequest nat rat
  | DataEvent nat rat rat
  | ErrorEvent
  | CloseEvent nat
  | Destroy nat
  | Evict rat
  | BeginShutdown
  | EndShutdown

fun registryStep :: "registry_config \<Rightarrow> registry_op \<Rightarrow> registry \<Rightarrow> registry" where
  "registryStep cfg StartEviction st = startRegistry st"
| "registryStep cfg StopEviction st = stopRegistry st"
| "registryStep cfg (Track socket now) st = track socket now st"
| "registryStep cfg (MarkRequest socket now) st = markRequest socket now st"
| "registryStep cfg (DataEvent socket now later) st = dataEvent socket now later st"
| "registryStep cfg ErrorEvent st = errorEvent st"
| "registryStep cfg (CloseEvent socket) st = closeEvent socket st"
| "registryStep cfg (Destroy socket) st = destroy ReasonDestroyed socket st"
| "registryStep cfg (Evict now) st = (if sr_timer st then destroyIdle cfg now st else st)"
| "registryStep cfg BeginShutdown st = beginRegistryShutdown st"
| "registryStep cfg EndShutdown st = destroyAll st"

definition registryRun :: "registry_config \<Rightarrow> registry_op list \<Rightarrow> registry" where
  "registryRun cfg ops = fold (registryStep cfg) ops newRegistry"

fun trackedSockets :: "registry_op list \<Rightarrow> nat list" where
  "trackedSockets [] = []"
| "trackedSockets (Track socket now # xs) = socket # trackedSockets xs"
| "trackedSockets (_ # xs) = trackedSockets xs"

section \<open>The invariant\<close>

definition flagged :: "registry \<Rightarrow> nat" where
  "flagged st = length (filter (\<lambda>(_, s). ss_destroyed s) (sr_sockets st))"

definition registryOk :: "registry \<Rightarrow> bool" where
  "registryOk st \<longleftrightarrow>
     distinct (map fst (sr_sockets st)) \<and> sr_opened st = sr_closed st + length (sr_sockets st) \<and>
     length (sr_sockets st) \<le> sr_max_open st \<and> sr_max_open st \<le> sr_opened st \<and>
     flagged st \<le> sr_destroyed st \<and> sr_destroyed st \<le> sr_closed st + flagged st \<and>
     sr_idle_destroyed st + sr_shutdown_destroyed st \<le> sr_destroyed st"

text \<open>Changing one entry of an association list with distinct keys.\<close>

lemma map_fst_update: "map_of xs k \<noteq> None \<Longrightarrow> map fst (AList.update k v xs) = map fst xs"
  by (induction xs) auto

lemma count_update:
  "distinct (map fst xs) \<Longrightarrow> map_of xs k = Some u \<Longrightarrow>
    length (filter (\<lambda>(_, s). P s) (AList.update k v xs)) + (if P u then 1 else 0) =
    length (filter (\<lambda>(_, s). P s) xs) + (if P v then 1 else 0)"
  by (induction xs) auto

lemma count_delete:
  "distinct (map fst xs) \<Longrightarrow> map_of xs k = Some u \<Longrightarrow>
    length (filter (\<lambda>(_, s). P s) (AList.delete k xs)) + (if P u then 1 else 0) = length (filter (\<lambda>(_, s). P s) xs)"
  by (induction xs) (auto simp: dom_map_of_conv_image_fst AList.delete_notin_dom dest: map_of_SomeD)

lemma length_delete:
  "distinct (map fst xs) \<Longrightarrow> map_of xs k \<noteq> None \<Longrightarrow> length (AList.delete k xs) + 1 = length xs"
  using count_delete [of xs k _ "\<lambda>_. True"] by auto

lemma length_update: "map_of xs k \<noteq> None \<Longrightarrow> length (AList.update k v xs) = length xs"
  using map_fst_update [of xs k v] by (metis length_map)

lemma changeState_same:
  "map fst (sr_sockets (changeState k f st)) = map fst (sr_sockets st)"
  "sr_opened (changeState k f st) = sr_opened st" "sr_closed (changeState k f st) = sr_closed st"
  "sr_destroyed (changeState k f st) = sr_destroyed st" "sr_max_open (changeState k f st) = sr_max_open st"
  "sr_idle_destroyed (changeState k f st) = sr_idle_destroyed st"
  "sr_shutdown_destroyed (changeState k f st) = sr_shutdown_destroyed st"
  "sr_timer (changeState k f st) = sr_timer st"
  "sr_destroy_calls (changeState k f st) = sr_destroy_calls st"
  by (auto simp: changeState_def map_fst_update split: option.split)

lemma changeState_length: "length (sr_sockets (changeState k f st)) = length (sr_sockets st)"
  by (metis changeState_same(1) length_map)

lemma changeState_ok:
  assumes "registryOk st" "\<And>s. ss_destroyed (f s) = ss_destroyed s"
  shows "registryOk (changeState k f st)"
proof -
  have "flagged (changeState k f st) = flagged st"
  proof (cases "map_of (sr_sockets st) k")
    case (Some s)
    have "distinct (map fst (sr_sockets st))" using assms(1) by (simp add: registryOk_def)
    from count_update [OF this Some, of ss_destroyed "f s"] assms(2) Some show ?thesis
      by (simp add: flagged_def changeState_def)
  qed (simp add: changeState_def)
  with assms(1) show ?thesis by (simp add: registryOk_def changeState_same changeState_length)
qed

lemma destroy_ok:
  assumes "registryOk st"
  shows "registryOk (destroy reason k st)"
proof (cases "map_of (sr_sockets st) k")
  case None
  with assms show ?thesis by (simp add: destroy_def registryOk_def flagged_def)
next
  case (Some s)
  have dist: "distinct (map fst (sr_sockets st))" using assms by (simp add: registryOk_def)
  show ?thesis
  proof (cases "ss_destroyed s")
    case True
    with Some assms show ?thesis by (simp add: destroy_def registryOk_def flagged_def)
  next
    case False
    let ?st = "changeState k (\<lambda>s. s\<lparr>ss_destroyed := True\<rparr>) st"
    have "flagged ?st = flagged st + 1"
      using count_update [OF dist Some, of ss_destroyed "s\<lparr>ss_destroyed := True\<rparr>"] False Some
      by (simp add: flagged_def changeState_def)
    moreover have "flagged (destroy reason k st) = flagged ?st"
      using Some False by (simp add: destroy_def flagged_def)
    ultimately show ?thesis using assms Some False
      by (simp add: registryOk_def destroy_def changeState_same changeState_length)
  qed
qed

lemma fold_destroy_ok: "registryOk st \<Longrightarrow> registryOk (fold (destroy reason) ks st)"
  by (induction ks arbitrary: st) (simp_all add: destroy_ok)

lemma track_ok:
  assumes "registryOk st" "map_of (sr_sockets st) k = None"
  shows "registryOk (track k now st)"
proof -
  have "AList.update k v xs = xs @ [(k, v)]" if "map_of xs k = None" for v and xs :: "(nat \<times> socket_state) list"
    using that by (induction xs) (auto split: if_splits)
  with assms show ?thesis
    by (auto simp: registryOk_def track_def Let_def flagged_def map_of_eq_None_iff)
qed

lemma closeEvent_ok:
  assumes "registryOk st"
  shows "registryOk (closeEvent k st)"
proof (cases "map_of (sr_sockets st) k")
  case (Some s)
  have dist: "distinct (map fst (sr_sockets st))" using assms by (simp add: registryOk_def)
  from length_delete [OF dist, of k] count_delete [OF dist Some, of ss_destroyed] Some assms
  show ?thesis by (auto simp: registryOk_def closeEvent_def flagged_def distinct_delete split: if_splits)
qed (use assms in \<open>simp add: closeEvent_def\<close>)

text \<open>What an operation does to the sockets on record.\<close>

lemma fold_destroy_keys: "map fst (sr_sockets (fold (destroy reason) ks st)) = map fst (sr_sockets st)"
proof (induction ks arbitrary: st)
  case (Cons k ks)
  have "map fst (sr_sockets (destroy reason k st)) = map fst (sr_sockets st)"
    by (auto simp: destroy_def changeState_same split: option.split)
  with Cons show ?case by simp
qed simp

lemma registryStep_keys:
  "set (map fst (sr_sockets (registryStep cfg x st))) \<subseteq> set (map fst (sr_sockets st)) \<union> set (trackedSockets [x])"
proof (cases x)
  case (Destroy k)
  then show ?thesis using fold_destroy_keys [of ReasonDestroyed "[k]" st] by (simp del: set_map list.map)
next
  case (Evict now)
  then show ?thesis by (simp add: destroyIdle_def fold_destroy_keys del: set_map)
next
  case (CloseEvent k)
  then show ?thesis using AList.dom_delete_subset [of k "sr_sockets st"] by (auto simp: closeEvent_def)
qed (simp_all add: startRegistry_def stopRegistry_def track_def markRequest_def dataEvent_def markActive_def errorEvent_def
      beginRegistryShutdown_def destroyAll_def fold_destroy_keys changeState_same Let_def dom_update)

lemma registryOk_frame [simp]:
  "registryOk (st\<lparr>sr_timer := b\<rparr>) = registryOk st" "registryOk (st\<lparr>sr_errors := n\<rparr>) = registryOk st"
  by (simp_all add: registryOk_def flagged_def)

lemma registryStep_ok:
  assumes "registryOk st" "\<forall>k \<in> set (trackedSockets [x]). map_of (sr_sockets st) k = None"
  shows "registryOk (registryStep cfg x st)"
  using assms
  by (cases x) (simp_all add: startRegistry_def stopRegistry_def markRequest_def dataEvent_def markActive_def errorEvent_def
      beginRegistryShutdown_def destroyAll_def destroyIdle_def closeEvent_ok destroy_ok track_ok changeState_ok fold_destroy_ok)

lemma trackedSockets_Cons: "trackedSockets (x # xs) = trackedSockets [x] @ trackedSockets xs"
  by (cases x) simp_all

lemma registryFold_ok:
  assumes "registryOk st" "distinct (trackedSockets ops)" "set (trackedSockets ops) \<inter> set (map fst (sr_sockets st)) = {}"
  shows "registryOk (fold (registryStep cfg) ops st)"
  using assms
proof (induction ops arbitrary: st)
  case (Cons x xs)
  let ?st = "registryStep cfg x st"
  have split: "set (trackedSockets (x # xs)) = set (trackedSockets [x]) \<union> set (trackedSockets xs)"
    by (subst trackedSockets_Cons) simp
  have d: "distinct (trackedSockets xs)" "set (trackedSockets [x]) \<inter> set (trackedSockets xs) = {}"
    using Cons.prems(2) by (subst (asm) trackedSockets_Cons, simp)+
  have "\<forall>k \<in> set (trackedSockets [x]). map_of (sr_sockets st) k = None"
    using Cons.prems(3) split by (auto simp: map_of_eq_None_iff)
  then have "registryOk ?st" using Cons.prems(1) by (rule registryStep_ok [rotated])
  moreover have "set (trackedSockets xs) \<inter> set (map fst (sr_sockets ?st)) = {}"
    using registryStep_keys [of cfg x st] Cons.prems(3) split d(2) by blast
  ultimately show ?case using Cons.IH d(1) by simp
qed simp

section \<open>Eviction\<close>

lemma destroy_flags:
  "map_of (sr_sockets (destroy reason k st)) j =
     (if j = k then map_option (\<lambda>s. s\<lparr>ss_destroyed := True\<rparr>) (map_of (sr_sockets st) k) else map_of (sr_sockets st) j)"
  by (auto simp: destroy_def changeState_def update_conv' split: option.split)

lemma fold_destroy_flags:
  "map_of (sr_sockets (fold (destroy reason) ks st)) j =
     (if j \<in> set ks then map_option (\<lambda>s. s\<lparr>ss_destroyed := True\<rparr>) (map_of (sr_sockets st) j) else map_of (sr_sockets st) j)"
proof (induction ks arbitrary: st)
  case (Cons k ks)
  show ?case by (auto simp: Cons.IH destroy_flags option.map_comp comp_def)
qed simp

lemma fold_destroy_calls: "sr_destroy_calls (fold (destroy reason) ks st) = sr_destroy_calls st @ ks"
proof (induction ks arbitrary: st)
  case (Cons k ks)
  have "sr_destroy_calls (destroy reason k st) = sr_destroy_calls st @ [k]"
    by (auto simp: destroy_def changeState_same split: option.split)
  with Cons show ?case by simp
qed simp

lemma idle_evicted:
  assumes "map_of (sr_sockets (destroyIdle cfg now st)) k = Some s" "isIdle cfg now s"
    and "distinct (map fst (sr_sockets st))"
  shows "ss_destroyed s \<and> k \<in> set (sr_destroy_calls (destroyIdle cfg now st))"
proof -
  let ?ks = "map fst (filter (\<lambda>(_, s). isIdle cfg now s) (sr_sockets st))"
  obtain u where u: "map_of (sr_sockets st) k = Some u"
    "s = (if k \<in> set ?ks then u\<lparr>ss_destroyed := True\<rparr> else u)"
    using assms(1) by (auto simp: destroyIdle_def fold_destroy_flags split: if_splits)
  then have "isIdle cfg now u" using assms(2) by (auto simp: isIdle_def split: if_splits)
  with u(1) have "k \<in> set ?ks" by (force dest: map_of_SomeD)
  with u(2) show ?thesis by (simp add: destroyIdle_def fold_destroy_calls)
qed

text \<open>
  The registry accounts for every socket. If each socket is tracked once, then after any sequence of events and
  calls the sockets opened are those closed and those on record; no socket is counted as destroyed twice (the destroyed ones are
  at most the closed ones and the flagged ones on record, and at least those evicted or shut down); and when the eviction
  timer runs, every socket idle beyond the timeout that stays on record has been destroyed.
\<close>

theorem registry_accounts:
  assumes "distinct (trackedSockets ops)" and "registryRun cfg ops = st"
  shows "sr_opened st = sr_closed st + length (sr_sockets st) \<and> length (sr_sockets st) \<le> sr_max_open st \<and>
    sr_max_open st \<le> sr_opened st \<and> sr_idle_destroyed st + sr_shutdown_destroyed st \<le> sr_destroyed st \<and>
    sr_destroyed st \<le> sr_closed st + flagged st \<and>
    (\<forall>(k, s) \<in> set (sr_sockets (destroyIdle cfg now st)).
       isIdle cfg now s \<longrightarrow> ss_destroyed s \<and> k \<in> set (sr_destroy_calls (destroyIdle cfg now st)))"
proof -
  have ok: "registryOk st"
    using registryFold_ok [of newRegistry ops cfg] assms by (simp add: registryRun_def registryOk_def newRegistry_def flagged_def)
  then have dist: "distinct (map fst (sr_sockets st))" by (simp add: registryOk_def)
  then have "distinct (map fst (sr_sockets (destroyIdle cfg now st)))" by (simp add: destroyIdle_def fold_destroy_keys)
  then have "\<forall>(k, s) \<in> set (sr_sockets (destroyIdle cfg now st)).
       isIdle cfg now s \<longrightarrow> ss_destroyed s \<and> k \<in> set (sr_destroy_calls (destroyIdle cfg now st))"
    using idle_evicted [OF map_of_is_SomeI _ dist] by blast
  with ok show ?thesis by (simp add: registryOk_def)
qed

theorem registry_accounts_witness:
  "\<exists>st. registryRun \<lparr>gc_idle_timeout_ms = 1000, gc_eviction_interval_ms = 250, gc_shutdown_grace_ms = 500\<rparr>
       [StartEviction, Track 1 0, Track 2 500, DataEvent 2 900 901, Evict 1100, Evict 1200, CloseEvent 1, CloseEvent 1] = st \<and>
     sr_opened st = 2 \<and> sr_closed st = 1 \<and> sr_idle_destroyed st = 1 \<and> sr_destroy_calls st = [1, 1] \<and>
     sr_destroyed st \<le> sr_closed st + flagged st"
proof -
  let ?cfg = "\<lparr>gc_idle_timeout_ms = 1000, gc_eviction_interval_ms = 250, gc_shutdown_grace_ms = 500\<rparr>"
  let ?ops = "[StartEviction, Track 1 0, Track 2 500, DataEvent 2 900 901, Evict 1100, Evict 1200, CloseEvent 1, CloseEvent 1]"
  have run: "sr_opened (registryRun ?cfg ?ops) = 2 \<and> sr_closed (registryRun ?cfg ?ops) = 1 \<and>
      sr_idle_destroyed (registryRun ?cfg ?ops) = 1 \<and> sr_destroy_calls (registryRun ?cfg ?ops) = [1, 1]"
    by (simp add: registryRun_def newRegistry_def startRegistry_def track_def dataEvent_def markActive_def changeState_def destroyIdle_def
        destroy_def isIdle_def closeEvent_def Let_def)
  with registry_accounts [of ?ops ?cfg "registryRun ?cfg ?ops" 0] show ?thesis by simp
qed

end
