(* ===== verification/SidecarRequest.thy ===== *)
theory SidecarRequest
  imports VerifierProps Watchdog
begin

text \<open>
  What the sidecar wraps around the pipeline: \<open>src/sidecar/runtime_request.mjs\<close> (the request that is run, and who may ask),
  \<open>src/sidecar/deterministic_worker.mjs\<close> (the worker that runs it) and \<open>src/sidecar/refusal_receipt.mjs\<close> (the receipt of a
  refusal the sidecar decides on its own). \<open>None\<close> is an uncaught exception.
\<close>

section \<open>The request that is run\<close>

definition allowedCorsOrigins :: "jsstring list" where
  "allowedCorsOrigins = [jstr ''http://127.0.0.1:8080'', jstr ''http://localhost:8080'']"

text \<open>The \<open>Origin\<close> header; a header that is missing is \<open>None\<close>.\<close>

definition isAllowedCorsOrigin :: "jsstring option \<Rightarrow> bool" where
  "isAllowedCorsOrigin origin = (case origin of None \<Rightarrow> True | Some s \<Rightarrow> s = [] \<or> s \<in> set allowedCorsOrigins)"

definition corsHeadersForOrigin :: "jsstring option \<Rightarrow> (string \<times> jsstring) list" where
  "corsHeadersForOrigin origin =
     (case origin of
        None \<Rightarrow> []
      | Some s \<Rightarrow> if s = [] \<or> s \<notin> set allowedCorsOrigins then []
                  else [(''access-control-allow-origin'', s), (''vary'', jstr ''Origin'')])"

definition createRuntimeInput :: "jsobject \<Rightarrow> json \<Rightarrow> jsobject" where
  "createRuntimeInput request activePolicy =
     filter (\<lambda>(k, v). k \<noteq> jstr ''policy_document'') request @ [(jstr ''policy_document'', activePolicy)]"

section \<open>The worker\<close>

text \<open>A message is answered with a result or a reason code; \<open>thrown\<close> is the message of an exception of the pipeline.\<close>

definition workerReason :: "jsstring \<Rightarrow> jsstring" where
  "workerReason thrown = (if jsStartsWith thrown (jstr ''ERR_'') then thrown else jstr ''ERR_RUNTIME_ERROR'')"

definition workerMessage ::
  "host \<Rightarrow> jsstring \<Rightarrow> runtime_state \<Rightarrow> jsstring \<Rightarrow> runtime_state \<times> (jsstring + typed_failure + execution_result)" where
  "workerMessage h thrown st rawInput =
     (case executeDeterministicPipeline h (resetRuntimeState st) rawInput of
        (st1, None) \<Rightarrow> (st1, Inl (workerReason thrown))
      | (st1, Some result) \<Rightarrow> (st1, Inr result))"

section \<open>Receipts of refusals\<close>

record refusal_input =
  rf_raw_body :: jsstring
  rf_reason_code :: jsstring
  rf_policy_hash :: jsstring
  rf_policy_version :: "json option"
  rf_timings :: "(jsstring \<times> rat option) list"
  rf_request_id :: "jsstring option"
  rf_request_hash :: "jsstring option"
  rf_decision_hash :: "jsstring option"

definition refusalSecret :: jsstring where
  "refusalSecret = jstr ''ecs-prod-signing-secret-v2''"

definition refusalKeyId :: jsstring where
  "refusalKeyId = jstr ''ecs-prod-key-v2''"

text \<open>A timing is a finite number or something else, which is dropped.\<close>

definition safeTimingSnapshot :: "(jsstring \<times> rat option) list \<Rightarrow> json" where
  "safeTimingSnapshot timings =
     JObj (List.map_filter (\<lambda>(k, v). map_option (\<lambda>x. (k, jint (roundMs x))) v) timings)"

definition signRefusal :: "host \<Rightarrow> jsobject \<Rightarrow> jsobject option" where
  "signRefusal h payload =
     do {
       canonicalPayload \<leftarrow> canonicalizeJson (JObj payload);
       fingerprint \<leftarrow> keyFingerprint h (hs_publicPem h);
       verifiableValue \<leftarrow> signReceiptPayload h canonicalPayload;
       Some (payload @
         [(jstr ''signature'', JObj
            [(jstr ''algorithm'', JStr (jstr ''HMAC-SHA256'')), (jstr ''key_id'', JStr refusalKeyId),
             (jstr ''value'', JStr (hexEncode (hs_hmac h (utf8Encode refusalSecret) (utf8Encode canonicalPayload))))]),
          (jstr ''verifiable_signature'', JObj
            [(jstr ''algorithm'', JStr (jstr ''ED25519'')), (jstr ''key_id'', JStr (receiptKeyId fingerprint)),
             (jstr ''public_key_fingerprint'', JStr fingerprint), (jstr ''value'', JStr verifiableValue)])])
     }"

definition refusalPayload :: "refusal_input \<Rightarrow> json \<Rightarrow> jsstring \<Rightarrow> jsstring \<Rightarrow> jsstring \<Rightarrow> jsstring \<Rightarrow> jsstring \<Rightarrow> jsobject" where
  "refusalPayload i policyVersion canonicalRequest requestHash decHash validationHash runtimeHash =
     (let reason = JStr (rf_reason_code i);
          executionId = JStr (orDefault (rf_request_id i) (jstr ''sidecar-refusal''))
      in [(jstr ''schema_version'', JStr (jstr ''ecs.receipt.v2'')),
          (jstr ''canonical_request'', JStr canonicalRequest),
          (jstr ''request_hash'', JStr requestHash),
          (jstr ''decision_output'', JObj
            [(jstr ''decision'', JStr (jstr ''REFUSE'')), (jstr ''decision_hash'', JStr decHash),
             (jstr ''request_hash'', JStr requestHash), (jstr ''reason_code'', reason),
             (jstr ''total_cost_usd'', JStr (jstr ''0.00'')), (jstr ''allowed_cost_usd'', JStr (jstr ''0.00'')),
             (jstr ''prevented_cost_usd'', JStr (jstr ''0.00'')), (jstr ''policy_version'', policyVersion),
             (jstr ''policy_hash'', JStr (rf_policy_hash i)), (jstr ''execution_id'', executionId),
             (jstr ''key_set_version'', JStr receiptKeySetVersion)]),
          (jstr ''pipeline_trace'', JObj
            [(jstr ''preflight'', JObj
               [(jstr ''layer'', JStr (jstr ''preflight'')), (jstr ''request_hash'', JStr requestHash),
                (jstr ''policy_hash'', JStr (rf_policy_hash i)), (jstr ''policy_version'', policyVersion)]),
             (jstr ''orbit'', JObj
               [(jstr ''layer'', JStr (jstr ''orbit'')), (jstr ''decision'', JStr (jstr ''REFUSE'')),
                (jstr ''reason_code'', reason), (jstr ''validation_hash'', JStr validationHash)]),
             (jstr ''arm'', JObj
               [(jstr ''layer'', JStr (jstr ''arm'')), (jstr ''decision'', JStr (jstr ''REFUSE'')),
                (jstr ''reason_code'', reason), (jstr ''projected_total_cost_cents'', jint 0),
                (jstr ''allowed_cost_cents'', jint 0), (jstr ''prevented_cost_cents'', jint 0),
                (jstr ''execution_id'', executionId)]),
             (jstr ''ramona'', JObj
               [(jstr ''layer'', JStr (jstr ''ramona'')), (jstr ''decision'', JStr (jstr ''REFUSE'')),
                (jstr ''reason_code'', reason), (jstr ''runtime_hash'', JStr runtimeHash)])])])"

text \<open>A policy without a version makes the serializer throw, in the decision hash or in the payload.\<close>

definition buildSidecarRefusalReceipt :: "host \<Rightarrow> refusal_input \<Rightarrow> jsobject option" where
  "buildSidecarRefusalReceipt h i =
     do {
       let reason = JStr (rf_reason_code i);
       canonicalRequest \<leftarrow>
         (if rf_raw_body i \<noteq> [] then Some (rf_raw_body i)
          else canonicalizeJson (JObj [(jstr ''sidecar_refusal'', reason),
            (jstr ''request_id'', case rf_request_id i of None \<Rightarrow> JNull | Some s \<Rightarrow> JStr s)]));
       let requestHash = orDefault (rf_request_hash i) (sha256Text h canonicalRequest);
       policyVersion \<leftarrow> rf_policy_version i;
       decHash \<leftarrow>
         (case rf_decision_hash i of
            Some d \<Rightarrow> Some d
          | None \<Rightarrow> hashCanonicalJson h (JObj
              [(jstr ''request_hash'', JStr requestHash), (jstr ''policy_hash'', JStr (rf_policy_hash i)),
               (jstr ''decision'', JStr (jstr ''REFUSE'')), (jstr ''reason_code'', reason),
               (jstr ''policy_version'', policyVersion),
               (jstr ''execution_id'', JStr (orDefault (rf_request_id i) (jstr ''sidecar-refusal'')))]));
       validationHash \<leftarrow> hashCanonicalJson h (JObj [(jstr ''reason_code'', reason), (jstr ''timings'', safeTimingSnapshot (rf_timings i))]);
       runtimeHash \<leftarrow> hashCanonicalJson h (JObj [(jstr ''sidecar_refusal'', reason)]);
       signRefusal h (refusalPayload i policyVersion canonicalRequest requestHash decHash validationHash runtimeHash)
     }"

section \<open>The policy of a decision\<close>

lemma resetRuntimeState_initial: "resetRuntimeState st = initialState"
  by (simp add: resetRuntimeState_def resetArmStores_def initialState_def authorityReset_def budgetReset_def)

lemma workerMessage_fresh:
  "workerMessage h thrown st raw = workerMessage h thrown initialState raw"
  by (simp add: workerMessage_def resetRuntimeState_initial)

fun workerRun :: "host \<Rightarrow> jsstring \<Rightarrow> runtime_state \<Rightarrow> jsstring list \<Rightarrow> (jsstring + typed_failure + execution_result) list" where
  "workerRun h thrown st [] = []"
| "workerRun h thrown st (raw # raws) =
     (let (st1, reply) = workerMessage h thrown st raw in reply # workerRun h thrown st1 raws)"

text \<open>
  A worker has no memory. Whatever it has run before, it answers each message as it would from empty stores: a request that
  was allowed is allowed again each time it is sent, with the same receipt, and the execution id is not consumed.
\<close>

theorem worker_has_no_memory:
  "workerRun h thrown st raws = map (\<lambda>raw. snd (workerMessage h thrown initialState raw)) raws"
proof (induction raws arbitrary: st)
  case (Cons raw raws)
  show ?case by (simp add: Cons case_prod_beta Let_def workerMessage_fresh [of h thrown st raw])
qed simp

lemma documentHash_norm:
  assumes "wfJson p"
  shows "documentHash h (Some (normJson p)) = documentHash h (Some p)"
proof -
  have wf: "wfValue (Some p)" using assms by (simp add: wfValue_def)
  note norm = getProp_norm1 [OF wf, simplified option.map]
  let ?k1 = "''schema_version''" let ?k2 = "''policy_version''" let ?k3 = "''rules''"
  show ?thesis
  proof (cases "getProp (Some p) ?k1 = None \<or> getProp (Some p) ?k2 = None \<or> getProp (Some p) ?k3 = None")
    case True
    then show ?thesis
      by (elim disjE) (auto simp: documentHash_def norm objectLiteral_def simp del: normJson.simps split: option.split)
  next
    case False
    then obtain a b c where abc: "getProp (Some p) ?k1 = Some a" "getProp (Some p) ?k2 = Some b" "getProp (Some p) ?k3 = Some c"
      by auto
    then have wfs: "wfJson a" "wfJson b" "wfJson c"
      using wfValue_getProp [OF wf, of ?k1] wfValue_getProp [OF wf, of ?k2] wfValue_getProp [OF wf, of ?k3] by (simp_all add: wfValue_def)
    let ?v = "JObj [(jstr ?k1, a), (jstr ?k2, b), (jstr ?k3, c)]"
    let ?w = "JObj [(jstr ?k1, normJson a), (jstr ?k2, normJson b), (jstr ?k3, normJson c)]"
    have wf2: "wfJson ?v" "wfJson ?w" using wfs by (simp_all add: wfJson_normJson)
    have "normJson ?w = normJson ?v"
      by (rule normJson_JObj_cong) (simp add: normJson_idem)
    then have "canonicalText ?w = canonicalText ?v" using canonicalText_eq_iff [OF wf2(2,1)] by blast
    then have "hashCanonicalJson h ?w = hashCanonicalJson h ?v"
      by (simp only: hashCanonicalJson_wf [OF wf2(1)] hashCanonicalJson_wf [OF wf2(2)])
    then show ?thesis by (simp add: documentHash_def norm abc del: normJson.simps)
  qed
qed

lemma map_of_runtime_input:
  "map_of (createRuntimeInput request p) (jstr ''policy_document'') = Some p"
  "k \<noteq> jstr ''policy_document'' \<Longrightarrow> map_of (createRuntimeInput request p) k = map_of request k"
proof -
  have "map_of (filter (\<lambda>(k, v). k \<noteq> jstr ''policy_document'') request) k =
      (if k = jstr ''policy_document'' then None else map_of request k)" for k
    by (induction request) (auto split: if_splits)
  then show "map_of (createRuntimeInput request p) (jstr ''policy_document'') = Some p"
    "k \<noteq> jstr ''policy_document'' \<Longrightarrow> map_of (createRuntimeInput request p) k = map_of request k"
    by (auto simp: createRuntimeInput_def map_add_def split: option.split)
qed

lemma wf_runtime_input:
  assumes "wfObj request" "wfJson p"
  shows "wfObj (createRuntimeInput request p)"
proof -
  have "set (map fst (filter (\<lambda>(k, v). k \<noteq> jstr ''policy_document'') request)) \<subseteq> set (map fst request) - {jstr ''policy_document''}"
    by auto
  moreover have "distinct (map fst (filter (\<lambda>(k, v). k \<noteq> jstr ''policy_document'') request))"
    using wfObj_distinct [OF assms(1)] by (simp add: distinct_map_filter)
  ultimately show ?thesis
    using assms by (auto simp: wfObj_def createRuntimeInput_def list_all_iff)
qed

lemma active_policy_run:
  assumes "wfObj request" "wfJson activePolicy"
    and "canonicalizeJson (JObj (createRuntimeInput request activePolicy)) = Some text"
    and run: "executeDeterministicPipeline h initialState text = (st', Some (Inr x))"
  shows "documentHash h (Some activePolicy) = Some (do_policy_hash (rp_decision_output (sr_payload (xr_receipt x)))) \<and>
    rp_canonical_request (sr_payload (xr_receipt x)) = text \<and>
    (\<exists>rest. parseStrictJson text = ParseOk (JObj (normObject (createRuntimeInput request activePolicy))) rest) \<and>
    map_of (createRuntimeInput request activePolicy) (jstr ''policy_document'') = Some activePolicy"
proof -
  let ?input = "createRuntimeInput request activePolicy"
  have wf: "wfObj ?input" "wfJson (JObj ?input)" using wf_runtime_input [OF assms(1,2)] by (simp_all add: wfObj_def)
  have canon: "text = canonicalText (JObj ?input)" using assms(3) canonicalizeJson_text [OF wf(2)] by (simp del: canonicalizeJson.simps)
  from run obtain env where env: "runStrictPreflight h text = Some (Inr env)"
    "buildReceipt h (envInput h env (snd (envArm h initialState env))) = Some (xr_receipt x)"
    "wfArm (snd (envArm h initialState env))" by (rule pipeline_Inr)
  have payload: "sr_payload (xr_receipt x) = receiptPayload (envInput h env (snd (envArm h initialState env)))
      (decisionHash h (envInput h env (snd (envArm h initialState env))))"
    using env(2,3) by (intro buildReceipt_fields(1)) (simp_all add: envInput_def)
  from env(1) obtain obj rest where pre: "parseStrictJson text = ParseOk (JObj obj) rest" "wfObj obj"
    "pe_canonical_input env = canonicalText (JObj obj)" "preflightBuild h obj = Some (Inr (pe_parsed_input env))"
    "policyHash h (ci_policy_document (pe_parsed_input env)) = Some (pe_policy_hash env)"
    by (rule runStrictPreflight_Inr)
  have obj: "obj = normObject ?input"
    using pre(1) parse_canonicalText [OF wf(2)] by (simp add: canon normJson_JObj del: normJson.simps)
  have "map_of obj (jstr ''policy_document'') = Some (normJson activePolicy)"
    using map_of_normObject [OF wfObj_distinct [OF wf(1)]] by (simp add: obj map_of_runtime_input)
  with built_document(2) [OF pre(4,2)] pre(5) documentHash_norm [OF assms(2)]
  have "documentHash h (Some activePolicy) = Some (pe_policy_hash env)" by simp
  moreover have "canonicalText (JObj obj) = text"
    using canonicalText_normObject [OF wf(2)] by (simp add: obj canon)
  ultimately show ?thesis
    using pre(1,3) payload by (auto simp: receiptPayload_def envInput_def pipelineInput_def obj map_of_runtime_input)
qed

text \<open>
  The client does not choose the policy. Whatever policy document a client puts into its request, the decision the worker
  returns is a decision on the request with the active policy: the stored request has the active policy and otherwise the
  members the client sent, and the policy hash of the decision is the hash of the active policy.
\<close>

theorem sidecar_decides_active_policy:
  assumes "wfObj request" "wfJson activePolicy"
    and "canonicalizeJson (JObj (createRuntimeInput request activePolicy)) = Some text"
    and "workerMessage h thrown st text = (st', Inr (Inr x))"
  shows "documentHash h (Some activePolicy) = Some (do_policy_hash (rp_decision_output (sr_payload (xr_receipt x)))) \<and>
    rp_canonical_request (sr_payload (xr_receipt x)) = text \<and>
    (\<exists>rest. parseStrictJson text = ParseOk (JObj (normObject (createRuntimeInput request activePolicy))) rest) \<and>
    map_of (createRuntimeInput request activePolicy) (jstr ''policy_document'') = Some activePolicy"
proof -
  have "executeDeterministicPipeline h initialState text = (st', Some (Inr x))"
    using assms(4) by (auto simp: workerMessage_def resetRuntimeState_initial split: prod.splits option.splits)
  then show ?thesis by (rule active_policy_run [OF assms(1-3)])
qed

definition clientRequest :: "canonical_input \<Rightarrow> json \<Rightarrow> jsobject" where
  "clientRequest ci claimed =
     [(jstr ''execution_request'', JObj (requestFields (ci_execution_request ci))), (jstr ''policy_document'', claimed),
      (jstr ''pricing_data'', JObj [(jstr ''gpu_hour_cents'', jint (ci_gpu_hour_cents ci))])]"

lemma clientRequest_runs:
  assumes "validInput h ci" "wfJson claimed"
  defines "p \<equiv> JObj (policyFields (ci_policy_document ci))"
  shows "wfObj (clientRequest ci claimed)" "wfJson p"
    and "canonicalizeJson (JObj (createRuntimeInput (clientRequest ci claimed) p)) = Some (requestText ci)"
proof -
  have wf: "wfObj (inputFields ci)" using assms(1) by (rule wfObj_inputFields)
  then show request: "wfObj (clientRequest ci claimed)" using assms(2) by (auto simp: wfObj_def inputFields_def clientRequest_def)
  show p: "wfJson p" using wf by (simp add: wfObj_def inputFields_def p_def)
  have "mset (createRuntimeInput (clientRequest ci claimed) p) = mset (inputFields ci)"
    by (simp add: createRuntimeInput_def clientRequest_def inputFields_def p_def)
  with normJson_reorder have "normJson (JObj (inputFields ci)) = normJson (JObj (createRuntimeInput (clientRequest ci claimed) p))"
    using wfObj_distinct [OF wf] by metis
  then have "canonicalText (JObj (createRuntimeInput (clientRequest ci claimed) p)) = requestText ci"
    using canonicalText_eq_iff wf wf_runtime_input [OF request p] by (simp only: wfObj_def requestText_def)
  then show "canonicalizeJson (JObj (createRuntimeInput (clientRequest ci claimed) p)) = Some (requestText ci)"
    using canonicalizeJson_text wf_runtime_input [OF request p] by (simp only: wfObj_def)
qed

lemma worker_allows_base:
  obtains st' x where "workerMessage testHost thrown st (requestText makeBaseInput) = (st', Inr (Inr x))"
    and "executeDeterministicPipeline testHost initialState (requestText makeBaseInput) = (st', Some (Inr x))"
    and "do_decision (rp_decision_output (sr_payload (xr_receipt x))) = Allow"
proof -
  obtain env r where run: "runStrictPreflight testHost (requestText makeBaseInput) = Some (Inr env)"
    "pe_parsed_input env = makeBaseInput" "pe_canonical_input env = requestText makeBaseInput"
    "buildReceipt testHost (envInput testHost env (snd (envArm testHost initialState env))) = Some r"
    "receiptDecision (envInput testHost env (snd (envArm testHost initialState env))) = Allow"
    "allowReceipt (jstr ''exec-001'') r" by (rule base_run)
  from run(6) have "do_decision (rp_decision_output (sr_payload r)) = Allow" by (simp add: allowReceipt_def)
  with that show ?thesis
    by (simp add: workerMessage_def resetRuntimeState_initial pipeline_env [OF run(1)] run(4))
qed

theorem sidecar_decides_active_policy_witness:
  "\<exists>request activePolicy text st' x.
     map_of request (jstr ''policy_document'') = Some JNull \<and>
     canonicalizeJson (JObj (createRuntimeInput request activePolicy)) = Some text \<and>
     workerMessage testHost [] initialState text = (st', Inr (Inr x)) \<and>
     documentHash testHost (Some activePolicy) = Some (do_policy_hash (rp_decision_output (sr_payload (xr_receipt x))))"
proof -
  have "wfJson JNull" by simp
  note client = clientRequest_runs [OF validInput_base [of testHost] this]
  obtain st' x where x: "workerMessage testHost [] initialState (requestText makeBaseInput) = (st', Inr (Inr x))"
    by (rule worker_allows_base)
  have "map_of (clientRequest makeBaseInput JNull) (jstr ''policy_document'') = Some JNull" by (simp add: clientRequest_def)
  with sidecar_decides_active_policy [OF client(1,2,3) x] client(3) x show ?thesis by blast
qed

section \<open>Refusals do not verify\<close>

lemma refusal_parts:
  assumes "buildSidecarRefusalReceipt h i = Some r"
  obtains p canonicalRequest requestHash decHash validationHash runtimeHash t fp v where
    "rf_policy_version i = Some p"
    "requestHash = orDefault (rf_request_hash i) (sha256Text h canonicalRequest)"
    "rf_raw_body i \<noteq> [] \<longrightarrow> canonicalRequest = rf_raw_body i"
    "canonicalizeJson (JObj (refusalPayload i p canonicalRequest requestHash decHash validationHash runtimeHash)) = Some t"
    "keyFingerprint h (hs_publicPem h) = Some fp"
    "signReceiptPayload h t = Some v"
    "r = refusalPayload i p canonicalRequest requestHash decHash validationHash runtimeHash @
         [(jstr ''signature'', JObj
            [(jstr ''algorithm'', JStr (jstr ''HMAC-SHA256'')), (jstr ''key_id'', JStr refusalKeyId),
             (jstr ''value'', JStr (hexEncode (hs_hmac h (utf8Encode refusalSecret) (utf8Encode t))))]),
          (jstr ''verifiable_signature'', JObj
            [(jstr ''algorithm'', JStr (jstr ''ED25519'')), (jstr ''key_id'', JStr (receiptKeyId fp)),
             (jstr ''public_key_fingerprint'', JStr fp), (jstr ''value'', JStr v)])]"
  using assms
  by (auto simp: buildSidecarRefusalReceipt_def signRefusal_def Let_def bind_eq_Some_conv split: if_splits simp del: canonicalizeJson.simps)

text \<open>The HMAC of a refusal verifies only for an operator who configured its key id with a secret that collides with the built-in one.\<close>

definition refusalHmacCollision :: "host \<Rightarrow> bool" where
  "refusalHmacCollision h \<longleftrightarrow>
     (\<exists>secret t. signingConfig h = ConfigOk secret refusalKeyId \<and> secret \<noteq> refusalSecret \<and>
        hs_hmac h (utf8Encode secret) t = hs_hmac h (utf8Encode refusalSecret) t)"

lemma configured_secret: "signingConfig h = ConfigOk secret keyId \<Longrightarrow> secret \<noteq> refusalSecret"
  by (auto simp: signingConfig_def refusalSecret_def length_jstr Let_def split: option.splits if_splits)

lemma refusal_signature:
  assumes "buildSidecarRefusalReceipt h i = Some r" "\<not> refusalHmacCollision h"
  shows "verifyReceiptSignature h r = Some False"
  using assms(1)
proof (rule refusal_parts)
  fix p canonicalRequest requestHash decHash validationHash runtimeHash t fp v
  let ?payload = "refusalPayload i p canonicalRequest requestHash decHash validationHash runtimeHash"
  assume r: "canonicalizeJson (JObj ?payload) = Some t"
    "r = ?payload @
         [(jstr ''signature'', JObj
            [(jstr ''algorithm'', JStr (jstr ''HMAC-SHA256'')), (jstr ''key_id'', JStr refusalKeyId),
             (jstr ''value'', JStr (hexEncode (hs_hmac h (utf8Encode refusalSecret) (utf8Encode t))))]),
          (jstr ''verifiable_signature'', JObj
            [(jstr ''algorithm'', JStr (jstr ''ED25519'')), (jstr ''key_id'', JStr (receiptKeyId fp)),
             (jstr ''public_key_fingerprint'', JStr fp), (jstr ''value'', JStr v)])]"
  have rest: "receiptRest r = ?payload"
    by (simp add: r(2) receiptRest_def refusalPayload_def Let_def)
  have sig: "map_of r (jstr ''signature'') = Some (JObj
            [(jstr ''algorithm'', JStr (jstr ''HMAC-SHA256'')), (jstr ''key_id'', JStr refusalKeyId),
             (jstr ''value'', JStr (hexEncode (hs_hmac h (utf8Encode refusalSecret) (utf8Encode t))))])"
    "map_of r (jstr ''verifiable_signature'') = Some (JObj
            [(jstr ''algorithm'', JStr (jstr ''ED25519'')), (jstr ''key_id'', JStr (receiptKeyId fp)),
             (jstr ''public_key_fingerprint'', JStr fp), (jstr ''value'', JStr v)])"
    by (simp_all add: r(2) refusalPayload_def Let_def)
  have "verifyReceiptPublicSignature h r = Some False"
    by (simp add: verifyReceiptPublicSignature_def Let_def sig(2) falsy_def getProp_def)
  moreover have "\<not> (case signingConfig h of
           ConfigOk secret keyId \<Rightarrow>
             refusalKeyId = keyId \<and>
             hexEncode (hs_hmac h (utf8Encode refusalSecret) (utf8Encode t)) = hexEncode (hs_hmac h (utf8Encode secret) (utf8Encode t))
         | ConfigMissing r \<Rightarrow> False)"
    using assms(2) configured_secret by (auto simp: refusalHmacCollision_def hexEncode_inject split: signing_config.splits) metis
  ultimately show ?thesis
    by (auto simp: verifyReceiptSignature_def rest r(1) sig getProp_def split: signing_config.splits simp del: canonicalizeJson.simps)
qed

end
