(* ===== verification/ReceiptHistory.thy ===== *)
theory ReceiptHistory
  imports SidecarRequest LegacyCore
begin

text \<open>
  The receipt log as the sidecar serves it: \<open>src/sidecar/replay_engine.mjs\<close> (one receipt, replayed) and
  \<open>src/sidecar/production_api.mjs\<close> (the recent receipts, their verification and replay, and the check of a policy document).

  The log is what reading the file yields (\<open>None\<close>: it does not exist), \<open>parse\<close> is \<open>JSON.parse\<close>. The texts only the engine
  knows are the fields of \<open>js_texts\<close>: how it prints a number, and the messages of the exceptions it raises. The amount
  \<open>prevented_cost_usd\<close> of a listed receipt, the time stamps of a report and the audit bundle are left out.
\<close>

section \<open>JavaScript texts\<close>

record js_texts =
  jt_number :: "jsnum \<Rightarrow> jsstring"
  jt_parse_error :: "jsstring \<Rightarrow> jsstring"
  jt_type_error :: jsstring
  jt_replay_error :: "jsstring \<Rightarrow> jsstring"

text \<open>\<open>String(v)\<close>; an object with a \<open>toString\<close> of its own cannot be converted, which throws.\<close>

fun stringOf :: "js_texts \<Rightarrow> json \<Rightarrow> jsstring option" where
  "stringOf tx JNull = Some (jstr ''null'')"
| "stringOf tx (JBool b) = Some (boolText b)"
| "stringOf tx (JNum n) = Some (jt_number tx n)"
| "stringOf tx (JStr s) = Some s"
| "stringOf tx (JArr vs) =
     map_option (joinWith [44]) (those (map (\<lambda>v. if v = JNull then Some [] else stringOf tx v) vs))"
| "stringOf tx (JObj ps) = (if map_of ps (jstr ''toString'') = None then Some (jstr ''[object Object]'') else None)"

text \<open>\<open>v ?? w\<close>\<close>

definition nullish :: "json option \<Rightarrow> bool" where
  "nullish v \<longleftrightarrow> v = None \<or> v = Some JNull"

fun firstOf :: "json option list \<Rightarrow> json" where
  "firstOf [] = JNull"
| "firstOf (v # vs) = (if nullish v then firstOf vs else the v)"

definition isStr :: "json option \<Rightarrow> bool" where
  "isStr v \<longleftrightarrow> (case v of Some (JStr s) \<Rightarrow> True | _ \<Rightarrow> False)"

text \<open>\<open>typeof v === "object"\<close> for a value that is not falsy.\<close>

definition objectLike :: "json option \<Rightarrow> bool" where
  "objectLike v \<longleftrightarrow> (case v of Some (JObj ps) \<Rightarrow> True | Some (JArr vs) \<Rightarrow> True | _ \<Rightarrow> False)"

definition stringOr :: "json option \<Rightarrow> json \<Rightarrow> json" where
  "stringOr v d = (if isStr v then the v else d)"

section \<open>Replay of one receipt\<close>

datatype receipt_status = Pass | Drift | MalformedReceipt | ReplayUnavailable | SignatureFail | ReceiptValid | ReceiptInvalid

record receipt_result =
  rr_status :: receipt_status
  rr_receipt_id :: json
  rr_reason :: "jsstring option"
  rr_request_hash :: json
  rr_decision_hash :: json
  rr_policy_hash :: json
  rr_mismatches :: "(string \<times> json option \<times> json option) list"

definition replayFailure :: "receipt_status \<Rightarrow> jsstring \<Rightarrow> json \<Rightarrow> json option \<Rightarrow> json option \<Rightarrow> receipt_result" where
  "replayFailure status reason receipt extraRequestHash extraDecisionHash =
     (let field = getProp (Some receipt); decision = getProp (decisionOf receipt)
      in \<lparr>rr_status = status, rr_receipt_id = firstOf [field ''receipt_id'', decision ''decision_hash''], rr_reason = Some reason,
          rr_request_hash = firstOf [extraRequestHash, field ''request_hash'', decision ''request_hash''],
          rr_decision_hash = firstOf [extraDecisionHash, decision ''decision_hash''],
          rr_policy_hash = firstOf [decision ''policy_hash''], rr_mismatches = []\<rparr>)"

definition compareField :: "string \<Rightarrow> json option \<Rightarrow> json option \<Rightarrow> (string \<times> json option \<times> json option) list" where
  "compareField field original replayed = (if original \<noteq> replayed then [(field, original, replayed)] else [])"

definition compareDecisions :: "json \<Rightarrow> signed_receipt \<Rightarrow> (string \<times> json option \<times> json option) list" where
  "compareDecisions receipt replayed =
     (let original = getProp (decisionOf receipt); d = rp_decision_output (sr_payload replayed)
      in compareField ''request_hash'' (getProp (Some receipt) ''request_hash'') (Some (JStr (rp_request_hash (sr_payload replayed)))) @
         compareField ''decision'' (original ''decision'') (Some (JStr (decisionText (do_decision d)))) @
         compareField ''decision_hash'' (original ''decision_hash'') (Some (JStr (do_decision_hash d))) @
         compareField ''policy_hash'' (original ''policy_hash'') (Some (JStr (do_policy_hash d))))"

definition compared :: "json \<Rightarrow> (string \<times> json option \<times> json option) list \<Rightarrow> receipt_result" where
  "compared receipt mismatches =
     (let field = getProp (Some receipt); decision = getProp (decisionOf receipt)
      in \<lparr>rr_status = (if mismatches \<noteq> [] then Drift else Pass),
          rr_receipt_id = firstOf [field ''receipt_id'', decision ''decision_hash''],
          rr_reason = (if mismatches \<noteq> [] then Some (joinWith (jstr '', '') (map (\<lambda>m. jstr (fst m)) mismatches)) else None),
          rr_request_hash = firstOf [field ''request_hash''], rr_decision_hash = firstOf [decision ''decision_hash''],
          rr_policy_hash = firstOf [decision ''policy_hash''], rr_mismatches = mismatches\<rparr>)"

text \<open>\<open>None\<close>: an exception outside the \<open>try\<close>: the conversion of the schema version, or the check of the signature.\<close>

definition replayReceiptDeterministically ::
  "host \<Rightarrow> js_texts \<Rightarrow> runtime_state \<Rightarrow> json \<Rightarrow> runtime_state \<times> receipt_result option" where
  "replayReceiptDeterministically h tx st receipt =
     (let field = getProp (Some receipt); fail = (\<lambda>status reason. replayFailure status (jstr reason) receipt None None)
      in if \<not> isObject (Some receipt) then (st, Some (fail MalformedReceipt ''receipt must be an object''))
         else if field ''schema_version'' \<noteq> Some (JStr (jstr ''ecs.receipt.v2''))
         then (st, map_option (\<lambda>t. replayFailure ReplayUnavailable (jstr ''unsupported schema '' @ t) receipt None None)
                (if nullish (field ''schema_version'') then Some (jstr ''missing'') else stringOf tx (the (field ''schema_version''))))
         else if falsy (field ''signature'') \<and> falsy (field ''verifiable_signature'')
         then (st, Some (fail SignatureFail ''receipt signature is missing''))
         else (case verifySignedReceipt h receipt of
             None \<Rightarrow> (st, None)
           | Some False \<Rightarrow> (st, Some (fail SignatureFail ''receipt signature verification failed''))
           | Some True \<Rightarrow>
               (case field ''canonical_request'' of
                  Some (JStr request) \<Rightarrow>
                    if \<not> objectLike (decisionOf receipt)
                    then (st, Some (fail MalformedReceipt ''decision_output is required''))
                    else
                      (case executeDeterministicPipeline h (resetRuntimeState st) request of
                         (st1, None) \<Rightarrow> (st1, Some (replayFailure ReplayUnavailable (jt_replay_error tx request) receipt None None))
                       | (st1, Some (Inl failure)) \<Rightarrow>
                           (st1, Some (replayFailure Drift (reasonText (tf_reason_code failure)) receipt
                              (Some (JStr (tf_request_hash failure))) (Some (JStr (tf_decision_hash failure)))))
                       | (st1, Some (Inr rerun)) \<Rightarrow> (st1, Some (compared receipt (compareDecisions receipt (xr_receipt rerun)))))
                | _ \<Rightarrow> (st, Some (fail MalformedReceipt ''canonical_request is required'')))))"

section \<open>Verification of one receipt\<close>

text \<open>The body of \<open>/receipts/verify\<close> is a receipt or an object that holds one.\<close>

definition receiptOfInput :: "json \<Rightarrow> json" where
  "receiptOfInput input =
     (let inner = getProp (Some input) ''receipt'' in if objectLike inner then the inner else input)"

definition contractResult :: "receipt_status \<Rightarrow> jsstring option \<Rightarrow> json \<Rightarrow> receipt_result" where
  "contractResult status reason receipt =
     (let field = getProp (Some receipt); decision = getProp (decisionOf receipt)
      in \<lparr>rr_status = status, rr_receipt_id = stringOr (field ''receipt_id'') JNull, rr_reason = reason,
          rr_request_hash = stringOr (field ''request_hash'') (stringOr (decision ''request_hash'') JNull),
          rr_decision_hash = stringOr (decision ''decision_hash'') JNull,
          rr_policy_hash = stringOr (decision ''policy_hash'') JNull, rr_mismatches = []\<rparr>)"

definition verifyReceiptContract :: "host \<Rightarrow> json \<Rightarrow> receipt_result option" where
  "verifyReceiptContract h input =
     (let receipt = receiptOfInput input; field = getProp (Some receipt); decision = getProp (decisionOf receipt);
          fail = (\<lambda>status reason. Some (contractResult status (Some (jstr reason)) receipt))
      in if \<not> isObject (Some receipt) then fail ReceiptInvalid ''receipt must be an object''
         else if \<not> objectLike (decisionOf receipt) then fail ReceiptInvalid ''receipt decision_output is required''
         else if falsy (field ''signature'') \<and> falsy (field ''verifiable_signature'') then fail SignatureFail ''receipt signature is missing''
         else if \<not> isStr (field ''canonical_request'') \<or> \<not> isStr (field ''request_hash'')
         then fail ReceiptInvalid ''canonical request and request hash are required''
         else if \<not> falsy (decision ''request_hash'') \<and> decision ''request_hash'' \<noteq> field ''request_hash''
         then fail Drift ''decision request_hash does not match receipt request_hash''
         else (case verifySignedReceipt h receipt of
             None \<Rightarrow> None
           | Some False \<Rightarrow> fail SignatureFail ''receipt signature verification failed''
           | Some True \<Rightarrow> Some (contractResult ReceiptValid None receipt)))"

section \<open>The recent receipts\<close>

text \<open>A double is finite up to this bound; \<open>parseInt\<close> of more is \<open>Infinity\<close>.\<close>

definition finiteInteger :: "int \<Rightarrow> bool" where
  "finiteInteger i \<longleftrightarrow> \<bar>i\<bar> < 2 ^ 1024 - 2 ^ 970"

definition clampLimit :: "jsstring \<Rightarrow> int" where
  "clampLimit t =
     (case parseIntTen t of
        None \<Rightarrow> 100
      | Some parsed \<Rightarrow> if \<not> finiteInteger parsed then 100 else max 1 (min 500 parsed))"

definition clampReceiptLimit :: "js_texts \<Rightarrow> json option \<Rightarrow> int option" where
  "clampReceiptLimit tx v = map_option clampLimit (if nullish v then Some [] else stringOf tx (the v))"

record recent_receipt =
  rc_receipt_id :: "jsstring option"
  rc_timestamp :: jsstring
  rc_verdict :: decision
  rc_action :: jsstring
  rc_reason_code :: jsstring
  rc_policy :: jsstring
  rc_policy_hash :: jsstring
  rc_request_hash :: jsstring
  rc_decision_hash :: jsstring
  rc_canonical_payload_hash :: "jsstring option"
  rc_signature_status :: jsstring
  rc_replay_status :: jsstring
  rc_raw :: json

definition textOr :: "json option \<Rightarrow> jsstring \<Rightarrow> jsstring" where
  "textOr v d = (case v of Some (JStr s) \<Rightarrow> s | _ \<Rightarrow> d)"

definition notReported :: jsstring where
  "notReported = jstr ''NOT_REPORTED''"

definition signatureStates :: "jsstring list" where
  "signatureStates = map jstr [''VALID'', ''INVALID'', ''UNKNOWN'', ''NOT_REPORTED'']"

definition replayStates :: "jsstring list" where
  "replayStates = map jstr [''VALID'', ''DRIFT'', ''UNKNOWN'', ''NOT_REPORTED'']"

text \<open>\<open>None\<close>: a conversion to a string throws. The members of an object that is not there are undefined.\<close>

definition normalizeReceipt :: "js_texts \<Rightarrow> json \<Rightarrow> recent_receipt option" where
  "normalizeReceipt tx raw =
     (let field = getProp (Some raw); decision = getProp (decisionOf raw);
          receiptId = firstOf [field ''receipt_id'', field ''id'', decision ''decision_hash'', field ''request_hash''];
          executionId = decision ''execution_id''; prevented = decision ''prevented_cost_usd''
      in do {
        _ \<leftarrow> (if nullish prevented then Some [] else stringOf tx (the prevented));
        action \<leftarrow>
          (if isStr (field ''action'') then Some (textOr (field ''action'') [])
           else if falsy executionId then Some (jstr ''not reported'')
           else map_option (\<lambda>t. jstr ''execution '' @ t) (stringOf tx (the executionId)));
        Some
          \<lparr>rc_receipt_id = (case receiptId of JStr s \<Rightarrow> Some s | _ \<Rightarrow> None),
           rc_timestamp = textOr (field ''timestamp'') (jstr ''1970-01-01T00:00:00.000Z''),
           rc_verdict = (if decision ''decision'' = Some (JStr (jstr ''ALLOW'')) then Allow else Refuse),
           rc_action = action,
           rc_reason_code = textOr (decision ''reason_code'') notReported,
           rc_policy = textOr (decision ''policy_version'') notReported,
           rc_policy_hash = textOr (decision ''policy_hash'') notReported,
           rc_request_hash = textOr (field ''request_hash'') (textOr (decision ''request_hash'') notReported),
           rc_decision_hash = textOr (decision ''decision_hash'') notReported,
           rc_canonical_payload_hash = (case field ''canonical_payload_hash'' of Some (JStr s) \<Rightarrow> Some s | _ \<Rightarrow> None),
           rc_signature_status =
             (if isStr (field ''signature_status'') \<and> textOr (field ''signature_status'') [] \<in> set signatureStates
              then textOr (field ''signature_status'') []
              else if \<not> falsy (field ''signature'') \<or> \<not> falsy (field ''verifiable_signature'') then jstr ''UNKNOWN'' else notReported),
           rc_replay_status =
             (if isStr (field ''replay_status'') \<and> textOr (field ''replay_status'') [] \<in> set replayStates
              then textOr (field ''replay_status'') [] else jstr ''UNKNOWN''),
           rc_raw = raw\<rparr>
      })"

text \<open>One line of the log: a receipt, or the reason of the warning.\<close>

definition readReceiptLine :: "js_texts \<Rightarrow> (jsstring \<Rightarrow> json option) \<Rightarrow> jsstring \<Rightarrow> jsstring + recent_receipt" where
  "readReceiptLine tx parse line =
     (case parse line of
        None \<Rightarrow> Inl (jt_parse_error tx line)
      | Some raw \<Rightarrow>
          if \<not> isObject (Some raw) then Inl (jstr ''receipt line is not an object'')
          else (case normalizeReceipt tx raw of None \<Rightarrow> Inl (jt_type_error tx) | Some r \<Rightarrow> Inr r))"

text \<open>The lines with their numbers, the last one first; the receipts found so far are counted down from the limit.\<close>

fun recentReceipts ::
  "js_texts \<Rightarrow> (jsstring \<Rightarrow> json option) \<Rightarrow> nat \<Rightarrow> (nat \<times> jsstring) list \<Rightarrow> recent_receipt list \<times> (nat \<times> jsstring) list" where
  "recentReceipts tx parse n [] = ([], [])"
| "recentReceipts tx parse n ((number, raw) # rest) =
     (if n = 0 then ([], [])
      else
        (let line = jsTrim raw
         in if line = [] then recentReceipts tx parse n rest
            else (case readReceiptLine tx parse line of
                Inl reason \<Rightarrow> (let (rs, ws) = recentReceipts tx parse n rest in (rs, (number, reason) # ws))
              | Inr r \<Rightarrow> (let (rs, ws) = recentReceipts tx parse (n - 1) rest in (r # rs, ws)))))"

definition numberedLines :: "jsstring list \<Rightarrow> (nat \<times> jsstring) list" where
  "numberedLines ls = rev (zip [1..<length ls + 1] ls)"

definition readRecentReceipts ::
  "js_texts \<Rightarrow> (jsstring \<Rightarrow> json option) \<Rightarrow> jsstring option \<Rightarrow> int \<Rightarrow> recent_receipt list \<times> (nat \<times> jsstring) list" where
  "readRecentReceipts tx parse content boundedLimit =
     (case content of
        None \<Rightarrow> ([], [])
      | Some t \<Rightarrow>
          (let source = jsTrim t
           in if source = [] then ([], []) else recentReceipts tx parse (nat boundedLimit) (numberedLines (splitLines [] source))))"

section \<open>Replay of the recent receipts\<close>

record replay_failure =
  fl_receipt_id :: "jsstring option"
  fl_reason :: jsstring
  fl_request_hash :: json
  fl_decision_hash :: json

datatype summary_status = SummaryPass | SummarySignatureFail | SummaryUnavailable | SummaryMalformed | SummaryDrift

definition summarizeReplayStatus :: "replay_failure list \<Rightarrow> summary_status" where
  "summarizeReplayStatus failures =
     (let some = (\<lambda>part. list_ex (\<lambda>f. jsIncludes (fl_reason f) (jstr part)) failures)
      in if failures = [] then SummaryPass
         else if some ''signature'' then SummarySignatureFail
         else if some ''unsupported'' \<or> some ''unavailable'' then SummaryUnavailable
         else if some ''malformed'' then SummaryMalformed
         else SummaryDrift)"

fun statusText :: "receipt_status \<Rightarrow> jsstring" where
  "statusText Pass = jstr ''PASS''"
| "statusText Drift = jstr ''DRIFT''"
| "statusText MalformedReceipt = jstr ''MALFORMED_RECEIPT''"
| "statusText ReplayUnavailable = jstr ''REPLAY_UNAVAILABLE''"
| "statusText SignatureFail = jstr ''SIGNATURE_FAIL''"
| "statusText ReceiptValid = jstr ''VALID''"
| "statusText ReceiptInvalid = jstr ''INVALID''"

fun replayItems ::
  "(runtime_state \<Rightarrow> json \<Rightarrow> runtime_state \<times> receipt_result option) \<Rightarrow> runtime_state \<Rightarrow> recent_receipt list \<Rightarrow>
     runtime_state \<times> (nat \<times> replay_failure list) option" where
  "replayItems replay st [] = (st, Some (0, []))"
| "replayItems replay st (item # items) =
     (case replay st (rc_raw item) of
        (st1, None) \<Rightarrow> (st1, None)
      | (st1, Some result) \<Rightarrow>
          (let (st2, rest) = replayItems replay st1 items
           in (st2, map_option (\<lambda>(signatureFailures, failures).
                if rr_status result \<in> {ReceiptValid, Pass} then (signatureFailures, failures)
                else (signatureFailures + (if rr_status result = SignatureFail then 1 else 0),
                      \<lparr>fl_receipt_id = rc_receipt_id item,
                       fl_reason = orDefault (rr_reason result) (statusText (rr_status result)),
                       fl_request_hash = rr_request_hash result, fl_decision_hash = rr_decision_hash result\<rparr> # failures)) rest)))"

record replay_summary =
  sm_status :: summary_status
  sm_checked :: nat
  sm_drift :: int
  sm_signature_failures :: nat
  sm_policy_hash :: "jsstring option"
  sm_failures :: "replay_failure list"

definition malformedFailure :: "nat \<times> jsstring \<Rightarrow> replay_failure" where
  "malformedFailure w =
     \<lparr>fl_receipt_id = None, fl_reason = jstr ''malformed receipt line '' @ showNat (fst w) @ jstr '': '' @ snd w,
      fl_request_hash = JNull, fl_decision_hash = JNull\<rparr>"

definition replayRecentReceipts ::
  "js_texts \<Rightarrow> (jsstring \<Rightarrow> json option) \<Rightarrow> (runtime_state \<Rightarrow> json \<Rightarrow> runtime_state \<times> receipt_result option) \<Rightarrow>
     runtime_state \<Rightarrow> jsstring option \<Rightarrow> int \<Rightarrow> runtime_state \<times> replay_summary option" where
  "replayRecentReceipts tx parse replay st content boundedLimit =
     (let (receipts, malformed) = readRecentReceipts tx parse content boundedLimit; (st1, counts) = replayItems replay st receipts
      in (st1, map_option (\<lambda>(signatureFailures, failed).
           let failures = failed @ map malformedFailure malformed
           in \<lparr>sm_status = summarizeReplayStatus failures, sm_checked = length receipts,
               sm_drift = int (length failures) - int signatureFailures, sm_signature_failures = signatureFailures,
               sm_policy_hash = map_option rc_policy_hash
                 (find (\<lambda>r. rc_policy_hash r \<noteq> [] \<and> rc_policy_hash r \<noteq> notReported) receipts),
               sm_failures = failures\<rparr>) counts))"

section \<open>The check of a policy document\<close>

text \<open>\<open>Inl\<close> is the reason of a refusal; \<open>None\<close> an exception of the signature check.\<close>

definition validatePolicyDocument :: "(jsstring \<Rightarrow> json \<Rightarrow> jsstring \<Rightarrow> bool option) \<Rightarrow> json \<Rightarrow> (jsstring + unit) option" where
  "validatePolicyDocument verifyTrust p =
     (let field = getProp (Some p); refuse = (\<lambda>r. Some (Inl (jstr r))); trust = field ''trust''
      in if \<not> isObject (Some p) then refuse ''policy must be an object''
         else if field ''schema_version'' \<noteq> Some (JStr (jstr ''ecs.policy.v1'')) then refuse ''policy schema_version must be ecs.policy.v1''
         else if \<not> nonEmptyString (field ''policy_version'') then refuse ''policy_version is required''
         else if \<not> isObject (field ''rules'') then refuse ''policy rules object is required''
         else if falsy trust then Some (Inr ())
         else (case (getProp trust ''public_key'', getProp trust ''signature'') of
             (Some (JStr publicKey), Some (JStr signature)) \<Rightarrow>
               map_option (\<lambda>ok. if ok then Inr () else Inl (jstr ''policy signature verification failed''))
                 (verifyTrust publicKey p signature)
           | _ \<Rightarrow> refuse ''policy trust signature is incomplete''))"

end
