(* ===== verification/DecideHandler.thy ===== *)
theory DecideHandler
  imports ReceiptHistory WorkerPoolProps ReceiptQueueProps
begin

text \<open>
  \<open>handleDecide\<close> of \<open>src/mnde-local-sidecar.mjs\<close> with \<open>fail\<close>, \<open>persistRefusal\<close>, \<open>readStrictObject\<close>, \<open>recordAdmissionRefusal\<close> and
  \<open>apiResponseFromReceipt\<close>, over the state of one sidecar process. A request is its number; where its handler waits is its
  phase, and what the handler does between two waits is one definition; the steps of everything else are interleaved by the step
  relation of \<open>DecideProps\<close>. Readings of the clock are the argument \<open>timings\<close>; the members \<open>timings\<close> and \<open>runtime_degraded\<close>, which
  only report them, are left out of the response bodies. \<open>thrown\<close> is the message of an exception. A response is what the handler
  hands to \<open>response\<close>, whether or not the client is still there.
\<close>

section \<open>State\<close>

record decide_config =
  dg_limits :: admission_limits
  dg_saturation :: saturation_config
  dg_queue :: queue_config
  dg_pool :: pool_config
  dg_inline_refusals :: bool

definition strictAudit :: "decide_config \<Rightarrow> bool" where
  "strictAudit cfg \<longleftrightarrow> qc_durability_mode (dg_queue cfg) = jstr ''strict_audit''"

record decide_counters =
  dk_requests :: nat
  dk_refused_overload :: nat
  dk_flush_failures :: nat
  dk_unsigned_allows_blocked :: nat
  dk_refused_system_saturated :: nat
  dk_refused_worker_pool_saturated :: nat
  dk_refused_receipt_queue_saturated :: nat
  dk_admission_refusals :: nat
  dk_worker_refusals :: nat
  dk_receipt_refusals :: nat
  dk_saturation_inflight :: nat
  dk_saturation_event_loop_lag :: nat
  dk_saturation_receipt_queue_depth :: nat
  dk_saturation_receipt_queue_bytes :: nat
  dk_request_timeout_refusals :: nat
  dk_browser_origin_requests :: nat
  dk_watchdog_interventions :: nat

record decide_response =
  ds_status :: int
  ds_body :: jsobject

text \<open>Where an exception of \<open>fail\<close> goes: before the slot, after it, inside the \<open>try\<close> and inside its \<open>catch\<close>.\<close>

datatype fail_context = BeforeAdmission | Saturated nat | InTry nat | InCatch nat

text \<open>A crashed handler has thrown: its client gets no answer; the slot is the one it still holds.\<close>

datatype decide_phase =
    ReadingBody nat
  | AwaitWorker nat nat jsstring
  | AwaitDurable nat nat signed_receipt
  | AwaitRefusal fail_context nat decide_response
  | Finished
  | Crashed "nat option"

type_synonym worker_result = "typed_failure + execution_result"

record sidecar =
  sd_watchdog :: watchdog
  sd_admission :: admission
  sd_queue :: receipt_queue
  sd_pool :: "worker_result worker_pool"
  sd_inflight :: int
  sd_event_loop_lag :: int
  sd_policy :: json
  sd_policy_hash :: jsstring
  sd_counters :: decide_counters
  sd_requests :: "decide_phase list"
  sd_tasks :: "(nat \<times> jsstring) list"
  sd_responses :: "(nat \<times> decide_response) list"

definition setPhase :: "nat \<Rightarrow> decide_phase \<Rightarrow> sidecar \<Rightarrow> sidecar" where
  "setPhase i p st = st\<lparr>sd_requests := (sd_requests st)[i := p]\<rparr>"

definition respond :: "nat \<Rightarrow> decide_response \<Rightarrow> sidecar \<Rightarrow> sidecar" where
  "respond i r st = st\<lparr>sd_responses := sd_responses st @ [(i, r)]\<rparr>"

definition count :: "(decide_counters \<Rightarrow> decide_counters) \<Rightarrow> sidecar \<Rightarrow> sidecar" where
  "count f st = st\<lparr>sd_counters := f (sd_counters st)\<rparr>"

section \<open>Refusals\<close>

record fail_extra =
  fe_raw_body :: jsstring
  fe_request_hash :: "jsstring option"
  fe_decision_hash :: "jsstring option"
  fe_saturation_signal :: "jsstring option"

definition noExtra :: fail_extra where
  "noExtra = \<lparr>fe_raw_body = [], fe_request_hash = None, fe_decision_hash = None, fe_saturation_signal = None\<rparr>"

definition memberOr :: "json option \<Rightarrow> json" where
  "memberOr v = firstOf [v]"

text \<open>The request and decision hash of \<open>extra\<close> are the ones of the receipt, which was built from them.\<close>

definition failBody :: "jsstring \<Rightarrow> bool \<Rightarrow> jsobject \<Rightarrow> fail_extra \<Rightarrow> jsobject" where
  "failBody finalReason persisted receipt extra =
     [(jstr ''schema_version'', JStr (jstr ''mnde.api.response.v1'')), (jstr ''decision'', JStr (jstr ''REFUSE'')),
      (jstr ''reason_code'', JStr finalReason),
      (jstr ''request_hash'', memberOr (getProp (Some (JObj receipt)) ''request_hash'')),
      (jstr ''decision_hash'', memberOr (getProp (decisionOf (JObj receipt)) ''decision_hash'')),
      (jstr ''receipt'', JNull), (jstr ''receipt_persisted'', JBool persisted)] @
     (case fe_saturation_signal extra of None \<Rightarrow> [] | Some s \<Rightarrow> [(jstr ''saturation_signal'', JStr s)])"

definition refusalInput :: "sidecar \<Rightarrow> jsstring \<Rightarrow> fail_extra \<Rightarrow> (jsstring \<times> rat option) list \<Rightarrow> refusal_input" where
  "refusalInput st reason extra timings =
     \<lparr>rf_raw_body = fe_raw_body extra, rf_reason_code = reason, rf_policy_hash = sd_policy_hash st,
      rf_policy_version = getProp (Some (sd_policy st)) ''policy_version'', rf_timings = timings, rf_request_id = None,
      rf_request_hash = fe_request_hash extra, rf_decision_hash = fe_decision_hash extra\<rparr>"

definition countReceiptRefusal :: "jsstring \<Rightarrow> decide_counters \<Rightarrow> decide_counters" where
  "countReceiptRefusal reason c =
     c\<lparr>dk_refused_overload := dk_refused_overload c + 1,
       dk_refused_receipt_queue_saturated := dk_refused_receipt_queue_saturated c +
         (if reason = jstr ''ERR_RECEIPT_QUEUE_SATURATED'' then 1 else 0),
       dk_receipt_refusals := dk_receipt_refusals c + 1\<rparr>"

definition leaveTry :: "nat \<Rightarrow> sidecar \<Rightarrow> sidecar" where
  "leaveTry slot st = st\<lparr>sd_inflight := sd_inflight st - 1, sd_admission := releaseRequest (sd_admission st) slot\<rparr>"

fun endContext :: "fail_context \<Rightarrow> sidecar \<Rightarrow> sidecar" where
  "endContext BeforeAdmission st = st"
| "endContext (Saturated slot) st = st\<lparr>sd_admission := releaseRequest (sd_admission st) slot\<rparr>"
| "endContext (InTry slot) st = leaveTry slot st"
| "endContext (InCatch slot) st = leaveTry slot st"

definition answer :: "nat \<Rightarrow> fail_context \<Rightarrow> decide_response \<Rightarrow> sidecar \<Rightarrow> sidecar" where
  "answer i ctx r st = setPhase i Finished (endContext ctx (respond i r st))"

text \<open>\<open>fail\<close> up to its answer or its first wait; \<open>None\<close> when it throws before.\<close>

definition failOnce ::
  "decide_config \<Rightarrow> host \<Rightarrow> (jsstring \<times> rat option) list \<Rightarrow> nat \<Rightarrow> fail_context \<Rightarrow> jsstring \<Rightarrow> int \<Rightarrow> fail_extra \<Rightarrow> sidecar \<Rightarrow> sidecar option" where
  "failOnce cfg h timings i ctx reason status extra st =
     (case buildSidecarRefusalReceipt h (refusalInput st reason extra timings) of
        None \<Rightarrow> None
      | Some receipt \<Rightarrow>
          (let response = (\<lambda>finalReason persisted. \<lparr>ds_status = status, ds_body = failBody finalReason persisted receipt extra\<rparr>)
           in case enqueue (dg_queue cfg) (sd_queue st) (JObj receipt) of
                (q, QueueThrew) \<Rightarrow> None
              | (q, QueueRefused r) \<Rightarrow>
                  Some (answer i ctx (response r False) (count (countReceiptRefusal r) (st\<lparr>sd_queue := q\<rparr>)))
              | (q, Queued promise bytes) \<Rightarrow>
                  (if strictAudit cfg
                   then Some (setPhase i (AwaitRefusal ctx promise (response reason True)) (st\<lparr>sd_queue := q\<rparr>))
                   else Some (answer i ctx (response reason True) (st\<lparr>sd_queue := q\<rparr>)))))"

text \<open>An exception that leaves the handler; a slot taken before the \<open>try\<close> stays taken.\<close>

fun escape :: "nat \<Rightarrow> fail_context \<Rightarrow> sidecar \<Rightarrow> sidecar" where
  "escape i BeforeAdmission st = setPhase i (Crashed None) st"
| "escape i (Saturated slot) st = setPhase i (Crashed (Some slot)) st"
| "escape i (InTry slot) st = setPhase i (Crashed None) (leaveTry slot st)"
| "escape i (InCatch slot) st = setPhase i (Crashed None) (leaveTry slot st)"

definition countCaught :: "jsstring \<Rightarrow> decide_counters \<Rightarrow> decide_counters" where
  "countCaught message c =
     c\<lparr>dk_flush_failures := dk_flush_failures c + (if jsStartsWith message (jstr ''ERR_RECEIPT_FLUSH_FAILED'') then 1 else 0),
       dk_request_timeout_refusals := dk_request_timeout_refusals c + (if message = jstr ''ERR_WORKER_TIMEOUT'' then 1 else 0)\<rparr>"

text \<open>The \<open>catch\<close> clause of the handler, for an exception with this message.\<close>

definition catchError ::
  "decide_config \<Rightarrow> host \<Rightarrow> (jsstring \<times> rat option) list \<Rightarrow> nat \<Rightarrow> nat \<Rightarrow> jsstring \<Rightarrow> sidecar \<Rightarrow> sidecar" where
  "catchError cfg h timings i slot message st =
     (let st1 = count (countCaught message) st
      in case failOnce cfg h timings i (InCatch slot) (workerReason message) 400 noExtra st1 of
           Some st2 \<Rightarrow> st2
         | None \<Rightarrow> escape i (InCatch slot) st1)"

fun throwIn ::
  "decide_config \<Rightarrow> host \<Rightarrow> (jsstring \<times> rat option) list \<Rightarrow> nat \<Rightarrow> fail_context \<Rightarrow> jsstring \<Rightarrow> sidecar \<Rightarrow> sidecar" where
  "throwIn cfg h timings i (InTry slot) message st = catchError cfg h timings i slot message st"
| "throwIn cfg h timings i ctx message st = escape i ctx st"

definition failIn ::
  "decide_config \<Rightarrow> host \<Rightarrow> jsstring \<Rightarrow> (jsstring \<times> rat option) list \<Rightarrow> nat \<Rightarrow> fail_context \<Rightarrow> jsstring \<Rightarrow> fail_extra \<Rightarrow> sidecar \<Rightarrow> sidecar" where
  "failIn cfg h thrown timings i ctx reason extra st =
     (case failOnce cfg h timings i ctx reason 200 extra st of
        Some st1 \<Rightarrow> st1
      | None \<Rightarrow> throwIn cfg h timings i ctx thrown st)"

text \<open>The \<open>durable\<close> promise that a pending \<open>fail\<close> awaits is settled.\<close>

definition refusalSettled ::
  "decide_config \<Rightarrow> host \<Rightarrow> jsstring \<Rightarrow> (jsstring \<times> rat option) list \<Rightarrow> nat \<Rightarrow> fail_context \<Rightarrow> decide_response \<Rightarrow> bool \<Rightarrow> sidecar \<Rightarrow> sidecar" where
  "refusalSettled cfg h thrown timings i ctx r resolved st =
     (if resolved then answer i ctx r st else throwIn cfg h timings i ctx thrown st)"

section \<open>The handler\<close>

record http_request =
  hr_socket :: nat
  hr_origin :: bool
  hr_custody_timeout :: bool

fun signalText :: "saturation_signal \<Rightarrow> jsstring" where
  "signalText InflightSignal = jstr ''inflight''"
| "signalText LagSignal = jstr ''event_loop_lag''"
| "signalText DepthSignal = jstr ''receipt_queue_depth''"
| "signalText BytesSignal = jstr ''receipt_queue_bytes''"

definition countSaturation :: "saturation_signal \<Rightarrow> decide_counters \<Rightarrow> decide_counters" where
  "countSaturation signal c =
     c\<lparr>dk_refused_overload := dk_refused_overload c + 1,
       dk_refused_system_saturated := dk_refused_system_saturated c + 1,
       dk_saturation_inflight := dk_saturation_inflight c + (if signal = InflightSignal then 1 else 0),
       dk_saturation_event_loop_lag := dk_saturation_event_loop_lag c + (if signal = LagSignal then 1 else 0),
       dk_saturation_receipt_queue_depth := dk_saturation_receipt_queue_depth c + (if signal = DepthSignal then 1 else 0),
       dk_saturation_receipt_queue_bytes := dk_saturation_receipt_queue_bytes c + (if signal = BytesSignal then 1 else 0)\<rparr>"

definition signalExtra :: "string \<Rightarrow> fail_extra" where
  "signalExtra s = noExtra\<lparr>fe_saturation_signal := Some (jstr s)\<rparr>"

text \<open>
  From the arrival of request \<open>i\<close> to its first wait. \<open>hr_custody_timeout\<close>: the test harness is enabled and the header asks for
  the refusal of a custody timeout.
\<close>

definition decideStart ::
  "decide_config \<Rightarrow> host \<Rightarrow> jsstring \<Rightarrow> (jsstring \<times> rat option) list \<Rightarrow> nat \<Rightarrow> http_request \<Rightarrow> sidecar \<Rightarrow> sidecar" where
  "decideStart cfg h thrown timings i req st =
     (let st0 = count (\<lambda>c. c\<lparr>dk_requests := dk_requests c + 1,
            dk_browser_origin_requests := dk_browser_origin_requests c + (if hr_origin req then 1 else 0)\<rparr>) st
      in if \<not> canAcceptDecisions (sd_watchdog st0)
         then failIn cfg h thrown timings i BeforeAdmission
                (if wd_fatal (sd_watchdog st0) then jstr ''ERR_RUNTIME_FATAL'' else jstr ''ERR_RUNTIME_DEGRADED'') noExtra
                (count (\<lambda>c. c\<lparr>dk_watchdog_interventions := dk_watchdog_interventions c + 1\<rparr>)
                  (st0\<lparr>sd_watchdog := markIntervention (sd_watchdog st0)\<rparr>))
         else
           (case noteSocketRequest (dg_limits cfg) (sd_admission st0) (hr_socket req) of
              (a, False) \<Rightarrow> failIn cfg h thrown timings i BeforeAdmission (jstr ''ERR_SIDECAR_SATURATED'') (signalExtra ''socket_request_limit'')
                (st0\<lparr>sd_admission := a\<rparr>)
            | (a, True) \<Rightarrow>
                (case tryAcquireRequest (dg_limits cfg) a of
                   (a1, None) \<Rightarrow> failIn cfg h thrown timings i BeforeAdmission (jstr ''ERR_SIDECAR_SATURATED'') (signalExtra ''active_requests'')
                     (st0\<lparr>sd_admission := a1\<rparr>)
                 | (a1, Some slot) \<Rightarrow>
                     (let st1 = st0\<lparr>sd_admission := a1\<rparr>; m = pq_metrics (sd_queue st1)
                      in case shouldRefuse (dg_saturation cfg) (sd_inflight st1) (sd_event_loop_lag st1) (qm_queue_depth m) (qm_queue_bytes m) of
                           Some signal \<Rightarrow> failIn cfg h thrown timings i (Saturated slot) (jstr ''ERR_SYSTEM_SATURATED'')
                             (noExtra\<lparr>fe_saturation_signal := Some (signalText signal)\<rparr>) (count (countSaturation signal) st1)
                         | None \<Rightarrow>
                             (let st2 = st1\<lparr>sd_inflight := sd_inflight st1 + 1\<rparr>
                              in if hr_custody_timeout req
                                 then failIn cfg h thrown timings i (InTry slot) (jstr ''ERR_CUSTODY_SIGNER_TIMEOUT'') noExtra st2
                                 else setPhase i (ReadingBody slot) st2)))))"

text \<open>The message of the exception that refuses a body: the reason of the parser in capitals, which has no \<open>ERR_\<close>.\<close>

fun parseMessage :: "parse_failure_reason \<Rightarrow> jsstring" where
  "parseMessage Invalid_json_syntax = jstr ''INVALID_JSON_SYNTAX''"
| "parseMessage Duplicate_json_keys = jstr ''DUPLICATE_JSON_KEYS''"
| "parseMessage Invalid_json_number = jstr ''INVALID_JSON_NUMBER''"

definition readStrictObject :: "jsstring \<Rightarrow> jsstring + jsobject" where
  "readStrictObject raw =
     (case parseStrictJson raw of
        ParseOk (JObj request) rest \<Rightarrow> Inr request
      | ParseOk v rest \<Rightarrow> Inl (jstr ''ERR_REQUEST_SCHEMA_INVALID'')
      | ParseFail r \<Rightarrow> Inl (parseMessage r)
      | ParseStarved \<Rightarrow> Inl (parseMessage Invalid_json_syntax))"

definition countPoolRefusal :: "jsstring \<Rightarrow> decide_counters \<Rightarrow> decide_counters" where
  "countPoolRefusal reason c =
     (let c1 = c\<lparr>dk_refused_overload := dk_refused_overload c + 1, dk_admission_refusals := dk_admission_refusals c + 1\<rparr>
      in if reason = jstr ''ERR_WORKER_POOL_SATURATED''
         then c1\<lparr>dk_refused_worker_pool_saturated := dk_refused_worker_pool_saturated c1 + 1,
                 dk_worker_refusals := dk_worker_refusals c1 + 1\<rparr>
         else c1)"

text \<open>The body is read (\<open>Inl\<close>: reading failed with this message).\<close>

definition decideBody ::
  "decide_config \<Rightarrow> host \<Rightarrow> jsstring \<Rightarrow> (jsstring \<times> rat option) list \<Rightarrow> nat \<Rightarrow> nat \<Rightarrow> jsstring + jsstring \<Rightarrow> sidecar \<Rightarrow> sidecar" where
  "decideBody cfg h thrown timings i slot body st =
     (case body of
        Inl message \<Rightarrow> catchError cfg h timings i slot message st
      | Inr raw \<Rightarrow>
          (case readStrictObject raw of
             Inl message \<Rightarrow> catchError cfg h timings i slot message st
           | Inr request \<Rightarrow>
               (case canonicalizeJson (JObj (createRuntimeInput request (sd_policy st))) of
                  None \<Rightarrow> catchError cfg h timings i slot thrown st
                | Some rawInput \<Rightarrow>
                    (case submit (dg_pool cfg) (sd_pool st) rawInput of
                       (p, SubmitRefused reason) \<Rightarrow>
                         failIn cfg h thrown timings i (InTry slot) reason
                           (noExtra\<lparr>fe_raw_body := raw, fe_saturation_signal := Some (jstr ''worker_pool_queue'')\<rparr>)
                           (count (countPoolRefusal reason) (st\<lparr>sd_pool := p\<rparr>))
                     | (p, Submitted task) \<Rightarrow>
                         setPhase i (AwaitWorker slot task raw)
                           (st\<lparr>sd_pool := p, sd_tasks := sd_tasks st @ [(task, rawInput)]\<rparr>)))))"

definition unsignedAllow :: "signed_receipt \<Rightarrow> bool" where
  "unsignedAllow receipt \<longleftrightarrow> do_decision (rp_decision_output (sr_payload receipt)) = Allow \<and>
     falsy (getProp (Some (JObj (receiptFields receipt))) ''signature'') \<and>
     falsy (getProp (Some (JObj (receiptFields receipt))) ''verifiable_signature'')"

definition apiResponseFromReceipt :: "bool \<Rightarrow> signed_receipt \<Rightarrow> jsobject" where
  "apiResponseFromReceipt inlineRefusals receipt =
     (let d = rp_decision_output (sr_payload receipt)
      in [(jstr ''schema_version'', JStr (jstr ''mnde.api.response.v1'')),
          (jstr ''decision'', JStr (decisionText (do_decision d))), (jstr ''reason_code'', JStr (reasonText (do_reason_code d))),
          (jstr ''request_hash'', JStr (do_request_hash d)), (jstr ''decision_hash'', JStr (do_decision_hash d)),
          (jstr ''total_cost_usd'', JStr (do_total_cost_usd d)), (jstr ''allowed_cost_usd'', JStr (do_allowed_cost_usd d)),
          (jstr ''prevented_cost_usd'', JStr (do_prevented_cost_usd d)),
          (jstr ''policy_version'', JStr (do_policy_version d)), (jstr ''policy_hash'', JStr (do_policy_hash d)),
          (if do_decision d = Allow \<or> inlineRefusals then (jstr ''receipt'', JObj (receiptFields receipt))
           else (jstr ''receipt_persisted'', JBool True))])"

definition answerReceipt :: "decide_config \<Rightarrow> nat \<Rightarrow> nat \<Rightarrow> signed_receipt \<Rightarrow> sidecar \<Rightarrow> sidecar" where
  "answerReceipt cfg i slot receipt st =
     answer i (InTry slot) \<lparr>ds_status = 200, ds_body = apiResponseFromReceipt (dg_inline_refusals cfg) receipt\<rparr> st"

text \<open>The worker has answered the task.\<close>

definition decideReply ::
  "decide_config \<Rightarrow> host \<Rightarrow> jsstring \<Rightarrow> (jsstring \<times> rat option) list \<Rightarrow> nat \<Rightarrow> nat \<Rightarrow> jsstring \<Rightarrow> worker_result pool_reply \<Rightarrow> sidecar \<Rightarrow> sidecar" where
  "decideReply cfg h thrown timings i slot raw reply st =
     (let withRaw = noExtra\<lparr>fe_raw_body := raw\<rparr>
      in case reply of
           Rejected reason \<Rightarrow>
             failIn cfg h thrown timings i (InTry slot) reason withRaw (count (\<lambda>c. c\<lparr>dk_worker_refusals := dk_worker_refusals c + 1\<rparr>) st)
         | Answered (Inl failure) \<Rightarrow>
             failIn cfg h thrown timings i (InTry slot) (reasonText (tf_reason_code failure))
               (withRaw\<lparr>fe_request_hash := Some (tf_request_hash failure), fe_decision_hash := Some (tf_decision_hash failure)\<rparr>) st
         | Answered (Inr result) \<Rightarrow>
             (let receipt = xr_receipt result; payload = sr_payload receipt
              in if unsignedAllow receipt
                 then failIn cfg h thrown timings i (InTry slot) (jstr ''ERR_RECEIPT_SIGNATURE_INVALID'') withRaw
                        (count (\<lambda>c. c\<lparr>dk_unsigned_allows_blocked := dk_unsigned_allows_blocked c + 1\<rparr>) st)
                 else
                   (case enqueue (dg_queue cfg) (sd_queue st) (JObj (receiptFields receipt)) of
                      (q, QueueThrew) \<Rightarrow> catchError cfg h timings i slot thrown (st\<lparr>sd_queue := q\<rparr>)
                    | (q, QueueRefused r) \<Rightarrow>
                        failIn cfg h thrown timings i (InTry slot) r
                          (withRaw\<lparr>fe_request_hash := Some (rp_request_hash payload),
                             fe_decision_hash := Some (do_decision_hash (rp_decision_output payload))\<rparr>)
                          (count (countReceiptRefusal r) (st\<lparr>sd_queue := q\<rparr>))
                    | (q, Queued promise bytes) \<Rightarrow>
                        (if strictAudit cfg then setPhase i (AwaitDurable slot promise receipt) (st\<lparr>sd_queue := q\<rparr>)
                         else answerReceipt cfg i slot receipt (st\<lparr>sd_queue := q\<rparr>)))))"

text \<open>The promise of the receipt is settled.\<close>

definition decideDurable ::
  "decide_config \<Rightarrow> host \<Rightarrow> jsstring \<Rightarrow> (jsstring \<times> rat option) list \<Rightarrow> nat \<Rightarrow> nat \<Rightarrow> signed_receipt \<Rightarrow> bool \<Rightarrow> sidecar \<Rightarrow> sidecar" where
  "decideDurable cfg h thrown timings i slot receipt resolved st =
     (if resolved then answerReceipt cfg i slot receipt st else catchError cfg h timings i slot thrown st)"

end
