(* ===== verification/DecideProps.thy ===== *)
theory DecideProps
  imports DecideHandler
begin

text \<open>
  The decision handlers of a sidecar, interleaved with each other and with everything else the process does: the receipt queue and
  the worker pool take their own steps, the watchdog ticks, sockets come and go and the policy is replaced. Over the
  reachable states: an answer that allows carries a receipt the pipeline issued for a request under an active policy, and the
  receipt is in the log; and the slots and the count of requests in flight are exactly what the handlers hold.
\<close>

section \<open>Steps\<close>

definition messageOf :: "jsstring + worker_result \<Rightarrow> jsstring option + worker_result" where
  "messageOf outcome = (case outcome of Inl reason \<Rightarrow> Inl (Some reason) | Inr result \<Rightarrow> Inr result)"

text \<open>What the pool does on its own; a worker answers the task it was posted. The replay route submits tasks as well.\<close>

inductive pool_event :: "pool_config \<Rightarrow> host \<Rightarrow> worker_result worker_pool \<Rightarrow> worker_result worker_pool \<Rightarrow> bool" for cfg h where
  WorkerAnswers: "ref < length (wp_heap p) \<Longrightarrow> (ref', task, raw) \<in> set (wp_posted p) \<Longrightarrow>
    pool_event cfg h p (handleMessage p ref (WorkerMessage (Some task) (messageOf (snd (workerMessage h thrown ws raw)))))"
| WorkerStart: "\<not> wp_closed p \<Longrightarrow> pool_event cfg h p (startPool cfg p)"
| WorkerFails: "ref < length (wp_heap p) \<Longrightarrow> pool_event cfg h p (handleWorkerFailure p ref)"
| WorkerExits: "ref < length (wp_heap p) \<Longrightarrow> pool_event cfg h p (handleWorkerExit p ref code)"
| TaskTimesOut: "ref < length (wp_heap p) \<Longrightarrow> pool_event cfg h p (handleTaskTimeout p ref task)"
| PoolCloses: "pool_event cfg h p (shutdownPool p)"

inductive sidecar_step :: "decide_config \<Rightarrow> host \<Rightarrow> json set \<Rightarrow> sidecar \<Rightarrow> sidecar \<Rightarrow> bool" for cfg h policies where
  Arrives: "sidecar_step cfg h policies st
    (decideStart cfg h thrown timings (length (sd_requests st)) req (st\<lparr>sd_requests := sd_requests st @ [Finished]\<rparr>))"
| BodyRead: "i < length (sd_requests st) \<Longrightarrow> sd_requests st ! i = ReadingBody slot \<Longrightarrow>
    sidecar_step cfg h policies st (decideBody cfg h thrown timings i slot body st)"
| Replied: "i < length (sd_requests st) \<Longrightarrow> sd_requests st ! i = AwaitWorker slot task raw \<Longrightarrow>
    (task, reply) \<in> set (wp_replies (sd_pool st)) \<Longrightarrow>
    sidecar_step cfg h policies st (decideReply cfg h thrown timings i slot raw reply st)"
| Settled: "i < length (sd_requests st) \<Longrightarrow> sd_requests st ! i = AwaitDurable slot promise receipt \<Longrightarrow>
    (promise, resolved) \<in> set (pq_settled (sd_queue st)) \<Longrightarrow>
    sidecar_step cfg h policies st (decideDurable cfg h thrown timings i slot receipt resolved st)"
| RefusalSettled: "i < length (sd_requests st) \<Longrightarrow> sd_requests st ! i = AwaitRefusal ctx promise r \<Longrightarrow>
    (promise, resolved) \<in> set (pq_settled (sd_queue st)) \<Longrightarrow>
    sidecar_step cfg h policies st (refusalSettled cfg h thrown timings i ctx r resolved st)"
| QueueSteps: "queue_step (dg_queue cfg) (sd_queue st) q \<Longrightarrow> sidecar_step cfg h policies st (st\<lparr>sd_queue := q\<rparr>)"
| PoolSteps: "pool_event (dg_pool cfg) h (sd_pool st) p \<Longrightarrow> sidecar_step cfg h policies st (st\<lparr>sd_pool := p\<rparr>)"
| OtherTask: "submit (dg_pool cfg) (sd_pool st) rawInput = (p, Submitted task) \<Longrightarrow>
    sidecar_step cfg h policies st (st\<lparr>sd_pool := p, sd_tasks := sd_tasks st @ [(task, rawInput)]\<rparr>)"
| WatchdogSteps: "sidecar_step cfg h policies st (st\<lparr>sd_watchdog := w, sd_event_loop_lag := lag\<rparr>)"
| SocketOpens: "sidecar_step cfg h policies st (st\<lparr>sd_admission := fst (tryAcquireSocket (dg_limits cfg) (sd_admission st))\<rparr>)"
| SocketCloses: "sidecar_step cfg h policies st (st\<lparr>sd_admission := releaseSocket (sd_admission st) k\<rparr>)"
| PolicyChanges: "p \<in> policies \<Longrightarrow> sidecar_step cfg h policies st (st\<lparr>sd_policy := p, sd_policy_hash := ph\<rparr>)"

definition startSidecar :: "admission \<Rightarrow> json \<Rightarrow> jsstring \<Rightarrow> rat \<Rightarrow> sidecar" where
  "startSidecar a p ph now =
     \<lparr>sd_watchdog = newWatchdog now, sd_admission = a, sd_queue = startQueue newQueue, sd_pool = newPool, sd_inflight = 0,
      sd_event_loop_lag = 0, sd_policy = p, sd_policy_hash = ph,
      sd_counters = \<lparr>dk_requests = 0, dk_refused_overload = 0, dk_flush_failures = 0, dk_unsigned_allows_blocked = 0,
        dk_refused_system_saturated = 0, dk_refused_worker_pool_saturated = 0, dk_refused_receipt_queue_saturated = 0,
        dk_admission_refusals = 0, dk_worker_refusals = 0, dk_receipt_refusals = 0, dk_saturation_inflight = 0,
        dk_saturation_event_loop_lag = 0, dk_saturation_receipt_queue_depth = 0, dk_saturation_receipt_queue_bytes = 0,
        dk_request_timeout_refusals = 0, dk_browser_origin_requests = 0, dk_watchdog_interventions = 0\<rparr>,
      sd_requests = [], sd_tasks = [], sd_responses = []\<rparr>"

inductive sidecar_reachable :: "decide_config \<Rightarrow> host \<Rightarrow> json set \<Rightarrow> sidecar \<Rightarrow> bool" for cfg h policies where
  Starts: "createAdmissionController a b c = Inr (dg_limits cfg, adm) \<Longrightarrow> p \<in> policies \<Longrightarrow>
    sidecar_reachable cfg h policies (startSidecar adm p ph now)"
| Steps: "sidecar_reachable cfg h policies st \<Longrightarrow> sidecar_step cfg h policies st st' \<Longrightarrow> sidecar_reachable cfg h policies st'"

section \<open>The queue only grows\<close>

definition grown :: "queue_config \<Rightarrow> receipt_queue \<Rightarrow> receipt_queue \<Rightarrow> bool" where
  "grown cfg q q' \<longleftrightarrow> (queue_reachable cfg q \<longrightarrow> queue_reachable cfg q') \<and>
     (\<exists>more. pq_log q' = pq_log q @ more) \<and> (\<exists>more. pq_settled q' = pq_settled q @ more)"

lemma grown_refl: "grown cfg q q" by (simp add: grown_def)

lemma grown_trans: "grown cfg q q1 \<Longrightarrow> grown cfg q1 q2 \<Longrightarrow> grown cfg q q2"
  by (auto simp: grown_def)

lemma flush_grows: "pq_log (flush cfg q) = pq_log q" "pq_settled (flush cfg q) = pq_settled q"
  by (simp_all add: flush_def Let_def)

lemma enqueue_grows:
  assumes "enqueue cfg q v = (q', a)"
  shows "(\<exists>more. pq_log q' = pq_log q @ more) \<and> pq_settled q' = pq_settled q"
  using assms by (auto simp: enqueue_def Let_def flush_grows split: if_splits option.splits)

lemma queue_step_grows: "queue_step cfg q q' \<Longrightarrow> grown cfg q q'"
proof -
  assume step: "queue_step cfg q q'"
  from step have "(\<exists>more. pq_log q' = pq_log q @ more) \<and> (\<exists>more. pq_settled q' = pq_settled q @ more)"
    by (cases rule: queue_step.cases)
      (auto simp: startQueue_def flush_grows appendDone_def appendFailed_def flushFinally_def beginShutdown_def shutdownPoll_def
        Let_def dest: enqueue_grows)
  with step show ?thesis by (auto simp: grown_def intro: queue_reachable.Step)
qed

lemma enqueue_grown: "enqueue cfg q v = (q', a) \<Longrightarrow> grown cfg q q'"
  by (intro queue_step_grows) (rule queue_step.Enqueue)

definition loggedLine :: "receipt_queue \<Rightarrow> nat \<Rightarrow> json \<Rightarrow> bool" where
  "loggedLine q promise v \<longleftrightarrow>
     promise < length (pq_log q) \<and> (\<exists>t. canonicalizeJson v = Some t \<and> pq_log q ! promise = t @ [10])"

lemma enqueue_logged: "enqueue cfg q v = (q', Queued promise bytes) \<Longrightarrow> loggedLine q' promise v"
  by (auto simp: enqueue_def loggedLine_def Let_def flush_grows split: if_splits option.splits)

lemma grown_logged: "grown cfg q q' \<Longrightarrow> loggedLine q promise v \<Longrightarrow> loggedLine q' promise v"
  by (auto simp: grown_def loggedLine_def nth_append)

section \<open>Answers are answers to their task\<close>

definition workerResult :: "host \<Rightarrow> jsstring \<Rightarrow> worker_result option" where
  "workerResult h raw = snd (executeDeterministicPipeline h initialState raw)"

lemma workerMessage_result: "snd (workerMessage h thrown ws raw) = Inr x \<Longrightarrow> workerResult h raw = Some x"
  by (auto simp: workerMessage_def workerResult_def resetRuntimeState_initial split: prod.splits option.splits)

text \<open>Every task in the pool is one of the recorded tasks, and an answer to a task is the result of its text.\<close>

definition tasksKnown :: "(nat \<times> jsstring) set \<Rightarrow> worker_result worker_pool \<Rightarrow> bool" where
  "tasksKnown tasks p \<longleftrightarrow>
     (\<forall>t \<in> set (wp_queue p). (pt_id t, pt_raw_input t) \<in> tasks) \<and>
     (\<forall>w \<in> set (wp_heap p). \<forall>t. pw_active w = Some t \<longrightarrow> (pt_id t, pt_raw_input t) \<in> tasks) \<and>
     (\<forall>(ref, task, raw) \<in> set (wp_posted p). (task, raw) \<in> tasks)"

definition answersTrue :: "host \<Rightarrow> (nat \<times> jsstring) set \<Rightarrow> worker_result worker_pool \<Rightarrow> bool" where
  "answersTrue h tasks p \<longleftrightarrow>
     (\<forall>task x. (task, Answered x) \<in> set (wp_replies p) \<longrightarrow> (\<exists>raw. (task, raw) \<in> tasks \<and> workerResult h raw = Some x))"

lemma dispatchLoop_known:
  assumes "dispatchLoop idle queue heap posted = (idle', queue', heap', posted')"
    and "\<forall>t \<in> set queue. (pt_id t, pt_raw_input t) \<in> tasks"
    and "\<forall>w \<in> set heap. \<forall>t. pw_active w = Some t \<longrightarrow> (pt_id t, pt_raw_input t) \<in> tasks"
    and "\<forall>(ref, task, raw) \<in> set posted. (task, raw) \<in> tasks"
  shows "(\<forall>t \<in> set queue'. (pt_id t, pt_raw_input t) \<in> tasks) \<and>
    (\<forall>w \<in> set heap'. \<forall>t. pw_active w = Some t \<longrightarrow> (pt_id t, pt_raw_input t) \<in> tasks) \<and>
    (\<forall>(ref, task, raw) \<in> set posted'. (task, raw) \<in> tasks)"
  using assms
proof (induction idle queue heap posted rule: dispatchLoop.induct)
  case (1 r idle t queue heap posted)
  show ?case
  proof (rule 1(1))
    show "dispatchLoop idle queue (heap[r := (heap ! r)\<lparr>pw_busy := True, pw_active := Some t\<rparr>])
      (posted @ [(r, pt_id t, pt_raw_input t)]) = (idle', queue', heap', posted')" using 1(2) by simp
    show "\<forall>t \<in> set queue. (pt_id t, pt_raw_input t) \<in> tasks" using 1(3) by simp
    show "\<forall>w \<in> set (heap[r := (heap ! r)\<lparr>pw_busy := True, pw_active := Some t\<rparr>]).
        \<forall>t. pw_active w = Some t \<longrightarrow> (pt_id t, pt_raw_input t) \<in> tasks"
      using 1(3,4) set_update_subset_insert [of heap r] by fastforce
    show "\<forall>(ref, task, raw) \<in> set (posted @ [(r, pt_id t, pt_raw_input t)]). (task, raw) \<in> tasks" using 1(3,5) by auto
  qed
qed auto

lemma dispatch_known: "tasksKnown tasks p \<Longrightarrow> tasksKnown tasks (dispatch p)"
  using dispatchLoop_known [of "wp_idle p" "wp_queue p" "wp_heap p" "wp_posted p" _ _ _ _ tasks]
  by (auto simp: dispatch_def tasksKnown_def syncPoolDepth_def split: prod.splits)

lemma tasksKnown_heap:
  assumes "tasksKnown tasks p" "wp_heap p' = (wp_heap p)[ref := w]" "pw_active w = None \<or> pw_active w = pw_active (wp_heap p ! ref)"
    and "wp_queue p' = wp_queue p" "wp_posted p' = wp_posted p" "ref < length (wp_heap p)"
  shows "tasksKnown tasks p'"
proof -
  have "wp_heap p ! ref \<in> set (wp_heap p)" using assms(6) by simp
  then have new: "pw_active w = Some t \<Longrightarrow> (pt_id t, pt_raw_input t) \<in> tasks" for t
    using assms(1,3) unfolding tasksKnown_def by auto
  have "u = w \<or> u \<in> set (wp_heap p)" if "u \<in> set (wp_heap p')" for u
    using that set_update_subset_insert [of "wp_heap p" ref w] unfolding assms(2) by blast
  with new have "\<forall>u \<in> set (wp_heap p'). \<forall>t. pw_active u = Some t \<longrightarrow> (pt_id t, pt_raw_input t) \<in> tasks"
    using assms(1) unfolding tasksKnown_def by blast
  then show ?thesis using assms(1) unfolding tasksKnown_def assms(4,5) by blast
qed

lemma startPool_known: "tasksKnown tasks p \<Longrightarrow> tasksKnown tasks (startPool cfg p)"
  by (auto simp: tasksKnown_def startPool_def Let_def newWorker_def)

lemma replaceWorker_known:
  assumes "tasksKnown tasks p" "ref < length (wp_heap p)"
  shows "tasksKnown tasks (replaceWorker p ref)"
proof (cases "wp_closed p \<or> pw_replacing (wp_heap p ! ref)")
  case False
  have "tasksKnown tasks (setWorker ref ((wp_heap p ! ref)\<lparr>pw_replacing := True\<rparr>) p)"
    by (rule tasksKnown_heap [OF assms(1), where ref = ref and w = "(wp_heap p ! ref)\<lparr>pw_replacing := True\<rparr>"])
      (simp_all add: setWorker_def assms(2))
  with False show ?thesis by (auto simp: tasksKnown_def replaceWorker_def Let_def setWorker_def newWorker_def)
qed (use assms(1) in \<open>simp add: replaceWorker_def Let_def\<close>)

lemma failActive_known:
  assumes "tasksKnown tasks p" "ref < length (wp_heap p)"
  shows "tasksKnown tasks (failActive reason ref p)"
  by (rule tasksKnown_heap [OF assms(1), where ref = ref and
        w = "(wp_heap p ! ref)\<lparr>pw_failed := pw_failed (wp_heap p ! ref) + 1, pw_busy := False, pw_active := None\<rparr>"])
    (simp_all add: failActive_def Let_def setWorker_def assms(2))

lemma tasksKnown_frame:
  "wp_queue p' = wp_queue p \<Longrightarrow> wp_heap p' = wp_heap p \<Longrightarrow> wp_posted p' = wp_posted p \<Longrightarrow> tasksKnown tasks p \<Longrightarrow> tasksKnown tasks p'"
  by (simp add: tasksKnown_def)

lemma failActive_length: "length (wp_heap (failActive reason ref p)) = length (wp_heap p)"
  by (simp add: failActive_def setWorker_def Let_def)

lemma failed_known:
  assumes "tasksKnown tasks p" "ref < length (wp_heap p)"
    and "wp_queue p' = wp_queue (failActive reason ref p)" "wp_heap p' = wp_heap (failActive reason ref p)"
    "wp_posted p' = wp_posted (failActive reason ref p)"
  shows "tasksKnown tasks (dispatch (replaceWorker p' ref))"
proof -
  have "tasksKnown tasks p'" by (rule tasksKnown_frame [OF assms(3-5) failActive_known [OF assms(1,2)]])
  then show ?thesis using assms(2,4) by (intro dispatch_known replaceWorker_known) (simp_all add: failActive_length)
qed

lemma pool_event_known:
  assumes "pool_event cfg h p p'" "tasksKnown tasks p"
  shows "tasksKnown tasks p'"
  using assms
proof (induction rule: pool_event.induct)
  case (WorkerAnswers ref p ref' task raw thrown ws)
  have "tasksKnown tasks (dispatch (q\<lparr>wp_idle := idle\<rparr>))" "tasksKnown tasks (dispatch q)"
    if "wp_heap q = (wp_heap p)[ref := w]" "pw_active w = None" "wp_queue q = wp_queue p" "wp_posted q = wp_posted p" for q w idle
  proof -
    have "tasksKnown tasks q" by (rule tasksKnown_heap [OF WorkerAnswers(3) that(1) _ that(3,4) WorkerAnswers(1)]) (simp add: that(2))
    then show "tasksKnown tasks (dispatch (q\<lparr>wp_idle := idle\<rparr>))" "tasksKnown tasks (dispatch q)"
      by (auto intro!: dispatch_known intro: tasksKnown_frame)
  qed
  moreover have "tasksKnown tasks (p\<lparr>wp_failed := n\<rparr>)" for n using WorkerAnswers(3) by (simp add: tasksKnown_def)
  ultimately show ?case
    by (auto simp: handleMessage_def Let_def setWorker_def split: option.splits)
next
  case (WorkerFails ref p)
  then show ?case by (auto simp: handleWorkerFailure_def Let_def intro!: failed_known)
next
  case (WorkerExits ref p code)
  then show ?case by (auto simp: handleWorkerExit_def handleWorkerFailure_def Let_def intro!: failed_known)
next
  case (TaskTimesOut ref p task)
  then show ?case by (auto simp: handleTaskTimeout_def Let_def split: option.split intro!: failed_known)
next
  case (PoolCloses p)
  then show ?case by (simp add: shutdownPool_def syncPoolDepth_def tasksKnown_def)
qed (rule startPool_known)

lemma submit_known:
  assumes "submit cfg p raw = (p', a)" "tasksKnown tasks p"
  shows "tasksKnown (tasks \<union> {(t, raw) | t. a = Submitted t}) p'"
proof -
  let ?tasks = "tasks \<union> {(t, raw) | t. a = Submitted t}"
  have start: "tasksKnown ?tasks (startPool cfg p)"
    using startPool_known [OF assms(2), of cfg] by (auto simp: tasksKnown_def)
  show ?thesis
  proof (cases "\<exists>t. a = Submitted t")
    case True
    then obtain t where t: "a = Submitted t" by blast
    let ?task = "\<lparr>pt_id = wp_next_task (startPool cfg p), pt_raw_input = raw\<rparr>"
    from assms(1) t have p': "p' = dispatch (syncPoolDepth ((startPool cfg p)\<lparr>wp_next_task := wp_next_task (startPool cfg p) + 1,
        wp_submitted := wp_submitted (startPool cfg p) + 1, wp_queue := wp_queue (startPool cfg p) @ [?task]\<rparr>))"
      and id: "t = wp_next_task (startPool cfg p)"
      by (auto simp: submit_def Let_def split: if_splits)
    show ?thesis unfolding p'
      by (rule dispatch_known) (use start in \<open>auto simp: tasksKnown_def syncPoolDepth_def t id\<close>)
  next
    case False
    with assms start show ?thesis by (cases a) (auto simp: submit_def Let_def tasksKnown_def split: if_splits)
  qed
qed

lemma startPool_same [simp]:
  "wp_next_task (startPool cfg p) = wp_next_task p" "wp_replies (startPool cfg p) = wp_replies p"
  by (simp_all add: startPool_def Let_def)

lemma failActive_same:
  "wp_next_task (failActive reason ref p) = wp_next_task p"
  "(t, Answered x) \<in> set (wp_replies (failActive reason ref p)) \<longleftrightarrow> (t, Answered x) \<in> set (wp_replies p)"
  by (auto simp: failActive_def setWorker_def Let_def split: option.splits)

lemma pool_event_next: "pool_event cfg h p p' \<Longrightarrow> wp_next_task p' = wp_next_task p"
  by (induction rule: pool_event.induct)
    (auto simp: handleMessage_def handleWorkerFailure_def handleWorkerExit_def handleTaskTimeout_def shutdownPool_def setWorker_def
      failActive_same Let_def split: option.split)

lemma pool_event_answers:
  assumes "pool_event cfg h p p'" "tasksKnown tasks p" "answersTrue h tasks p"
  shows "answersTrue h tasks p'"
  using assms
proof (induction rule: pool_event.induct)
  case (WorkerAnswers ref p ref' task raw thrown ws)
  have raw: "(task, raw) \<in> tasks" using WorkerAnswers(2,3) unfolding tasksKnown_def by auto
  have "(t, Answered x) \<in> set (wp_replies p) \<or> t = task \<and> workerResult h raw = Some x"
    if "(t, Answered x) \<in> set (wp_replies (handleMessage p ref (WorkerMessage (Some task) (messageOf (snd (workerMessage h thrown ws raw))))))" for t x
    using that workerMessage_result [of h thrown ws raw]
    by (auto simp: handleMessage_def messageOf_def setWorker_def Let_def split: option.splits sum.splits if_splits)
  with raw WorkerAnswers(4) show ?case unfolding answersTrue_def by blast
qed (auto simp: answersTrue_def handleWorkerFailure_def handleWorkerExit_def handleTaskTimeout_def shutdownPool_def failActive_same Let_def
    split: option.splits)

lemma submit_same:
  "submit cfg p raw = (p', a) \<Longrightarrow> wp_replies p' = wp_replies p"
  "submit cfg p raw = (p', Submitted t) \<Longrightarrow> t = wp_next_task p \<and> wp_next_task p' = wp_next_task p + 1"
  "submit cfg p raw = (p', SubmitRefused r) \<Longrightarrow> wp_next_task p' = wp_next_task p"
  by (auto simp: submit_def Let_def split: if_splits)

section \<open>Refusals are quiet\<close>

text \<open>An answer that does not allow, and a phase that cannot lead to one that does.\<close>

definition refuses :: "decide_response \<Rightarrow> bool" where
  "refuses r \<longleftrightarrow> getProp (Some (JObj (ds_body r))) ''decision'' = Some (JStr (jstr ''REFUSE''))"

fun quietPhase :: "decide_phase \<Rightarrow> bool" where
  "quietPhase Finished = True"
| "quietPhase (Crashed s) = True"
| "quietPhase (AwaitRefusal ctx promise r) = refuses r"
| "quietPhase _ = False"

text \<open>All a refusal of request \<open>i\<close> may do.\<close>

definition quiet :: "decide_config \<Rightarrow> nat \<Rightarrow> sidecar \<Rightarrow> sidecar \<Rightarrow> bool" where
  "quiet cfg i st st' \<longleftrightarrow> sd_pool st' = sd_pool st \<and> sd_tasks st' = sd_tasks st \<and> sd_policy st' = sd_policy st \<and>
     grown (dg_queue cfg) (sd_queue st) (sd_queue st') \<and>
     (\<exists>more. sd_responses st' = sd_responses st @ more \<and> (\<forall>(j, r) \<in> set more. refuses r)) \<and>
     (\<exists>p. quietPhase p \<and> sd_requests st' = (sd_requests st)[i := p])"

lemma failBody_refuses: "refuses \<lparr>ds_status = s, ds_body = failBody r p receipt extra\<rparr>"
  by (simp add: refuses_def failBody_def getProp_def)

lemma leaveTry_simps [simp]:
  "sd_pool (leaveTry k st) = sd_pool st" "sd_tasks (leaveTry k st) = sd_tasks st" "sd_policy (leaveTry k st) = sd_policy st"
  "sd_queue (leaveTry k st) = sd_queue st" "sd_responses (leaveTry k st) = sd_responses st" "sd_requests (leaveTry k st) = sd_requests st"
  by (simp_all add: leaveTry_def)

lemma endContext_simps [simp]:
  "sd_pool (endContext ctx st) = sd_pool st" "sd_tasks (endContext ctx st) = sd_tasks st" "sd_policy (endContext ctx st) = sd_policy st"
  "sd_queue (endContext ctx st) = sd_queue st" "sd_responses (endContext ctx st) = sd_responses st"
  "sd_requests (endContext ctx st) = sd_requests st"
  by (cases ctx; simp)+

lemma count_simps [simp]:
  "sd_pool (count f st) = sd_pool st" "sd_tasks (count f st) = sd_tasks st" "sd_policy (count f st) = sd_policy st"
  "sd_queue (count f st) = sd_queue st" "sd_responses (count f st) = sd_responses st" "sd_requests (count f st) = sd_requests st"
  "sd_admission (count f st) = sd_admission st" "sd_inflight (count f st) = sd_inflight st" "sd_watchdog (count f st) = sd_watchdog st"
  "sd_event_loop_lag (count f st) = sd_event_loop_lag st"
  by (simp_all add: count_def)

lemmas handler_defs = answer_def setPhase_def respond_def

lemma answer_simps [simp]:
  "sd_pool (answer i ctx r st) = sd_pool st" "sd_tasks (answer i ctx r st) = sd_tasks st" "sd_policy (answer i ctx r st) = sd_policy st"
  "sd_queue (answer i ctx r st) = sd_queue st" "sd_responses (answer i ctx r st) = sd_responses st @ [(i, r)]"
  "sd_requests (answer i ctx r st) = (sd_requests st)[i := Finished]"
  by (simp_all add: handler_defs)

text \<open>A step inside the handler that answers nothing.\<close>

definition silent :: "decide_config \<Rightarrow> sidecar \<Rightarrow> sidecar \<Rightarrow> bool" where
  "silent cfg st st' \<longleftrightarrow> sd_pool st' = sd_pool st \<and> sd_tasks st' = sd_tasks st \<and> sd_policy st' = sd_policy st \<and>
     grown (dg_queue cfg) (sd_queue st) (sd_queue st') \<and> sd_responses st' = sd_responses st \<and> sd_requests st' = sd_requests st"

lemma silent_refl [simp]: "silent cfg st st" by (simp add: silent_def grown_refl)

lemma silent_count [simp]: "silent cfg st (count f st') = silent cfg st st'" by (simp add: silent_def)

lemma silent_leaveTry [simp]: "silent cfg st (leaveTry slot st') = silent cfg st st'" by (simp add: silent_def)

lemma silent_queue: "grown (dg_queue cfg) (sd_queue st) q \<Longrightarrow> silent cfg st (st\<lparr>sd_queue := q\<rparr>)"
  by (simp add: silent_def)

lemma quiet_phase: "silent cfg st st' \<Longrightarrow> quietPhase p \<Longrightarrow> quiet cfg i st (setPhase i p st')"
  by (auto simp: quiet_def silent_def setPhase_def)

lemma quiet_answer: "silent cfg st st' \<Longrightarrow> refuses r \<Longrightarrow> quiet cfg i st (answer i ctx r st')"
  by (auto simp: quiet_def silent_def intro!: exI [of _ Finished])

lemma quiet_silent: "silent cfg st st1 \<Longrightarrow> quiet cfg i st1 st2 \<Longrightarrow> quiet cfg i st st2"
  by (auto simp: quiet_def silent_def intro: grown_trans)

lemma failOnce_quiet:
  assumes "failOnce cfg h timings i ctx reason status extra st = Some st'"
  shows "quiet cfg i st st'"
proof -
  from assms obtain receipt q a where receipt: "buildSidecarRefusalReceipt h (refusalInput st reason extra timings) = Some receipt"
    and q: "enqueue (dg_queue cfg) (sd_queue st) (JObj receipt) = (q, a)"
    by (auto simp: failOnce_def split: option.splits prod.splits)
  note queue = silent_queue [OF enqueue_grown [OF q]]
  from assms queue show ?thesis
    by (auto simp: failOnce_def receipt q Let_def failBody_refuses split: enqueue_answer.splits if_splits
        intro!: quiet_phase quiet_answer)
qed

lemma escape_quiet: "quiet cfg i st (escape i ctx st)"
  by (cases ctx) (auto intro!: quiet_phase)

lemma catchError_quiet: "quiet cfg i st (catchError cfg h timings i slot message st)"
proof -
  have "silent cfg st (count (countCaught message) st)" by simp
  then show ?thesis unfolding catchError_def Let_def
    by (rule quiet_silent) (auto split: option.split intro: escape_quiet [of _ _ _ "InCatch slot", simplified] failOnce_quiet)
qed

lemma throwIn_quiet: "quiet cfg i st (throwIn cfg h timings i ctx message st)"
  by (cases ctx) (simp_all only: throwIn.simps catchError_quiet escape_quiet)

lemma failIn_quiet: "silent cfg st st1 \<Longrightarrow> quiet cfg i st (failIn cfg h thrown timings i ctx reason extra st1)"
  by (rule quiet_silent) (auto simp: failIn_def split: option.split intro: throwIn_quiet failOnce_quiet)

section \<open>The invariant of the answers\<close>

text \<open>A receipt the pipeline issued, from empty stores, for a request under one of the policies.\<close>

definition issuedUnder :: "host \<Rightarrow> json set \<Rightarrow> jsstring \<Rightarrow> signed_receipt \<Rightarrow> bool" where
  "issuedUnder h policies rawInput receipt \<longleftrightarrow>
     (\<exists>request p x. p \<in> policies \<and> wfObj request \<and> canonicalizeJson (JObj (createRuntimeInput request p)) = Some rawInput \<and>
        workerResult h rawInput = Some (Inr x) \<and> xr_receipt x = receipt)"

fun phaseOk :: "host \<Rightarrow> json set \<Rightarrow> sidecar \<Rightarrow> decide_phase \<Rightarrow> bool" where
  "phaseOk h policies st (AwaitWorker slot task raw) =
     (\<exists>request p rawInput. (task, rawInput) \<in> set (sd_tasks st) \<and> p \<in> policies \<and> wfObj request \<and>
        canonicalizeJson (JObj (createRuntimeInput request p)) = Some rawInput)"
| "phaseOk h policies st (AwaitDurable slot promise receipt) =
     ((\<exists>rawInput. issuedUnder h policies rawInput receipt) \<and> loggedLine (sd_queue st) promise (JObj (receiptFields receipt)))"
| "phaseOk h policies st (AwaitRefusal ctx promise r) = refuses r"
| "phaseOk h policies st p = True"

definition allowsWith :: "decide_config \<Rightarrow> host \<Rightarrow> json set \<Rightarrow> receipt_queue \<Rightarrow> decide_response \<Rightarrow> signed_receipt \<Rightarrow> bool" where
  "allowsWith cfg h policies q r receipt \<longleftrightarrow>
     ds_body r = apiResponseFromReceipt (dg_inline_refusals cfg) receipt \<and> (\<exists>rawInput. issuedUnder h policies rawInput receipt) \<and>
     (\<exists>promise. loggedLine q promise (JObj (receiptFields receipt)) \<and> (strictAudit cfg \<longrightarrow> (promise, True) \<in> set (pq_settled q)))"

definition answerOk :: "decide_config \<Rightarrow> host \<Rightarrow> json set \<Rightarrow> receipt_queue \<Rightarrow> decide_response \<Rightarrow> bool" where
  "answerOk cfg h policies q r \<longleftrightarrow> refuses r \<or> (\<exists>receipt. allowsWith cfg h policies q r receipt)"

definition sidecarOk :: "decide_config \<Rightarrow> host \<Rightarrow> json set \<Rightarrow> sidecar \<Rightarrow> bool" where
  "sidecarOk cfg h policies st \<longleftrightarrow>
     queue_reachable (dg_queue cfg) (sd_queue st) \<and> sd_policy st \<in> policies \<and>
     distinct (map fst (sd_tasks st)) \<and> (\<forall>(task, raw) \<in> set (sd_tasks st). task < wp_next_task (sd_pool st)) \<and>
     tasksKnown (set (sd_tasks st)) (sd_pool st) \<and> answersTrue h (set (sd_tasks st)) (sd_pool st) \<and>
     (\<forall>p \<in> set (sd_requests st). phaseOk h policies st p) \<and> (\<forall>(i, r) \<in> set (sd_responses st). answerOk cfg h policies (sd_queue st) r)"

lemma phaseOk_grown:
  assumes "phaseOk h policies st p" "set (sd_tasks st) \<subseteq> set (sd_tasks st')" "grown c (sd_queue st) (sd_queue st')"
  shows "phaseOk h policies st' p"
  using assms by (cases p) (auto dest: grown_logged)

lemma answerOk_grown:
  assumes "answerOk cfg h policies q r" "grown c q q'"
  shows "answerOk cfg h policies q' r"
proof -
  obtain more where "pq_settled q' = pq_settled q @ more" using assms(2) by (auto simp: grown_def)
  with assms show ?thesis by (auto simp: answerOk_def allowsWith_def dest: grown_logged)
qed

lemma quietPhase_ok: "quietPhase p \<Longrightarrow> phaseOk h policies st p"
  by (cases p) auto

lemma sidecarOk_quiet:
  assumes "sidecarOk cfg h policies st" "quiet cfg i st st'"
  shows "sidecarOk cfg h policies st'"
proof -
  from assms(2) obtain p more where q: "sd_pool st' = sd_pool st" "sd_tasks st' = sd_tasks st" "sd_policy st' = sd_policy st"
    "grown (dg_queue cfg) (sd_queue st) (sd_queue st')" "sd_responses st' = sd_responses st @ more" "\<forall>(j, r) \<in> set more. refuses r"
    "quietPhase p" "sd_requests st' = (sd_requests st)[i := p]" by (auto simp: quiet_def)
  have "\<forall>p \<in> set (sd_requests st'). phaseOk h policies st' p"
  proof
    fix u assume "u \<in> set (sd_requests st')"
    then have "u = p \<or> u \<in> set (sd_requests st)" using set_update_subset_insert [of "sd_requests st" i p] unfolding q(8) by blast
    then show "phaseOk h policies st' u"
    proof
      assume "u \<in> set (sd_requests st)"
      then have "phaseOk h policies st u" using assms(1) by (simp add: sidecarOk_def)
      then show ?thesis by (rule phaseOk_grown [OF _ _ q(4)]) (simp add: q(2))
    qed (simp add: quietPhase_ok q(7))
  qed
  moreover have "\<forall>(j, r) \<in> set (sd_responses st'). answerOk cfg h policies (sd_queue st') r"
  proof (rule ballI, clarify)
    fix j r assume "(j, r) \<in> set (sd_responses st')"
    then consider "(j, r) \<in> set (sd_responses st)" | "(j, r) \<in> set more" unfolding q(5) by auto
    then show "answerOk cfg h policies (sd_queue st') r"
    proof cases
      case 1
      then have "answerOk cfg h policies (sd_queue st) r" using assms(1) unfolding sidecarOk_def by blast
      then show ?thesis by (rule answerOk_grown [OF _ q(4)])
    next
      case 2
      then show ?thesis using q(6) unfolding answerOk_def by blast
    qed
  qed
  ultimately show ?thesis using assms(1) q(4) by (simp add: sidecarOk_def q(1-3) grown_def)
qed

lemma sidecarOk_silent:
  assumes "sidecarOk cfg h policies st" "silent cfg st st'"
  shows "sidecarOk cfg h policies st'"
proof -
  have q: "sd_pool st' = sd_pool st" "sd_tasks st' = sd_tasks st" "sd_policy st' = sd_policy st" "sd_responses st' = sd_responses st"
    "sd_requests st' = sd_requests st" and grows: "grown (dg_queue cfg) (sd_queue st) (sd_queue st')"
    using assms(2) by (simp_all add: silent_def)
  have "\<forall>u \<in> set (sd_requests st). phaseOk h policies st' u"
    using assms(1) phaseOk_grown [OF _ _ grows] by (simp add: sidecarOk_def q(2))
  moreover have "\<forall>(j, r) \<in> set (sd_responses st). answerOk cfg h policies (sd_queue st') r"
    using assms(1) answerOk_grown [OF _ grows] unfolding sidecarOk_def by blast
  ultimately show ?thesis using assms(1) grows by (simp add: sidecarOk_def q grown_def)
qed

lemma sidecarOk_phase:
  assumes "sidecarOk cfg h policies st" "phaseOk h policies st p"
  shows "sidecarOk cfg h policies (setPhase i p st)"
proof -
  have same: "phaseOk h policies (setPhase i p st) u = phaseOk h policies st u" for u by (cases u) (simp_all add: setPhase_def)
  have "u = p \<or> u \<in> set (sd_requests st)" if "u \<in> set (sd_requests (setPhase i p st))" for u
    using that set_update_subset_insert [of "sd_requests st" i p] by (auto simp: setPhase_def)
  then have "\<forall>u \<in> set (sd_requests (setPhase i p st)). phaseOk h policies (setPhase i p st) u"
    using assms by (auto simp: same sidecarOk_def)
  with assms(1) show ?thesis by (simp add: sidecarOk_def) (simp add: setPhase_def)
qed

lemma sidecarOk_answer:
  assumes "sidecarOk cfg h policies st" "answerOk cfg h policies (sd_queue st) r"
  shows "sidecarOk cfg h policies (answer i ctx r st)"
proof -
  have "sidecarOk cfg h policies (endContext ctx (respond i r st))"
  proof -
    have "phaseOk h policies (endContext ctx (respond i r st)) u = phaseOk h policies st u" for u
      by (cases u) (simp_all add: respond_def)
    with assms show ?thesis by (auto simp: sidecarOk_def respond_def)
  qed
  then show ?thesis unfolding answer_def by (rule sidecarOk_phase) simp
qed

text \<open>A receipt that was queued may be answered with, at once or when it is durable.\<close>

lemma answerReceipt_ok:
  assumes "sidecarOk cfg h policies st" "issuedUnder h policies rawInput receipt"
    and "loggedLine (sd_queue st) promise (JObj (receiptFields receipt))"
    and "strictAudit cfg \<longrightarrow> (promise, True) \<in> set (pq_settled (sd_queue st))"
  shows "sidecarOk cfg h policies (answerReceipt cfg i slot receipt st)"
proof -
  have "allowsWith cfg h policies (sd_queue st)
      \<lparr>ds_status = 200, ds_body = apiResponseFromReceipt (dg_inline_refusals cfg) receipt\<rparr> receipt"
    using assms(2-4) by (auto simp: allowsWith_def)
  then show ?thesis unfolding answerReceipt_def
    by (intro sidecarOk_answer [OF assms(1)]) (auto simp: answerOk_def)
qed

lemma decideStart_ok:
  assumes "sidecarOk cfg h policies st"
  shows "sidecarOk cfg h policies (decideStart cfg h thrown timings i req st)"
proof -
  have adm: "silent cfg st (st1\<lparr>sd_admission := a\<rparr>) = silent cfg st st1" "silent cfg st (st1\<lparr>sd_watchdog := w\<rparr>) = silent cfg st st1"
    "silent cfg st (st1\<lparr>sd_inflight := n\<rparr>) = silent cfg st st1" for st1 a w n
    by (simp_all add: silent_def)
  have reading: "sidecarOk cfg h policies (setPhase i (ReadingBody slot) st1)" if "silent cfg st st1" for slot st1
    by (rule sidecarOk_phase [OF sidecarOk_silent [OF assms that]]) simp
  have fails: "sidecarOk cfg h policies (failIn cfg h thrown timings i ctx reason extra st1)" if "silent cfg st st1" for ctx reason extra st1
    by (rule sidecarOk_quiet [OF assms failIn_quiet [OF that]])
  show ?thesis
    unfolding decideStart_def Let_def
    by (auto split: option.split prod.split bool.split intro!: reading fails simp: adm)
qed

lemma readStrictObject_wf: "readStrictObject raw = Inr request \<Longrightarrow> wfObj request"
  by (auto simp: readStrictObject_def wfObj_def split: parse_result.splits json.splits simp del: wfJson.simps dest: parseStrictJson_wf)

lemma sidecarOk_task:
  assumes "sidecarOk cfg h policies st" "submit (dg_pool cfg) (sd_pool st) rawInput = (p, Submitted task)"
  shows "sidecarOk cfg h policies (st\<lparr>sd_pool := p, sd_tasks := sd_tasks st @ [(task, rawInput)]\<rparr>)"
proof -
  let ?st = "st\<lparr>sd_pool := p, sd_tasks := sd_tasks st @ [(task, rawInput)]\<rparr>"
  have new: "task = wp_next_task (sd_pool st)" "wp_next_task p = wp_next_task (sd_pool st) + 1" "wp_replies p = wp_replies (sd_pool st)"
    using submit_same(1,2) [OF assms(2)] by auto
  have bound: "\<forall>(t, raw) \<in> set (sd_tasks st). t < wp_next_task (sd_pool st)" using assms(1) by (simp add: sidecarOk_def)
  have "\<forall>u \<in> set (sd_requests st). phaseOk h policies ?st u"
    using assms(1) phaseOk_grown [of h policies st _ ?st "dg_queue cfg"] by (auto simp: sidecarOk_def grown_refl)
  moreover have "distinct (map fst (sd_tasks ?st))"
    using assms(1) bound by (auto simp: sidecarOk_def new(1))
  moreover have "\<forall>(t, raw) \<in> set (sd_tasks ?st). t < wp_next_task (sd_pool ?st)"
    using bound by (auto simp: new(1,2))
  moreover have "tasksKnown (set (sd_tasks ?st)) (sd_pool ?st)"
    using submit_known [OF assms(2)] assms(1) by (simp add: sidecarOk_def)
  moreover have "answersTrue h (set (sd_tasks ?st)) (sd_pool ?st)"
  proof -
    have "answersTrue h (set (sd_tasks st)) (sd_pool st)" using assms(1) by (simp add: sidecarOk_def)
    then show ?thesis unfolding answersTrue_def by (simp add: new(3)) blast
  qed
  ultimately show ?thesis using assms(1) by (simp add: sidecarOk_def)
qed

lemma decideBody_ok:
  assumes "sidecarOk cfg h policies st"
  shows "sidecarOk cfg h policies (decideBody cfg h thrown timings i slot body st)"
proof -
  have caught: "sidecarOk cfg h policies (catchError cfg h timings i slot message st)" for message
    by (rule sidecarOk_quiet [OF assms catchError_quiet])
  have submitted: "sidecarOk cfg h policies (failIn cfg h thrown timings i (InTry slot) reason extra (count f (st\<lparr>sd_pool := p\<rparr>)))"
    if "submit (dg_pool cfg) (sd_pool st) rawInput = (p, SubmitRefused reason)" for rawInput p reason extra f
  proof -
    have "sidecarOk cfg h policies (st\<lparr>sd_pool := p\<rparr>)"
    proof -
      have "phaseOk h policies (st\<lparr>sd_pool := p\<rparr>) u = phaseOk h policies st u" for u by (cases u) simp_all
      moreover have "tasksKnown (set (sd_tasks st)) p"
        using submit_known [OF that] assms by (simp add: sidecarOk_def)
      ultimately show ?thesis using assms submit_same(1,3) [OF that] by (simp add: sidecarOk_def answersTrue_def)
    qed
    then show ?thesis by (rule sidecarOk_quiet [OF _ failIn_quiet]) simp
  qed
  have waits: "sidecarOk cfg h policies (setPhase i (AwaitWorker slot task raw) (st\<lparr>sd_pool := p, sd_tasks := sd_tasks st @ [(task, rawInput)]\<rparr>))"
    if "submit (dg_pool cfg) (sd_pool st) rawInput = (p, Submitted task)" "readStrictObject raw = Inr request"
      "canonicalizeJson (JObj (createRuntimeInput request (sd_policy st))) = Some rawInput" for rawInput p task raw request
  proof (rule sidecarOk_phase)
    show "sidecarOk cfg h policies (st\<lparr>sd_pool := p, sd_tasks := sd_tasks st @ [(task, rawInput)]\<rparr>)"
      by (rule sidecarOk_task [OF assms that(1)])
    show "phaseOk h policies (st\<lparr>sd_pool := p, sd_tasks := sd_tasks st @ [(task, rawInput)]\<rparr>) (AwaitWorker slot task raw)"
      using assms that(3) readStrictObject_wf [OF that(2)] by (auto simp: sidecarOk_def simp del: canonicalizeJson.simps)
  qed
  show ?thesis unfolding decideBody_def
    by (auto split: sum.split option.split prod.split submit_answer.split simp del: canonicalizeJson.simps intro!: caught submitted waits)
qed

lemma decideReply_ok:
  assumes "sidecarOk cfg h policies st" "phaseOk h policies st (AwaitWorker slot task raw)"
    and "(task, reply) \<in> set (wp_replies (sd_pool st))"
  shows "sidecarOk cfg h policies (decideReply cfg h thrown timings i slot raw reply st)"
proof -
  have fails: "sidecarOk cfg h policies (failIn cfg h thrown timings i ctx reason extra st1)" if "silent cfg st st1" for ctx reason extra st1
    by (rule sidecarOk_quiet [OF assms(1) failIn_quiet [OF that]])
  have caught: "sidecarOk cfg h policies (catchError cfg h timings i slot message st1)" if "silent cfg st st1" for message st1
    by (rule sidecarOk_quiet [OF assms(1) quiet_silent [OF that catchError_quiet]])
  have issued: "\<exists>rawInput. issuedUnder h policies rawInput (xr_receipt x)" if "reply = Answered (Inr x)" for x
  proof -
    obtain request p rawInput where known: "(task, rawInput) \<in> set (sd_tasks st)" "p \<in> policies" "wfObj request"
      "canonicalizeJson (JObj (createRuntimeInput request p)) = Some rawInput" using assms(2) by auto
    have "\<exists>raw'. (task, raw') \<in> set (sd_tasks st) \<and> workerResult h raw' = Some (Inr x)"
    proof -
      have "answersTrue h (set (sd_tasks st)) (sd_pool st)" using assms(1) by (simp add: sidecarOk_def)
      then show ?thesis using assms(3) unfolding answersTrue_def that by blast
    qed
    then obtain raw' where "(task, raw') \<in> set (sd_tasks st)" "workerResult h raw' = Some (Inr x)" by blast
    moreover have "distinct (map fst (sd_tasks st))" using assms(1) by (simp add: sidecarOk_def)
    ultimately have "workerResult h rawInput = Some (Inr x)" using known(1) eq_key_imp_eq_value by metis
    with known(2-4) show ?thesis unfolding issuedUnder_def by blast
  qed
  show ?thesis
  proof (cases "\<exists>x. reply = Answered (Inr x) \<and> \<not> unsignedAllow (xr_receipt x)")
    case False
    then show ?thesis unfolding decideReply_def Let_def
      by (auto split: pool_reply.split sum.split intro!: fails)
  next
    case True
    then obtain x where x: "reply = Answered (Inr x)" "\<not> unsignedAllow (xr_receipt x)" by blast
    obtain q a where q: "enqueue (dg_queue cfg) (sd_queue st) (JObj (receiptFields (xr_receipt x))) = (q, a)" by fastforce
    note queue = silent_queue [OF enqueue_grown [OF q]]
    show ?thesis
    proof (cases a)
      case (Queued promise bytes)
      obtain rawInput where rawInput: "issuedUnder h policies rawInput (xr_receipt x)" using issued [OF x(1)] by blast
      have ok: "sidecarOk cfg h policies (st\<lparr>sd_queue := q\<rparr>)" by (rule sidecarOk_silent [OF assms(1) queue])
      have logged: "loggedLine (sd_queue (st\<lparr>sd_queue := q\<rparr>)) promise (JObj (receiptFields (xr_receipt x)))"
        using enqueue_logged [OF q [unfolded Queued]] by simp
      have "sidecarOk cfg h policies (setPhase i (AwaitDurable slot promise (xr_receipt x)) (st\<lparr>sd_queue := q\<rparr>))"
        by (rule sidecarOk_phase [OF ok]) (use rawInput logged in auto)
      moreover have "sidecarOk cfg h policies (answerReceipt cfg i slot (xr_receipt x) (st\<lparr>sd_queue := q\<rparr>))" if "\<not> strictAudit cfg"
        by (rule answerReceipt_ok [OF ok rawInput logged]) (use that in simp)
      ultimately show ?thesis by (simp add: decideReply_def Let_def x q Queued)
    qed (use queue in \<open>auto simp: decideReply_def Let_def x q intro!: fails caught\<close>)
  qed
qed

lemma decideDurable_ok:
  assumes "sidecarOk cfg h policies st" "phaseOk h policies st (AwaitDurable slot promise receipt)"
    and "(promise, resolved) \<in> set (pq_settled (sd_queue st))"
  shows "sidecarOk cfg h policies (decideDurable cfg h thrown timings i slot receipt resolved st)"
proof (cases resolved)
  case True
  from assms(2) obtain rawInput where r: "issuedUnder h policies rawInput receipt"
    and logged: "loggedLine (sd_queue st) promise (JObj (receiptFields receipt))" by auto
  show ?thesis using answerReceipt_ok [OF assms(1) r logged] assms(3) True by (simp add: decideDurable_def)
qed (simp add: decideDurable_def sidecarOk_quiet [OF assms(1) catchError_quiet])

lemma refusalSettled_ok:
  assumes "sidecarOk cfg h policies st" "phaseOk h policies st (AwaitRefusal ctx promise r)"
  shows "sidecarOk cfg h policies (refusalSettled cfg h thrown timings i ctx r resolved st)"
  using sidecarOk_quiet [OF assms(1) throwIn_quiet] sidecarOk_answer [OF assms(1), of r] assms(2)
  by (simp add: refusalSettled_def answerOk_def)

lemma sidecar_step_ok:
  assumes "sidecar_step cfg h policies st st'" "sidecarOk cfg h policies st"
  shows "sidecarOk cfg h policies st'"
  using assms
proof (induction rule: sidecar_step.induct)
  case (Arrives st thrown timings req)
  have "phaseOk h policies (st\<lparr>sd_requests := rs\<rparr>) u = phaseOk h policies st u" for u rs by (cases u) simp_all
  then have "sidecarOk cfg h policies (st\<lparr>sd_requests := sd_requests st @ [Finished]\<rparr>)"
    using Arrives by (auto simp: sidecarOk_def)
  then show ?case by (rule decideStart_ok)
next
  case (BodyRead i st slot thrown timings body)
  show ?case by (rule decideBody_ok [OF BodyRead(3)])
next
  case (Replied i st slot task raw reply thrown timings)
  then have "phaseOk h policies st (AwaitWorker slot task raw)" unfolding sidecarOk_def by (metis nth_mem)
  with Replied show ?case by (blast intro: decideReply_ok)
next
  case (Settled i st slot promise receipt resolved thrown timings)
  then have "phaseOk h policies st (AwaitDurable slot promise receipt)" unfolding sidecarOk_def by (metis nth_mem)
  with Settled show ?case by (blast intro: decideDurable_ok)
next
  case (RefusalSettled i st ctx promise r resolved thrown timings)
  then have "phaseOk h policies st (AwaitRefusal ctx promise r)" unfolding sidecarOk_def by (metis nth_mem)
  with RefusalSettled show ?case by (blast intro: refusalSettled_ok)
next
  case (QueueSteps st q)
  then show ?case using sidecarOk_silent [OF QueueSteps(2) silent_queue [OF queue_step_grows [OF QueueSteps(1)]]] by simp
next
  case (PoolSteps st p)
  have same: "phaseOk h policies (st\<lparr>sd_pool := p\<rparr>) u = phaseOk h policies st u" for u by (cases u) simp_all
  have known: "tasksKnown (set (sd_tasks st)) (sd_pool st)" "answersTrue h (set (sd_tasks st)) (sd_pool st)"
    using PoolSteps(2) by (simp_all add: sidecarOk_def)
  from PoolSteps pool_event_known [OF PoolSteps(1) known(1)] pool_event_answers [OF PoolSteps(1) known] pool_event_next [OF PoolSteps(1)]
  show ?case by (simp add: sidecarOk_def same)
next
  case (OtherTask st rawInput p task)
  show ?case by (rule sidecarOk_task [OF OtherTask(2,1)])
next
  case (PolicyChanges p st ph)
  have "phaseOk h policies (st\<lparr>sd_policy := p, sd_policy_hash := ph\<rparr>) u = phaseOk h policies st u" for u by (cases u) simp_all
  with PolicyChanges show ?case by (simp add: sidecarOk_def)
next
  case (WatchdogSteps st w lag)
  then show ?case by (rule sidecarOk_silent) (simp add: silent_def grown_refl)
next
  case (SocketOpens st)
  then show ?case by (rule sidecarOk_silent) (simp add: silent_def grown_refl)
next
  case (SocketCloses st k)
  then show ?case by (rule sidecarOk_silent) (simp add: silent_def grown_refl)
qed

lemma startSidecar_simps:
  "sd_queue (startSidecar a p ph now) = startQueue newQueue" "sd_pool (startSidecar a p ph now) = newPool"
  "sd_policy (startSidecar a p ph now) = p" "sd_requests (startSidecar a p ph now) = []" "sd_tasks (startSidecar a p ph now) = []"
  "sd_responses (startSidecar a p ph now) = []" "sd_admission (startSidecar a p ph now) = a" "sd_inflight (startSidecar a p ph now) = 0"
  by (simp_all only: startSidecar_def sidecar.simps)

lemma newPool_known: "tasksKnown tasks newPool" "answersTrue h tasks newPool"
  by (simp_all add: newPool_def tasksKnown_def answersTrue_def)

lemma sidecar_reachable_ok: "sidecar_reachable cfg h policies st \<Longrightarrow> sidecarOk cfg h policies st"
proof (induction rule: sidecar_reachable.induct)
  case (Starts a b c adm p ph now)
  have "queue_reachable (dg_queue cfg) (startQueue newQueue)"
    by (rule queue_reachable.Step [OF queue_reachable.Init queue_step.Start])
  then show ?case unfolding sidecarOk_def startSidecar_simps using Starts(2) newPool_known
    by (simp only: list.set ball_empty list.map distinct.simps simp_thms)
next
  case (Steps st st')
  show ?case by (rule sidecar_step_ok [OF Steps(2,3)])
qed

section \<open>Durable receipts\<close>

lemma durable_in_file:
  assumes "queueOk cfg q" "(promise, True) \<in> set (pq_settled q)" "promise < length (pq_log q)"
  shows "\<exists>before after. pq_file q = before @ pq_log q ! promise @ after"
proof -
  let ?n = "durableCount (pq_settled q)"
  obtain k where k: "k < length (pq_settled q)" "pq_settled q ! k = (promise, True)" using assms(2) by (metis in_set_conv_nth)
  have ids: "map fst (pq_settled q) @ map qi_promise (waiting q) = [0..<length (pq_log q)]"
    and flags: "map snd (pq_settled q) = replicate ?n True @ replicate (length (pq_settled q) - ?n) False"
    using assms(1) by (auto simp: queueOk_def orderOk_def fileOk_def logMatches_def)
  have len: "length (pq_settled q) \<le> length (pq_log q)" using arg_cong [OF ids, of length] by simp
  have "map fst (pq_settled q) ! k = [0..<length (pq_log q)] ! k" using k(1) unfolding ids [symmetric] by (simp add: nth_append)
  with k len have promise: "promise = k" by simp
  have "map snd (pq_settled q) ! k" using k by simp
  then have "k < ?n" unfolding flags using k(1) by (auto simp: nth_append split: if_splits)
  moreover have "?n \<le> length (pq_log q)" using len durableCount_le le_trans by blast
  ultimately have "take ?n (pq_log q) = take k (pq_log q) @ pq_log q ! k # drop (Suc k) (take ?n (pq_log q))"
    using id_take_nth_drop [of k "take ?n (pq_log q)"] by simp
  then have "concat (take ?n (pq_log q)) = concat (take k (pq_log q)) @ pq_log q ! k @ concat (drop (Suc k) (take ?n (pq_log q)))"
    by (metis concat.simps(2) concat_append)
  moreover obtain written where "pq_file q = concat (take ?n (pq_log q)) @ written"
    using assms(1) by (auto simp: queueOk_def fileOk_def logMatches_def)
  ultimately show ?thesis unfolding promise by (metis append.assoc)
qed

definition allows :: "decide_response \<Rightarrow> bool" where
  "allows r \<longleftrightarrow> getProp (Some (JObj (ds_body r))) ''decision'' = Some (JStr (jstr ''ALLOW''))"

lemma api_decision:
  "getProp (Some (JObj (apiResponseFromReceipt b receipt))) ''decision'' = Some (JStr (decisionText (do_decision (rp_decision_output (sr_payload receipt)))))"
  by (simp add: apiResponseFromReceipt_def Let_def getProp_def)

lemma allows_not_refuses: "allows r \<Longrightarrow> \<not> refuses r"
  by (simp add: allows_def refuses_def)

end
