(* ===== verification/DecideSlots.thy ===== *)
theory DecideSlots
  imports DecideProps
begin

text \<open>
  The slots of the admission controller and the count of requests in flight against what the decision handlers hold. A handler
  that is refusing is accounted under the context it will leave, so every way out of \<open>fail\<close> and of the \<open>catch\<close> clause is
  one lemma.
\<close>

section \<open>What a handler holds\<close>

fun contextSlot :: "fail_context \<Rightarrow> nat option" where
  "contextSlot BeforeAdmission = None"
| "contextSlot (Saturated slot) = Some slot"
| "contextSlot (InTry slot) = Some slot"
| "contextSlot (InCatch slot) = Some slot"

fun contextInTry :: "fail_context \<Rightarrow> bool" where
  "contextInTry BeforeAdmission = False"
| "contextInTry (Saturated slot) = False"
| "contextInTry (InTry slot) = True"
| "contextInTry (InCatch slot) = True"

fun slotOf :: "decide_phase \<Rightarrow> nat option" where
  "slotOf (ReadingBody slot) = Some slot"
| "slotOf (AwaitWorker slot task raw) = Some slot"
| "slotOf (AwaitDurable slot promise receipt) = Some slot"
| "slotOf (AwaitRefusal ctx promise r) = contextSlot ctx"
| "slotOf Finished = None"
| "slotOf (Crashed slot) = slot"

fun inTry :: "decide_phase \<Rightarrow> bool" where
  "inTry (ReadingBody slot) = True"
| "inTry (AwaitWorker slot task raw) = True"
| "inTry (AwaitDurable slot promise receipt) = True"
| "inTry (AwaitRefusal ctx promise r) = contextInTry ctx"
| "inTry Finished = False"
| "inTry (Crashed slot) = False"

definition holders :: "decide_phase list \<Rightarrow> nat" where
  "holders rs = length (filter (\<lambda>p. slotOf p \<noteq> None) rs)"

definition trying :: "decide_phase list \<Rightarrow> nat" where
  "trying rs = length (filter inTry rs)"

lemma filter_update:
  assumes "i < length xs"
  shows "length (filter P (xs[i := x])) + (if P (xs ! i) then 1 else 0) = length (filter P xs) + (if P x then 1 else 0)"
proof -
  have "filter P xs = filter P (take i xs @ xs ! i # drop (Suc i) xs)" using id_take_nth_drop [OF assms] by simp
  then show ?thesis using assms by (simp add: upd_conv_take_nth_drop)
qed

section \<open>The ledger\<close>

definition slotsOk :: "decide_config \<Rightarrow> decide_phase list \<Rightarrow> admission \<Rightarrow> int \<Rightarrow> bool" where
  "slotsOk cfg rs a n \<longleftrightarrow>
     rq.exact (dg_limits cfg) a \<and> openSlots (ad_request_slots a) = holders rs \<and>
     (\<forall>j < length rs. \<forall>k. slotOf (rs ! j) = Some k \<longrightarrow> k < length (ad_request_slots a) \<and> \<not> ad_request_slots a ! k) \<and>
     (\<forall>j < length rs. \<forall>j' < length rs. \<forall>k. slotOf (rs ! j) = Some k \<and> slotOf (rs ! j') = Some k \<longrightarrow> j = j') \<and>
     n = int (trying rs) \<and> n \<le> max 0 (sc_inflight_shed_threshold (dg_saturation cfg))"

text \<open>A phase may be replaced by one that holds the same.\<close>

lemma slotsOk_same:
  assumes "slotsOk cfg (rs[i := p]) a n" "slotOf q = slotOf p" "inTry q = inTry p"
  shows "slotsOk cfg (rs[i := q]) a n"
proof (cases "i < length rs")
  case True
  have slot: "slotOf (rs[i := q] ! j) = slotOf (rs[i := p] ! j)" if "j < length rs" for j
    using assms(2) that by (cases "j = i") simp_all
  have "holders (rs[i := q]) = holders (rs[i := p])" "trying (rs[i := q]) = trying (rs[i := p])"
    using filter_update [OF True, of "\<lambda>p. slotOf p \<noteq> None" p] filter_update [OF True, of "\<lambda>p. slotOf p \<noteq> None" q]
      filter_update [OF True, of inTry p] filter_update [OF True, of inTry q]
    unfolding holders_def trying_def by (simp_all add: assms(2,3))
  with assms(1) show ?thesis unfolding slotsOk_def by (simp add: slot)
next
  case False
  then have "rs[i := q] = rs[i := p]" by (simp add: list_update_beyond)
  then show ?thesis using assms(1) by simp
qed

lemma slotsOk_frame:
  assumes "slotsOk cfg rs a n" "ad_active_requests a' = ad_active_requests a" "ad_request_slots a' = ad_request_slots a"
  shows "slotsOk cfg rs a' n"
  using assms exact_frame(1) [OF assms(2,3)] by (simp add: slotsOk_def)

text \<open>Leaving: the slot is open, so it is freed, and no other handler holds it.\<close>

lemma slotsOk_release:
  assumes "slotsOk cfg (rs[i := p]) a n" "i < length rs" "slotOf p = Some k"
  shows "slotsOk cfg (rs[i := Finished]) (releaseRequest a k) (n - (if inTry p then 1 else 0))"
proof -
  have holds: "k < length (ad_request_slots a)" "\<not> ad_request_slots a ! k"
    using assms unfolding slotsOk_def by (metis length_list_update nth_list_update_eq)+
  have others: "slotOf (rs ! j) \<noteq> Some k" if "j < length rs" "j \<noteq> i" for j
    using assms that unfolding slotsOk_def by (metis length_list_update nth_list_update_eq nth_list_update_neq)
  have flags: "ad_request_slots (releaseRequest a k) = (ad_request_slots a)[k := True]"
    using rq.release_open [OF holds] by blast
  have held: "k' < length (ad_request_slots a) \<and> \<not> ad_request_slots a ! k'"
    if "j < length rs" "j \<noteq> i" "slotOf (rs ! j) = Some k'" for j k'
    using assms(1) that unfolding slotsOk_def by (metis length_list_update nth_list_update_neq)
  have unique: "j = j'" if "j < length rs" "j' < length rs" "j \<noteq> i" "j' \<noteq> i" "slotOf (rs ! j) = Some k'" "slotOf (rs ! j') = Some k'" for j j' k'
    using assms(1) that unfolding slotsOk_def by (metis length_list_update nth_list_update_neq)
  have count: "holders (rs[i := p]) = holders (rs[i := Finished]) + 1"
    "trying (rs[i := p]) = trying (rs[i := Finished]) + (if inTry p then 1 else 0)"
    using filter_update [OF assms(2), of "\<lambda>p. slotOf p \<noteq> None" p] filter_update [OF assms(2), of "\<lambda>p. slotOf p \<noteq> None" Finished]
      filter_update [OF assms(2), of inTry p] filter_update [OF assms(2), of inTry Finished] assms(3)
    unfolding holders_def trying_def by simp_all
  show ?thesis
    unfolding slotsOk_def
  proof (intro conjI)
    show "rq.exact (dg_limits cfg) (releaseRequest a k)" using assms(1) rq.release_exact by (simp add: slotsOk_def)
    show "openSlots (ad_request_slots (releaseRequest a k)) = holders (rs[i := Finished])"
      using assms(1) openSlots_close [OF holds] count(1) by (simp add: slotsOk_def flags)
    show "\<forall>j < length (rs[i := Finished]). \<forall>k'. slotOf (rs[i := Finished] ! j) = Some k' \<longrightarrow>
        k' < length (ad_request_slots (releaseRequest a k)) \<and> \<not> ad_request_slots (releaseRequest a k) ! k'"
    proof (intro allI impI)
      fix j k' assume j: "j < length (rs[i := Finished])" "slotOf (rs[i := Finished] ! j) = Some k'"
      then have "j \<noteq> i" using assms(2) by auto
      with j held [of j k'] others [of j] show "k' < length (ad_request_slots (releaseRequest a k)) \<and> \<not> ad_request_slots (releaseRequest a k) ! k'"
        by (auto simp: flags nth_list_update)
    qed
    show "\<forall>j < length (rs[i := Finished]). \<forall>j' < length (rs[i := Finished]). \<forall>k'.
        slotOf (rs[i := Finished] ! j) = Some k' \<and> slotOf (rs[i := Finished] ! j') = Some k' \<longrightarrow> j = j'"
    proof (intro allI impI, elim conjE)
      fix j j' k' assume j: "j < length (rs[i := Finished])" "j' < length (rs[i := Finished])"
        "slotOf (rs[i := Finished] ! j) = Some k'" "slotOf (rs[i := Finished] ! j') = Some k'"
      then have "j \<noteq> i" "j' \<noteq> i" using assms(2) by auto
      with j unique [of j j' k'] show "j = j'" by simp
    qed
    show "n - (if inTry p then 1 else 0) = int (trying (rs[i := Finished]))"
      using assms(1) count(2) by (simp add: slotsOk_def)
    show "n - (if inTry p then 1 else 0) \<le> max 0 (sc_inflight_shed_threshold (dg_saturation cfg))"
      using assms(1) by (auto simp: slotsOk_def)
  qed
qed

lemma slotsOk_acquire:
  assumes "slotsOk cfg (rs[i := Finished]) a n" "i < length rs" "tryAcquireRequest (dg_limits cfg) a = (a1, Some slot)"
  shows "slotsOk cfg (rs[i := Crashed (Some slot)]) a1 n"
proof -
  have free: "ad_active_requests a < al_max_active_requests (dg_limits cfg)" "slot = length (ad_request_slots a)"
    "ad_request_slots a1 = ad_request_slots a @ [False]" "a1 = fst (tryAcquireRequest (dg_limits cfg) a)"
    using assms(3) by (auto simp: tryAcquireRequest_def split: if_splits)
  have held: "k' < length (ad_request_slots a) \<and> \<not> ad_request_slots a ! k'"
    if "j < length rs" "j \<noteq> i" "slotOf (rs ! j) = Some k'" for j k'
    using assms(1) that unfolding slotsOk_def by (metis length_list_update nth_list_update_neq)
  have unique: "j = j'" if "j < length rs" "j' < length rs" "j \<noteq> i" "j' \<noteq> i" "slotOf (rs ! j) = Some k'" "slotOf (rs ! j') = Some k'" for j j' k'
    using assms(1) that unfolding slotsOk_def by (metis length_list_update nth_list_update_neq)
  have count: "holders (rs[i := Crashed (Some slot)]) = holders (rs[i := Finished]) + 1"
    "trying (rs[i := Crashed (Some slot)]) = trying (rs[i := Finished])"
    using filter_update [OF assms(2), of "\<lambda>p. slotOf p \<noteq> None" "Crashed (Some slot)"]
      filter_update [OF assms(2), of "\<lambda>p. slotOf p \<noteq> None" Finished]
      filter_update [OF assms(2), of inTry "Crashed (Some slot)"] filter_update [OF assms(2), of inTry Finished]
    unfolding holders_def trying_def by simp_all
  show ?thesis
    unfolding slotsOk_def
  proof (intro conjI)
    show "rq.exact (dg_limits cfg) a1" unfolding free(4) using assms(1) rq.acquire_exact by (simp add: slotsOk_def)
    show "openSlots (ad_request_slots a1) = holders (rs[i := Crashed (Some slot)])"
      using assms(1) count(1) by (simp add: slotsOk_def free(3) openSlots_snoc)
    show "\<forall>j < length (rs[i := Crashed (Some slot)]). \<forall>k'. slotOf (rs[i := Crashed (Some slot)] ! j) = Some k' \<longrightarrow>
        k' < length (ad_request_slots a1) \<and> \<not> ad_request_slots a1 ! k'"
    proof (intro allI impI)
      fix j k' assume j: "j < length (rs[i := Crashed (Some slot)])" "slotOf (rs[i := Crashed (Some slot)] ! j) = Some k'"
      show "k' < length (ad_request_slots a1) \<and> \<not> ad_request_slots a1 ! k'"
      proof (cases "j = i")
        case True
        with j assms(2) have "k' = length (ad_request_slots a)" by (simp add: free(2))
        then show ?thesis by (simp add: free(3) nth_append)
      next
        case False
        with j held [of j k'] show ?thesis by (simp add: free(3) nth_append)
      qed
    qed
    show "\<forall>j < length (rs[i := Crashed (Some slot)]). \<forall>j' < length (rs[i := Crashed (Some slot)]). \<forall>k'.
        slotOf (rs[i := Crashed (Some slot)] ! j) = Some k' \<and> slotOf (rs[i := Crashed (Some slot)] ! j') = Some k' \<longrightarrow> j = j'"
    proof (intro allI impI, elim conjE)
      fix j j' k' assume j: "j < length (rs[i := Crashed (Some slot)])" "j' < length (rs[i := Crashed (Some slot)])"
        "slotOf (rs[i := Crashed (Some slot)] ! j) = Some k'" "slotOf (rs[i := Crashed (Some slot)] ! j') = Some k'"
      then show "j = j'"
        using unique [of j j' k'] held [of j k'] held [of j' k'] by (cases "j = i"; cases "j' = i") (simp_all add: free(2))
    qed
  qed (use assms(1) count(2) in \<open>simp_all add: slotsOk_def\<close>)
qed

text \<open>A slot holder enters the \<open>try\<close> while the count is below the threshold.\<close>

lemma slotsOk_enter:
  assumes "slotsOk cfg (rs[i := Crashed (Some slot)]) a n" "i < length rs" "n < sc_inflight_shed_threshold (dg_saturation cfg)"
  shows "slotsOk cfg (rs[i := ReadingBody slot]) a (n + 1)"
proof -
  have slot: "slotOf (rs[i := ReadingBody slot] ! j) = slotOf (rs[i := Crashed (Some slot)] ! j)" if "j < length rs" for j
    using that by (cases "j = i") simp_all
  have "holders (rs[i := ReadingBody slot]) = holders (rs[i := Crashed (Some slot)])"
    "trying (rs[i := ReadingBody slot]) = trying (rs[i := Crashed (Some slot)]) + 1"
    using filter_update [OF assms(2), of "\<lambda>p. slotOf p \<noteq> None" "Crashed (Some slot)"]
      filter_update [OF assms(2), of "\<lambda>p. slotOf p \<noteq> None" "ReadingBody slot"]
      filter_update [OF assms(2), of inTry "Crashed (Some slot)"] filter_update [OF assms(2), of inTry "ReadingBody slot"]
    unfolding holders_def trying_def by simp_all
  with assms(1,3) show ?thesis unfolding slotsOk_def by (simp add: slot)
qed

section \<open>Handlers keep the ledger\<close>

text \<open>The phase that holds what a context holds, and the ledger of a state in which handler \<open>i\<close> is in that context.\<close>

fun placeholder :: "fail_context \<Rightarrow> decide_phase" where
  "placeholder BeforeAdmission = Finished"
| "placeholder (Saturated slot) = Crashed (Some slot)"
| "placeholder (InTry slot) = ReadingBody slot"
| "placeholder (InCatch slot) = ReadingBody slot"

lemma placeholder_holds [simp]:
  "slotOf (placeholder ctx) = contextSlot ctx" "inTry (placeholder ctx) = contextInTry ctx"
  by (cases ctx; simp)+

definition ledger :: "decide_config \<Rightarrow> nat \<Rightarrow> fail_context \<Rightarrow> sidecar \<Rightarrow> bool" where
  "ledger cfg i ctx st \<longleftrightarrow> i < length (sd_requests st) \<and>
     slotsOk cfg ((sd_requests st)[i := placeholder ctx]) (sd_admission st) (sd_inflight st)"

definition sidecarSlots :: "decide_config \<Rightarrow> sidecar \<Rightarrow> bool" where
  "sidecarSlots cfg st \<longleftrightarrow> slotsOk cfg (sd_requests st) (sd_admission st) (sd_inflight st)"

lemma ledger_frame [simp]:
  "ledger cfg i ctx (count f st) = ledger cfg i ctx st" "ledger cfg i ctx (st\<lparr>sd_queue := q\<rparr>) = ledger cfg i ctx st"
  "ledger cfg i ctx (st\<lparr>sd_pool := p\<rparr>) = ledger cfg i ctx st" "ledger cfg i ctx (st\<lparr>sd_tasks := t\<rparr>) = ledger cfg i ctx st"
  "ledger cfg i ctx (st\<lparr>sd_watchdog := w\<rparr>) = ledger cfg i ctx st" "ledger cfg i ctx (respond j r st) = ledger cfg i ctx st"
  by (simp_all add: ledger_def count_def respond_def)

lemma ledger_phase: "ledger cfg i ctx st \<Longrightarrow> slotOf p = contextSlot ctx \<Longrightarrow> inTry p = contextInTry ctx \<Longrightarrow> sidecarSlots cfg (setPhase i p st)"
  by (auto simp: ledger_def sidecarSlots_def setPhase_def intro: slotsOk_same)

lemma phase_ledger:
  assumes "sidecarSlots cfg st" "i < length (sd_requests st)"
    "contextSlot ctx = slotOf (sd_requests st ! i)" "contextInTry ctx = inTry (sd_requests st ! i)"
  shows "ledger cfg i ctx st"
proof -
  have "slotsOk cfg ((sd_requests st)[i := sd_requests st ! i]) (sd_admission st) (sd_inflight st)"
    using assms(1) by (simp add: sidecarSlots_def)
  from slotsOk_same [OF this, of "placeholder ctx"] assms(2-4) show ?thesis by (simp add: ledger_def)
qed

lemma ledger_end: "ledger cfg i ctx st \<Longrightarrow> ledger cfg i BeforeAdmission (endContext ctx st)"
  using slotsOk_release [of cfg "sd_requests st" i "placeholder ctx" "sd_admission st" "sd_inflight st"]
  by (cases ctx) (auto simp: ledger_def leaveTry_def)

lemma answer_slots: "ledger cfg i ctx st \<Longrightarrow> sidecarSlots cfg (answer i ctx r st)"
  unfolding answer_def by (rule ledger_phase [OF ledger_end]) simp_all

lemma escape_slots:
  assumes "ledger cfg i ctx st"
  shows "sidecarSlots cfg (escape i ctx st)"
proof (cases ctx)
  case (InTry slot)
  then show ?thesis using ledger_phase [OF ledger_end [OF assms], of "Crashed None"] by simp
next
  case (InCatch slot)
  then show ?thesis using ledger_phase [OF ledger_end [OF assms], of "Crashed None"] by simp
qed (use ledger_phase [OF assms] in simp_all)

lemma failOnce_slots:
  assumes "failOnce cfg h timings i ctx reason status extra st = Some st'" "ledger cfg i ctx st"
  shows "sidecarSlots cfg st'"
  using assms
  by (auto simp: failOnce_def Let_def split: option.splits prod.splits enqueue_answer.splits if_splits
      intro!: answer_slots ledger_phase [where ctx = ctx])

lemma catchError_slots: "ledger cfg i (InTry slot) st \<Longrightarrow> sidecarSlots cfg (catchError cfg h timings i slot message st)"
proof -
  assume "ledger cfg i (InTry slot) st"
  then have "ledger cfg i (InCatch slot) (count (countCaught message) st)" by (simp add: ledger_def)
  then show ?thesis unfolding catchError_def Let_def
    by (auto split: option.split intro: failOnce_slots escape_slots [of _ _ "InCatch slot", simplified])
qed

lemma throwIn_slots: "ledger cfg i ctx st \<Longrightarrow> sidecarSlots cfg (throwIn cfg h timings i ctx message st)"
  by (cases ctx) (simp_all only: throwIn.simps catchError_slots escape_slots)

lemma failIn_slots: "ledger cfg i ctx st \<Longrightarrow> sidecarSlots cfg (failIn cfg h thrown timings i ctx reason extra st)"
  by (auto simp: failIn_def split: option.split intro: throwIn_slots failOnce_slots)

lemma shouldRefuse_None: "shouldRefuse c n lag depth bytes = None \<Longrightarrow> n < sc_inflight_shed_threshold c"
  by (auto simp: shouldRefuse_def split: if_splits)

lemma decideStart_slots:
  assumes "ledger cfg i BeforeAdmission st"
  shows "sidecarSlots cfg (decideStart cfg h thrown timings i req st)"
proof -
  have base: "ledger cfg i BeforeAdmission (st1\<lparr>sd_admission := a\<rparr>)"
    if "ledger cfg i BeforeAdmission st1" "ad_active_requests a = ad_active_requests (sd_admission st1)"
      "ad_request_slots a = ad_request_slots (sd_admission st1)" for st1 a
    using that slotsOk_frame by (auto simp: ledger_def)
  have acquired: "ledger cfg i (Saturated slot) (st1\<lparr>sd_admission := a1\<rparr>)"
    if "ledger cfg i BeforeAdmission st1" "ad_active_requests a = ad_active_requests (sd_admission st1)"
      "ad_request_slots a = ad_request_slots (sd_admission st1)" "tryAcquireRequest (dg_limits cfg) a = (a1, Some slot)" for st1 a a1 slot
    using slotsOk_acquire [OF _ _ that(4)] base [OF that(1-3)] by (simp add: ledger_def)
  have entered: "ledger cfg i (InTry slot) (st1\<lparr>sd_inflight := sd_inflight st1 + 1\<rparr>)"
    if "ledger cfg i (Saturated slot) st1" "shouldRefuse (dg_saturation cfg) (sd_inflight st1) lag depth bytes = None" for st1 slot lag depth bytes
    using slotsOk_enter that shouldRefuse_None by (simp add: ledger_def)
  have note_same: "ad_active_requests a = ad_active_requests b \<and> ad_request_slots a = ad_request_slots b"
    if "noteSocketRequest (dg_limits cfg) b k = (a, ok)" for a b k ok
    using that by (auto simp: noteSocketRequest_def Let_def split: if_splits)
  have refused_same: "ad_active_requests a = ad_active_requests b \<and> ad_request_slots a = ad_request_slots b"
    if "tryAcquireRequest (dg_limits cfg) b = (a, None)" for a b
    using that by (auto simp: tryAcquireRequest_def split: if_splits)
  show ?thesis
  proof (cases "canAcceptDecisions (sd_watchdog st)")
    case False
    then show ?thesis using assms by (simp add: decideStart_def Let_def failIn_slots)
  next
    case True
    define st0 where "st0 = count (\<lambda>c. c\<lparr>dk_requests := dk_requests c + 1,
            dk_browser_origin_requests := dk_browser_origin_requests c + (if hr_origin req then 1 else 0)\<rparr>) st"
    have st0: "ledger cfg i BeforeAdmission st0" "canAcceptDecisions (sd_watchdog st0)" using assms True by (simp_all add: st0_def)
    obtain a ok where n: "noteSocketRequest (dg_limits cfg) (sd_admission st0) (hr_socket req) = (a, ok)" by fastforce
    obtain a1 slot where acquire: "tryAcquireRequest (dg_limits cfg) a = (a1, slot)" by fastforce
    note step = decideStart_def [of cfg h thrown timings i req st, folded st0_def]
    show ?thesis
    proof (cases "ok \<and> slot \<noteq> None")
      case True
      then obtain k where k: "ok" "slot = Some k" by auto
      note held = acquired [OF st0(1) conjunct1 [OF note_same [OF n]] conjunct2 [OF note_same [OF n]] acquire [unfolded k]]
      show ?thesis using st0(2) held entered [OF held]
        by (auto simp: step n k acquire [unfolded k] Let_def split: option.split
            intro!: failIn_slots ledger_phase [where ctx = "InTry k"])
    next
      case False
      then show ?thesis using st0 base [OF st0(1), of a] base [OF st0(1), of a1] note_same [OF n] refused_same [of a a1] acquire
        by (cases ok; cases slot) (auto simp: step n Let_def intro!: failIn_slots)
    qed
  qed
qed

lemma decideBody_slots: "ledger cfg i (InTry slot) st \<Longrightarrow> sidecarSlots cfg (decideBody cfg h thrown timings i slot body st)"
  unfolding decideBody_def
  by (auto split: sum.split option.split prod.split submit_answer.split simp del: canonicalizeJson.simps
      intro!: catchError_slots failIn_slots ledger_phase [where ctx = "InTry slot"])

lemma decideReply_slots: "ledger cfg i (InTry slot) st \<Longrightarrow> sidecarSlots cfg (decideReply cfg h thrown timings i slot raw reply st)"
  unfolding decideReply_def answerReceipt_def Let_def
  by (auto split: pool_reply.split sum.split prod.split enqueue_answer.split
      intro!: catchError_slots failIn_slots answer_slots ledger_phase [where ctx = "InTry slot"])

lemma decideDurable_slots:
  "ledger cfg i (InTry slot) st \<Longrightarrow> sidecarSlots cfg (decideDurable cfg h thrown timings i slot receipt resolved st)"
  by (simp add: decideDurable_def answerReceipt_def answer_slots catchError_slots)

lemma refusalSettled_slots: "ledger cfg i ctx st \<Longrightarrow> sidecarSlots cfg (refusalSettled cfg h thrown timings i ctx r resolved st)"
  by (simp add: refusalSettled_def answer_slots throwIn_slots)

lemma slots_frame [simp]:
  "sidecarSlots cfg (st\<lparr>sd_queue := q\<rparr>) = sidecarSlots cfg st" "sidecarSlots cfg (st\<lparr>sd_pool := p\<rparr>) = sidecarSlots cfg st"
  "sidecarSlots cfg (st\<lparr>sd_pool := p, sd_tasks := t\<rparr>) = sidecarSlots cfg st"
  "sidecarSlots cfg (st\<lparr>sd_watchdog := w, sd_event_loop_lag := lag\<rparr>) = sidecarSlots cfg st"
  "sidecarSlots cfg (st\<lparr>sd_policy := pol, sd_policy_hash := ph\<rparr>) = sidecarSlots cfg st"
  by (simp_all add: sidecarSlots_def)

lemma sidecar_step_slots:
  assumes "sidecar_step cfg h policies st st'" "sidecarSlots cfg st"
  shows "sidecarSlots cfg st'"
  using assms
proof (induction rule: sidecar_step.induct)
  case (Arrives st thrown timings req)
  have "slotsOk cfg (sd_requests st @ [Finished]) (sd_admission st) (sd_inflight st)"
    using Arrives by (auto simp: sidecarSlots_def slotsOk_def holders_def trying_def nth_append less_Suc_eq split: if_splits)
  then have "ledger cfg (length (sd_requests st)) BeforeAdmission (st\<lparr>sd_requests := sd_requests st @ [Finished]\<rparr>)"
    by (simp add: ledger_def)
  then show ?case by (rule decideStart_slots)
next
  case (BodyRead i st slot thrown timings body)
  then show ?case using phase_ledger [OF BodyRead(3,1), of "InTry slot"] decideBody_slots by simp
next
  case (Replied i st slot task raw reply thrown timings)
  then show ?case using phase_ledger [OF Replied(4,1), of "InTry slot"] decideReply_slots by simp
next
  case (Settled i st slot promise receipt resolved thrown timings)
  then show ?case using phase_ledger [OF Settled(4,1), of "InTry slot"] decideDurable_slots by simp
next
  case (RefusalSettled i st ctx promise r resolved thrown timings)
  then show ?case using phase_ledger [OF RefusalSettled(4,1), of ctx] refusalSettled_slots by simp
next
  case (SocketOpens st)
  then show ?case unfolding sidecarSlots_def by (simp add: slotsOk_frame tryAcquireSocket_def)
next
  case (SocketCloses st k)
  then show ?case unfolding sidecarSlots_def by (simp add: slotsOk_frame releaseSocket_def)
qed simp_all

lemma sidecar_reachable_slots: "sidecar_reachable cfg h policies st \<Longrightarrow> sidecarSlots cfg st"
proof (induction rule: sidecar_reachable.induct)
  case (Starts a b c adm p ph now)
  have "admissionOk (dg_limits cfg) adm" using createAdmissionController_ok [OF Starts(1)] by blast
  moreover have "ad_request_slots adm = []" using Starts(1) unfolding createAdmissionController_def Let_def guard_Inr by auto
  ultimately show ?case unfolding sidecarSlots_def startSidecar_simps
    by (simp add: slotsOk_def admissionOk_def holders_def trying_def openSlots_def)
next
  case (Steps st st')
  show ?case by (rule sidecar_step_slots [OF Steps(2,3)])
qed

text \<open>Between the two counts are the refusals of the saturation check that still wait, and those that crashed.\<close>

definition outside :: "decide_phase list \<Rightarrow> nat" where
  "outside rs = length (filter (\<lambda>p. slotOf p \<noteq> None \<and> \<not> inTry p) rs)"

lemma inTry_holds: "inTry p \<Longrightarrow> slotOf p \<noteq> None"
proof (cases p)
  case (AwaitRefusal ctx promise r)
  then show "inTry p \<Longrightarrow> slotOf p \<noteq> None" by (cases ctx) simp_all
qed simp_all

lemma holders_split: "holders rs = trying rs + outside rs"
  unfolding holders_def trying_def outside_def by (induction rs) (use inTry_holds in auto)

lemma holders_Nil: "\<forall>p \<in> set rs. slotOf p = None \<Longrightarrow> holders rs = 0"
  by (simp add: holders_def)

end
