(* ===== verification/ReceiptHistoryProps.thy ===== *)
theory ReceiptHistoryProps
  imports ReceiptHistory
begin

text \<open>
  The receipt log of the sidecar, replayed: a receipt the pipeline issued from empty stores verifies and replays, the
  receipt of a refusal never does, and the summary over the recent lines counts exactly the refusals among them.
\<close>

section \<open>The bounds of a listing\<close>

lemma clampLimit_bounds: "1 \<le> clampLimit t \<and> clampLimit t \<le> 500"
  by (auto simp: clampLimit_def split: option.split)

lemma clampReceiptLimit_bounds: "clampReceiptLimit tx v = Some n \<Longrightarrow> 1 \<le> n \<and> n \<le> 500"
  using clampLimit_bounds by (auto simp: clampReceiptLimit_def)

section \<open>Issued receipts\<close>

lemma isObject_falsy: "isObject v \<Longrightarrow> \<not> falsy v"
  by (cases v rule: isObject.cases) (auto simp: falsy_def)

lemma isObject_objectLike: "isObject v \<Longrightarrow> objectLike v"
  by (cases v rule: isObject.cases) (auto simp: objectLike_def)

lemma issued_object: "issuedJson r = JObj (normObject (receiptFields r))"
  by (simp only: issuedJson_def normJson_JObj)

lemma issued_verified:
  assumes "wfJson (JObj (receiptFields r))" "verifyReceiptSignature h (receiptFields r) = Some True"
  shows "verifySignedReceipt h (issuedJson r) = Some True"
  using assms by (simp add: issued_object verifyReceiptSignature_norm del: wfJson.simps)

lemma issued_signed:
  assumes "wfJson (JObj (receiptFields r))"
  shows "\<not> falsy (getProp (Some (issuedJson r)) ''verifiable_signature'')"
  using issued_top(5) [OF assms] by (rule isObject_falsy)

lemma issued_replay:
  assumes "keyPair h" "executeDeterministicPipeline h initialState raw = (st', Some (Inr x))"
  shows "replayReceiptDeterministically h tx st (issuedJson (xr_receipt x)) =
    (st', Some (compared (issuedJson (xr_receipt x)) []))"
proof -
  let ?r = "xr_receipt x"
  note x = executed_receipt [OF assms]
  note top = issued_top [OF x(1)]
  have "executeDeterministicPipeline h initialState (rp_canonical_request (sr_payload ?r)) = (st', Some (Inr x))"
    using receipt_request [OF assms(2)] assms(2) by simp
  moreover from assms(2) obtain env where env: "buildReceipt h (envInput h env (snd (envArm h initialState env))) = Some ?r"
    "wfArm (snd (envArm h initialState env))" by (rule pipeline_Inr)
  moreover have "compareDecisions (issuedJson ?r) ?r = []"
    by (simp add: compareDecisions_def Let_def compareField_def top issued_decision [OF x(1)])
  ultimately show ?thesis
    using issued_verified [OF x(1,2)] issued_signed [OF x(1)] isObject_objectLike [OF top(6)]
    by (simp add: replayReceiptDeterministically_def Let_def top(1,2) resetRuntimeState_initial) (simp add: issued_object)
qed

lemma issued_contract:
  assumes "keyPair h" "executeDeterministicPipeline h initialState raw = (st', Some (Inr x))"
  shows "verifyReceiptContract h (issuedJson (xr_receipt x)) = Some (contractResult ReceiptValid None (issuedJson (xr_receipt x)))"
proof -
  let ?r = "xr_receipt x"
  note x = executed_receipt [OF assms]
  note top = issued_top [OF x(1)]
  from assms(2) obtain env where env: "buildReceipt h (envInput h env (snd (envArm h initialState env))) = Some ?r"
    "wfArm (snd (envArm h initialState env))" by (rule pipeline_Inr)
  have same: "do_request_hash (rp_decision_output (sr_payload ?r)) = rp_request_hash (sr_payload ?r)"
    using buildReceipt_fields(1) [OF _ env(1)] env(2) by (simp add: envInput_def receiptPayload_def)
  have "getProp (Some (issuedJson ?r)) ''receipt'' = None"
    unfolding issued_norm(1) [OF x(1)] by (simp add: receiptFields_def payloadFields_def getProp_def)
  then have "receiptOfInput (issuedJson ?r) = issuedJson ?r" by (simp add: receiptOfInput_def Let_def objectLike_def)
  then show ?thesis
    using issued_verified [OF x(1,2)] issued_signed [OF x(1)] isObject_objectLike [OF top(6)]
    by (simp add: verifyReceiptContract_def Let_def top(2,3) issued_decision(3) [OF x(1)] same isStr_def) (simp add: issued_object)
qed

section \<open>Receipts of refusals\<close>

definition builtRefusal :: "host \<Rightarrow> jsobject \<Rightarrow> bool" where
  "builtRefusal h r \<longleftrightarrow> (\<exists>i v. rf_policy_version i = Some (JStr v) \<and> buildSidecarRefusalReceipt h i = Some r)"

lemma refusal_fields:
  assumes "builtRefusal h r"
  shows "wfJson (JObj r)"
    and "getProp (Some (JObj r)) ''schema_version'' = Some (JStr (jstr ''ecs.receipt.v2''))"
    and "isObject (getProp (Some (JObj r)) ''signature'')"
    and "isStr (getProp (Some (JObj r)) ''canonical_request'')" "isStr (getProp (Some (JObj r)) ''request_hash'')"
    and "getProp (Some (JObj r)) ''receipt'' = None" "getProp (Some (JObj r)) ''action'' = None"
    and "isObject (decisionOf (JObj r))"
    and "getProp (decisionOf (JObj r)) ''request_hash'' = getProp (Some (JObj r)) ''request_hash''"
    and "isStr (getProp (decisionOf (JObj r)) ''execution_id'')" "isStr (getProp (decisionOf (JObj r)) ''prevented_cost_usd'')"
proof -
  from assms obtain i v where i: "rf_policy_version i = Some (JStr v)" "buildSidecarRefusalReceipt h i = Some r"
    by (auto simp: builtRefusal_def)
  from i(2) obtain p req rh dh vh uh t fp s where "rf_policy_version i = Some p" and r: "r = refusalPayload i p req rh dh vh uh @
         [(jstr ''signature'', JObj
            [(jstr ''algorithm'', JStr (jstr ''HMAC-SHA256'')), (jstr ''key_id'', JStr refusalKeyId),
             (jstr ''value'', JStr (hexEncode (hs_hmac h (utf8Encode refusalSecret) (utf8Encode t))))]),
          (jstr ''verifiable_signature'', JObj
            [(jstr ''algorithm'', JStr (jstr ''ED25519'')), (jstr ''key_id'', JStr (receiptKeyId fp)),
             (jstr ''public_key_fingerprint'', JStr fp), (jstr ''value'', JStr s)])]"
    by (rule refusal_parts)
  with i(1) have p: "p = JStr v" by simp
  show "wfJson (JObj r)"
    by (simp add: r p refusalPayload_def Let_def jint_def isSafeInteger_def maxSafe_def)
  show "getProp (Some (JObj r)) ''schema_version'' = Some (JStr (jstr ''ecs.receipt.v2''))"
    "isObject (getProp (Some (JObj r)) ''signature'')"
    "isStr (getProp (Some (JObj r)) ''canonical_request'')" "isStr (getProp (Some (JObj r)) ''request_hash'')"
    "getProp (Some (JObj r)) ''receipt'' = None" "getProp (Some (JObj r)) ''action'' = None"
    "isObject (decisionOf (JObj r))"
    "getProp (decisionOf (JObj r)) ''request_hash'' = getProp (Some (JObj r)) ''request_hash''"
    "isStr (getProp (decisionOf (JObj r)) ''execution_id'')" "isStr (getProp (decisionOf (JObj r)) ''prevented_cost_usd'')"
    by (simp_all add: r refusalPayload_def Let_def getProp_def decisionOf_def isStr_def)
qed

lemma isStr_norm: "isStr (map_option normJson v) = isStr v"
  by (cases v) (auto simp: isStr_def split: json.splits)

lemma refusal_norm:
  assumes "builtRefusal h r"
  shows "getProp (Some (normJson (JObj r))) k = map_option normJson (getProp (Some (JObj r)) k)"
    and "decisionOf (normJson (JObj r)) = map_option normJson (decisionOf (JObj r))"
    and "getProp (decisionOf (normJson (JObj r))) k = map_option normJson (getProp (decisionOf (JObj r)) k)"
proof -
  have wf: "wfValue (Some (JObj r))" using refusal_fields(1) [OF assms] by (simp only: wfValue_def option.case)
  have start: "Some (normJson (JObj r)) = map_option normJson (Some (JObj r))" by (simp only: option.map)
  show "getProp (Some (normJson (JObj r))) k = map_option normJson (getProp (Some (JObj r)) k)"
    "decisionOf (normJson (JObj r)) = map_option normJson (decisionOf (JObj r))"
    "getProp (decisionOf (normJson (JObj r))) k = map_option normJson (getProp (decisionOf (JObj r)) k)"
    by (simp_all only: decisionOf_def start getProp_norm1 [OF wf] getProp_norm1 [OF wfValue_getProp [OF wf]])
qed

lemma refusal_unverified:
  assumes "builtRefusal h r" "\<not> refusalHmacCollision h"
  shows "verifySignedReceipt h (normJson (JObj r)) = Some False"
proof -
  from assms(1) obtain i where "buildSidecarRefusalReceipt h i = Some r" by (auto simp: builtRefusal_def)
  from refusal_signature [OF this assms(2)] verifyReceiptSignature_norm [OF refusal_fields(1) [OF assms(1)], of h]
  show ?thesis by (simp add: normJson_JObj del: normJson.simps)
qed

lemma refusal_signed:
  assumes "builtRefusal h r"
  shows "\<not> falsy (getProp (Some (normJson (JObj r))) ''signature'')"
  using refusal_fields(3) [OF assms] refusal_norm(1) [OF assms] isObject_norm isObject_falsy by metis

lemma refusal_replay:
  assumes "builtRefusal h r" "\<not> refusalHmacCollision h"
  shows "replayReceiptDeterministically h tx st (normJson (JObj r)) =
    (st, Some (replayFailure SignatureFail (jstr ''receipt signature verification failed'') (normJson (JObj r)) None None))"
proof -
  have "getProp (Some (normJson (JObj r))) ''schema_version'' = Some (JStr (jstr ''ecs.receipt.v2''))"
    by (simp only: refusal_norm(1) [OF assms(1)] refusal_fields(2) [OF assms(1)] norm_leaf)
  with refusal_signed [OF assms(1)] refusal_unverified [OF assms] show ?thesis
    by (simp add: replayReceiptDeterministically_def Let_def del: normJson.simps) (simp add: normJson_JObj)
qed

lemma refusal_contract:
  assumes "builtRefusal h r" "\<not> refusalHmacCollision h"
  shows "verifyReceiptContract h (normJson (JObj r)) =
    Some (contractResult SignatureFail (Some (jstr ''receipt signature verification failed'')) (normJson (JObj r)))"
proof -
  let ?v = "normJson (JObj r)"
  note norm = refusal_norm [OF assms(1)] and fields = refusal_fields [OF assms(1)]
  have "receiptOfInput ?v = ?v"
    by (simp add: receiptOfInput_def Let_def objectLike_def norm(1) fields(6) del: normJson.simps)
  moreover have "isStr (getProp (Some ?v) ''canonical_request'')" "isStr (getProp (Some ?v) ''request_hash'')"
    by (simp_all only: norm(1) isStr_norm fields(4,5))
  moreover have "getProp (decisionOf ?v) ''request_hash'' = getProp (Some ?v) ''request_hash''"
    by (simp only: norm(1,3) fields(9))
  moreover have "objectLike (decisionOf ?v)"
    using fields(8) by (intro isObject_objectLike) (simp only: norm(2) isObject_norm)
  ultimately show ?thesis using refusal_signed [OF assms(1)] refusal_unverified [OF assms]
    by (simp add: verifyReceiptContract_def Let_def del: normJson.simps) (simp add: normJson_JObj)
qed

section \<open>A log of issued receipts and refusals\<close>

datatype log_entry = Issued execution_result | Refused jsobject

fun entryFields :: "log_entry \<Rightarrow> jsobject" where
  "entryFields (Issued x) = receiptFields (xr_receipt x)"
| "entryFields (Refused r) = r"

fun isRefused :: "log_entry \<Rightarrow> bool" where
  "isRefused (Issued x) = False"
| "isRefused (Refused r) = True"

fun entryOk :: "host \<Rightarrow> log_entry \<Rightarrow> bool" where
  "entryOk h (Issued x) = (\<exists>raw st'. executeDeterministicPipeline h initialState raw = (st', Some (Inr x)))"
| "entryOk h (Refused r) = builtRefusal h r"

definition entryLine :: "log_entry \<Rightarrow> jsstring" where
  "entryLine e = canonicalText (JObj (entryFields e))"

definition entryJson :: "log_entry \<Rightarrow> json" where
  "entryJson e = normJson (JObj (entryFields e))"

definition logText :: "log_entry list \<Rightarrow> jsstring" where
  "logText entries = concat (map (\<lambda>e. entryLine e @ [10]) entries)"

lemma entry_wf: "keyPair h \<Longrightarrow> entryOk h e \<Longrightarrow> wfJson (JObj (entryFields e))"
  by (cases e) (auto simp del: wfJson.simps dest: executed_receipt(1) refusal_fields(1))

text \<open>The replay of an entry, and its failure when it is a refusal.\<close>

lemma entry_replay:
  assumes "keyPair h" "\<not> refusalHmacCollision h" "entryOk h e"
  obtains st1 res where "replayReceiptDeterministically h tx st (entryJson e) = (st1, Some res)"
    and "rr_status res = (if isRefused e then SignatureFail else Pass)"
    and "isRefused e \<Longrightarrow> rr_reason res = Some (jstr ''receipt signature verification failed'')"
proof (cases e)
  case (Issued x)
  with assms(3) obtain raw st' where "executeDeterministicPipeline h initialState raw = (st', Some (Inr x))" by auto
  from issued_replay [OF assms(1) this, of tx st] that Issued show ?thesis
    by (simp add: entryJson_def issuedJson_def compared_def Let_def del: normJson.simps)
next
  case (Refused r)
  with assms(3) have "builtRefusal h r" by simp
  from refusal_replay [OF this assms(2), of tx st] that Refused show ?thesis
    by (simp add: entryJson_def replayFailure_def Let_def del: normJson.simps)
qed

text \<open>The line of an entry is listed.\<close>

lemma normalizeReceipt_ok:
  assumes "isStr (getProp (decisionOf raw) ''execution_id'')" "isStr (getProp (decisionOf raw) ''prevented_cost_usd'')"
  obtains r where "normalizeReceipt tx raw = Some r" "rc_raw r = raw"
proof -
  from assms obtain e p where "getProp (decisionOf raw) ''execution_id'' = Some (JStr e)"
    "getProp (decisionOf raw) ''prevented_cost_usd'' = Some (JStr p)"
    by (auto simp: isStr_def split: option.splits json.splits)
  then have "\<exists>r. normalizeReceipt tx raw = Some r \<and> rc_raw r = raw"
    unfolding normalizeReceipt_def Let_def
    by (cases "isStr (getProp (Some raw) ''action'')"; cases "falsy (getProp (decisionOf raw) ''execution_id'')") (simp_all add: nullish_def)
  with that show ?thesis by blast
qed

lemma entry_listed:
  assumes "readsCanonical parse" "keyPair h" "entryOk h e"
  obtains r where "readReceiptLine tx parse (entryLine e) = Inr r" "rc_raw r = entryJson e"
proof -
  note wf = entry_wf [OF assms(2,3)]
  have parse: "parse (entryLine e) = Some (entryJson e)"
    using assms(1) wf by (simp add: readsCanonical_def entryLine_def entryJson_def del: wfJson.simps normJson.simps)
  have str: "isStr (getProp (decisionOf (entryJson e)) ''execution_id'')" "isStr (getProp (decisionOf (entryJson e)) ''prevented_cost_usd'')"
  proof (atomize (full), cases e)
    case (Issued x)
    with issued_decision(7,10) [of "xr_receipt x"] wf
    show "isStr (getProp (decisionOf (entryJson e)) ''execution_id'') \<and> isStr (getProp (decisionOf (entryJson e)) ''prevented_cost_usd'')"
      by (simp add: entryJson_def issuedJson_def isStr_def del: wfJson.simps normJson.simps)
  next
    case (Refused r)
    with assms(3) have "builtRefusal h r" by simp
    from refusal_fields(10,11) [OF this] Refused
    show "isStr (getProp (decisionOf (entryJson e)) ''execution_id'') \<and> isStr (getProp (decisionOf (entryJson e)) ''prevented_cost_usd'')"
      by (simp only: entryJson_def entryFields.simps refusal_norm(3) [OF \<open>builtRefusal h r\<close>] isStr_norm)
  qed
  from str obtain r where "normalizeReceipt tx (entryJson e) = Some r" "rc_raw r = entryJson e" by (rule normalizeReceipt_ok)
  with that parse show ?thesis by (simp add: readReceiptLine_def entryJson_def normJson_JObj del: normJson.simps)
qed

lemma entry_trim: "keyPair h \<Longrightarrow> entryOk h e \<Longrightarrow> jsTrim (entryLine e) = entryLine e \<and> entryLine e \<noteq> []"
proof -
  assume ok: "keyPair h" "entryOk h e"
  obtain u where u: "entryLine e = [123] @ u @ [125]" using braces [OF entry_wf [OF ok]] by (auto simp: entryLine_def)
  have "\<not> isJsSpace 123" "\<not> isJsSpace 125" by code_simp+
  with u show ?thesis by (simp add: jsTrim_def)
qed

lemma logText_join: "entries \<noteq> [] \<Longrightarrow> logText entries = joinWith [10] (map entryLine entries) @ [10]"
  unfolding logText_def by (induction entries rule: list_nonempty_induct) (auto simp: neq_Nil_conv)

lemma log_lines:
  assumes "keyPair h" "\<forall>e \<in> set entries. entryOk h e" "entries \<noteq> []"
  shows "jsTrim (logText entries) \<noteq> [] \<and> splitLines [] (jsTrim (logText entries)) = map entryLine entries"
proof -
  let ?ts = "map entryLine entries"
  have vis: "\<forall>t \<in> set ?ts. list_all visible t" and br: "\<forall>t \<in> set ?ts. \<exists>u. t = [123] @ u @ [125]"
    using assms(2) entry_wf [OF assms(1)] visible_canonicalText braces by (auto simp: entryLine_def)
  have trim: "jsTrim (logText entries) = joinWith [10] ?ts"
    using jsTrim_lines [of ?ts] br assms(3) by (simp add: logText_join)
  have "joinWith [10] ?ts \<noteq> []"
    using assms(3) br by (cases "([10] :: jsstring, ?ts)" rule: joinWith.cases) auto
  with trim splitLines_join [OF _ vis] assms(3) show ?thesis by simp
qed

lemma recent_entries:
  assumes "readsCanonical parse" "keyPair h" "\<forall>e \<in> set entries. entryOk h e" "map snd lines = map entryLine entries"
  shows "\<exists>rs. recentReceipts tx parse n lines = (rs, []) \<and> map rc_raw rs = map entryJson (take n entries)"
  using assms(3,4)
proof (induction entries arbitrary: n lines)
  case (Cons e es)
  then obtain number ls where lines: "lines = (number, entryLine e) # ls" "map snd ls = map entryLine es" by (cases lines) auto
  obtain r where r: "readReceiptLine tx parse (entryLine e) = Inr r" "rc_raw r = entryJson e"
    using entry_listed [OF assms(1,2)] Cons.prems(1) by (metis list.set_intros(1))
  show ?case
  proof (cases n)
    case (Suc m)
    from Cons.IH [OF _ lines(2), of m] Cons.prems(1) obtain rs where
      "recentReceipts tx parse m ls = (rs, [])" "map rc_raw rs = map entryJson (take m es)" by auto
    with r Suc entry_trim [OF assms(2), of e] Cons.prems(1) show ?thesis by (simp add: lines(1))
  qed (simp add: lines(1))
qed simp

lemma replay_entries:
  assumes "keyPair h" "\<not> refusalHmacCollision h" "\<forall>e \<in> set entries. entryOk h e" "map rc_raw rs = map entryJson entries"
  shows "\<exists>st1 fs. replayItems (replayReceiptDeterministically h tx) st rs = (st1, Some (length (filter isRefused entries), fs)) \<and>
    map fl_reason fs = replicate (length (filter isRefused entries)) (jstr ''receipt signature verification failed'')"
  using assms(3,4)
proof (induction entries arbitrary: st rs)
  case (Cons e es)
  then obtain r rest where rs: "rs = r # rest" "rc_raw r = entryJson e" "map rc_raw rest = map entryJson es" by (cases rs) auto
  from Cons.prems(1) obtain st1 res where res: "replayReceiptDeterministically h tx st (entryJson e) = (st1, Some res)"
    "rr_status res = (if isRefused e then SignatureFail else Pass)"
    "isRefused e \<Longrightarrow> rr_reason res = Some (jstr ''receipt signature verification failed'')"
    using entry_replay [OF assms(1,2)] by (metis list.set_intros(1))
  from Cons.IH [OF _ rs(3), of st1] Cons.prems(1) obtain st2 fs where
    "replayItems (replayReceiptDeterministically h tx) st1 rest = (st2, Some (length (filter isRefused es), fs))"
    "map fl_reason fs = replicate (length (filter isRefused es)) (jstr ''receipt signature verification failed'')" by auto
  with res show ?case by (simp add: rs(1,2) orDefault_def)
qed simp

lemma summary_of_refusals:
  assumes "map fl_reason fs = replicate n (jstr ''receipt signature verification failed'')"
  shows "summarizeReplayStatus fs = (if n = 0 then SummaryPass else SummarySignatureFail) \<and> length fs = n"
proof -
  have len: "length fs = n" using assms by (metis length_map length_replicate)
  have sub: "jsIncludes (jstr ''receipt signature verification failed'') (jstr ''signature'')" by code_simp
  show ?thesis
  proof (cases fs)
    case (Cons f rest)
    then have "fl_reason f = jstr ''receipt signature verification failed''" using assms by (cases n) auto
    with Cons sub len show ?thesis by (auto simp: summarizeReplayStatus_def)
  qed (use len in \<open>simp add: summarizeReplayStatus_def\<close>)
qed

text \<open>
  The replay of the sidecar's log counts its refusals as signature failures. On a log of receipts issued by the workers and of
  receipts of the sidecar's own refusals, the replay of the last lines (between 1 and 500 of them) answers, finds no drift in any
  issued receipt, and reports every refusal among them as a failed signature: the status is PASS only when there is none. The one
  exception would be an operator whose HMAC secret collides with the built-in one.
\<close>

theorem replay_counts_refusals:
  assumes "readsCanonical parse" "keyPair h" "\<not> refusalHmacCollision h" "\<forall>e \<in> set entries. entryOk h e"
    and "clampReceiptLimit tx limit = Some n"
  shows "\<exists>st1 s. replayRecentReceipts tx parse (replayReceiptDeterministically h tx) st (Some (logText entries)) n = (st1, Some s) \<and>
    sm_checked s = min (length entries) (nat n) \<and> sm_drift s = 0 \<and>
    sm_signature_failures s = length (filter isRefused (take (nat n) (rev entries))) \<and>
    (sm_status s = SummaryPass \<longleftrightarrow> filter isRefused (take (nat n) (rev entries)) = [])"
proof (cases "entries = []")
  case True
  moreover have "jsTrim [] = []" by (simp add: jsTrim_def)
  ultimately show ?thesis
    by (simp add: logText_def replayRecentReceipts_def readRecentReceipts_def Let_def summarizeReplayStatus_def)
next
  case False
  let ?recent = "take (nat n) (rev entries)"
  have "map snd (numberedLines (map entryLine entries)) = map entryLine (rev entries)"
    by (simp add: numberedLines_def rev_map [symmetric] del: upt_Suc)
  from recent_entries [OF assms(1,2) _ this, of tx "nat n"] assms(4) obtain rs where
    rs: "recentReceipts tx parse (nat n) (numberedLines (map entryLine entries)) = (rs, [])" "map rc_raw rs = map entryJson ?recent"
    by auto
  have read: "readRecentReceipts tx parse (Some (logText entries)) n = (rs, [])"
    using log_lines [OF assms(2,4) False] rs(1) by (simp add: readRecentReceipts_def Let_def)
  have "\<forall>e \<in> set ?recent. entryOk h e" using assms(4) by (auto dest: in_set_takeD)
  from replay_entries [OF assms(2,3) this rs(2), of tx st] obtain st1 fs where
    fs: "replayItems (replayReceiptDeterministically h tx) st rs = (st1, Some (length (filter isRefused ?recent), fs))"
    "map fl_reason fs = replicate (length (filter isRefused ?recent)) (jstr ''receipt signature verification failed'')" by blast
  have "length rs = min (length entries) (nat n)" using rs(2) by (metis length_map length_rev length_take min.commute)
  with read fs(1) summary_of_refusals [OF fs(2)] show ?thesis
    by (simp add: replayRecentReceipts_def)
qed

lemma refusal_builds:
  assumes "canSign h" "rf_policy_version i = Some (JStr v)" "wfJson (safeTimingSnapshot (rf_timings i))"
  obtains r where "buildSidecarRefusalReceipt h i = Some r"
proof -
  have wfPayload: "wfJson (JObj (refusalPayload i (JStr v) req rh dh vh uh))" for req rh dh vh uh
    by (simp add: refusalPayload_def Let_def jint_def isSafeInteger_def maxSafe_def)
  have signed: "\<exists>r. signRefusal h (refusalPayload i (JStr v) req rh dh vh uh) = Some r" for req rh dh vh uh
  proof -
    let ?p = "JObj (refusalPayload i (JStr v) req rh dh vh uh)"
    from assms(1) obtain g key where "hs_receiptSign h (utf8Encode (canonicalText ?p)) = Some g" "hs_rawKey h (hs_publicPem h) = Some key"
      unfolding canSign_def by (metis not_None_eq)
    then show ?thesis
      using canonicalizeJson_text [OF wfPayload, of req rh dh vh uh]
      by (simp add: signRefusal_def keyFingerprint_def signReceiptPayload_def del: canonicalizeJson.simps)
  qed
  have "wfJson (JObj [(jstr ''sidecar_refusal'', JStr a), (jstr ''request_id'', case b of None \<Rightarrow> JNull | Some s \<Rightarrow> JStr s)])"
    "wfJson (JObj [(jstr ''sidecar_refusal'', JStr a)])"
    "wfJson (JObj [(jstr ''reason_code'', JStr a), (jstr ''timings'', safeTimingSnapshot (rf_timings i))])"
    "wfJson (JObj [(jstr ''request_hash'', JStr c), (jstr ''policy_hash'', JStr d), (jstr ''decision'', JStr e),
       (jstr ''reason_code'', JStr a), (jstr ''policy_version'', JStr v), (jstr ''execution_id'', JStr f)])" for a b c d e f
    using assms(3) by (simp_all split: option.split)
  note texts = this [THEN canonicalizeJson_text]
  have "\<exists>r. buildSidecarRefusalReceipt h i = Some r"
    using signed by (cases "rf_decision_hash i")
      (simp_all add: buildSidecarRefusalReceipt_def Let_def hashCanonicalJson_def texts assms(2) del: canonicalizeJson.simps)
  with that show ?thesis by blast
qed

lemma builtRefusal_testHost:
  obtains r where "builtRefusal testHost r"
proof -
  let ?i = "\<lparr>rf_raw_body = [], rf_reason_code = jstr ''ERR_SYSTEM_SATURATED'', rf_policy_hash = [], rf_policy_version = Some (JStr [49]),
      rf_timings = [], rf_request_id = None, rf_request_hash = None, rf_decision_hash = None\<rparr>"
  obtain r where "buildSidecarRefusalReceipt testHost ?i = Some r"
    using refusal_builds [OF canSign_testHost, of ?i "[49]"] by (auto simp: safeTimingSnapshot_def map_filter_def)
  then have "builtRefusal testHost r" unfolding builtRefusal_def by (intro exI [of _ ?i]) simp
  with that show ?thesis by blast
qed

theorem replay_counts_refusals_witness:
  "\<forall>tx. \<exists>entries st1 s. length entries = 2 \<and>
     replayRecentReceipts tx strictReader (replayReceiptDeterministically testHost tx) initialState (Some (logText entries)) 5 =
       (st1, Some s) \<and> sm_checked s = 2 \<and> sm_signature_failures s = 1 \<and> sm_status s \<noteq> SummaryPass"
proof (rule allI)
  fix tx
  obtain st' x where x: "executeDeterministicPipeline testHost initialState (requestText makeBaseInput) = (st', Some (Inr x))"
    by (rule worker_allows_base)
  obtain r where "builtRefusal testHost r" by (rule builtRefusal_testHost)
  with x have ok: "\<forall>e \<in> set [Issued x, Refused r]. entryOk testHost e" by auto
  have no: "\<not> refusalHmacCollision testHost" by (simp add: refusalHmacCollision_def signingConfig_def)
  have "clampLimit (jstr ''5'') = 5" by code_simp
  then have limit: "clampReceiptLimit tx (Some (JStr (jstr ''5''))) = Some 5" by (simp add: clampReceiptLimit_def nullish_def)
  from replay_counts_refusals [OF host_laws no ok limit, of initialState] obtain st1 s where
    "replayRecentReceipts tx strictReader (replayReceiptDeterministically testHost tx) initialState
       (Some (logText [Issued x, Refused r])) 5 = (st1, Some s)"
    "sm_checked s = 2" "sm_signature_failures s = 1" "sm_status s \<noteq> SummaryPass" by auto
  then show "\<exists>entries st1 s. length entries = 2 \<and>
     replayRecentReceipts tx strictReader (replayReceiptDeterministically testHost tx) initialState (Some (logText entries)) 5 =
       (st1, Some s) \<and> sm_checked s = 2 \<and> sm_signature_failures s = 1 \<and> sm_status s \<noteq> SummaryPass" by (intro exI [of _ "[Issued x, Refused r]"]) auto
qed

section \<open>What a replay shows\<close>

lemma getProp_Some_object: "getProp v k = Some w \<Longrightarrow> isObject v"
  by (auto simp: getProp_def split: option.splits json.splits)

lemma signed_has_signature:
  assumes "verifySignedReceipt h receipt = Some True"
  shows "isObject (Some receipt)"
    and "\<not> (falsy (getProp (Some receipt) ''signature'') \<and> falsy (getProp (Some receipt) ''verifiable_signature''))"
proof -
  from assms obtain ps where ps: "receipt = JObj ps" "verifyReceiptSignature h ps = Some True"
    by (cases receipt) (auto split: if_splits)
  from ps(1) show "isObject (Some receipt)" by simp
  show "\<not> (falsy (getProp (Some receipt) ''signature'') \<and> falsy (getProp (Some receipt) ''verifiable_signature''))"
  proof
    assume none: "falsy (getProp (Some receipt) ''signature'') \<and> falsy (getProp (Some receipt) ''verifiable_signature'')"
    then have "getProp (map_of ps (jstr ''signature'')) ''algorithm'' = None"
      by (auto simp: ps(1) getProp_object dest!: getProp_Some_object isObject_falsy intro: ccontr)
    with none ps show False
      by (cases "signingConfig h") (auto simp: verifyReceiptSignature_def getProp_object Let_def bind_eq_Some_conv simp del: canonicalizeJson.simps)
  qed
qed

text \<open>
  The sidecar's replay is exact. When the replay of a receipt answers, it says PASS exactly when the receipt has the
  supported schema and a valid signature, and the pipeline, run on the stored request from empty stores, issues a receipt with the same
  request hash, verdict, decision hash and policy hash.
\<close>

theorem replay_pass_iff:
  assumes "replayReceiptDeterministically h tx st receipt = (st1, Some res)"
  shows "rr_status res = Pass \<longleftrightarrow>
    getProp (Some receipt) ''schema_version'' = Some (JStr (jstr ''ecs.receipt.v2'')) \<and> verifySignedReceipt h receipt = Some True \<and>
    (\<exists>request st' x. getProp (Some receipt) ''canonical_request'' = Some (JStr request) \<and>
       executeDeterministicPipeline h initialState request = (st', Some (Inr x)) \<and>
       getProp (Some receipt) ''request_hash'' = Some (JStr (rp_request_hash (sr_payload (xr_receipt x)))) \<and>
       (\<forall>f \<in> {''decision'', ''decision_hash'', ''policy_hash''}. getProp (decisionOf receipt) f =
          getProp (Some (decisionOutputJson (rp_decision_output (sr_payload (xr_receipt x))))) f))"
  (is "_ \<longleftrightarrow> ?schema \<and> ?signed \<and> (\<exists>request st' x. ?run request st' x)")
proof
  assume pass: "rr_status res = Pass"
  have fails: "rr_status (replayFailure s t v a b) = s" for s t v a b by (simp add: replayFailure_def Let_def)
  from assms pass have schema: ?schema and signed: ?signed
    unfolding replayReceiptDeterministically_def Let_def
    by (auto simp: fails split: if_splits option.splits bool.splits json.splits)
  from assms pass schema signed obtain request where request: "getProp (Some receipt) ''canonical_request'' = Some (JStr request)"
    unfolding replayReceiptDeterministically_def Let_def
    by (auto simp: fails split: if_splits option.splits json.splits)
  obtain st2 out where out: "executeDeterministicPipeline h initialState request = (st2, out)" by fastforce
  with assms pass schema signed request obtain x where x: "out = Some (Inr x)" "res = compared receipt (compareDecisions receipt (xr_receipt x))"
    unfolding replayReceiptDeterministically_def Let_def
    by (auto simp: fails resetRuntimeState_initial split: if_splits option.splits sum.splits)
  with pass have "compareDecisions receipt (xr_receipt x) = []" by (auto simp: compared_def Let_def split: if_splits)
  then have "?run request st2 x"
    using request out x(1) by (auto simp: compareDecisions_def compareField_def Let_def decision_fields split: if_splits)
  with schema signed show "?schema \<and> ?signed \<and> (\<exists>request st' x. ?run request st' x)" by blast
next
  assume "?schema \<and> ?signed \<and> (\<exists>request st' x. ?run request st' x)"
  then obtain request st' x where all: ?schema ?signed "?run request st' x" by blast
  then have "compareDecisions receipt (xr_receipt x) = []"
    by (simp add: compareDecisions_def compareField_def Let_def decision_fields)
  moreover have "getProp (decisionOf receipt) ''decision'' \<noteq> None" using all(3) by (simp add: decision_fields)
  then have "objectLike (decisionOf receipt)" by (auto dest: getProp_Some_object isObject_objectLike)
  moreover note signed_has_signature [OF all(2)]
  ultimately show "rr_status res = Pass"
    using assms all unfolding replayReceiptDeterministically_def Let_def
    by (auto simp: resetRuntimeState_initial compared_def Let_def split: if_splits)
qed

theorem replay_pass_iff_witness:
  "\<forall>tx. \<exists>receipt st1 res. replayReceiptDeterministically testHost tx initialState receipt = (st1, Some res) \<and> rr_status res = Pass \<and>
     verifySignedReceipt testHost receipt = Some True"
proof (rule allI)
  fix tx
  obtain st' x where x: "executeDeterministicPipeline testHost initialState (requestText makeBaseInput) = (st', Some (Inr x))"
    by (rule worker_allows_base)
  note replay = issued_replay [OF host_laws(2) x, of tx initialState]
  moreover have "rr_status (compared (issuedJson (xr_receipt x)) []) = Pass" by (simp add: compared_def Let_def)
  ultimately show "\<exists>receipt st1 res. replayReceiptDeterministically testHost tx initialState receipt = (st1, Some res) \<and> rr_status res = Pass \<and>
     verifySignedReceipt testHost receipt = Some True" using replay_pass_iff [OF replay] by blast
qed

text \<open>
  The verification route tells decisions from refusals. Read back from the log, a receipt a worker issued is VALID, whether it
  allows or refuses, and a receipt of a refusal of the sidecar itself is a SIGNATURE_FAIL, although the sidecar signed both.
\<close>

theorem contract_rejects_refusals:
  assumes "keyPair h" "\<not> refusalHmacCollision h" "entryOk h e"
  shows "map_option rr_status (verifyReceiptContract h (entryJson e)) = Some (if isRefused e then SignatureFail else ReceiptValid)"
proof (cases e)
  case (Issued x)
  with assms(3) obtain raw st' where "executeDeterministicPipeline h initialState raw = (st', Some (Inr x))" by auto
  from issued_contract [OF assms(1) this] Issued show ?thesis
    by (simp add: entryJson_def issuedJson_def contractResult_def Let_def del: normJson.simps)
next
  case (Refused r)
  with assms(3) have "builtRefusal h r" by simp
  from refusal_contract [OF this assms(2)] Refused show ?thesis
    by (simp add: entryJson_def contractResult_def Let_def del: normJson.simps)
qed

theorem contract_rejects_refusals_witness:
  "\<exists>x r. map_option rr_status (verifyReceiptContract testHost (entryJson (Issued x))) = Some ReceiptValid \<and>
     map_option rr_status (verifyReceiptContract testHost (entryJson (Refused r))) = Some SignatureFail"
proof -
  obtain st' x where x: "executeDeterministicPipeline testHost initialState (requestText makeBaseInput) = (st', Some (Inr x))"
    by (rule worker_allows_base)
  obtain r where r: "builtRefusal testHost r" by (rule builtRefusal_testHost)
  have no: "\<not> refusalHmacCollision testHost" by (simp add: refusalHmacCollision_def signingConfig_def)
  have "entryOk testHost (Issued x)" "entryOk testHost (Refused r)" using x r by auto
  from this [THEN contract_rejects_refusals [OF host_laws(2) no]] show ?thesis by auto
qed

end
