(* ===== verification/DecideSafety.thy ===== *)
theory DecideSafety
  imports DecideSlots ReceiptHistoryProps
begin

text \<open>
  What the decision handlers of a sidecar guarantee under every interleaving, with the runs that witness it.
\<close>

section \<open>A sidecar that allows a request\<close>

lemma runtime_input_norm:
  assumes "wfObj request" "wfJson p"
  shows "canonicalizeJson (JObj (createRuntimeInput (normObject request) p)) = canonicalizeJson (JObj (createRuntimeInput request p))"
proof -
  let ?L = "map (\<lambda>(k, v). (k, normJson v)) (filter (\<lambda>(k, v). k \<noteq> jstr ''policy_document'') request) @ [(jstr ''policy_document'', p)]"
  have norm: "wfObj (normObject request)" using wfJson_normJson [of "JObj request"] assms(1) by (simp only: wfObj_def normJson_JObj)
  have sorted: "mset (filter P (sort_key fst xs)) = mset (filter P xs)" for P :: "jsstring \<times> json \<Rightarrow> bool" and xs by (simp add: mset_filter)
  note wf = wf_runtime_input [OF norm assms(2)] wf_runtime_input [OF assms]
  have "filter (\<lambda>(k, v). k \<noteq> jstr ''policy_document'') (map (\<lambda>(k, v). (k, normJson v)) request) =
      map (\<lambda>(k, v). (k, normJson v)) (filter (\<lambda>(k, v). k \<noteq> jstr ''policy_document'') request)"
    by (induction request) auto
  then have "mset (createRuntimeInput (normObject request) p) = mset ?L"
    unfolding createRuntimeInput_def normObject_def by (simp only: sorted mset_append)
  then have "normJson (JObj (createRuntimeInput (normObject request) p)) = normJson (JObj ?L)"
    by (rule normJson_reorder [OF wfObj_distinct [OF wf(1)]])
  also have "\<dots> = normJson (JObj (createRuntimeInput request p))"
    by (rule normJson_JObj_cong) (auto simp: createRuntimeInput_def normJson_idem comp_def split_def)
  finally have "canonicalText (JObj (createRuntimeInput (normObject request) p)) = canonicalText (JObj (createRuntimeInput request p))"
    using canonicalText_eq_iff wf by (simp only: wfObj_def)
  then show ?thesis using canonicalizeJson_text wf by (simp only: wfObj_def)
qed

text \<open>One worker, one slot, and a log that is flushed after every receipt; \<open>n\<close> is the size of the longest receipt.\<close>

definition sampleDecide :: "admission_limits \<Rightarrow> int \<Rightarrow> decide_config" where
  "sampleDecide limits n =
     \<lparr>dg_limits = limits,
      dg_saturation = \<lparr>sc_max_inflight = 1, sc_inflight_shed_threshold = 1, sc_max_event_loop_lag_ms = 80,
        sc_queue_high_watermark_items = 1, sc_queue_high_watermark_bytes = n\<rparr>,
      dg_queue = \<lparr>qc_path = jstr ''log'', qc_durability_mode = jstr ''strict_audit'', qc_max_items = 1, qc_max_bytes = n,
        qc_max_batch_size = 1, qc_max_batch_age_ms = 10, qc_flush_timeout_ms = 2000\<rparr>,
      dg_pool = \<lparr>wc_worker_count = 1, wc_max_queue_depth = 1, wc_task_timeout_ms = 2000\<rparr>, dg_inline_refusals = False\<rparr>"

lemma sampleDecide_simps [simp]:
  "dg_limits (sampleDecide limits n) = limits" "strictAudit (sampleDecide limits n)"
  "wc_worker_count (dg_pool (sampleDecide limits n)) = 1" "dg_inline_refusals (sampleDecide limits n) = False"
  "qc_max_items (dg_queue (sampleDecide limits n)) = 1" "qc_max_bytes (dg_queue (sampleDecide limits n)) = n"
  "qc_max_batch_size (dg_queue (sampleDecide limits n)) = 1"
  by (simp_all add: sampleDecide_def strictAudit_def)

lemma sampleDecide_ok: "0 < n \<Longrightarrow> configOk (dg_queue (sampleDecide limits n))"
  by (simp add: configOk_def)

definition oneSlot :: admission_limits where
  "oneSlot = \<lparr>al_max_active_requests = 1, al_max_active_sockets = 128, al_max_requests_per_socket = 100\<rparr>"

definition freshAdmission :: admission where
  "freshAdmission = \<lparr>ad_active_requests = 0, ad_active_sockets = 0, ad_refused = 0, ad_request_slots = [], ad_socket_slots = [], ad_socket_requests = []\<rparr>"

lemma oneSlot_created: "createAdmissionController (Some 1) None None = Inr (oneSlot, freshAdmission)"
  by (simp add: createAdmissionController_def checkLimit_def positiveInteger_def isSafeInteger_def maxSafe_def orDefault_def
      defaultHttpLimits_def oneSlot_def freshAdmission_def Let_def)

lemma sample_fresh:
  "p \<in> policies \<Longrightarrow> sidecar_reachable (sampleDecide oneSlot n) h policies (startSidecar freshAdmission p ph now)"
  by (rule sidecar_reachable.Starts [of "Some 1" None None]) (simp_all add: oneSlot_created)

definition plainRequest :: http_request where
  "plainRequest = \<lparr>hr_socket = 0, hr_origin = False, hr_custody_timeout = False\<rparr>"

lemma fresh_acquires:
  obtains a where "noteSocketRequest oneSlot freshAdmission 0 = (a, True)" "ad_active_requests a = 0" "ad_request_slots a = []"
  by (simp add: noteSocketRequest_def oneSlot_def freshAdmission_def orDefault_def Let_def)

text \<open>A line of an empty queue that fits is flushed at once.\<close>

lemma enqueue_fresh:
  assumes "canonicalizeJson v = Some line" "qc_max_items cfg = 1" "qc_max_batch_size cfg = 1"
    "int (length (utf8Encode (line @ [10]))) \<le> qc_max_bytes cfg"
  obtains q where "enqueue cfg (startQueue newQueue) v = (q, Queued 0 (int (length (utf8Encode (line @ [10])))))"
    "pq_flight q = Some [\<lparr>qi_promise = 0, qi_line = line @ [10], qi_bytes = int (length (utf8Encode (line @ [10])))\<rparr>]"
    "pq_settled q = []" "pq_file q = []"
  using assms
  by (simp add: enqueue_def startQueue_def newQueue_def flush_def syncDepthMetrics_def clearTimer_def bytesOf_def Let_def)

lemma fresh_accepts: "canAcceptDecisions (newWatchdog now)"
  by (simp add: canAcceptDecisions_def newWatchdog_def)

text \<open>The first request is admitted.\<close>

lemma first_request:
  fixes n :: int
  defines "cfg \<equiv> sampleDecide oneSlot n"
  assumes "p \<in> policies" "0 < n"
  obtains st where "sidecar_reachable cfg h policies st" "sd_queue st = startQueue newQueue" "sd_pool st = newPool" "sd_policy st = p"
    "sd_tasks st = []" "sd_responses st = []" "sd_requests st = [ReadingBody 0]"
proof -
  let ?st = "(startSidecar freshAdmission p [] 0)\<lparr>sd_requests := [Finished]\<rparr>"
  obtain a where a: "noteSocketRequest oneSlot freshAdmission 0 = (a, True)" "ad_active_requests a = 0" "ad_request_slots a = []"
    by (rule fresh_acquires)
  have acquire: "tryAcquireRequest oneSlot a = (a\<lparr>ad_active_requests := 1, ad_request_slots := [False]\<rparr>, Some 0)"
    using a by (simp add: tryAcquireRequest_def oneSlot_def)
  have room: "shouldRefuse (dg_saturation cfg) 0 0 (qm_queue_depth (pq_metrics (startQueue newQueue))) (qm_queue_bytes (pq_metrics (startQueue newQueue))) = None"
    using assms(3) by (simp add: shouldRefuse_def cfg_def sampleDecide_def startQueue_def newQueue_def)
  have start: "sd_watchdog (startSidecar freshAdmission p [] 0) = newWatchdog 0" "sd_event_loop_lag (startSidecar freshAdmission p [] 0) = 0"
    by (simp_all only: startSidecar_def sidecar.simps)
  have run: "decideStart cfg h [] [] 0 plainRequest ?st = setPhase 0 (ReadingBody 0)
      ((count (\<lambda>c. c\<lparr>dk_requests := dk_requests c + 1, dk_browser_origin_requests := dk_browser_origin_requests c + 0\<rparr>) ?st)
        \<lparr>sd_admission := a\<lparr>ad_active_requests := 1, ad_request_slots := [False]\<rparr>, sd_inflight := 1\<rparr>)"
    using room by (simp add: decideStart_def Let_def plainRequest_def startSidecar_simps start fresh_accepts a acquire cfg_def)
  have "sidecar_step cfg h policies (startSidecar freshAdmission p [] 0) (decideStart cfg h [] [] 0 plainRequest ?st)"
    using sidecar_step.Arrives [of cfg h policies "startSidecar freshAdmission p [] 0" "[]" "[]" plainRequest]
    by (simp add: startSidecar_simps)
  then have "sidecar_reachable cfg h policies (decideStart cfg h [] [] 0 plainRequest ?st)"
    unfolding cfg_def by (rule sidecar_reachable.Steps [OF sample_fresh [OF assms(2)]])
  then show ?thesis by (rule that) (simp_all add: run setPhase_def startSidecar_simps)
qed

text \<open>Its body is read, one worker answers, the receipt is queued, appended and reported durable.\<close>

lemma allowed_run:
  assumes "p \<in> policies" "readStrictObject raw = Inr request" "canonicalizeJson (JObj (createRuntimeInput request p)) = Some t"
    and "executeDeterministicPipeline h initialState t = (st', Some (Inr x))" "\<not> unsignedAllow (xr_receipt x)"
    and "canonicalizeJson (JObj (receiptFields (xr_receipt x))) = Some line" "n = int (length (utf8Encode (line @ [10])))"
  obtains st where "sidecar_reachable (sampleDecide oneSlot n) h policies st"
    "sd_responses st = [(0, \<lparr>ds_status = 200, ds_body = apiResponseFromReceipt False (xr_receipt x)\<rparr>)]"
proof -
  let ?cfg = "sampleDecide oneSlot n" and ?w = "newWorker 0"
  have "0 < n" by (simp add: assms(7) utf8Encode_Nil)
  with assms(1) obtain st1 where st1: "sidecar_reachable ?cfg h policies st1" "sd_queue st1 = startQueue newQueue" "sd_pool st1 = newPool"
    "sd_policy st1 = p" "sd_tasks st1 = []" "sd_responses st1 = []" "sd_requests st1 = [ReadingBody 0]" by (rule first_request)
  obtain pool where pool: "submit (dg_pool ?cfg) (newPool :: worker_result worker_pool) t = (pool, Submitted 1)"
    "wp_heap pool = [?w\<lparr>pw_busy := True, pw_active := Some \<lparr>pt_id = 1, pt_raw_input = t\<rparr>\<rparr>]" "wp_posted pool = [(0, 1, t)]"
    "wp_replies pool = []" "\<not> wp_closed pool"
    by (simp add: submit_def newPool_def startPool_def dispatch_def syncPoolDepth_def Let_def)
  define st2 where "st2 = decideBody ?cfg h [] [] 0 0 (Inr raw) st1"
  have st2: "sidecar_reachable ?cfg h policies st2" "st2 = setPhase 0 (AwaitWorker 0 1 raw) (st1\<lparr>sd_pool := pool, sd_tasks := [(1, t)]\<rparr>)"
    using sidecar_reachable.Steps [OF st1(1) sidecar_step.BodyRead [of 0 st1 0 ?cfg h policies "[]" "[]" "Inr raw"]] assms(2,3) pool(1)
    by (simp_all add: st1 st2_def decideBody_def del: canonicalizeJson.simps)
  let ?pool = "handleMessage pool 0 (WorkerMessage (Some 1) (messageOf (snd (workerMessage h [] initialState t))))"
  have answered: "(1, Answered (Inr x)) \<in> set (wp_replies ?pool)"
    using assms(4) by (simp add: handleMessage_def pool workerMessage_def resetRuntimeState_initial messageOf_def setWorker_def dispatch_def
        syncPoolDepth_def Let_def split: prod.split)
  have "pool_event (dg_pool ?cfg) h pool ?pool" by (rule pool_event.WorkerAnswers) (simp_all add: pool)
  then have st3: "sidecar_reachable ?cfg h policies (st2\<lparr>sd_pool := ?pool\<rparr>)"
    using sidecar_reachable.Steps [OF st2(1) sidecar_step.PoolSteps] by (simp add: st2(2) setPhase_def)
  obtain q where q: "enqueue (dg_queue ?cfg) (startQueue newQueue) (JObj (receiptFields (xr_receipt x))) = (q, Queued 0 n)"
    "pq_flight q = Some [\<lparr>qi_promise = 0, qi_line = line @ [10], qi_bytes = n\<rparr>]" "pq_settled q = []" "pq_file q = []"
    using enqueue_fresh [OF assms(6), of "dg_queue ?cfg"] assms(7) by auto
  let ?st3 = "st2\<lparr>sd_pool := ?pool\<rparr>"
  define st4 where "st4 = decideReply ?cfg h [] [] 0 0 raw (Answered (Inr x)) ?st3"
  have st4: "sidecar_reachable ?cfg h policies st4" "st4 = setPhase 0 (AwaitDurable 0 0 (xr_receipt x)) (?st3\<lparr>sd_queue := q\<rparr>)"
    using sidecar_reachable.Steps [OF st3 sidecar_step.Replied [of 0 ?st3 0 1 raw "Answered (Inr x)" ?cfg h policies "[]" "[]"]] assms(5) q(1) answered
    by (simp_all add: st2(2) st1 setPhase_def st4_def decideReply_def Let_def)
  let ?q = "appendDone [\<lparr>qi_promise = 0, qi_line = line @ [10], qi_bytes = n\<rparr>] q"
  have settled: "(0, True) \<in> set (pq_settled ?q)" by (simp add: appendDone_def Let_def)
  have "queue_step (dg_queue ?cfg) q ?q" by (rule queue_step.AppendDone [OF q(2)])
  then have st5: "sidecar_reachable ?cfg h policies (st4\<lparr>sd_queue := ?q\<rparr>)"
    using sidecar_reachable.Steps [OF st4(1) sidecar_step.QueueSteps] by (simp add: st4(2) setPhase_def)
  let ?st5 = "st4\<lparr>sd_queue := ?q\<rparr>"
  have "sidecar_reachable ?cfg h policies (decideDurable ?cfg h [] [] 0 0 (xr_receipt x) True ?st5)"
    using sidecar_reachable.Steps [OF st5 sidecar_step.Settled [of 0 ?st5 0 0 "xr_receipt x" True ?cfg h policies "[]" "[]"]] settled
    by (simp add: st4(2) st2(2) st1 setPhase_def)
  then show ?thesis by (rule that) (simp add: decideDurable_def answerReceipt_def st4(2) st2(2) st1 setPhase_def)
qed

text \<open>
  A request that the saturation check refuses takes the slot; in strict audit mode it waits for the receipt of its refusal, and when
  that flush fails the exception leaves the handler before \<open>release\<close>.
\<close>

definition sampleRefusal :: refusal_input where
  "sampleRefusal = \<lparr>rf_raw_body = [], rf_reason_code = jstr ''ERR_SYSTEM_SATURATED'', rf_policy_hash = [],
     rf_policy_version = Some (JStr [49]), rf_timings = [], rf_request_id = None, rf_request_hash = None, rf_decision_hash = None\<rparr>"

lemma sampleRefusal_built:
  obtains r line where "buildSidecarRefusalReceipt testHost sampleRefusal = Some r" "canonicalizeJson (JObj r) = Some line"
proof -
  obtain r where r: "buildSidecarRefusalReceipt testHost sampleRefusal = Some r"
    using refusal_builds [OF canSign_testHost, of sampleRefusal "[49]"] by (auto simp: sampleRefusal_def safeTimingSnapshot_def map_filter_def)
  then have "builtRefusal testHost r" unfolding builtRefusal_def by (intro exI [of _ sampleRefusal]) (simp add: sampleRefusal_def)
  from canonicalizeJson_text [OF refusal_fields(1) [OF this]] r show ?thesis by (intro that)
qed

lemma leaking_run:
  assumes "buildSidecarRefusalReceipt testHost sampleRefusal = Some r" "canonicalizeJson (JObj r) = Some line"
    and "n = int (length (utf8Encode (line @ [10])))"
  obtains st where "sidecar_reachable (sampleDecide oneSlot n) testHost {JObj [(jstr ''policy_version'', JStr [49])]} st"
    "sd_requests st = [Crashed (Some 0)]"
proof -
  let ?cfg = "sampleDecide oneSlot n" and ?p = "JObj [(jstr ''policy_version'', JStr [49])]"
  let ?lagging = "(startSidecar freshAdmission ?p [] 0)\<lparr>sd_watchdog := newWatchdog 0, sd_event_loop_lag := 81\<rparr>"
  have st0: "sidecar_reachable ?cfg testHost {?p} ?lagging"
    by (rule sidecar_reachable.Steps [OF sample_fresh sidecar_step.WatchdogSteps]) simp
  let ?st = "?lagging\<lparr>sd_requests := [Finished]\<rparr>"
  obtain a where a: "noteSocketRequest oneSlot freshAdmission 0 = (a, True)" "ad_active_requests a = 0" "ad_request_slots a = []"
    by (rule fresh_acquires)
  have acquire: "tryAcquireRequest oneSlot a = (a\<lparr>ad_active_requests := 1, ad_request_slots := [False]\<rparr>, Some 0)"
    using a by (simp add: tryAcquireRequest_def oneSlot_def)
  have full: "shouldRefuse (dg_saturation ?cfg) 0 81 depth bytes = Some LagSignal" for depth bytes
    by (simp add: shouldRefuse_def sampleDecide_def)
  obtain q where q: "enqueue (dg_queue ?cfg) (startQueue newQueue) (JObj r) = (q, Queued 0 n)"
    "pq_flight q = Some [\<lparr>qi_promise = 0, qi_line = line @ [10], qi_bytes = n\<rparr>]" "pq_settled q = []" "pq_file q = []"
    using enqueue_fresh [OF assms(2), of "dg_queue ?cfg"] assms(3) by auto
  define extra where "extra = noExtra\<lparr>fe_saturation_signal := Some (jstr ''event_loop_lag'')\<rparr>"
  have input: "refusalInput st (jstr ''ERR_SYSTEM_SATURATED'') extra [] = sampleRefusal" if "sd_policy st = ?p" "sd_policy_hash st = []" for st
    using that by (simp add: refusalInput_def sampleRefusal_def extra_def noExtra_def getProp_def)
  have hash0: "sd_policy_hash ?st = []" by (simp only: startSidecar_def sidecar.simps)
  have "sd_policy_hash (count f st) = sd_policy_hash st" for f st by (simp add: count_def)
  note hash = hash0 this
  define st1 where "st1 = decideStart ?cfg testHost [] [] 0 plainRequest ?st"
  have refused: "\<exists>ref. sd_requests st1 = [AwaitRefusal (Saturated 0) 0 ref] \<and> sd_queue st1 = q"
    using full acquire input [unfolded extra_def] hash assms(1) q(1)
    by (simp add: st1_def decideStart_def Let_def plainRequest_def startSidecar_simps fresh_accepts a failIn_def failOnce_def setPhase_def)
  then obtain ref where st1: "sd_requests st1 = [AwaitRefusal (Saturated 0) 0 ref]" "sd_queue st1 = q" by blast
  have "sidecar_step ?cfg testHost {?p} ?lagging st1"
    using sidecar_step.Arrives [of ?cfg testHost "{?p}" ?lagging "[]" "[]" plainRequest] by (simp add: startSidecar_simps st1_def)
  then have reach1: "sidecar_reachable ?cfg testHost {?p} st1" by (rule sidecar_reachable.Steps [OF st0])
  let ?q = "appendFailed [\<lparr>qi_promise = 0, qi_line = line @ [10], qi_bytes = n\<rparr>] False [] q"
  have "queue_step (dg_queue ?cfg) q ?q" by (rule queue_step.AppendFailed [OF q(2)]) simp
  then have reach2: "sidecar_reachable ?cfg testHost {?p} (st1\<lparr>sd_queue := ?q\<rparr>)"
    using sidecar_reachable.Steps [OF reach1 sidecar_step.QueueSteps] st1(2) by simp
  have settled: "(0, False) \<in> set (pq_settled ?q)" by (simp add: appendFailed_def syncDepthMetrics_def Let_def)
  let ?failed = "refusalSettled ?cfg testHost [] [] 0 (Saturated 0) ref False (st1\<lparr>sd_queue := ?q\<rparr>)"
  have "sidecar_reachable ?cfg testHost {?p} ?failed"
    using sidecar_reachable.Steps [OF reach2
      sidecar_step.RefusalSettled [of 0 "st1\<lparr>sd_queue := ?q\<rparr>" "Saturated 0" 0 ref False ?cfg testHost "{?p}" "[]" "[]"]] settled
    by (simp add: st1(1))
  then show ?thesis by (rule that) (simp add: refusalSettled_def st1(1) setPhase_def)
qed

section \<open>Properties\<close>

text \<open>
  C4: an answer that allows is backed. Whatever the interleaving of requests, workers, flushes, timeouts and policy changes: an
  answer with decision \<open>ALLOW\<close> is the rendering of a receipt that the pipeline, run from empty stores, issued for a client's
  request under a policy that was active, its policy hash is the hash of that policy, and its line was accepted by the receipt log;
  in strict audit mode the line is in the log file.
\<close>

theorem allowed_answers_are_backed:
  assumes "sidecar_reachable cfg h policies st" "configOk (dg_queue cfg)" "\<forall>p \<in> policies. wfJson p"
    and "(i, r) \<in> set (sd_responses st)" "allows r"
  shows "\<exists>request p text x line promise.
    p \<in> policies \<and> canonicalizeJson (JObj (createRuntimeInput request p)) = Some text \<and>
    snd (executeDeterministicPipeline h initialState text) = Some (Inr x) \<and>
    ds_body r = apiResponseFromReceipt (dg_inline_refusals cfg) (xr_receipt x) \<and>
    do_decision (rp_decision_output (sr_payload (xr_receipt x))) = Allow \<and>
    documentHash h (Some p) = Some (do_policy_hash (rp_decision_output (sr_payload (xr_receipt x)))) \<and>
    canonicalizeJson (JObj (receiptFields (xr_receipt x))) = Some line \<and>
    promise < length (pq_log (sd_queue st)) \<and> pq_log (sd_queue st) ! promise = line @ [10] \<and>
    (strictAudit cfg \<longrightarrow> (\<exists>before after. pq_file (sd_queue st) = before @ (line @ [10]) @ after))"
proof -
  note ok = sidecar_reachable_ok [OF assms(1)]
  have "answerOk cfg h policies (sd_queue st) r" using ok assms(4) unfolding sidecarOk_def by blast
  with allows_not_refuses [OF assms(5)] obtain receipt where "allowsWith cfg h policies (sd_queue st) r receipt"
    by (auto simp: answerOk_def)
  then obtain raw promise where body: "ds_body r = apiResponseFromReceipt (dg_inline_refusals cfg) receipt"
    and issued: "issuedUnder h policies raw receipt" and logged: "loggedLine (sd_queue st) promise (JObj (receiptFields receipt))"
    and durable: "strictAudit cfg \<longrightarrow> (promise, True) \<in> set (pq_settled (sd_queue st))"
    unfolding allowsWith_def by blast
  from issued obtain request p x where run: "p \<in> policies" "wfObj request"
    "canonicalizeJson (JObj (createRuntimeInput request p)) = Some raw" "workerResult h raw = Some (Inr x)" "xr_receipt x = receipt"
    unfolding issuedUnder_def by blast
  obtain st' where "executeDeterministicPipeline h initialState raw = (st', Some (Inr x))"
    using run(4) unfolding workerResult_def by (metis prod.collapse)
  with active_policy_run [OF run(2) _ run(3)] run(1) assms(3)
  have hash: "documentHash h (Some p) = Some (do_policy_hash (rp_decision_output (sr_payload (xr_receipt x))))" by blast
  from logged obtain line where line: "canonicalizeJson (JObj (receiptFields receipt)) = Some line" "promise < length (pq_log (sd_queue st))"
    "pq_log (sd_queue st) ! promise = line @ [10]" unfolding loggedLine_def by blast
  have "queueOk (dg_queue cfg) (sd_queue st)" using ok assms(2) queue_reachable_ok unfolding sidecarOk_def by blast
  with durable_in_file line(2,3) durable
  have "strictAudit cfg \<longrightarrow> (\<exists>before after. pq_file (sd_queue st) = before @ (line @ [10]) @ after)" by metis
  moreover have "do_decision (rp_decision_output (sr_payload receipt)) = Allow"
    using assms(5) by (cases "do_decision (rp_decision_output (sr_payload receipt))") (simp_all add: allows_def body api_decision)
  ultimately show ?thesis using run line hash body unfolding workerResult_def by blast
qed

theorem allowed_answers_are_backed_witness:
  "\<exists>cfg policies st r receipt line. sidecar_reachable cfg testHost policies st \<and> (0, r) \<in> set (sd_responses st) \<and> allows r \<and> strictAudit cfg \<and>
     ds_body r = apiResponseFromReceipt False receipt \<and> canonicalizeJson (JObj (receiptFields receipt)) = Some line \<and>
     (\<exists>before after. pq_file (sd_queue st) = before @ (line @ [10]) @ after)"
proof -
  let ?p = "JObj (policyFields (ci_policy_document makeBaseInput))" and ?request = "clientRequest makeBaseInput JNull"
  have "wfJson JNull" by simp
  note client = clientRequest_runs [OF validInput_base [of testHost] this]
  obtain st' x where x: "executeDeterministicPipeline testHost initialState (requestText makeBaseInput) = (st', Some (Inr x))"
    "do_decision (rp_decision_output (sr_payload (xr_receipt x))) = Allow" by (rule worker_allows_base)
  note receipt = executed_receipt [OF host_laws(2) x(1)]
  have raw: "readStrictObject (canonicalText (JObj ?request)) = Inr (normObject ?request)"
    using parse_canonicalText [of "JObj ?request"] client(1) by (simp add: readStrictObject_def wfObj_def normJson_JObj del: wfJson.simps normJson.simps)
  have input: "canonicalizeJson (JObj (createRuntimeInput (normObject ?request) ?p)) = Some (requestText makeBaseInput)"
    using runtime_input_norm [OF client(1,2)] client(3) by simp
  have "verifySignedReceipt testHost (JObj (receiptFields (xr_receipt x))) = Some True" using receipt(2) by simp
  from signed_has_signature(2) [OF this] have signed: "\<not> unsignedAllow (xr_receipt x)" by (simp add: unsignedAllow_def)
  obtain line where line: "canonicalizeJson (JObj (receiptFields (xr_receipt x))) = Some line"
    using canonicalizeJson_text [OF receipt(1)] by blast
  define n where "n = int (length (utf8Encode (line @ [10])))"
  have member: "?p \<in> {?p}" by simp
  obtain st where st: "sidecar_reachable (sampleDecide oneSlot n) testHost {?p} st"
    "sd_responses st = [(0, \<lparr>ds_status = 200, ds_body = apiResponseFromReceipt False (xr_receipt x)\<rparr>)]"
    by (rule allowed_run [OF member raw input x(1) signed line n_def])
  let ?r = "\<lparr>ds_status = 200, ds_body = apiResponseFromReceipt False (xr_receipt x)\<rparr>"
  have allows: "allows ?r" by (simp add: allows_def api_decision x(2))
  have "0 < n" by (simp add: n_def utf8Encode_Nil)
  then have config: "configOk (dg_queue (sampleDecide oneSlot n))" by (rule sampleDecide_ok)
  have wf: "\<forall>p \<in> {?p}. wfJson p" using client(2) by (simp del: wfJson.simps)
  have mem: "(0, ?r) \<in> set (sd_responses st)" by (simp add: st(2))
  from allowed_answers_are_backed [OF st(1) config wf mem allows] sampleDecide_simps(2) obtain y :: execution_result and line' where y:
    "ds_body ?r = apiResponseFromReceipt False (xr_receipt y)" "canonicalizeJson (JObj (receiptFields (xr_receipt y))) = Some line'"
    "\<exists>before after. pq_file (sd_queue st) = before @ (line' @ [10]) @ after"
    unfolding sampleDecide_simps(4) by blast
  with st(1) mem allows show ?thesis
    by (intro exI [of _ "sampleDecide oneSlot n"] exI [of _ "{?p}"] exI [of _ st] exI [of _ ?r] exI [of _ "xr_receipt y"] exI [of _ line'])
      (simp del: canonicalizeJson.simps)
qed

text \<open>
  C24: slots and requests in flight are accounted for. Under every interleaving the active requests of the admission controller are
  the decision handlers that hold a slot, within its limit; \<open>inflight\<close> counts the handlers inside the \<open>try\<close>, within the threshold
  of the saturation check; what holds a slot outside the \<open>try\<close> is a refusal of that check which still waits or has crashed, and
  when every handler has finished nothing is held.
\<close>

theorem decision_slots_accounted:
  assumes "sidecar_reachable cfg h policies st"
  shows "ad_active_requests (sd_admission st) = int (holders (sd_requests st)) \<and>
    ad_active_requests (sd_admission st) \<le> al_max_active_requests (dg_limits cfg) \<and>
    sd_inflight st = int (trying (sd_requests st)) \<and> sd_inflight st \<le> max 0 (sc_inflight_shed_threshold (dg_saturation cfg)) \<and>
    holders (sd_requests st) = trying (sd_requests st) + outside (sd_requests st) \<and>
    ((\<forall>p \<in> set (sd_requests st). p = Finished) \<longrightarrow> ad_active_requests (sd_admission st) = 0 \<and> sd_inflight st = 0)"
proof -
  have "slotsOk cfg (sd_requests st) (sd_admission st) (sd_inflight st)"
    using sidecar_reachable_slots [OF assms] by (simp add: sidecarSlots_def)
  then have "ad_active_requests (sd_admission st) = int (holders (sd_requests st))"
    "ad_active_requests (sd_admission st) \<le> al_max_active_requests (dg_limits cfg)" "sd_inflight st = int (trying (sd_requests st))"
    "sd_inflight st \<le> max 0 (sc_inflight_shed_threshold (dg_saturation cfg))"
    by (simp_all add: slotsOk_def rq.exact_def)
  moreover have "(\<forall>p \<in> set (sd_requests st). p = Finished) \<longrightarrow> holders (sd_requests st) = 0"
    using holders_Nil [of "sd_requests st"] by (metis slotOf.simps(5))
  ultimately show ?thesis using holders_split [of "sd_requests st"] by auto
qed

theorem decision_slots_accounted_witness:
  "\<exists>cfg policies st. sidecar_reachable cfg testHost policies st \<and> sd_requests st = [Crashed (Some 0)] \<and> sd_inflight st = 0 \<and>
     ad_active_requests (sd_admission st) = 1 \<and> al_max_active_requests (dg_limits cfg) = 1"
proof -
  obtain r line where r: "buildSidecarRefusalReceipt testHost sampleRefusal = Some r" "canonicalizeJson (JObj r) = Some line"
    by (rule sampleRefusal_built)
  obtain n st where st: "sidecar_reachable (sampleDecide oneSlot n) testHost {JObj [(jstr ''policy_version'', JStr [49])]} st"
    "sd_requests st = [Crashed (Some 0)]" by (rule leaking_run [OF r refl])
  from decision_slots_accounted [OF st(1)] st(2) have "ad_active_requests (sd_admission st) = 1 \<and> sd_inflight st = 0"
    by (simp add: holders_def trying_def)
  with st show ?thesis
    by (intro exI [of _ "sampleDecide oneSlot n"] exI [of _ "{JObj [(jstr ''policy_version'', JStr [49])]}"] exI [of _ st])
      (simp add: oneSlot_def)
qed

end
