(* ===== verification/SidecarRoutes.thy ===== *)
theory SidecarRoutes
  imports DecideHandler AuthAssertion
begin

text \<open>
  The HTTP server of \<open>src/mnde-local-sidecar.mjs\<close> around the decision handler: the choice of the handler, the authorization of the
  sensitive routes with their audit events, the handlers of \<open>/verify\<close>, \<open>/policy/activate\<close>, \<open>/replay\<close> and \<open>/replay/recent\<close>, the
  shedding of connections in front of them and its counters.

  Arguments stand for what is outside: the path that the URL parser finds (none when it throws), the file system, \<open>JSON.parse\<close>, the
  clock, the message of an exception, and whether a write of the audit log succeeds. The contents of the actor are left out.
\<close>

section \<open>Shedding connections\<close>

record transport =
  tr_active :: int
  tr_shed_total :: int
  tr_shed_destroy_total :: int
  tr_shed_503_total :: int
  tr_malformed_destroy :: int
  tr_timeout_destroy :: int
  tr_overload_503 :: int
  tr_accepted :: int
  tr_closed :: int
  tr_completed :: int
  tr_sockets :: "bool list"

definition newTransport :: transport where
  "newTransport =
     \<lparr>tr_active = 0, tr_shed_total = 0, tr_shed_destroy_total = 0, tr_shed_503_total = 0, tr_malformed_destroy = 0, tr_timeout_destroy = 0,
      tr_overload_503 = 0, tr_accepted = 0, tr_closed = 0, tr_completed = 0, tr_sockets = []\<rparr>"

definition countDestroyed :: "transport \<Rightarrow> transport" where
  "countDestroyed t = t\<lparr>tr_shed_destroy_total := tr_shed_destroy_total t + 1, tr_malformed_destroy := tr_malformed_destroy t + 1\<rparr>"

text \<open>A decision that is shed: the connection is gone already, the answer 503 is written, or writing it throws.\<close>

datatype shed_outcome = ConnectionGone | ShedAnswered | ShedThrew

definition l0ShedDecision :: "shed_outcome \<Rightarrow> transport \<Rightarrow> transport" where
  "l0ShedDecision outcome t =
     (let t1 = t\<lparr>tr_shed_total := tr_shed_total t + 1\<rparr>;
          t2 = t1\<lparr>tr_shed_503_total := tr_shed_503_total t1 + 1, tr_overload_503 := tr_overload_503 t1 + 1\<rparr>
      in case outcome of
           ConnectionGone \<Rightarrow> countDestroyed t1
         | ShedAnswered \<Rightarrow> t2
         | ShedThrew \<Rightarrow>
             (let t3 = countDestroyed t2
              in t3\<lparr>tr_shed_503_total := max 0 (tr_shed_503_total t3 - 1), tr_overload_503 := max 0 (tr_overload_503 t3 - 1)\<rparr>))"

definition responseFlushed :: "transport \<Rightarrow> transport" where
  "responseFlushed t = t\<lparr>tr_completed := tr_completed t + 1\<rparr>"

definition clientError :: "transport \<Rightarrow> transport" where
  "clientError t = countDestroyed (t\<lparr>tr_shed_total := tr_shed_total t + 1\<rparr>)"

definition serverTimeout :: "transport \<Rightarrow> transport" where
  "serverTimeout t =
     t\<lparr>tr_shed_total := tr_shed_total t + 1, tr_shed_destroy_total := tr_shed_destroy_total t + 1,
       tr_timeout_destroy := tr_timeout_destroy t + 1\<rparr>"

text \<open>A connection that the admission controller accepted, and the event \<open>close\<close> of its socket; a flag is whether it was seen.\<close>

definition connectionAccepted :: "transport \<Rightarrow> transport" where
  "connectionAccepted t =
     t\<lparr>tr_active := tr_active t + 1, tr_accepted := tr_accepted t + 1, tr_sockets := tr_sockets t @ [False]\<rparr>"

definition recordL0Close :: "nat \<Rightarrow> transport \<Rightarrow> transport" where
  "recordL0Close k t =
     (if k < length (tr_sockets t) \<and> \<not> tr_sockets t ! k
      then t\<lparr>tr_sockets := (tr_sockets t)[k := True], tr_active := max 0 (tr_active t - 1), tr_closed := tr_closed t + 1\<rparr>
      else t)"

section \<open>Routing\<close>

datatype route =
    OriginRefused | OptionsAnswered | Healthz | Identity | Readyz | Metrics | DecisionShed | Decision | ReceiptsRecent | Verify
  | ReplayRecent | Replay | PolicyCurrent | PolicyActivate | AuditBundle | Capabilities | NotFound

definition isDecisionRoute :: "jsstring \<Rightarrow> bool" where
  "isDecisionRoute pathname \<longleftrightarrow> pathname = jstr ''/v1/decisions'' \<or> pathname = jstr ''/decide''"

definition routeOf :: "bool \<Rightarrow> int \<Rightarrow> int \<Rightarrow> jsstring option \<Rightarrow> string \<Rightarrow> jsstring \<Rightarrow> route" where
  "routeOf l0Enabled maxConnections active origin method pathname =
     (let get = (\<lambda>p. method = ''GET'' \<and> pathname = jstr p); post = (\<lambda>p. method = ''POST'' \<and> pathname = jstr p)
      in if \<not> isAllowedCorsOrigin origin then OriginRefused
         else if method = ''OPTIONS'' then OptionsAnswered
         else if get ''/healthz'' then Healthz
         else if get ''/identity'' then Identity
         else if get ''/readyz'' then Readyz
         else if get ''/metrics'' then Metrics
         else if method = ''POST'' \<and> isDecisionRoute pathname
         then (if l0Enabled \<and> active > maxConnections then DecisionShed else Decision)
         else if get ''/receipts/recent'' then ReceiptsRecent
         else if post ''/verify'' \<or> post ''/receipts/verify'' then Verify
         else if post ''/replay/recent'' then ReplayRecent
         else if post ''/replay'' then Replay
         else if get ''/policy/current'' then PolicyCurrent
         else if post ''/policy/activate'' then PolicyActivate
         else if post ''/audit/bundle'' then AuditBundle
         else if get ''/capabilities'' then Capabilities
         else NotFound)"

section \<open>The state behind the sensitive routes\<close>

record audit_event =
  ae_action :: jsstring
  ae_target :: json
  ae_allowed :: bool
  ae_decision_hash :: json
  ae_reason :: json

record service =
  sv_policy :: json
  sv_policy_hash :: jsstring
  sv_policy_path :: "jsstring option"
  sv_auth :: auth_state
  sv_audit :: "audit_event list"
  sv_runtime :: runtime_state

definition authorityActionName :: "jsstring \<Rightarrow> jsstring" where
  "authorityActionName pathname =
     (if pathname = jstr ''/policy/activate'' then jstr ''policy.activate''
      else if pathname = jstr ''/audit/bundle'' then jstr ''audit.bundle''
      else if pathname = jstr ''/replay/recent'' then jstr ''replay.recent''
      else if pathname = jstr ''/receipts/verify'' \<or> pathname = jstr ''/verify'' then jstr ''receipt.verify''
      else pathname)"

definition auditAuthority :: "bool \<Rightarrow> jsstring \<Rightarrow> bool \<Rightarrow> json \<Rightarrow> json \<Rightarrow> json \<Rightarrow> service \<Rightarrow> service" where
  "auditAuthority written pathname allowed target decHash reason st =
     (if written
      then st\<lparr>sv_audit := sv_audit st @
        [\<lparr>ae_action = authorityActionName pathname, ae_target = target, ae_allowed = allowed, ae_decision_hash = decHash, ae_reason = reason\<rparr>]\<rparr>
      else st)"

record request_head =
  rh_assertion :: assertion_header
  rh_now :: int
  rh_cleanup_write :: write_outcome
  rh_reserve_write :: write_outcome
  rh_audit_written :: bool

definition authorizeRequest :: "auth_host \<Rightarrow> jsstring \<Rightarrow> request_head \<Rightarrow> service \<Rightarrow> service \<times> auth_answer" where
  "authorizeRequest ah pathname head st =
     (let (auth, answer) = authorizeAuthorityAction ah (sv_auth st) pathname (parseAuthorityAssertion (rh_assertion head)) (rh_now head)
            (rh_cleanup_write head) (rh_reserve_write head);
          st1 = st\<lparr>sv_auth := auth\<rparr>
      in case answer of
           AuthRefused reason \<Rightarrow> (auditAuthority (rh_audit_written head) pathname False JNull JNull (JStr (authReasonText reason)) st1, answer)
         | _ \<Rightarrow> (st1, answer))"

record replay_answer =
  ra_request_hash :: json
  ra_original :: json
  ra_replayed :: "decision_output option"
  ra_drift :: bool
  ra_mismatches :: "(jsstring \<times> json \<times> json) list"

text \<open>The bodies of the answers.\<close>

datatype service_body =
    RefusalBody jsstring jsstring
  | VerifyBody receipt_result
  | PolicyBody bool json jsstring "jsstring option"
  | SummaryBody replay_summary
  | ReplayBody replay_answer
  | ReplayFailed jsstring

definition reasonJson :: "jsstring option \<Rightarrow> json" where
  "reasonJson r = (case r of None \<Rightarrow> JNull | Some t \<Rightarrow> JStr t)"

section \<open>Verification\<close>

definition failedVerification :: "jsstring \<Rightarrow> receipt_result" where
  "failedVerification reason =
     \<lparr>rr_status = ReceiptInvalid, rr_receipt_id = JNull, rr_reason = Some reason, rr_request_hash = JNull, rr_decision_hash = JNull,
      rr_policy_hash = JNull, rr_mismatches = []\<rparr>"

definition errMessage :: "string \<Rightarrow> jsstring \<Rightarrow> jsstring" where
  "errMessage fallback message = (if jsStartsWith message (jstr ''ERR_'') then message else jstr fallback)"

text \<open>The handler of \<open>/verify\<close> once it is authorized; \<open>Inl\<close> is the message of the exception that refused the body.\<close>

definition verifyBody :: "host \<Rightarrow> jsstring \<Rightarrow> jsstring \<Rightarrow> bool \<Rightarrow> jsstring + jsobject \<Rightarrow> service \<Rightarrow> service \<times> service_body" where
  "verifyBody h thrown pathname written body st =
     (let failed = (\<lambda>message.
            (auditAuthority written pathname False (JStr (jstr ''receipt.verify'')) JNull (JStr (jstr ''ERR_RECEIPT_VERIFY_FAILED'')) st,
             VerifyBody (failedVerification (errMessage ''ERR_RECEIPT_VERIFY_FAILED'' message))))
      in case body of
           Inl message \<Rightarrow> failed message
         | Inr input \<Rightarrow>
             (case verifyReceiptContract h (JObj input) of
                None \<Rightarrow> failed thrown
              | Some r \<Rightarrow>
                  (auditAuthority written pathname (rr_status r = ReceiptValid) (rr_receipt_id r) (rr_decision_hash r) (reasonJson (rr_reason r)) st,
                   VerifyBody r)))"

section \<open>Activation of a policy\<close>

datatype file_read = NoFile | Unreadable | Contents jsstring

definition documentPayload :: "json \<Rightarrow> jsstring option" where
  "documentPayload p =
     Option.bind (objectLiteral
       [(''schema_version'', getProp (Some p) ''schema_version''), (''policy_version'', getProp (Some p) ''policy_version''),
        (''rules'', getProp (Some p) ''rules'')])
       canonicalizeJson"

text \<open>\<open>verifyPolicyTrust\<close> of this module; \<open>None\<close> when it throws.\<close>

definition policyTrusted :: "host \<Rightarrow> jsstring \<Rightarrow> json \<Rightarrow> jsstring \<Rightarrow> bool option" where
  "policyTrusted h publicKeyHex p signatureHex =
     Option.bind (documentPayload p) (\<lambda>payload. verifyPolicySignature h publicKeyHex payload signatureHex)"

definition policyVersion :: "service \<Rightarrow> json" where
  "policyVersion st = memberOr (getProp (Some (sv_policy st)) ''policy_version'')"

definition currentPolicyResponse :: "service \<Rightarrow> service_body" where
  "currentPolicyResponse st = PolicyBody True (policyVersion st) (sv_policy_hash st) None"

definition refuseActivation :: "bool \<Rightarrow> json \<Rightarrow> jsstring \<Rightarrow> service \<Rightarrow> service \<times> service_body" where
  "refuseActivation written target reason st =
     (auditAuthority written (jstr ''/policy/activate'') False target JNull (JStr reason) st,
      PolicyBody False (policyVersion st) (sv_policy_hash st) (Some reason))"

text \<open>
  The policy is replaced before its hash is computed, so when \<open>policyHash\<close> throws the new policy is active under the old hash.
\<close>

definition activateBody ::
  "host \<Rightarrow> (jsstring \<Rightarrow> json option) \<Rightarrow> (jsstring \<Rightarrow> file_read) \<Rightarrow> jsstring \<Rightarrow> bool \<Rightarrow> jsstring + jsobject \<Rightarrow> service \<Rightarrow> service \<times> service_body" where
  "activateBody h parse files thrown written body st =
     (let threw = (\<lambda>message st1. refuseActivation written (JStr (jstr ''policy.activate'')) message st1)
      in case body of
           Inl message \<Rightarrow> threw message st
         | Inr input \<Rightarrow>
             (case getProp (Some (JObj input)) ''policy_path'' of
                Some (JStr path) \<Rightarrow>
                  if jsTrim path = [] then refuseActivation written (JStr (jstr ''missing policy path'')) (jstr ''policy_path is required'') st
                  else
                    (case files path of
                       NoFile \<Rightarrow> refuseActivation written (JStr path) (jstr ''policy file does not exist'') st
                     | Unreadable \<Rightarrow> threw thrown st
                     | Contents source \<Rightarrow>
                         (case parse source of
                            None \<Rightarrow> threw thrown st
                          | Some candidate \<Rightarrow>
                              (case validatePolicyDocument (policyTrusted h) candidate of
                                 None \<Rightarrow> threw thrown st
                               | Some (Inl reason) \<Rightarrow> refuseActivation written (JStr path) reason st
                               | Some (Inr u) \<Rightarrow>
                                   (case documentHash h (Some candidate) of
                                      None \<Rightarrow> threw thrown (st\<lparr>sv_policy := candidate\<rparr>)
                                    | Some newHash \<Rightarrow>
                                        (let st1 = st\<lparr>sv_policy := candidate, sv_policy_hash := newHash, sv_policy_path := Some path\<rparr>
                                         in (auditAuthority written (jstr ''/policy/activate'') True (JStr path) (JStr newHash) JNull st1,
                                             currentPolicyResponse st1))))))
              | _ \<Rightarrow> refuseActivation written (JStr (jstr ''missing policy path'')) (jstr ''policy_path is required'') st))"

section \<open>Replay\<close>

text \<open>The handler of \<open>/replay/recent\<close> once it is authorized; the limit is clamped by the listing. \<open>None\<close>: it throws.\<close>

definition replayRecentFor ::
  "host \<Rightarrow> js_texts \<Rightarrow> (jsstring \<Rightarrow> json option) \<Rightarrow> jsstring option \<Rightarrow> json option \<Rightarrow> service \<Rightarrow> service \<times> replay_summary option" where
  "replayRecentFor h tx parse content limit st =
     (case clampReceiptLimit tx limit of
        None \<Rightarrow> (st, None)
      | Some n \<Rightarrow>
          (let (rt, summary) = replayRecentReceipts tx parse (replayReceiptDeterministically h tx) (sv_runtime st) content n
           in (st\<lparr>sv_runtime := rt\<rparr>, summary)))"

definition summaryHash :: "replay_summary \<Rightarrow> json" where
  "summaryHash s = (case sm_policy_hash s of None \<Rightarrow> JNull | Some t \<Rightarrow> JStr t)"

fun summaryText :: "summary_status \<Rightarrow> jsstring" where
  "summaryText SummaryPass = jstr ''PASS''"
| "summaryText SummarySignatureFail = jstr ''SIGNATURE_FAIL''"
| "summaryText SummaryUnavailable = jstr ''REPLAY_UNAVAILABLE''"
| "summaryText SummaryMalformed = jstr ''MALFORMED_RECEIPT''"
| "summaryText SummaryDrift = jstr ''DRIFT''"

definition auditReplay :: "bool \<Rightarrow> json \<Rightarrow> replay_summary \<Rightarrow> service \<Rightarrow> service" where
  "auditReplay written target s st =
     auditAuthority written (jstr ''/replay/recent'') (sm_status s = SummaryPass) target (summaryHash s) (JStr (summaryText (sm_status s))) st"

definition replayRecentBody ::
  "host \<Rightarrow> js_texts \<Rightarrow> (jsstring \<Rightarrow> json option) \<Rightarrow> jsstring option \<Rightarrow> bool \<Rightarrow> jsstring + jsobject \<Rightarrow> service \<Rightarrow>
     service \<times> service_body option" where
  "replayRecentBody h tx parse content written body st =
     (let again = (\<lambda>st1. case replayRecentFor h tx parse content (Some (jint 100)) st1 of
            (st2, None) \<Rightarrow> (st2, None)
          | (st2, Some s) \<Rightarrow> (auditReplay written (JStr (jstr ''limit:100'')) s st2, Some (SummaryBody s)))
      in case body of
           Inl message \<Rightarrow> again st
         | Inr input \<Rightarrow>
             (let limit = getProp (Some (JObj input)) ''limit''
              in case replayRecentFor h tx parse content limit st of
                   (st1, None) \<Rightarrow> again st1
                 | (st1, Some s) \<Rightarrow>
                     (case stringOf tx (if nullish limit then jint 100 else the limit) of
                        None \<Rightarrow> again st1
                      | Some t \<Rightarrow> (auditReplay written (JStr (jstr ''limit:'' @ t)) s st1, Some (SummaryBody s)))))"

text \<open>
  The handler of \<open>/replay\<close>. A member that is missing makes the serialization of the answer throw. The members of the original
  decision are compared in the order of the text; JavaScript lists names that are integers first.
\<close>

definition ownMembers :: "json \<Rightarrow> (jsstring \<times> json) list option" where
  "ownMembers v =
     (case v of
        JObj ps \<Rightarrow> Some ps
      | JArr vs \<Rightarrow> Some (zip (map showNat [0..<length vs]) vs)
      | JStr s \<Rightarrow> Some (zip (map showNat [0..<length s]) (map (\<lambda>c. JStr [c]) s))
      | JNull \<Rightarrow> None
      | _ \<Rightarrow> Some [])"

definition completeMismatches :: "(jsstring \<times> json option \<times> json option) list \<Rightarrow> (jsstring \<times> json \<times> json) list option" where
  "completeMismatches ms = those (map (\<lambda>(f, a, b). case (a, b) of (Some v, Some w) \<Rightarrow> Some (f, v, w) | _ \<Rightarrow> None) ms)"

definition replayFailed :: "jsstring \<Rightarrow> service_body" where
  "replayFailed message = ReplayFailed (errMessage ''ERR_REPLAY_FAILED'' message)"

definition replayAnswer ::
  "jsstring \<Rightarrow> json \<Rightarrow> decision_output option \<Rightarrow> bool \<Rightarrow> (jsstring \<times> json option \<times> json option) list \<Rightarrow> service_body" where
  "replayAnswer thrown receipt replayed drift mismatches =
     (case (getProp (Some receipt) ''request_hash'', getProp (Some receipt) ''decision_output'', completeMismatches mismatches) of
        (Some requestHash, Some original, Some ms) \<Rightarrow>
          ReplayBody \<lparr>ra_request_hash = requestHash, ra_original = original, ra_replayed = replayed, ra_drift = drift, ra_mismatches = ms\<rparr>
      | _ \<Rightarrow> replayFailed thrown)"

datatype replay_start = ReplayAnswered service_body | ReplaySubmits "json option" json

definition replayStart :: "host \<Rightarrow> jsstring \<Rightarrow> jsstring + jsobject \<Rightarrow> replay_start" where
  "replayStart h thrown body =
     (case body of
        Inl message \<Rightarrow> ReplayAnswered (replayFailed message)
      | Inr input \<Rightarrow>
          (let receipt = receiptOfInput (JObj input)
           in case verifySignedReceipt h receipt of
                None \<Rightarrow> ReplayAnswered (replayFailed thrown)
              | Some False \<Rightarrow>
                  ReplayAnswered (ReplayBody
                    \<lparr>ra_request_hash = memberOr (getProp (Some receipt) ''request_hash''),
                     ra_original = memberOr (getProp (Some receipt) ''decision_output''), ra_replayed = None, ra_drift = True,
                     ra_mismatches = [(jstr ''signature'', JStr (jstr ''valid''), JStr (jstr ''invalid''))]\<rparr>)
              | Some True \<Rightarrow> ReplaySubmits (getProp (Some receipt) ''canonical_request'') receipt))"

definition replayRefused :: "jsstring \<Rightarrow> json \<Rightarrow> jsstring \<Rightarrow> service_body" where
  "replayRefused thrown receipt reason =
     replayAnswer thrown receipt None True [(jstr ''worker_pool'', Some (JStr (jstr ''available'')), Some (JStr reason))]"

definition decisionMember :: "decision_output \<Rightarrow> jsstring \<Rightarrow> json option" where
  "decisionMember d k = (case decisionOutputJson d of JObj ps \<Rightarrow> map_of ps k | _ \<Rightarrow> None)"

definition decisionMismatches :: "(jsstring \<times> json) list \<Rightarrow> decision_output \<Rightarrow> (jsstring \<times> json option \<times> json option) list" where
  "decisionMismatches members replayed =
     map (\<lambda>(k, v). (k, Some v, decisionMember replayed k)) (filter (\<lambda>(k, v). Some v \<noteq> decisionMember replayed k) members)"

definition replayReply :: "jsstring \<Rightarrow> json \<Rightarrow> worker_result pool_reply \<Rightarrow> service_body" where
  "replayReply thrown receipt reply =
     (case reply of
        Rejected reason \<Rightarrow>
          replayAnswer thrown receipt None True [(jstr ''worker_pool'', Some (JStr (jstr ''ok'')), Some (JStr reason))]
      | Answered (Inl failure) \<Rightarrow>
          replayAnswer thrown receipt None True
            [(jstr ''replay'', getProp (getProp (Some receipt) ''decision_output'') ''reason_code'', Some (JStr (reasonText (tf_reason_code failure))))]
      | Answered (Inr result) \<Rightarrow>
          (let replayed = rp_decision_output (sr_payload (xr_receipt result))
           in case Option.bind (getProp (Some receipt) ''decision_output'') ownMembers of
                None \<Rightarrow> replayFailed thrown
              | Some members \<Rightarrow>
                  (let mismatches = decisionMismatches members replayed
                   in replayAnswer thrown receipt (Some replayed) (mismatches \<noteq> []) mismatches)))"

end
