(* ===== verification/RoutesProps.thy ===== *)
theory RoutesProps
  imports SidecarRoutes ReceiptHistoryProps AuthProps
begin

text \<open>
  The sensitive routes of the sidecar as a transition system: a request is authorized when it arrives and handled when its body has
  been read, and between the two anything may happen. Over the reachable states the policy is replaced only by authorized
  activations, and it is active under its own hash or under none that a receipt could carry. Then the answers of \<open>/replay\<close>, and the
  counters of the connections.
\<close>

section \<open>Steps\<close>

datatype route_phase = AwaitBody jsstring | Ended | Escaped

record service_state =
  ss_service :: service
  ss_phases :: "route_phase list"
  ss_granted :: "(nat \<times> jsstring) list"
  ss_replaced :: "nat list"
  ss_bodies :: "(nat \<times> service_body) list"

definition endRequest :: "nat \<Rightarrow> service_body option \<Rightarrow> service \<Rightarrow> service_state \<Rightarrow> service_state" where
  "endRequest i body st s =
     s\<lparr>ss_service := st, ss_phases := (ss_phases s)[i := (if body = None then Escaped else Ended)],
       ss_bodies := ss_bodies s @ (case body of None \<Rightarrow> [] | Some b \<Rightarrow> [(i, b)])\<rparr>"

definition arrive :: "auth_host \<Rightarrow> jsstring \<Rightarrow> request_head \<Rightarrow> service_state \<Rightarrow> service_state" where
  "arrive ah pathname head s =
     (let i = length (ss_phases s)
      in case authorizeRequest ah pathname head (ss_service s) of
           (st, AuthRefused reason) \<Rightarrow>
             s\<lparr>ss_service := st, ss_phases := ss_phases s @ [Ended],
               ss_bodies := ss_bodies s @ [(i, RefusalBody (authReasonText reason) (authorityActionName pathname))]\<rparr>
         | (st, AuthThrew) \<Rightarrow> s\<lparr>ss_service := st, ss_phases := ss_phases s @ [Escaped]\<rparr>
         | (st, AuthGranted capability) \<Rightarrow>
             s\<lparr>ss_service := st, ss_phases := ss_phases s @ [AwaitBody pathname], ss_granted := ss_granted s @ [(i, capability)]\<rparr>
         | (st, AuthOpen) \<Rightarrow> s\<lparr>ss_service := st, ss_phases := ss_phases s @ [AwaitBody pathname]\<rparr>)"

inductive service_step :: "host \<Rightarrow> auth_host \<Rightarrow> (jsstring \<Rightarrow> json option) \<Rightarrow> js_texts \<Rightarrow> service_state \<Rightarrow> service_state \<Rightarrow> bool"
  for h ah parse tx where
  Arrive: "service_step h ah parse tx s (arrive ah pathname head s)"
| VerifyRead: "i < length (ss_phases s) \<Longrightarrow> ss_phases s ! i = AwaitBody pathname \<Longrightarrow>
    pathname = jstr ''/verify'' \<or> pathname = jstr ''/receipts/verify'' \<Longrightarrow>
    verifyBody h thrown pathname written body (ss_service s) = (st, ans) \<Longrightarrow>
    service_step h ah parse tx s (endRequest i (Some ans) st s)"
| ActivateRead: "i < length (ss_phases s) \<Longrightarrow> ss_phases s ! i = AwaitBody (jstr ''/policy/activate'') \<Longrightarrow>
    activateBody h parse files thrown written body (ss_service s) = (st, ans) \<Longrightarrow>
    service_step h ah parse tx s ((endRequest i (Some ans) st s)
      \<lparr>ss_replaced := ss_replaced s @ (if sv_policy st = sv_policy (ss_service s) then [] else [i])\<rparr>)"
| ReplayRecentRead: "i < length (ss_phases s) \<Longrightarrow> ss_phases s ! i = AwaitBody (jstr ''/replay/recent'') \<Longrightarrow>
    replayRecentBody h tx parse content written body (ss_service s) = (st, ans) \<Longrightarrow>
    service_step h ah parse tx s (endRequest i ans st s)"

definition startService :: "service \<Rightarrow> service_state" where
  "startService st = \<lparr>ss_service = st, ss_phases = [], ss_granted = [], ss_replaced = [], ss_bodies = []\<rparr>"

inductive service_reachable :: "host \<Rightarrow> auth_host \<Rightarrow> (jsstring \<Rightarrow> json option) \<Rightarrow> js_texts \<Rightarrow> service \<Rightarrow> service_state \<Rightarrow> bool"
  for h ah parse tx st0 where
  ServiceStart: "service_reachable h ah parse tx st0 (startService st0)"
| ServiceStep: "service_reachable h ah parse tx st0 s \<Longrightarrow> service_step h ah parse tx s s' \<Longrightarrow> service_reachable h ah parse tx st0 s'"

section \<open>Only an activation replaces the policy\<close>

text \<open>The policy and the hash it is active under.\<close>

definition samePolicy :: "service \<Rightarrow> service \<Rightarrow> bool" where
  "samePolicy st st' \<longleftrightarrow> sv_policy st' = sv_policy st \<and> sv_policy_hash st' = sv_policy_hash st"

lemma samePolicy_audit [simp]: "samePolicy st (auditAuthority w p a t d r st') = samePolicy st st'"
  by (simp add: samePolicy_def auditAuthority_def)

lemma samePolicy_refl [simp]: "samePolicy st st" by (simp add: samePolicy_def)

lemma authorize_policy: "authorizeRequest ah pathname head st = (st', ans) \<Longrightarrow> samePolicy st st'"
  by (auto simp: authorizeRequest_def Let_def samePolicy_def auditAuthority_def split: prod.splits auth_answer.splits)

lemma verify_policy: "verifyBody h thrown pathname written body st = (st', ans) \<Longrightarrow> samePolicy st st'"
  by (auto simp: verifyBody_def Let_def split: sum.splits option.splits)

lemma replayRecentFor_policy: "replayRecentFor h tx parse content limit st = (st', s) \<Longrightarrow> samePolicy st0 st' = samePolicy st0 st"
  by (auto simp: replayRecentFor_def samePolicy_def Let_def split: option.splits prod.splits)

lemma replayRecent_policy: "replayRecentBody h tx parse content written body st = (st', ans) \<Longrightarrow> samePolicy st st'"
  by (auto simp: replayRecentBody_def auditReplay_def Let_def replayRecentFor_policy split: sum.splits option.splits prod.splits if_splits)

text \<open>An activation leaves the policy, or replaces it by a valid one under its hash, or by a valid one that has no hash.\<close>

lemma activate_policy:
  assumes "activateBody h parse files thrown written body st = (st', ans)"
  shows "samePolicy st st' \<or>
    validatePolicyDocument (policyTrusted h) (sv_policy st') = Some (Inr ()) \<and> (\<exists>source. parse source = Some (sv_policy st')) \<and>
      (documentHash h (Some (sv_policy st')) = Some (sv_policy_hash st') \<or> documentHash h (Some (sv_policy st')) = None)"
  using assms
  by (auto simp: activateBody_def refuseActivation_def auditAuthority_def samePolicy_def Let_def
      split: sum.splits option.splits json.splits file_read.splits if_splits)

definition policyOk :: "host \<Rightarrow> (jsstring \<Rightarrow> json option) \<Rightarrow> service \<Rightarrow> service \<Rightarrow> bool" where
  "policyOk h parse st0 st \<longleftrightarrow>
     (documentHash h (Some (sv_policy st)) = Some (sv_policy_hash st) \<or> documentHash h (Some (sv_policy st)) = None) \<and>
     (sv_policy st = sv_policy st0 \<or>
        validatePolicyDocument (policyTrusted h) (sv_policy st) = Some (Inr ()) \<and> (\<exists>source. parse source = Some (sv_policy st)))"

definition serviceOk :: "host \<Rightarrow> (jsstring \<Rightarrow> json option) \<Rightarrow> service \<Rightarrow> service_state \<Rightarrow> bool" where
  "serviceOk h parse st0 s \<longleftrightarrow> policyOk h parse st0 (ss_service s) \<and>
     (sv_policy (ss_service s) \<noteq> sv_policy st0 \<longrightarrow> ss_replaced s \<noteq> []) \<and>
     distinct (ss_replaced s) \<and>
     (\<forall>i \<in> set (ss_replaced s). i < length (ss_phases s) \<and> ss_phases s ! i = Ended \<and> (i, jstr ''activate_policy'') \<in> set (ss_granted s)) \<and>
     (\<forall>i < length (ss_phases s). ss_phases s ! i = AwaitBody (jstr ''/policy/activate'') \<longrightarrow> (i, jstr ''activate_policy'') \<in> set (ss_granted s))"

lemma policyOk_same: "samePolicy st st' \<Longrightarrow> policyOk h parse st0 st \<Longrightarrow> policyOk h parse st0 st'"
  by (simp add: samePolicy_def policyOk_def)

lemma authorize_activation:
  assumes "authorizeRequest ah (jstr ''/policy/activate'') head st = (st', ans)"
  shows "ans \<noteq> AuthOpen" "ans = AuthGranted c \<Longrightarrow> c = jstr ''activate_policy''"
proof -
  have "requiredCapabilityForPath (jstr ''/policy/activate'') = Some (jstr ''activate_policy'')"
    by (simp add: requiredCapabilityForPath_def)
  with assms show "ans \<noteq> AuthOpen" "ans = AuthGranted c \<Longrightarrow> c = jstr ''activate_policy''"
    by (auto simp: authorizeRequest_def authorizeAuthorityAction_def Let_def split: prod.splits option.splits sum.splits if_splits auth_answer.splits bool.splits)
qed

lemma endRequest_ok:
  assumes "serviceOk h parse st0 s" "samePolicy (ss_service s) st" "i < length (ss_phases s)" "ss_phases s ! i = AwaitBody p"
  shows "serviceOk h parse st0 (endRequest i ans st s)"
proof -
  have "i \<notin> set (ss_replaced s)" using assms(1,4) by (auto simp: serviceOk_def)
  with assms policyOk_same [OF assms(2)] show ?thesis
    by (auto simp: serviceOk_def endRequest_def samePolicy_def nth_list_update)
qed

lemma service_step_ok:
  assumes "service_step h ah parse tx s s'" "serviceOk h parse st0 s"
  shows "serviceOk h parse st0 s'"
  using assms
proof (induction rule: service_step.induct)
  case (Arrive s pathname head)
  obtain st ans where auth: "authorizeRequest ah pathname head (ss_service s) = (st, ans)" by fastforce
  note same = authorize_policy [OF auth]
  have policy: "policyOk h parse st0 st" "sv_policy st = sv_policy (ss_service s)"
    using policyOk_same [OF same] Arrive same by (simp_all add: serviceOk_def samePolicy_def)
  have grows: "serviceOk h parse st0 (s\<lparr>ss_service := st, ss_phases := ss_phases s @ [p], ss_granted := ss_granted s @ more, ss_bodies := bodies\<rparr>)"
    if "p = AwaitBody (jstr ''/policy/activate'') \<Longrightarrow> (length (ss_phases s), jstr ''activate_policy'') \<in> set more" for p more bodies
    unfolding serviceOk_def
  proof (intro conjI)
    have old: "policyOk h parse st0 (ss_service s)" "sv_policy (ss_service s) \<noteq> sv_policy st0 \<longrightarrow> ss_replaced s \<noteq> []" "distinct (ss_replaced s)"
      "\<forall>i \<in> set (ss_replaced s). i < length (ss_phases s) \<and> ss_phases s ! i = Ended \<and> (i, jstr ''activate_policy'') \<in> set (ss_granted s)"
      "\<forall>i < length (ss_phases s). ss_phases s ! i = AwaitBody (jstr ''/policy/activate'') \<longrightarrow> (i, jstr ''activate_policy'') \<in> set (ss_granted s)"
      using Arrive by (simp_all add: serviceOk_def)
    let ?s = "s\<lparr>ss_service := st, ss_phases := ss_phases s @ [p], ss_granted := ss_granted s @ more, ss_bodies := bodies\<rparr>"
    show "policyOk h parse st0 (ss_service ?s)" using policy(1) by simp
    show "sv_policy (ss_service ?s) \<noteq> sv_policy st0 \<longrightarrow> ss_replaced ?s \<noteq> []" using old(2) policy(2) by simp
    show "distinct (ss_replaced ?s)" using old(3) by simp
    show "\<forall>i \<in> set (ss_replaced ?s). i < length (ss_phases ?s) \<and> ss_phases ?s ! i = Ended \<and> (i, jstr ''activate_policy'') \<in> set (ss_granted ?s)"
      using old(4) by (auto simp: nth_append)
    show "\<forall>i < length (ss_phases ?s). ss_phases ?s ! i = AwaitBody (jstr ''/policy/activate'') \<longrightarrow> (i, jstr ''activate_policy'') \<in> set (ss_granted ?s)"
      using old(5) that by (simp add: nth_append less_Suc_eq)
  qed
  have "(length (ss_phases s), jstr ''activate_policy'') \<in> set [(length (ss_phases s), c)]"
    if "ans = AuthGranted c" "AwaitBody pathname = AwaitBody (jstr ''/policy/activate'')" for c
    using authorize_activation(2) [of ah head "ss_service s" st ans c] auth that by simp
  moreover have "AwaitBody pathname \<noteq> AwaitBody (jstr ''/policy/activate'')" if "ans = AuthOpen"
    using authorize_activation(1) [of ah head "ss_service s" st ans] auth that by auto
  ultimately show ?case
    using grows [of Ended "[]"] grows [of Escaped "[]" "ss_bodies s"] grows [of "AwaitBody pathname" "[]" "ss_bodies s"]
      grows [of "AwaitBody pathname" "[(length (ss_phases s), c)]" "ss_bodies s" for c]
    by (cases ans) (simp_all add: arrive_def auth Let_def)
next
  case (VerifyRead i s pathname thrown written body st ans)
  then show ?case using endRequest_ok [OF VerifyRead(5) verify_policy [OF VerifyRead(4)]] by blast
next
  case (ReplayRecentRead i s content written body st ans)
  then show ?case using endRequest_ok [OF ReplayRecentRead(4) replayRecent_policy [OF ReplayRecentRead(3)]] by blast
next
  case (ActivateRead i s files thrown written body st ans)
  have fresh: "i \<notin> set (ss_replaced s)" using ActivateRead by (auto simp: serviceOk_def)
  have granted: "(i, jstr ''activate_policy'') \<in> set (ss_granted s)" using ActivateRead by (simp add: serviceOk_def)
  have "policyOk h parse st0 st"
    using activate_policy [OF ActivateRead(3)]
  proof
    assume "samePolicy (ss_service s) st"
    moreover have "policyOk h parse st0 (ss_service s)" using ActivateRead(4) by (simp add: serviceOk_def)
    ultimately show ?thesis by (rule policyOk_same)
  qed (simp add: policyOk_def)
  moreover have "i < length (ss_phases s)" by (rule ActivateRead(1))
  moreover have old: "sv_policy (ss_service s) \<noteq> sv_policy st0 \<longrightarrow> ss_replaced s \<noteq> []" "distinct (ss_replaced s)"
    "\<forall>i \<in> set (ss_replaced s). i < length (ss_phases s) \<and> ss_phases s ! i = Ended \<and> (i, jstr ''activate_policy'') \<in> set (ss_granted s)"
    "\<forall>i < length (ss_phases s). ss_phases s ! i = AwaitBody (jstr ''/policy/activate'') \<longrightarrow> (i, jstr ''activate_policy'') \<in> set (ss_granted s)"
    using ActivateRead(4) by (simp_all add: serviceOk_def)
  ultimately show ?case using fresh granted
    by (cases "sv_policy st = sv_policy (ss_service s)") (simp_all add: serviceOk_def endRequest_def nth_list_update)
qed

lemma service_reachable_ok:
  assumes "service_reachable h ah parse tx st0 s" "documentHash h (Some (sv_policy st0)) = Some (sv_policy_hash st0)"
  shows "serviceOk h parse st0 s"
  using assms(1)
proof (induction rule: service_reachable.induct)
  case ServiceStart
  with assms(2) show ?case by (simp add: serviceOk_def startService_def policyOk_def)
next
  case (ServiceStep s s')
  show ?case by (rule service_step_ok [OF ServiceStep(2,3)])
qed

section \<open>The hash of the active policy\<close>

text \<open>The objects of a JavaScript value have distinct keys; if such a value can be serialized its numbers are safe.\<close>

fun distinctKeys :: "json \<Rightarrow> bool" where
  "distinctKeys (JArr vs) = (\<forall>v \<in> set vs. distinctKeys v)"
| "distinctKeys (JObj ps) = (distinct (map fst ps) \<and> (\<forall>p \<in> set ps. distinctKeys (snd p)))"
| "distinctKeys v = True"

lemma those_Some: "those xs = Some ys \<Longrightarrow> x \<in> set xs \<Longrightarrow> x \<noteq> None"
  by (induction xs arbitrary: ys) (auto split: option.splits)

lemma serialized_wf: "distinctKeys v \<Longrightarrow> canonicalizeJson v \<noteq> None \<Longrightarrow> wfJson v"
proof (induction v rule: distinctKeys.induct)
  case (1 vs)
  from 1(3) obtain ys where ys: "those (map canonicalizeJson vs) = Some ys" by auto
  have "wfJson v" if v: "v \<in> set vs" for v
  proof -
    have "canonicalizeJson v \<noteq> None" using v by (intro those_Some [OF ys]) simp
    with 1(1) [OF v] 1(2) v show ?thesis by simp
  qed
  then show ?case by simp
next
  case (2 ps)
  from 2(3) obtain ys where ys: "those (map (\<lambda>(k, v). map_option (\<lambda>t. (k, t)) (canonicalizeJson v)) ps) = Some ys" by auto
  have "wfJson (snd p)" if p: "p \<in> set ps" for p
  proof -
    have "(\<lambda>(k, v). map_option (\<lambda>t. (k, t)) (canonicalizeJson v)) p \<noteq> None" using p by (intro those_Some [OF ys]) simp
    with 2(1) [OF p] 2(2) p show ?thesis by (simp add: split_def)
  qed
  with 2(2) show ?case by simp
qed (auto simp: serializeNumber_def split: if_splits)

lemma runtime_input_policy:
  assumes "canonicalizeJson (JObj (createRuntimeInput request p)) = Some t" "distinctKeys p"
  shows "wfJson p"
proof -
  from assms(1) obtain ys where "those (map (\<lambda>(k, v). map_option (\<lambda>t. (k, t)) (canonicalizeJson v)) (createRuntimeInput request p)) = Some ys"
    by auto
  then have "(\<lambda>(k, v). map_option (\<lambda>t. (k, t)) (canonicalizeJson v)) (jstr ''policy_document'', p) \<noteq> None"
    by (rule those_Some) (simp add: createRuntimeInput_def)
  with serialized_wf [OF assms(2)] show ?thesis by simp
qed

lemma wfJson_distinctKeys: "wfJson v \<Longrightarrow> distinctKeys v"
  by (induction v rule: distinctKeys.induct) simp_all

text \<open>
  C8: only an authorized activation replaces the policy, and no receipt is issued under a wrong hash. Whatever requests arrive and in
  whatever order their bodies are read: if the active policy is not the one the process started with, a request with a granted assertion for
  \<open>activate_policy\<close> replaced it, each request at most once, by a document that passes the policy check; and every receipt that
  the pipeline issues for a request under the active policy carries the policy hash that the process reports, even when
  \<open>policyHash\<close> threw in the middle of an activation.
\<close>

theorem policy_replaced_by_grant:
  assumes "service_reachable h ah parse tx st0 s" "documentHash h (Some (sv_policy st0)) = Some (sv_policy_hash st0)"
    and "distinctKeys (sv_policy st0)" "\<forall>source v. parse source = Some v \<longrightarrow> distinctKeys v"
  shows "(sv_policy (ss_service s) \<noteq> sv_policy st0 \<longrightarrow>
      validatePolicyDocument (policyTrusted h) (sv_policy (ss_service s)) = Some (Inr ()) \<and> ss_replaced s \<noteq> []) \<and>
    distinct (ss_replaced s) \<and> (\<forall>i \<in> set (ss_replaced s). (i, jstr ''activate_policy'') \<in> set (ss_granted s)) \<and>
    (\<forall>request t x. wfObj request \<and> canonicalizeJson (JObj (createRuntimeInput request (sv_policy (ss_service s)))) = Some t \<and>
       snd (executeDeterministicPipeline h initialState t) = Some (Inr x) \<longrightarrow>
       do_policy_hash (rp_decision_output (sr_payload (xr_receipt x))) = sv_policy_hash (ss_service s))"
proof -
  note ok = service_reachable_ok [OF assms(1,2)]
  let ?p = "sv_policy (ss_service s)"
  have "distinctKeys ?p" using ok assms(3,4) unfolding serviceOk_def policyOk_def by metis
  have "do_policy_hash (rp_decision_output (sr_payload (xr_receipt x))) = sv_policy_hash (ss_service s)"
    if r: "wfObj request" "canonicalizeJson (JObj (createRuntimeInput request ?p)) = Some t"
      "snd (executeDeterministicPipeline h initialState t) = Some (Inr x)" for request t x
  proof -
    have wf: "wfJson ?p" by (rule runtime_input_policy [OF r(2) \<open>distinctKeys ?p\<close>])
    obtain st' where "executeDeterministicPipeline h initialState t = (st', Some (Inr x))" using r(3) by (metis prod.collapse)
    from active_policy_run [OF r(1) wf r(2) this] ok show ?thesis unfolding serviceOk_def policyOk_def by auto
  qed
  with ok show ?thesis unfolding serviceOk_def policyOk_def by blast
qed

section \<open>A torn activation\<close>

definition adminHost :: auth_host where
  "adminHost =
     \<lparr>ah_payload = (\<lambda>part. Some (JsObject (samplePayload ''ADMIN'' ''activate_policy''))),
      ah_verify = (\<lambda>key payload signature. True), ah_publicKey = Some (jstr ''k'')\<rparr>"

definition adminHead :: request_head where
  "adminHead = \<lparr>rh_assertion = OneHeader (jstr ''p.s''), rh_now = 0, rh_cleanup_write = FileKept, rh_reserve_write = Written, rh_audit_written = True\<rparr>"

text \<open>A policy with a limit of half an hour passes the check and cannot be hashed.\<close>

definition halfHourPolicy :: json where
  "halfHourPolicy = JObj [(jstr ''schema_version'', JStr (jstr ''ecs.policy.v1'')), (jstr ''policy_version'', JStr (jstr ''2'')),
     (jstr ''rules'', JObj [(jstr ''max_hours'', JNum (FracNum 5 1))])]"

lemma halfHour_valid: "validatePolicyDocument verify halfHourPolicy = Some (Inr ())"
  by (simp add: validatePolicyDocument_def halfHourPolicy_def Let_def getProp_def nonEmptyString_def falsy_def)

lemma halfHour_unhashable: "documentHash h (Some halfHourPolicy) = None"
  by (simp add: documentHash_def halfHourPolicy_def objectLiteral_def getProp_def hashCanonicalJson_def serializeNumber_def)

lemma admin_granted:
  "\<exists>st1. authorizeAuthorityAction adminHost emptyAuth (jstr ''/policy/activate'') (Some (jstr ''p.s'')) 0 FileKept Written =
     (st1, AuthGranted (jstr ''activate_policy''))"
proof -
  have split: "splitOn 46 [] (jstr ''p.s'') = [jstr ''p'', jstr ''s'']" by code_simp
  have trim: "jsTrim (jstr ''p.s'') = jstr ''p.s''" "jsTrim (jstr ''k'') = jstr ''k''" by code_simp+
  have "validateAssertionClaims (samplePayload ''ADMIN'' ''activate_policy'') 0 =
      Some (Inr \<lparr>gr_capabilities = [jstr ''activate_policy''], gr_nonce = replicate 24 65\<rparr>)" by code_simp
  moreover have "actorRenders (samplePayload ''ADMIN'' ''activate_policy'')" by code_simp
  ultimately have "validateAuthorityAssertion adminHost (Some (jstr ''p.s'')) 0 =
      Some (Inr \<lparr>gr_capabilities = [jstr ''activate_policy''], gr_nonce = replicate 24 65\<rparr>)"
    by (simp add: validateAuthorityAssertion_def adminHost_def split trim)
  then show ?thesis
    by (simp add: authorizeAuthorityAction_def requiredCapabilityForPath_def reserveNonce_def emptyAuth_def
        loadPersistentNonces_def cleanupNonces_def persistNonces_def Let_def)
qed

definition runningService :: "host \<Rightarrow> service" where
  "runningService h =
     (let p = JObj (policyFields (ci_policy_document makeBaseInput))
      in \<lparr>sv_policy = p, sv_policy_hash = the (documentHash h (Some p)), sv_policy_path = None, sv_auth = emptyAuth, sv_audit = [],
          sv_runtime = initialState\<rparr>)"

theorem policy_replaced_by_grant_witness:
  "\<forall>tx. \<exists>s. service_reachable testHost adminHost (\<lambda>source. Some halfHourPolicy) tx (runningService testHost) s \<and>
     sv_policy (ss_service s) = halfHourPolicy \<and> documentHash testHost (Some (sv_policy (ss_service s))) = None \<and>
     documentHash testHost (Some (sv_policy (runningService testHost))) = Some (sv_policy_hash (ss_service s)) \<and> ss_replaced s = [0]"
proof (rule allI)
  fix tx
  let ?parse = "\<lambda>source :: jsstring. Some halfHourPolicy" and ?st0 = "runningService testHost"
  have trim: "parseAuthorityAssertion (OneHeader (jstr ''p.s'')) = Some (jstr ''p.s'')" by code_simp
  obtain auth where auth: "authorizeAuthorityAction adminHost emptyAuth (jstr ''/policy/activate'') (Some (jstr ''p.s'')) 0 FileKept Written =
     (auth, AuthGranted (jstr ''activate_policy''))" using admin_granted by blast
  have "wfJson JNull" by simp
  note client = clientRequest_runs [OF validInput_base [of testHost] this]
  obtain st' x where x: "executeDeterministicPipeline testHost initialState (requestText makeBaseInput) = (st', Some (Inr x))"
    by (rule worker_allows_base)
  from active_policy_run [OF client(1,2,3) x] have hashed: "documentHash testHost (Some (sv_policy ?st0)) = Some (sv_policy_hash ?st0)"
    by (simp add: runningService_def Let_def)
  have keys: "distinctKeys (sv_policy ?st0)" "\<forall>source v. ?parse source = Some v \<longrightarrow> distinctKeys v"
    using wfJson_distinctKeys [OF client(2)] by (simp_all add: runningService_def Let_def halfHourPolicy_def)
  let ?s1 = "arrive adminHost (jstr ''/policy/activate'') adminHead (startService ?st0)"
  have s1: "?s1 = \<lparr>ss_service = ?st0\<lparr>sv_auth := auth\<rparr>, ss_phases = [AwaitBody (jstr ''/policy/activate'')],
      ss_granted = [(0, jstr ''activate_policy'')], ss_replaced = [], ss_bodies = []\<rparr>"
    using auth by (simp add: arrive_def authorizeRequest_def adminHead_def startService_def runningService_def trim Let_def del: parseAuthorityAssertion.simps)
  have reach1: "service_reachable testHost adminHost ?parse tx ?st0 ?s1"
    by (rule service_reachable.ServiceStep [OF service_reachable.ServiceStart service_step.Arrive])
  let ?body = "Inr [(jstr ''policy_path'', JStr (jstr ''p''))] :: jsstring + jsobject"
  obtain st ans where act: "activateBody testHost ?parse (\<lambda>path. Contents []) [] True ?body (ss_service ?s1) = (st, ans)" by fastforce
  have trimmed: "jsTrim (jstr ''p'') = jstr ''p''" by code_simp
  have "halfHourPolicy \<noteq> sv_policy ?st0" using hashed halfHour_unhashable [of testHost] by (metis option.distinct(1))
  then have st: "sv_policy st = halfHourPolicy" "sv_policy_hash st = sv_policy_hash ?st0" "sv_policy st \<noteq> sv_policy ?st0"
    using act by (auto simp: activateBody_def s1 getProp_def trimmed halfHour_valid halfHour_unhashable refuseActivation_def auditAuthority_def Let_def)
  let ?s2 = "(endRequest 0 (Some ans) st ?s1)\<lparr>ss_replaced := ss_replaced ?s1 @ (if sv_policy st = sv_policy (ss_service ?s1) then [] else [0])\<rparr>"
  have "service_step testHost adminHost ?parse tx ?s1 ?s2"
    by (rule service_step.ActivateRead [OF _ _ act]) (simp_all add: s1)
  then have reach2: "service_reachable testHost adminHost ?parse tx ?st0 ?s2" by (rule service_reachable.ServiceStep [OF reach1])
  have s2: "ss_service ?s2 = st" "ss_replaced ?s2 = [0]" using st(3) by (simp_all add: endRequest_def s1)
  from policy_replaced_by_grant [OF reach2 hashed keys] have "ss_replaced ?s2 \<noteq> []" using st(3) s2(1) by metis
  with reach2 s2 st(1,2) hashed halfHour_unhashable [of testHost]
  show "\<exists>s. service_reachable testHost adminHost ?parse tx ?st0 s \<and>
     sv_policy (ss_service s) = halfHourPolicy \<and> documentHash testHost (Some (sv_policy (ss_service s))) = None \<and>
     documentHash testHost (Some (sv_policy ?st0)) = Some (sv_policy_hash (ss_service s)) \<and> ss_replaced s = [0]"
    by (intro exI [of _ ?s2]) simp
qed

section \<open>The replay of one receipt\<close>

text \<open>What the worker pool resolves the task with when its worker answers.\<close>

definition workerReply :: "host \<Rightarrow> jsstring \<Rightarrow> runtime_state \<Rightarrow> jsstring \<Rightarrow> worker_result pool_reply" where
  "workerReply h thrown ws raw = (case snd (workerMessage h thrown ws raw) of Inl reason \<Rightarrow> Rejected reason | Inr result \<Rightarrow> Answered result)"

lemma workerReply_Inr: "workerReply h thrown ws raw = Answered (Inr x) \<longleftrightarrow> snd (executeDeterministicPipeline h initialState raw) = Some (Inr x)"
  by (auto simp: workerReply_def workerMessage_def resetRuntimeState_initial split: prod.splits option.splits sum.splits)

lemma replayAnswer_body: "replayAnswer thrown receipt replayed drift ms = ReplayBody a \<Longrightarrow>
    ra_drift a = drift \<and> ra_replayed a = replayed \<and> getProp (Some receipt) ''decision_output'' = Some (ra_original a)"
  by (auto simp: replayAnswer_def replayFailed_def split: option.splits)

lemma replayStart_submits: "replayStart h thrown (Inr input) = ReplaySubmits raw receipt \<Longrightarrow>
    receipt = receiptOfInput (JObj input) \<and> verifySignedReceipt h receipt = Some True \<and> getProp (Some receipt) ''canonical_request'' = raw"
  by (auto simp: replayStart_def Let_def split: option.splits bool.splits)

text \<open>
  C38: \<open>/replay\<close> reports no drift exactly for what the pipeline decides again. When the route answers a receipt with its comparison, the
  signature of the receipt is valid, and it reports no drift exactly when the pipeline, run from empty stores on the stored
  request, issues a receipt whose decision has every member of the stored decision with the same value. Members that the stored decision
  lacks are not missed.
\<close>

theorem replay_route_exact:
  assumes "replayStart h thrown (Inr input) = ReplaySubmits (Some (JStr raw)) receipt"
    and "replayReply thrown receipt (workerReply h thrown ws raw) = ReplayBody a"
  shows "receipt = receiptOfInput (JObj input) \<and> verifySignedReceipt h receipt = Some True \<and>
    getProp (Some receipt) ''decision_output'' = Some (ra_original a) \<and>
    (\<not> ra_drift a \<longleftrightarrow>
      (\<exists>x members. snd (executeDeterministicPipeline h initialState raw) = Some (Inr x) \<and> ownMembers (ra_original a) = Some members \<and>
         (\<forall>(k, v) \<in> set members. decisionMember (rp_decision_output (sr_payload (xr_receipt x))) k = Some v)))"
proof -
  note start = replayStart_submits [OF assms(1)]
  show ?thesis
  proof (cases "\<exists>x. workerReply h thrown ws raw = Answered (Inr x)")
    case True
    then obtain x where x: "workerReply h thrown ws raw = Answered (Inr x)" by blast
    let ?d = "rp_decision_output (sr_payload (xr_receipt x))"
    from assms(2) obtain members where members: "Option.bind (getProp (Some receipt) ''decision_output'') ownMembers = Some members"
      by (auto simp: replayReply_def x replayFailed_def Let_def split: option.splits)
    with assms(2) have body: "replayAnswer thrown receipt (Some ?d) (decisionMismatches members ?d \<noteq> []) (decisionMismatches members ?d) = ReplayBody a"
      by (simp add: replayReply_def x Let_def)
    from replayAnswer_body [OF body] members have original: "ownMembers (ra_original a) = Some members"
      "getProp (Some receipt) ''decision_output'' = Some (ra_original a)" by auto
    have "ra_drift a \<longleftrightarrow> decisionMismatches members ?d \<noteq> []" using replayAnswer_body [OF body] by simp
    then have "\<not> ra_drift a \<longleftrightarrow> (\<forall>(k, v) \<in> set members. decisionMember ?d k = Some v)"
      by (auto simp: decisionMismatches_def filter_empty_conv)
    with start original x workerReply_Inr [of h thrown ws raw x] show ?thesis by auto
  next
    case False
    then have "\<exists>ms. replayAnswer thrown receipt None True ms = ReplayBody a"
      using assms(2) by (auto simp: replayReply_def split: pool_reply.splits sum.splits)
    then obtain ms where "replayAnswer thrown receipt None True ms = ReplayBody a" by blast
    from replayAnswer_body [OF this] start False workerReply_Inr [of h thrown ws raw] show ?thesis by auto
  qed
qed

lemma issued_decision_same:
  assumes "wfJson (JObj (receiptFields r))"
  shows "\<exists>members. getProp (Some (issuedJson r)) ''decision_output'' = Some (JObj members) \<and>
    decisionMismatches members (rp_decision_output (sr_payload r)) = []"
proof -
  let ?d = "rp_decision_output (sr_payload r)"
  obtain ps where ps: "decisionOutputJson ?d = JObj ps" by (simp add: decisionOutputJson_def)
  have "decisionOf (issuedJson r) = map_option normJson (decisionOf (JObj (receiptFields r)))" by (rule issued_norm(2) [OF assms])
  then have "getProp (Some (issuedJson r)) ''decision_output'' = Some (normJson (JObj ps))"
    by (simp add: decisionOf_def getProp_def receiptFields_def payloadFields_def ps del: normJson.simps)
  moreover have "decisionMismatches (normObject ps) ?d = []"
    using ps by (auto simp: decisionMismatches_def decisionMember_def filter_empty_conv normObject_def decisionOutputJson_def)
  ultimately show ?thesis by (auto simp only: normJson_JObj)
qed

theorem replay_route_exact_witness:
  "\<exists>input raw receipt a. replayStart testHost [] (Inr input) = ReplaySubmits (Some (JStr raw)) receipt \<and>
     replayReply [] receipt (workerReply testHost [] initialState raw) = ReplayBody a \<and> \<not> ra_drift a \<and>
     verifySignedReceipt testHost receipt = Some True"
proof -
  obtain st' x where x: "executeDeterministicPipeline testHost initialState (requestText makeBaseInput) = (st', Some (Inr x))"
    by (rule worker_allows_base)
  let ?r = "xr_receipt x" and ?raw = "rp_canonical_request (sr_payload (xr_receipt x))"
  note receipt = executed_receipt [OF host_laws(2) x]
  note top = issued_top [OF receipt(1)]
  have verified: "verifySignedReceipt testHost (issuedJson ?r) = Some True" by (rule issued_verified [OF receipt(1,2)])
  have "objectLike (Some (issuedJson ?r))" by (simp add: objectLike_def issued_object)
  then have input: "receiptOfInput (JObj [(jstr ''receipt'', issuedJson ?r)]) = issuedJson ?r"
    by (simp add: receiptOfInput_def getProp_def Let_def)
  have start: "replayStart testHost [] (Inr [(jstr ''receipt'', issuedJson ?r)]) = ReplaySubmits (Some (JStr ?raw)) (issuedJson ?r)"
    by (simp add: replayStart_def Let_def input verified top(2))
  have "executeDeterministicPipeline testHost initialState ?raw = (st', Some (Inr x))" using receipt_request [OF x] x by simp
  then have reply: "workerReply testHost [] initialState ?raw = Answered (Inr x)" by (simp add: workerReply_Inr)
  obtain members where members: "getProp (Some (issuedJson ?r)) ''decision_output'' = Some (JObj members)"
    "decisionMismatches members (rp_decision_output (sr_payload ?r)) = []" using issued_decision_same [OF receipt(1)] by blast
  have "\<exists>a. replayReply [] (issuedJson ?r) (workerReply testHost [] initialState ?raw) = ReplayBody a \<and> \<not> ra_drift a"
    by (simp add: replayReply_def reply members ownMembers_def Let_def replayAnswer_def top(3) completeMismatches_def)
  then obtain a where a: "replayReply [] (issuedJson ?r) (workerReply testHost [] initialState ?raw) = ReplayBody a" "\<not> ra_drift a" by blast
  from replay_route_exact [OF start a(1)] start a show ?thesis by blast
qed

section \<open>The counters of the connections\<close>

datatype transport_op = ShedDecision shed_outcome | Flushed | BadRequest | TimedOut | Opens | Closes nat

fun transportStep :: "transport \<Rightarrow> transport_op \<Rightarrow> transport" where
  "transportStep t (ShedDecision outcome) = l0ShedDecision outcome t"
| "transportStep t Flushed = responseFlushed t"
| "transportStep t BadRequest = clientError t"
| "transportStep t TimedOut = serverTimeout t"
| "transportStep t Opens = connectionAccepted t"
| "transportStep t (Closes k) = recordL0Close k t"

definition transportOk :: "transport \<Rightarrow> bool" where
  "transportOk t \<longleftrightarrow> tr_shed_total t = tr_shed_destroy_total t + tr_shed_503_total t \<and>
     tr_shed_destroy_total t = tr_malformed_destroy t + tr_timeout_destroy t \<and> tr_shed_503_total t = tr_overload_503 t \<and>
     0 \<le> tr_overload_503 t \<and> tr_active t = int (openSlots (tr_sockets t)) \<and> tr_accepted t = tr_active t + tr_closed t"

lemma transportStep_ok: "transportOk t \<Longrightarrow> transportOk (transportStep t x)"
  using openSlots_close [of _ "tr_sockets t"] openSlots_snoc [of "tr_sockets t"]
  by (cases x) (auto simp: transportOk_def l0ShedDecision_def responseFlushed_def clientError_def serverTimeout_def connectionAccepted_def
      recordL0Close_def countDestroyed_def Let_def split: shed_outcome.split)

text \<open>
  The counters of the connections balance. After any sequence of connections, closings (of one connection any number of times), shed
  decisions, malformed requests and timeouts: every shed is counted as answered or as destroyed, the reasons add up to both, and
  the active connections are the accepted ones that have not closed.
\<close>

theorem connections_balance:
  "let t = foldl transportStep newTransport ops
   in tr_shed_total t = tr_shed_destroy_total t + tr_shed_503_total t \<and>
      tr_shed_destroy_total t = tr_malformed_destroy t + tr_timeout_destroy t \<and> tr_shed_503_total t = tr_overload_503 t \<and>
      tr_active t = int (openSlots (tr_sockets t)) \<and> tr_accepted t = tr_active t + tr_closed t"
proof -
  have "transportOk (foldl transportStep t ops)" if "transportOk t" for t
    using that by (induction ops arbitrary: t) (simp_all add: transportStep_ok)
  moreover have "transportOk newTransport" by (simp add: transportOk_def newTransport_def openSlots_def)
  ultimately show ?thesis by (simp add: transportOk_def Let_def)
qed

end
