(* ===== verification/CustodyConfig.thy ===== *)
theory CustodyConfig
  imports ReceiptHistory AuthAssertion
begin

text \<open>
  \<open>src/custody/runtime.ts\<close>, first part: the codes of the custody runtime, the typed errors, and the reader of the
  configuration file, whose checks run in the order of the code and stop at the first that fails.

  A check is the error it throws, or \<open>None\<close>; \<open>firstError\<close> runs checks in order. The configuration is the parsed object
  itself (\<open>cc_object\<close>, which is what is hashed) with the fields the runtime reads. \<open>ch_parse\<close> is \<open>JSON.parse\<close>, with the message
  of its exception; a literal beyond the range of the doubles, which reads as infinity, is an \<open>IntNum\<close> from \<open>2 ^ 1024\<close> on.
\<close>

section \<open>Codes and errors\<close>

datatype custody_code =
    ErrForbiddenArtifactPresent | ErrInternalSigningDisabled | ErrInvalidConfig | ErrPolicyPathMissing
  | ErrPolicyFileMissing | ErrPolicyFileUnreadable | ErrPolicyJsonParseFailed | ErrPolicySchemaInvalid
  | ErrPolicySignatureInvalid | ErrPolicyHashMismatch | ErrPreflightLockMissing | ErrPreflightConfigMismatch
  | ErrPreflightPolicyMismatch | ErrReceiptPolicyMismatch | ErrReceiptSignatureInvalid | ErrReceiptReadFailed
  | ErrPolicyDisabledModeNotAllowed
  | ErrLogPathUnavailable | ErrReceiptArchiveFailed | ErrDiskLow | ErrReceiptWriteFailed | ErrSignatureTimeout
  | OkPolicyReady | OkPolicyDisabled | OkReceiptStoreDurable | OkPreflightLock | OkCustodyReady | OkReceiptReplay
  | OkPreflight | ErrPreflightFailed | OkConfig | OkBind | OkReceiptPathWritable | OkLogPathWritable | OkEnv

fun codeText :: "custody_code \<Rightarrow> jsstring" where
  "codeText ErrForbiddenArtifactPresent = jstr ''ERR_FORBIDDEN_ARTIFACT_PRESENT''"
| "codeText ErrInternalSigningDisabled = jstr ''ERR_INTERNAL_SIGNING_DISABLED''"
| "codeText ErrInvalidConfig = jstr ''ERR_INVALID_CONFIG''"
| "codeText ErrPolicyPathMissing = jstr ''ERR_POLICY_PATH_MISSING''"
| "codeText ErrPolicyFileMissing = jstr ''ERR_POLICY_FILE_MISSING''"
| "codeText ErrPolicyFileUnreadable = jstr ''ERR_POLICY_FILE_UNREADABLE''"
| "codeText ErrPolicyJsonParseFailed = jstr ''ERR_POLICY_JSON_PARSE_FAILED''"
| "codeText ErrPolicySchemaInvalid = jstr ''ERR_POLICY_SCHEMA_INVALID''"
| "codeText ErrPolicySignatureInvalid = jstr ''ERR_POLICY_SIGNATURE_INVALID''"
| "codeText ErrPolicyHashMismatch = jstr ''ERR_POLICY_HASH_MISMATCH''"
| "codeText ErrPreflightLockMissing = jstr ''ERR_PREFLIGHT_LOCK_MISSING''"
| "codeText ErrPreflightConfigMismatch = jstr ''ERR_PREFLIGHT_CONFIG_MISMATCH''"
| "codeText ErrPreflightPolicyMismatch = jstr ''ERR_PREFLIGHT_POLICY_MISMATCH''"
| "codeText ErrReceiptPolicyMismatch = jstr ''ERR_RECEIPT_POLICY_MISMATCH''"
| "codeText ErrReceiptSignatureInvalid = jstr ''ERR_RECEIPT_SIGNATURE_INVALID''"
| "codeText ErrReceiptReadFailed = jstr ''ERR_RECEIPT_READ_FAILED''"
| "codeText ErrPolicyDisabledModeNotAllowed = jstr ''ERR_POLICY_DISABLED_MODE_NOT_ALLOWED''"
| "codeText ErrLogPathUnavailable = jstr ''ERR_LOG_PATH_UNAVAILABLE''"
| "codeText ErrReceiptArchiveFailed = jstr ''ERR_RECEIPT_ARCHIVE_FAILED''"
| "codeText ErrDiskLow = jstr ''ERR_DISK_LOW''"
| "codeText ErrReceiptWriteFailed = jstr ''ERR_RECEIPT_WRITE_FAILED''"
| "codeText ErrSignatureTimeout = jstr ''ERR_SIGNATURE_TIMEOUT''"
| "codeText OkPolicyReady = jstr ''OK_POLICY_READY''"
| "codeText OkPolicyDisabled = jstr ''OK_POLICY_DISABLED''"
| "codeText OkReceiptStoreDurable = jstr ''OK_RECEIPT_STORE_DURABLE''"
| "codeText OkPreflightLock = jstr ''OK_PREFLIGHT_LOCK''"
| "codeText OkCustodyReady = jstr ''OK_CUSTODY_READY''"
| "codeText OkReceiptReplay = jstr ''OK_RECEIPT_REPLAY''"
| "codeText OkPreflight = jstr ''OK_PREFLIGHT''"
| "codeText ErrPreflightFailed = jstr ''ERR_PREFLIGHT_FAILED''"
| "codeText OkConfig = jstr ''OK_CONFIG''"
| "codeText OkBind = jstr ''OK_BIND''"
| "codeText OkReceiptPathWritable = jstr ''OK_RECEIPT_PATH_WRITABLE''"
| "codeText OkLogPathWritable = jstr ''OK_LOG_PATH_WRITABLE''"
| "codeText OkEnv = jstr ''OK_ENV''"

record typed_error =
  te_code :: custody_code
  te_message :: jsstring
  te_field :: "jsstring option"

definition typedError :: "custody_code \<Rightarrow> jsstring \<Rightarrow> jsstring \<Rightarrow> typed_error" where
  "typedError code message field = \<lparr>te_code = code, te_message = message, te_field = Some field\<rparr>"

definition configError :: "jsstring \<Rightarrow> string \<Rightarrow> typed_error option" where
  "configError field complaint = Some (typedError ErrInvalidConfig (field @ jstr complaint) field)"

fun firstError :: "typed_error option list \<Rightarrow> typed_error option" where
  "firstError [] = None"
| "firstError (e # es) = (case e of Some x \<Rightarrow> Some x | None \<Rightarrow> firstError es)"

lemma firstError_None_iff: "firstError es = None \<longleftrightarrow> list_all (\<lambda>e. e = None) es"
  by (induction es) (auto split: option.splits)

section \<open>Checks of single fields\<close>

definition assertObject :: "json option \<Rightarrow> string \<Rightarrow> typed_error option" where
  "assertObject v field = (if isObject v then None else configError (jstr field) '' must be an object'')"

fun rejectKeys :: "jsstring list \<Rightarrow> jsstring list \<Rightarrow> string \<Rightarrow> typed_error option" where
  "rejectKeys [] allowed field = None"
| "rejectKeys (key # keys) allowed field =
     (if key \<notin> set allowed then configError (jstr field @ [46] @ key) '' is not allowed''
      else rejectKeys keys allowed field)"

definition rejectConfigKeys :: "jsobject \<Rightarrow> string list \<Rightarrow> string \<Rightarrow> typed_error option" where
  "rejectConfigKeys ps allowed field = rejectKeys (objectKeys ps) (map jstr allowed) field"

definition requireString :: "jsobject \<Rightarrow> string \<Rightarrow> string option \<Rightarrow> typed_error option" where
  "requireString ps key expected =
     (case map_of ps (jstr key) of
        Some (JStr s) \<Rightarrow>
          if s = [] then configError (jstr key) '' must be a non-empty string''
          else (case expected of
             Some e \<Rightarrow> if s \<noteq> jstr e then configError (jstr key) ('' must be '' @ e) else None
           | None \<Rightarrow> None)
      | _ \<Rightarrow> configError (jstr key) '' must be a non-empty string'')"

definition requireStringAllowEmpty :: "jsobject \<Rightarrow> string \<Rightarrow> typed_error option" where
  "requireStringAllowEmpty ps key =
     (if isStr (map_of ps (jstr key)) then None else configError (jstr key) '' must be a string'')"

definition requireBoolean :: "jsobject \<Rightarrow> string \<Rightarrow> bool option \<Rightarrow> typed_error option" where
  "requireBoolean ps key expected =
     (case map_of ps (jstr key) of
        Some (JBool b) \<Rightarrow>
          (case expected of
             Some e \<Rightarrow> if b \<noteq> e then configError (jstr key) ('' must be '' @ (if e then ''true'' else ''false'')) else None
           | None \<Rightarrow> None)
      | _ \<Rightarrow> configError (jstr key) '' must be boolean'')"

definition requirePositiveInteger :: "jsobject \<Rightarrow> string \<Rightarrow> typed_error option" where
  "requirePositiveInteger ps key =
     (case map_of ps (jstr key) of
        Some (JNum (IntNum n)) \<Rightarrow>
          if isSafeInteger n \<and> 0 < n then None else configError (jstr key) '' must be a positive integer''
      | _ \<Rightarrow> configError (jstr key) '' must be a positive integer'')"

definition requireOptionalString :: "jsobject \<Rightarrow> string \<Rightarrow> typed_error option" where
  "requireOptionalString ps key =
     (if nullish (map_of ps (jstr key)) \<or> isStr (map_of ps (jstr key)) then None
      else configError (jstr key) '' must be string or null'')"

definition requireOptionalBoolean :: "jsobject \<Rightarrow> string \<Rightarrow> typed_error option" where
  "requireOptionalBoolean ps key =
     (case map_of ps (jstr key) of
        None \<Rightarrow> None
      | Some (JBool b) \<Rightarrow> None
      | _ \<Rightarrow> configError (jstr key) '' must be boolean'')"

section \<open>The bind address\<close>

text \<open>
  \<open>Number(text)\<close> of the part after the colon, as far as the port needs it. A literal denotes \<open>p / q\<close>, which is rounded to
  the nearest double; below \<open>2 ^ 53\<close> that is \<open>m / 2 ^ k\<close> with \<open>m\<close> of 53 bits, and it is an integer when \<open>2 ^ k\<close> divides \<open>m\<close>.
\<close>

definition roundedRatio :: "nat \<Rightarrow> nat \<Rightarrow> nat option" where
  "roundedRatio p q =
     (let k = 53 - floorlog 2 (p div q); a = (p * 2 ^ k) div q; r = (p * 2 ^ k) mod q;
          m = (if 2 * r > q \<or> 2 * r = q \<and> odd a then a + 1 else a)
      in if 2 ^ k dvd m then Some (m div 2 ^ k) else None)"

definition exponentPart :: "jsstring \<Rightarrow> (bool \<times> nat) option" where
  "exponentPart s =
     (case s of
        [] \<Rightarrow> Some (False, 0)
      | c # cs \<Rightarrow>
          (let ds = (if cs \<noteq> [] \<and> hd cs \<in> {43, 45} then tl cs else cs)
           in if c \<in> {101, 69} \<and> ds \<noteq> [] \<and> list_all isDigit ds
              then Some (cs \<noteq> [] \<and> hd cs = 45, digitsValue ds) else None))"

definition decimalRatio :: "jsstring \<Rightarrow> (nat \<times> nat) option" where
  "decimalRatio s =
     (let whole = takeWhile isDigit s; r = dropWhile isDigit s; point = r \<noteq> [] \<and> hd r = 46;
          frac = (if point then takeWhile isDigit (tl r) else []);
          rest = (if point then dropWhile isDigit (tl r) else r);
          n = digitsValue (whole @ frac)
      in if whole = [] \<and> frac = [] then None
         else map_option (\<lambda>(neg, e). if neg then (n, 10 ^ (length frac + e)) else (n * 10 ^ e, 10 ^ length frac))
                (exponentPart rest))"

definition radixValue :: "nat \<Rightarrow> jsstring \<Rightarrow> nat option" where
  "radixValue b ds =
     (if ds \<noteq> [] \<and> list_all (\<lambda>d. isHexDigit d \<and> unat (hexDigitValue d) < b) ds
      then Some (foldl (\<lambda>n d. b * n + unat (hexDigitValue d)) 0 ds) else None)"

definition radixOf :: "jsstring \<Rightarrow> (nat \<times> jsstring) option" where
  "radixOf s =
     (case s of
        z # x # ds \<Rightarrow>
          if z \<noteq> 48 then None
          else if x \<in> {120, 88} then Some (16, ds)
          else if x \<in> {111, 79} then Some (8, ds)
          else if x \<in> {98, 66} then Some (2, ds)
          else None
      | _ \<Rightarrow> None)"

text \<open>The value when it is a non-negative integer; what is negative or no integer cannot be a port.\<close>

definition portNumber :: "jsstring \<Rightarrow> nat option" where
  "portNumber s =
     (let t = jsTrim s
      in if t = [] then Some 0
         else case radixOf t of
             Some (b, ds) \<Rightarrow> radixValue b ds
           | None \<Rightarrow>
               Option.bind (decimalRatio (if hd t = 43 then tl t else t)) (\<lambda>(p, q). roundedRatio p q))"

definition parseBind :: "jsstring \<Rightarrow> typed_error + (jsstring \<times> nat)" where
  "parseBind address =
     (let refusal = Inl (typedError ErrInvalidConfig (jstr ''runtime.bind must be host:port'') (jstr ''runtime.bind''))
      in case splitOn 58 [] address of
           server # portText # _ \<Rightarrow>
             (case portNumber portText of
                Some port \<Rightarrow> if server = [] \<or> port < 1 \<or> 65535 < port then refusal else Inr (server, port)
              | None \<Rightarrow> refusal)
         | _ \<Rightarrow> refusal)"

section \<open>The file system\<close>

text \<open>
  A path holds a regular file, with its text, or something else. A call of the file system may fail for a reason of its own:
  \<open>ch_fault\<close> tells for every call whether it raises, and the code and message of the exception. The other fields of the host
  are how a number is printed, what the exceptions of the file system and the engine say, the decoding of UTF-8, and the
  order of \<open>localeCompare\<close>.
\<close>

datatype file_node = RegularFile jsstring | OtherNode

type_synonym disk = "jsstring \<Rightarrow> file_node option"

datatype fs_call =
    MkDirOf jsstring | MkDir jsstring | StatFile jsstring | ReadFile jsstring | WriteFile jsstring | AppendFile jsstring
  | RenameFile jsstring jsstring | UnlinkFile jsstring

type_synonym fs_error = "jsstring \<times> jsstring"

record custody_host =
  ch_host :: host
  ch_parse :: "jsstring \<Rightarrow> jsstring + json"
  ch_number :: "jsnum \<Rightarrow> jsstring"
  ch_fault :: "fs_call \<Rightarrow> fs_error option"
  ch_node_error :: "jsstring \<Rightarrow> fs_error"
  ch_node_size :: "jsstring \<Rightarrow> nat"
  ch_verify_error :: jsstring
  ch_type_error :: jsstring
  ch_decode :: "byte list \<Rightarrow> jsstring"
  ch_locale_le :: "jsstring \<Rightarrow> jsstring \<Rightarrow> bool"

definition readFileSync :: "custody_host \<Rightarrow> disk \<Rightarrow> jsstring \<Rightarrow> fs_error + jsstring" where
  "readFileSync h d p =
     (case ch_fault h (ReadFile p) of
        Some e \<Rightarrow> Inl e
      | None \<Rightarrow> (case d p of Some (RegularFile t) \<Rightarrow> Inr t | _ \<Rightarrow> Inl (ch_node_error h p)))"

section \<open>The configuration\<close>

record custody_config =
  cc_object :: jsobject
  cc_bind :: jsstring
  cc_health_path :: jsstring
  cc_ready_path :: jsstring
  cc_log_path :: jsstring
  cc_log_max_bytes :: int
  cc_log_max_files :: int
  cc_log_required :: bool
  cc_receipts_path :: jsstring
  cc_receipts_archive_path :: jsstring
  cc_rotation_mode :: jsstring
  cc_receipts_max_bytes :: int
  cc_receipts_max_count :: int
  cc_simulate_write_failure :: bool
  cc_simulate_read_failure :: bool
  cc_min_free_bytes :: int
  cc_simulated_free_bytes :: "json option"
  cc_simulate_timeout :: bool
  cc_policy_mode :: jsstring
  cc_policy_path :: jsstring
  cc_expected_hash :: "json option"

definition configSection :: "jsobject \<Rightarrow> string \<Rightarrow> jsobject" where
  "configSection config key = (case map_of config (jstr key) of Some (JObj ps) \<Rightarrow> ps | _ \<Rightarrow> [])"

definition stringField :: "jsobject \<Rightarrow> string \<Rightarrow> jsstring" where
  "stringField ps key = (case map_of ps (jstr key) of Some (JStr s) \<Rightarrow> s | _ \<Rightarrow> [])"

definition integerField :: "jsobject \<Rightarrow> string \<Rightarrow> int" where
  "integerField ps key = (case map_of ps (jstr key) of Some (JNum (IntNum n)) \<Rightarrow> n | _ \<Rightarrow> 0)"

definition trueField :: "jsobject \<Rightarrow> string \<Rightarrow> bool" where
  "trueField ps key \<longleftrightarrow> map_of ps (jstr key) = Some (JBool True)"

text \<open>The fields of an object that passed the checks (\<open>config as CustodyConfig\<close>).\<close>

definition custodyConfigOf :: "jsobject \<Rightarrow> custody_config" where
  "custodyConfigOf config =
     (let runtime = configSection config ''runtime''; logging = configSection config ''logging'';
          receipts = configSection config ''receipts''; disk = configSection config ''disk'';
          signer = configSection config ''signer''; policy = configSection config ''policy''
      in \<lparr>cc_object = config,
          cc_bind = stringField runtime ''bind'', cc_health_path = stringField runtime ''health_path'',
          cc_ready_path = stringField runtime ''ready_path'',
          cc_log_path = stringField logging ''path'', cc_log_max_bytes = integerField logging ''max_bytes'',
          cc_log_max_files = integerField logging ''max_files'',
          cc_log_required = trueField logging ''required_for_audit_integrity'',
          cc_receipts_path = stringField receipts ''path'', cc_receipts_archive_path = stringField receipts ''archive_path'',
          cc_rotation_mode = stringField receipts ''rotation_mode'',
          cc_receipts_max_bytes = integerField receipts ''max_bytes'', cc_receipts_max_count = integerField receipts ''max_count'',
          cc_simulate_write_failure = trueField receipts ''simulate_write_failure'',
          cc_simulate_read_failure = trueField receipts ''simulate_read_failure'',
          cc_min_free_bytes = integerField disk ''min_free_bytes'',
          cc_simulated_free_bytes = map_of disk (jstr ''simulated_free_bytes''),
          cc_simulate_timeout = trueField signer ''simulate_timeout'',
          cc_policy_mode = stringField policy ''mode'', cc_policy_path = stringField policy ''path'',
          cc_expected_hash = map_of policy (jstr ''expected_hash'')\<rparr>)"

definition isSha256Hex :: "jsstring \<Rightarrow> bool" where
  "isSha256Hex s \<longleftrightarrow> length s = 64 \<and> list_all isHexDigit s"

definition errorOf :: "typed_error + 'a \<Rightarrow> typed_error option" where
  "errorOf r = (case r of Inl e \<Rightarrow> Some e | Inr a \<Rightarrow> None)"

definition failWhen :: "bool \<Rightarrow> string \<Rightarrow> string \<Rightarrow> typed_error option" where
  "failWhen c message field = (if c then Some (typedError ErrInvalidConfig (jstr message) (jstr field)) else None)"

definition topLevelChecks :: "jsobject \<Rightarrow> typed_error option list" where
  "topLevelChecks config =
     [requireBoolean config ''strict'' (Some True),
      rejectConfigKeys config [''schema_version'', ''mode'', ''strict'', ''service_name'', ''runtime'', ''logging'', ''receipts'',
        ''disk'', ''signer'', ''policy''] ''config'',
      requireString config ''schema_version'' (Some ''mnde.custody.config.v1''),
      requireString config ''mode'' (Some ''custody-only''),
      requireString config ''service_name'' (Some ''MNDeCustody''),
      assertObject (map_of config (jstr ''runtime'')) ''runtime'',
      assertObject (map_of config (jstr ''logging'')) ''logging'',
      assertObject (map_of config (jstr ''receipts'')) ''receipts'',
      assertObject (map_of config (jstr ''disk'')) ''disk'',
      assertObject (map_of config (jstr ''signer'')) ''signer'',
      assertObject (map_of config (jstr ''policy'')) ''policy'']"

definition sectionKeyChecks :: "jsobject \<Rightarrow> typed_error option list" where
  "sectionKeyChecks config =
     [rejectConfigKeys (configSection config ''runtime'')
        [''bind'', ''deny_internal_signing'', ''fail_on_forbidden_artifacts'', ''health_path'', ''ready_path''] ''runtime'',
      rejectConfigKeys (configSection config ''logging'')
        [''path'', ''runtime_log'', ''install_log'', ''verification_log'', ''max_bytes'', ''max_files'',
         ''required_for_audit_integrity''] ''logging'',
      rejectConfigKeys (configSection config ''receipts'')
        [''path'', ''archive_path'', ''rotation_mode'', ''max_bytes'', ''max_count'', ''simulate_write_failure'',
         ''simulate_read_failure''] ''receipts'',
      rejectConfigKeys (configSection config ''disk'') [''min_free_bytes'', ''simulated_free_bytes''] ''disk'',
      rejectConfigKeys (configSection config ''signer'') [''timeout_ms'', ''simulate_timeout''] ''signer'',
      rejectConfigKeys (configSection config ''policy'') [''mode'', ''path'', ''expected_hash''] ''policy'']"

definition runtimeChecks :: "jsobject \<Rightarrow> typed_error option list" where
  "runtimeChecks runtime =
     [requireString runtime ''bind'' None,
      errorOf (parseBind (stringField runtime ''bind'')),
      requireBoolean runtime ''deny_internal_signing'' (Some True),
      requireBoolean runtime ''fail_on_forbidden_artifacts'' (Some True),
      requireString runtime ''health_path'' (Some ''/healthz''),
      requireString runtime ''ready_path'' (Some ''/readyz'')]"

definition loggingChecks :: "jsobject \<Rightarrow> typed_error option list" where
  "loggingChecks logging =
     [requireString logging ''path'' None, requireString logging ''runtime_log'' None,
      requireString logging ''install_log'' None, requireString logging ''verification_log'' None,
      requirePositiveInteger logging ''max_bytes'', requirePositiveInteger logging ''max_files'',
      requireBoolean logging ''required_for_audit_integrity'' None]"

definition receiptsChecks :: "jsobject \<Rightarrow> typed_error option list" where
  "receiptsChecks receipts =
     [requireString receipts ''path'' None, requireString receipts ''archive_path'' None,
      requireString receipts ''rotation_mode'' None,
      failWhen (stringField receipts ''rotation_mode'' \<notin> {jstr ''size'', jstr ''count''})
        ''receipts.rotation_mode must be size or count'' ''receipts.rotation_mode'',
      requirePositiveInteger receipts ''max_bytes'', requirePositiveInteger receipts ''max_count'',
      requireOptionalBoolean receipts ''simulate_write_failure'', requireOptionalBoolean receipts ''simulate_read_failure'']"

definition policyChecks :: "host \<Rightarrow> jsobject \<Rightarrow> typed_error option list" where
  "policyChecks h policy =
     (let mode = stringField policy ''mode''; required = (mode = jstr ''required'')
      in [requireString policy ''mode'' None,
          failWhen (mode \<notin> {jstr ''required'', jstr ''disabled''}) ''policy.mode must be required or disabled'' ''policy.mode'',
          (if required then requireString policy ''path'' None else requireStringAllowEmpty policy ''path''),
          requireOptionalString policy ''expected_hash'',
          failWhen (required \<and> jsTrim (stringField policy ''path'') = [])
            ''policy.path must be configured in required mode'' ''policy.path'',
          failWhen (\<not> nullish (map_of policy (jstr ''expected_hash'')) \<and> \<not> isSha256Hex (stringField policy ''expected_hash''))
            ''policy.expected_hash must be a 64 character hex string or null'' ''policy.expected_hash'',
          failWhen (mode = jstr ''disabled'' \<and>
              hs_env h (jstr ''MNDE_CUSTODY_ALLOW_DISABLED_POLICY_MODE'') \<noteq> Some (jstr ''true''))
            ''ERR_POLICY_DISABLED_MODE_NOT_ALLOWED'' ''policy.mode''])"

definition configChecks :: "host \<Rightarrow> jsobject \<Rightarrow> typed_error option list" where
  "configChecks h config =
     topLevelChecks config @ sectionKeyChecks config @ runtimeChecks (configSection config ''runtime'') @
     loggingChecks (configSection config ''logging'') @ receiptsChecks (configSection config ''receipts'') @
     [requirePositiveInteger (configSection config ''disk'') ''min_free_bytes'',
      requirePositiveInteger (configSection config ''signer'') ''timeout_ms'',
      requireOptionalBoolean (configSection config ''signer'') ''simulate_timeout''] @
     policyChecks h (configSection config ''policy'')"

definition readCustodyConfig :: "custody_host \<Rightarrow> disk \<Rightarrow> jsstring \<Rightarrow> typed_error + custody_config" where
  "readCustodyConfig h d configPath =
     (let unparsed = (\<lambda>m. Inl (typedError ErrInvalidConfig (jstr ''config file cannot be parsed: '' @ m) (jstr ''config'')))
      in case readFileSync h d configPath of
           Inl (code, m) \<Rightarrow> unparsed m
         | Inr contents \<Rightarrow>
             (case ch_parse h contents of
                Inl m \<Rightarrow> unparsed m
              | Inr parsed \<Rightarrow>
                  (case (assertObject (Some parsed) ''config'', parsed) of
                     (None, JObj config) \<Rightarrow>
                       (case firstError (configChecks (ch_host h) config) of
                          Some e \<Rightarrow> Inl e
                        | None \<Rightarrow> Inr (custodyConfigOf config))
                   | (e, _) \<Rightarrow> Inl (the e))))"

end
