(* ===== verification/CustodyStore.thy ===== *)
theory CustodyStore
  imports CustodyConfig
begin

text \<open>
  \<open>src/shared/operations.js\<close>: rotation and appending of logs and receipts, the disk check and the health state.

  An operation maps the disk to its result, an exception on the left, and the disk it leaves, so a failure half way through
  leaves the renames already done. The parent directory that \<open>mkdirSync\<close> creates is not kept, only whether the call raises.
\<close>

section \<open>File operations\<close>

type_synonym ('e, 'a) fs_result = "('e + 'a) \<times> disk"

definition andThen :: "('e, 'a) fs_result \<Rightarrow> ('a \<Rightarrow> disk \<Rightarrow> ('e, 'b) fs_result) \<Rightarrow> ('e, 'b) fs_result" where
  "andThen r k = (case r of (Inl e, d) \<Rightarrow> (Inl e, d) | (Inr a, d) \<Rightarrow> k a d)"

lemma andThen_simps [simp]:
  "andThen (Inl e, d) k = (Inl e, d)"
  "andThen (Inr a, d) k = k a d"
  by (simp_all add: andThen_def)

lemma andThen_Inr_iff: "andThen r k = (Inr b, d') \<longleftrightarrow> (\<exists>a d. r = (Inr a, d) \<and> k a d = (Inr b, d'))"
  by (cases r; cases "fst r") auto

definition fsCall :: "custody_host \<Rightarrow> fs_call \<Rightarrow> disk \<Rightarrow> (fs_error, unit) fs_result" where
  "fsCall h c d = (case ch_fault h c of Some e \<Rightarrow> (Inl e, d) | None \<Rightarrow> (Inr (), d))"

definition mkdirSync :: "custody_host \<Rightarrow> fs_call \<Rightarrow> disk \<Rightarrow> (fs_error, unit) fs_result" where
  "mkdirSync h c d = fsCall h c d"

definition nodeSize :: "custody_host \<Rightarrow> jsstring \<Rightarrow> file_node \<Rightarrow> nat" where
  "nodeSize h p n = (case n of RegularFile t \<Rightarrow> length (utf8Encode t) | OtherNode \<Rightarrow> ch_node_size h p)"

definition sizeSync :: "custody_host \<Rightarrow> jsstring \<Rightarrow> disk \<Rightarrow> (fs_error, nat) fs_result" where
  "sizeSync h p d =
     andThen (fsCall h (StatFile p) d)
       (\<lambda>_ d. case d p of Some n \<Rightarrow> (Inr (nodeSize h p n), d) | None \<Rightarrow> (Inl (ch_node_error h p), d))"

definition renameSync :: "custody_host \<Rightarrow> jsstring \<Rightarrow> jsstring \<Rightarrow> disk \<Rightarrow> (fs_error, unit) fs_result" where
  "renameSync h p q d =
     andThen (fsCall h (RenameFile p q) d)
       (\<lambda>_ d. case d p of Some n \<Rightarrow> (Inr (), (d(p := None))(q \<mapsto> n)) | None \<Rightarrow> (Inl (ch_node_error h p), d))"

definition unlinkSync :: "custody_host \<Rightarrow> jsstring \<Rightarrow> disk \<Rightarrow> (fs_error, unit) fs_result" where
  "unlinkSync h p d =
     andThen (fsCall h (UnlinkFile p) d)
       (\<lambda>_ d. case d p of Some (RegularFile t) \<Rightarrow> (Inr (), d(p := None)) | _ \<Rightarrow> (Inl (ch_node_error h p), d))"

definition writeNewSync :: "custody_host \<Rightarrow> jsstring \<Rightarrow> jsstring \<Rightarrow> disk \<Rightarrow> (fs_error, unit) fs_result" where
  "writeNewSync h p t d =
     andThen (fsCall h (WriteFile p) d)
       (\<lambda>_ d. if d p = None then (Inr (), d(p \<mapsto> RegularFile t)) else (Inl (ch_node_error h p), d))"

definition writeFileSync :: "custody_host \<Rightarrow> jsstring \<Rightarrow> jsstring \<Rightarrow> disk \<Rightarrow> (fs_error, unit) fs_result" where
  "writeFileSync h p t d =
     andThen (fsCall h (WriteFile p) d)
       (\<lambda>_ d. if d p = Some OtherNode then (Inl (ch_node_error h p), d) else (Inr (), d(p \<mapsto> RegularFile t)))"

definition appendFileSync :: "custody_host \<Rightarrow> jsstring \<Rightarrow> jsstring \<Rightarrow> disk \<Rightarrow> (fs_error, unit) fs_result" where
  "appendFileSync h p t d =
     andThen (fsCall h (AppendFile p) d)
       (\<lambda>_ d. case d p of
          None \<Rightarrow> (Inr (), d(p \<mapsto> RegularFile t))
        | Some (RegularFile s) \<Rightarrow> (Inr (), d(p \<mapsto> RegularFile (s @ t)))
        | Some OtherNode \<Rightarrow> (Inl (ch_node_error h p), d))"

section \<open>Log rotation\<close>

definition numbered :: "jsstring \<Rightarrow> nat \<Rightarrow> jsstring" where
  "numbered p k = p @ [46] @ showNat k"

primrec shiftArchives :: "custody_host \<Rightarrow> jsstring \<Rightarrow> nat \<Rightarrow> disk \<Rightarrow> (fs_error, unit) fs_result" where
  "shiftArchives h p 0 d = (Inr (), d)"
| "shiftArchives h p (Suc i) d =
     andThen (if d (numbered p (Suc i)) \<noteq> None then renameSync h (numbered p (Suc i)) (numbered p (Suc i + 1)) d
              else (Inr (), d))
       (\<lambda>_ d. shiftArchives h p i d)"

definition rotateFile :: "custody_host \<Rightarrow> jsstring \<Rightarrow> int \<Rightarrow> int \<Rightarrow> disk \<Rightarrow> (fs_error, bool) fs_result" where
  "rotateFile h p maxBytes maxFiles d =
     andThen (mkdirSync h (MkDirOf p) d) (\<lambda>_ d.
       if d p = None then (Inr False, d)
       else andThen (sizeSync h p d) (\<lambda>size d.
         if int size < maxBytes then (Inr False, d)
         else if maxFiles \<le> 0 then andThen (unlinkSync h p d) (\<lambda>_ d. (Inr True, d))
         else
           (let oldest = numbered p (nat maxFiles)
            in andThen (if d oldest \<noteq> None then unlinkSync h oldest d else (Inr (), d)) (\<lambda>_ d.
                 andThen (shiftArchives h p (nat maxFiles - 1) d) (\<lambda>_ d.
                   andThen (renameSync h p (numbered p 1) d) (\<lambda>_ d. (Inr True, d)))))))"

record log_status =
  ls_ok :: bool
  ls_code :: jsstring
  ls_warning :: "jsstring option"

text \<open>\<open>writeBoundedLog\<close> with the line it writes; on the left the message of the error it raises when the log is required.\<close>

definition writeBoundedLog :: "custody_host \<Rightarrow> custody_config \<Rightarrow> jsstring \<Rightarrow> disk \<Rightarrow> (jsstring, log_status) fs_result" where
  "writeBoundedLog h c line d =
     (case andThen (rotateFile h (cc_log_path c) (cc_log_max_bytes c) (cc_log_max_files c) d)
             (\<lambda>_ d. appendFileSync h (cc_log_path c) (line @ [10]) d) of
        (Inr _, d1) \<Rightarrow> (Inr \<lparr>ls_ok = True, ls_code = jstr ''OK_LOG_WRITTEN'', ls_warning = None\<rparr>, d1)
      | (Inl (code, m), d1) \<Rightarrow>
          if cc_log_required c then (Inl m, d1)
          else (Inr \<lparr>ls_ok = False, ls_code = codeText ErrLogPathUnavailable, ls_warning = Some m\<rparr>, d1))"

section \<open>The receipt store\<close>

definition receiptCount :: "custody_host \<Rightarrow> jsstring \<Rightarrow> disk \<Rightarrow> fs_error + nat" where
  "receiptCount h p d =
     (if d p = None then Inr 0
      else case readFileSync h d p of
          Inl e \<Rightarrow> Inl e
        | Inr contents \<Rightarrow> Inr (if jsTrim contents = [] then 0 else length (splitLines [] (jsTrim contents))))"

definition pathEnd :: "jsstring \<Rightarrow> jsstring" where
  "pathEnd p = rev (takeWhile (\<lambda>c. c \<noteq> 47) (dropWhile (\<lambda>c. c = 47) (rev p)))"

text \<open>The time stamp (\<open>stamp\<close>) is in the name of the archive; \<open>path.join\<close> of a directory and a name is written out.\<close>

definition archiveTarget :: "custody_config \<Rightarrow> jsstring \<Rightarrow> jsstring" where
  "archiveTarget c stamp =
     cc_receipts_archive_path c @ [47] @ pathEnd (cc_receipts_path c) @ [46] @ stamp @ jstr ''.archive''"

text \<open>An exception of the store: its code and its message.\<close>

definition rotateReceiptsIfNeeded ::
  "custody_host \<Rightarrow> custody_config \<Rightarrow> jsstring \<Rightarrow> disk \<Rightarrow> (fs_error, bool) fs_result" where
  "rotateReceiptsIfNeeded h c stamp d =
     (let p = cc_receipts_path c
      in andThen (mkdirSync h (MkDirOf p) d) (\<lambda>_ d.
         andThen (mkdirSync h (MkDir (cc_receipts_archive_path c)) d) (\<lambda>_ d.
           if d p = None then (Inr False, d)
           else andThen
             (if cc_rotation_mode c = jstr ''size''
              then andThen (sizeSync h p d) (\<lambda>size d. (Inr (cc_receipts_max_bytes c \<le> int size), d))
              else if cc_rotation_mode c = jstr ''count''
              then (case receiptCount h p d of Inl e \<Rightarrow> (Inl e, d) | Inr n \<Rightarrow> (Inr (cc_receipts_max_count c \<le> int n), d))
              else (Inr False, d))
             (\<lambda>exceeded d.
               if \<not> exceeded then (Inr False, d)
               else (case andThen (renameSync h p (archiveTarget c stamp) d) (\<lambda>_ d. writeNewSync h p [] d) of
                   (Inl (code, m), d1) \<Rightarrow> (Inl (codeText ErrReceiptArchiveFailed, m), d1)
                 | (Inr _, d1) \<Rightarrow> (Inr True, d1))))))"

definition appendReceiptRecord ::
  "custody_host \<Rightarrow> custody_config \<Rightarrow> jsstring \<Rightarrow> jsstring \<Rightarrow> disk \<Rightarrow> (fs_error, unit) fs_result" where
  "appendReceiptRecord h c stamp line d =
     (case andThen (rotateReceiptsIfNeeded h c stamp d)
             (\<lambda>_ d. appendFileSync h (cc_receipts_path c) (line @ [10]) d) of
        (Inr _, d1) \<Rightarrow> (Inr (), d1)
      | (Inl (code, m), d1) \<Rightarrow>
          (Inl (if code = codeText ErrReceiptArchiveFailed then code else codeText ErrReceiptWriteFailed, m), d1))"

section \<open>Health\<close>

text \<open>
  \<open>free\<close> is the free memory of the machine, which stands for the free space unless a number is configured.
  Comparisons with the threshold are exact.
\<close>

fun numberAtLeast :: "jsnum \<Rightarrow> int \<Rightarrow> bool" where
  "numberAtLeast NegZero b \<longleftrightarrow> b \<le> 0"
| "numberAtLeast (IntNum n) b \<longleftrightarrow> b \<le> n"
| "numberAtLeast (FracNum m k) b \<longleftrightarrow> b * 2 ^ k \<le> m"

definition freeBytes :: "custody_config \<Rightarrow> jsnum \<Rightarrow> jsnum" where
  "freeBytes c free = (case cc_simulated_free_bytes c of Some (JNum n) \<Rightarrow> n | _ \<Rightarrow> free)"

definition checkDiskStatus :: "custody_config \<Rightarrow> jsnum \<Rightarrow> bool" where
  "checkDiskStatus c free \<longleftrightarrow> numberAtLeast (freeBytes c free) (cc_min_free_bytes c)"

record component_status =
  cs_ok :: bool
  cs_code :: jsstring

record health_state =
  hs_ok :: bool
  hs_ready :: bool
  hs_log_status :: component_status
  hs_receipt_store_status :: component_status
  hs_disk_ok :: bool
  hs_custody_status :: component_status
  hs_signer_status :: component_status

definition buildHealthState ::
  "bool \<Rightarrow> bool \<Rightarrow> component_status \<Rightarrow> component_status \<Rightarrow> bool \<Rightarrow> component_status \<Rightarrow> component_status \<Rightarrow> health_state" where
  "buildHealthState manifestOk configOk logStatus receiptStatus diskOk custodyStatus signerStatus =
     \<lparr>hs_ok = (configOk \<and> cs_ok custodyStatus),
      hs_ready = (manifestOk \<and> configOk \<and> cs_ok receiptStatus \<and> diskOk \<and> cs_ok custodyStatus \<and> cs_ok signerStatus),
      hs_log_status = logStatus, hs_receipt_store_status = receiptStatus, hs_disk_ok = diskOk,
      hs_custody_status = custodyStatus, hs_signer_status = signerStatus\<rparr>"

end
