(* ===== verification/ReleaseIntegrity.thy ===== *)
theory ReleaseIntegrity
  imports CustodyConfig StrictOrbit
begin

text \<open>
  \<open>src/shared/forbidden_content.js\<close> and \<open>src/release/integrity.ts\<close>: the scan of a release package for key material and other
  content that must not be shipped, and the check of the package against its manifest.

  The package is its directory tree, in the order \<open>readdirSync\<close> lists it; what is neither file nor directory, and what lies outside
  the package, is read through \<open>pk_special\<close>, and \<open>pk_fault\<close> tells which reads raise. The manifest and the provenance are looked
  up under the package root, as the callers in \<open>src/custody\<close> have it. Of a result the echoed documents, the
  counters and the list of mismatches are left out (\<open>ir_context\<close> holds the same file and values).
\<close>

section \<open>The tree and its walk\<close>

datatype pkg_entry = PkgFile "byte list" | PkgDir "(jsstring \<times> pkg_entry) list" | PkgOther

type_synonym pkg_dir = "(jsstring \<times> pkg_entry) list"

record package =
  pk_root :: jsstring
  pk_entries :: pkg_dir
  pk_special :: "jsstring \<Rightarrow> pkg_entry option"
  pk_fault :: "jsstring \<Rightarrow> jsstring option"

fun entryCount :: "pkg_entry \<Rightarrow> nat" where
  "entryCount (PkgDir es) = Suc (sum_list (map (\<lambda>(n, e). entryCount e) es))"
| "entryCount e = 1"

definition dirCount :: "pkg_dir \<Rightarrow> nat" where
  "dirCount es = sum_list (map (\<lambda>(n, e). entryCount e) es)"

fun filesIn :: "jsstring list \<Rightarrow> pkg_dir \<Rightarrow> (jsstring list \<times> byte list) list" where
  "filesIn here [] = []"
| "filesIn here ((n, PkgFile bs) # es) = (here @ [n], bs) # filesIn here es"
| "filesIn here ((n, e) # es) = filesIn here es"

fun dirsIn :: "jsstring list \<Rightarrow> pkg_dir \<Rightarrow> (jsstring list \<times> pkg_dir) list" where
  "dirsIn here [] = []"
| "dirsIn here ((n, PkgDir ds) # es) = (here @ [n], ds) # dirsIn here es"
| "dirsIn here ((n, e) # es) = dirsIn here es"

lemma dirsIn_count: "sum_list (map (\<lambda>(p, ds). Suc (dirCount ds)) (dirsIn here es)) \<le> dirCount es"
  by (induction here es rule: dirsIn.induct) (auto simp: dirCount_def)

text \<open>The loop of \<open>walkFiles\<close>; the head of the list is the end of the queue, from which the code takes.\<close>

function walkLoop :: "(jsstring list \<times> pkg_dir) list \<Rightarrow> (jsstring list \<times> byte list) list" where
  "walkLoop [] = []"
| "walkLoop ((here, es) # queue) = filesIn here es @ walkLoop (rev (dirsIn here es) @ queue)"
  by pat_completeness auto
termination
proof (relation "measure (\<lambda>q. sum_list (map (\<lambda>(p, ds). Suc (dirCount ds)) q))", goal_cases)
  case 1
  show ?case by simp
next
  case (2 here es queue)
  show ?case
    using dirsIn_count [of here es] by (simp add: rev_map [symmetric] sum_list_rev)
qed

fun insertBy :: "('a \<Rightarrow> 'a \<Rightarrow> bool) \<Rightarrow> 'a \<Rightarrow> 'a list \<Rightarrow> 'a list" where
  "insertBy le x [] = [x]"
| "insertBy le x (y # ys) = (if le x y then x # y # ys else y # insertBy le x ys)"

definition sortBy :: "('a \<Rightarrow> 'a \<Rightarrow> bool) \<Rightarrow> 'a list \<Rightarrow> 'a list" where
  "sortBy le xs = foldr (insertBy le) xs []"

definition slashPath :: "jsstring list \<Rightarrow> jsstring" where
  "slashPath names = joinWith [47] names"

definition absolutePath :: "package \<Rightarrow> jsstring list \<Rightarrow> jsstring" where
  "absolutePath pk names = pk_root pk @ [47] @ slashPath names"

definition walkFiles :: "custody_host \<Rightarrow> package \<Rightarrow> (jsstring list \<times> byte list) list" where
  "walkFiles h pk =
     sortBy (\<lambda>a b. ch_locale_le h (absolutePath pk (fst a)) (absolutePath pk (fst b))) (walkLoop [([], pk_entries pk)])"

definition toSlashes :: "jsstring \<Rightarrow> jsstring" where
  "toSlashes p = map (\<lambda>c. if c = 92 then 47 else c) p"

definition relativePackagePath :: "jsstring list \<Rightarrow> jsstring" where
  "relativePackagePath names = toSlashes (slashPath names)"

section \<open>Forbidden content\<close>

definition normalizeRelativePath :: "jsstring \<Rightarrow> jsstring" where
  "normalizeRelativePath p = dropWhile (\<lambda>c. c = 47) (toSlashes p)"

definition pathSegments :: "host \<Rightarrow> jsstring \<Rightarrow> jsstring list" where
  "pathSegments h p = map (hs_lower h) (filter (\<lambda>s. s \<noteq> []) (splitOn 47 [] (normalizeRelativePath p)))"

definition endsWith :: "jsstring \<Rightarrow> string \<Rightarrow> bool" where
  "endsWith s t \<longleftrightarrow> jsStartsWith (rev s) (rev (jstr t))"

definition hasNoExtension :: "jsstring \<Rightarrow> bool" where
  "hasNoExtension segment \<longleftrightarrow> 46 \<notin> set segment"

definition uniqueInOrder :: "'a list \<Rightarrow> 'a list" where
  "uniqueInOrder xs = rev (remdups (rev xs))"

lemma uniqueInOrder_Nil_iff [simp]: "uniqueInOrder xs = [] \<longleftrightarrow> xs = []"
  by (simp add: uniqueInOrder_def)

definition forbiddenExtensions :: "string list" where
  "forbiddenExtensions = [''.pem'', ''.key'', ''.p12'', ''.pfx'', ''.der'']"

definition forbiddenNames :: "string list" where
  "forbiddenNames = [''private_key'', ''signing_key'', ''secret'']"

definition forbiddenDirectories :: "string list" where
  "forbiddenDirectories =
     [''sidecar-local'', ''fixtures'', ''testdata'', ''mock'', ''sample_keys'', ''audit-bundle'', ''proof-bundle'', ''benchmark'']"

definition localConfigName :: "jsstring \<Rightarrow> bool" where
  "localConfigName base \<longleftrightarrow>
     (list_ex (endsWith base) [''.json'', ''.js'', ''.cmd'', ''.ps1'', ''.toml'', ''.yaml'', ''.yml'', ''.ini''] \<or> hasNoExtension base) \<and>
     list_ex (\<lambda>n. jsIncludes base (jstr n)) [''local'', ''override'', ''overrides''] \<and> jsIncludes base (jstr ''config'')"

definition forbiddenContentReasons :: "host \<Rightarrow> jsstring \<Rightarrow> jsstring list" where
  "forbiddenContentReasons h relativePath =
     (let normalized = normalizeRelativePath relativePath; lowered = hs_lower h normalized;
          segments = pathSegments h normalized; base = (if segments = [] then [] else last segments)
      in uniqueInOrder
           (map (\<lambda>e. jstr (''forbidden_extension:'' @ e)) (filter (\<lambda>e. list_ex (\<lambda>s. endsWith s e) segments) forbiddenExtensions) @
            map (\<lambda>n. jstr (''forbidden_name:'' @ n)) (filter (\<lambda>n. jsIncludes lowered (jstr n)) forbiddenNames) @
            map (\<lambda>d. jstr (''forbidden_directory:'' @ d)) (filter (\<lambda>d. jstr d \<in> set segments) forbiddenDirectories) @
            (if base = jstr ''.env'' then [jstr ''forbidden_file:'' @ base] else []) @
            (if localConfigName base then [jstr ''forbidden_file:local_config_override''] else [])))"

section \<open>Forbidden text\<close>

definition isWordUnit :: "code_unit \<Rightarrow> bool" where
  "isWordUnit c \<longleftrightarrow> isDigit c \<or> 65 \<le> c \<and> c \<le> 90 \<or> 97 \<le> c \<and> c \<le> 122 \<or> c = 95"

definition upperUnit :: "code_unit \<Rightarrow> code_unit" where
  "upperUnit c = (if 97 \<le> c \<and> c \<le> 122 then c - 32 else c)"

text \<open>A literal under the flag \<open>i\<close>, a repetition, and \<open>\b\<close> after a match.\<close>

definition mLitAnyCase :: "jsstring \<Rightarrow> matcher" where
  "mLitAnyCase t s =
     (if jsStartsWith (map upperUnit s) (map upperUnit t) then [(take (length t) s, drop (length t) s)] else [])"

definition mMany :: "matcher \<Rightarrow> matcher" where
  "mMany a s = mUpTo (length s) a s"

definition mWordEnd :: "matcher \<Rightarrow> matcher" where
  "mWordEnd a = mNotAhead a isWordUnit"

text \<open>\<open>pattern.test(text)\<close>: a match at some position; the matcher sees the unit before it.\<close>

fun regexTest :: "(code_unit option \<Rightarrow> matcher) \<Rightarrow> code_unit option \<Rightarrow> jsstring \<Rightarrow> bool" where
  "regexTest m prev s \<longleftrightarrow> m prev s \<noteq> [] \<or> (case s of [] \<Rightarrow> False | c # cs \<Rightarrow> regexTest m (Some c) cs)"

declare regexTest.simps [simp del]

text \<open>\<open>\b\<close> before a literal that begins with a word character.\<close>

definition atWordStart :: "matcher \<Rightarrow> code_unit option \<Rightarrow> matcher" where
  "atWordStart a prev s = (case prev of Some c \<Rightarrow> if isWordUnit c then [] else a s | None \<Rightarrow> a s)"

definition callOf :: "string \<Rightarrow> matcher" where
  "callOf name = mSeq (mLit (jstr name)) (mSeq (mMany (mCls isJsSpace)) (mLit [40]))"

definition forbiddenTextPatterns :: "((code_unit option \<Rightarrow> matcher) \<times> string) list" where
  "forbiddenTextPatterns =
     [(\<lambda>prev. mSeq (mLitAnyCase (jstr ''-----BEGIN ''))
         (mSeq (mMany (mCls (\<lambda>c. 65 \<le> upperUnit c \<and> upperUnit c \<le> 90 \<or> c = 32))) (mLitAnyCase (jstr ''PRIVATE KEY-----''))),
       ''forbidden_content:private_key''),
      (atWordStart (callOf ''createHmac''), ''forbidden_content:hmac_secret_signing''),
      (atWordStart (callOf ''createPrivateKey''), ''forbidden_content:internal_private_key_loader''),
      (atWordStart (mWordEnd (mLit (jstr ''SIGNING_SECRET''))), ''forbidden_content:hmac_secret''),
      (atWordStart (mWordEnd (mLit (jstr ''PRIVATE_KEY_PEM''))), ''forbidden_content:internal_private_key''),
      (atWordStart (callOf ''signReceiptPayload''), ''forbidden_content:internal_signer_call'')]"

definition forbiddenContentTextReasons :: "custody_host \<Rightarrow> package \<Rightarrow> jsstring list \<Rightarrow> byte list \<Rightarrow> jsstring list" where
  "forbiddenContentTextReasons h pk names bs =
     (if endsWith (normalizeRelativePath (relativePackagePath names)) ''shared/forbidden_content.js'' then []
      else if 1048576 < length bs \<or> pk_fault pk (slashPath names) \<noteq> None then []
      else map (\<lambda>(m, r). jstr r) (filter (\<lambda>(m, r). regexTest m None (ch_decode h bs)) forbiddenTextPatterns))"

record forbidden_artifact =
  fa_path :: jsstring
  fa_absolute_path :: jsstring
  fa_reasons :: "jsstring list"
  fa_bytes :: nat

definition scanForbiddenContent :: "custody_host \<Rightarrow> package \<Rightarrow> forbidden_artifact list" where
  "scanForbiddenContent h pk =
     sortBy (\<lambda>a b. ch_locale_le h (fa_path a) (fa_path b))
       (filter (\<lambda>a. fa_reasons a \<noteq> [])
         (map (\<lambda>(names, bs).
            \<lparr>fa_path = relativePackagePath names, fa_absolute_path = absolutePath pk names,
             fa_reasons = forbiddenContentReasons (ch_host h) (relativePackagePath names) @ forbiddenContentTextReasons h pk names bs,
             fa_bytes = length bs\<rparr>) (walkFiles h pk)))"

section \<open>Reading files of the package\<close>

text \<open>\<open>path.join(root, file)\<close>: the names below the root, or \<open>None\<close> when the path leaves the package.\<close>

fun normalizeNames :: "jsstring list \<Rightarrow> jsstring list \<Rightarrow> jsstring list option" where
  "normalizeNames acc [] = Some (rev acc)"
| "normalizeNames acc (n # ns) =
     (if n = [] \<or> n = [46] then normalizeNames acc ns
      else if n = [46, 46] then (if acc = [] then None else normalizeNames (tl acc) ns)
      else normalizeNames (n # acc) ns)"

fun lookupNames :: "pkg_entry \<Rightarrow> jsstring list \<Rightarrow> pkg_entry option" where
  "lookupNames e [] = Some e"
| "lookupNames (PkgDir es) (n # ns) = (case map_of es n of Some e \<Rightarrow> lookupNames e ns | None \<Rightarrow> None)"
| "lookupNames e (n # ns) = None"

definition packageNode :: "package \<Rightarrow> jsstring \<Rightarrow> pkg_entry option" where
  "packageNode pk p =
     (case normalizeNames [] (splitOn 47 [] p) of
        None \<Rightarrow> pk_special pk p
      | Some names \<Rightarrow>
          (case lookupNames (PkgDir (pk_entries pk)) names of Some PkgOther \<Rightarrow> pk_special pk p | r \<Rightarrow> r))"

text \<open>The bytes of a file, or the message of the exception.\<close>

definition readPackageFile :: "custody_host \<Rightarrow> package \<Rightarrow> jsstring \<Rightarrow> jsstring + byte list" where
  "readPackageFile h pk p =
     (case pk_fault pk p of
        Some m \<Rightarrow> Inl m
      | None \<Rightarrow> (case packageNode pk p of Some (PkgFile bs) \<Rightarrow> Inr bs | _ \<Rightarrow> Inl (snd (ch_node_error h p))))"

definition hashFile :: "custody_host \<Rightarrow> package \<Rightarrow> jsstring \<Rightarrow> jsstring + (jsstring \<times> nat)" where
  "hashFile h pk p = (case readPackageFile h pk p of Inl m \<Rightarrow> Inl m | Inr bs \<Rightarrow> Inr (sha256Hex (ch_host h) bs, length bs))"

datatype json_read = JsonRead json | JsonUnreadable bool jsstring "(jsstring \<times> nat) option"

text \<open>A read that fails: whether the file exists, the message, and the digest and size of its bytes if they can be read.\<close>

definition safeReadJson :: "custody_host \<Rightarrow> package \<Rightarrow> jsstring \<Rightarrow> json_read" where
  "safeReadJson h pk p =
     (let digest = (case hashFile h pk p of Inl m \<Rightarrow> None | Inr d \<Rightarrow> Some d);
          failure = (\<lambda>m. JsonUnreadable (packageNode pk p \<noteq> None) m digest)
      in case readPackageFile h pk p of
           Inl m \<Rightarrow> failure m
         | Inr bs \<Rightarrow> (case ch_parse h (ch_decode h bs) of Inl m \<Rightarrow> failure m | Inr v \<Rightarrow> JsonRead v))"

definition walkPackageFiles :: "custody_host \<Rightarrow> package \<Rightarrow> jsstring list" where
  "walkPackageFiles h pk =
     sortBy (ch_locale_le h)
       (filter (\<lambda>p. p \<noteq> jstr ''manifest.json'') (map (\<lambda>(names, bs). relativePackagePath names) (walkFiles h pk)))"

section \<open>Release integrity\<close>

datatype integrity_reason =
    FileMissing | ManifestParseFailed | ProvenanceParseFailed | ManifestHashMismatch | ManifestSizeMismatch | ExtraFile
  | InvalidManifestSchema | InvalidPackageType | ForbiddenArtifactPresent | UnhandledIntegrityException

fun integrityReasonText :: "integrity_reason \<Rightarrow> jsstring" where
  "integrityReasonText FileMissing = jstr ''FILE_MISSING''"
| "integrityReasonText ManifestParseFailed = jstr ''MANIFEST_PARSE_FAILED''"
| "integrityReasonText ProvenanceParseFailed = jstr ''PROVENANCE_PARSE_FAILED''"
| "integrityReasonText ManifestHashMismatch = jstr ''MANIFEST_HASH_MISMATCH''"
| "integrityReasonText ManifestSizeMismatch = jstr ''MANIFEST_SIZE_MISMATCH''"
| "integrityReasonText ExtraFile = jstr ''EXTRA_FILE''"
| "integrityReasonText InvalidManifestSchema = jstr ''INVALID_MANIFEST_SCHEMA''"
| "integrityReasonText InvalidPackageType = jstr ''INVALID_PACKAGE_TYPE''"
| "integrityReasonText ForbiddenArtifactPresent = jstr ''FORBIDDEN_ARTIFACT_PRESENT''"
| "integrityReasonText UnhandledIntegrityException = jstr ''UNHANDLED_INTEGRITY_EXCEPTION''"

text \<open>The reason is null when the check passes.\<close>

record integrity_result =
  ir_reason :: "integrity_reason option"
  ir_context :: json

definition ir_ok :: "integrity_result \<Rightarrow> bool" where
  "ir_ok r \<longleftrightarrow> ir_reason r = None"

definition integrityCode :: "integrity_result \<Rightarrow> jsstring" where
  "integrityCode r = (if ir_ok r then jstr ''OK_RELEASE_INTEGRITY'' else jstr ''ERR_RELEASE_INTEGRITY_REFUSED'')"

definition refusal :: "integrity_reason \<Rightarrow> (string \<times> json) list \<Rightarrow> integrity_result" where
  "refusal reason context = \<lparr>ir_reason = Some reason, ir_context = JObj (map (\<lambda>(k, v). (jstr k, v)) context)\<rparr>"

definition unhandled :: "jsstring \<Rightarrow> integrity_result" where
  "unhandled m = refusal UnhandledIntegrityException [(''error'', JStr m)]"

text \<open>A property whose value is undefined is left out of a context when it is serialized; here it is null.\<close>

definition jsonOr :: "json option \<Rightarrow> json" where
  "jsonOr v = (case v of None \<Rightarrow> JNull | Some w \<Rightarrow> w)"

fun unreadableContext :: "package \<Rightarrow> string \<Rightarrow> json_read \<Rightarrow> (string \<times> json) list" where
  "unreadableContext pk file (JsonUnreadable present m digest) =
     [(''file'', JStr (jstr file)), (''path'', JStr (pk_root pk @ [47] @ jstr file)),
      (''parse_code'', JStr (if present then jstr ''ERR_JSON_PARSE_FAILED'' else jstr ''ERR_FILE_READ_FAILED'')),
      (''observed_sha256'', (case digest of None \<Rightarrow> JNull | Some (s, n) \<Rightarrow> JStr s)),
      (''observed_bytes'', (case digest of None \<Rightarrow> JNull | Some (s, n) \<Rightarrow> JNum (IntNum (int n))))]"
| "unreadableContext pk file (JsonRead v) = []"

fun checkArtifacts :: "custody_host \<Rightarrow> package \<Rightarrow> json list \<Rightarrow> integrity_result option" where
  "checkArtifacts h pk [] = None"
| "checkArtifacts h pk (artifact # rest) =
     (let field = getProp (Some artifact)
      in case field ''file'' of
           Some (JStr file) \<Rightarrow>
             if packageNode pk file = None
             then Some (refusal FileMissing [(''file'', JStr file), (''expected_sha256'', jsonOr (field ''sha256'')),
                 (''expected_bytes'', jsonOr (field ''bytes''))])
             else (case hashFile h pk file of
                 Inl m \<Rightarrow> Some (unhandled m)
               | Inr (digest, len) \<Rightarrow>
                   if field ''sha256'' \<noteq> Some (JStr digest)
                   then Some (refusal ManifestHashMismatch [(''file'', JStr file), (''expected_sha256'', jsonOr (field ''sha256'')),
                       (''observed_sha256'', JStr digest)])
                   else if field ''bytes'' \<noteq> Some (JNum (IntNum (int len)))
                   then Some (refusal ManifestSizeMismatch [(''file'', JStr file), (''expected_bytes'', jsonOr (field ''bytes'')),
                       (''observed_bytes'', JNum (IntNum (int len)))])
                   else checkArtifacts h pk rest)
         | _ \<Rightarrow> Some (unhandled (ch_type_error h)))"

fun checkExtraFiles :: "custody_host \<Rightarrow> package \<Rightarrow> json list \<Rightarrow> jsstring list \<Rightarrow> integrity_result option" where
  "checkExtraFiles h pk artifacts [] = None"
| "checkExtraFiles h pk artifacts (file # rest) =
     (if Some (JStr file) \<notin> set (map (\<lambda>a. getProp (Some a) ''file'') artifacts)
      then Some (case hashFile h pk file of
          Inl m \<Rightarrow> unhandled m
        | Inr (digest, len) \<Rightarrow> refusal ExtraFile [(''file'', JStr file), (''observed_sha256'', JStr digest)])
      else checkExtraFiles h pk artifacts rest)"

text \<open>The artifacts of a manifest: an array, or nothing; anything else, or a null entry, raises.\<close>

definition manifestArtifacts :: "json \<Rightarrow> json list option" where
  "manifestArtifacts manifest =
     (let v = getProp (Some manifest) ''artifacts''
      in if nullish v then Some []
         else case v of Some (JArr vs) \<Rightarrow> if JNull \<in> set vs then None else Some vs | _ \<Rightarrow> None)"

definition verifyReleaseIntegrity :: "custody_host \<Rightarrow> package \<Rightarrow> integrity_result" where
  "verifyReleaseIntegrity h pk =
     (case safeReadJson h pk (jstr ''manifest.json'') of
        JsonUnreadable present m digest \<Rightarrow>
          refusal (if present then ManifestParseFailed else FileMissing)
            (unreadableContext pk ''manifest.json'' (JsonUnreadable present m digest))
      | JsonRead manifest \<Rightarrow>
          (case safeReadJson h pk (jstr ''provenance.json'') of
             JsonUnreadable present m digest \<Rightarrow>
               if manifest = JNull then unhandled (ch_type_error h)
               else refusal (if present then ProvenanceParseFailed else FileMissing)
                 (unreadableContext pk ''provenance.json'' (JsonUnreadable present m digest))
           | JsonRead provenance \<Rightarrow>
               (let field = getProp (Some manifest)
                in if field ''schema_version'' \<noteq> Some (JStr (jstr ''mnde.custody.manifest.v1''))
                   then refusal InvalidManifestSchema [(''file'', JStr (jstr ''manifest.json'')),
                     (''expected_schema'', JStr (jstr ''mnde.custody.manifest.v1'')), (''actual_schema'', jsonOr (field ''schema_version''))]
                   else if field ''package_type'' \<noteq> Some (JStr (jstr ''custody-only''))
                   then refusal InvalidPackageType [(''file'', JStr (jstr ''manifest.json'')),
                     (''expected_package_type'', JStr (jstr ''custody-only'')), (''actual_package_type'', jsonOr (field ''package_type''))]
                   else (case scanForbiddenContent h pk of
                       a # rest \<Rightarrow>
                         if nullish (field ''artifacts'') then unhandled (ch_type_error h)
                         else refusal ForbiddenArtifactPresent
                           [(''file'', JStr (fa_path a)), (''reasons'', JArr (map JStr (fa_reasons a)))]
                     | [] \<Rightarrow>
                         (case manifestArtifacts manifest of
                            None \<Rightarrow> unhandled (ch_type_error h)
                          | Some artifacts \<Rightarrow>
                              (case checkArtifacts h pk artifacts of
                                 Some r \<Rightarrow> r
                               | None \<Rightarrow>
                                   (case checkExtraFiles h pk artifacts (walkPackageFiles h pk) of
                                      Some r \<Rightarrow> r
                                    | None \<Rightarrow> \<lparr>ir_reason = None, ir_context = JNull\<rparr>)))))))"

section \<open>Published digests\<close>

record published_hash =
  ph_file :: jsstring
  ph_published_sha256 :: "json option"
  ph_computed_sha256 :: jsstring
  ph_bytes :: "json option"
  ph_match :: bool

text \<open>\<open>artifacts.find(..)\<close>, which raises (\<open>None\<close>) on a null entry before the one it looks for.\<close>

fun findArtifact :: "jsstring \<Rightarrow> json list \<Rightarrow> json option option" where
  "findArtifact file [] = Some None"
| "findArtifact file (a # as) =
     (if a = JNull then None
      else if getProp (Some a) ''file'' = Some (JStr file) then Some (Some a) else findArtifact file as)"

text \<open>\<open>readPublishedHash\<close>: null, or the digests; on the left the message of an exception.\<close>

definition readPublishedHash :: "custody_host \<Rightarrow> package \<Rightarrow> jsstring \<Rightarrow> jsstring + published_hash option" where
  "readPublishedHash h pk filePath =
     (case safeReadJson h pk (jstr ''manifest.json'') of
        JsonUnreadable present m digest \<Rightarrow> Inr None
      | JsonRead manifest \<Rightarrow>
          (let v = getProp (Some manifest) ''artifacts'';
               entries = (if nullish v then Some [] else case v of Some (JArr vs) \<Rightarrow> Some vs | _ \<Rightarrow> None)
           in if manifest = JNull then Inl (ch_type_error h)
              else (case Option.bind entries (findArtifact (toSlashes filePath)) of
                  None \<Rightarrow> Inl (ch_type_error h)
                | Some None \<Rightarrow> Inr None
                | Some (Some a) \<Rightarrow>
                    (case hashFile h pk (toSlashes filePath) of
                       Inl m \<Rightarrow> Inl m
                     | Inr (digest, len) \<Rightarrow>
                         Inr (Some \<lparr>ph_file = toSlashes filePath, ph_published_sha256 = getProp (Some a) ''sha256'',
                           ph_computed_sha256 = digest, ph_bytes = getProp (Some a) ''bytes'',
                           ph_match = (getProp (Some a) ''sha256'' = Some (JStr digest) \<and>
                             getProp (Some a) ''bytes'' = Some (JNum (IntNum (int len))))\<rparr>)))))"

end
