(* ===== verification/Stringify.thy ===== *)
theory Stringify
  imports Pipeline
begin

text \<open>
  \<open>JSON.stringify\<close> without indentation, which the stores write one line per value with. \<open>number\<close> is how the engine prints a
  number; it prints a safe integer in decimal. What is written for a plain value is a line the strict parser reads back.
\<close>

fun jsonStringify :: "(jsnum \<Rightarrow> jsstring) \<Rightarrow> json \<Rightarrow> jsstring" where
  "jsonStringify number JNull = jstr ''null''"
| "jsonStringify number (JBool b) = (if b then jstr ''true'' else jstr ''false'')"
| "jsonStringify number (JNum n) = number n"
| "jsonStringify number (JStr s) = jsonStringifyString s"
| "jsonStringify number (JArr vs) = [91] @ joinWith [44] (map (jsonStringify number) vs) @ [93]"
| "jsonStringify number (JObj ps) =
     [123] @ joinWith [44] (map (\<lambda>(k, t). jsonStringifyString k @ [58] @ t)
       (objectEntries (map (\<lambda>(k, v). (k, jsonStringify number v)) ps))) @ [125]"

section \<open>Plain values\<close>

text \<open>Values whose numbers are safe integers and whose keys are distinct and no array indices.\<close>

fun plainJson :: "json \<Rightarrow> bool" where
  "plainJson (JNum (IntNum n)) \<longleftrightarrow> isSafeInteger n"
| "plainJson (JNum v) \<longleftrightarrow> False"
| "plainJson (JArr vs) \<longleftrightarrow> (\<forall>v \<in> set vs. plainJson v)"
| "plainJson (JObj ps) \<longleftrightarrow>
     distinct (map fst ps) \<and> (\<forall>(k, v) \<in> set ps. \<not> isArrayIndex k \<and> plainJson v)"
| "plainJson v \<longleftrightarrow> True"

definition printsIntegers :: "(jsnum \<Rightarrow> jsstring) \<Rightarrow> bool" where
  "printsIntegers number \<longleftrightarrow> (\<forall>n. isSafeInteger n \<longrightarrow> number (IntNum n) = showInt n)"

lemma objectEntries_plain: "\<forall>p \<in> set ps. \<not> isArrayIndex (fst p) \<Longrightarrow> objectEntries ps = ps"
  by (simp add: objectEntries_def)

lemma jsonStringify_members:
  assumes "plainJson (JObj ps)"
  shows "jsonStringify number (JObj ps) =
    [123] @ joinWith [44] (map (\<lambda>(k, v). memberText (k, jsonStringify number v)) ps) @ [125]"
proof -
  have "objectEntries (map (\<lambda>(k, v). (k, jsonStringify number v)) ps) = map (\<lambda>(k, v). (k, jsonStringify number v)) ps"
    using assms by (intro objectEntries_plain) auto
  then show ?thesis by (simp add: memberText_def comp_def case_prod_unfold)
qed

section \<open>Reading back\<close>

definition readsBack :: "(jsnum \<Rightarrow> jsstring) \<Rightarrow> json \<Rightarrow> bool" where
  "readsBack number v \<longleftrightarrow> solid (jsonStringify number v) \<and>
     (\<forall>n. length (jsonStringify number v) < n \<longrightarrow> readsAs (parseValue n) (jsonStringify number v) v)"

lemma readsBackI:
  assumes "solid (jsonStringify number v)"
    and "\<And>n r. length (jsonStringify number v) \<le> n \<Longrightarrow> delimited r \<Longrightarrow>
      parseValue (Suc n) (jsonStringify number v @ r) = ParseOk v r"
  shows "readsBack number v"
  unfolding readsBack_def readsAs_def
proof (intro conjI allI impI)
  fix n r assume "length (jsonStringify number v) < n" "delimited r"
  with assms(2) [of "n - 1" r] show "parseValue n (jsonStringify number v @ r) = ParseOk v r"
    by (cases n) auto
qed (fact assms(1))

lemma readsBack_plain: "printsIntegers number \<Longrightarrow> plainJson v \<Longrightarrow> readsBack number v"
proof (induction v)
  case (JNum x)
  then obtain i where "x = IntNum i" "isSafeInteger i" by (cases x) auto
  then show ?case
    using JNum.prems(1) by (intro readsBackI) (auto simp: printsIntegers_def solid_showInt parsesBack_int)
next
  case (JStr s)
  show ?case
    by (intro readsBackI)
      (auto simp: solid_def jsonStringifyString_def parseValue.simps
        parse_jsonStringifyString [unfolded jsonStringifyString_def, simplified])
next
  case JNull
  show ?case by (intro readsBackI) (auto simp: solid_def jstr_def unit_of_char_def parseValue.simps isDigit_def)
next
  case (JBool b)
  show ?case by (intro readsBackI) (auto simp: solid_def jstr_def unit_of_char_def parseValue.simps isDigit_def)
next
  case (JArr vs)
  then have nested: "readsBack number v" if "v \<in> set vs" for v using that by auto
  show ?case
    using parseValue_items [of "jsonStringify number" vs _ "\<lambda>v. v"] nested
    by (intro readsBackI) (auto simp: solid_def readsBack_def)
next
  case (JObj ps)
  have nested: "readsBack number (snd p)" if "p \<in> set ps" for p
  proof -
    have "plainJson (snd p)" using JObj.prems(2) that by (cases p) auto
    with JObj.IH [OF that _ JObj.prems(1)] show ?thesis by (cases p) simp
  qed
  have written: "jsonStringify number (JObj ps) =
      [123] @ joinWith [44] (map (\<lambda>(k, v). memberText (k, jsonStringify number v)) ps) @ [125]"
    using JObj.prems by (intro jsonStringify_members)
  show ?case
  proof (rule readsBackI)
    show "solid (jsonStringify number (JObj ps))" unfolding written by (simp add: solid_def)
  next
    fix n r assume "length (jsonStringify number (JObj ps)) \<le> n" "delimited r"
    then have "length (joinWith [44] (map (\<lambda>(k, v). memberText (k, jsonStringify number v)) ps)) < n"
      unfolding written by simp
    moreover have "distinct (map fst ps)" using JObj.prems by simp
    moreover have "readsAs (parseValue m) (jsonStringify number (snd p)) (snd p)"
      if "p \<in> set ps" "length (jsonStringify number (snd p)) < m" for p m
      using nested [OF that(1)] that(2) by (simp add: readsBack_def)
    ultimately have "parseValue (Suc n)
        ([123] @ joinWith [44] (map (\<lambda>(k, v). memberText (k, jsonStringify number v)) ps) @ [125] @ r) =
        ParseOk (JObj (map (\<lambda>(k, v). (k, v)) ps)) r"
      by (rule parseValue_members)
    then show "parseValue (Suc n) (jsonStringify number (JObj ps) @ r) = ParseOk (JObj ps) r"
      unfolding written by (simp add: case_prod_eta)
  qed
qed

lemma parse_jsonStringify:
  assumes "printsIntegers number" "plainJson v"
  shows "parseStrictJson (jsonStringify number v) = ParseOk v []"
proof -
  let ?t = "jsonStringify number v"
  have "readsAs (parseValue (length ?t + 1)) ?t v"
    using readsBack_plain [OF assms] by (simp add: readsBack_def)
  then have "parseValue (length ?t + 1) (?t @ []) = ParseOk v []"
    unfolding readsAs_def by (metis delimited_Cons(4))
  then show ?thesis by (simp add: parseStrictJson_def)
qed

section \<open>Lines\<close>

lemma unit_in_join: "c \<in> set (joinWith sep ts) \<Longrightarrow> c \<in> set sep \<or> (\<exists>t \<in> set ts. c \<in> set t)"
  by (induction sep ts rule: joinWith.induct) auto

lemma showNat_no_lf: "10 \<notin> set (showNat n)"
  using showNat_digits [of n] by (auto simp: isDigit_def)

lemma quoteUnit_no_lf: "10 \<notin> set (quoteUnit c)"
proof -
  have "hexDigitOf d \<noteq> 10" if "d < 16" for d
    using hexDigitOf_hex(1) [OF that] by (auto simp: isHexDigit_def isDigit_def)
  then have "10 \<notin> set (unicodeEscape c)"
    using nibble_less by (auto simp: unicodeEscape_def)
  then show ?thesis by (auto simp: quoteUnit_def)
qed

lemma quoteUnits_no_lf: "10 \<notin> set (quoteUnits s)"
proof (induction s rule: quoteUnits.induct)
  case (3 c d cs)
  have "10 \<notin> {c, d}" if "isHighSurrogate c" "isLowSurrogate d"
    using that by (auto simp: isHighSurrogate_def isLowSurrogate_def)
  with 3 quoteUnit_no_lf [of c] show ?case by auto
qed (simp_all add: quoteUnit_no_lf)

lemma jsonStringifyString_no_lf: "10 \<notin> set (jsonStringifyString s)"
  using quoteUnits_no_lf by (auto simp: jsonStringifyString_def)

lemma jsonStringify_no_lf: "printsIntegers number \<Longrightarrow> plainJson v \<Longrightarrow> 10 \<notin> set (jsonStringify number v)"
proof (induction v)
  case (JNum x)
  then obtain i where "x = IntNum i" "isSafeInteger i" by (cases x) auto
  then show ?case using JNum.prems(1) showNat_no_lf by (auto simp: printsIntegers_def showInt_def)
next
  case (JArr vs)
  then show ?case by (auto dest!: unit_in_join)
next
  case (JObj ps)
  have "10 \<notin> set (memberText (k, jsonStringify number v))" if "(k, v) \<in> set ps" for k v
    using JObj that jsonStringifyString_no_lf by (fastforce simp: memberText_def)
  then show ?case
    unfolding jsonStringify_members [OF JObj.prems(2)] by (auto dest!: unit_in_join)
qed (auto simp: jsonStringifyString_no_lf jstr_def unit_of_char_def)

text \<open>The last line of a text that ended with a line end before the line was appended.\<close>

lemma splitLines_not_Nil [simp]: "splitLines acc s \<noteq> []"
  by (induction acc s rule: splitLines.induct) auto

lemma splitLines_end:
  "splitLines acc (u @ 10 # t) = butlast (splitLines acc (u @ [10])) @ splitLines [] t"
proof (induction acc u rule: splitLines.induct)
  case (2 acc c cs)
  show ?case
  proof (cases "c = 10 \<or> c = 13 \<and> cs @ [10 :: code_unit] \<noteq> [] \<and> hd (cs @ [10 :: code_unit]) = 10")
    case True
    then show ?thesis using 2 by (cases cs) (auto simp: butlast_append)
  next
    case False
    then show ?thesis using 2 by (cases cs) auto
  qed
qed simp

end
