(* ===== verification/CustodyRuntime.thy ===== *)
theory CustodyRuntime
  imports CustodyStore ReleaseIntegrity Stringify
begin

text \<open>
  \<open>src/custody/runtime.ts\<close>, second part: validation of the configured policy, the audit receipts, the preflight lock, the
  checks at startup and before, and what the health server answers.

  The package is what the directory of the program shows on a disk: \<open>pkg\<close> is a \<open>package_view\<close>, so a file the runtime writes
  below that directory, such as a lock beside a configuration that is part of the package, is in the package from then on. Where a theorem needs
  files outside it, this is a hypothesis. The disk does not change by itself during a call, \<open>stamp\<close> is the time in the name of an archive, and what the runtime prints is
  left out. A result \<open>None\<close> is an exception nothing catches.
\<close>

type_synonym package_view = "disk \<Rightarrow> package"

definition outsidePackage :: "package_view \<Rightarrow> jsstring \<Rightarrow> bool" where
  "outsidePackage pkg q \<longleftrightarrow> (\<forall>d n. pkg (d(q := n)) = pkg d)"

section \<open>The configured policy\<close>

definition hashConfig :: "custody_host \<Rightarrow> custody_config \<Rightarrow> jsstring option" where
  "hashConfig h c = hashCanonicalJson (ch_host h) (JObj (cc_object c))"

definition preflightLockPath :: "jsstring \<Rightarrow> jsstring" where
  "preflightLockPath configPath = configPath @ jstr ''.preflight-lock.json''"

text \<open>An expected hash that is undefined cannot be serialized.\<close>

definition validationHashForPolicyInput :: "custody_host \<Rightarrow> custody_config \<Rightarrow> jsstring option \<Rightarrow> jsstring option" where
  "validationHashForPolicyInput h c payload =
     Option.bind (cc_expected_hash c) (\<lambda>e.
       hashCanonicalJson (ch_host h)
         (JObj [(jstr ''mode'', JStr (cc_policy_mode c)), (jstr ''expected_hash'', e),
                (jstr ''payload'', case payload of None \<Rightarrow> JNull | Some t \<Rightarrow> JStr t)]))"

record active_policy =
  ap_value :: jsobject
  ap_policy_version :: jsstring
  ap_rules :: jsobject
  ap_key_id :: jsstring
  ap_signing_public_key :: jsstring
  ap_signature :: jsstring

fun isFiniteNumber :: "json option \<Rightarrow> bool" where
  "isFiniteNumber (Some (JNum (IntNum n))) \<longleftrightarrow> \<bar>n\<bar> < 2 ^ 1024"
| "isFiniteNumber (Some (JNum v)) \<longleftrightarrow> True"
| "isFiniteNumber _ \<longleftrightarrow> False"

definition isHexText :: "jsstring \<Rightarrow> bool" where
  "isHexText s \<longleftrightarrow> s \<noteq> [] \<and> list_all isHexDigit s"

definition activePolicyOf :: "jsobject \<Rightarrow> active_policy" where
  "activePolicyOf policy =
     (let trust = configSection policy ''trust''
      in \<lparr>ap_value = policy, ap_policy_version = stringField policy ''policy_version'',
          ap_rules = configSection policy ''rules'', ap_key_id = stringField trust ''key_id'',
          ap_signing_public_key = stringField trust ''signing_public_key'', ap_signature = stringField trust ''signature''\<rparr>)"

definition numericRuleKeys :: "string list" where
  "numericRuleKeys = [''max_total_cost_usd'', ''max_gpu_count'', ''max_hours'', ''require_manual_approval_above_usd'']"

fun validateActivePolicyShape :: "json \<Rightarrow> string + active_policy" where
  "validateActivePolicyShape (JObj policy) =
     (let rules = configSection policy ''rules''; trust = configSection policy ''trust'';
          badRules = filter (\<lambda>k. \<not> isFiniteNumber (map_of rules (jstr k))) numericRuleKeys
      in if map_of policy (jstr ''schema_version'') \<noteq> Some (JStr (jstr ''mnde.policy.v1''))
         then Inl ''schema_version must be mnde.policy.v1''
         else if stringField policy ''policy_version'' = [] then Inl ''policy_version must be a non-empty string''
         else if \<not> isObject (map_of policy (jstr ''rules'')) then Inl ''rules must be an object''
         else if badRules \<noteq> [] then Inl (''rules.'' @ hd badRules @ '' must be a finite number'')
         else if map_of rules (jstr ''allow_auto_scale'') \<notin> {Some (JBool True), Some (JBool False)}
         then Inl ''rules.allow_auto_scale must be boolean''
         else if \<not> isObject (map_of policy (jstr ''trust'')) then Inl ''trust must be an object''
         else if map_of trust (jstr ''key_version'') \<noteq> Some (JStr (jstr ''ed25519.v1''))
         then Inl ''trust.key_version must be ed25519.v1''
         else if stringField trust ''key_id'' = [] then Inl ''trust.key_id must be a non-empty string''
         else if \<not> isSha256Hex (stringField trust ''signing_public_key'') then Inl ''trust.signing_public_key must be 32-byte hex''
         else if \<not> isHexText (stringField trust ''signature'') then Inl ''trust.signature must be non-empty hex''
         else Inr (activePolicyOf policy))"
| "validateActivePolicyShape _ = Inl ''policy must be an object''"

text \<open>The payload the signature covers, with the rules as they are in the document; \<open>None\<close> is a number that is no safe integer.\<close>

definition activePolicyPayload :: "active_policy \<Rightarrow> jsstring option" where
  "activePolicyPayload p =
     canonicalizeJson (JObj
       [(jstr ''schema_version'', JStr (jstr ''mnde.policy.v1'')), (jstr ''policy_version'', JStr (ap_policy_version p)),
        (jstr ''rules'', JObj (ap_rules p))])"

record policy_validation =
  pcv_code :: custody_code
  pcv_policy :: "active_policy option"
  pcv_policy_hash :: "jsstring option"
  pcv_path :: "jsstring option"
  pcv_details :: json
  pcv_validation_hash :: jsstring

definition pcv_ok :: "policy_validation \<Rightarrow> bool" where
  "pcv_ok v \<longleftrightarrow> pcv_code v \<in> {OkPolicyReady, OkPolicyDisabled}"

definition validation ::
  "custody_host \<Rightarrow> custody_config \<Rightarrow> custody_code \<Rightarrow> active_policy option \<Rightarrow> jsstring option \<Rightarrow> jsstring option \<Rightarrow>
     (string \<times> json) list option \<Rightarrow> jsstring option \<Rightarrow> policy_validation option" where
  "validation h c code policy hash path details payload =
     map_option (\<lambda>v. \<lparr>pcv_code = code, pcv_policy = policy, pcv_policy_hash = hash, pcv_path = path,
         pcv_details = (case details of None \<Rightarrow> JNull | Some ds \<Rightarrow> JObj (map (\<lambda>(k, d). (jstr k, d)) ds)),
         pcv_validation_hash = v\<rparr>)
       (validationHashForPolicyInput h c payload)"

text \<open>The checks of a policy of the right shape, whose payload exists.\<close>

definition validateSignedPolicy :: "custody_host \<Rightarrow> custody_config \<Rightarrow> active_policy \<Rightarrow> jsstring \<Rightarrow> policy_validation option" where
  "validateSignedPolicy h c p payload =
     (let derived = deriveKeyId (ch_host h) (ap_signing_public_key p); actual = sha256Text (ch_host h) payload;
          refuse = (\<lambda>code hash details. validation h c code (Some p) hash (Some (cc_policy_path c)) details (Some payload))
      in if derived \<noteq> ap_key_id p
         then refuse ErrPolicySchemaInvalid None
           (Some [(''error'', JStr (jstr ''trust.key_id does not match signing_public_key'')), (''expected_key_id'', JStr derived)])
         else (case verifyPolicySignature (ch_host h) (ap_signing_public_key p) payload (ap_signature p) of
             None \<Rightarrow> refuse ErrPolicySignatureInvalid None (Some [(''error'', JStr (ch_verify_error h))])
           | Some False \<Rightarrow> refuse ErrPolicySignatureInvalid None None
           | Some True \<Rightarrow>
               (case cc_expected_hash c of
                  Some (JStr e) \<Rightarrow>
                    if e \<noteq> [] \<and> actual \<noteq> e
                    then refuse ErrPolicyHashMismatch (Some actual)
                      (Some [(''expected_hash'', JStr e), (''actual_hash'', JStr actual)])
                    else refuse OkPolicyReady (Some actual) (Some [(''policy_version'', JStr (ap_policy_version p))])
                | _ \<Rightarrow> refuse OkPolicyReady (Some actual) (Some [(''policy_version'', JStr (ap_policy_version p))]))))"

definition validateConfiguredPolicy :: "custody_host \<Rightarrow> disk \<Rightarrow> custody_config \<Rightarrow> policy_validation option" where
  "validateConfiguredPolicy h d c =
     (let path = cc_policy_path c;
          refuse = (\<lambda>code details payload. validation h c code None None (Some path) details payload);
          unreadable = (\<lambda>m. refuse ErrPolicyFileUnreadable (Some [(''error'', JStr m)]) None)
      in if cc_policy_mode c = jstr ''disabled''
         then validation h c OkPolicyDisabled None None None (Some [(''mode'', JStr (jstr ''disabled''))]) None
         else if jsTrim path = [] then refuse ErrPolicyPathMissing None None
         else if d path = None then refuse ErrPolicyFileMissing None None
         else case ch_fault h (StatFile path) of
             Some (code, m) \<Rightarrow> unreadable m
           | None \<Rightarrow>
               if d path = Some OtherNode then unreadable (jstr ''not_a_file'')
               else (case readFileSync h d path of
                   Inl (code, m) \<Rightarrow> unreadable m
                 | Inr contents \<Rightarrow>
                     (case ch_parse h contents of
                        Inl m \<Rightarrow> refuse ErrPolicyJsonParseFailed (Some [(''error'', JStr m)]) (Some contents)
                      | Inr parsed \<Rightarrow>
                          (case validateActivePolicyShape parsed of
                             Inl e \<Rightarrow> refuse ErrPolicySchemaInvalid (Some [(''error'', JStr (jstr e))]) (Some contents)
                           | Inr p \<Rightarrow> Option.bind (activePolicyPayload p) (validateSignedPolicy h c p)))))"

definition policyForLockComparison :: "custody_host \<Rightarrow> disk \<Rightarrow> custody_config \<Rightarrow> policy_validation option" where
  "policyForLockComparison h d c = validateConfiguredPolicy h d (c\<lparr>cc_expected_hash := Some JNull\<rparr>)"

section \<open>Signing is disabled\<close>

definition signInternally :: "custody_code + unit" where
  "signInternally = Inl ErrInternalSigningDisabled"

definition assertCustodyOnlyBehavior :: "custody_code option" where
  "assertCustodyOnlyBehavior =
     (case signInternally of Inl code \<Rightarrow> if code = ErrInternalSigningDisabled then Some code else None | Inr u \<Rightarrow> None)"

section \<open>Audit receipts\<close>

record startup_result =
  su_ok :: bool
  su_code :: jsstring
  su_reason :: "jsstring option"
  su_forbidden :: "forbidden_artifact list"
  su_integrity :: "integrity_result option"
  su_policy :: "policy_validation option"
  su_config_hash :: "jsstring option"
  su_preflight_lock :: json

definition nullOr :: "jsstring option \<Rightarrow> json" where
  "nullOr t = (case t of None \<Rightarrow> JNull | Some s \<Rightarrow> JStr s)"

definition policyIdOf :: "startup_result \<Rightarrow> json" where
  "policyIdOf r =
     (case su_policy r of
        Some v \<Rightarrow> (case getProp (Some (pcv_details v)) ''policy_version'' of Some (JStr s) \<Rightarrow> JStr s | _ \<Rightarrow> JNull)
      | None \<Rightarrow> JNull)"

definition buildAuditReceiptPayload :: "startup_result \<Rightarrow> jsobject" where
  "buildAuditReceiptPayload r =
     [(jstr ''schema_version'', JStr (jstr ''mnde.custody.startup_receipt.v2'')),
      (jstr ''decision'', JStr (if su_ok r then jstr ''ALLOW'' else jstr ''REFUSE'')),
      (jstr ''reason_code'', JStr (case su_reason r of Some t \<Rightarrow> t | None \<Rightarrow> su_code r)),
      (jstr ''config_hash'', nullOr (su_config_hash r)),
      (jstr ''policy_hash'', nullOr (Option.bind (su_policy r) pcv_policy_hash)),
      (jstr ''policy_path'', nullOr (Option.bind (su_policy r) pcv_path)),
      (jstr ''policy_id'', policyIdOf r),
      (jstr ''integrity_context'', case su_integrity r of Some i \<Rightarrow> ir_context i | None \<Rightarrow> JNull)]"

definition signAuditReceiptPayload :: "host \<Rightarrow> jsobject \<Rightarrow> json option" where
  "signAuditReceiptPayload h payload =
     map_option (\<lambda>v. JObj [(jstr ''algorithm'', JStr (jstr ''SHA256'')), (jstr ''value'', JStr v)])
       (hashCanonicalJson h (JObj payload))"

definition fieldsOf :: "jsobject \<Rightarrow> string list \<Rightarrow> jsobject" where
  "fieldsOf ps keys = map (\<lambda>k. (jstr k, jsonOr (map_of ps (jstr k)))) keys"

definition buildAuditReceipt :: "host \<Rightarrow> startup_result \<Rightarrow> jsobject option" where
  "buildAuditReceipt h r =
     (let payload = buildAuditReceiptPayload r
      in Option.bind (hashCanonicalJson h (JObj (fieldsOf payload
             [''decision'', ''reason_code'', ''config_hash'', ''policy_hash'', ''policy_path'']))) (\<lambda>decisionHash.
         let signed = payload @ [(jstr ''decision_hash'', JStr decisionHash)]
         in Option.bind (signAuditReceiptPayload h signed) (\<lambda>signature.
            let receipt = signed @ [(jstr ''signature'', signature)]
            in map_option (\<lambda>receiptHash. receipt @ [(jstr ''receipt_hash'', JStr receiptHash)])
                 (hashCanonicalJson h (JObj receipt)))))"

definition unsignedFields :: "jsobject \<Rightarrow> jsobject" where
  "unsignedFields receipt = filter (\<lambda>(k, v). k \<noteq> jstr ''signature'' \<and> k \<noteq> jstr ''receipt_hash'') receipt"

text \<open>A receipt that is no object has no signature; null cannot be taken apart.\<close>

fun verifyAuditReceiptSignature :: "host \<Rightarrow> json \<Rightarrow> bool option" where
  "verifyAuditReceiptSignature h (JObj receipt) =
     (case map_of receipt (jstr ''signature'') of
        Some (JObj signature) \<Rightarrow>
          (case (map_of signature (jstr ''algorithm''), map_of signature (jstr ''value'')) of
             (Some (JStr a), Some (JStr v)) \<Rightarrow>
               if a \<noteq> jstr ''SHA256'' then Some False
               else map_option (\<lambda>t. v = t) (hashCanonicalJson h (JObj (unsignedFields receipt)))
           | _ \<Rightarrow> Some False)
      | _ \<Rightarrow> Some False)"
| "verifyAuditReceiptSignature h JNull = None"
| "verifyAuditReceiptSignature h _ = Some False"

definition safeReadJsonLine :: "custody_host \<Rightarrow> disk \<Rightarrow> jsstring \<Rightarrow> jsstring + json" where
  "safeReadJsonLine h d p =
     (case readFileSync h d p of
        Inl (code, m) \<Rightarrow> Inl m
      | Inr contents \<Rightarrow>
          (let lines = filter (\<lambda>l. l \<noteq> []) (splitLines [] (jsTrim contents))
           in if lines = [] then Inl (jstr ''receipt_line_missing'') else ch_parse h (last lines)))"

text \<open>
  The result of the probe: an error with its code, or the receipt read back. \<open>None\<close> is an exception outside the
  \<open>try\<close> blocks: the receipt cannot be serialized, or the line read back is null.
\<close>

definition writeProbeReceiptAndVerify ::
  "custody_host \<Rightarrow> disk \<Rightarrow> jsstring \<Rightarrow> custody_config \<Rightarrow> startup_result \<Rightarrow> (jsstring + json) option \<times> disk" where
  "writeProbeReceiptAndVerify h d stamp c r =
     (let durable = codeText OkReceiptStoreDurable
      in case buildAuditReceipt (ch_host h) (r\<lparr>su_ok := True, su_code := durable, su_reason := Some durable\<rparr>) of
           None \<Rightarrow> (None, d)
         | Some receipt \<Rightarrow>
             if cc_simulate_write_failure c then (Some (Inl (codeText ErrReceiptWriteFailed)), d)
             else (case appendReceiptRecord h c stamp (jsonStringify (ch_number h) (JObj receipt)) d of
                 (Inl (code, m), d1) \<Rightarrow> (Some (Inl code), d1)
               | (Inr _, d1) \<Rightarrow>
                   if cc_simulate_read_failure c then (Some (Inl (codeText ErrReceiptReadFailed)), d1)
                   else (case safeReadJsonLine h d1 (cc_receipts_path c) of
                       Inl m \<Rightarrow> (Some (Inl (codeText ErrReceiptReadFailed)), d1)
                     | Inr readBack \<Rightarrow>
                         (case verifyAuditReceiptSignature (ch_host h) readBack of
                            None \<Rightarrow> (None, d1)
                          | Some valid \<Rightarrow>
                              (Some (if valid then Inr readBack else Inl (codeText ErrReceiptSignatureInvalid)), d1)))))"

section \<open>The preflight lock\<close>

text \<open>The code, and what the startup result shows of the lock: the lock, or the details of the failure.\<close>

definition validatePreflightLock ::
  "custody_host \<Rightarrow> disk \<Rightarrow> jsstring \<Rightarrow> jsstring \<Rightarrow> jsstring option \<Rightarrow> custody_code \<times> json" where
  "validatePreflightLock h d configPath configHash policyHashValue =
     (let lockPath = preflightLockPath configPath; shown = (jstr ''lock_path'', JStr lockPath)
      in if d lockPath = None then (ErrPreflightLockMissing, JObj [shown])
         else case readFileSync h d lockPath of
             Inl (code, m) \<Rightarrow> (ErrPreflightLockMissing, JObj [shown, (jstr ''error'', JStr m)])
           | Inr contents \<Rightarrow>
               (case ch_parse h contents of
                  Inl m \<Rightarrow> (ErrPreflightLockMissing, JObj [shown, (jstr ''error'', JStr m)])
                | Inr lock \<Rightarrow>
                    if lock = JNull then (ErrPreflightLockMissing, JObj [shown, (jstr ''error'', JStr (ch_type_error h))])
                    else if getProp (Some lock) ''config_hash'' \<noteq> Some (JStr configHash) then (ErrPreflightConfigMismatch, lock)
                    else if firstOf [getProp (Some lock) ''policy_hash''] \<noteq> nullOr policyHashValue
                    then (ErrPreflightPolicyMismatch, lock)
                    else (OkPreflightLock, lock)))"

section \<open>Startup\<close>

definition startupFailure ::
  "jsstring \<Rightarrow> jsstring \<Rightarrow> integrity_result \<Rightarrow> policy_validation option \<Rightarrow> jsstring option \<Rightarrow> json \<Rightarrow> startup_result" where
  "startupFailure code reason integrity policy configHash lock =
     \<lparr>su_ok = False, su_code = code, su_reason = Some reason, su_forbidden = [], su_integrity = Some integrity,
      su_policy = policy, su_config_hash = configHash, su_preflight_lock = lock\<rparr>"

definition startupReady :: "integrity_result option \<Rightarrow> policy_validation option \<Rightarrow> jsstring option \<Rightarrow> startup_result" where
  "startupReady integrity policy configHash =
     \<lparr>su_ok = True, su_code = codeText OkCustodyReady, su_reason = None, su_forbidden = [], su_integrity = integrity,
      su_policy = policy, su_config_hash = configHash, su_preflight_lock = JNull\<rparr>"

text \<open>The last steps: the policy with its expected hash, and the probe of the receipt store.\<close>

definition finishStartup ::
  "custody_host \<Rightarrow> disk \<Rightarrow> jsstring \<Rightarrow> custody_config \<Rightarrow> integrity_result \<Rightarrow> jsstring \<Rightarrow> startup_result option \<times> disk" where
  "finishStartup h d stamp c integrity configHash =
     (case validateConfiguredPolicy h d c of
        None \<Rightarrow> (None, d)
      | Some policy \<Rightarrow>
          let code = codeText (pcv_code policy); fail = (\<lambda>e. startupFailure e e integrity (Some policy) (Some configHash) JNull)
          in if \<not> pcv_ok policy then (Some (fail code), d)
             else (case writeProbeReceiptAndVerify h d stamp c (startupReady (Some integrity) (Some policy) (Some configHash)) of
                 (None, d1) \<Rightarrow> (None, d1)
               | (Some (Inl e), d1) \<Rightarrow> (Some (fail e), d1)
               | (Some (Inr readBack), d1) \<Rightarrow>
                   (if assertCustodyOnlyBehavior = None then None
                    else Some (startupReady (Some integrity) (Some policy) (Some configHash)), d1)))"

definition checkConfigured ::
  "custody_host \<Rightarrow> disk \<Rightarrow> jsstring \<Rightarrow> custody_config \<Rightarrow> jsstring option \<Rightarrow> integrity_result \<Rightarrow> startup_result option \<times> disk" where
  "checkConfigured h d stamp c configPath integrity =
     (case hashConfig h c of
        None \<Rightarrow> (None, d)
      | Some configHash \<Rightarrow>
          (case (case configPath of Some p \<Rightarrow> policyForLockComparison h d c | None \<Rightarrow> validateConfiguredPolicy h d c) of
             None \<Rightarrow> (None, d)
           | Some policy \<Rightarrow>
               (let code = codeText (pcv_code policy)
                in if \<not> pcv_ok policy
                   then (Some (startupFailure code code integrity (Some policy) (Some configHash) JNull), d)
                   else (case configPath of
                       None \<Rightarrow> finishStartup h d stamp c integrity configHash
                     | Some p \<Rightarrow>
                         (case validatePreflightLock h d p configHash (pcv_policy_hash policy) of
                            (lockCode, lock) \<Rightarrow>
                              if lockCode \<noteq> OkPreflightLock
                              then (Some (startupFailure (codeText lockCode) (codeText lockCode) integrity (Some policy)
                                  (Some configHash) lock), d)
                              else finishStartup h d stamp c integrity configHash)))))"

definition checkCustodyStartup ::
  "custody_host \<Rightarrow> package_view \<Rightarrow> disk \<Rightarrow> jsstring \<Rightarrow> custody_config option \<Rightarrow> jsstring option \<Rightarrow> startup_result option \<times> disk" where
  "checkCustodyStartup h pkg d stamp config configPath =
     (let forbidden = scanForbiddenContent h (pkg d); integrity = verifyReleaseIntegrity h (pkg d)
      in if forbidden \<noteq> []
         then (let e = codeText ErrForbiddenArtifactPresent
               in (Some \<lparr>su_ok = False, su_code = e, su_reason = Some e, su_forbidden = forbidden, su_integrity = None,
                     su_policy = None, su_config_hash = None, su_preflight_lock = JNull\<rparr>, d))
         else case ir_reason integrity of
             Some reason \<Rightarrow> (Some (startupFailure (integrityCode integrity) (integrityReasonText reason) integrity None None JNull), d)
           | None \<Rightarrow>
               (case config of
                  Some c \<Rightarrow> checkConfigured h d stamp c configPath integrity
                | None \<Rightarrow> (if assertCustodyOnlyBehavior = None then None else Some (startupReady None None None), d)))"

section \<open>Preflight\<close>

record preflight_entry =
  pe_name :: string
  pe_ok :: bool
  pe_code :: jsstring

record preflight_report =
  pf_ok :: bool
  pf_code :: custody_code
  pf_checks :: "preflight_entry list"
  pf_config_hash :: "jsstring option"
  pf_policy_hash :: "jsstring option"
  pf_lock_path :: jsstring

text \<open>The probe file of \<open>writePathProbe\<close> is gone when it succeeds; \<open>probePath\<close> is its name.\<close>

definition writePathProbe :: "custody_host \<Rightarrow> jsstring \<Rightarrow> jsstring \<Rightarrow> disk \<Rightarrow> (fs_error, unit) fs_result" where
  "writePathProbe h p probePath d =
     andThen (mkdirSync h (MkDirOf p) d) (\<lambda>_ d.
     andThen (writeFileSync h probePath (jstr ''probe'' @ [10]) d) (\<lambda>_ d. unlinkSync h probePath d))"

definition probePathOf :: "jsstring \<Rightarrow> jsstring" where
  "probePathOf p =
     (let q = rev (dropWhile (\<lambda>c. c = 47) (rev p)) in take (length q - length (pathEnd p)) q) @ jstr ''.mnde-probe-'' @ pathEnd p @ jstr ''.tmp''"

definition entry :: "string \<Rightarrow> bool \<Rightarrow> jsstring \<Rightarrow> preflight_entry" where
  "entry name ok code = \<lparr>pe_name = name, pe_ok = ok, pe_code = code\<rparr>"

definition pathEntry :: "string \<Rightarrow> custody_code \<Rightarrow> custody_code \<Rightarrow> fs_error + unit \<Rightarrow> preflight_entry" where
  "pathEntry name good bad r = (case r of Inr u \<Rightarrow> entry name True (codeText good) | Inl e \<Rightarrow> entry name False (codeText bad))"

text \<open>\<open>JSON.stringify(lock, null, 2)\<close> and a line end.\<close>

definition lockText :: "jsstring \<Rightarrow> jsstring option \<Rightarrow> jsstring" where
  "lockText configHash policyHashValue =
     (let line = (\<lambda>k v. jstr ''  '' @ jsonStringifyString (jstr k) @ jstr '': '' @ v)
      in [123, 10] @ line ''schema_version'' (jsonStringifyString (jstr ''mnde.custody.preflight_lock.v1'')) @ [44, 10] @
         line ''config_hash'' (jsonStringifyString configHash) @ [44, 10] @
         line ''policy_hash'' (case policyHashValue of None \<Rightarrow> jstr ''null'' | Some t \<Rightarrow> jsonStringifyString t) @ [10, 125, 10])"

text \<open>\<open>None\<close> is an exception nothing catches: the policy or the configuration cannot be hashed, or the lock cannot be written.\<close>

definition runPreflightCheck ::
  "custody_host \<Rightarrow> package_view \<Rightarrow> jsstring \<Rightarrow> disk \<Rightarrow> preflight_report option \<times> disk" where
  "runPreflightCheck h pkg configPath d =
     (let integrity = verifyReleaseIntegrity h (pkg d);
          integrityEntry = entry ''release_integrity'' (ir_ok integrity)
            (case ir_reason integrity of None \<Rightarrow> integrityCode integrity | Some r \<Rightarrow> integrityReasonText r);
          lockPath = preflightLockPath configPath
      in case readCustodyConfig h d configPath of
           Inl e \<Rightarrow>
             (Some \<lparr>pf_ok = False, pf_code = ErrPreflightFailed,
                pf_checks = [entry ''config'' False (codeText ErrInvalidConfig), integrityEntry],
                pf_config_hash = None, pf_policy_hash = None, pf_lock_path = lockPath\<rparr>, d)
         | Inr c \<Rightarrow>
             (let bindEntry = (case parseBind (cc_bind c) of
                    Inr b \<Rightarrow> entry ''bind'' True (codeText OkBind) | Inl e \<Rightarrow> entry ''bind'' False (codeText ErrInvalidConfig));
                  (r1, d1) = writePathProbe h (cc_receipts_path c) (probePathOf (cc_receipts_path c)) d;
                  (r2, d2) = writePathProbe h (cc_log_path c) (probePathOf (cc_log_path c)) d1
              in case (validateConfiguredPolicy h d2 c, hashConfig h c) of
                   (Some policy, Some configHash) \<Rightarrow>
                     (let checks = [entry ''config'' True (codeText OkConfig), integrityEntry, bindEntry,
                            pathEntry ''receipt_path'' OkReceiptPathWritable ErrReceiptWriteFailed r1,
                            pathEntry ''log_path'' OkLogPathWritable ErrLogPathUnavailable r2,
                            entry ''env'' True (codeText OkEnv),
                            entry ''policy'' (pcv_ok policy) (codeText (pcv_code policy))];
                          ok = list_all pe_ok checks;
                          report = \<lparr>pf_ok = ok, pf_code = (if ok then OkPreflight else ErrPreflightFailed), pf_checks = checks,
                            pf_config_hash = Some configHash, pf_policy_hash = pcv_policy_hash policy, pf_lock_path = lockPath\<rparr>
                      in if \<not> ok then (Some report, d2)
                         else (case writeFileSync h lockPath (lockText configHash (pcv_policy_hash policy)) d2 of
                             (Inl e, d3) \<Rightarrow> (None, d3)
                           | (Inr u, d3) \<Rightarrow> (Some report, d3)))
                 | _ \<Rightarrow> (None, d2)))"

section \<open>The running service\<close>

text \<open>\<open>logStartupResult\<close>, as far as it changes the disk: the receipt of a refused start; a failure is only a warning.\<close>

definition logStartupResult ::
  "custody_host \<Rightarrow> disk \<Rightarrow> jsstring \<Rightarrow> startup_result \<Rightarrow> custody_config option \<Rightarrow> disk" where
  "logStartupResult h d stamp r config =
     (if su_ok r then d
      else (case config of
          None \<Rightarrow> d
        | Some c \<Rightarrow>
            (case buildAuditReceipt (ch_host h) r of
               None \<Rightarrow> d
             | Some receipt \<Rightarrow> snd (appendReceiptRecord h c stamp (jsonStringify (ch_number h) (JObj receipt)) d))))"

record custody_service =
  cu_config :: custody_config
  cu_policy :: policy_validation
  cu_log_status :: component_status
  cu_receipt_status :: component_status
  cu_signer_status :: component_status

text \<open>
  How a start ends: with an exit code; with a service, on the address it is bound to; or with an exception.
  With \<open>once\<close> a good start ends there.
\<close>

datatype start_outcome = Exited int | Serving custody_service jsstring nat | StartRaised

definition startServing :: "custody_host \<Rightarrow> disk \<Rightarrow> jsstring \<Rightarrow> custody_config \<Rightarrow> start_outcome \<times> disk" where
  "startServing h d stamp c =
     (case (validateConfiguredPolicy h d c, parseBind (cc_bind c)) of
        (Some policy, Inr (server, port)) \<Rightarrow>
          (let (r, d1) = rotateReceiptsIfNeeded h c stamp d;
               receiptStatus = (case r of
                   Inr rotated \<Rightarrow> \<lparr>cs_ok = True, cs_code = jstr ''OK_RECEIPT_STORE''\<rparr>
                 | Inl (code, m) \<Rightarrow> \<lparr>cs_ok = False, cs_code = code\<rparr>)
           in (Serving \<lparr>cu_config = c, cu_policy = policy,
                  cu_log_status = \<lparr>cs_ok = True, cs_code = jstr ''OK_LOG_WRITTEN''\<rparr>, cu_receipt_status = receiptStatus,
                  cu_signer_status = \<lparr>cs_ok = True, cs_code = jstr ''OK_SIGNER''\<rparr>\<rparr> server port, d1))
      | _ \<Rightarrow> (StartRaised, d))"

definition runCustodyRuntime ::
  "custody_host \<Rightarrow> package_view \<Rightarrow> disk \<Rightarrow> jsstring \<Rightarrow> jsstring \<Rightarrow> bool \<Rightarrow> start_outcome \<times> disk" where
  "runCustodyRuntime h pkg d stamp configPath once =
     (case readCustodyConfig h d configPath of
        Inl e \<Rightarrow> (Exited 2, d)
      | Inr c \<Rightarrow>
          (case checkCustodyStartup h pkg d stamp (Some c) (Some configPath) of
             (None, d1) \<Rightarrow> (StartRaised, d1)
           | (Some r, d1) \<Rightarrow>
               (let d2 = logStartupResult h d1 stamp r (Some c)
                in if \<not> su_ok r then (Exited 1, d2)
                   else if once then (Exited 0, d2)
                   else startServing h d2 stamp c)))"

definition currentHealth :: "custody_service \<Rightarrow> jsnum \<Rightarrow> health_state \<times> custody_service" where
  "currentHealth s free =
     (let diskOk = checkDiskStatus (cu_config s) free;
          s1 = (if diskOk then s else s\<lparr>cu_receipt_status := \<lparr>cs_ok = False, cs_code = codeText ErrDiskLow\<rparr>\<rparr>);
          s2 = (if cc_simulate_timeout (cu_config s)
                then s1\<lparr>cu_signer_status := \<lparr>cs_ok = False, cs_code = codeText ErrSignatureTimeout\<rparr>\<rparr> else s1)
      in (buildHealthState True True (cu_log_status s2) (cu_receipt_status s2) diskOk
            \<lparr>cs_ok = True, cs_code = codeText OkCustodyReady\<rparr> (cu_signer_status s2), s2))"

text \<open>The callback of \<open>listen\<close> logs the start; on the left the message of the exception when the log is required.\<close>

definition onListening ::
  "custody_host \<Rightarrow> custody_service \<Rightarrow> jsstring \<Rightarrow> disk \<Rightarrow> (jsstring, custody_service) fs_result" where
  "onListening h s line d =
     andThen (writeBoundedLog h (cu_config s) line d)
       (\<lambda>st d. (Inr (s\<lparr>cu_log_status := \<lparr>cs_ok = ls_ok st, cs_code = ls_code st\<rparr>\<rparr>), d))"

datatype health_answer = HealthBody health_state | ReadyBody health_state json json | NotFoundBody

text \<open>The status, the body, and the service after the request.\<close>

definition serveHealth :: "custody_service \<Rightarrow> jsnum \<Rightarrow> jsstring \<Rightarrow> jsstring \<Rightarrow> (nat \<times> health_answer) \<times> custody_service" where
  "serveHealth s free method pathname =
     (if method = jstr ''GET'' \<and> pathname = cc_health_path (cu_config s)
      then (let (health, s1) = currentHealth s free in ((200, HealthBody health), s1))
      else if method = jstr ''GET'' \<and> pathname = cc_ready_path (cu_config s)
      then (let (health, s1) = currentHealth s free; good = pcv_ok (cu_policy s)
            in ((if hs_ready health then 200 else 503,
                 ReadyBody health
                   (if good then firstOf [getProp (Some (pcv_details (cu_policy s))) ''policy_version''] else JNull)
                   (if good then nullOr (pcv_policy_hash (cu_policy s)) else JNull)), s1))
      else ((404, NotFoundBody), s))"

section \<open>Replay of a startup receipt\<close>

definition replayStartupReceipt ::
  "custody_host \<Rightarrow> disk \<Rightarrow> json \<Rightarrow> custody_config \<Rightarrow> (jsstring option \<times> jsstring option) option \<Rightarrow> custody_code option" where
  "replayStartupReceipt h d receipt c override =
     (case verifyAuditReceiptSignature (ch_host h) receipt of
        None \<Rightarrow> None
      | Some False \<Rightarrow> Some ErrReceiptSignatureInvalid
      | Some True \<Rightarrow>
          map_option (\<lambda>(hash, path).
              if firstOf [getProp (Some receipt) ''policy_hash''] \<noteq> nullOr hash \<or>
                 firstOf [getProp (Some receipt) ''policy_path''] \<noteq> nullOr path
              then ErrReceiptPolicyMismatch else OkReceiptReplay)
            (case override of
               Some p \<Rightarrow> Some p
             | None \<Rightarrow> map_option (\<lambda>v. (pcv_policy_hash v, pcv_path v)) (validateConfiguredPolicy h d c)))"

end
