(* ===== verification/CustodyProps.thy ===== *)
theory CustodyProps
  imports CustodyRuntime
begin

text \<open>What the custody runtime guarantees: a start that is allowed is backed by the documents on the disk.\<close>

section \<open>The configured policy\<close>

lemma validation_fields:
  "validation h c code policy hash path details payload = Some v \<Longrightarrow>
     pcv_code v = code \<and> pcv_policy v = policy \<and> pcv_policy_hash v = hash \<and> pcv_path v = path"
  by (auto simp: validation_def)

lemma validation_raises: "cc_expected_hash c = None \<Longrightarrow> validation h c code policy hash path details payload = None"
  by (simp add: validation_def validationHashForPolicyInput_def)

text \<open>A policy document that is signed by the key it names, whose key id is derived from that key.\<close>

definition policySigned :: "custody_host \<Rightarrow> disk \<Rightarrow> custody_config \<Rightarrow> jsstring \<Rightarrow> bool" where
  "policySigned h d c hash \<longleftrightarrow>
     (\<exists>contents parsed p payload.
        d (cc_policy_path c) = Some (RegularFile contents) \<and> ch_parse h contents = Inr parsed \<and>
        validateActivePolicyShape parsed = Inr p \<and> activePolicyPayload p = Some payload \<and>
        ap_key_id p = deriveKeyId (ch_host h) (ap_signing_public_key p) \<and>
        verifyPolicySignature (ch_host h) (ap_signing_public_key p) payload (ap_signature p) = Some True \<and>
        hash = sha256Text (ch_host h) payload)"

definition policyDisabled :: "custody_config \<Rightarrow> policy_validation \<Rightarrow> bool" where
  "policyDisabled c v \<longleftrightarrow> cc_policy_mode c = jstr ''disabled'' \<and> pcv_policy_hash v = None"

definition policyPinned :: "custody_config \<Rightarrow> jsstring \<Rightarrow> bool" where
  "policyPinned c hash \<longleftrightarrow> (\<forall>e. cc_expected_hash c = Some (JStr e) \<longrightarrow> e \<noteq> [] \<longrightarrow> hash = e)"

lemma readFileSync_Inr: "readFileSync h d p = Inr t \<Longrightarrow> d p = Some (RegularFile t)"
  by (auto simp: readFileSync_def split: option.splits file_node.splits)

lemma validateSignedPolicy_ok:
  assumes "validateSignedPolicy h c p payload = Some v" "pcv_ok v"
  shows "ap_key_id p = deriveKeyId (ch_host h) (ap_signing_public_key p) \<and>
    verifyPolicySignature (ch_host h) (ap_signing_public_key p) payload (ap_signature p) = Some True \<and>
    pcv_policy_hash v = Some (sha256Text (ch_host h) payload) \<and> policyPinned c (sha256Text (ch_host h) payload)"
  using assms
  by (auto simp: validateSignedPolicy_def Let_def pcv_ok_def policyPinned_def dest!: validation_fields
      split: if_splits option.splits bool.splits json.splits)

lemma validateConfiguredPolicy_ok:
  assumes "validateConfiguredPolicy h d c = Some v" "pcv_ok v"
  shows "policyDisabled c v \<or> (\<exists>hash. pcv_policy_hash v = Some hash \<and> policySigned h d c hash \<and> policyPinned c hash)"
proof (cases "cc_policy_mode c = jstr ''disabled''")
  case True
  with assms(1) show ?thesis
    by (auto simp: validateConfiguredPolicy_def policyDisabled_def dest!: validation_fields)
next
  case False
  from assms False obtain contents parsed p payload where
    run: "readFileSync h d (cc_policy_path c) = Inr contents" "ch_parse h contents = Inr parsed"
      "validateActivePolicyShape parsed = Inr p" "activePolicyPayload p = Some payload"
      "validateSignedPolicy h c p payload = Some v"
    by (auto simp: validateConfiguredPolicy_def Let_def pcv_ok_def bind_eq_Some_conv dest!: validation_fields
        split: if_splits option.splits sum.splits)
  from validateSignedPolicy_ok [OF run(5) assms(2)] readFileSync_Inr [OF run(1)] run(2-4)
  show ?thesis by (auto simp: policySigned_def)
qed

text \<open>The comparison with the lock uses the same policy, without its expected hash.\<close>

lemma policySigned_unique: "policySigned h d c x \<Longrightarrow> policySigned h d c y \<Longrightarrow> x = y"
  by (auto simp: policySigned_def)

lemma disabled_policy_hash:
  assumes "validateConfiguredPolicy h d c = Some v" "cc_policy_mode c = jstr ''disabled''"
  shows "pcv_policy_hash v = None"
  using assms by (auto simp: validateConfiguredPolicy_def dest!: validation_fields)

lemma ready_policy_hash:
  assumes "validateConfiguredPolicy h d c = Some v" "pcv_ok v" "cc_policy_mode c \<noteq> jstr ''disabled''"
  shows "\<exists>x. pcv_policy_hash v = Some x \<and> policySigned h d c x"
  using validateConfiguredPolicy_ok [OF assms(1,2)] assms(3) by (auto simp: policyDisabled_def)

lemma policySigned_expected [simp]: "policySigned h d (c\<lparr>cc_expected_hash := e\<rparr>) hash = policySigned h d c hash"
  by (simp add: policySigned_def)

lemma lock_policy_same:
  assumes w: "policyForLockComparison h d c = Some w" "pcv_ok w" and v: "validateConfiguredPolicy h d c = Some v" "pcv_ok v"
  shows "pcv_policy_hash w = pcv_policy_hash v"
proof (cases "cc_policy_mode c = jstr ''disabled''")
  case True
  with w(1) v(1) show ?thesis
    using disabled_policy_hash [of h d "c\<lparr>cc_expected_hash := Some JNull\<rparr>" w] disabled_policy_hash [of h d c v]
    by (simp add: policyForLockComparison_def)
next
  case False
  obtain x where x: "pcv_policy_hash w = Some x" "policySigned h d c x"
    using ready_policy_hash [of h d "c\<lparr>cc_expected_hash := Some JNull\<rparr>" w] w False
    by (auto simp: policyForLockComparison_def)
  obtain y where "pcv_policy_hash v = Some y" "policySigned h d c y"
    using ready_policy_hash [OF v False] by blast
  with x policySigned_unique [of h d c x y] show ?thesis by simp
qed

section \<open>The preflight lock\<close>

definition lockRecords :: "custody_host \<Rightarrow> disk \<Rightarrow> jsstring \<Rightarrow> jsstring \<Rightarrow> jsstring option \<Rightarrow> bool" where
  "lockRecords h d configPath configHash policyHashValue \<longleftrightarrow>
     (\<exists>contents lock. d (preflightLockPath configPath) = Some (RegularFile contents) \<and> ch_parse h contents = Inr lock \<and>
        getProp (Some lock) ''config_hash'' = Some (JStr configHash) \<and>
        firstOf [getProp (Some lock) ''policy_hash''] = nullOr policyHashValue)"

lemma validatePreflightLock_ok:
  "validatePreflightLock h d p configHash policyHashValue = (OkPreflightLock, lock) \<Longrightarrow>
     lockRecords h d p configHash policyHashValue"
  by (auto simp: validatePreflightLock_def lockRecords_def Let_def dest!: readFileSync_Inr
      split: if_splits option.splits sum.splits)

section \<open>The probe receipt\<close>

definition probeReadBack :: "custody_host \<Rightarrow> disk \<Rightarrow> custody_config \<Rightarrow> bool" where
  "probeReadBack h d c \<longleftrightarrow>
     (\<exists>receipt. safeReadJsonLine h d (cc_receipts_path c) = Inr receipt \<and>
        verifyAuditReceiptSignature (ch_host h) receipt = Some True)"

lemma writeProbeReceiptAndVerify_ok:
  "writeProbeReceiptAndVerify h d stamp c r = (Some (Inr receipt), d') \<Longrightarrow> probeReadBack h d' c"
  by (auto simp: writeProbeReceiptAndVerify_def probeReadBack_def Let_def split: option.splits if_splits sum.splits prod.splits)

section \<open>Startup\<close>

lemma finishStartup_ok:
  assumes "finishStartup h d stamp c integrity configHash = (Some r, d')" "su_ok r"
  shows "\<exists>v. validateConfiguredPolicy h d c = Some v \<and> pcv_ok v \<and> su_policy r = Some v \<and> su_config_hash r = Some configHash \<and>
    probeReadBack h d' c"
  using assms writeProbeReceiptAndVerify_ok
  by (auto simp: finishStartup_def Let_def startupFailure_def startupReady_def
      split: option.splits if_splits sum.splits prod.splits)

lemma checkConfigured_ok:
  assumes "checkConfigured h d stamp c (Some p) integrity = (Some r, d')" "su_ok r"
  shows "\<exists>configHash v. hashConfig h c = Some configHash \<and> validateConfiguredPolicy h d c = Some v \<and> pcv_ok v \<and>
    su_policy r = Some v \<and> lockRecords h d p configHash (pcv_policy_hash v) \<and> probeReadBack h d' c"
proof -
  from assms obtain configHash w lock where
    run: "hashConfig h c = Some configHash" "policyForLockComparison h d c = Some w" "pcv_ok w"
      "validatePreflightLock h d p configHash (pcv_policy_hash w) = (OkPreflightLock, lock)"
      "finishStartup h d stamp c integrity configHash = (Some r, d')"
    by (auto simp: checkConfigured_def Let_def startupFailure_def split: option.splits if_splits prod.splits)
  from finishStartup_ok [OF run(5) assms(2)] obtain v where
    v: "validateConfiguredPolicy h d c = Some v" "pcv_ok v" "su_policy r = Some v" "probeReadBack h d' c"
    by blast
  from lock_policy_same [OF run(2,3) v(1,2)] validatePreflightLock_ok [OF run(4)] run(1) v
  show ?thesis by auto
qed

end
