(* ===== verification/CustodyStart.thy ===== *)
theory CustodyStart
  imports CustodyProps
begin

text \<open>
  What is written is read back: the lock of a preflight and the receipt of a start. A preflight that passes is followed by a start
  that is allowed.
\<close>

section \<open>The parser of the host\<close>

text \<open>\<open>JSON.parse\<close> agrees with the strict parser wherever the strict parser accepts.\<close>

definition parsesStrict :: "custody_host \<Rightarrow> bool" where
  "parsesStrict h \<longleftrightarrow> (\<forall>t v. parseStrictJson t = ParseOk v [] \<longrightarrow> ch_parse h t = Inr v)"

section \<open>The text of the lock\<close>

lemma parseValue_string: "parseValue (Suc n) (32 # jsonStringifyString s @ r) = ParseOk (JStr s) r"
  using parse_jsonStringifyString [of s r] by (simp add: parseValue.simps jsonStringifyString_def)

lemma parseValue_null: "parseValue (Suc n) (32 # jstr ''null'' @ r) = ParseOk JNull r"
  by (simp add: parseValue.simps jstr_def unit_of_char_def isDigit_def)

lemma parseMembers_first:
  assumes "k \<notin> set (map fst acc)" "pv (32 # t @ 44 # r) = ParseOk v (44 # r)"
  shows "parseMembers (Suc n) pv acc (jsonStringifyString k @ 58 # 32 # t @ 44 # r) =
    parseMembers n pv (acc @ [(k, v)]) (skipWhitespace r)"
  using assms by (simp add: parseMembers.simps parse_jsonStringifyString jsonStringifyString_def)
    (simp add: parse_jsonStringifyString [unfolded jsonStringifyString_def, simplified])

lemma parseMembers_last:
  assumes "k \<notin> set (map fst acc)" "pv (32 # t @ 10 # 125 # r) = ParseOk v (10 # 125 # r)"
  shows "parseMembers (Suc n) pv acc (jsonStringifyString k @ 58 # 32 # t @ 10 # 125 # r) =
    ParseOk (JObj (acc @ [(k, v)])) r"
  using assms by (simp add: parseMembers.simps parse_jsonStringifyString jsonStringifyString_def)
    (simp add: parse_jsonStringifyString [unfolded jsonStringifyString_def, simplified])

definition lockJson :: "jsstring \<Rightarrow> jsstring option \<Rightarrow> json" where
  "lockJson configHash policyHashValue = JObj
     [(jstr ''schema_version'', JStr (jstr ''mnde.custody.preflight_lock.v1'')), (jstr ''config_hash'', JStr configHash),
      (jstr ''policy_hash'', nullOr policyHashValue)]"

lemma skipWhitespace_quoted: "skipWhitespace (jsonStringifyString s @ r) = jsonStringifyString s @ r"
  by (simp add: jsonStringifyString_def)

lemma jstr_layout: "jstr ''  '' = [32, 32]" "jstr '': '' = [58, 32]"
  by (simp_all add: jstr_def unit_of_char_def)

lemma parse_lockText: "parseStrictJson (lockText a b) = ParseOk (lockJson a b) []"
proof -
  define hashText where "hashText = (case b of None \<Rightarrow> jstr ''null'' | Some t \<Rightarrow> jsonStringifyString t)"
  let ?third = "jsonStringifyString (jstr ''policy_hash'') @ 58 # 32 # hashText @ 10 # 125 # [10]"
  let ?second = "jsonStringifyString (jstr ''config_hash'') @ 58 # 32 # jsonStringifyString a @ 44 # 10 # 32 # 32 # ?third"
  let ?first = "jsonStringifyString (jstr ''schema_version'') @ 58 # 32 #
    jsonStringifyString (jstr ''mnde.custody.preflight_lock.v1'') @ 44 # 10 # 32 # 32 # ?second"
  have source: "lockText a b = 123 # 10 # 32 # 32 # ?first"
    by (simp add: lockText_def Let_def jstr_layout hashText_def)
  have v: "parseValue (Suc n) (32 # hashText @ r) = ParseOk (nullOr b) r" for n r
    by (cases b) (simp_all add: hashText_def nullOr_def parseValue_string parseValue_null del: parseValue.simps)
  obtain m where m: "length (lockText a b) = Suc (Suc (Suc m))" by (simp add: source)
  have run: "parseMembers (Suc (Suc (Suc m))) (parseValue (Suc k)) [] ?first = ParseOk (lockJson a b) [10]" for k
    by (simp add: parseMembers_first [where v = "JStr (jstr ''mnde.custody.preflight_lock.v1'')"]
        parseMembers_first [where v = "JStr a"] parseMembers_last [where v = "nullOr b"] v parseValue_string
        skipWhitespace_quoted lockJson_def del: parseValue.simps parseMembers.simps)
  have skip: "skipWhitespace (tl (lockText a b)) = ?first"
    by (simp add: source skipWhitespace_quoted)
  have hd: "?first \<noteq> []" "hd ?first \<noteq> 125"
    by (simp_all add: jsonStringifyString_def)
  have object: "parseObject (parseValue (Suc k)) (lockText a b) = ParseOk (lockJson a b) [10]" for k
    unfolding parseObject_def Let_def skip m using hd run [of k] by (simp only: if_False simp_thms)
  have "parseValue (Suc (Suc k)) (lockText a b) = parseObject (parseValue (Suc k)) (lockText a b)" for k
    by (subst parseValue.simps) (simp add: source del: parseValue.simps)
  then show ?thesis using object [of "Suc (Suc m)"] by (simp add: parseStrictJson_def m del: parseValue.simps)
qed

section \<open>The last line of the store\<close>

definition endsLine :: "file_node option \<Rightarrow> bool" where
  "endsLine node \<longleftrightarrow> (case node of None \<Rightarrow> True | Some (RegularFile t) \<Rightarrow> t = [] \<or> last t = 10 | Some OtherNode \<Rightarrow> False)"

lemma splitLines_single: "10 \<notin> set s \<Longrightarrow> splitLines acc s = [rev acc @ s]"
proof (induction acc s rule: splitLines.induct)
  case (2 acc c cs)
  then show ?case by (cases cs) auto
qed simp

lemma jsTrim_line:
  assumes "line \<noteq> []" "\<not> isJsSpace (hd line)" "\<not> isJsSpace (last line)"
  shows "jsTrim (t @ line @ [10]) = dropWhile isJsSpace t @ line"
proof -
  have "dropWhile isJsSpace (t @ line @ [10]) = dropWhile isJsSpace t @ line @ [10]"
    using assms by (cases line) (auto simp: dropWhile_append dropWhile_eq_Nil_conv)
  moreover have "dropWhile isJsSpace (rev (u @ line @ [10])) = rev (u @ line)" for u
    using assms by (cases line rule: rev_cases) (auto simp: isJsSpace_def)
  ultimately show ?thesis by (simp add: jsTrim_def)
qed

lemma last_dropWhile: "dropWhile P t \<noteq> [] \<Longrightarrow> last (dropWhile P t) = last t"
  by (induction t) auto

lemma last_line:
  assumes line: "line \<noteq> []" "\<not> isJsSpace (hd line)" "\<not> isJsSpace (last line)" "10 \<notin> set line"
    and t: "t = [] \<or> last t = 10"
  shows "filter (\<lambda>l. l \<noteq> []) (splitLines [] (jsTrim (t @ line @ [10]))) \<noteq> []"
    "last (filter (\<lambda>l. l \<noteq> []) (splitLines [] (jsTrim (t @ line @ [10])))) = line"
proof -
  define u where "u = dropWhile isJsSpace t"
  have "u = [] \<or> last u = 10" using t last_dropWhile [of isJsSpace t] by (cases "u = []") (auto simp: u_def)
  then obtain ls where "splitLines [] (u @ line) = ls @ [line]"
  proof (cases "u = []")
    case True
    then show ?thesis using that [of "[]"] splitLines_single [OF line(4)] by simp
  next
    case False
    with \<open>u = [] \<or> last u = 10\<close> have "u = butlast u @ [10]" by (metis append_butlast_last_id)
    then obtain w where "u = w @ [10]" by blast
    then show ?thesis using that splitLines_end [of "[]" w line] splitLines_single [OF line(4)] by simp
  qed
  then have "splitLines [] (jsTrim (t @ line @ [10])) = ls @ [line]"
    using jsTrim_line [OF line(1-3), of t] by (simp add: u_def)
  then show "filter (\<lambda>l. l \<noteq> []) (splitLines [] (jsTrim (t @ line @ [10]))) \<noteq> []"
    "last (filter (\<lambda>l. l \<noteq> []) (splitLines [] (jsTrim (t @ line @ [10])))) = line"
    using line(1) by auto
qed

lemma jsonStringify_object_ends:
  "plainJson (JObj ps) \<Longrightarrow> jsonStringify number (JObj ps) \<noteq> [] \<and> hd (jsonStringify number (JObj ps)) = 123 \<and>
     last (jsonStringify number (JObj ps)) = 125"
  unfolding jsonStringify_members by simp

text \<open>An object appended to a store that ends with a line is what the last line of the store reads as.\<close>

lemma append_then_read:
  assumes h: "parsesStrict h" "printsIntegers (ch_number h)" "\<forall>x. ch_fault h x = None" and plain: "plainJson (JObj ps)"
    and rotated: "rotateReceiptsIfNeeded h c stamp d = (Inr b, d1)" and store: "endsLine (d1 (cc_receipts_path c))"
  shows "\<exists>d2. appendReceiptRecord h c stamp (jsonStringify (ch_number h) (JObj ps)) d = (Inr (), d2) \<and>
    safeReadJsonLine h d2 (cc_receipts_path c) = Inr (JObj ps)"
proof -
  let ?line = "jsonStringify (ch_number h) (JObj ps)"
  define t where "t = (case d1 (cc_receipts_path c) of Some (RegularFile t) \<Rightarrow> t | _ \<Rightarrow> [])"
  define d2 where "d2 = d1(cc_receipts_path c \<mapsto> RegularFile (t @ ?line @ [10]))"
  have t: "t = [] \<or> last t = 10"
    using store by (auto simp: t_def endsLine_def split: option.splits file_node.splits)
  have "appendFileSync h (cc_receipts_path c) (?line @ [10]) d1 = (Inr (), d2)"
    using h(3) store
    by (auto simp: appendFileSync_def fsCall_def d2_def t_def endsLine_def split: option.splits file_node.splits)
  then have "appendReceiptRecord h c stamp ?line d = (Inr (), d2)"
    by (simp add: appendReceiptRecord_def rotated)
  moreover have "ch_parse h ?line = Inr (JObj ps)"
    using h(1) parse_jsonStringify [OF h(2) plain] by (simp add: parsesStrict_def)
  then have "safeReadJsonLine h d2 (cc_receipts_path c) = Inr (JObj ps)"
    using last_line [OF _ _ _ jsonStringify_no_lf [OF h(2) plain] t] jsonStringify_object_ends [OF plain, of "ch_number h"] h(3)
    by (simp add: safeReadJsonLine_def readFileSync_def d2_def Let_def isJsSpace_def)
  ultimately show ?thesis by blast
qed

section \<open>Audit receipts\<close>

lemma plainJson_wf: "plainJson v \<Longrightarrow> wfJson v"
  by (induction v rule: plainJson.induct) auto

definition plainContext :: "startup_result \<Rightarrow> bool" where
  "plainContext r \<longleftrightarrow> (\<forall>i. su_integrity r = Some i \<longrightarrow> plainJson (ir_context i))"

lemma plain_fields [simp]: "plainJson (nullOr t)" "plainJson (policyIdOf r)"
  by (auto simp: nullOr_def policyIdOf_def split: option.splits json.splits)

lemma isArrayIndex_jstr [simp]: "isArrayIndex (jstr (c # s)) \<Longrightarrow> isDigit (unit_of_char c)"
  by (simp add: isArrayIndex_def jstr_def)

lemma audit_keys: "\<not> isArrayIndex (jstr k)"
  if "k \<in> {''schema_version'', ''decision'', ''reason_code'', ''config_hash'', ''policy_hash'', ''policy_path'', ''policy_id'',
    ''integrity_context'', ''decision_hash'', ''signature'', ''receipt_hash'', ''algorithm'', ''value''}"
  using that by (auto simp: isArrayIndex_def jstr_def unit_of_char_def isDigit_def)

lemma auditPayload_plain: "plainContext r \<Longrightarrow> plainJson (JObj (buildAuditReceiptPayload r))"
  by (auto simp: buildAuditReceiptPayload_def audit_keys plainContext_def split: option.splits)

lemma buildAuditReceipt_verifies:
  assumes "plainContext r"
  shows "\<exists>receipt. buildAuditReceipt h r = Some receipt \<and> plainJson (JObj receipt) \<and>
    verifyAuditReceiptSignature h (JObj receipt) = Some True"
proof -
  let ?payload = "buildAuditReceiptPayload r"
  have plain: "plainJson (JObj ?payload)" by (rule auditPayload_plain [OF assms])
  have keys: "map fst ?payload = map jstr [''schema_version'', ''decision'', ''reason_code'', ''config_hash'', ''policy_hash'',
      ''policy_path'', ''policy_id'', ''integrity_context'']"
    by (simp add: buildAuditReceiptPayload_def)
  have kept: "unsignedFields ?payload = ?payload" by (simp add: buildAuditReceiptPayload_def unsignedFields_def)
  let ?core = "JObj (fieldsOf ?payload [''decision'', ''reason_code'', ''config_hash'', ''policy_hash'', ''policy_path''])"
  have core: "plainJson ?core"
    by (auto simp: fieldsOf_def buildAuditReceiptPayload_def jsonOr_def audit_keys)
  obtain x where x: "hashCanonicalJson h ?core = Some x" using hashCanonicalJson_wf [OF plainJson_wf [OF core]] by blast
  define signed where "signed = ?payload @ [(jstr ''decision_hash'', JStr x)]"
  have ps: "plainJson (JObj signed)" using plain keys by (auto simp: signed_def audit_keys)
  define y where "y = sha256Text h (canonicalText (JObj signed))"
  have y: "hashCanonicalJson h (JObj signed) = Some y" unfolding y_def by (rule hashCanonicalJson_wf [OF plainJson_wf [OF ps]])
  define receipt where "receipt = signed @ [(jstr ''signature'',
    JObj [(jstr ''algorithm'', JStr (jstr ''SHA256'')), (jstr ''value'', JStr y)])]"
  have pr: "plainJson (JObj receipt)" using ps keys by (auto simp: receipt_def signed_def audit_keys)
  define z where "z = sha256Text h (canonicalText (JObj receipt))"
  have z: "hashCanonicalJson h (JObj receipt) = Some z" unfolding z_def by (rule hashCanonicalJson_wf [OF plainJson_wf [OF pr]])
  let ?all = "receipt @ [(jstr ''receipt_hash'', JStr z)]"
  have "buildAuditReceipt h r = Some ?all"
    using x y z by (simp add: buildAuditReceipt_def Let_def signAuditReceiptPayload_def signed_def receipt_def)
  moreover have "plainJson (JObj ?all)" using pr keys by (auto simp: receipt_def signed_def audit_keys)
  moreover have "unsignedFields ?all = signed"
    using kept by (simp add: unsignedFields_def receipt_def signed_def)
  moreover have "map_of ?all (jstr ''signature'') = Some (JObj [(jstr ''algorithm'', JStr (jstr ''SHA256'')), (jstr ''value'', JStr y)])"
    using keys by (simp add: receipt_def signed_def buildAuditReceiptPayload_def)
  ultimately show ?thesis using y by auto
qed

section \<open>The lock decides\<close>

lemma validatePreflightLock_written:
  assumes "parsesStrict h" "ch_fault h (ReadFile (preflightLockPath p)) = None"
    and "d (preflightLockPath p) = Some (RegularFile (lockText a b))"
  shows "fst (validatePreflightLock h d p a' b') =
    (if a' \<noteq> a then ErrPreflightConfigMismatch else if b' \<noteq> b then ErrPreflightPolicyMismatch else OkPreflightLock)"
proof -
  have "ch_parse h (lockText a b) = Inr (lockJson a b)"
    using assms(1) parse_lockText [of a b] by (simp add: parsesStrict_def)
  moreover have "readFileSync h d (preflightLockPath p) = Inr (lockText a b)"
    using assms(2,3) by (simp add: readFileSync_def)
  moreover have "firstOf [Some (nullOr b)] = nullOr b" "nullOr b = nullOr b' \<longleftrightarrow> b = b'"
    by (auto simp: nullOr_def nullish_def split: option.splits)
  ultimately show ?thesis
    using assms(3) by (auto simp: validatePreflightLock_def Let_def lockJson_def getProp_def)
qed

lemma writePathProbe_view:
  assumes "outsidePackage pkg probe" "writePathProbe h q probe d = (r, d1)"
  shows "pkg d1 = pkg d"
proof -
  have keep: "pkg (d(probe := n)) = pkg d" for d n using assms(1) by (simp add: outsidePackage_def)
  have mkdir: "snd (mkdirSync h x d) = d" for x d by (simp add: mkdirSync_def fsCall_def split: option.split)
  have wrote: "pkg (snd (writeFileSync h probe t d)) = pkg d" "pkg (snd (unlinkSync h probe d)) = pkg d" for t d
    using keep by (simp_all add: writeFileSync_def unlinkSync_def fsCall_def split: option.split file_node.split)
  have chain: "pkg (snd (andThen (x, d) k)) = pkg d" if "\<And>a. pkg (snd (k a d)) = pkg d" for x :: "fs_error + unit" and d k
    using that by (cases x) simp_all
  have "pkg (snd (andThen (writeFileSync h probe t d) (\<lambda>_ d. unlinkSync h probe d))) = pkg d" for t d
    using chain [of "\<lambda>_ d. unlinkSync h probe d" "snd (writeFileSync h probe t d)" "fst (writeFileSync h probe t d)"] wrote by simp
  then have "pkg (snd (writePathProbe h q probe d)) = pkg d"
    using chain [of "\<lambda>_ d. andThen (writeFileSync h probe (jstr ''probe'' @ [10]) d) (\<lambda>_ d. unlinkSync h probe d)" d
        "fst (mkdirSync h (MkDirOf q) d)"] mkdir [of "MkDirOf q" d]
    unfolding writePathProbe_def by (metis prod.collapse)
  with assms(2) show ?thesis by simp
qed

lemma runPreflightCheck_ok:
  assumes "runPreflightCheck h pkg p d = (Some rep, d')" "pf_ok rep" "readCustodyConfig h d p = Inr c"
  shows "\<exists>configHash v d2. hashConfig h c = Some configHash \<and> validateConfiguredPolicy h d2 c = Some v \<and> pcv_ok v \<and>
    ir_ok (verifyReleaseIntegrity h (pkg d)) \<and> pf_config_hash rep = Some configHash \<and> pf_policy_hash rep = pcv_policy_hash v \<and>
    d' = d2(preflightLockPath p \<mapsto> RegularFile (lockText configHash (pcv_policy_hash v))) \<and>
    (outsidePackage pkg (probePathOf (cc_receipts_path c)) \<and> outsidePackage pkg (probePathOf (cc_log_path c)) \<longrightarrow> pkg d2 = pkg d)"
proof -
  obtain r1 d1 r2 d2 where probes: "writePathProbe h (cc_receipts_path c) (probePathOf (cc_receipts_path c)) d = (r1, d1)"
    "writePathProbe h (cc_log_path c) (probePathOf (cc_log_path c)) d1 = (r2, d2)"
    by (meson surj_pair)
  from assms obtain v configHash where vc: "validateConfiguredPolicy h d2 c = Some v" "hashConfig h c = Some configHash"
    by (auto simp: runPreflightCheck_def Let_def probes split: option.splits)
  from assms have pass: "ir_ok (verifyReleaseIntegrity h (pkg d))" "pcv_ok v" "pf_config_hash rep = Some configHash"
      "pf_policy_hash rep = pcv_policy_hash v"
      "writeFileSync h (preflightLockPath p) (lockText configHash (pcv_policy_hash v)) d2 = (Inr (), d')"
    by (auto simp: runPreflightCheck_def Let_def probes vc entry_def split: if_splits sum.splits prod.splits)
  from pass(5) have "d' = d2(preflightLockPath p \<mapsto> RegularFile (lockText configHash (pcv_policy_hash v)))"
    by (auto simp: writeFileSync_def fsCall_def split: option.splits if_splits)
  with vc pass writePathProbe_view [OF _ probes(1)] writePathProbe_view [OF _ probes(2)] show ?thesis by metis
qed

text \<open>
  C19: the lock a preflight writes admits exactly what the preflight saw. After a preflight that passes, the lock beside the
  configuration accepts a configuration hash and a policy hash exactly when they are the ones reported; any other configuration
  is refused as a configuration mismatch, and any other policy, also its absence, as a policy mismatch.
\<close>

theorem preflight_lock_admits:
  assumes "parsesStrict h" and "ch_fault h (ReadFile (preflightLockPath p)) = None"
    and "runPreflightCheck h pkg p d = (Some rep, d')" and "pf_ok rep"
  shows "fst (validatePreflightLock h d' p configHash policyHashValue) =
    (if Some configHash \<noteq> pf_config_hash rep then ErrPreflightConfigMismatch
     else if policyHashValue \<noteq> pf_policy_hash rep then ErrPreflightPolicyMismatch else OkPreflightLock)"
proof -
  obtain c where "readCustodyConfig h d p = Inr c"
    using assms(3,4) by (cases "readCustodyConfig h d p") (auto simp: runPreflightCheck_def Let_def)
  from runPreflightCheck_ok [OF assms(3,4) this] obtain a b d2 where
    "pf_config_hash rep = Some a" "pf_policy_hash rep = b" "d' = d2(preflightLockPath p \<mapsto> RegularFile (lockText a b))"
    by blast
  then show ?thesis
    using validatePreflightLock_written [OF assms(1,2), of d' a b configHash policyHashValue] by auto
qed

section \<open>What an accepted configuration is\<close>

lemma readCustodyConfig_ok:
  assumes "readCustodyConfig h d p = Inr c"
  shows "\<exists>config. c = custodyConfigOf config \<and> list_all (\<lambda>e. e = None) (configChecks (ch_host h) config)"
  using assms
  by (auto simp: readCustodyConfig_def Let_def firstError_None_iff [symmetric] assertObject_def configError_def
      split: sum.splits json.splits option.splits)

lemma requireString_None:
  "requireString ps key expected = None \<longleftrightarrow>
     stringField ps key \<noteq> [] \<and> (\<forall>e. expected = Some e \<longrightarrow> stringField ps key = jstr e)"
  by (auto simp: requireString_def stringField_def configError_def split: option.splits json.splits if_splits)

lemma requirePositiveInteger_None:
  "requirePositiveInteger ps key = None \<longleftrightarrow> 0 < integerField ps key \<and> isSafeInteger (integerField ps key)"
  by (auto simp: requirePositiveInteger_def integerField_def configError_def
      split: option.splits json.splits jsnum.splits if_splits)

lemma failWhen_None [simp]: "failWhen b m f = None \<longleftrightarrow> \<not> b"
  by (simp add: failWhen_def)

lemma errorOf_None: "errorOf r = None \<longleftrightarrow> (\<exists>a. r = Inr a)"
  by (cases r) (auto simp: errorOf_def)

lemma parseBind_Inr: "parseBind b = Inr (server, port) \<Longrightarrow> server \<noteq> [] \<and> 1 \<le> port \<and> port \<le> 65535"
  by (auto simp: parseBind_def Let_def split: list.splits option.splits if_splits)

text \<open>
  C31: what an accepted configuration guarantees. Its bind address is a host and a port from 1 to 65535, its limits are positive
  safe integers, the rotation mode is one of the two known ones, an expected hash that is a text has 64 hexadecimal digits, and
  either a policy is required and its path is not blank, or policies are disabled and the environment allows that.
\<close>

theorem custody_config_bounds:
  assumes "readCustodyConfig h d p = Inr c"
  shows "(\<exists>server port. parseBind (cc_bind c) = Inr (server, port) \<and> server \<noteq> [] \<and> 1 \<le> port \<and> port \<le> 65535) \<and>
    list_all (\<lambda>n. 0 < n \<and> n \<le> maxSafe)
      [cc_log_max_bytes c, cc_log_max_files c, cc_receipts_max_bytes c, cc_receipts_max_count c, cc_min_free_bytes c] \<and>
    cc_rotation_mode c \<in> {jstr ''size'', jstr ''count''} \<and>
    (\<forall>e. cc_expected_hash c = Some (JStr e) \<longrightarrow> length e = 64 \<and> list_all isHexDigit e) \<and>
    (cc_policy_mode c = jstr ''required'' \<and> jsTrim (cc_policy_path c) \<noteq> [] \<or>
     cc_policy_mode c = jstr ''disabled'' \<and>
     hs_env (ch_host h) (jstr ''MNDE_CUSTODY_ALLOW_DISABLED_POLICY_MODE'') = Some (jstr ''true''))"
proof -
  from readCustodyConfig_ok [OF assms] obtain config where c: "c = custodyConfigOf config"
    and ok: "list_all (\<lambda>e. e = None) (configChecks (ch_host h) config)" by blast
  note groups = ok [unfolded configChecks_def list_all_append]
  obtain server port where "parseBind (cc_bind c) = Inr (server, port)"
    using groups by (auto simp: c custodyConfigOf_def Let_def runtimeChecks_def errorOf_None)
  then have "\<exists>server port. parseBind (cc_bind c) = Inr (server, port) \<and> server \<noteq> [] \<and> 1 \<le> port \<and> port \<le> 65535"
    using parseBind_Inr by blast
  moreover have "list_all (\<lambda>n. 0 < n \<and> n \<le> maxSafe)
      [cc_log_max_bytes c, cc_log_max_files c, cc_receipts_max_bytes c, cc_receipts_max_count c, cc_min_free_bytes c]"
    using groups by (simp add: c custodyConfigOf_def Let_def loggingChecks_def receiptsChecks_def requirePositiveInteger_None
        isSafeInteger_def)
  moreover have "cc_rotation_mode c \<in> {jstr ''size'', jstr ''count''}"
    using groups by (simp add: c custodyConfigOf_def Let_def receiptsChecks_def)
  moreover have "length e = 64 \<and> list_all isHexDigit e" if "cc_expected_hash c = Some (JStr e)" for e
    using groups that
    by (simp add: c custodyConfigOf_def Let_def policyChecks_def isSha256Hex_def nullish_def stringField_def)
  moreover have "cc_policy_mode c = jstr ''required'' \<and> jsTrim (cc_policy_path c) \<noteq> [] \<or>
     cc_policy_mode c = jstr ''disabled'' \<and>
     hs_env (ch_host h) (jstr ''MNDE_CUSTODY_ALLOW_DISABLED_POLICY_MODE'') = Some (jstr ''true'')"
    using groups by (auto simp add: c custodyConfigOf_def Let_def policyChecks_def)
  ultimately show ?thesis by simp
qed

section \<open>From preflight to start\<close>

lemma validation_total:
  "cc_expected_hash c = Some JNull \<Longrightarrow>
     \<exists>v. validation h c code policy hash path details payload = Some v \<and> pcv_code v = code"
  by (auto simp: validation_def validationHashForPolicyInput_def hashCanonicalJson_wf split: option.splits)

lemma validatePolicy_disk:
  assumes "d (cc_policy_path c) = d2 (cc_policy_path c)"
  shows "validateConfiguredPolicy h d c = validateConfiguredPolicy h d2 c"
proof -
  have same: "readFileSync h d (cc_policy_path c) = readFileSync h d2 (cc_policy_path c)"
    unfolding readFileSync_def assms ..
  show ?thesis unfolding validateConfiguredPolicy_def Let_def assms same ..
qed

lemma lock_comparison_ok:
  assumes "validateConfiguredPolicy h d c = Some v" "pcv_ok v"
  shows "\<exists>w. policyForLockComparison h d c = Some w \<and> pcv_ok w"
proof -
  let ?c = "c\<lparr>cc_expected_hash := Some JNull\<rparr>"
  have total: "\<exists>w. validation h ?c code policy hash path details payload = Some w \<and> pcv_code w = code"
    for code policy hash path details payload
    by (rule validation_total) simp
  show ?thesis
  proof (cases "cc_policy_mode c = jstr ''disabled''")
    case True
    with total [of OkPolicyDisabled] show ?thesis
      by (simp add: policyForLockComparison_def validateConfiguredPolicy_def pcv_ok_def) blast
  next
    case False
    from assms False obtain contents parsed q payload where
      run: "jsTrim (cc_policy_path c) \<noteq> []" "ch_fault h (StatFile (cc_policy_path c)) = None"
        "readFileSync h d (cc_policy_path c) = Inr contents" "ch_parse h contents = Inr parsed"
        "validateActivePolicyShape parsed = Inr q" "activePolicyPayload q = Some payload"
        "validateSignedPolicy h c q payload = Some v"
      by (auto simp: validateConfiguredPolicy_def Let_def pcv_ok_def bind_eq_Some_conv dest!: validation_fields
          split: if_splits option.splits sum.splits)
    from validateSignedPolicy_ok [OF run(7) assms(2)] total [of OkPolicyReady]
    have "\<exists>w. validateSignedPolicy h ?c q payload = Some w \<and> pcv_ok w"
      by (simp add: validateSignedPolicy_def Let_def pcv_ok_def) blast
    then show ?thesis
      using False run(1-6) readFileSync_Inr [OF run(3)]
      by (simp add: policyForLockComparison_def validateConfiguredPolicy_def Let_def)
  qed
qed

lemma checkArtifacts_refuses: "checkArtifacts h pk as = Some r \<Longrightarrow> ir_reason r \<noteq> None"
  by (induction h pk as rule: checkArtifacts.induct)
    (auto simp: unhandled_def refusal_def Let_def split: option.splits json.splits if_splits sum.splits)

lemma checkExtraFiles_refuses: "checkExtraFiles h pk as files = Some r \<Longrightarrow> ir_reason r \<noteq> None"
  by (induction h pk as files rule: checkExtraFiles.induct)
    (auto simp: unhandled_def refusal_def split: if_splits sum.splits)

lemma integrity_ok_facts:
  assumes "ir_ok (verifyReleaseIntegrity h pk)"
  shows "scanForbiddenContent h pk = [] \<and> ir_context (verifyReleaseIntegrity h pk) = JNull"
  using assms
  by (auto simp: verifyReleaseIntegrity_def Let_def ir_ok_def unhandled_def refusal_def
      dest: checkArtifacts_refuses checkExtraFiles_refuses split: json_read.splits if_splits list.splits option.splits)

lemma writePathProbe_clean:
  assumes "\<forall>x. ch_fault h x = None" "d probe = None"
  shows "writePathProbe h q probe d = (Inr (), d)"
  using assms
  by (simp add: writePathProbe_def mkdirSync_def fsCall_def writeFileSync_def unlinkSync_def fun_upd_idem)

lemma start_after_preflight:
  assumes h: "parsesStrict h" "printsIntegers (ch_number h)" "\<forall>x. ch_fault h x = None"
    and pre: "runPreflightCheck h pkg p d = (Some rep, d')" "pf_ok rep"
    and c: "readCustodyConfig h d p = Inr c" "cc_policy_path c \<noteq> preflightLockPath p"
      "\<not> cc_simulate_write_failure c" "\<not> cc_simulate_read_failure c"
    and outside: "\<forall>q \<in> {preflightLockPath p, probePathOf (cc_receipts_path c), probePathOf (cc_log_path c)}. outsidePackage pkg q"
    and store: "rotateReceiptsIfNeeded h c stamp d' = (Inr b, d1)" "endsLine (d1 (cc_receipts_path c))"
  shows "\<exists>r d2. checkCustodyStartup h pkg d' stamp (Some c) (Some p) = (Some r, d2) \<and> su_ok r"
proof -
  let ?integrity = "verifyReleaseIntegrity h (pkg d)"
  from runPreflightCheck_ok [OF pre c(1)] obtain configHash v d0 where
    run: "hashConfig h c = Some configHash" "validateConfiguredPolicy h d0 c = Some v" "pcv_ok v" "ir_ok ?integrity"
      "d' = d0(preflightLockPath p \<mapsto> RegularFile (lockText configHash (pcv_policy_hash v)))" "pkg d0 = pkg d"
    using outside by blast
  have "pkg d' = pkg d0" using outside unfolding run(5) by (simp add: outsidePackage_def)
  then have view: "pkg d' = pkg d" using run(6) by simp
  have v: "validateConfiguredPolicy h d' c = Some v"
    using run(2) validatePolicy_disk [of d' c d0 h] c(2) by (simp add: run(5))
  obtain w where w: "policyForLockComparison h d' c = Some w" "pcv_ok w"
    using lock_comparison_ok [OF v run(3)] by blast
  have lock: "fst (validatePreflightLock h d' p configHash (pcv_policy_hash w)) = OkPreflightLock"
    using validatePreflightLock_written [OF h(1), of p d' configHash "pcv_policy_hash v"] h(3)
      lock_policy_same [OF w v run(3)]
    by (simp add: run(5))
  let ?r = "startupReady (Some ?integrity) (Some v) (Some configHash)"
  let ?durable = "codeText OkReceiptStoreDurable"
  have "plainContext (?r\<lparr>su_ok := True, su_code := ?durable, su_reason := Some ?durable\<rparr>)"
    using integrity_ok_facts [OF run(4)] by (simp add: plainContext_def startupReady_def)
  then obtain receipt where
    receipt: "buildAuditReceipt (ch_host h) (?r\<lparr>su_ok := True, su_code := ?durable, su_reason := Some ?durable\<rparr>) = Some receipt"
      "plainJson (JObj receipt)" "verifyAuditReceiptSignature (ch_host h) (JObj receipt) = Some True"
    using buildAuditReceipt_verifies by blast
  obtain d2 where appended: "appendReceiptRecord h c stamp (jsonStringify (ch_number h) (JObj receipt)) d' = (Inr (), d2)"
    "safeReadJsonLine h d2 (cc_receipts_path c) = Inr (JObj receipt)"
    using append_then_read [OF h receipt(2) store] by blast
  have probe: "writeProbeReceiptAndVerify h d' stamp c ?r = (Some (Inr (JObj receipt)), d2)"
    using receipt(1,3) appended c(3,4) by (simp add: writeProbeReceiptAndVerify_def Let_def del: codeText.simps)
  have "finishStartup h d' stamp c ?integrity configHash = (Some ?r, d2)"
    by (simp add: finishStartup_def v run(3) probe Let_def assertCustodyOnlyBehavior_def signInternally_def)
  then have "checkConfigured h d' stamp c (Some p) ?integrity = (Some ?r, d2)"
    using lock by (auto simp: checkConfigured_def run(1) w Let_def split: prod.splits)
  then show ?thesis
    using integrity_ok_facts [OF run(4)] run(4)
    by (simp add: checkCustodyStartup_def Let_def ir_ok_def startupReady_def view)
qed

text \<open>
  C23: a preflight that passes leads to a start that is allowed. On a host whose file system does not fail and whose
  \<open>JSON.parse\<close> reads strict documents, when the preflight passes, the lock and the probe files lie outside the package, the policy is not
  the lock file, the failures are not simulated, and the receipt store can be rotated and ends with a line, the start on the disk the
  preflight left is allowed. With the default configuration, which is in the package, the lock is an extra file of it and the start is
  refused (\<open>lock_in_package_refuses\<close>).
\<close>

theorem preflight_then_start:
  assumes h: "parsesStrict h" "printsIntegers (ch_number h)" "\<forall>x. ch_fault h x = None"
    and pre: "runPreflightCheck h pkg p d = (Some rep, d')" "pf_ok rep"
    and c: "readCustodyConfig h d p = Inr c" "cc_policy_path c \<noteq> preflightLockPath p"
      "\<not> cc_simulate_write_failure c" "\<not> cc_simulate_read_failure c"
    and outside: "\<forall>q \<in> {preflightLockPath p, probePathOf (cc_receipts_path c), probePathOf (cc_log_path c)}. outsidePackage pkg q"
    and store: "rotateReceiptsIfNeeded h c stamp d' = (Inr b, d1)" "endsLine (d1 (cc_receipts_path c))"
  shows "\<exists>r d2. checkCustodyStartup h pkg d' stamp (Some c) (Some p) = (Some r, d2) \<and> su_ok r"
  by (rule start_after_preflight [OF assms])

text \<open>
  C9: custody starts only on what the disk vouches for. When the start with a configuration and its lock is allowed, nothing
  forbidden is in the package, its release integrity holds, the lock beside the configuration records the hash of this very
  configuration and of the policy in force, the policy is disabled or is a document on the disk that carries a valid signature
  under the key whose id it names and has the expected hash, and the last line of the receipt store is a receipt that verifies.
\<close>

theorem custody_start_is_backed:
  assumes "checkCustodyStartup h pkg d stamp (Some c) (Some p) = (Some r, d')" and "su_ok r"
  shows "scanForbiddenContent h (pkg d) = [] \<and> ir_ok (verifyReleaseIntegrity h (pkg d)) \<and>
    (\<exists>configHash v. hashConfig h c = Some configHash \<and> su_policy r = Some v \<and>
       lockRecords h d p configHash (pcv_policy_hash v) \<and>
       (policyDisabled c v \<or> (\<exists>hash. pcv_policy_hash v = Some hash \<and> policySigned h d c hash \<and> policyPinned c hash)) \<and>
       probeReadBack h d' c)"
proof -
  from assms have run: "scanForbiddenContent h (pkg d) = []" "ir_ok (verifyReleaseIntegrity h (pkg d))"
    "checkConfigured h d stamp c (Some p) (verifyReleaseIntegrity h (pkg d)) = (Some r, d')"
    by (auto simp: checkCustodyStartup_def Let_def ir_ok_def startupFailure_def split: if_splits option.splits)
  from checkConfigured_ok [OF run(3) assms(2)] validateConfiguredPolicy_ok run(1,2) show ?thesis by blast
qed

section \<open>A concrete installation\<close>

text \<open>
  A concrete host: one-letter files hold the documents below, every digest is one zero byte, the valid signature is the byte 7.
\<close>

definition sampleLimits :: jsobject where
  "sampleLimits =
     [(jstr ''max_total_cost_usd'', JNum (IntNum 10)), (jstr ''max_gpu_count'', JNum (IntNum 1)),
      (jstr ''max_hours'', JNum (IntNum 2)), (jstr ''require_manual_approval_above_usd'', JNum (IntNum 5)),
      (jstr ''allow_auto_scale'', JBool False)]"

definition samplePolicyDocument :: "string \<Rightarrow> jsobject \<Rightarrow> jsobject" where
  "samplePolicyDocument sig limits =
     [(jstr ''schema_version'', JStr (jstr ''mnde.policy.v1'')), (jstr ''policy_version'', JStr (jstr ''v1'')),
      (jstr ''rules'', JObj limits),
      (jstr ''trust'', JObj
        [(jstr ''key_version'', JStr (jstr ''ed25519.v1'')), (jstr ''key_id'', JStr (jstr ''00'')),
         (jstr ''signing_public_key'', JStr (replicate 64 48)), (jstr ''signature'', JStr (jstr sig))])]"

definition sampleManifest :: json where
  "sampleManifest = JObj
     [(jstr ''schema_version'', JStr (jstr ''mnde.custody.manifest.v1'')), (jstr ''package_type'', JStr (jstr ''custody-only'')),
      (jstr ''artifacts'', JArr [JObj
        [(jstr ''file'', JStr (jstr ''provenance.json'')), (jstr ''sha256'', JStr (jstr ''00'')), (jstr ''bytes'', JNum (IntNum 1))]])]"

definition sampleConfigWith :: "jsobject \<Rightarrow> jsobject" where
  "sampleConfigWith pin =
     [(jstr ''schema_version'', JStr (jstr ''mnde.custody.config.v1'')), (jstr ''mode'', JStr (jstr ''custody-only'')),
      (jstr ''strict'', JBool True), (jstr ''service_name'', JStr (jstr ''MNDeCustody'')),
      (jstr ''runtime'', JObj [(jstr ''bind'', JStr (jstr ''h:80'')), (jstr ''deny_internal_signing'', JBool True),
        (jstr ''fail_on_forbidden_artifacts'', JBool True), (jstr ''health_path'', JStr (jstr ''/healthz'')),
        (jstr ''ready_path'', JStr (jstr ''/readyz''))]),
      (jstr ''logging'', JObj [(jstr ''path'', JStr (jstr ''l'')), (jstr ''runtime_log'', JStr (jstr ''l'')),
        (jstr ''install_log'', JStr (jstr ''l'')), (jstr ''verification_log'', JStr (jstr ''l'')),
        (jstr ''max_bytes'', JNum (IntNum 9)), (jstr ''max_files'', JNum (IntNum 2)),
        (jstr ''required_for_audit_integrity'', JBool True)]),
      (jstr ''receipts'', JObj [(jstr ''path'', JStr (jstr ''r'')), (jstr ''archive_path'', JStr (jstr ''a'')),
        (jstr ''rotation_mode'', JStr (jstr ''count'')), (jstr ''max_bytes'', JNum (IntNum 9)), (jstr ''max_count'', JNum (IntNum 5))]),
      (jstr ''disk'', JObj [(jstr ''min_free_bytes'', JNum (IntNum 1))]),
      (jstr ''signer'', JObj [(jstr ''timeout_ms'', JNum (IntNum 1))]),
      (jstr ''policy'', JObj ([(jstr ''mode'', JStr (jstr ''required'')), (jstr ''path'', JStr (jstr ''p''))] @ pin))]"

definition sampleConfigObject :: jsobject where
  "sampleConfigObject = sampleConfigWith [(jstr ''expected_hash'', JNull)]"

definition sampleParse :: "jsstring \<Rightarrow> jsstring + json" where
  "sampleParse t =
     (if t = jstr ''M'' then Inr sampleManifest
      else if t = jstr ''O'' then Inr (JObj [])
      else if t = jstr ''C'' then Inr (JObj sampleConfigObject)
      else if t = jstr ''D'' then Inr (JObj (sampleConfigWith []))
      else if t = jstr ''P'' then Inr (JObj (samplePolicyDocument ''07'' sampleLimits))
      else (case parseStrictJson t of ParseOk v r \<Rightarrow> Inr v | _ \<Rightarrow> Inl (jstr ''bad'')))"

definition sampleCustodyHost :: custody_host where
  "sampleCustodyHost =
     \<lparr>ch_host = testHost\<lparr>hs_sha256 := (\<lambda>bs. [0]), hs_lower := (\<lambda>t. t), hs_policyVerify := (\<lambda>k m s. Some (s = [7]))\<rparr>,
      ch_parse = sampleParse, ch_number = (\<lambda>n. case n of IntNum i \<Rightarrow> showInt i | _ \<Rightarrow> []), ch_fault = (\<lambda>c. None), ch_node_error = (\<lambda>p. ([], [])),
      ch_node_size = (\<lambda>p. 0), ch_verify_error = [], ch_type_error = [], ch_decode = map (\<lambda>b. word_of_nat (unat b)),
      ch_locale_le = (\<lambda>a b. a \<le> b)\<rparr>"

definition samplePackage :: package where
  "samplePackage =
     \<lparr>pk_root = jstr ''/p'', pk_entries = [(jstr ''provenance.json'', PkgFile [79]), (jstr ''manifest.json'', PkgFile [77])],
      pk_special = (\<lambda>p. None), pk_fault = (\<lambda>p. None)\<rparr>"

definition sampleDisk :: disk where
  "sampleDisk = [jstr ''c'' \<mapsto> RegularFile (jstr ''C''), jstr ''p'' \<mapsto> RegularFile (jstr ''P'')]"

lemma jsStartsWith_jstr [simp]: "jsStartsWith (jstr s) (jstr t) = jsStartsWith s t"
  by (induction s t rule: jsStartsWith.induct) (simp_all add: jstr_def)

lemma jsIncludes_jstr [simp]: "jsIncludes (jstr s) (jstr t) = jsIncludes s t"
proof (induction s)
  case (Cons c s)
  have "jsStartsWith (unit_of_char c # jstr s) (jstr t) = jsStartsWith (c # s) t"
    using jsStartsWith_jstr [of "c # s" t] by (simp add: jstr_def)
  with Cons show ?case by (simp add: jstr_def)
qed (simp add: jstr_def)

lemma rev_jstr: "rev (jstr s) = jstr (rev s)"
  by (simp add: jstr_def rev_map)

lemma samplePaths:
  "toSlashes (jstr ''provenance.json'') = jstr ''provenance.json''" "toSlashes (jstr ''manifest.json'') = jstr ''manifest.json''"
  "normalizeRelativePath (jstr ''provenance.json'') = jstr ''provenance.json''" "normalizeRelativePath (jstr ''manifest.json'') = jstr ''manifest.json''"
  "splitOn 47 [] (jstr ''provenance.json'') = [jstr ''provenance.json'']" "splitOn 47 [] (jstr ''manifest.json'') = [jstr ''manifest.json'']"
  by code_simp+

lemma sample_reasons:
  "forbiddenContentReasons (ch_host sampleCustodyHost) (jstr ''provenance.json'') = []"
  "forbiddenContentReasons (ch_host sampleCustodyHost) (jstr ''manifest.json'') = []"
  by (simp_all add: forbiddenContentReasons_def pathSegments_def samplePaths sampleCustodyHost_def endsWith_def rev_jstr
    forbiddenExtensions_def forbiddenNames_def forbiddenDirectories_def localConfigName_def uniqueInOrder_def)

lemma sample_texts: "list_all (\<lambda>(m, r). \<not> regexTest m None [77] \<and> \<not> regexTest m None [79]) forbiddenTextPatterns"
  by code_simp

lemma sample_walk: "walkFiles sampleCustodyHost samplePackage = [([jstr ''manifest.json''], [77]), ([jstr ''provenance.json''], [79])]"
  by code_simp

lemma sample_extra: "walkPackageFiles sampleCustodyHost samplePackage = [jstr ''provenance.json'']"
  by code_simp

lemma sample_reads:
  "safeReadJson sampleCustodyHost samplePackage (jstr ''provenance.json'') = JsonRead (JObj [])"
  "safeReadJson sampleCustodyHost samplePackage (jstr ''manifest.json'') = JsonRead sampleManifest"
  "packageNode samplePackage (jstr ''provenance.json'') = Some (PkgFile [79])"
  "hashFile sampleCustodyHost samplePackage (jstr ''provenance.json'') = Inr (jstr ''00'', 1)"
  by code_simp+

lemma sample_scan: "scanForbiddenContent sampleCustodyHost samplePackage = []"
proof -
  have "forbiddenContentTextReasons sampleCustodyHost samplePackage names bs = []" if "bs \<in> {[77], [79]}" for names bs
    using that sample_texts
    by (auto simp: forbiddenContentTextReasons_def sampleCustodyHost_def list_all_iff filter_empty_conv)
  then show ?thesis
    by (simp add: scanForbiddenContent_def sample_walk relativePackagePath_def slashPath_def samplePaths sample_reasons sortBy_def)
qed

lemma sample_integrity: "ir_ok (verifyReleaseIntegrity sampleCustodyHost samplePackage)"
  by (simp add: verifyReleaseIntegrity_def sample_reads sample_scan sampleManifest_def getProp_def manifestArtifacts_def
      nullish_def sample_extra ir_ok_def)

lemma sample_bind: "parseBind (jstr ''h:80'') = Inr (jstr ''h'', 80)"
proof -
  have parts: "splitOn 58 [] (jstr ''h:80'') = [jstr ''h'', jstr ''80'']" "decimalRatio (jstr ''80'') = Some (80, 1)"
    "jsTrim (jstr ''80'') = jstr ''80''" "radixOf (jstr ''80'') = None" "hd (jstr ''80'') \<noteq> 43"
    by code_simp+
  have "floorlog 2 80 = 7" by (simp add: compute_floorlog)
  then have "roundedRatio 80 1 = Some 80" by (simp add: roundedRatio_def Let_def)
  with parts show ?thesis by (simp add: parseBind_def portNumber_def)
qed

lemma sample_sections:
  "configSection (sampleConfigWith pin) ''policy'' = [(jstr ''mode'', JStr (jstr ''required'')), (jstr ''path'', JStr (jstr ''p''))] @ pin"
  "configSection (sampleConfigWith pin) ''disk'' = [(jstr ''min_free_bytes'', JNum (IntNum 1))]"
  "configSection (sampleConfigWith pin) ''signer'' = [(jstr ''timeout_ms'', JNum (IntNum 1))]"
  by (simp_all add: configSection_def sampleConfigWith_def)

lemma keys_listed:
  "\<forall>k \<in> fst ` set ps. k \<in> set (map jstr allowed) \<Longrightarrow> rejectConfigKeys ps allowed field = None"
proof -
  have "\<forall>k \<in> set ks. k \<in> set names \<Longrightarrow> rejectKeys ks names field = None" for ks names
    by (induction ks) auto
  then show "\<forall>k \<in> fst ` set ps. k \<in> set (map jstr allowed) \<Longrightarrow> rejectConfigKeys ps allowed field = None"
    by (simp add: rejectConfigKeys_def)
qed

lemma sample_checks:
  assumes "pin \<in> {[], [(jstr ''expected_hash'', JNull)]}"
  shows
  "list_all (\<lambda>e. e = None) (topLevelChecks (sampleConfigWith pin))"
  "list_all (\<lambda>e. e = None) (sectionKeyChecks (sampleConfigWith pin))"
  "list_all (\<lambda>e. e = None) (runtimeChecks (configSection (sampleConfigWith pin) ''runtime''))"
  "list_all (\<lambda>e. e = None) (loggingChecks (configSection (sampleConfigWith pin) ''logging''))"
  "list_all (\<lambda>e. e = None) (receiptsChecks (configSection (sampleConfigWith pin) ''receipts''))"
  "list_all (\<lambda>e. e = None) (policyChecks (ch_host sampleCustodyHost) (configSection (sampleConfigWith pin) ''policy''))"
  "requirePositiveInteger (configSection (sampleConfigWith pin) ''disk'') ''min_free_bytes'' = None"
  "requirePositiveInteger (configSection (sampleConfigWith pin) ''signer'') ''timeout_ms'' = None"
  "requireOptionalBoolean (configSection (sampleConfigWith pin) ''signer'') ''simulate_timeout'' = None"
proof -
  have trim: "jsTrim (jstr ''p'') \<noteq> []" by code_simp
  note eval = sampleConfigWith_def configSection_def requireBoolean_def requireString_def requirePositiveInteger_def
    requireOptionalBoolean_def stringField_def isSafeInteger_def maxSafe_def
  show "list_all (\<lambda>e. e = None) (topLevelChecks (sampleConfigWith pin))"
    by (simp add: topLevelChecks_def keys_listed assertObject_def eval)
  show "list_all (\<lambda>e. e = None) (sectionKeyChecks (sampleConfigWith pin))"
    using assms by (auto simp: sectionKeyChecks_def keys_listed eval)
  show "list_all (\<lambda>e. e = None) (runtimeChecks (configSection (sampleConfigWith pin) ''runtime''))"
    by (simp add: runtimeChecks_def sample_bind errorOf_def eval)
  show "list_all (\<lambda>e. e = None) (loggingChecks (configSection (sampleConfigWith pin) ''logging''))"
    by (simp add: loggingChecks_def eval)
  show "list_all (\<lambda>e. e = None) (receiptsChecks (configSection (sampleConfigWith pin) ''receipts''))"
    by (simp add: receiptsChecks_def eval)
  show "list_all (\<lambda>e. e = None) (policyChecks (ch_host sampleCustodyHost) (configSection (sampleConfigWith pin) ''policy''))"
    using assms trim by (auto simp: policyChecks_def sample_sections requireString_def stringField_def requireOptionalString_def nullish_def)
  show "requirePositiveInteger (configSection (sampleConfigWith pin) ''disk'') ''min_free_bytes'' = None"
    "requirePositiveInteger (configSection (sampleConfigWith pin) ''signer'') ''timeout_ms'' = None"
    "requireOptionalBoolean (configSection (sampleConfigWith pin) ''signer'') ''simulate_timeout'' = None"
    by (simp_all add: eval)
qed

lemma sample_not_strict: "\<forall>v r. parseStrictJson t \<noteq> ParseOk v r" if "t \<in> {jstr ''M'', jstr ''O'', jstr ''C'', jstr ''D'', jstr ''P''}"
proof -
  have "\<forall>t \<in> {jstr ''M'', jstr ''O'', jstr ''C'', jstr ''D'', jstr ''P''}. parseStrictJson t = ParseFail Invalid_json_syntax"
    by code_simp
  with that show ?thesis by (metis parse_result.distinct(1))
qed

lemma sample_parses: "parsesStrict sampleCustodyHost"
  using sample_not_strict by (auto simp: parsesStrict_def sampleCustodyHost_def sampleParse_def)

lemma sample_host [simp]:
  "ch_fault sampleCustodyHost x = None" "ch_parse sampleCustodyHost = sampleParse"
  by (simp_all add: sampleCustodyHost_def)

lemma sample_documents [simp]:
  "sampleParse (jstr ''C'') = Inr (JObj sampleConfigObject)"
  "sampleParse (jstr ''D'') = Inr (JObj (sampleConfigWith []))"
  "sampleParse (jstr ''P'') = Inr (JObj (samplePolicyDocument ''07'' sampleLimits))"
  by (simp_all add: sampleParse_def)

lemma sample_config: "readCustodyConfig sampleCustodyHost sampleDisk (jstr ''c'') = Inr (custodyConfigOf sampleConfigObject)"
proof -
  have "firstError (configChecks (ch_host sampleCustodyHost) sampleConfigObject) = None"
    unfolding firstError_None_iff configChecks_def sampleConfigObject_def using sample_checks by simp
  then show ?thesis
    by (simp add: readCustodyConfig_def readFileSync_def sampleDisk_def assertObject_def)
qed

lemma sample_shape:
  "validateActivePolicyShape (JObj (samplePolicyDocument ''07'' sampleLimits)) =
     Inr (activePolicyOf (samplePolicyDocument ''07'' sampleLimits))"
proof -
  have "isSha256Hex (replicate 64 48)" "isHexText (jstr ''07'')" by code_simp+
  then show ?thesis
    by (simp add: samplePolicyDocument_def sampleLimits_def configSection_def stringField_def numericRuleKeys_def)
qed

lemma sample_digest: "sha256Text (ch_host sampleCustodyHost) t = jstr ''00''" "deriveKeyId (ch_host sampleCustodyHost) k = jstr ''00''"
proof -
  have "hexEncode [0] = jstr ''00''" by code_simp
  then show "sha256Text (ch_host sampleCustodyHost) t = jstr ''00''" "deriveKeyId (ch_host sampleCustodyHost) k = jstr ''00''"
    by (simp_all add: sha256Text_def sha256Hex_def deriveKeyId_def sampleCustodyHost_def)
qed

lemma sample_payload: "\<exists>payload. activePolicyPayload (activePolicyOf (samplePolicyDocument ''07'' sampleLimits)) = Some payload"
  unfolding activePolicyPayload_def
  by (rule canonicalizeJson_total)
    (simp add: activePolicyOf_def samplePolicyDocument_def configSection_def sampleLimits_def isSafeInteger_def maxSafe_def Let_def)

lemma sample_policy:
  "\<exists>v. validateConfiguredPolicy sampleCustodyHost sampleDisk (custodyConfigOf sampleConfigObject) = Some v \<and> pcv_ok v \<and>
     pcv_policy_hash v = Some (jstr ''00'')"
proof -
  let ?c = "custodyConfigOf sampleConfigObject"
  let ?q = "activePolicyOf (samplePolicyDocument ''07'' sampleLimits)"
  have c: "cc_policy_mode ?c = jstr ''required''" "cc_policy_path ?c = jstr ''p''" "cc_expected_hash ?c = Some JNull"
    by (simp_all add: custodyConfigOf_def Let_def sampleConfigObject_def sample_sections stringField_def)
  obtain payload where payload: "activePolicyPayload ?q = Some payload" using sample_payload by blast
  have sig: "verifyPolicySignature (ch_host sampleCustodyHost) k payload (jstr ''07'') = Some True" for k
  proof -
    have "hexDecode (jstr ''07'') = [7]" by code_simp
    then show ?thesis by (simp add: verifyPolicySignature_def sampleCustodyHost_def)
  qed
  have q: "ap_key_id ?q = jstr ''00''" "ap_signature ?q = jstr ''07''"
    by (simp_all add: activePolicyOf_def samplePolicyDocument_def configSection_def stringField_def Let_def)
  obtain w where w: "validation sampleCustodyHost ?c OkPolicyReady (Some ?q) (Some (jstr ''00'')) (Some (jstr ''p''))
      (Some [(''policy_version'', JStr (ap_policy_version ?q))]) (Some payload) = Some w"
    using validation_total [OF c(3)] by blast
  have "validateSignedPolicy sampleCustodyHost ?c ?q payload = Some w"
    unfolding validateSignedPolicy_def Let_def sample_digest q sig c by (simp add: w)
  moreover have "pcv_ok w \<and> pcv_policy_hash w = Some (jstr ''00'')"
    using validation_fields [OF w] by (simp add: pcv_ok_def)
  moreover have "jsTrim (jstr ''p'') = jstr ''p''" by code_simp
  ultimately show ?thesis
    by (simp add: validateConfiguredPolicy_def Let_def c sampleDisk_def readFileSync_def sample_shape payload
        del: validateActivePolicyShape.simps)
qed

lemma preflight_passes:
  assumes nofault: "\<forall>x. ch_fault h x = None" and c: "readCustodyConfig h d p = Inr c" and ok: "ir_ok (verifyReleaseIntegrity h (pkg d))"
    and v: "validateConfiguredPolicy h d c = Some v" "pcv_ok v" "hashConfig h c = Some configHash" "parseBind (cc_bind c) = Inr b"
    and free: "d (probePathOf (cc_receipts_path c)) = None" "d (probePathOf (cc_log_path c)) = None"
      "d (preflightLockPath p) = None"
  shows "\<exists>rep. runPreflightCheck h pkg p d =
      (Some rep, d(preflightLockPath p \<mapsto> RegularFile (lockText configHash (pcv_policy_hash v)))) \<and> pf_ok rep \<and>
    pf_config_hash rep = Some configHash \<and> pf_policy_hash rep = pcv_policy_hash v"
proof -
  have probes: "writePathProbe h (cc_receipts_path c) (probePathOf (cc_receipts_path c)) d = (Inr (), d)"
    "writePathProbe h (cc_log_path c) (probePathOf (cc_log_path c)) d = (Inr (), d)"
    using writePathProbe_clean [OF nofault] free by blast+
  have "writeFileSync h (preflightLockPath p) t d = (Inr (), d(preflightLockPath p \<mapsto> RegularFile t))" for t
    using nofault free(3) by (simp add: writeFileSync_def fsCall_def)
  then show ?thesis
    by (simp add: runPreflightCheck_def Let_def c probes v ok entry_def pathEntry_def)
qed

definition sampleLocked :: disk where
  "sampleLocked = sampleDisk(preflightLockPath (jstr ''c'') \<mapsto> RegularFile (lockText (jstr ''00'') (Some (jstr ''00''))))"

lemma sample_preflight:
  assumes "pkg sampleDisk = samplePackage"
  shows "\<exists>rep. runPreflightCheck sampleCustodyHost pkg (jstr ''c'') sampleDisk = (Some rep, sampleLocked) \<and> pf_ok rep \<and>
     pf_config_hash rep = Some (jstr ''00'') \<and> pf_policy_hash rep = Some (jstr ''00'')"
proof -
  let ?c = "custodyConfigOf sampleConfigObject"
  have "wfJson (JObj sampleConfigObject)"
    by (simp add: sampleConfigObject_def sampleConfigWith_def isSafeInteger_def maxSafe_def)
  then have "hashConfig sampleCustodyHost ?c = Some (jstr ''00'')"
    by (simp add: hashConfig_def custodyConfigOf_def Let_def hashCanonicalJson_wf sample_digest del: wfJson.simps)
  moreover have "parseBind (cc_bind ?c) = Inr (jstr ''h'', 80)"
    by (simp add: custodyConfigOf_def Let_def sampleConfigObject_def sampleConfigWith_def configSection_def stringField_def sample_bind)
  moreover have "cc_receipts_path ?c = jstr ''r''" "cc_log_path ?c = jstr ''l''"
    by (simp_all add: custodyConfigOf_def Let_def sampleConfigObject_def sampleConfigWith_def configSection_def stringField_def)
  moreover have "sampleDisk t = None" if "1 < length t" for t
    using that by (auto simp: sampleDisk_def)
  then have "sampleDisk (probePathOf t) = None" "sampleDisk (preflightLockPath t) = None" for t
    by (simp_all add: probePathOf_def preflightLockPath_def)
  ultimately show ?thesis
    using preflight_passes [OF _ sample_config, of pkg _ "jstr ''00''"] sample_integrity sample_policy assms
    by (fastforce simp: sampleLocked_def)
qed

lemma sample_prints: "printsIntegers (ch_number sampleCustodyHost)"
  by (simp add: printsIntegers_def sampleCustodyHost_def)

lemma sample_store:
  "rotateReceiptsIfNeeded sampleCustodyHost (custodyConfigOf sampleConfigObject) stamp sampleLocked = (Inr False, sampleLocked)"
  "sampleLocked (cc_receipts_path (custodyConfigOf sampleConfigObject)) = None"
  "cc_policy_path (custodyConfigOf sampleConfigObject) \<noteq> preflightLockPath (jstr ''c'')"
  "\<not> cc_simulate_write_failure (custodyConfigOf sampleConfigObject)"
  "\<not> cc_simulate_read_failure (custodyConfigOf sampleConfigObject)"
proof -
  have "preflightLockPath (jstr ''c'') \<noteq> jstr ''r''" "preflightLockPath (jstr ''c'') \<noteq> jstr ''p''"
    by (auto simp: preflightLockPath_def jstr_append [symmetric])
  moreover have "cc_receipts_path (custodyConfigOf sampleConfigObject) = jstr ''r''"
    "cc_policy_path (custodyConfigOf sampleConfigObject) = jstr ''p''"
    by (simp_all add: custodyConfigOf_def Let_def sampleConfigObject_def sampleConfigWith_def configSection_def stringField_def)
  ultimately show "sampleLocked (cc_receipts_path (custodyConfigOf sampleConfigObject)) = None"
    "cc_policy_path (custodyConfigOf sampleConfigObject) \<noteq> preflightLockPath (jstr ''c'')"
    by (auto simp: sampleLocked_def sampleDisk_def)
  then show "rotateReceiptsIfNeeded sampleCustodyHost (custodyConfigOf sampleConfigObject) stamp sampleLocked = (Inr False, sampleLocked)"
    by (simp add: rotateReceiptsIfNeeded_def mkdirSync_def fsCall_def Let_def)
  show "\<not> cc_simulate_write_failure (custodyConfigOf sampleConfigObject)"
    "\<not> cc_simulate_read_failure (custodyConfigOf sampleConfigObject)"
    by (simp_all add: custodyConfigOf_def Let_def sampleConfigObject_def sampleConfigWith_def configSection_def trueField_def)
qed

section \<open>The properties at work\<close>

theorem preflight_lock_admits_witness:
  "\<exists>d'. fst (validatePreflightLock sampleCustodyHost d' (jstr ''c'') (jstr ''00'') (Some (jstr ''00''))) = OkPreflightLock \<and>
     fst (validatePreflightLock sampleCustodyHost d' (jstr ''c'') (jstr ''01'') (Some (jstr ''00''))) = ErrPreflightConfigMismatch \<and>
     fst (validatePreflightLock sampleCustodyHost d' (jstr ''c'') (jstr ''00'') None) = ErrPreflightPolicyMismatch"
proof -
  obtain rep where rep: "runPreflightCheck sampleCustodyHost (\<lambda>d. samplePackage) (jstr ''c'') sampleDisk = (Some rep, sampleLocked)"
    "pf_ok rep" "pf_config_hash rep = Some (jstr ''00'')" "pf_policy_hash rep = Some (jstr ''00'')"
    using sample_preflight [of "\<lambda>d. samplePackage"] by blast
  show ?thesis
    using preflight_lock_admits [OF sample_parses _ rep(1,2)] rep(3,4) by (intro exI [of _ sampleLocked]) simp
qed

theorem custody_config_bounds_witness:
  "\<exists>c. readCustodyConfig sampleCustodyHost sampleDisk (jstr ''c'') = Inr c \<and> cc_rotation_mode c \<in> {jstr ''size'', jstr ''count''} \<and>
     cc_policy_mode c \<in> {jstr ''required'', jstr ''disabled''}"
  using custody_config_bounds [OF sample_config] sample_config by auto

theorem preflight_then_start_witness:
  "\<exists>r d2. checkCustodyStartup sampleCustodyHost (\<lambda>d. samplePackage) sampleLocked (jstr ''now'')
     (Some (custodyConfigOf sampleConfigObject)) (Some (jstr ''c'')) = (Some r, d2) \<and> su_ok r"
proof -
  obtain rep where rep: "runPreflightCheck sampleCustodyHost (\<lambda>d. samplePackage) (jstr ''c'') sampleDisk = (Some rep, sampleLocked)" "pf_ok rep"
    using sample_preflight [of "\<lambda>d. samplePackage"] by blast
  show ?thesis
    by (rule preflight_then_start [OF sample_parses sample_prints _ rep sample_config sample_store(3-5) _ sample_store(1)])
      (simp_all add: sample_store(2) endsLine_def outsidePackage_def)
qed

theorem custody_start_is_backed_witness:
  "\<exists>r d2. checkCustodyStartup sampleCustodyHost (\<lambda>d. samplePackage) sampleLocked (jstr ''now'')
     (Some (custodyConfigOf sampleConfigObject)) (Some (jstr ''c'')) = (Some r, d2) \<and>
   (\<exists>hash v. hashConfig sampleCustodyHost (custodyConfigOf sampleConfigObject) = Some hash \<and> su_policy r = Some v \<and>
      lockRecords sampleCustodyHost sampleLocked (jstr ''c'') hash (pcv_policy_hash v)) \<and>
   probeReadBack sampleCustodyHost d2 (custodyConfigOf sampleConfigObject)"
proof -
  obtain rep where rep: "runPreflightCheck sampleCustodyHost (\<lambda>d. samplePackage) (jstr ''c'') sampleDisk = (Some rep, sampleLocked)" "pf_ok rep"
    using sample_preflight [of "\<lambda>d. samplePackage"] by blast
  have "\<exists>r d2. checkCustodyStartup sampleCustodyHost (\<lambda>d. samplePackage) sampleLocked (jstr ''now'')
     (Some (custodyConfigOf sampleConfigObject)) (Some (jstr ''c'')) = (Some r, d2) \<and> su_ok r"
    by (rule start_after_preflight [OF sample_parses sample_prints _ rep sample_config sample_store(3-5) _ sample_store(1)])
      (simp_all add: sample_store(2) endsLine_def outsidePackage_def)
  then obtain r d2 where start: "checkCustodyStartup sampleCustodyHost (\<lambda>d. samplePackage) sampleLocked (jstr ''now'')
     (Some (custodyConfigOf sampleConfigObject)) (Some (jstr ''c'')) = (Some r, d2)" "su_ok r"
    by blast
  from custody_start_is_backed [OF this] start(1) show ?thesis by blast
qed

end
