(* ===== verification/CustodyService.thy ===== *)
theory CustodyService
  imports CustodyStart
begin

text \<open>
  The rotation of the logs, the health of the running service, the signature of the audit receipts, and a configuration that is
  accepted but cannot be used.
\<close>

section \<open>Log rotation\<close>

lemma numbered_eq_iff [simp]: "numbered p a = numbered p b \<longleftrightarrow> a = b"
  by (metis digitsValue_showNat numbered_def same_append_eq)

lemma numbered_neq [simp]: "numbered p a \<noteq> p" "p \<noteq> numbered p a"
  by (simp_all add: numbered_def)

lemma renameSync_ok:
  "\<forall>x. ch_fault h x = None \<Longrightarrow> d p = Some n \<Longrightarrow> renameSync h p q d = (Inr (), (d(p := None))(q \<mapsto> n))"
  by (simp add: renameSync_def fsCall_def)

lemma shiftArchives_shifts:
  assumes "\<forall>x. ch_fault h x = None" and "d (numbered p (Suc i)) = None"
  shows "\<exists>d'. shiftArchives h p i d = (Inr (), d') \<and> d' p = d p \<and> (0 < i \<longrightarrow> d' (numbered p 1) = None) \<and>
    (\<forall>k. 1 \<le> k \<and> k \<le> i \<longrightarrow> d' (numbered p (k + 1)) = d (numbered p k)) \<and>
    (\<forall>k. Suc i < k \<longrightarrow> d' (numbered p k) = d (numbered p k))"
  using assms(2)
proof (induction i arbitrary: d)
  case (Suc i)
  define d1 where "d1 = (if d (numbered p (Suc i)) \<noteq> None
    then (d(numbered p (Suc i) := None))(numbered p (Suc i + 1) := d (numbered p (Suc i))) else d)"
  have step: "shiftArchives h p (Suc i) d = shiftArchives h p i d1"
    using renameSync_ok [OF assms(1)] by (auto simp: d1_def)
  have facts: "d1 (numbered p (Suc i)) = None" "d1 p = d p" "d1 (numbered p (Suc (Suc i))) = d (numbered p (Suc i))"
    "k \<noteq> Suc i \<Longrightarrow> k \<noteq> Suc (Suc i) \<Longrightarrow> d1 (numbered p k) = d (numbered p k)" for k
    using Suc.prems by (auto simp: d1_def)
  from Suc.IH [of d1, OF facts(1)] obtain d' where d': "shiftArchives h p i d1 = (Inr (), d')" "d' p = d1 p"
    "0 < i \<longrightarrow> d' (numbered p 1) = None" "\<forall>k. 1 \<le> k \<and> k \<le> i \<longrightarrow> d' (numbered p (k + 1)) = d1 (numbered p k)"
    "\<forall>k. Suc i < k \<longrightarrow> d' (numbered p k) = d1 (numbered p k)"
    by blast
  have first: "d' (numbered p 1) = None"
  proof (cases "i = 0")
    case True
    then have "d' = d1" using d'(1) by simp
    with facts(1) True show ?thesis by simp
  qed (use d'(3) in simp)
  have "d' (numbered p (k + 1)) = d (numbered p k)" if "1 \<le> k" "k \<le> Suc i" for k
  proof (cases "k = Suc i")
    case True
    then show ?thesis using d'(5) facts(3) by simp
  next
    case False
    then show ?thesis using d'(4) facts(4) [of k] that by simp
  qed
  moreover have "d' (numbered p k) = d (numbered p k)" if "Suc (Suc i) < k" for k
    using d'(5) facts(4) [of k] that by simp
  ultimately show ?case using step d'(1,2) facts(2) first by auto
qed simp

text \<open>
  C29: a log rotation shifts the archives by one. When a log has reached its size and the file system does not fail, the log becomes
  the first archive, archive \<open>k\<close> becomes archive \<open>k + 1\<close> up to the configured number, a missing archive stays missing one further
  on, the oldest is dropped, and no log is left in place.
\<close>

theorem rotateFile_shifts:
  assumes "\<forall>x. ch_fault h x = None" and "d p = Some node" and "maxBytes \<le> int (nodeSize h p node)" and "maxFiles = int n" and "0 < n"
    and "d (numbered p n) \<noteq> Some OtherNode"
  shows "\<exists>d'. rotateFile h p maxBytes maxFiles d = (Inr True, d') \<and> d' p = None \<and> d' (numbered p 1) = Some node \<and>
    (\<forall>k. 1 \<le> k \<and> k < n \<longrightarrow> d' (numbered p (k + 1)) = d (numbered p k)) \<and>
    (\<forall>k. n < k \<longrightarrow> d' (numbered p k) = d (numbered p k))"
proof -
  obtain i where n: "n = Suc i" using assms(5) by (cases n) auto
  define d0 where "d0 = d(numbered p n := None)"
  have dropped: "(if d (numbered p n) \<noteq> None then unlinkSync h (numbered p n) d else (Inr (), d)) = (Inr (), d0)"
    using assms(1,6) by (cases "d (numbered p n)"; cases "the (d (numbered p n))")
      (auto simp: unlinkSync_def fsCall_def d0_def fun_upd_idem)
  have "d0 (numbered p (Suc i)) = None" by (simp add: d0_def n)
  from shiftArchives_shifts [OF assms(1), of d0 p i, OF this] obtain d1 where d1: "shiftArchives h p i d0 = (Inr (), d1)" "d1 p = d0 p"
    "\<forall>k. 1 \<le> k \<and> k \<le> i \<longrightarrow> d1 (numbered p (k + 1)) = d0 (numbered p k)"
    "\<forall>k. Suc i < k \<longrightarrow> d1 (numbered p k) = d0 (numbered p k)"
    by blast
  define d2 where "d2 = (d1(p := None))(numbered p 1 \<mapsto> node)"
  have "d1 p = Some node" using d1(2) assms(2) by (simp add: d0_def)
  from renameSync_ok [OF assms(1), of d1 p node, OF this] have last: "renameSync h p (numbered p 1) d1 = (Inr (), d2)"
    by (simp add: d2_def)
  have m: "nat maxFiles = n" "\<not> maxFiles \<le> 0" "n - 1 = i" using assms(4,5) n by auto
  have "rotateFile h p maxBytes maxFiles d = (Inr True, d2)"
    unfolding rotateFile_def Let_def m(1) m(3)
    using assms(1-3) dropped d1(1) last m(2) by (simp add: mkdirSync_def fsCall_def sizeSync_def)
  moreover have "d2 (numbered p (k + 1)) = d (numbered p k)" if "1 \<le> k" "k < n" for k
    using d1(3) that n by (simp add: d2_def d0_def)
  moreover have "d2 (numbered p k) = d (numbered p k)" if "n < k" for k
    using d1(4) that n by (simp add: d2_def d0_def)
  moreover have "d2 p = None" "d2 (numbered p 1) = Some node" by (simp_all add: d2_def)
  ultimately show ?thesis by blast
qed

theorem rotateFile_shifts_witness:
  "\<exists>d'. rotateFile sampleCustodyHost (jstr ''l'') 2 2
      [jstr ''l'' \<mapsto> RegularFile (jstr ''new''), numbered (jstr ''l'') 1 \<mapsto> RegularFile (jstr ''old''),
       numbered (jstr ''l'') 2 \<mapsto> RegularFile (jstr ''oldest'')] = (Inr True, d') \<and>
    d' (jstr ''l'') = None \<and> d' (numbered (jstr ''l'') 1) = Some (RegularFile (jstr ''new'')) \<and>
    d' (numbered (jstr ''l'') 2) = Some (RegularFile (jstr ''old''))"
proof -
  let ?d = "[jstr ''l'' \<mapsto> RegularFile (jstr ''new''), numbered (jstr ''l'') 1 \<mapsto> RegularFile (jstr ''old''),
       numbered (jstr ''l'') 2 \<mapsto> RegularFile (jstr ''oldest'')]"
  have size: "nodeSize sampleCustodyHost (jstr ''l'') (RegularFile (jstr ''new'')) = 3" by code_simp
  have "\<exists>d'. rotateFile sampleCustodyHost (jstr ''l'') 2 2 ?d = (Inr True, d') \<and> d' (jstr ''l'') = None \<and>
    d' (numbered (jstr ''l'') 1) = Some (RegularFile (jstr ''new'')) \<and>
    (\<forall>k. 1 \<le> k \<and> k < 2 \<longrightarrow> d' (numbered (jstr ''l'') (k + 1)) = ?d (numbered (jstr ''l'') k)) \<and>
    (\<forall>k. 2 < k \<longrightarrow> d' (numbered (jstr ''l'') k) = ?d (numbered (jstr ''l'') k))"
    by (rule rotateFile_shifts) (simp_all add: size)
  then obtain d' where d': "rotateFile sampleCustodyHost (jstr ''l'') 2 2 ?d = (Inr True, d')" "d' (jstr ''l'') = None"
    "d' (numbered (jstr ''l'') 1) = Some (RegularFile (jstr ''new''))"
    "\<forall>k. 1 \<le> k \<and> k < 2 \<longrightarrow> d' (numbered (jstr ''l'') (k + 1)) = ?d (numbered (jstr ''l'') k)"
    by blast
  from d'(4) [rule_format, of 1] have "d' (numbered (jstr ''l'') 2) = Some (RegularFile (jstr ''old''))"
    by (simp del: One_nat_def)
  with d'(1-3) show ?thesis by blast
qed

section \<open>The health of the service\<close>

fun serveAll :: "custody_service \<Rightarrow> (jsnum \<times> jsstring \<times> jsstring) list \<Rightarrow> (nat \<times> health_answer) list" where
  "serveAll s [] = []"
| "serveAll s ((free, verb, pathname) # requests) =
     (let (reply, s1) = serveHealth s free verb pathname in reply # serveAll s1 requests)"

definition probesHealth :: "custody_service \<Rightarrow> jsstring \<Rightarrow> jsstring \<Rightarrow> bool" where
  "probesHealth s verb pathname \<longleftrightarrow>
     verb = jstr ''GET'' \<and> pathname \<in> {cc_health_path (cu_config s), cc_ready_path (cu_config s)}"

lemma serveHealth_latch:
  assumes "serveHealth s free verb pathname = (reply, s1)"
  shows "\<not> cs_ok (cu_receipt_status s) \<or> (probesHealth s verb pathname \<and> \<not> checkDiskStatus (cu_config s) free) \<Longrightarrow>
      \<not> cs_ok (cu_receipt_status s1)"
    and "\<not> cs_ok (cu_receipt_status s) \<Longrightarrow> reply \<noteq> (200, ReadyBody health a b)"
  using assms
  by (auto simp: serveHealth_def currentHealth_def buildHealthState_def probesHealth_def Let_def split: if_splits)

lemma serveAll_latched:
  "\<not> cs_ok (cu_receipt_status s) \<Longrightarrow> (200, ReadyBody health a b) \<notin> set (serveAll s requests)"
proof (induction s requests rule: serveAll.induct)
  case (2 s free verb pathname requests)
  obtain reply s1 where run: "serveHealth s free verb pathname = (reply, s1)" by (cases "serveHealth s free verb pathname")
  from serveHealth_latch [OF run] 2 run show ?case by auto
qed simp

text \<open>
  C36: a service that has once been short of disk space is never ready again. After one health or readiness probe that finds too
  little free space, no later readiness probe is answered with 200, however much space is free by then.
\<close>

theorem disk_low_never_recovers:
  assumes "serveHealth s free verb pathname = (reply, s1)" and "probesHealth s verb pathname"
    and "\<not> checkDiskStatus (cu_config s) free"
  shows "(200, ReadyBody health a b) \<notin> set (serveAll s1 requests)"
  using serveHealth_latch(1) [OF assms(1)] assms(2,3) serveAll_latched by blast

definition sampleService :: custody_service where
  "sampleService =
     \<lparr>cu_config = custodyConfigOf sampleConfigObject,
      cu_policy = \<lparr>pcv_code = OkPolicyDisabled, pcv_policy = None, pcv_policy_hash = None, pcv_path = None, pcv_details = JNull,
        pcv_validation_hash = []\<rparr>,
      cu_log_status = \<lparr>cs_ok = True, cs_code = []\<rparr>, cu_receipt_status = \<lparr>cs_ok = True, cs_code = []\<rparr>,
      cu_signer_status = \<lparr>cs_ok = True, cs_code = []\<rparr>\<rparr>"

theorem disk_low_never_recovers_witness:
  "\<exists>s1. snd (serveHealth sampleService (IntNum 0) (jstr ''GET'') (jstr ''/healthz'')) = s1 \<and>
    (\<forall>health a b. (200, ReadyBody health a b) \<notin> set (serveAll s1 [(IntNum 5, jstr ''GET'', jstr ''/readyz'')])) \<and>
    (\<exists>health a b. (200, ReadyBody health a b) \<in> set (serveAll sampleService [(IntNum 5, jstr ''GET'', jstr ''/readyz'')]))"
proof -
  have c: "cc_health_path (cu_config sampleService) = jstr ''/healthz''" "cc_ready_path (cu_config sampleService) = jstr ''/readyz''"
    "cc_min_free_bytes (cu_config sampleService) = 1" "cc_simulated_free_bytes (cu_config sampleService) = None"
    "\<not> cc_simulate_timeout (cu_config sampleService)"
    by (simp_all add: sampleService_def custodyConfigOf_def Let_def sampleConfigObject_def sampleConfigWith_def configSection_def stringField_def
        integerField_def trueField_def)
  obtain reply s1 where run: "serveHealth sampleService (IntNum 0) (jstr ''GET'') (jstr ''/healthz'') = (reply, s1)"
    by (cases "serveHealth sampleService (IntNum 0) (jstr ''GET'') (jstr ''/healthz'')")
  have "probesHealth sampleService (jstr ''GET'') (jstr ''/healthz'')" "\<not> checkDiskStatus (cu_config sampleService) (IntNum 0)"
    by (simp_all add: probesHealth_def checkDiskStatus_def freeBytes_def c)
  from disk_low_never_recovers [OF run this]
  have "(200, ReadyBody health a b) \<notin> set (serveAll s1 [(IntNum 5, jstr ''GET'', jstr ''/readyz'')])" for health a b .
  moreover have "\<exists>health a b. (200, ReadyBody health a b) \<in> set (serveAll sampleService [(IntNum 5, jstr ''GET'', jstr ''/readyz'')])"
    by (simp add: serveHealth_def currentHealth_def buildHealthState_def checkDiskStatus_def freeBytes_def c Let_def)
      (simp add: sampleService_def)
  ultimately show ?thesis using run by auto
qed

section \<open>The signature of the audit receipts\<close>

definition signedWith :: "jsobject \<Rightarrow> jsstring \<Rightarrow> json" where
  "signedWith ps t = JObj (ps @ [(jstr ''signature'', JObj [(jstr ''algorithm'', JStr (jstr ''SHA256'')), (jstr ''value'', JStr t)])])"

definition unsigned :: "jsobject \<Rightarrow> bool" where
  "unsigned ps \<longleftrightarrow> wfJson (JObj ps) \<and> jstr ''signature'' \<notin> fst ` set ps \<and> jstr ''receipt_hash'' \<notin> fst ` set ps"

lemma verify_signedWith:
  assumes "unsigned ps"
  shows "verifyAuditReceiptSignature h (signedWith ps t) = Some (t = sha256Text h (canonicalText (JObj ps)))"
proof -
  have "unsignedFields ps = ps"
    using assms by (force simp: unsigned_def unsignedFields_def filter_id_conv)
  then have "unsignedFields (ps @ [(jstr ''signature'', v)]) = ps" for v by (simp add: unsignedFields_def)
  moreover have "map_of (ps @ [(jstr ''signature'', v)]) (jstr ''signature'') = Some v" for v
    using assms by (simp add: unsigned_def map_of_eq_None_iff [symmetric] map_add_def)
  ultimately show ?thesis
    using assms by (simp add: signedWith_def hashCanonicalJson_wf unsigned_def del: wfJson.simps)
qed

text \<open>
  C34: the signature of a startup receipt binds its content but not its author. Whatever fields it has, exactly one value makes
  the signature of a receipt verify, and it is computed without any key; so a receipt that nobody issued, naming the policy in
  force, is replayed as valid. A value that verifies for two receipts means that they have the same fields, unless SHA-256 has a collision.
\<close>

theorem audit_signature_keyless:
  assumes "unsigned ps" and "unsigned qs"
    and "firstOf [map_of ps (jstr ''policy_hash'')] = nullOr hash" and "firstOf [map_of ps (jstr ''policy_path'')] = nullOr path"
  shows "(\<exists>!t. verifyAuditReceiptSignature (ch_host h) (signedWith ps t) = Some True) \<and>
    (\<exists>t. replayStartupReceipt h d (signedWith ps t) c (Some (hash, path)) = Some OkReceiptReplay) \<and>
    (\<forall>t. verifyAuditReceiptSignature (ch_host h) (signedWith ps t) = Some True \<longrightarrow>
       verifyAuditReceiptSignature (ch_host h) (signedWith qs t) = Some True \<longrightarrow>
       normJson (JObj ps) = normJson (JObj qs) \<or> sha256Collision (ch_host h))"
proof (intro conjI allI impI)
  show "\<exists>!t. verifyAuditReceiptSignature (ch_host h) (signedWith ps t) = Some True"
    by (simp add: verify_signedWith [OF assms(1)])
  have field: "getProp (Some (signedWith ps t)) k = map_of ps (jstr k)" if "k \<noteq> ''signature''" for k t
    using that by (simp add: signedWith_def getProp_def map_add_def split: option.splits)
  let ?t = "sha256Text (ch_host h) (canonicalText (JObj ps))"
  have "replayStartupReceipt h d (signedWith ps ?t) c (Some (hash, path)) = Some OkReceiptReplay"
    using assms(3,4) by (simp add: replayStartupReceipt_def verify_signedWith [OF assms(1)] field)
  then show "\<exists>t. replayStartupReceipt h d (signedWith ps t) c (Some (hash, path)) = Some OkReceiptReplay" by blast
next
  fix t
  assume "verifyAuditReceiptSignature (ch_host h) (signedWith ps t) = Some True"
    "verifyAuditReceiptSignature (ch_host h) (signedWith qs t) = Some True"
  then have "sha256Text (ch_host h) (canonicalText (JObj ps)) = sha256Text (ch_host h) (canonicalText (JObj qs))"
    by (simp add: verify_signedWith assms(1,2))
  then show "normJson (JObj ps) = normJson (JObj qs) \<or> sha256Collision (ch_host h)"
    using assms(1,2) sha256Text_eqD wellFormed_canonicalText canonicalText_eq_iff unfolding unsigned_def by metis
qed

theorem audit_signature_keyless_witness:
  "\<exists>t. replayStartupReceipt sampleCustodyHost sampleDisk (signedWith [(jstr ''decision'', JStr (jstr ''ALLOW''))] t)
     (custodyConfigOf sampleConfigObject) (Some (None, None)) = Some OkReceiptReplay"
  using audit_signature_keyless [of "[(jstr ''decision'', JStr (jstr ''ALLOW''))]" "[(jstr ''decision'', JStr (jstr ''ALLOW''))]" None None
      sampleCustodyHost sampleDisk "custodyConfigOf sampleConfigObject"]
  by (simp add: unsigned_def nullish_def nullOr_def)

section \<open>An expected hash that is left out\<close>

lemma validateConfiguredPolicy_raises: "cc_expected_hash c = None \<Longrightarrow> validateConfiguredPolicy h d c = None"
  by (simp add: validateConfiguredPolicy_def Let_def validation_raises validateSignedPolicy_def bind_eq_None_conv
      split: option.splits sum.splits bool.splits)

text \<open>
  C35: a configuration without \<open>expected_hash\<close> is accepted and then crashes the preflight. The reader takes a missing expected hash
  for null, but the validation of the policy serializes the field as it is, which raises for every policy and every disk: the
  preflight never returns a report, and no start with such a configuration is allowed.
\<close>

theorem omitted_expected_hash_raises:
  assumes "readCustodyConfig h d p = Inr c" and "cc_expected_hash c = None"
  shows "fst (runPreflightCheck h pkg p d) = None \<and>
    (\<forall>d stamp q r. fst (checkCustodyStartup h pkg d stamp (Some c) q) = Some r \<longrightarrow> \<not> su_ok r)"
proof (intro conjI allI impI)
  show "fst (runPreflightCheck h pkg p d) = None"
    using assms by (simp add: runPreflightCheck_def Let_def validateConfiguredPolicy_raises split: prod.splits)
next
  fix d stamp q r
  have "finishStartup h d stamp c integrity configHash = (None, d)" for integrity configHash
    by (simp add: finishStartup_def validateConfiguredPolicy_raises [OF assms(2)])
  moreover assume "fst (checkCustodyStartup h pkg d stamp (Some c) q) = Some r"
  ultimately show "\<not> su_ok r"
    by (auto simp: checkCustodyStartup_def checkConfigured_def startupFailure_def Let_def
        validateConfiguredPolicy_raises [OF assms(2)] split: if_splits option.splits prod.splits)
qed

theorem omitted_expected_hash_raises_witness:
  "\<exists>c. readCustodyConfig sampleCustodyHost [jstr ''d'' \<mapsto> RegularFile (jstr ''D'')] (jstr ''d'') = Inr c \<and>
     fst (runPreflightCheck sampleCustodyHost (\<lambda>d. samplePackage) (jstr ''d'') [jstr ''d'' \<mapsto> RegularFile (jstr ''D'')]) = None"
proof -
  have "firstError (configChecks (ch_host sampleCustodyHost) (sampleConfigWith [])) = None"
    unfolding firstError_None_iff configChecks_def using sample_checks [of "[]"] by simp
  then have c: "readCustodyConfig sampleCustodyHost [jstr ''d'' \<mapsto> RegularFile (jstr ''D'')] (jstr ''d'') =
      Inr (custodyConfigOf (sampleConfigWith []))"
    by (simp add: readCustodyConfig_def readFileSync_def assertObject_def)
  have "cc_expected_hash (custodyConfigOf (sampleConfigWith [])) = None"
    by (simp add: custodyConfigOf_def Let_def sample_sections)
  from omitted_expected_hash_raises [OF c this] c show ?thesis by blast
qed

end
