(* ===== verification/ReleaseProps.thy ===== *)
theory ReleaseProps
  imports CustodyStart
begin

text \<open>
  What a package that passes the integrity check contains: the walk finds exactly the files of the tree, and every one of them
  is in the manifest with its own digest and size.
\<close>

section \<open>The walk\<close>

lemma set_insertBy [simp]: "set (insertBy le x xs) = insert x (set xs)"
  by (induction xs) auto

lemma set_sortBy [simp]: "set (sortBy le xs) = set xs"
proof -
  have "set (foldr (insertBy le) xs []) = set xs" by (induction xs) auto
  then show ?thesis by (simp add: sortBy_def)
qed

text \<open>Names are not empty, hold no slash or backslash and are not dots; those of a directory differ.\<close>

definition plainName :: "jsstring \<Rightarrow> bool" where
  "plainName n \<longleftrightarrow> n \<noteq> [] \<and> 47 \<notin> set n \<and> 92 \<notin> set n \<and> n \<noteq> [46] \<and> n \<noteq> [46, 46]"

fun plainTree :: "pkg_entry \<Rightarrow> bool" where
  "plainTree (PkgDir es) \<longleftrightarrow> distinct (map fst es) \<and> (\<forall>(n, e) \<in> set es. plainName n \<and> plainTree e)"
| "plainTree e \<longleftrightarrow> True"

lemma plainTree_child: "plainTree (PkgDir es) \<Longrightarrow> (n, e) \<in> set es \<Longrightarrow> plainTree e"
  by auto

lemma set_filesIn: "x \<in> set (filesIn here es) \<longleftrightarrow> (\<exists>n bs. (n, PkgFile bs) \<in> set es \<and> x = (here @ [n], bs))"
  by (induction here es rule: filesIn.induct) auto

lemma set_dirsIn: "x \<in> set (dirsIn here es) \<longleftrightarrow> (\<exists>n ds. (n, PkgDir ds) \<in> set es \<and> x = (here @ [n], ds))"
  by (induction here es rule: dirsIn.induct) auto

definition holdsFile :: "(jsstring list \<times> pkg_dir) \<Rightarrow> jsstring list \<times> byte list \<Rightarrow> bool" where
  "holdsFile d x \<longleftrightarrow> (\<exists>names. fst x = fst d @ names \<and> lookupNames (PkgDir (snd d)) names = Some (PkgFile (snd x)))"

lemma lookup_file_step:
  assumes "distinct (map fst es)"
  shows "lookupNames (PkgDir es) names = Some (PkgFile bs) \<longleftrightarrow>
    (\<exists>n. names = [n] \<and> (n, PkgFile bs) \<in> set es) \<or>
    (\<exists>n ds ns. names = n # ns \<and> (n, PkgDir ds) \<in> set es \<and> lookupNames (PkgDir ds) ns = Some (PkgFile bs))"
proof (cases names)
  case (Cons n ns)
  show ?thesis
  proof (cases "map_of es n")
    case None
    then have "(n, e) \<notin> set es" for e by (metis map_of_eq_None_iff fst_conv image_eqI)
    with Cons None show ?thesis by simp
  next
    case (Some e)
    with assms have "(n, e') \<in> set es \<longleftrightarrow> e' = e" for e' by (metis map_of_is_SomeI map_of_SomeD option.inject)
    with Cons Some show ?thesis by (cases e; cases ns) auto
  qed
qed simp

lemma holds_below:
  "(\<exists>d \<in> set (dirsIn here es). holdsFile d (path, bs)) \<longleftrightarrow>
     (\<exists>n ds ns. (n, PkgDir ds) \<in> set es \<and> path = here @ n # ns \<and> lookupNames (PkgDir ds) ns = Some (PkgFile bs))"
proof
  assume "\<exists>d \<in> set (dirsIn here es). holdsFile d (path, bs)"
  then show "\<exists>n ds ns. (n, PkgDir ds) \<in> set es \<and> path = here @ n # ns \<and> lookupNames (PkgDir ds) ns = Some (PkgFile bs)"
    by (auto simp: set_dirsIn holdsFile_def) blast
next
  assume "\<exists>n ds ns. (n, PkgDir ds) \<in> set es \<and> path = here @ n # ns \<and> lookupNames (PkgDir ds) ns = Some (PkgFile bs)"
  then obtain n ds ns where d: "(n, PkgDir ds) \<in> set es" "path = here @ n # ns" "lookupNames (PkgDir ds) ns = Some (PkgFile bs)"
    by blast
  then have "(here @ [n], ds) \<in> set (dirsIn here es)" "holdsFile (here @ [n], ds) (path, bs)"
    by (auto simp: set_dirsIn holdsFile_def)
  then show "\<exists>d \<in> set (dirsIn here es). holdsFile d (path, bs)" by blast
qed

lemma holdsFile_step:
  assumes "plainTree (PkgDir es)"
  shows "holdsFile (here, es) x \<longleftrightarrow> x \<in> set (filesIn here es) \<or> (\<exists>d \<in> set (dirsIn here es). holdsFile d x)"
proof -
  obtain path bs where x: "x = (path, bs)" by (cases x)
  have "holdsFile (here, es) x \<longleftrightarrow> (\<exists>names. path = here @ names \<and>
      ((\<exists>n. names = [n] \<and> (n, PkgFile bs) \<in> set es) \<or>
       (\<exists>n ds ns. names = n # ns \<and> (n, PkgDir ds) \<in> set es \<and> lookupNames (PkgDir ds) ns = Some (PkgFile bs))))"
    using assms by (simp add: holdsFile_def x lookup_file_step)
  also have "\<dots> \<longleftrightarrow> x \<in> set (filesIn here es) \<or> (\<exists>d \<in> set (dirsIn here es). holdsFile d x)"
    unfolding x holds_below set_filesIn by blast
  finally show ?thesis .
qed

lemma walkLoop_complete:
  "\<forall>d \<in> set q. plainTree (PkgDir (snd d)) \<Longrightarrow> x \<in> set (walkLoop q) \<longleftrightarrow> (\<exists>d \<in> set q. holdsFile d x)"
proof (induction q rule: walkLoop.induct)
  case (2 here es queue)
  have "plainTree (PkgDir ds)" if "(p, ds) \<in> set (dirsIn here es)" for p ds
    using 2(2) that by (auto simp: set_dirsIn simp del: plainTree.simps dest: plainTree_child)
  then have "\<forall>d \<in> set (rev (dirsIn here es) @ queue). plainTree (PkgDir (snd d))"
    using 2(2) by (auto simp del: plainTree.simps)
  from 2(1) [OF this] show ?case
    using holdsFile_step [of es here x] 2(2) by (auto simp del: plainTree.simps)
qed simp

lemma walkFiles_exact:
  assumes "plainTree (PkgDir (pk_entries pk))"
  shows "(names, bs) \<in> set (walkFiles h pk) \<longleftrightarrow> lookupNames (PkgDir (pk_entries pk)) names = Some (PkgFile bs)"
  using walkLoop_complete [of "[([], pk_entries pk)]" "(names, bs)"] assms by (simp add: walkFiles_def holdsFile_def)

section \<open>Paths\<close>

lemma splitOn_join:
  "\<forall>n \<in> set (m # ns). sep \<notin> set n \<Longrightarrow> splitOn sep acc (joinWith [sep] (m # ns)) = (rev acc @ m) # ns"
proof (induction ns arbitrary: m acc)
  case Nil
  then have "sep \<notin> set m" by simp
  then show ?case by (induction m arbitrary: acc) auto
next
  case (Cons k ns)
  have "splitOn sep acc (m @ sep # r) = (rev acc @ m) # splitOn sep [] r" for r
    using Cons.prems by (induction m arbitrary: acc) auto
  with Cons.IH [of k "[]"] Cons.prems show ?case by simp
qed

lemma normalize_plain: "\<forall>n \<in> set ns. plainName n \<Longrightarrow> normalizeNames acc ns = Some (rev acc @ ns)"
  by (induction ns arbitrary: acc) (auto simp: plainName_def)

lemma lookup_plain:
  "plainTree e \<Longrightarrow> lookupNames e names = Some (PkgFile bs) \<Longrightarrow> \<forall>n \<in> set names. plainName n"
proof (induction e names rule: lookupNames.induct)
  case (2 es n ns)
  then obtain e where e: "map_of es n = Some e" by (auto split: option.splits)
  then have "(n, e) \<in> set es" by (rule map_of_SomeD)
  with 2 e show ?case by auto
qed auto

lemma packageNode_file:
  assumes "plainTree (PkgDir (pk_entries pk))" "lookupNames (PkgDir (pk_entries pk)) names = Some (PkgFile bs)"
  shows "packageNode pk (slashPath names) = Some (PkgFile bs)" "relativePackagePath names = slashPath names"
proof -
  have plain: "\<forall>n \<in> set names. plainName n" by (rule lookup_plain [OF assms])
  obtain m ns where names: "names = m # ns" using assms(2) by (cases names) auto
  have "splitOn 47 [] (slashPath names) = names"
    using splitOn_join [of m ns 47 "[]"] plain by (simp add: slashPath_def names plainName_def)
  then show "packageNode pk (slashPath names) = Some (PkgFile bs)"
    using normalize_plain [OF plain, of "[]"] assms(2) by (simp add: packageNode_def)
  have "92 \<notin> set (slashPath names)"
    using plain unit_in_join [of 92 "[47]" names] by (auto simp: slashPath_def plainName_def)
  then show "relativePackagePath names = slashPath names"
    unfolding relativePackagePath_def toSlashes_def by (intro map_idI) auto
qed

section \<open>The manifest\<close>

text \<open>What a manifest entry vouches for.\<close>

definition vouches :: "host \<Rightarrow> json \<Rightarrow> jsstring \<Rightarrow> byte list \<Rightarrow> bool" where
  "vouches h a file bs \<longleftrightarrow> getProp (Some a) ''file'' = Some (JStr file) \<and> getProp (Some a) ''sha256'' = Some (JStr (sha256Hex h bs)) \<and>
     getProp (Some a) ''bytes'' = Some (JNum (IntNum (int (length bs))))"

lemma checkArtifacts_passes:
  "checkArtifacts h pk as = None \<Longrightarrow> a \<in> set as \<Longrightarrow>
     \<exists>file bs. packageNode pk file = Some (PkgFile bs) \<and> vouches (ch_host h) a file bs"
  by (induction h pk as rule: checkArtifacts.induct)
    (auto simp: Let_def vouches_def hashFile_def readPackageFile_def split: option.splits json.splits if_splits sum.splits
      pkg_entry.splits)

lemma checkExtraFiles_passes:
  "checkExtraFiles h pk as files = None \<Longrightarrow> file \<in> set files \<Longrightarrow> \<exists>a \<in> set as. getProp (Some a) ''file'' = Some (JStr file)"
  by (induction h pk as files rule: checkExtraFiles.induct) (auto split: if_splits)

lemma integrity_ok_artifacts:
  assumes "ir_ok (verifyReleaseIntegrity h pk)"
  shows "\<exists>manifest artifacts. safeReadJson h pk (jstr ''manifest.json'') = JsonRead manifest \<and>
    manifestArtifacts manifest = Some artifacts \<and> checkArtifacts h pk artifacts = None \<and>
    checkExtraFiles h pk artifacts (walkPackageFiles h pk) = None"
proof -
  from assms obtain manifest provenance where
    r: "safeReadJson h pk (jstr ''manifest.json'') = JsonRead manifest"
      "safeReadJson h pk (jstr ''provenance.json'') = JsonRead provenance"
    by (auto simp: verifyReleaseIntegrity_def ir_ok_def unhandled_def refusal_def split: json_read.splits if_splits)
  note scan = integrity_ok_facts [OF assms, THEN conjunct1]
  have refused: "\<not> ir_ok (refusal reason shown)" "\<not> ir_ok (unhandled m)" for reason shown m
    by (simp_all add: ir_ok_def unhandled_def refusal_def)
  have loops: "checkArtifacts h pk as = Some r \<Longrightarrow> \<not> ir_ok r" "checkExtraFiles h pk as files = Some r \<Longrightarrow> \<not> ir_ok r"
    for as files r
    using checkArtifacts_refuses checkExtraFiles_refuses by (simp_all add: ir_ok_def)
  let ?rest = "case manifestArtifacts manifest of
      None \<Rightarrow> unhandled (ch_type_error h)
    | Some artifacts \<Rightarrow> (case checkArtifacts h pk artifacts of
        Some r \<Rightarrow> r
      | None \<Rightarrow> (case checkExtraFiles h pk artifacts (walkPackageFiles h pk) of
          Some r \<Rightarrow> r | None \<Rightarrow> \<lparr>ir_reason = None, ir_context = JNull\<rparr>))"
  have "ir_ok ?rest"
    using assms unfolding verifyReleaseIntegrity_def Let_def r scan json_read.case list.case
    by (simp only: refused if_bool_eq_conj split: if_split_asm)
  then show ?thesis
    using r(1) refused loops by (auto split: option.splits)
qed

lemma scan_empty:
  assumes "scanForbiddenContent h pk = []" "(names, bs) \<in> set (walkFiles h pk)"
  shows "forbiddenContentReasons (ch_host h) (relativePackagePath names) = []"
proof -
  define f where "f = (\<lambda>(names, bs).
    \<lparr>fa_path = relativePackagePath names, fa_absolute_path = absolutePath pk names,
     fa_reasons = forbiddenContentReasons (ch_host h) (relativePackagePath names) @ forbiddenContentTextReasons h pk names bs,
     fa_bytes = length bs\<rparr>)"
  have scanned: "set (scanForbiddenContent h pk) = {a \<in> f ` set (walkFiles h pk). fa_reasons a \<noteq> []}"
    unfolding scanForbiddenContent_def f_def [symmetric] by simp
  have "fa_reasons (f (names, bs)) = []"
  proof (rule ccontr)
    assume "fa_reasons (f (names, bs)) \<noteq> []"
    then have "f (names, bs) \<in> set (scanForbiddenContent h pk)" unfolding scanned using assms(2) by blast
    then show False by (simp only: assms(1) list.set) simp
  qed
  then show ?thesis by (simp add: f_def)
qed

text \<open>
  C14: a package that passes is exactly its manifest. When the check passes, every file of the tree but the manifest itself is
  listed with its own digest and size and has a path that is not forbidden, and every entry of the manifest names a file whose digest and
  size are the ones it gives.
\<close>

theorem release_integrity_exact:
  assumes "ir_ok (verifyReleaseIntegrity h pk)" and "plainTree (PkgDir (pk_entries pk))"
  shows "\<exists>manifest artifacts. safeReadJson h pk (jstr ''manifest.json'') = JsonRead manifest \<and>
    manifestArtifacts manifest = Some artifacts \<and>
    (\<forall>names bs. lookupNames (PkgDir (pk_entries pk)) names = Some (PkgFile bs) \<longrightarrow>
       forbiddenContentReasons (ch_host h) (slashPath names) = [] \<and>
       (slashPath names = jstr ''manifest.json'' \<or> (\<exists>a \<in> set artifacts. vouches (ch_host h) a (slashPath names) bs))) \<and>
    (\<forall>a \<in> set artifacts. \<exists>file bs. packageNode pk file = Some (PkgFile bs) \<and> vouches (ch_host h) a file bs)"
proof -
  from integrity_ok_artifacts [OF assms(1)] obtain manifest artifacts where
    m: "safeReadJson h pk (jstr ''manifest.json'') = JsonRead manifest" "manifestArtifacts manifest = Some artifacts"
      "checkArtifacts h pk artifacts = None" "checkExtraFiles h pk artifacts (walkPackageFiles h pk) = None"
    by blast
  have files: "forbiddenContentReasons (ch_host h) (slashPath names) = [] \<and>
      (slashPath names = jstr ''manifest.json'' \<or> (\<exists>a \<in> set artifacts. vouches (ch_host h) a (slashPath names) bs))"
    if found: "lookupNames (PkgDir (pk_entries pk)) names = Some (PkgFile bs)" for names bs
  proof (intro conjI)
    note node = packageNode_file [OF assms(2) found]
    have walked: "(names, bs) \<in> set (walkFiles h pk)" using walkFiles_exact [OF assms(2)] found by blast
    from scan_empty [OF _ walked] integrity_ok_facts [OF assms(1)] node(2)
    show "forbiddenContentReasons (ch_host h) (slashPath names) = []" by simp
    show "slashPath names = jstr ''manifest.json'' \<or> (\<exists>a \<in> set artifacts. vouches (ch_host h) a (slashPath names) bs)"
    proof (cases "slashPath names = jstr ''manifest.json''")
      case False
      with walked node(2) have "slashPath names \<in> set (walkPackageFiles h pk)"
        by (force simp: walkPackageFiles_def)
      from checkExtraFiles_passes [OF m(4) this] obtain a where
        a: "a \<in> set artifacts" "getProp (Some a) ''file'' = Some (JStr (slashPath names))" by blast
      from checkArtifacts_passes [OF m(3) a(1)] a node(1) show ?thesis by (auto simp: vouches_def)
    qed simp
  qed
  with m checkArtifacts_passes [OF m(3)] show ?thesis by blast
qed

theorem release_integrity_exact_witness:
  "\<exists>manifest artifacts. safeReadJson sampleCustodyHost samplePackage (jstr ''manifest.json'') = JsonRead manifest \<and>
    manifestArtifacts manifest = Some artifacts \<and>
    (\<exists>a \<in> set artifacts. vouches (ch_host sampleCustodyHost) a (jstr ''provenance.json'') [79])"
proof -
  have chars: "plainName (jstr ''provenance.json'')" "plainName (jstr ''manifest.json'')"
    by code_simp+
  have "plainTree (PkgDir (pk_entries samplePackage))" using chars by (simp add: samplePackage_def)
  from release_integrity_exact [OF sample_integrity this] obtain manifest artifacts where
    m: "safeReadJson sampleCustodyHost samplePackage (jstr ''manifest.json'') = JsonRead manifest"
      "manifestArtifacts manifest = Some artifacts"
    and files: "\<And>names bs. lookupNames (PkgDir (pk_entries samplePackage)) names = Some (PkgFile bs) \<Longrightarrow>
       slashPath names = jstr ''manifest.json'' \<or>
       (\<exists>a \<in> set artifacts. vouches (ch_host sampleCustodyHost) a (slashPath names) bs)"
    by blast
  have "\<exists>a \<in> set artifacts. vouches (ch_host sampleCustodyHost) a (jstr ''provenance.json'') [79]"
    using files [of "[jstr ''provenance.json'']" "[79]"] by (simp add: samplePackage_def slashPath_def)
  with m show ?thesis by blast
qed

section \<open>A lock inside the package\<close>

text \<open>
  When the lock lies inside the package, as with the default configuration, the preflight that writes it refuses every later start: the manifest
  cannot list a file that was not there when the check passed, and a file that is not listed fails it.
\<close>

theorem lock_in_package_refuses:
  assumes pre: "runPreflightCheck h pkg p d = (Some rep, d')" "pf_ok rep"
    and new: "lookupNames (PkgDir (pk_entries (pkg d'))) names = Some (PkgFile bs)" "packageNode (pkg d) (slashPath names) = None"
    and tree: "plainTree (PkgDir (pk_entries (pkg d')))" "slashPath names \<noteq> jstr ''manifest.json''"
    and same: "safeReadJson h (pkg d') (jstr ''manifest.json'') = safeReadJson h (pkg d) (jstr ''manifest.json'')"
  shows "\<exists>r. fst (checkCustodyStartup h pkg d' stamp config q) = Some r \<and> \<not> su_ok r"
proof -
  obtain c where "readCustodyConfig h d p = Inr c"
    using pre by (cases "readCustodyConfig h d p") (auto simp: runPreflightCheck_def Let_def)
  with runPreflightCheck_ok [OF pre] have "ir_ok (verifyReleaseIntegrity h (pkg d))" by blast
  from integrity_ok_artifacts [OF this] obtain manifest artifacts where
    m: "safeReadJson h (pkg d) (jstr ''manifest.json'') = JsonRead manifest" "manifestArtifacts manifest = Some artifacts"
      "checkArtifacts h (pkg d) artifacts = None" by blast
  have "\<not> ir_ok (verifyReleaseIntegrity h (pkg d'))"
  proof
    assume "ir_ok (verifyReleaseIntegrity h (pkg d'))"
    from integrity_ok_artifacts [OF this] m same have
      extra: "checkExtraFiles h (pkg d') artifacts (walkPackageFiles h (pkg d')) = None" by auto
    have "(names, bs) \<in> set (walkFiles h (pkg d'))" using walkFiles_exact [OF tree(1)] new(1) by blast
    with packageNode_file(2) [OF tree(1) new(1)] tree(2) have "slashPath names \<in> set (walkPackageFiles h (pkg d'))"
      by (force simp: walkPackageFiles_def)
    from checkExtraFiles_passes [OF extra this] obtain a where
      a: "a \<in> set artifacts" "getProp (Some a) ''file'' = Some (JStr (slashPath names))" by blast
    from checkArtifacts_passes [OF m(3) a(1)] a(2) new(2) show False by (auto simp: vouches_def)
  qed
  then show ?thesis
    by (auto simp: checkCustodyStartup_def Let_def ir_ok_def startupFailure_def split: option.splits)
qed

definition sampleView :: package_view where
  "sampleView d =
     (if d (preflightLockPath (jstr ''c'')) = None then samplePackage
      else samplePackage\<lparr>pk_entries := pk_entries samplePackage @ [(jstr ''c.lock'', PkgFile [76])]\<rparr>)"

theorem lock_in_package_refuses_witness:
  "\<exists>r. fst (checkCustodyStartup sampleCustodyHost sampleView sampleLocked stamp (Some c) q) = Some r \<and> \<not> su_ok r"
proof -
  have new: "sampleDisk (preflightLockPath (jstr ''c'')) = None"
    by (simp add: sampleDisk_def preflightLockPath_def flip: jstr_append)
  then have before: "sampleView sampleDisk = samplePackage" by (simp add: sampleView_def)
  have after: "sampleView sampleLocked = samplePackage\<lparr>pk_entries := pk_entries samplePackage @ [(jstr ''c.lock'', PkgFile [76])]\<rparr>"
    by (simp add: sampleView_def sampleLocked_def)
  obtain rep where pre: "runPreflightCheck sampleCustodyHost sampleView (jstr ''c'') sampleDisk = (Some rep, sampleLocked)" "pf_ok rep"
    using sample_preflight [of sampleView] before by blast
  have names: "plainName (jstr ''provenance.json'')" "plainName (jstr ''manifest.json'')" "plainName (jstr ''c.lock'')"
    by code_simp+
  show ?thesis
  proof (rule lock_in_package_refuses [OF pre])
    show "lookupNames (PkgDir (pk_entries (sampleView sampleLocked))) [jstr ''c.lock''] = Some (PkgFile [76])"
      by (simp add: after samplePackage_def)
    show "packageNode (sampleView sampleDisk) (slashPath [jstr ''c.lock'']) = None" unfolding before by code_simp
    show "plainTree (PkgDir (pk_entries (sampleView sampleLocked)))" using names by (simp add: after samplePackage_def)
    show "slashPath [jstr ''c.lock''] \<noteq> jstr ''manifest.json''" by (simp add: slashPath_def)
    show "safeReadJson sampleCustodyHost (sampleView sampleLocked) (jstr ''manifest.json'') =
        safeReadJson sampleCustodyHost (sampleView sampleDisk) (jstr ''manifest.json'')"
      unfolding before after by code_simp
  qed
qed

end
