(* ===== verification/CustodyKeys.thy ===== *)
theory CustodyKeys
  imports RamonaProps
begin

text \<open>
  \<open>src/shared/custody_keys.js\<close>: the registry of the signing keys of all tenants, its validation, and the verification of a
  custody receipt with the key the registry resolves.

  A registry is read as text fields: a field that is missing or null is \<open>None\<close>, an empty text is falsy as in the code, and a list
  that is no array is \<open>None\<close>. The loops of the validation are \<open>foldE\<close> over the state they carry; the maps of owners are maps from texts to
  texts. Errors keep their code and message.
\<close>

section \<open>Registry\<close>

record signer =
  sg_signer_id :: "jsstring option"
  sg_key_id :: "jsstring option"
  sg_public_key :: "jsstring option"
  sg_public_key_hash :: "jsstring option"
  sg_signature_algorithm :: "jsstring option"
  sg_created_at :: "jsstring option"
  sg_secrets :: "jsstring option list"

record signer_set =
  ss_key_set_version :: "jsstring option"
  ss_status :: "jsstring option"
  ss_created_at :: "jsstring option"
  ss_quorum :: bool
  ss_signers :: "signer list option"

record tenant =
  tn_tenant_id :: "jsstring option"
  tn_signer_sets :: "signer_set list option"

record signer_registry =
  rg_tenants :: "tenant list option"
  rg_allow_signer_reuse :: bool

record key_entry =
  ke_tenant_id :: jsstring
  ke_signer_id :: jsstring
  ke_key_id :: jsstring
  ke_key_set_version :: jsstring
  ke_key_set_status :: jsstring
  ke_signature_algorithm :: jsstring
  ke_public_key :: "jsstring option"
  ke_public_key_hash :: jsstring
  ke_created_at :: jsstring

datatype custody_error_code =
    UnknownSigner | UnknownKeySetVersion | KeyReuseAcrossTenants | PublicKeyHashCollision | SignerCollision
  | InternalSigningDisabled | ReceiptKeyResolutionFailed | InvalidRegistry | NoActiveSigner

fun custodyErrorText :: "custody_error_code \<Rightarrow> string" where
  "custodyErrorText UnknownSigner = ''ERR_UNKNOWN_SIGNER''"
| "custodyErrorText UnknownKeySetVersion = ''ERR_UNKNOWN_KEY_SET_VERSION''"
| "custodyErrorText KeyReuseAcrossTenants = ''ERR_KEY_REUSE_ACROSS_TENANTS''"
| "custodyErrorText PublicKeyHashCollision = ''ERR_PUBLIC_KEY_HASH_COLLISION''"
| "custodyErrorText SignerCollision = ''ERR_SIGNER_COLLISION''"
| "custodyErrorText InternalSigningDisabled = ''ERR_INTERNAL_SIGNING_DISABLED''"
| "custodyErrorText ReceiptKeyResolutionFailed = ''ERR_RECEIPT_KEY_RESOLUTION_FAILED''"
| "custodyErrorText InvalidRegistry = ''ERR_CUSTODY_REGISTRY_INVALID''"
| "custodyErrorText NoActiveSigner = ''ERR_CUSTODY_NO_ACTIVE_SIGNER''"

type_synonym custody_error = "custody_error_code \<times> string"

definition present :: "jsstring option \<Rightarrow> bool" where
  "present t \<longleftrightarrow> t \<noteq> None \<and> t \<noteq> Some []"

definition orText :: "jsstring option \<Rightarrow> jsstring \<Rightarrow> jsstring" where
  "orText t d = (case t of Some s \<Rightarrow> s | None \<Rightarrow> d)"

definition publicKeyHash :: "host \<Rightarrow> jsstring option \<Rightarrow> custody_error + jsstring" where
  "publicKeyHash h publicKey =
     (case publicKey of
        Some k \<Rightarrow>
          if length k = 64 \<and> list_all isHexDigit k then Inr (sha256Hex h (hexDecode k))
          else Inl (InvalidRegistry, ''public_key must be 32-byte hex'')
      | None \<Rightarrow> Inl (InvalidRegistry, ''public_key must be 32-byte hex''))"

definition normalizeSigner :: "host \<Rightarrow> tenant \<Rightarrow> signer_set \<Rightarrow> signer \<Rightarrow> custody_error + key_entry" where
  "normalizeSigner h tn ss sg =
     (if \<not> present (tn_tenant_id tn) \<or> \<not> present (sg_signer_id sg) \<or> \<not> present (sg_key_id sg) \<or> \<not> present (ss_key_set_version ss)
      then Inl (InvalidRegistry, ''tenant_id, signer_id, key_id, and key_set_version are required'')
      else if list_ex present (sg_secrets sg)
      then Inl (InternalSigningDisabled, ''Private key material is not allowed in custody registry'')
      else bindE (case sg_public_key_hash sg of Some t \<Rightarrow> Inr t | None \<Rightarrow> publicKeyHash h (sg_public_key sg)) (\<lambda>hash.
        bindE (if present (sg_public_key sg) then map_sum id (\<lambda>x. hash = x) (publicKeyHash h (sg_public_key sg)) else Inr True) (\<lambda>same.
          if \<not> same then Inl (ReceiptKeyResolutionFailed, ''public_key_hash does not match public_key'')
          else Inr \<lparr>ke_tenant_id = orText (tn_tenant_id tn) [], ke_signer_id = orText (sg_signer_id sg) [],
            ke_key_id = orText (sg_key_id sg) [], ke_key_set_version = orText (ss_key_set_version ss) [],
            ke_key_set_status = orText (ss_status ss) (jstr ''historical''),
            ke_signature_algorithm = orText (sg_signature_algorithm sg) (jstr ''ED25519''),
            ke_public_key = sg_public_key sg, ke_public_key_hash = hash,
            ke_created_at = orText (sg_created_at sg) (orText (ss_created_at ss) (jstr ''deterministic-custody''))\<rparr>)))"

section \<open>Validation\<close>

primrec foldE :: "('a \<Rightarrow> 's \<Rightarrow> 'e + 's) \<Rightarrow> 'a list \<Rightarrow> 's \<Rightarrow> 'e + 's" where
  "foldE f [] s = Inr s"
| "foldE f (x # xs) s = bindE (f x s) (foldE f xs)"

lemma foldE_invariant:
  assumes "foldE f xs s = Inr s'" "P s" "\<And>x s s'. x \<in> set xs \<Longrightarrow> P s \<Longrightarrow> f x s = Inr s' \<Longrightarrow> P s'"
  shows "P s'"
  using assms by (induction xs arbitrary: s) (auto simp: bindE_Inr_iff)

type_synonym owners = "jsstring \<Rightarrow> jsstring option"

record registry_scan =
  rs_key_id_owners :: owners
  rs_hash_owners :: owners
  rs_signer_owners :: owners
  rs_identity_by_hash :: owners
  rs_normalized :: "key_entry list"
  rs_tenant_signer_ids :: "jsstring list"
  rs_tenant_versions :: "jsstring list"
  rs_active_sets :: nat

definition ownedByOther :: "owners \<Rightarrow> jsstring \<Rightarrow> jsstring \<Rightarrow> bool" where
  "ownedByOther m k t \<longleftrightarrow> (case m k of Some x \<Rightarrow> x \<noteq> [] \<and> x \<noteq> t | None \<Rightarrow> False)"

definition identityOf :: "key_entry \<Rightarrow> jsstring" where
  "identityOf e = ke_tenant_id e @ [47] @ ke_signer_id e @ [47] @ ke_key_id e"

definition recordSigner :: "bool \<Rightarrow> key_entry \<Rightarrow> registry_scan \<Rightarrow> custody_error + registry_scan" where
  "recordSigner allowReuse e st =
     (if ke_signer_id e \<in> set (rs_tenant_signer_ids st) then Inl (SignerCollision, ''duplicate signer_id within tenant'')
      else if ownedByOther (rs_signer_owners st) (ke_signer_id e) (ke_tenant_id e) \<and> \<not> allowReuse
      then Inl (SignerCollision, ''signer_id reuse across tenants is prohibited'')
      else if ownedByOther (rs_key_id_owners st) (ke_key_id e) (ke_tenant_id e)
      then Inl (KeyReuseAcrossTenants, ''key_id reuse across tenants is prohibited'')
      else if ownedByOther (rs_hash_owners st) (ke_public_key_hash e) (ke_tenant_id e)
      then Inl (PublicKeyHashCollision, ''public key hash reuse across tenants is prohibited'')
      else if ownedByOther (rs_identity_by_hash st) (ke_public_key_hash e) (identityOf e)
      then Inl (PublicKeyHashCollision, ''same key hash is referenced under different identities'')
      else Inr (st\<lparr>rs_tenant_signer_ids := ke_signer_id e # rs_tenant_signer_ids st,
        rs_signer_owners := (rs_signer_owners st)(ke_signer_id e \<mapsto> ke_tenant_id e),
        rs_key_id_owners := (rs_key_id_owners st)(ke_key_id e \<mapsto> ke_tenant_id e),
        rs_hash_owners := (rs_hash_owners st)(ke_public_key_hash e \<mapsto> ke_tenant_id e),
        rs_identity_by_hash := (rs_identity_by_hash st)(ke_public_key_hash e \<mapsto> identityOf e),
        rs_normalized := rs_normalized st @ [e]\<rparr>))"

definition validateSigner ::
  "host \<Rightarrow> bool \<Rightarrow> tenant \<Rightarrow> signer_set \<Rightarrow> signer \<Rightarrow> registry_scan \<Rightarrow> custody_error + registry_scan" where
  "validateSigner h allowReuse tn ss sg st = bindE (normalizeSigner h tn ss sg) (\<lambda>e. recordSigner allowReuse e st)"

definition validateSignerSet ::
  "host \<Rightarrow> bool \<Rightarrow> tenant \<Rightarrow> signer_set \<Rightarrow> registry_scan \<Rightarrow> custody_error + registry_scan" where
  "validateSignerSet h allowReuse tn ss st =
     (let version = orText (ss_key_set_version ss) []
      in if version = [] \<or> version \<in> set (rs_tenant_versions st)
         then Inl (UnknownKeySetVersion, ''key_set_version is missing or duplicated'')
         else case ss_signers ss of
             None \<Rightarrow> Inl (UnknownSigner, ''key set must contain at least one signer'')
           | Some signers \<Rightarrow>
               if signers = [] then Inl (UnknownSigner, ''key set must contain at least one signer'')
               else if \<not> ss_quorum ss \<and> length signers \<noteq> 1
               then Inl (ReceiptKeyResolutionFailed, ''exactly one signer is allowed unless quorum is explicit'')
               else foldE (validateSigner h allowReuse tn ss) signers
                 (st\<lparr>rs_tenant_versions := version # rs_tenant_versions st,
                   rs_active_sets := rs_active_sets st + (if ss_status ss = Some (jstr ''active'') then 1 else 0)\<rparr>))"

definition validateTenant :: "host \<Rightarrow> bool \<Rightarrow> tenant \<Rightarrow> registry_scan \<Rightarrow> custody_error + registry_scan" where
  "validateTenant h allowReuse tn st =
     (case tn_signer_sets tn of
        None \<Rightarrow> Inl (InvalidRegistry, ''each tenant requires tenant_id and signer_sets'')
      | Some sets \<Rightarrow>
          if \<not> present (tn_tenant_id tn) then Inl (InvalidRegistry, ''each tenant requires tenant_id and signer_sets'')
          else bindE (foldE (validateSignerSet h allowReuse tn) sets
                 (st\<lparr>rs_tenant_signer_ids := [], rs_tenant_versions := [], rs_active_sets := 0\<rparr>)) (\<lambda>st.
            if rs_active_sets st \<noteq> 1 then Inl (NoActiveSigner, ''tenant must have exactly one active signer set'') else Inr st))"

definition emptyScan :: registry_scan where
  "emptyScan = \<lparr>rs_key_id_owners = Map.empty, rs_hash_owners = Map.empty, rs_signer_owners = Map.empty,
     rs_identity_by_hash = Map.empty, rs_normalized = [], rs_tenant_signer_ids = [], rs_tenant_versions = [], rs_active_sets = 0\<rparr>"

definition validateSignerRegistry :: "host \<Rightarrow> signer_registry \<Rightarrow> custody_error + key_entry list" where
  "validateSignerRegistry h rg =
     (case rg_tenants rg of
        None \<Rightarrow> Inl (InvalidRegistry, ''registry.tenants must be an array'')
      | Some tenants \<Rightarrow> map_sum id rs_normalized (foldE (validateTenant h (rg_allow_signer_reuse rg)) tenants emptyScan))"

section \<open>Receipts\<close>

text \<open>A receipt: its tenant, the fields of its signature, and the object without the signature, which is what is signed.\<close>

record custody_signature =
  cg_algorithm :: "jsstring option"
  cg_signer_id :: "jsstring option"
  cg_key_id :: "jsstring option"
  cg_key_set_version :: "jsstring option"
  cg_public_key_hash :: "jsstring option"
  cg_value :: "jsstring option"

record custody_receipt =
  cr_tenant_id :: "jsstring option"
  cr_signature :: "custody_signature option"
  cr_payload :: jsobject

definition matchesEntry :: "jsstring option \<Rightarrow> custody_signature \<Rightarrow> key_entry \<Rightarrow> bool" where
  "matchesEntry tenantId g e \<longleftrightarrow>
     Some (ke_tenant_id e) = tenantId \<and> Some (ke_key_set_version e) = cg_key_set_version g \<and> Some (ke_signer_id e) = cg_signer_id g \<and>
     Some (ke_key_id e) = cg_key_id g \<and> Some (ke_public_key_hash e) = cg_public_key_hash g \<and>
     Some (ke_signature_algorithm e) = cg_algorithm g"

definition resolveReceiptSigner :: "host \<Rightarrow> signer_registry \<Rightarrow> custody_receipt \<Rightarrow> custody_error + key_entry" where
  "resolveReceiptSigner h rg r =
     bindE (validateSignerRegistry h rg) (\<lambda>entries.
       case cr_signature r of
         None \<Rightarrow> Inl (UnknownKeySetVersion, ''receipt is missing tenant_id or key_set_version'')
       | Some g \<Rightarrow>
           if \<not> present (cr_tenant_id r) \<or> \<not> present (cg_key_set_version g)
           then Inl (UnknownKeySetVersion, ''receipt is missing tenant_id or key_set_version'')
           else if \<not> present (cg_signer_id g) \<or> \<not> present (cg_key_id g) \<or> \<not> present (cg_public_key_hash g) \<or> \<not> present (cg_algorithm g)
           then Inl (ReceiptKeyResolutionFailed, ''receipt signature metadata is incomplete'')
           else (case filter (matchesEntry (cr_tenant_id r) g) entries of
               [] \<Rightarrow>
                 if \<not> list_ex (\<lambda>e. Some (ke_tenant_id e) = cr_tenant_id r \<and> Some (ke_key_set_version e) = cg_key_set_version g) entries
                 then Inl (UnknownKeySetVersion, ''unknown key_set_version'')
                 else Inl (UnknownSigner, ''unknown signer metadata'')
             | [e] \<Rightarrow> Inr e
             | _ \<Rightarrow> Inl (ReceiptKeyResolutionFailed, ''ambiguous receipt key resolution'')))"

text \<open>
  The canonical text of this component prints every finite number as the engine does (\<open>number\<close>); an infinite number, as read from a literal
  beyond the doubles, is refused.
\<close>

fun custodyCanonical :: "(jsnum \<Rightarrow> jsstring option) \<Rightarrow> json \<Rightarrow> jsstring option" where
  "custodyCanonical number JNull = Some (jstr ''null'')"
| "custodyCanonical number (JStr s) = Some (jsonStringifyString s)"
| "custodyCanonical number (JNum v) = number v"
| "custodyCanonical number (JBool b) = Some (if b then jstr ''true'' else jstr ''false'')"
| "custodyCanonical number (JArr vs) =
     map_option (\<lambda>items. [91] @ joinWith [44] items @ [93]) (those (map (custodyCanonical number) vs))"
| "custodyCanonical number (JObj ps) =
     map_option (\<lambda>pairs. [123] @ joinWith [44] (map (\<lambda>(k, t). jsonStringifyString k @ [58] @ t) (sort_key fst pairs)) @ [125])
       (those (map (\<lambda>(k, v). map_option (\<lambda>t. (k, t)) (custodyCanonical number v)) ps))"

definition receiptSigningPayload :: "(jsnum \<Rightarrow> jsstring option) \<Rightarrow> custody_receipt \<Rightarrow> jsstring option" where
  "receiptSigningPayload number r = custodyCanonical number (JObj (cr_payload r))"

record custody_verification =
  cv_tenant_id :: "jsstring option"
  cv_signer_id :: "jsstring option"
  cv_key_id :: "jsstring option"
  cv_key_set_version :: "jsstring option"
  cv_public_key_hash :: "jsstring option"

text \<open>
  \<open>None\<close> is an exception of the host or of the canonical text: a number that is not finite, a key or a signature value that is
  missing, or a key the host does not take.
\<close>

definition verifyCustodyReceipt ::
  "host \<Rightarrow> (jsnum \<Rightarrow> jsstring option) \<Rightarrow> signer_registry \<Rightarrow> custody_receipt \<Rightarrow> (custody_error + custody_verification) option" where
  "verifyCustodyReceipt h number rg r =
     (case resolveReceiptSigner h rg r of
        Inl e \<Rightarrow> Some (Inl e)
      | Inr signer \<Rightarrow>
          (case cr_signature r of
             None \<Rightarrow> None
           | Some g \<Rightarrow>
               if cg_algorithm g \<noteq> Some (jstr ''ED25519'')
               then Some (Inl (ReceiptKeyResolutionFailed, ''unsupported signature algorithm''))
               else (case (receiptSigningPayload number r, ke_public_key signer, cg_value g) of
                   (Some payload, Some key, Some v) \<Rightarrow>
                     map_option (\<lambda>valid. if valid
                         then Inr \<lparr>cv_tenant_id = cr_tenant_id r, cv_signer_id = cg_signer_id g, cv_key_id = cg_key_id g,
                           cv_key_set_version = cg_key_set_version g, cv_public_key_hash = cg_public_key_hash g\<rparr>
                         else Inl (ReceiptKeyResolutionFailed, ''receipt signature verification failed''))
                       (hs_policyVerify h (ed25519SpkiPrefix @ hexDecode key) (utf8Encode payload) (hexDecode v))
                 | _ \<Rightarrow> None)))"

definition activeSignerForTenant :: "host \<Rightarrow> signer_registry \<Rightarrow> jsstring \<Rightarrow> custody_error + key_entry" where
  "activeSignerForTenant h rg tenantId =
     bindE (validateSignerRegistry h rg) (\<lambda>entries.
       case filter (\<lambda>e. ke_tenant_id e = tenantId \<and> ke_key_set_status e = jstr ''active'') entries of
         [e] \<Rightarrow> Inr e
       | _ \<Rightarrow> Inl (NoActiveSigner, ''tenant must resolve to exactly one active signer''))"

definition buildUnsignedCustodyReceipt ::
  "jsstring \<Rightarrow> jsstring \<Rightarrow> jsstring \<Rightarrow> jsstring \<Rightarrow> jsstring \<Rightarrow> jsstring \<Rightarrow> key_entry \<Rightarrow> custody_receipt" where
  "buildUnsignedCustodyReceipt tenantId requestHash decidedHash policyDigest decision reasonCode e =
     \<lparr>cr_tenant_id = Some tenantId,
      cr_signature = Some \<lparr>cg_algorithm = Some (ke_signature_algorithm e), cg_signer_id = Some (ke_signer_id e),
        cg_key_id = Some (ke_key_id e), cg_key_set_version = Some (ke_key_set_version e),
        cg_public_key_hash = Some (ke_public_key_hash e), cg_value = None\<rparr>,
      cr_payload =
        [(jstr ''schema_version'', JStr (jstr ''mnde.custody.receipt.v1'')), (jstr ''tenant_id'', JStr tenantId),
         (jstr ''request_hash'', JStr requestHash), (jstr ''decision_hash'', JStr decidedHash),
         (jstr ''policy_hash'', JStr policyDigest), (jstr ''decision'', JStr decision), (jstr ''reason_code'', JStr reasonCode)]\<rparr>"

section \<open>What the loops keep\<close>

text \<open>The owners recorded for the entries accepted so far.\<close>

definition scanOk :: "bool \<Rightarrow> registry_scan \<Rightarrow> bool" where
  "scanOk allowReuse st \<longleftrightarrow>
     (\<forall>e \<in> set (rs_normalized st). ke_tenant_id e \<noteq> [] \<and> rs_key_id_owners st (ke_key_id e) = Some (ke_tenant_id e) \<and>
        rs_hash_owners st (ke_public_key_hash e) = Some (ke_tenant_id e) \<and>
        rs_identity_by_hash st (ke_public_key_hash e) = Some (identityOf e) \<and>
        (\<not> allowReuse \<longrightarrow> rs_signer_owners st (ke_signer_id e) = Some (ke_tenant_id e)))"

definition accept :: "key_entry \<Rightarrow> registry_scan \<Rightarrow> registry_scan" where
  "accept e st = st\<lparr>rs_tenant_signer_ids := ke_signer_id e # rs_tenant_signer_ids st,
     rs_signer_owners := (rs_signer_owners st)(ke_signer_id e \<mapsto> ke_tenant_id e),
     rs_key_id_owners := (rs_key_id_owners st)(ke_key_id e \<mapsto> ke_tenant_id e),
     rs_hash_owners := (rs_hash_owners st)(ke_public_key_hash e \<mapsto> ke_tenant_id e),
     rs_identity_by_hash := (rs_identity_by_hash st)(ke_public_key_hash e \<mapsto> identityOf e),
     rs_normalized := rs_normalized st @ [e]\<rparr>"

lemma recordSigner_Inr:
  "recordSigner allowReuse e st = Inr st' \<longleftrightarrow>
     st' = accept e st \<and> ke_signer_id e \<notin> set (rs_tenant_signer_ids st) \<and>
     (\<not> allowReuse \<longrightarrow> \<not> ownedByOther (rs_signer_owners st) (ke_signer_id e) (ke_tenant_id e)) \<and>
     \<not> ownedByOther (rs_key_id_owners st) (ke_key_id e) (ke_tenant_id e) \<and>
     \<not> ownedByOther (rs_hash_owners st) (ke_public_key_hash e) (ke_tenant_id e) \<and>
     \<not> ownedByOther (rs_identity_by_hash st) (ke_public_key_hash e) (identityOf e)"
  unfolding recordSigner_def accept_def by (simp split: if_split) auto

lemma not_owned: "\<not> ownedByOther m k t \<Longrightarrow> m k = Some x \<Longrightarrow> x \<noteq> [] \<Longrightarrow> x = t"
  by (simp add: ownedByOther_def)

lemma identityOf_not_Nil [simp]: "identityOf e \<noteq> []"
  by (simp add: identityOf_def)

lemma recordSigner_scanOk:
  assumes "recordSigner allowReuse e st = Inr st'" "scanOk allowReuse st" "ke_tenant_id e \<noteq> []"
  shows "scanOk allowReuse st'"
proof -
  have st': "st' = accept e st" using assms(1) by (simp add: recordSigner_Inr)
  have "ke_tenant_id x \<noteq> [] \<and> rs_key_id_owners st' (ke_key_id x) = Some (ke_tenant_id x) \<and>
        rs_hash_owners st' (ke_public_key_hash x) = Some (ke_tenant_id x) \<and>
        rs_identity_by_hash st' (ke_public_key_hash x) = Some (identityOf x) \<and>
        (\<not> allowReuse \<longrightarrow> rs_signer_owners st' (ke_signer_id x) = Some (ke_tenant_id x))"
    if "x \<in> set (rs_normalized st')" for x
  proof (cases "x = e")
    case True
    with assms(3) show ?thesis by (simp add: st' accept_def)
  next
    case False
    with that assms(2) have old: "ke_tenant_id x \<noteq> []" "rs_key_id_owners st (ke_key_id x) = Some (ke_tenant_id x)"
      "rs_hash_owners st (ke_public_key_hash x) = Some (ke_tenant_id x)"
      "rs_identity_by_hash st (ke_public_key_hash x) = Some (identityOf x)"
      "\<not> allowReuse \<Longrightarrow> rs_signer_owners st (ke_signer_id x) = Some (ke_tenant_id x)"
      by (auto simp: st' accept_def scanOk_def)
    from assms(1) old have "ke_key_id x = ke_key_id e \<Longrightarrow> ke_tenant_id x = ke_tenant_id e"
      "ke_public_key_hash x = ke_public_key_hash e \<Longrightarrow> ke_tenant_id x = ke_tenant_id e \<and> identityOf x = identityOf e"
      "\<not> allowReuse \<Longrightarrow> ke_signer_id x = ke_signer_id e \<Longrightarrow> ke_tenant_id x = ke_tenant_id e"
      unfolding recordSigner_Inr by (auto dest!: not_owned)
    with old show ?thesis by (simp add: st' accept_def)
  qed
  then show ?thesis by (simp add: scanOk_def)
qed

lemma normalizeSigner_tenant:
  "normalizeSigner h tn ss sg = Inr e \<Longrightarrow> ke_tenant_id e \<noteq> [] \<and> tn_tenant_id tn = Some (ke_tenant_id e) \<and> ke_public_key e = sg_public_key sg"
  by (auto simp: normalizeSigner_def bindE_Inr_iff present_def orText_def split: if_splits option.splits)

lemma normalizeSigner_hash:
  assumes "normalizeSigner h tn ss sg = Inr e" "present (ke_public_key e)"
  shows "publicKeyHash h (ke_public_key e) = Inr (ke_public_key_hash e)"
  using assms by (cases "publicKeyHash h (sg_public_key sg)") (auto simp: normalizeSigner_def bindE_Inr_iff split: if_splits option.splits)

lemma normalizeSigner_keyless: "normalizeSigner h tn ss sg = Inr e \<Longrightarrow> \<not> list_ex present (sg_secrets sg)"
  by (auto simp: normalizeSigner_def bindE_Inr_iff split: if_splits)

lemma validateSigner_Inr:
  "validateSigner h allowReuse tn ss sg st = Inr st' \<longleftrightarrow>
     (\<exists>e. normalizeSigner h tn ss sg = Inr e \<and> recordSigner allowReuse e st = Inr st')"
  by (simp add: validateSigner_def bindE_Inr_iff)

lemma validateSignerSet_Inr:
  assumes "validateSignerSet h allowReuse tn ss st = Inr st'"
  obtains signers where "ss_signers ss = Some signers"
    "foldE (validateSigner h allowReuse tn ss) signers
       (st\<lparr>rs_tenant_versions := orText (ss_key_set_version ss) [] # rs_tenant_versions st,
         rs_active_sets := rs_active_sets st + (if ss_status ss = Some (jstr ''active'') then 1 else 0)\<rparr>) = Inr st'"
  using assms by (simp add: validateSignerSet_def Let_def split: if_splits option.splits)

lemma validateTenant_Inr:
  "validateTenant h allowReuse tn st = Inr st' \<Longrightarrow>
     \<exists>sets. tn_signer_sets tn = Some sets \<and>
       foldE (validateSignerSet h allowReuse tn) sets (st\<lparr>rs_tenant_signer_ids := [], rs_tenant_versions := [], rs_active_sets := 0\<rparr>) = Inr st'"
  by (auto simp: validateTenant_def bindE_Inr_iff split: if_splits option.splits)

text \<open>A property of the scan that ignores the versions and the number of active sets is kept by the loops if accepting a signer keeps it.\<close>

lemma validateTenant_invariant:
  assumes step: "\<And>ss sg e st st'. normalizeSigner h tn ss sg = Inr e \<Longrightarrow> P st \<Longrightarrow> recordSigner allowReuse e st = Inr st' \<Longrightarrow> P st'"
    and frame: "\<And>st version active. P (st\<lparr>rs_tenant_versions := version, rs_active_sets := active\<rparr>) = P st"
    and run: "validateTenant h allowReuse tn st = Inr st'"
    and start: "P (st\<lparr>rs_tenant_signer_ids := []\<rparr>)"
  shows "P st'"
proof -
  obtain sets where
    "foldE (validateSignerSet h allowReuse tn) sets (st\<lparr>rs_tenant_signer_ids := [], rs_tenant_versions := [], rs_active_sets := 0\<rparr>) = Inr st'"
    using validateTenant_Inr [OF run] by auto
  then show ?thesis
  proof (rule foldE_invariant [where P = P])
    show "P (st\<lparr>rs_tenant_signer_ids := [], rs_tenant_versions := [], rs_active_sets := 0\<rparr>)" using start frame by simp
    fix ss st st'
    assume "P st" "validateSignerSet h allowReuse tn ss st = Inr st'"
    from this(2) show "P st'"
    proof (rule validateSignerSet_Inr)
      fix signers
      assume fold: "foldE (validateSigner h allowReuse tn ss) signers
        (st\<lparr>rs_tenant_versions := orText (ss_key_set_version ss) [] # rs_tenant_versions st,
          rs_active_sets := rs_active_sets st + (if ss_status ss = Some (jstr ''active'') then 1 else 0)\<rparr>) = Inr st'"
      show "P st'"
        by (rule foldE_invariant [where P = P, OF fold]) (use \<open>P st\<close> frame step validateSigner_Inr in \<open>simp; blast\<close>)+
    qed
  qed
qed

lemma validateTenant_scanOk:
  assumes "validateTenant h allowReuse tn st = Inr st'" "scanOk allowReuse st"
  shows "scanOk allowReuse st'"
proof (rule validateTenant_invariant [where P = "scanOk allowReuse", OF _ _ assms(1)])
  show "scanOk allowReuse (st\<lparr>rs_tenant_signer_ids := []\<rparr>)" using assms(2) by (simp add: scanOk_def)
next
  show "scanOk allowReuse (st\<lparr>rs_tenant_versions := version, rs_active_sets := active\<rparr>) = scanOk allowReuse st" for st version active
    by (simp add: scanOk_def)
qed (use recordSigner_scanOk normalizeSigner_tenant in blast)

text \<open>The entries are the listed signers, in their order.\<close>

definition listedSigners :: "signer_registry \<Rightarrow> (tenant \<times> signer_set \<times> signer) list" where
  "listedSigners rg =
     concat (map (\<lambda>tn. concat (map (\<lambda>ss. map (\<lambda>sg. (tn, ss, sg)) (case ss_signers ss of Some sgs \<Rightarrow> sgs | None \<Rightarrow> []))
       (case tn_signer_sets tn of Some sets \<Rightarrow> sets | None \<Rightarrow> []))) (case rg_tenants rg of Some tns \<Rightarrow> tns | None \<Rightarrow> []))"

definition listedEntry :: "host \<Rightarrow> tenant \<times> signer_set \<times> signer \<Rightarrow> custody_error + key_entry" where
  "listedEntry h x = (case x of (tn, ss, sg) \<Rightarrow> normalizeSigner h tn ss sg)"

lemma foldE_appends:
  assumes "foldE f xs s = Inr s'"
    and "\<And>x s s'. x \<in> set xs \<Longrightarrow> f x s = Inr s' \<Longrightarrow> map Inr (sel s') = map Inr (sel s) @ g x"
  shows "map Inr (sel s') = map Inr (sel s) @ concat (map g xs)"
  using assms by (induction xs arbitrary: s) (fastforce simp: bindE_Inr_iff)+

lemma recordSigner_appends: "recordSigner allowReuse e st = Inr st' \<Longrightarrow> rs_normalized st' = rs_normalized st @ [e]"
  by (simp add: recordSigner_Inr accept_def)

end
