(* ===== verification/CustodyKeysProps.thy ===== *)
theory CustodyKeysProps
  imports CustodyKeys
begin

text \<open>
  What a validated registry promises, what a verified custody receipt was signed with, and that what the active signer of a tenant
  signs verifies.
\<close>

section \<open>A validated registry\<close>

lemma validateSigner_appends:
  "validateSigner h allowReuse tn ss sg st = Inr st' \<Longrightarrow>
     map Inr (rs_normalized st') = map Inr (rs_normalized st) @ [listedEntry h (tn, ss, sg)]"
  by (auto simp: validateSigner_Inr listedEntry_def dest: recordSigner_appends)

lemma validateSignerSet_appends:
  assumes "validateSignerSet h allowReuse tn ss st = Inr st'"
  shows "map Inr (rs_normalized st') = map Inr (rs_normalized st) @
    map (listedEntry h) (map (\<lambda>sg. (tn, ss, sg)) (case ss_signers ss of Some sgs \<Rightarrow> sgs | None \<Rightarrow> []))"
  using assms
proof (rule validateSignerSet_Inr)
  fix signers
  assume some: "ss_signers ss = Some signers"
    and fold: "foldE (validateSigner h allowReuse tn ss) signers
       (st\<lparr>rs_tenant_versions := orText (ss_key_set_version ss) [] # rs_tenant_versions st,
         rs_active_sets := rs_active_sets st + (if ss_status ss = Some (jstr ''active'') then 1 else 0)\<rparr>) = Inr st'"
  have "concat (map (\<lambda>sg. [listedEntry h (tn, ss, sg)]) signers) = map (\<lambda>sg. listedEntry h (tn, ss, sg)) signers"
    by (induction signers) auto
  with foldE_appends [OF fold, of rs_normalized "\<lambda>sg. [listedEntry h (tn, ss, sg)]"] some show ?thesis
    by (simp add: validateSigner_appends comp_def)
qed

lemma validateTenant_appends:
  assumes "validateTenant h allowReuse tn st = Inr st'"
  shows "map Inr (rs_normalized st') = map Inr (rs_normalized st) @
    concat (map (\<lambda>ss. map (listedEntry h) (map (\<lambda>sg. (tn, ss, sg)) (case ss_signers ss of Some sgs \<Rightarrow> sgs | None \<Rightarrow> [])))
      (case tn_signer_sets tn of Some sets \<Rightarrow> sets | None \<Rightarrow> []))"
proof -
  obtain sets where some: "tn_signer_sets tn = Some sets" and fold:
    "foldE (validateSignerSet h allowReuse tn) sets (st\<lparr>rs_tenant_signer_ids := [], rs_tenant_versions := [], rs_active_sets := 0\<rparr>) = Inr st'"
    using validateTenant_Inr [OF assms] by auto
  from foldE_appends [OF fold, of rs_normalized, OF validateSignerSet_appends] some show ?thesis by simp
qed

lemma registry_scan:
  assumes "validateSignerRegistry h rg = Inr es"
  obtains tenants st where "rg_tenants rg = Some tenants" "rs_normalized st = es"
    "foldE (validateTenant h (rg_allow_signer_reuse rg)) tenants emptyScan = Inr st"
proof -
  from assms obtain tenants where some: "rg_tenants rg = Some tenants"
    and run: "map_sum id rs_normalized (foldE (validateTenant h (rg_allow_signer_reuse rg)) tenants emptyScan) = Inr es"
    by (auto simp: validateSignerRegistry_def split: option.splits)
  from run that [OF some] show thesis
    by (cases "foldE (validateTenant h (rg_allow_signer_reuse rg)) tenants emptyScan") auto
qed

lemma registry_listed:
  assumes "validateSignerRegistry h rg = Inr es"
  shows "map (listedEntry h) (listedSigners rg) = map Inr es"
  using assms
proof (rule registry_scan)
  fix tenants st
  assume some: "rg_tenants rg = Some tenants" and es: "rs_normalized st = es"
    and fold: "foldE (validateTenant h (rg_allow_signer_reuse rg)) tenants emptyScan = Inr st"
  from foldE_appends [OF fold, of rs_normalized, OF validateTenant_appends] some es show ?thesis
    by (simp add: emptyScan_def listedSigners_def map_concat comp_def)
qed

lemma emptyScan_ok: "scanOk allowReuse emptyScan"
  by (simp add: scanOk_def emptyScan_def)

lemma registry_scanOk:
  assumes "validateSignerRegistry h rg = Inr es"
  obtains st where "rs_normalized st = es" "scanOk (rg_allow_signer_reuse rg) st"
  using assms
proof (rule registry_scan)
  fix tenants st
  assume es: "rs_normalized st = es"
    and fold: "foldE (validateTenant h (rg_allow_signer_reuse rg)) tenants emptyScan = Inr st"
  have "scanOk (rg_allow_signer_reuse rg) st"
    by (rule foldE_invariant [where P = "scanOk (rg_allow_signer_reuse rg)", OF fold])
      (auto simp: emptyScan_ok intro: validateTenant_scanOk)
  with es show thesis by (rule that)
qed

lemma registry_entry:
  assumes "validateSignerRegistry h rg = Inr es" "e \<in> set es"
  obtains tn ss sg where "normalizeSigner h tn ss sg = Inr e" "(tn, ss, sg) \<in> set (listedSigners rg)"
proof -
  have "Inr ` set es = listedEntry h ` set (listedSigners rg)"
    using arg_cong [OF registry_listed [OF assms(1)], of set] by simp
  with assms(2) have "Inr e \<in> listedEntry h ` set (listedSigners rg)" by blast
  with that show thesis by (auto simp: listedEntry_def)
qed

lemma registry_hash:
  assumes "validateSignerRegistry h rg = Inr es" "e \<in> set es" "present (ke_public_key e)"
  shows "publicKeyHash h (ke_public_key e) = Inr (ke_public_key_hash e)"
proof -
  obtain tn ss sg where "normalizeSigner h tn ss sg = Inr e" using assms(1,2) by (rule registry_entry)
  with assms(3) show ?thesis by (simp only: normalizeSigner_hash)
qed

lemma registry_keyless:
  assumes "validateSignerRegistry h rg = Inr es" "(tn, ss, sg) \<in> set (listedSigners rg)"
  shows "\<not> list_ex present (sg_secrets sg)"
proof -
  have "listedEntry h (tn, ss, sg) \<in> Inr ` set es"
    using arg_cong [OF registry_listed [OF assms(1)], of set] assms(2) by (metis imageI list.set_map)
  then show ?thesis by (auto simp: listedEntry_def dest: normalizeSigner_keyless)
qed

lemma registry_owners:
  assumes "validateSignerRegistry h rg = Inr es" "e \<in> set es" "e' \<in> set es"
  shows "ke_key_id e = ke_key_id e' \<Longrightarrow> ke_tenant_id e = ke_tenant_id e'"
    and "ke_public_key_hash e = ke_public_key_hash e' \<Longrightarrow> ke_tenant_id e = ke_tenant_id e' \<and> identityOf e = identityOf e'"
    and "\<not> rg_allow_signer_reuse rg \<Longrightarrow> ke_signer_id e = ke_signer_id e' \<Longrightarrow> ke_tenant_id e = ke_tenant_id e'"
proof -
  obtain st where es: "rs_normalized st = es" and ok: "scanOk (rg_allow_signer_reuse rg) st" using assms(1) by (rule registry_scanOk)
  note owners = ok [unfolded scanOk_def es, rule_format]
  show "ke_key_id e = ke_key_id e' \<Longrightarrow> ke_tenant_id e = ke_tenant_id e'"
    using owners [OF assms(2)] owners [OF assms(3)] by auto
  show "ke_public_key_hash e = ke_public_key_hash e' \<Longrightarrow> ke_tenant_id e = ke_tenant_id e' \<and> identityOf e = identityOf e'"
    using owners [OF assms(2)] owners [OF assms(3)] by auto
  show "\<not> rg_allow_signer_reuse rg \<Longrightarrow> ke_signer_id e = ke_signer_id e' \<Longrightarrow> ke_tenant_id e = ke_tenant_id e'"
    using owners [OF assms(2)] owners [OF assms(3)] by auto
qed

text \<open>
  What the validation of a registry promises. When \<open>validateSignerRegistry\<close> accepts, its result is the list of all listed
  signers, normalized, in their order, and none of them carries private key material; a key id and the hash of a public key belong to one
  tenant, the hash to one identity, a signer id to one tenant unless the registry allows reuse; and where a key is present the hash is its hash.
\<close>

theorem custody_registry_separates:
  assumes "validateSignerRegistry h rg = Inr es"
  shows "map (\<lambda>(tn, ss, sg). normalizeSigner h tn ss sg) (listedSigners rg) = map Inr es \<and>
    (\<forall>(tn, ss, sg) \<in> set (listedSigners rg). \<not> list_ex present (sg_secrets sg)) \<and>
    (\<forall>e \<in> set es. \<forall>e' \<in> set es.
      (ke_key_id e = ke_key_id e' \<longrightarrow> ke_tenant_id e = ke_tenant_id e') \<and>
      (ke_public_key_hash e = ke_public_key_hash e' \<longrightarrow> ke_tenant_id e = ke_tenant_id e' \<and> identityOf e = identityOf e') \<and>
      (\<not> rg_allow_signer_reuse rg \<and> ke_signer_id e = ke_signer_id e' \<longrightarrow> ke_tenant_id e = ke_tenant_id e')) \<and>
    (\<forall>e \<in> set es. present (ke_public_key e) \<longrightarrow> publicKeyHash h (ke_public_key e) = Inr (ke_public_key_hash e))"
proof (intro conjI)
  show "map (\<lambda>(tn, ss, sg). normalizeSigner h tn ss sg) (listedSigners rg) = map Inr es"
    using registry_listed [OF assms] by (simp add: listedEntry_def [abs_def])
  show "\<forall>(tn, ss, sg) \<in> set (listedSigners rg). \<not> list_ex present (sg_secrets sg)" using registry_keyless [OF assms] by blast
  show "\<forall>e \<in> set es. \<forall>e' \<in> set es.
      (ke_key_id e = ke_key_id e' \<longrightarrow> ke_tenant_id e = ke_tenant_id e') \<and>
      (ke_public_key_hash e = ke_public_key_hash e' \<longrightarrow> ke_tenant_id e = ke_tenant_id e' \<and> identityOf e = identityOf e') \<and>
      (\<not> rg_allow_signer_reuse rg \<and> ke_signer_id e = ke_signer_id e' \<longrightarrow> ke_tenant_id e = ke_tenant_id e')"
    using registry_owners [OF assms] by blast
  show "\<forall>e \<in> set es. present (ke_public_key e) \<longrightarrow> publicKeyHash h (ke_public_key e) = Inr (ke_public_key_hash e)"
    using registry_hash [OF assms] by blast
qed

section \<open>Verified receipts\<close>

lemma resolveReceiptSigner_Inr:
  assumes "resolveReceiptSigner h rg r = Inr e"
  obtains es g where "validateSignerRegistry h rg = Inr es" "cr_signature r = Some g" "filter (matchesEntry (cr_tenant_id r) g) es = [e]"
proof -
  from assms obtain es where registry: "validateSignerRegistry h rg = Inr es" and rest: "resolveReceiptSigner h rg r = Inr e"
    by (auto simp: resolveReceiptSigner_def bindE_Inr_iff)
  from registry rest obtain g where g: "cr_signature r = Some g"
    by (cases "cr_signature r") (simp_all add: resolveReceiptSigner_def)
  with registry rest have "filter (matchesEntry (cr_tenant_id r) g) es = [e]"
    by (cases "filter (matchesEntry (cr_tenant_id r) g) es") (simp_all add: resolveReceiptSigner_def split: if_splits list.splits)
  with registry g show thesis by (rule that)
qed

lemma verifyCustodyReceipt_Inr:
  assumes "verifyCustodyReceipt h number rg r = Some (Inr v)"
  obtains es g e payload key sig where
    "validateSignerRegistry h rg = Inr es" "cr_signature r = Some g" "filter (matchesEntry (cr_tenant_id r) g) es = [e]"
    "ke_signature_algorithm e = jstr ''ED25519''" "receiptSigningPayload number r = Some payload"
    "ke_public_key e = Some key" "cg_value g = Some sig"
    "hs_policyVerify h (ed25519SpkiPrefix @ hexDecode key) (utf8Encode payload) (hexDecode sig) = Some True"
    "v = \<lparr>cv_tenant_id = Some (ke_tenant_id e), cv_signer_id = Some (ke_signer_id e), cv_key_id = Some (ke_key_id e),
           cv_key_set_version = Some (ke_key_set_version e), cv_public_key_hash = Some (ke_public_key_hash e)\<rparr>"
proof -
  from assms obtain e where "resolveReceiptSigner h rg r = Inr e"
    by (auto simp: verifyCustodyReceipt_def split: sum.splits)
  then obtain es g where registry: "validateSignerRegistry h rg = Inr es" and g: "cr_signature r = Some g"
    and match: "filter (matchesEntry (cr_tenant_id r) g) es = [e]" by (rule resolveReceiptSigner_Inr)
  have "e \<in> set (filter (matchesEntry (cr_tenant_id r) g) es)" using match by simp
  then have fields: "matchesEntry (cr_tenant_id r) g e" by simp
  from assms \<open>resolveReceiptSigner h rg r = Inr e\<close> g fields show thesis
    by (auto simp: verifyCustodyReceipt_def matchesEntry_def split: if_splits option.splits intro: that [OF registry g match])
qed

text \<open>
  What a verified custody receipt rests on. When \<open>verifyCustodyReceipt\<close> answers \<open>ok\<close>, the registry is valid and holds exactly
  one entry with the tenant, key set version, signer, key id, key hash and algorithm the receipt names; the host verified the signature over the
  canonical text of the receipt without its signature under the key of this entry, whose hash is the named one; the answer names this entry; and
  no entry of another tenant has this key.
\<close>

theorem custody_receipt_is_backed:
  assumes "verifyCustodyReceipt h number rg r = Some (Inr v)"
  shows "\<exists>es g e payload key sig.
    validateSignerRegistry h rg = Inr es \<and> cr_signature r = Some g \<and> filter (matchesEntry (cr_tenant_id r) g) es = [e] \<and>
    receiptSigningPayload number r = Some payload \<and> ke_public_key e = Some key \<and> cg_value g = Some sig \<and>
    ke_signature_algorithm e = jstr ''ED25519'' \<and>
    hs_policyVerify h (ed25519SpkiPrefix @ hexDecode key) (utf8Encode payload) (hexDecode sig) = Some True \<and>
    v = \<lparr>cv_tenant_id = Some (ke_tenant_id e), cv_signer_id = Some (ke_signer_id e), cv_key_id = Some (ke_key_id e),
          cv_key_set_version = Some (ke_key_set_version e), cv_public_key_hash = Some (ke_public_key_hash e)\<rparr> \<and>
    (key \<noteq> [] \<longrightarrow> publicKeyHash h (Some key) = Inr (ke_public_key_hash e) \<and>
       (\<forall>e' \<in> set es. ke_public_key e' = Some key \<longrightarrow> ke_tenant_id e' = ke_tenant_id e))"
  using assms
proof (rule verifyCustodyReceipt_Inr)
  fix es g e payload key sig
  assume registry: "validateSignerRegistry h rg = Inr es" and match: "filter (matchesEntry (cr_tenant_id r) g) es = [e]"
    and key: "ke_public_key e = Some key"
    and rest: "cr_signature r = Some g" "ke_signature_algorithm e = jstr ''ED25519''" "receiptSigningPayload number r = Some payload"
      "cg_value g = Some sig"
      "hs_policyVerify h (ed25519SpkiPrefix @ hexDecode key) (utf8Encode payload) (hexDecode sig) = Some True"
      "v = \<lparr>cv_tenant_id = Some (ke_tenant_id e), cv_signer_id = Some (ke_signer_id e), cv_key_id = Some (ke_key_id e),
           cv_key_set_version = Some (ke_key_set_version e), cv_public_key_hash = Some (ke_public_key_hash e)\<rparr>"
  have "e \<in> set (filter (matchesEntry (cr_tenant_id r) g) es)" using match by simp
  then have e: "e \<in> set es" by simp
  have hash: "publicKeyHash h (Some key) = Inr (ke_public_key_hash x)" if "key \<noteq> []" "x \<in> set es" "ke_public_key x = Some key" for x
    using registry_hash [OF registry that(2)] that by (simp add: present_def)
  have "ke_tenant_id e' = ke_tenant_id e" if "key \<noteq> []" "e' \<in> set es" "ke_public_key e' = Some key" for e'
    using registry_owners(2) [OF registry that(2) e] hash [OF that] hash [OF that(1) e key] by simp
  with registry match key rest hash [OF _ e key] show ?thesis by blast
qed

section \<open>What the active signer signs verifies\<close>

abbreviation signerOf :: "key_entry \<Rightarrow> jsstring \<times> jsstring" where
  "signerOf e \<equiv> (ke_tenant_id e, ke_signer_id e)"

definition signersOnce :: "tenant \<Rightarrow> registry_scan \<Rightarrow> bool" where
  "signersOnce tn st \<longleftrightarrow> distinct (map signerOf (rs_normalized st)) \<and>
     (\<forall>e \<in> set (rs_normalized st). Some (ke_tenant_id e) = tn_tenant_id tn \<longrightarrow> ke_signer_id e \<in> set (rs_tenant_signer_ids st))"

lemma recordSigner_once:
  assumes "normalizeSigner h tn ss sg = Inr e" "signersOnce tn st" "recordSigner allowReuse e st = Inr st'"
  shows "signersOnce tn st'"
  using normalizeSigner_tenant [OF assms(1)] assms(2,3) by (auto simp: signersOnce_def recordSigner_Inr accept_def)

lemma validateTenant_once:
  assumes "validateTenant h allowReuse tn st = Inr st'" "distinct (map signerOf (rs_normalized st))"
    "\<forall>e \<in> set (rs_normalized st). Some (ke_tenant_id e) \<noteq> tn_tenant_id tn"
  shows "signersOnce tn st'"
proof (rule validateTenant_invariant [where P = "signersOnce tn", OF _ _ assms(1)])
  show "signersOnce tn (st\<lparr>rs_tenant_signer_ids := []\<rparr>)" using assms(2,3) by (simp add: signersOnce_def)
  show "signersOnce tn (st\<lparr>rs_tenant_versions := version, rs_active_sets := active\<rparr>) = signersOnce tn st" for st version active
    by (simp add: signersOnce_def)
qed (use recordSigner_once in blast)

lemma validateTenant_new:
  assumes "validateTenant h allowReuse tn st = Inr st'"
  shows "\<forall>e \<in> set (rs_normalized st'). e \<in> set (rs_normalized st) \<or> tn_tenant_id tn = Some (ke_tenant_id e)"
    (is "?P st'")
proof (rule validateTenant_invariant [where P = ?P, OF _ _ assms])
  fix ss sg e s s'
  assume "normalizeSigner h tn ss sg = Inr e" "?P s" "recordSigner allowReuse e s = Inr s'"
  then show "?P s'" using normalizeSigner_tenant recordSigner_appends by fastforce
qed auto

lemma validateTenants_once:
  assumes "foldE (validateTenant h allowReuse) tenants st = Inr st'" "distinct (map tn_tenant_id tenants)"
    "distinct (map signerOf (rs_normalized st))" "\<forall>e \<in> set (rs_normalized st). Some (ke_tenant_id e) \<notin> tn_tenant_id ` set tenants"
  shows "distinct (map signerOf (rs_normalized st'))"
  using assms
proof (induction tenants arbitrary: st)
  case (Cons tn tenants)
  then obtain s where tenant: "validateTenant h allowReuse tn st = Inr s" and tail: "foldE (validateTenant h allowReuse) tenants s = Inr st'"
    by (auto simp: bindE_Inr_iff)
  have "signersOnce tn s" using tenant Cons.prems(3,4) by (intro validateTenant_once) auto
  moreover have "\<forall>e \<in> set (rs_normalized s). Some (ke_tenant_id e) \<notin> tn_tenant_id ` set tenants"
    using validateTenant_new [OF tenant] Cons.prems(2,4) by force
  ultimately show ?case using Cons.IH [OF tail] Cons.prems(2) by (simp add: signersOnce_def)
qed simp

lemma registry_signers_once:
  assumes "validateSignerRegistry h rg = Inr es" "rg_tenants rg = Some tenants" "distinct (map tn_tenant_id tenants)"
  shows "distinct (map signerOf es)"
  using assms(1)
proof (rule registry_scan)
  fix tenants' st
  assume "rg_tenants rg = Some tenants'" "rs_normalized st = es"
    "foldE (validateTenant h (rg_allow_signer_reuse rg)) tenants' emptyScan = Inr st"
  then show ?thesis using validateTenants_once [of h "rg_allow_signer_reuse rg" tenants' emptyScan st] assms(2,3)
    by (simp add: emptyScan_def)
qed

lemma filter_unique: "x \<in> set xs \<Longrightarrow> distinct xs \<Longrightarrow> (\<And>y. y \<in> set xs \<Longrightarrow> P y \<longleftrightarrow> y = x) \<Longrightarrow> filter P xs = [x]"
  by (induction xs) (auto simp: filter_empty_conv)

text \<open>
  A receipt built for the active signer of a tenant and signed with its key verifies, when every tenant is listed once. The external
  signer is \<open>sign\<close>, whose signatures the host verifies under the key.
\<close>

lemma custodyCanonical_strings:
  "\<exists>t. custodyCanonical number (JObj (map (\<lambda>(k, s). (k, JStr s)) ps)) = Some t"
proof -
  have "those (map (\<lambda>(k, v). map_option (\<lambda>t. (k, t)) (custodyCanonical number v)) (map (\<lambda>(k, s). (k, JStr s)) ps)) =
      Some (map (\<lambda>(k, s). (k, jsonStringifyString s)) ps)"
    by (induction ps) auto
  then show ?thesis by simp
qed

lemma normalizeSigner_names:
  "normalizeSigner h tn ss sg = Inr e \<Longrightarrow> ke_signer_id e \<noteq> [] \<and> ke_key_id e \<noteq> [] \<and> ke_key_set_version e \<noteq> []"
  by (auto simp: normalizeSigner_def bindE_Inr_iff present_def orText_def split: if_splits option.splits)

definition signedReceipt :: "custody_receipt \<Rightarrow> jsstring \<Rightarrow> custody_receipt" where
  "signedReceipt r v = r\<lparr>cr_signature := map_option (\<lambda>g. g\<lparr>cg_value := Some v\<rparr>) (cr_signature r)\<rparr>"

theorem custody_receipt_roundtrip:
  assumes active: "activeSignerForTenant h rg tid = Inr e" "ke_signature_algorithm e = jstr ''ED25519''"
      "ke_public_key e = Some key" "ke_public_key_hash e \<noteq> []"
    and once: "rg_tenants rg = Some tenants" "distinct (map tn_tenant_id tenants)"
    and sign: "\<And>m. hs_policyVerify h (ed25519SpkiPrefix @ hexDecode key) m (sign m) = Some True"
    and r: "r = buildUnsignedCustodyReceipt tid rh dh ph decision reason e" "receiptSigningPayload number r = Some payload"
  shows "verifyCustodyReceipt h number rg (signedReceipt r (hexEncode (sign (utf8Encode payload)))) =
    Some (Inr \<lparr>cv_tenant_id = Some tid, cv_signer_id = Some (ke_signer_id e), cv_key_id = Some (ke_key_id e),
      cv_key_set_version = Some (ke_key_set_version e), cv_public_key_hash = Some (ke_public_key_hash e)\<rparr>)"
proof -
  let ?r = "signedReceipt r (hexEncode (sign (utf8Encode payload)))"
  from active(1) obtain es where es: "validateSignerRegistry h rg = Inr es"
    by (auto simp: activeSignerForTenant_def bindE_Inr_iff)
  with active(1) have one: "filter (\<lambda>e. ke_tenant_id e = tid \<and> ke_key_set_status e = jstr ''active'') es = [e]"
    by (auto simp: activeSignerForTenant_def split: list.splits)
  then have "e \<in> set (filter (\<lambda>e. ke_tenant_id e = tid \<and> ke_key_set_status e = jstr ''active'') es)" by simp
  then have e: "e \<in> set es" "ke_tenant_id e = tid" by simp_all
  obtain tn ss sg where "normalizeSigner h tn ss sg = Inr e" using registry_entry [OF es e(1)] by blast
  then have names: "tid \<noteq> []" "ke_signer_id e \<noteq> []" "ke_key_id e \<noteq> []" "ke_key_set_version e \<noteq> []"
    using normalizeSigner_names normalizeSigner_tenant e(2) by blast+
  define g where "g = \<lparr>cg_algorithm = Some (ke_signature_algorithm e), cg_signer_id = Some (ke_signer_id e),
    cg_key_id = Some (ke_key_id e), cg_key_set_version = Some (ke_key_set_version e),
    cg_public_key_hash = Some (ke_public_key_hash e), cg_value = Some (hexEncode (sign (utf8Encode payload)))\<rparr>"
  have sig: "cr_signature ?r = Some g" "cr_tenant_id ?r = Some tid" "receiptSigningPayload number ?r = Some payload"
    using r(2) by (simp_all add: signedReceipt_def r(1) buildUnsignedCustodyReceipt_def g_def receiptSigningPayload_def del: custodyCanonical.simps)
  note signers = registry_signers_once [OF es once]
  have "matchesEntry (Some tid) g y \<longleftrightarrow> y = e" if "y \<in> set es" for y
  proof
    assume "matchesEntry (Some tid) g y"
    then have "signerOf y = signerOf e" by (simp add: matchesEntry_def g_def e(2))
    with signers that e(1) show "y = e" by (auto simp: distinct_map dest: inj_onD)
  qed (simp add: matchesEntry_def g_def e(2))
  moreover have "distinct es" using signers by (simp add: distinct_map)
  ultimately have "filter (matchesEntry (Some tid) g) es = [e]" by (intro filter_unique [OF e(1)])
  then have "resolveReceiptSigner h rg ?r = Inr e"
    using names active(2,4) by (simp add: resolveReceiptSigner_def es sig) (simp add: g_def present_def)
  then show ?thesis
    using active(2,3) sign
    by (simp add: verifyCustodyReceipt_def sig) (simp add: g_def hexDecode_hexEncode sig)
qed

end
