(* ===== verification/Spec2Isabelle.thy ===== *)
theory Spec2Isabelle
  imports VerifierProps LegacyProps WorkerPoolProps AuthProps SocketRegistry DecideSafety RoutesProps CustodyService ReleaseProps CustodyKeysProps
begin

text \<open>
  A verification library for the execution-control core under \<open>src\<close>: a pipeline that decides whether a request to run a costly
  action is allowed, a signed receipt of every decision, and a local HTTP sidecar that serves the decisions.

  \<^bold>\<open>The program and its parts.\<close> A request text goes through four layers. The preflight parses and validates it and
  hashes its canonical form; the intent layer (orbit) looks for forbidden content and compares the approved tool calls with
  the requested ones; the release layer (arm) projects the cost, consumes the execution id in a store and reserves the cost
  on a budget token; the runtime layer (ram0na) compares the observed resources and builds the decision. The result is a
  receipt, signed and appended to a log, which can be replayed and verified later. An older core with the same layers
  (\<open>src/mnde-core\<close>) throws where the strict one refuses. The sidecar runs the pipeline in a pool of worker threads, bounds the
  admitted requests, queues the receipts for the log and asks for signed assertions on its sensitive paths.

  \<^bold>\<open>Theories and the code they model.\<close>

  \<^item> \<open>Prelude\<close>: JavaScript strings (lists of 16-bit units), integer-valued doubles with their rounding, errors as values.
  \<^item> \<open>Json\<close>, \<open>JsonFacts\<close>, \<open>JsonRoundtrip\<close> (\<open>src/shared/json.ts\<close>): the strict parser and the canonical serializer; the parser
    always answers, its values are well-formed, and the canonical text parses back to the value.
  \<^item> \<open>Bytes\<close> (\<open>src/shared/hash.ts\<close>), \<open>Contracts\<close> (\<open>src/shared/contracts.ts\<close>), \<open>PolicyTrust\<close> (\<open>src/shared/policy-trust.ts\<close>),
    \<open>AuthState\<close> (\<open>src/shared/state.ts\<close>): UTF-8 and digests, the types of the pipeline, policy keys and signatures,
    and the two stores with their contracts \<open>authority_store\<close> and \<open>budget_store\<close>.
  \<^item> \<open>StrictPreflight\<close>, \<open>PreflightFacts\<close>, \<open>PreflightProps\<close> (\<open>src/preflight/engine.ts\<close>); \<open>JsRegex\<close>, \<open>StrictOrbit\<close>, \<open>OrbitFacts\<close>,
    \<open>OrbitProps\<close> (\<open>src/orbit/engine.ts\<close>); \<open>StrictArm\<close>, \<open>ArmProps\<close> (\<open>src/arm/engine.ts\<close>); \<open>StrictRamona\<close>, \<open>RamonaProps\<close>
    (\<open>src/ram0na/engine.ts\<close>, \<open>src/shared/receipt-signing.ts\<close>): the four layers.
  \<^item> \<open>Pipeline\<close>, \<open>PipelineFacts\<close>, \<open>PipelineProps\<close>, \<open>ReplayStore\<close> (\<open>src/audit/node_runtime.ts\<close>, \<open>src/audit/test_helpers.ts\<close>):
    their composition over the runtime state, interleaved requests as the step relation \<open>race_step\<close>, and the receipt store.
  \<^item> \<open>ReceiptVerifier\<close>, \<open>VerifierProps\<close> (\<open>src/tools/verify-receipt.mjs\<close>): the offline verifier, against the pipeline.
  \<^item> \<open>LegacyPreflight\<close>, \<open>LegacyCore\<close>, \<open>LegacyProps\<close> (\<open>src/preflight/index.ts\<close>, \<open>src/orbit/index.ts\<close>, \<open>src/policy/index.ts\<close>,
    \<open>src/arm/index.ts\<close>, \<open>src/ram0na/index.ts\<close>, \<open>src/mnde-core/index.ts\<close>): the first-generation core.
  \<^item> \<open>Admission\<close> (\<open>src/sidecar/http_admission.mjs\<close>), \<open>ReceiptQueue\<close>, \<open>ReceiptQueueProps\<close>
    (\<open>src/sidecar/receipt_persistence_queue.mjs\<close>), \<open>WorkerPool\<close>, \<open>WorkerPoolProps\<close>
    (\<open>src/sidecar/deterministic_worker_pool.mjs\<close>), \<open>AuthAssertion\<close>, \<open>AuthProps\<close> (\<open>src/sidecar/auth_authority.mjs\<close>),
    \<open>Watchdog\<close> (\<open>src/sidecar/runtime_watchdog.mjs\<close>), \<open>SocketRegistry\<close> (\<open>src/sidecar/socket_registry.mjs\<close>): the parts of the sidecar.
  \<^item> \<open>SidecarRequest\<close> (\<open>src/sidecar/runtime_request.mjs\<close>, \<open>src/sidecar/refusal_receipt.mjs\<close>,
    \<open>src/sidecar/deterministic_worker.mjs\<close>): what is sent to a worker, what it answers, and the receipts of refusals.
  \<^item> \<open>DecideHandler\<close>, \<open>DecideProps\<close>, \<open>DecideSlots\<close>, \<open>DecideSafety\<close> (\<open>/decide\<close> in \<open>src/mnde-local-sidecar.mjs\<close>): the decision
    handler over admission, watchdog, pool and queue together, as a step relation; its safety and its accounting of slots.
  \<^item> \<open>ReceiptHistory\<close>, \<open>ReceiptHistoryProps\<close> (\<open>src/sidecar/production_api.mjs\<close>, \<open>src/sidecar/replay_engine.mjs\<close>): the log as a list of
    entries, verification, contract and replay of entries. \<open>SidecarRoutes\<close>, \<open>RoutesProps\<close> (\<open>src/mnde-local-sidecar.mjs\<close>): the other routes, the
    activation of policies and the transport.
  \<^item> \<open>Stringify\<close>: \<open>JSON.stringify\<close> on plain objects and the lines of a log. \<open>CustodyConfig\<close>, \<open>CustodyRuntime\<close>, \<open>CustodyProps\<close>,
    \<open>CustodyStart\<close>, \<open>CustodyService\<close> (\<open>src/custody/runtime.ts\<close>): configuration, policy, startup, preflight with its lock, health, the audit
    receipts and their replay. \<open>CustodyStore\<close> (\<open>src/shared/operations.js\<close>): log rotation and the receipt store over an explicit disk.
  \<^item> \<open>ReleaseIntegrity\<close>, \<open>ReleaseProps\<close> (\<open>src/release/integrity.ts\<close>, \<open>src/shared/forbidden_content.js\<close>): the check of an installed
    package against its manifest.
  \<^item> \<open>CustodyKeys\<close>, \<open>CustodyKeysProps\<close> (\<open>src/shared/custody_keys.js\<close>): the registry of the signing keys of the tenants and the
    verification of custody receipts.

  \<^bold>\<open>How state and operations correspond.\<close> A function of the code is the definition of the same name. State that the code
  mutates is an argument and part of the result; an early return is a branch. A refusal the code returns is a value; an
  exception that leaves the modelled function is \<open>None\<close> (or a constructor of its own where the code tells exceptions
  apart). What happens between two turns of the event loop is one step of a relation (\<open>queue_step\<close>, \<open>pool_step\<close>),
  so that the theorems over reachable states cover every order of timers, replies and failures.

  \<^bold>\<open>Parameters.\<close> SHA-256, HMAC, Ed25519, the Unicode tables, the key files and the environment are the fields of \<open>host\<close>;
  the decoding of assertions those of \<open>auth_host\<close>. The custody runtime takes \<open>custody_host\<close> (parser, number printing, faults of
  file calls), a disk, and what the directory of the program shows on a disk (\<open>package_view\<close>) as arguments. \<open>JSON.parse\<close> is the
  parameter \<open>parse\<close>, and where a theorem needs that it reads canonical text back this is a hypothesis, with a witness that
  instantiates it by the parser of \<open>Json\<close>. No theorem assumes that a hash is injective: the ones that need it conclude that two texts are equal or collide.

  \<^bold>\<open>Fuel.\<close> The parser carries one unit of fuel per code unit of the source and one more; it is never used up
  (\<open>parseStrictJson_never_starves\<close>). Every other recursion is structural or has a measure.

  \<^bold>\<open>What the theorems show.\<close> For the pipeline: it answers every text, allows only when each layer's exact condition
  holds, and always then, also when the policy asks for a manual approval that is missing (\<open>manual_approval_not_enforced\<close>);
  it allows an execution id once over any interleaving, never overspends a token and keeps its stores well-formed; the costs are exact in
  spite of doubles. For receipts: every receipt verifies and replays to itself, the offline verifier
  accepts what is issued and what it accepts is what the pipeline decides; and the limits of these checks (a key that is not
  pinned, refused duplicates, budget tokens). For the older core: its decision, its errors and the costs on which it
  throws. For the sidecar: slots are counted exactly, the queue and the pool are bounded, durable receipts are in the log,
  every task is answered once, an answer that allows is backed by a run of the pipeline and, in strict mode, by the log, the
  active policy changes only by a granted request, and an assertion is used once and only by who is entitled. For custody: a
  start is backed by a validated policy, an intact package and a receipt that verifies; a preflight admits the next start when its
  lock lies outside the package, and refuses it otherwise; the bounds of a configuration; and the
  defects of its signature, its health latch and its policy hash. For a release: a package that passes the check holds exactly what its
  manifest lists. For the key registry: keys are separated by tenant, a verified receipt was signed with the one key of its tenant, and what
  an active signer signs verifies.

  \<^bold>\<open>Not modelled.\<close> Exhaustion of the stack on deeply nested texts, timings and performance counters, file and network
  input and output beyond what a function reads or writes as a text, the texts interpolated into some diagnostics. A
  stored receipt whose \<open>canonical_request\<close> is no string is taken to make the replay throw. The command-line
  wrapper for coding agents (\<open>src/codex-mnde\<close>), whose rules are regular expressions compiled from a policy at run time, and the
  custody demonstration server are separate programs and left out. The user interface, the benchmarks, attack campaigns,
  release and build scripts drive the modelled code and are left out, as is the code in Rust.
\<close>

end
